(* ===== verification/Prelude.thy ===== *)
theory Prelude
  imports Complex_Main "HOL-Library.AList"
begin

text \<open>
  What every component of the development shares: the exceptions the Python code
  raises, check lists (a validator is a list of checks and the first failing one
  is the exception that is raised), the string operations of Python's \<open>str\<close> and
  \<open>bytes\<close> that the code uses, and a state-and-exception monad with a small Hoare
  logic for the code that performs effects.

  A Python \<open>str\<close> is represented by its UTF-8 encoding, a Python \<open>bytes\<close> by itself:
  both are lists of \<open>char\<close>, a \<open>char\<close> being a byte. Encoding is then the identity,
  decoding is a validity check, the order of the encoded bytes is the order of the
  code points, and \<open>len\<close> counts the bytes that are not continuation bytes. A lone
  surrogate, which has no UTF-8 encoding, has no representation.
\<close>

type_synonym str = "char list"
type_synonym bytes = "char list"

section \<open>Exceptions\<close>

text \<open>One constructor per exception class; the problem code is the exception's
  \<open>problem\<close> attribute. The human-readable messages are not modelled.\<close>

datatype exn =
    AuthorizationError str
  | CandidateError str
  | ReceiptError str
  | MachineError str
  | CanonicalizationError str
  | StoreError
  | DigestError
  | CeremonyError
  | DeliveryTransportError
  | MissionError str
  | MissionStoreError str
  | Block str
  | Retry
  | TypeErr
  | KeyErr
  | AttributeErr
  | ValueErr
  | OverflowErr
  | OSErr

named_theorems checks_simps "unfolding of check lists"
named_theorems problem_simps "problem codes of the modules"
named_theorems hoare_intro "rules of the Hoare logic"
named_theorems monad_simps "unfolding of the monad"

section \<open>Check lists\<close>

type_synonym check = "exn option"

fun checks :: "check list \<Rightarrow> check" where
  "checks [] = None"
| "checks (None # cs) = checks cs"
| "checks (Some e # cs) = Some e"

definition require :: "bool \<Rightarrow> exn \<Rightarrow> check" where
  "require ok e = (if ok then None else Some e)"

lemma checks_None_iff [checks_simps]: "checks cs = None \<longleftrightarrow> (\<forall>c \<in> set cs. c = None)"
  by (induction cs rule: checks.induct) auto

lemma checks_Some_in: "checks cs = Some e \<Longrightarrow> Some e \<in> set cs"
  by (induction cs rule: checks.induct) auto

lemma checks_append: "checks (xs @ ys) = (case checks xs of None \<Rightarrow> checks ys | Some e \<Rightarrow> Some e)"
  by (induction xs rule: checks.induct) auto

lemma require_None_iff [simp, checks_simps]: "require ok e = None \<longleftrightarrow> ok"
  by (simp add: require_def)

lemma require_Some_iff [simp, checks_simps]: "require ok e = Some e' \<longleftrightarrow> \<not> ok \<and> e' = e"
  by (auto simp: require_def)

text \<open>Results of fallible pure code: \<open>Inl\<close> the exception raised, \<open>Inr\<close> the value.\<close>

definition sbind :: "exn + 'a \<Rightarrow> ('a \<Rightarrow> exn + 'b) \<Rightarrow> exn + 'b" where
  "sbind m k = (case m of Inl e \<Rightarrow> Inl e | Inr a \<Rightarrow> k a)"

lemma sbind_simps [simp]: "sbind (Inl e) k = Inl e" "sbind (Inr a) k = k a"
  by (simp_all add: sbind_def)

lemma sbind_Inr_iff: "sbind m k = Inr b \<longleftrightarrow> (\<exists>a. m = Inr a \<and> k a = Inr b)"
  by (cases m) auto

lemma sbind_InrE:
  assumes "sbind m k = Inr b"
  obtains a where "m = Inr a" "k a = Inr b"
  using assms by (cases m) auto

definition guard_check :: "check \<Rightarrow> exn + 'b \<Rightarrow> exn + 'b" where
  "guard_check c r = (case c of None \<Rightarrow> r | Some e \<Rightarrow> Inl e)"

lemma guard_check_simps [simp]:
  "guard_check None r = r" "guard_check (Some e) r = Inl e"
  by (simp_all add: guard_check_def)

lemma guard_check_Inr_iff: "guard_check c r = Inr b \<longleftrightarrow> c = None \<and> r = Inr b"
  by (cases c) auto

fun map_result :: "('a \<Rightarrow> exn + 'b) \<Rightarrow> 'a list \<Rightarrow> exn + 'b list" where
  "map_result f [] = Inr []"
| "map_result f (x # xs) = sbind (f x) (\<lambda>y. sbind (map_result f xs) (\<lambda>ys. Inr (y # ys)))"

lemma map_result_Inr_iff:
  "map_result f xs = Inr ys \<longleftrightarrow> list_all2 (\<lambda>x y. f x = Inr y) xs ys"
  by (induction xs arbitrary: ys)
     (auto simp: sbind_Inr_iff list_all2_Cons1)

lemma map_result_length: "map_result f xs = Inr ys \<Longrightarrow> length ys = length xs"
  by (auto simp: map_result_Inr_iff dest: list_all2_lengthD)

lemma map_result_set:
  "map_result f xs = Inr ys \<Longrightarrow> y \<in> set ys \<Longrightarrow> \<exists>x \<in> set xs. f x = Inr y"
  by (auto simp: map_result_Inr_iff in_set_conv_nth list_all2_conv_all_nth) force

lemma in_map_filter: "y \<in> set (List.map_filter f xs) \<longleftrightarrow> (\<exists>x \<in> set xs. f x = Some y)"
  by (induction xs) (auto split: option.splits)

section \<open>Bytes and strings\<close>

abbreviation ord_of :: "char \<Rightarrow> nat" where
  "ord_of c \<equiv> of_char c"

definition is_cont :: "char \<Rightarrow> bool" where
  "is_cont c \<longleftrightarrow> 128 \<le> ord_of c \<and> ord_of c < 192"

definition py_len :: "str \<Rightarrow> nat" where
  "py_len s = length (filter (\<lambda>c. \<not> is_cont c) s)"

fun py_take :: "nat \<Rightarrow> str \<Rightarrow> str" where
  "py_take n [] = []"
| "py_take n (c # cs) =
     (if is_cont c then c # py_take n cs
      else (case n of 0 \<Rightarrow> [] | Suc m \<Rightarrow> c # py_take m cs))"

lemma py_len_le: "py_len s \<le> length s"
  by (simp add: py_len_def)

lemma py_len_simps [simp]:
  "py_len [] = 0"
  "py_len (c # cs) = (if is_cont c then py_len cs else Suc (py_len cs))"
  by (simp_all add: py_len_def)

lemma py_len_append [simp]: "py_len (xs @ ys) = py_len xs + py_len ys"
  by (simp add: py_len_def)

lemma py_len_take: "py_len (py_take n s) \<le> n"
  by (induction n s rule: py_take.induct) (auto split: nat.splits)

lemma py_take_short: "py_len s \<le> n \<Longrightarrow> py_take n s = s"
  by (induction n s rule: py_take.induct) (auto split: nat.splits if_splits)

fun starts_with :: "'a list \<Rightarrow> 'a list \<Rightarrow> bool" where
  "starts_with s [] = True"
| "starts_with [] (p # ps) = False"
| "starts_with (c # cs) (p # ps) = (c = p \<and> starts_with cs ps)"

definition ends_with :: "'a list \<Rightarrow> 'a list \<Rightarrow> bool" where
  "ends_with s p = starts_with (rev s) (rev p)"

lemma starts_with_iff: "starts_with s p \<longleftrightarrow> (\<exists>t. s = p @ t)"
  by (induction s p rule: starts_with.induct) auto

lemma starts_with_append [simp]: "starts_with (p @ t) p"
  by (simp add: starts_with_iff)

lemma ends_with_iff: "ends_with s p \<longleftrightarrow> (\<exists>t. s = t @ p)"
  unfolding ends_with_def starts_with_iff
  by (metis rev_append rev_rev_ident)

fun contains_sub :: "'a list \<Rightarrow> 'a list \<Rightarrow> bool" where
  "contains_sub [] p = (p = [])"
| "contains_sub (c # cs) p = (starts_with (c # cs) p \<or> contains_sub cs p)"

text \<open>\<open>s.count(p)\<close> counts occurrences that do not overlap; \<open>p\<close> is not empty.\<close>

function count_sub :: "'a list \<Rightarrow> 'a list \<Rightarrow> nat" where
  "count_sub s p =
     (if s = [] \<or> p = [] then 0
      else if starts_with s p then Suc (count_sub (drop (length p) s) p)
      else count_sub (tl s) p)"
  by pat_completeness auto
termination
  by (relation "measure (\<lambda>(s, p). length s)") auto

declare count_sub.simps [simp del]

text \<open>\<open>s.split(sep)\<close> for a one-character separator, and its inverse \<open>sep.join\<close>.\<close>

fun split_on :: "'a \<Rightarrow> 'a list \<Rightarrow> 'a list list" where
  "split_on sep [] = [[]]"
| "split_on sep (c # cs) =
     (if c = sep then [] # split_on sep cs
      else (case split_on sep cs of [] \<Rightarrow> [[c]] | w # ws \<Rightarrow> (c # w) # ws))"

fun join_with :: "'a list \<Rightarrow> 'a list list \<Rightarrow> 'a list" where
  "join_with sep [] = []"
| "join_with sep [w] = w"
| "join_with sep (w # v # ws) = w @ sep @ join_with sep (v # ws)"

lemma split_on_not_Nil [simp]: "split_on sep s \<noteq> []"
  by (induction s) (auto split: list.splits)

lemma join_split [simp]: "join_with [sep] (split_on sep s) = s"
proof (induction s)
  case Nil
  show ?case by simp
next
  case (Cons c cs)
  obtain w ws where ws: "split_on sep cs = w # ws"
    by (cases "split_on sep cs") auto
  show ?case
    using Cons ws by (cases ws) auto
qed

lemma split_on_no_sep: "w \<in> set (split_on sep s) \<Longrightarrow> sep \<notin> set w"
proof (induction s arbitrary: w)
  case Nil
  then show ?case by simp
next
  case (Cons c cs)
  then show ?case
    by (cases "split_on sep cs") (auto split: if_splits)
qed

lemma split_on_id: "sep \<notin> set s \<Longrightarrow> split_on sep s = [s]"
  by (induction s) auto

lemma split_on_append: "sep \<notin> set w \<Longrightarrow> split_on sep (w @ sep # s) = w # split_on sep s"
  by (induction w) auto

lemma split_join:
  "ws \<noteq> [] \<Longrightarrow> (\<And>w. w \<in> set ws \<Longrightarrow> sep \<notin> set w) \<Longrightarrow> split_on sep (join_with [sep] ws) = ws"
  by (induction "[sep]" ws rule: join_with.induct) (auto simp: split_on_id split_on_append)

text \<open>\<open>s.partition(sep)\<close>: the part before the first separator, whether there was
  one, and the rest.\<close>

fun partition_on :: "'a \<Rightarrow> 'a list \<Rightarrow> 'a list \<times> bool \<times> 'a list" where
  "partition_on sep [] = ([], False, [])"
| "partition_on sep (c # cs) =
     (if c = sep then ([], True, cs)
      else (case partition_on sep cs of (a, b, r) \<Rightarrow> (c # a, b, r)))"

lemma partition_on_spec:
  "partition_on sep s = (a, b, r) \<Longrightarrow>
     sep \<notin> set a \<and> (if b then s = a @ sep # r else s = a \<and> r = [])"
  by (induction s arbitrary: a b r) (auto split: if_splits prod.splits)

lemma partition_on_append: "sep \<notin> set a \<Longrightarrow> partition_on sep (a @ sep # r) = (a, True, r)"
  by (induction a) auto

text \<open>ASCII lower case: what \<open>lower\<close> and \<open>casefold\<close> do on the strings the code
  applies them to, whose alphabets are ASCII; every other byte is left alone.\<close>

definition lower_char :: "char \<Rightarrow> char" where
  "lower_char c = (if 65 \<le> ord_of c \<and> ord_of c \<le> 90 then char_of (ord_of c + 32) else c)"

definition lower :: "str \<Rightarrow> str" where
  "lower s = map lower_char s"

lemma ord_lower_char:
  "ord_of (lower_char c) = (if 65 \<le> ord_of c \<and> ord_of c \<le> 90 then ord_of c + 32 else ord_of c)"
  by (simp add: lower_char_def of_char_of)

lemma lower_char_idem [simp]: "lower_char (lower_char c) = lower_char c"
  by (auto simp: lower_char_def of_char_of)

lemma lower_idem [simp]: "lower (lower s) = lower s"
  by (simp add: lower_def)

text \<open>Unicode white space as \<open>str.isspace\<close> and \<open>str.strip\<close> know it: the ASCII
  characters, and the encodings of U+0085, U+00A0, U+1680, U+2000 to U+200A,
  U+2028, U+2029, U+202F, U+205F and U+3000.\<close>

definition ascii_space :: "char \<Rightarrow> bool" where
  "ascii_space c \<longleftrightarrow>
     (9 \<le> ord_of c \<and> ord_of c \<le> 13) \<or> (28 \<le> ord_of c \<and> ord_of c \<le> 32)"

definition wide_spaces :: "str list" where
  "wide_spaces =
     [[CHR 0xC2, CHR 0x85], [CHR 0xC2, CHR 0xA0], [CHR 0xE1, CHR 0x9A, CHR 0x80],
      [CHR 0xE2, CHR 0x80, CHR 0x80], [CHR 0xE2, CHR 0x80, CHR 0x81],
      [CHR 0xE2, CHR 0x80, CHR 0x82], [CHR 0xE2, CHR 0x80, CHR 0x83],
      [CHR 0xE2, CHR 0x80, CHR 0x84], [CHR 0xE2, CHR 0x80, CHR 0x85],
      [CHR 0xE2, CHR 0x80, CHR 0x86], [CHR 0xE2, CHR 0x80, CHR 0x87],
      [CHR 0xE2, CHR 0x80, CHR 0x88], [CHR 0xE2, CHR 0x80, CHR 0x89],
      [CHR 0xE2, CHR 0x80, CHR 0x8A], [CHR 0xE2, CHR 0x80, CHR 0xA8],
      [CHR 0xE2, CHR 0x80, CHR 0xA9], [CHR 0xE2, CHR 0x80, CHR 0xAF],
      [CHR 0xE2, CHR 0x81, CHR 0x9F], [CHR 0xE3, CHR 0x80, CHR 0x80]]"

definition has_space :: "str \<Rightarrow> bool" where
  "has_space s \<longleftrightarrow>
     list_ex ascii_space s \<or> list_ex (contains_sub s) wide_spaces"

function lstrip_on :: "str list \<Rightarrow> str \<Rightarrow> str" where
  "lstrip_on ws s =
     (case s of [] \<Rightarrow> []
      | c # cs \<Rightarrow>
          if ascii_space c then lstrip_on ws cs
          else (case filter (\<lambda>w. w \<noteq> [] \<and> starts_with s w) ws of
                  [] \<Rightarrow> s
                | w # _ \<Rightarrow> lstrip_on ws (drop (length w) s)))"
  by pat_completeness auto
termination
proof (relation "measure (\<lambda>(ws, s). length s)", goal_cases)
  case (3 ws s c cs w vs)
  then have "w \<in> set (filter (\<lambda>w. w \<noteq> [] \<and> starts_with s w) ws)"
    by (metis list.set_intros(1))
  then have "w \<noteq> []" by simp
  with 3 show ?case by simp
qed auto

declare lstrip_on.simps [simp del]

definition strip :: "str \<Rightarrow> str" where
  "strip s = rev (lstrip_on (map rev wide_spaces) (rev (lstrip_on wide_spaces s)))"

definition rstrip :: "str \<Rightarrow> str" where
  "rstrip s = rev (lstrip_on (map rev wide_spaces) (rev s))"

text \<open>Lowercase hexadecimal digits and canonical decimals.\<close>

definition hex_digits :: "str" where
  "hex_digits = ''0123456789abcdef''"

definition is_hex :: "str \<Rightarrow> bool" where
  "is_hex s \<longleftrightarrow> list_all (\<lambda>c. c \<in> set hex_digits) s"

definition is_digit :: "char \<Rightarrow> bool" where
  "is_digit c \<longleftrightarrow> 48 \<le> ord_of c \<and> ord_of c \<le> 57"

fun nat_of_digits :: "nat \<Rightarrow> str \<Rightarrow> nat" where
  "nat_of_digits acc [] = acc"
| "nat_of_digits acc (c # cs) = nat_of_digits (acc * 10 + (ord_of c - 48)) cs"

fun digits_of_nat :: "nat \<Rightarrow> str" where
  "digits_of_nat n =
     (if n < 10 then [char_of (n + 48)]
      else digits_of_nat (n div 10) @ [char_of (n mod 10 + 48)])"

declare digits_of_nat.simps [simp del]

definition show_int :: "int \<Rightarrow> str" where
  "show_int i = (if i < 0 then CHR ''-'' # digits_of_nat (nat (- i)) else digits_of_nat (nat i))"

lemma nat_of_digits_append: "nat_of_digits a (xs @ ys) = nat_of_digits (nat_of_digits a xs) ys"
  by (induction a xs rule: nat_of_digits.induct) auto

lemma ord_digit: "n < 10 \<Longrightarrow> ord_of (char_of (n + 48) :: char) = n + 48"
  by (simp add: of_char_of)

lemma nat_of_digits_of_nat [simp]: "nat_of_digits 0 (digits_of_nat n) = n"
proof (induction n rule: digits_of_nat.induct)
  case (1 n)
  show ?case
  proof (cases "n < 10")
    case True
    then show ?thesis
      by (simp add: digits_of_nat.simps [of n] ord_digit)
  next
    case False
    with 1 have "nat_of_digits 0 (digits_of_nat (n div 10)) = n div 10" by simp
    moreover have "ord_of (char_of (n mod 10 + 48) :: char) = n mod 10 + 48"
      by (rule ord_digit) simp
    ultimately show ?thesis
      using False by (subst digits_of_nat.simps) (simp add: nat_of_digits_append del: of_char_of)
  qed
qed

lemma digits_of_nat_digits: "c \<in> set (digits_of_nat n) \<Longrightarrow> is_digit c"
proof (induction n arbitrary: c rule: digits_of_nat.induct)
  case (1 n)
  show ?case
  proof (cases "n < 10")
    case True
    with 1(2) show ?thesis
      by (auto simp: digits_of_nat.simps [of n] is_digit_def ord_digit simp del: of_char_of)
  next
    case False
    moreover have "is_digit (char_of (n mod 10 + 48))"
      unfolding is_digit_def by (subst ord_digit; simp)+
    ultimately show ?thesis
      using 1 by (auto simp: digits_of_nat.simps [of n])
  qed
qed

lemma digits_of_nat_not_Nil [simp]: "digits_of_nat n \<noteq> []"
  by (subst digits_of_nat.simps) simp

lemma digits_of_nat_inj [simp]: "digits_of_nat m = digits_of_nat n \<longleftrightarrow> m = n"
  by (metis nat_of_digits_of_nat)

text \<open>Reading a string as an optional first match, used for dictionaries.\<close>

lemma map_of_update_same [simp]: "map_of (AList.update k v al) k = Some v"
  by (simp add: update_conv')

lemma map_of_update_other [simp]: "k' \<noteq> k \<Longrightarrow> map_of (AList.update k v al) k' = map_of al k'"
  by (simp add: update_conv')

end
