(* ===== verification/Json.thy ===== *)
theory Json
  imports Prelude "HOL-Library.Char_ord" "HOL-Library.List_Lexorder"
begin

text \<open>
  The plain data that the stores hold and the validators judge: JSON values as the
  standard library reads them. Numbers are Python's: unbounded integers, and floats
  with their infinities and NaN, a finite float being the rational number it denotes.
  An object is an association list with distinct keys, in dictionary order.
\<close>

section \<open>Numbers\<close>

datatype pyfloat = Finite rat | PosInf | NegInf | NaN

datatype pynum = PInt int | PFloat pyfloat

fun fl_less :: "pyfloat \<Rightarrow> pyfloat \<Rightarrow> bool" where
  "fl_less (Finite a) (Finite b) = (a < b)"
| "fl_less (Finite a) PosInf = True"
| "fl_less NegInf (Finite b) = True"
| "fl_less NegInf PosInf = True"
| "fl_less _ _ = False"

fun fl_eq :: "pyfloat \<Rightarrow> pyfloat \<Rightarrow> bool" where
  "fl_eq (Finite a) (Finite b) = (a = b)"
| "fl_eq PosInf PosInf = True"
| "fl_eq NegInf NegInf = True"
| "fl_eq _ _ = False"

text \<open>
  Arithmetic on floats rounds to the nearest double, ties to the even significand:
  \<open>double_exponent\<close> is the exponent of the unit in the last place, at least that of the
  subnormal numbers, and a result of \<open>2 ^ 1024\<close> or more is an infinity. The two zeros are one.
\<close>

definition power2 :: "int \<Rightarrow> rat" where
  "power2 k = (if 0 \<le> k then 2 ^ nat k else 1 / 2 ^ nat (- k))"

text \<open>\<open>n.bit_length()\<close> of a non-negative integer.\<close>

function bit_length :: "int \<Rightarrow> int" where
  "bit_length n = (if n \<le> 0 then 0 else 1 + bit_length (n div 2))"
  by pat_completeness auto
termination by (relation "measure nat") auto

declare bit_length.simps [simp del]

definition double_exponent :: "rat \<Rightarrow> int" where
  "double_exponent x =
     (let (a, b) = quotient_of \<bar>x\<bar>; e = bit_length a - bit_length b;
          magnitude = (if power2 e \<le> \<bar>x\<bar> then e else e - 1)
      in max (magnitude - 52) (- 1074))"

definition round_even :: "rat \<Rightarrow> int" where
  "round_even x =
     (let f = \<lfloor>x\<rfloor>; r = x - of_int f in
      if r < 1 / 2 then f else if 1 / 2 < r then f + 1 else if even f then f else f + 1)"

definition round_double :: "rat \<Rightarrow> pyfloat" where
  "round_double x =
     (if x = 0 then Finite 0
      else let u = power2 (double_exponent x); y = of_int (round_even (x / u)) * u in
        if 2 ^ 1024 \<le> y then PosInf else if y \<le> - (2 ^ 1024) then NegInf else Finite y)"

fun fl_add :: "pyfloat \<Rightarrow> pyfloat \<Rightarrow> pyfloat" where
  "fl_add (Finite a) (Finite b) = round_double (a + b)"
| "fl_add NaN _ = NaN"
| "fl_add _ NaN = NaN"
| "fl_add PosInf NegInf = NaN"
| "fl_add NegInf PosInf = NaN"
| "fl_add PosInf _ = PosInf"
| "fl_add _ PosInf = PosInf"
| "fl_add NegInf _ = NegInf"
| "fl_add _ NegInf = NegInf"

fun fl_neg :: "pyfloat \<Rightarrow> pyfloat" where
  "fl_neg (Finite a) = Finite (- a)"
| "fl_neg PosInf = NegInf"
| "fl_neg NegInf = PosInf"
| "fl_neg NaN = NaN"

fun num_val :: "pynum \<Rightarrow> pyfloat" where
  "num_val (PInt i) = Finite (of_int i)"
| "num_val (PFloat f) = f"

text \<open>Integers are added exactly; with a float, an integer becomes a float first, and one that
  is too large raises.\<close>

fun to_float :: "pynum \<Rightarrow> exn + pyfloat" where
  "to_float (PInt i) =
     (case round_double (of_int i) of Finite r \<Rightarrow> Inr (Finite r) | _ \<Rightarrow> Inl OverflowErr)"
| "to_float (PFloat f) = Inr f"

definition float_op :: "(pyfloat \<Rightarrow> pyfloat \<Rightarrow> pyfloat) \<Rightarrow> pynum \<Rightarrow> pynum \<Rightarrow> exn + pynum" where
  "float_op f a b = sbind (to_float a) (\<lambda>x. sbind (to_float b) (\<lambda>y. Inr (PFloat (f x y))))"

fun num_add :: "pynum \<Rightarrow> pynum \<Rightarrow> exn + pynum" where
  "num_add (PInt a) (PInt b) = Inr (PInt (a + b))"
| "num_add a b = float_op fl_add a b"

fun num_sub :: "pynum \<Rightarrow> pynum \<Rightarrow> exn + pynum" where
  "num_sub (PInt a) (PInt b) = Inr (PInt (a - b))"
| "num_sub a b = float_op (\<lambda>x y. fl_add x (fl_neg y)) a b"

definition num_less :: "pynum \<Rightarrow> pynum \<Rightarrow> bool" where
  "num_less a b = fl_less (num_val a) (num_val b)"

definition num_le :: "pynum \<Rightarrow> pynum \<Rightarrow> bool" where
  "num_le a b = (fl_less (num_val a) (num_val b) \<or> fl_eq (num_val a) (num_val b))"

definition is_finite_num :: "pynum \<Rightarrow> bool" where
  "is_finite_num a = (case num_val a of Finite _ \<Rightarrow> True | _ \<Rightarrow> False)"

lemma num_le_trans: "num_le a b \<Longrightarrow> num_le b c \<Longrightarrow> num_le a c"
  by (cases "num_val a"; cases "num_val b"; cases "num_val c") (auto simp: num_le_def)

lemma num_le_iff_not_less:
  "is_finite_num a \<Longrightarrow> is_finite_num b \<Longrightarrow> num_le a b \<longleftrightarrow> \<not> num_less b a"
  by (cases "num_val a"; cases "num_val b") (auto simp: num_le_def num_less_def is_finite_num_def)

lemma num_le_PInt [simp]: "num_le (PInt a) (PInt b) \<longleftrightarrow> a \<le> b"
  by (auto simp: num_le_def)

lemma num_less_PInt [simp]: "num_less (PInt a) (PInt b) \<longleftrightarrow> a < b"
  by (simp add: num_less_def)

section \<open>Values\<close>

datatype json =
    JNull
  | JBool bool
  | JNum pynum
  | JStr str
  | JList "json list"
  | JObj "(str \<times> json) list"

abbreviation JInt :: "int \<Rightarrow> json" where
  "JInt i \<equiv> JNum (PInt i)"

definition is_obj :: "json \<Rightarrow> bool" where
  "is_obj v = (case v of JObj _ \<Rightarrow> True | _ \<Rightarrow> False)"

definition is_str :: "json \<Rightarrow> bool" where
  "is_str v = (case v of JStr _ \<Rightarrow> True | _ \<Rightarrow> False)"

definition is_list :: "json \<Rightarrow> bool" where
  "is_list v = (case v of JList _ \<Rightarrow> True | _ \<Rightarrow> False)"

definition is_bool :: "json \<Rightarrow> bool" where
  "is_bool v = (case v of JBool _ \<Rightarrow> True | _ \<Rightarrow> False)"

definition is_int :: "json \<Rightarrow> bool" where
  "is_int v = (case v of JNum (PInt _) \<Rightarrow> True | _ \<Rightarrow> False)"

definition is_num :: "json \<Rightarrow> bool" where
  "is_num v = (case v of JNum _ \<Rightarrow> True | _ \<Rightarrow> False)"

lemmas type_tests = is_obj_def is_str_def is_list_def is_bool_def is_int_def is_num_def

fun obj_of :: "json \<Rightarrow> (str \<times> json) list" where
  "obj_of (JObj kvs) = kvs"
| "obj_of _ = []"

fun list_of :: "json \<Rightarrow> json list" where
  "list_of (JList vs) = vs"
| "list_of _ = []"

fun str_of :: "json \<Rightarrow> str" where
  "str_of (JStr s) = s"
| "str_of _ = []"

fun num_of :: "json \<Rightarrow> pynum" where
  "num_of (JNum n) = n"
| "num_of _ = PInt 0"

fun int_of_json :: "json \<Rightarrow> int" where
  "int_of_json (JNum (PInt i)) = i"
| "int_of_json _ = 0"

fun bool_of :: "json \<Rightarrow> bool" where
  "bool_of (JBool b) = b"
| "bool_of _ = False"

text \<open>\<open>d.get(k)\<close>, with \<open>None\<close> and \<open>null\<close> identified; and \<open>d[k]\<close>, used where a
  check has established that the key is there.\<close>

definition jget :: "str \<Rightarrow> json \<Rightarrow> json" where
  "jget k v = (case map_of (obj_of v) k of None \<Rightarrow> JNull | Some x \<Rightarrow> x)"

definition jhas :: "str \<Rightarrow> json \<Rightarrow> bool" where
  "jhas k v = (k \<in> fst ` set (obj_of v))"

definition jkeys :: "json \<Rightarrow> str list" where
  "jkeys v = map fst (obj_of v)"

lemma jget_obj [simp]: "jget k (JObj kvs) = (case map_of kvs k of None \<Rightarrow> JNull | Some x \<Rightarrow> x)"
  by (simp add: jget_def)

lemma jkeys_obj [simp]: "jkeys (JObj kvs) = map fst kvs"
  by (simp add: jkeys_def)

lemma type_tests_simps [simp]:
  "is_obj (JObj kvs)" "is_str (JStr s)" "is_list (JList vs)" "is_bool (JBool b)"
  "is_int (JInt i)" "is_num (JNum n)"
  "\<not> is_obj JNull" "\<not> is_obj (JStr s)" "\<not> is_obj (JList vs)" "\<not> is_obj (JNum n)" "\<not> is_obj (JBool b)"
  "\<not> is_str JNull" "\<not> is_str (JObj kvs)" "\<not> is_str (JList vs)" "\<not> is_str (JNum n)" "\<not> is_str (JBool b)"
  "\<not> is_list JNull" "\<not> is_list (JObj kvs)" "\<not> is_list (JStr s)" "\<not> is_list (JNum n)" "\<not> is_list (JBool b)"
  "\<not> is_bool JNull" "\<not> is_bool (JObj kvs)" "\<not> is_bool (JStr s)" "\<not> is_bool (JNum n)" "\<not> is_bool (JList vs)"
  "\<not> is_int JNull" "\<not> is_int (JObj kvs)" "\<not> is_int (JStr s)" "\<not> is_int (JBool b)" "\<not> is_int (JList vs)"
  "\<not> is_int (JNum (PFloat f))"
  "\<not> is_num JNull" "\<not> is_num (JObj kvs)" "\<not> is_num (JStr s)" "\<not> is_num (JBool b)" "\<not> is_num (JList vs)"
  by (simp_all add: type_tests)

lemma is_str_iff: "is_str v \<longleftrightarrow> (\<exists>s. v = JStr s)"
  by (cases v) auto

lemma is_obj_iff: "is_obj v \<longleftrightarrow> (\<exists>kvs. v = JObj kvs)"
  by (cases v) auto

lemma is_list_iff: "is_list v \<longleftrightarrow> (\<exists>vs. v = JList vs)"
  by (cases v) auto

lemma is_int_iff: "is_int v \<longleftrightarrow> (\<exists>i. v = JInt i)"
  by (cases v) (auto simp: type_tests split: pynum.splits)

lemma is_num_iff: "is_num v \<longleftrightarrow> (\<exists>n. v = JNum n)"
  by (cases v) auto

lemma is_bool_iff: "is_bool v \<longleftrightarrow> (\<exists>b. v = JBool b)"
  by (cases v) auto

section \<open>Python's equality\<close>

text \<open>\<open>a == b\<close>: numbers and booleans by value, objects without regard to the order of keys.\<close>

function py_eq :: "json \<Rightarrow> json \<Rightarrow> bool" where
  "py_eq v w =
     (case (v, w) of
        (JNull, JNull) \<Rightarrow> True
      | (JBool a, JBool b) \<Rightarrow> a = b
      | (JBool a, JNum n) \<Rightarrow> fl_eq (Finite (if a then 1 else 0)) (num_val n)
      | (JNum n, JBool b) \<Rightarrow> fl_eq (num_val n) (Finite (if b then 1 else 0))
      | (JNum a, JNum b) \<Rightarrow> fl_eq (num_val a) (num_val b)
      | (JStr a, JStr b) \<Rightarrow> a = b
      | (JList xs, JList ys) \<Rightarrow> length xs = length ys \<and> list_all (\<lambda>(x, y). py_eq x y) (zip xs ys)
      | (JObj kvs, JObj lws) \<Rightarrow>
          length kvs = length lws
          \<and> list_all (\<lambda>(k, x). case map_of lws k of None \<Rightarrow> False | Some y \<Rightarrow> py_eq x y) kvs
      | _ \<Rightarrow> False)"
  by pat_completeness auto
termination
proof (relation "measure (\<lambda>(v, w). size v)", goal_cases)
  case (2 v w _ _ xs _ z x y)
  then have "x \<in> set xs" by (auto dest: set_zip_leftD)
  then have "size x < Suc (size_list size xs)" by (induction xs) auto
  with 2 show ?case by auto
next
  case (3 v w _ _ kvs _ z k x y)
  then have "(k, x) \<in> set kvs" by auto
  then have "size x < Suc (size_list (size_prod (\<lambda>_. 0) size) kvs)" by (induction kvs) auto
  with 3 show ?case by auto
qed simp

declare py_eq.simps [simp del]

lemma py_eq_str [simp]: "py_eq v (JStr s) \<longleftrightarrow> v = JStr s"
  by (cases v) (auto simp: py_eq.simps)

text \<open>\<open>d[k] = v\<close>: in place where the key is there, at the end where it is new.\<close>

definition jput :: "str \<Rightarrow> json \<Rightarrow> json \<Rightarrow> json" where
  "jput k x v = JObj (AList.update k x (obj_of v))"

lemma jput_simps [simp]:
  "is_obj (jput k x v)" "obj_of (jput k x v) = AList.update k x (obj_of v)"
  by (simp_all add: jput_def)

lemma jget_jput: "jget l (jput k x v) = (if l = k then x else jget l v)"
  by (simp add: jget_def jput_def)

lemma jhas_jput: "jhas l (jput k x v) \<longleftrightarrow> l = k \<or> jhas l v"
  by (auto simp: jhas_def jput_def dom_map_of_conv_image_fst [symmetric] update_conv')

lemma jget_absent: "\<not> jhas k v \<Longrightarrow> jget k v = JNull"
  by (simp add: jhas_def jget_def map_of_eq_None_iff [symmetric])

lemma py_eq_get:
  assumes "py_eq v (JObj lws)" "jhas k v"
  shows "\<exists>y. map_of lws k = Some y \<and> py_eq (jget k v) y"
proof -
  obtain kvs where v: "v = JObj kvs" using assms(1) by (cases v) (auto simp: py_eq.simps)
  obtain x where x: "map_of kvs k = Some x"
    using assms(2) by (auto simp: v jhas_def dest: weak_map_of_SomeI)
  then have "(k, x) \<in> set kvs" by (rule map_of_SomeD)
  with assms(1) show ?thesis
    by (auto simp: v py_eq.simps [of "JObj kvs"] list_all_iff x split: option.splits)
qed

text \<open>\<open>dict((k, v[k]) for k in keys)\<close>.\<close>

definition sub_object :: "str list \<Rightarrow> json \<Rightarrow> json" where
  "sub_object keys v = JObj (map (\<lambda>k. (k, jget k v)) keys)"

section \<open>The host\<close>

text \<open>What the standard library and the operating system supply: the SHA-256 function,
  the decimal form of a float, and path resolution. The theorems hold for every choice
  of the three functions.\<close>

record host =
  sha256 :: "bytes \<Rightarrow> str"
  float_repr :: "rat \<Rightarrow> str"
  os_realpath :: "str \<Rightarrow> str"

end
