(* ===== verification/Digest.thy ===== *)
theory Digest
  imports Json
begin

text \<open>
  \<open>workflow_authority/digest.py\<close>: the canonical JSON form that every digest over a
  JSON value covers, and the length-prefixed framing that every digest over several
  inputs covers.
\<close>

section \<open>UTF-8\<close>

fun utf8_decode :: "bytes \<Rightarrow> nat list option" where
  "utf8_decode [] = Some []"
| "utf8_decode (a # s) =
     (let n = ord_of a in
      if n < 128 then map_option ((#) n) (utf8_decode s)
      else if 194 \<le> n \<and> n < 224 then
        (case s of
           b # t \<Rightarrow>
             if is_cont b
             then map_option ((#) ((n - 192) * 64 + (ord_of b - 128))) (utf8_decode t)
             else None
         | [] \<Rightarrow> None)
      else if 224 \<le> n \<and> n < 240 then
        (case s of
           b # c # t \<Rightarrow>
             (let p = (n - 224) * 4096 + (ord_of b - 128) * 64 + (ord_of c - 128) in
              if is_cont b \<and> is_cont c \<and> 2048 \<le> p \<and> \<not> (55296 \<le> p \<and> p < 57344)
              then map_option ((#) p) (utf8_decode t)
              else None)
         | _ \<Rightarrow> None)
      else if 240 \<le> n \<and> n < 245 then
        (case s of
           b # c # d # t \<Rightarrow>
             (let p = (n - 240) * 262144 + (ord_of b - 128) * 4096
                      + (ord_of c - 128) * 64 + (ord_of d - 128) in
              if is_cont b \<and> is_cont c \<and> is_cont d \<and> 65536 \<le> p \<and> p < 1114112
              then map_option ((#) p) (utf8_decode t)
              else None)
         | _ \<Rightarrow> None)
      else None)"

definition valid_utf8 :: "bytes \<Rightarrow> bool" where
  "valid_utf8 s \<longleftrightarrow> utf8_decode s \<noteq> None"

section \<open>Canonical JSON\<close>

definition hex_digit :: "nat \<Rightarrow> char" where
  "hex_digit n = hex_digits ! n"

definition u_escape :: "nat \<Rightarrow> str" where
  "u_escape n =
     [CHR 0x5C, CHR ''u'', hex_digit (n div 4096 mod 16), hex_digit (n div 256 mod 16),
      hex_digit (n div 16 mod 16), hex_digit (n mod 16)]"

definition escape_point :: "nat \<Rightarrow> str" where
  "escape_point n =
     (if n = 34 then [CHR 0x5C, CHR 0x22]
      else if n = 92 then [CHR 0x5C, CHR 0x5C]
      else if n = 10 then [CHR 0x5C, CHR ''n'']
      else if n = 13 then [CHR 0x5C, CHR ''r'']
      else if n = 9 then [CHR 0x5C, CHR ''t'']
      else if n = 12 then [CHR 0x5C, CHR ''f'']
      else if n = 8 then [CHR 0x5C, CHR ''b'']
      else if 32 \<le> n \<and> n < 127 then [char_of n]
      else if n < 65536 then u_escape n
      else u_escape (55296 + (n - 65536) div 1024) @ u_escape (56320 + (n - 65536) mod 1024))"

definition json_string :: "str \<Rightarrow> str" where
  "json_string s =
     [CHR 0x22]
     @ concat (map escape_point (case utf8_decode s of None \<Rightarrow> map ord_of s | Some ps \<Rightarrow> ps))
     @ [CHR 0x22]"

text \<open>\<open>json.dumps(value, sort_keys=True, separators=(",", ":"), ensure_ascii=True,
  allow_nan=False)\<close>; a float that is not finite has no canonical form and is refused.\<close>

fun finite_json :: "json \<Rightarrow> bool" where
  "finite_json (JNum n) = is_finite_num n"
| "finite_json (JList vs) = list_all finite_json vs"
| "finite_json (JObj kvs) = list_all (\<lambda>kv. finite_json (snd kv)) kvs"
| "finite_json _ = True"

definition render_num :: "host \<Rightarrow> pynum \<Rightarrow> str" where
  "render_num h n =
     (case n of PInt i \<Rightarrow> show_int i
      | PFloat f \<Rightarrow> (case f of Finite r \<Rightarrow> float_repr h r | _ \<Rightarrow> []))"

definition render_member :: "str \<times> str \<Rightarrow> str" where
  "render_member kv = json_string (fst kv) @ '':'' @ snd kv"

fun render_json :: "host \<Rightarrow> json \<Rightarrow> str" where
  "render_json h JNull = ''null''"
| "render_json h (JBool b) = (if b then ''true'' else ''false'')"
| "render_json h (JNum n) = render_num h n"
| "render_json h (JStr s) = json_string s"
| "render_json h (JList vs) = ''['' @ join_with '','' (map (render_json h) vs) @ '']''"
| "render_json h (JObj kvs) =
     [CHR 0x7B]
     @ join_with '','' (map render_member (sort_key fst (map (\<lambda>kv. (fst kv, render_json h (snd kv))) kvs)))
     @ [CHR 0x7D]"

definition canonical_json_bytes :: "host \<Rightarrow> json \<Rightarrow> exn + bytes" where
  "canonical_json_bytes h v = (if finite_json v then Inr (render_json h v) else Inl DigestError)"

definition sha256_hex :: "host \<Rightarrow> bytes \<Rightarrow> str" where
  "sha256_hex h data = sha256 h data"

definition json_digest :: "host \<Rightarrow> json \<Rightarrow> exn + str" where
  "json_digest h v = sbind (canonical_json_bytes h v) (\<lambda>b. Inr (sha256_hex h b))"

definition text_digest :: "host \<Rightarrow> str \<Rightarrow> str" where
  "text_digest h text = sha256_hex h text"

section \<open>Framing\<close>

text \<open>\<open>struct.pack(">Q", n)\<close>.\<close>

fun be_bytes :: "nat \<Rightarrow> nat \<Rightarrow> bytes" where
  "be_bytes 0 n = []"
| "be_bytes (Suc k) n = char_of (n div 256 ^ k mod 256) # be_bytes k n"

definition pack_q :: "nat \<Rightarrow> bytes" where
  "pack_q n = be_bytes 8 n"

definition frame_part :: "bytes \<Rightarrow> bytes" where
  "frame_part p = pack_q (length p) @ p"

definition framed_bytes :: "bytes list \<Rightarrow> bytes" where
  "framed_bytes parts = pack_q (length parts) @ concat (map frame_part parts)"

definition framed_digest :: "host \<Rightarrow> bytes list \<Rightarrow> str" where
  "framed_digest h parts = sha256_hex h (framed_bytes parts)"

definition policy_digest :: "host \<Rightarrow> bytes \<Rightarrow> bytes \<Rightarrow> json \<Rightarrow> exn + str" where
  "policy_digest h agents_document_bytes operator_protocol_bytes effective_policy =
     sbind (canonical_json_bytes h effective_policy)
       (\<lambda>b. Inr (framed_digest h [agents_document_bytes, operator_protocol_bytes, b]))"

lemma length_be_bytes [simp]: "length (be_bytes k n) = k"
  by (induction k) auto

lemma length_pack_q [simp]: "length (pack_q n) = 8"
  by (simp add: pack_q_def)

fun unpack :: "bytes \<Rightarrow> nat" where
  "unpack [] = 0"
| "unpack (c # cs) = ord_of c * 256 ^ length cs + unpack cs"

lemma base_256_split: "(n::nat) mod 256 ^ Suc k = (n div 256 ^ k mod 256) * 256 ^ k + n mod 256 ^ k"
  by (metis add.commute mod_mult2_eq mult.commute power_Suc2)

lemma unpack_be_bytes: "unpack (be_bytes k n) = n mod 256 ^ k"
proof (induction k)
  case 0
  show ?case by simp
next
  case (Suc k)
  have "ord_of (char_of (n div 256 ^ k mod 256) :: char) = n div 256 ^ k mod 256"
    by (simp add: of_char_of)
  with Suc show ?case
    by (simp only: be_bytes.simps unpack.simps length_be_bytes base_256_split)
qed

lemma pack_q_inject:
  assumes "m < 2 ^ 64" "n < 2 ^ 64" "pack_q m = pack_q n"
  shows "m = n"
proof -
  have "m mod 256 ^ 8 = n mod 256 ^ 8"
    using assms(3) by (metis pack_q_def unpack_be_bytes)
  with assms(1,2) show ?thesis by simp
qed

definition short_parts :: "bytes list \<Rightarrow> bool" where
  "short_parts parts \<longleftrightarrow> length parts < 2 ^ 64 \<and> (\<forall>p \<in> set parts. length p < 2 ^ 64)"

lemma frame_part_prefix:
  assumes "length p < 2 ^ 64" "length q < 2 ^ 64" "frame_part p @ x = frame_part q @ y"
  shows "p = q \<and> x = y"
proof -
  from assms(3) have "pack_q (length p) = pack_q (length q)" "p @ x = q @ y"
    by (simp_all add: frame_part_def)
  with assms(1,2) have "length p = length q" by (intro pack_q_inject)
  with \<open>p @ x = q @ y\<close> show ?thesis by simp
qed

lemma frame_parts_inject:
  "length ps = length qs \<Longrightarrow> \<forall>p \<in> set ps. length p < 2 ^ 64 \<Longrightarrow> \<forall>p \<in> set qs. length p < 2 ^ 64
   \<Longrightarrow> concat (map frame_part ps) = concat (map frame_part qs) \<Longrightarrow> ps = qs"
proof (induction ps qs rule: list_induct2)
  case Nil
  then show ?case by simp
next
  case (Cons p ps q qs)
  then have "p = q \<and> concat (map frame_part ps) = concat (map frame_part qs)"
    by (intro frame_part_prefix) auto
  with Cons show ?case by simp
qed

lemma framed_bytes_inject:
  assumes "short_parts ps" "short_parts qs" "framed_bytes ps = framed_bytes qs"
  shows "ps = qs"
proof -
  from assms(3) have "pack_q (length ps) = pack_q (length qs)"
    "concat (map frame_part ps) = concat (map frame_part qs)"
    by (simp_all add: framed_bytes_def)
  moreover from this(1) assms(1,2) have "length ps = length qs"
    by (intro pack_q_inject) (simp_all only: short_parts_def)
  ultimately show ?thesis
    using assms(1,2) unfolding short_parts_def by (blast intro: frame_parts_inject)
qed

end
