(* ===== verification/Grammar.thy ===== *)
theory Grammar
  imports Json
begin

text \<open>
  The two closed grammars that the delivery record borrows from
  \<open>workflow_authority/record.py\<close>: what a displayed path may contain and what a
  displayed ref may look like. The code returns a reason or \<open>None\<close>; the model keeps
  only whether there is one.
\<close>

definition MAX_ID_CHARS :: nat where
  "MAX_ID_CHARS = 128"

definition WORKFLOW_ID_ALPHABET :: str where
  "WORKFLOW_ID_ALPHABET = ''abcdefghijklmnopqrstuvwxyz0123456789-''"

definition NON_ASCII_LINE_TERMINATORS :: "str list" where
  "NON_ASCII_LINE_TERMINATORS =
     [[CHR 0xC2, CHR 0x85], [CHR 0xE2, CHR 0x80, CHR 0xA8], [CHR 0xE2, CHR 0x80, CHR 0xA9]]"

definition REF_FORBIDDEN_CHARS :: str where
  "REF_FORBIDDEN_CHARS = ''~^:?*['' @ [CHR 0x5C]"

definition control_char :: "char \<Rightarrow> bool" where
  "control_char ch \<longleftrightarrow> ord_of ch < 32 \<or> ord_of ch = 127"

definition path_character_problem :: "str \<Rightarrow> bool" where
  "path_character_problem value \<longleftrightarrow>
     list_ex control_char value
     \<or> list_ex (contains_sub value) NON_ASCII_LINE_TERMINATORS"

definition baseline_ref_grammar_problem :: "str \<Rightarrow> bool" where
  "baseline_ref_grammar_problem value \<longleftrightarrow>
     value = []
     \<or> list_ex control_char value
     \<or> has_space value \<or> list_ex (contains_sub value) NON_ASCII_LINE_TERMINATORS
     \<or> list_ex (\<lambda>ch. ch \<in> set REF_FORBIDDEN_CHARS) value
     \<or> contains_sub value ''..''
     \<or> starts_with value ''/'' \<or> ends_with value ''/''
     \<or> ends_with value ''.lock''"

lemma line_free_no_control:
  "\<not> path_character_problem s \<Longrightarrow> c \<in> set s \<Longrightarrow> 32 \<le> ord_of c \<and> ord_of c \<noteq> 127"
  by (auto simp: path_character_problem_def control_char_def list_ex_iff not_less)

lemma line_free_no_null: "\<not> path_character_problem s \<Longrightarrow> CHR 0x00 \<notin> set s"
  using line_free_no_control by fastforce

lemma ref_is_line_free: "\<not> baseline_ref_grammar_problem s \<Longrightarrow> \<not> path_character_problem s"
  by (simp add: baseline_ref_grammar_problem_def path_character_problem_def)

end
