(* ===== verification/Candidate.thy ===== *)
theory Candidate
  imports Digest Grammar
begin

text \<open>
  \<open>pr_delivery/candidate.py\<close>: the deterministic identity of the staged candidate. The
  raw diff of git is parsed into entries sorted by the bytes of their paths, the
  identity is a framed digest of the entries, \<open>compare\<close> reports the first difference
  of two candidates, and \<open>overlaps\<close> the pairs of paths that are not disjoint.

  Where the code decodes a field with \<open>errors="replace"\<close>, the model keeps the byte:
  the replacement character and the byte it replaces fail the same comparisons.
\<close>

section \<open>Entries\<close>

record cand_entry =
  ce_path :: str
  ce_status :: str
  ce_mode :: str
  ce_blob :: str

definition CANDIDATE_STATUSES :: "str list" where
  "CANDIDATE_STATUSES = [''A'', ''M'', ''D'']"

definition CANDIDATE_MODES :: "str list" where
  "CANDIDATE_MODES = [''100644'', ''100755'', ''120000'']"

definition GITLINK_MODE :: str where
  "GITLINK_MODE = ''160000''"

definition MAX_CANDIDATE_ENTRIES :: nat where
  "MAX_CANDIDATE_ENTRIES = 4096"

definition ZERO_OID :: str where
  "ZERO_OID = replicate 40 (CHR ''0'')"

definition STATUS_LETTERS :: str where
  "STATUS_LETTERS = '' MTADRCU?!''"

abbreviation NUL :: char where
  "NUL \<equiv> CHR 0x00"

section \<open>Parsing the raw diff\<close>

definition full_oid :: "str \<Rightarrow> bool" where
  "full_oid blob \<longleftrightarrow> py_len blob = 40 \<and> is_hex blob"

definition entry_from_raw :: "bytes \<Rightarrow> bytes \<Rightarrow> exn + cand_entry" where
  "entry_from_raw meta path_bytes =
     (let fields = split_on (CHR '' '') meta in
      if length fields \<noteq> 5 \<or> \<not> starts_with (fields ! 0) '':''
      then Inl (CandidateError ''pr_delivery_candidate_raw_format'')
      else
        let old_mode = drop 1 (fields ! 0);
            status = fields ! 4;
            mode = (if status = ''D'' then old_mode else fields ! 1);
            blob = (if status = ''D'' then fields ! 2 else fields ! 3)
        in guard_check
          (checks
            [require (status \<in> set CANDIDATE_STATUSES) (CandidateError ''pr_delivery_candidate_bad_status''),
             require (\<not> (mode = GITLINK_MODE \<or> old_mode = GITLINK_MODE))
               (CandidateError ''pr_delivery_candidate_submodule''),
             require (mode \<in> set CANDIDATE_MODES) (CandidateError ''pr_delivery_candidate_bad_status''),
             require (full_oid blob) (CandidateError ''pr_delivery_candidate_raw_format''),
             require (blob \<noteq> ZERO_OID) (CandidateError ''pr_delivery_candidate_raw_format''),
             require (valid_utf8 path_bytes) (CandidateError ''pr_delivery_candidate_path''),
             require (\<not> path_character_problem path_bytes \<and> path_bytes \<noteq> [])
               (CandidateError ''pr_delivery_candidate_path'')])
          (Inr \<lparr>ce_path = path_bytes, ce_status = status, ce_mode = mode, ce_blob = blob\<rparr>))"

definition null_tokens :: "bytes \<Rightarrow> bytes list" where
  "null_tokens data =
     (let tokens = split_on NUL data in if last tokens = [] then butlast tokens else tokens)"

fun entries_of_tokens :: "bytes list \<Rightarrow> exn + cand_entry list" where
  "entries_of_tokens (meta # path # rest) =
     sbind (entry_from_raw meta path)
       (\<lambda>e. sbind (entries_of_tokens rest) (\<lambda>es. Inr (e # es)))"
| "entries_of_tokens _ = Inr []"

fun adjacent_duplicate :: "cand_entry list \<Rightarrow> bool" where
  "adjacent_duplicate (p # c # es) = (ce_path p = ce_path c \<or> adjacent_duplicate (c # es))"
| "adjacent_duplicate _ = False"

definition parse_raw_z :: "bytes \<Rightarrow> exn + cand_entry list" where
  "parse_raw_z data =
     (let tokens = null_tokens data in
      if odd (length tokens) then Inl (CandidateError ''pr_delivery_candidate_raw_format'')
      else sbind (entries_of_tokens tokens)
        (\<lambda>entries.
           if entries = [] then Inl (CandidateError ''pr_delivery_candidate_empty'')
           else if MAX_CANDIDATE_ENTRIES < length entries
             then Inl (CandidateError ''pr_delivery_candidate_too_many'')
           else let ordered = sort_key ce_path entries in
             if adjacent_duplicate ordered
             then Inl (CandidateError ''pr_delivery_candidate_duplicate_path'')
             else Inr ordered))"

section \<open>Identity and comparison\<close>

definition identity_parts :: "cand_entry list \<Rightarrow> bytes list" where
  "identity_parts entries =
     concat (map (\<lambda>e. [ce_status e, ce_mode e, ce_blob e, ce_path e]) entries)"

definition identity_digest :: "host \<Rightarrow> cand_entry list \<Rightarrow> str" where
  "identity_digest h entries = framed_digest h (identity_parts entries)"

definition by_path :: "cand_entry list \<Rightarrow> str \<Rightarrow> cand_entry option" where
  "by_path entries = map_of (rev (map (\<lambda>e. (ce_path e, e)) entries))"

definition path_difference :: "(str \<Rightarrow> cand_entry option) \<Rightarrow> (str \<Rightarrow> cand_entry option) \<Rightarrow> str \<Rightarrow> str option" where
  "path_difference bound live path =
     (case live path of
        None \<Rightarrow> Some ''pr_delivery_candidate_path_missing''
      | Some actual \<Rightarrow>
          (case bound path of
             None \<Rightarrow> Some ''pr_delivery_candidate_path_extra''
           | Some expected \<Rightarrow>
               if ce_status expected \<noteq> ce_status actual
                 then Some ''pr_delivery_candidate_status_changed''
               else if ce_mode expected \<noteq> ce_mode actual
                 then Some ''pr_delivery_candidate_mode_changed''
               else if ce_blob expected \<noteq> ce_blob actual
                 then Some ''pr_delivery_candidate_content_changed''
               else None))"

fun first_some :: "('a \<Rightarrow> 'b option) \<Rightarrow> 'a list \<Rightarrow> 'b option" where
  "first_some f [] = None"
| "first_some f (x # xs) = (case f x of None \<Rightarrow> first_some f xs | Some y \<Rightarrow> Some y)"

definition compare_candidates :: "cand_entry list \<Rightarrow> cand_entry list \<Rightarrow> str option" where
  "compare_candidates bound_entries live_entries =
     first_some (path_difference (by_path bound_entries) (by_path live_entries))
       (sort (remdups (map ce_path bound_entries @ map ce_path live_entries)))"

section \<open>Changed paths of a base, dirty paths of a working tree\<close>

fun odd_tokens :: "bytes list \<Rightarrow> bytes list" where
  "odd_tokens (m # p # rest) = p # odd_tokens rest"
| "odd_tokens _ = []"

definition paths_from_raw_z :: "bytes \<Rightarrow> exn + str list" where
  "paths_from_raw_z data =
     (let tokens = null_tokens data in
      if odd (length tokens) then Inl (CandidateError ''pr_delivery_candidate_raw_format'')
      else map_result
        (\<lambda>p. if valid_utf8 p then Inr p else Inl (CandidateError ''pr_delivery_candidate_path''))
        (odd_tokens tokens))"

definition drop_trailing_slash :: "str \<Rightarrow> str" where
  "drop_trailing_slash path = (if ends_with path ''/'' then butlast path else path)"

definition worktree_entry :: "bytes \<Rightarrow> exn + str option" where
  "worktree_entry token =
     (let letters = take 2 token;
          index_letter = token ! 0;
          tree_letter = token ! 1;
          path = drop_trailing_slash (drop 3 token);
          bad = CandidateError ''pr_delivery_worktree_entry_unsupported'' in
      guard_check
        (checks
          [require (\<not> (length token < 4 \<or> token ! 2 \<noteq> CHR '' '')) bad,
           require (index_letter \<in> set STATUS_LETTERS \<and> tree_letter \<in> set STATUS_LETTERS) bad,
           require (\<not> (CHR ''R'' \<in> set letters \<or> CHR ''C'' \<in> set letters)) bad,
           require (\<not> (CHR ''U'' \<in> set letters \<or> letters = ''DD'' \<or> letters = ''AA'')) bad,
           require (\<not> (CHR ''!'' \<in> set letters \<or> (CHR ''?'' \<in> set letters \<and> letters \<noteq> ''??''))) bad,
           require (valid_utf8 (drop 3 token)) bad,
           require (\<not> path_character_problem path \<and> path \<noteq> []) bad])
        (Inr (if letters = ''??'' \<or> tree_letter \<noteq> CHR '' '' then Some path else None)))"

definition worktree_dirty_paths :: "bytes \<Rightarrow> exn + str list" where
  "worktree_dirty_paths data =
     sbind (map_result worktree_entry (null_tokens data))
       (\<lambda>dirty. Inr (List.map_filter (\<lambda>x. x) dirty))"

definition path_conflict :: "str \<Rightarrow> str \<Rightarrow> bool" where
  "path_conflict mine theirs \<longleftrightarrow>
     mine = theirs \<or> starts_with theirs (mine @ ''/'') \<or> starts_with mine (theirs @ ''/'')"

definition overlaps :: "str list \<Rightarrow> str list \<Rightarrow> (str \<times> str) list" where
  "overlaps candidate_paths changed_paths =
     concat (map (\<lambda>mine. map (Pair mine) (filter (path_conflict mine) changed_paths)) candidate_paths)"

section \<open>Lemmas\<close>

lemma first_some_None_iff: "first_some f xs = None \<longleftrightarrow> (\<forall>x \<in> set xs. f x = None)"
  by (induction xs) (auto split: option.splits)

lemma adjacent_duplicate_distinct:
  "sorted (map ce_path es) \<Longrightarrow> \<not> adjacent_duplicate es \<longleftrightarrow> distinct (map ce_path es)"
proof (induction es rule: adjacent_duplicate.induct)
  case (1 p c es)
  then have "\<forall>x \<in> set es. ce_path c \<le> ce_path x" "ce_path p \<le> ce_path c" by auto
  then have "ce_path p \<noteq> ce_path c \<Longrightarrow> ce_path p \<notin> set (map ce_path es)" by fastforce
  with 1 show ?case by auto
qed auto

definition valid_entry :: "cand_entry \<Rightarrow> bool" where
  "valid_entry e \<longleftrightarrow>
     ce_status e \<in> set CANDIDATE_STATUSES \<and> ce_mode e \<in> set CANDIDATE_MODES
     \<and> full_oid (ce_blob e) \<and> ce_blob e \<noteq> ZERO_OID
     \<and> valid_utf8 (ce_path e) \<and> \<not> path_character_problem (ce_path e) \<and> ce_path e \<noteq> []"

definition candidate_list :: "cand_entry list \<Rightarrow> bool" where
  "candidate_list es \<longleftrightarrow>
     es \<noteq> [] \<and> length es \<le> MAX_CANDIDATE_ENTRIES
     \<and> sorted (map ce_path es) \<and> distinct (map ce_path es) \<and> list_all valid_entry es"

lemma entry_from_raw_valid: "entry_from_raw m p = Inr e \<Longrightarrow> valid_entry e"
  by (auto simp: entry_from_raw_def valid_entry_def Let_def guard_check_Inr_iff checks_simps
      split: if_splits)

lemma entries_of_tokens_valid: "entries_of_tokens ts = Inr es \<Longrightarrow> list_all valid_entry es"
  by (induction ts arbitrary: es rule: entries_of_tokens.induct)
     (auto simp: sbind_Inr_iff dest: entry_from_raw_valid)

lemma parse_raw_z_candidate_list:
  assumes "parse_raw_z data = Inr es"
  shows "candidate_list es"
proof -
  from assms obtain raw where raw: "entries_of_tokens (null_tokens data) = Inr raw"
    "raw \<noteq> []" "length raw \<le> MAX_CANDIDATE_ENTRIES" "\<not> adjacent_duplicate es" "es = sort_key ce_path raw"
    by (auto simp: parse_raw_z_def Let_def sbind_Inr_iff split: if_splits)
  moreover have "list_all valid_entry es"
    using entries_of_tokens_valid [OF raw(1)] raw(5) by (simp add: list_all_iff)
  moreover have "es \<noteq> []"
    using raw(2,5) by (metis length_0_conv length_sort)
  ultimately show ?thesis
    using adjacent_duplicate_distinct [of es] by (simp add: candidate_list_def)
qed

lemma by_path_in: "by_path es q = Some e \<Longrightarrow> e \<in> set es \<and> ce_path e = q"
  by (auto simp: by_path_def dest!: map_of_SomeD)

lemma by_path_distinct:
  assumes "distinct (map ce_path es)"
  shows "by_path es q = Some e \<longleftrightarrow> e \<in> set es \<and> ce_path e = q"
proof -
  have "distinct (map fst (rev (map (\<lambda>e. (ce_path e, e)) es)))"
    using assms by (simp add: rev_map [symmetric] comp_def)
  then have "by_path es q = Some e \<longleftrightarrow> (q, e) \<in> set (rev (map (\<lambda>e. (ce_path e, e)) es))"
    unfolding by_path_def by (rule map_of_eq_Some_iff)
  then show ?thesis by auto
qed

lemma by_path_None_iff: "by_path es q = None \<longleftrightarrow> q \<notin> ce_path ` set es"
  by (simp add: by_path_def map_of_eq_None_iff image_image)

lemma path_difference_None_iff:
  "path_difference b l q = None \<longleftrightarrow>
     (\<exists>x y. l q = Some x \<and> b q = Some y \<and> ce_status x = ce_status y \<and> ce_mode x = ce_mode y
        \<and> ce_blob x = ce_blob y)"
  by (auto simp: path_difference_def split: option.splits if_splits)

lemma compare_candidates_None_iff:
  assumes "distinct (map ce_path es)" "distinct (map ce_path fs)"
  shows "compare_candidates es fs = None \<longleftrightarrow> set es = set fs"
proof
  assume *: "compare_candidates es fs = None"
  have same: "x \<in> set es \<longleftrightarrow> x \<in> set fs" if "ce_path x \<in> ce_path ` (set es \<union> set fs)" for x
  proof -
    from * that have "path_difference (by_path es) (by_path fs) (ce_path x) = None"
      by (simp add: compare_candidates_def first_some_None_iff image_Un)
    then obtain a b where ab: "by_path fs (ce_path x) = Some a" "by_path es (ce_path x) = Some b"
      "ce_status a = ce_status b" "ce_mode a = ce_mode b" "ce_blob a = ce_blob b"
      unfolding path_difference_None_iff by blast
    then have "a = b" using by_path_in by (metis cand_entry.equality unit.exhaust)
    with ab assms show ?thesis by (metis by_path_distinct option.inject)
  qed
  then show "set es = set fs" by blast
next
  assume *: "set es = set fs"
  have "path_difference (by_path es) (by_path fs) q = None" if "q \<in> ce_path ` set es" for q
  proof -
    from that obtain e where "e \<in> set es" "ce_path e = q" by auto
    with * assms have "by_path es q = Some e" "by_path fs q = Some e"
      by (simp_all add: by_path_distinct)
    then show ?thesis by (simp add: path_difference_None_iff)
  qed
  with * show "compare_candidates es fs = None"
    by (auto simp: compare_candidates_def first_some_None_iff)
qed

lemma sorted_entries_unique:
  assumes "sorted (map ce_path es)" "sorted (map ce_path fs)"
    "distinct (map ce_path es)" "distinct (map ce_path fs)" "set es = set fs"
  shows "es = fs"
proof -
  have "map ce_path es = map ce_path fs"
    using assms by (intro sorted_distinct_set_unique) auto
  moreover have "inj_on ce_path (set es \<union> set fs)"
    using assms(3,5) by (simp add: distinct_map)
  ultimately show ?thesis by (rule map_inj_on)
qed

lemma compare_candidates_eq:
  "candidate_list es \<Longrightarrow> candidate_list fs \<Longrightarrow> compare_candidates es fs = None \<longleftrightarrow> es = fs"
  by (metis candidate_list_def compare_candidates_None_iff sorted_entries_unique)

lemma overlaps_Nil_iff:
  "overlaps xs ys = [] \<longleftrightarrow> (\<forall>x \<in> set xs. \<forall>y \<in> set ys. \<not> path_conflict x y)"
  by (auto simp: overlaps_def filter_empty_conv)

lemma path_conflict_sym: "path_conflict a b \<longleftrightarrow> path_conflict b a"
  by (auto simp: path_conflict_def)

lemma in_overlaps_iff:
  "(a, b) \<in> set (overlaps xs ys) \<longleftrightarrow> a \<in> set xs \<and> b \<in> set ys \<and> path_conflict a b"
  by (auto simp: overlaps_def)

lemma identity_parts_inject: "identity_parts es = identity_parts fs \<Longrightarrow> es = fs"
proof (induction es arbitrary: fs)
  case Nil
  then show ?case by (cases fs) (auto simp: identity_parts_def)
next
  case (Cons e es)
  then obtain f fs' where "fs = f # fs'" by (cases fs) (auto simp: identity_parts_def)
  with Cons show ?case
    by (auto simp: identity_parts_def intro: cand_entry.equality)
qed

end
