(* ===== verification/Tables.thy ===== *)
theory Tables
  imports Candidate
begin

text \<open>
  The closed sets of \<open>pr_delivery/authorization.py\<close>: kinds, steps, phases, the
  states of a step and of a receipt, the transition table and the step table of each
  kind, the bounds, and the key tuples that close every level of a record.
\<close>

section \<open>Kinds, steps, phases\<close>

datatype mode = PULL_REQUEST | PR_UPDATE

datatype step = BASE_REFRESH | COMMIT | PUSH | PR_CREATE

datatype phase =
  AUTHORIZED | BASE_CURRENT | COMMITTED | PUSHED | PR_OPENED | COMPLETE | BLOCKED | REVOKED

datatype step_state =
  STEP_PENDING | STEP_NOT_NEEDED | STEP_EXECUTING | STEP_SUCCEEDED | STEP_FAILED_RETRYABLE | STEP_BLOCKED

datatype receipt_state =
  RECEIPT_DERIVED | RECEIPT_EXECUTING | RECEIPT_SUCCEEDED | RECEIPT_VOID | RECEIPT_FAILED_RETRYABLE

definition MODES :: "mode list" where
  "MODES = [PULL_REQUEST, PR_UPDATE]"

definition STEPS :: "step list" where
  "STEPS = [BASE_REFRESH, COMMIT, PUSH, PR_CREATE]"

definition PR_UPDATE_STEPS :: "step list" where
  "PR_UPDATE_STEPS = [COMMIT, PUSH]"

definition PR_UPDATE_EXCLUDED_STEPS :: "step list" where
  "PR_UPDATE_EXCLUDED_STEPS = [BASE_REFRESH, PR_CREATE]"

definition PHASES :: "phase list" where
  "PHASES = [AUTHORIZED, BASE_CURRENT, COMMITTED, PUSHED, PR_OPENED, COMPLETE, BLOCKED, REVOKED]"

definition TERMINAL_PHASES :: "phase list" where
  "TERMINAL_PHASES = [COMPLETE, BLOCKED, REVOKED]"

definition STEP_STATES :: "step_state list" where
  "STEP_STATES = [STEP_PENDING, STEP_NOT_NEEDED, STEP_EXECUTING, STEP_SUCCEEDED,
     STEP_FAILED_RETRYABLE, STEP_BLOCKED]"

definition RECEIPT_STATES :: "receipt_state list" where
  "RECEIPT_STATES = [RECEIPT_DERIVED, RECEIPT_EXECUTING, RECEIPT_SUCCEEDED, RECEIPT_VOID,
     RECEIPT_FAILED_RETRYABLE]"

definition PR_UPDATE_UNREACHABLE_PHASES :: "phase list" where
  "PR_UPDATE_UNREACHABLE_PHASES = [BASE_CURRENT, PR_OPENED]"

text \<open>The strings that the record holds for them.\<close>

fun mode_str :: "mode \<Rightarrow> str" where
  "mode_str PULL_REQUEST = ''pull_request''"
| "mode_str PR_UPDATE = ''pr_update''"

fun step_str :: "step \<Rightarrow> str" where
  "step_str BASE_REFRESH = ''BASE_REFRESH''"
| "step_str COMMIT = ''COMMIT''"
| "step_str PUSH = ''PUSH''"
| "step_str PR_CREATE = ''PR_CREATE''"

fun phase_str :: "phase \<Rightarrow> str" where
  "phase_str AUTHORIZED = ''AUTHORIZED''"
| "phase_str BASE_CURRENT = ''BASE_CURRENT''"
| "phase_str COMMITTED = ''COMMITTED''"
| "phase_str PUSHED = ''PUSHED''"
| "phase_str PR_OPENED = ''PR_OPENED''"
| "phase_str COMPLETE = ''COMPLETE''"
| "phase_str BLOCKED = ''BLOCKED''"
| "phase_str REVOKED = ''REVOKED''"

fun step_state_str :: "step_state \<Rightarrow> str" where
  "step_state_str STEP_PENDING = ''pending''"
| "step_state_str STEP_NOT_NEEDED = ''not_needed''"
| "step_state_str STEP_EXECUTING = ''executing''"
| "step_state_str STEP_SUCCEEDED = ''succeeded''"
| "step_state_str STEP_FAILED_RETRYABLE = ''failed_retryable''"
| "step_state_str STEP_BLOCKED = ''blocked''"

fun receipt_state_str :: "receipt_state \<Rightarrow> str" where
  "receipt_state_str RECEIPT_DERIVED = ''derived''"
| "receipt_state_str RECEIPT_EXECUTING = ''executing''"
| "receipt_state_str RECEIPT_SUCCEEDED = ''succeeded''"
| "receipt_state_str RECEIPT_VOID = ''void''"
| "receipt_state_str RECEIPT_FAILED_RETRYABLE = ''failed_retryable''"

fun find_name :: "('a \<Rightarrow> str) \<Rightarrow> 'a \<Rightarrow> 'a list \<Rightarrow> str \<Rightarrow> 'a" where
  "find_name f d [] s = d"
| "find_name f d (x # xs) s = (if f x = s then x else find_name f d xs s)"

definition mode_of_str :: "str \<Rightarrow> mode" where
  "mode_of_str = find_name mode_str PULL_REQUEST MODES"

definition step_of_str :: "str \<Rightarrow> step" where
  "step_of_str = find_name step_str BASE_REFRESH STEPS"

definition phase_of_str :: "str \<Rightarrow> phase" where
  "phase_of_str = find_name phase_str AUTHORIZED PHASES"

definition step_state_of_str :: "str \<Rightarrow> step_state" where
  "step_state_of_str = find_name step_state_str STEP_PENDING STEP_STATES"

definition receipt_state_of_str :: "str \<Rightarrow> receipt_state" where
  "receipt_state_of_str = find_name receipt_state_str RECEIPT_DERIVED RECEIPT_STATES"

lemma mode_of_str [simp]: "mode_of_str (mode_str m) = m"
  by (cases m) (simp_all add: mode_of_str_def MODES_def)

lemma step_of_str [simp]: "step_of_str (step_str s) = s"
  by (cases s) (simp_all add: step_of_str_def STEPS_def)

lemma phase_of_str [simp]: "phase_of_str (phase_str p) = p"
  by (cases p) (simp_all add: phase_of_str_def PHASES_def)

lemma step_state_of_str [simp]: "step_state_of_str (step_state_str s) = s"
  by (cases s) (simp_all add: step_state_of_str_def STEP_STATES_def)

lemma receipt_state_of_str [simp]: "receipt_state_of_str (receipt_state_str s) = s"
  by (cases s) (simp_all add: receipt_state_of_str_def RECEIPT_STATES_def)

lemma mode_str_inject [simp]: "mode_str a = mode_str b \<longleftrightarrow> a = b"
  by (metis mode_of_str)

lemma step_str_inject [simp]: "step_str a = step_str b \<longleftrightarrow> a = b"
  by (metis step_of_str)

lemma phase_str_inject [simp]: "phase_str a = phase_str b \<longleftrightarrow> a = b"
  by (metis phase_of_str)

lemma in_STEPS [simp]: "s \<in> set STEPS"
  by (cases s) (simp_all add: STEPS_def)

lemma in_PHASES [simp]: "p \<in> set PHASES"
  by (cases p) (simp_all add: PHASES_def)

section \<open>The tables of the two kinds\<close>

fun allowed_transitions_pull_request :: "phase \<Rightarrow> phase list" where
  "allowed_transitions_pull_request AUTHORIZED = [BASE_CURRENT, BLOCKED, REVOKED]"
| "allowed_transitions_pull_request BASE_CURRENT = [COMMITTED, BLOCKED, REVOKED]"
| "allowed_transitions_pull_request COMMITTED = [PUSHED, BLOCKED, REVOKED]"
| "allowed_transitions_pull_request PUSHED = [PR_OPENED, BLOCKED, REVOKED]"
| "allowed_transitions_pull_request PR_OPENED = [COMPLETE, BLOCKED, REVOKED]"
| "allowed_transitions_pull_request COMPLETE = []"
| "allowed_transitions_pull_request BLOCKED = []"
| "allowed_transitions_pull_request REVOKED = []"

fun step_for_phase_pull_request :: "phase \<Rightarrow> step option" where
  "step_for_phase_pull_request AUTHORIZED = Some BASE_REFRESH"
| "step_for_phase_pull_request BASE_CURRENT = Some COMMIT"
| "step_for_phase_pull_request COMMITTED = Some PUSH"
| "step_for_phase_pull_request PUSHED = Some PR_CREATE"
| "step_for_phase_pull_request _ = None"

fun allowed_transitions_pr_update :: "phase \<Rightarrow> phase list" where
  "allowed_transitions_pr_update AUTHORIZED = [COMMITTED, BLOCKED, REVOKED]"
| "allowed_transitions_pr_update COMMITTED = [PUSHED, BLOCKED, REVOKED]"
| "allowed_transitions_pr_update PUSHED = [COMPLETE, BLOCKED, REVOKED]"
| "allowed_transitions_pr_update _ = []"

fun step_for_phase_pr_update :: "phase \<Rightarrow> step option" where
  "step_for_phase_pr_update AUTHORIZED = Some COMMIT"
| "step_for_phase_pr_update COMMITTED = Some PUSH"
| "step_for_phase_pr_update _ = None"

fun allowed_transitions :: "mode \<Rightarrow> phase \<Rightarrow> phase list" where
  "allowed_transitions PULL_REQUEST p = allowed_transitions_pull_request p"
| "allowed_transitions PR_UPDATE p = allowed_transitions_pr_update p"

fun step_for_phase :: "mode \<Rightarrow> phase \<Rightarrow> step option" where
  "step_for_phase PULL_REQUEST p = step_for_phase_pull_request p"
| "step_for_phase PR_UPDATE p = step_for_phase_pr_update p"

definition validate_transition :: "phase \<Rightarrow> phase \<Rightarrow> mode \<Rightarrow> check" where
  "validate_transition current_phase new_phase m =
     require (new_phase \<in> set (allowed_transitions m current_phase))
       (AuthorizationError ''pr_delivery_invalid_transition'')"

section \<open>Sources, bounds and key tuples\<close>

definition AUTHORIZATION_SOURCE_LOCAL_TERMINAL :: str where
  "AUTHORIZATION_SOURCE_LOCAL_TERMINAL = ''local_terminal''"

definition AUTHORIZATION_SOURCE_DOTS_OPERATOR_ATTESTED :: str where
  "AUTHORIZATION_SOURCE_DOTS_OPERATOR_ATTESTED = ''dots_operator_attested''"

definition AUTHORIZATION_SOURCES :: "str list" where
  "AUTHORIZATION_SOURCES =
     [AUTHORIZATION_SOURCE_LOCAL_TERMINAL, AUTHORIZATION_SOURCE_DOTS_OPERATOR_ATTESTED]"

definition DOTS_ATTESTED_IDENTITY :: str where
  "DOTS_ATTESTED_IDENTITY = ''operator_attested_relay:outer_operator_relay''"

definition DOTS_CONFIRMATION :: str where
  "DOTS_CONFIRMATION = ''operator_relayed''"

definition DOTS_PROVENANCE :: str where
  "DOTS_PROVENANCE = ''operator_attested_not_independently_verified''"

definition DOTS_RESIDUAL_RISK :: str where
  "DOTS_RESIDUAL_RISK =
     ''operator-attested: the Outer Operator reports that the human replied''
     @ '' with this delivery approval; this layer did not verify the human, and a''
     @ '' mistaken or malicious same-user operator or local process could''
     @ '' fabricate it. Every digest and reference here was supplied by the''
     @ '' Operator: Operator attestation, not verified authorship. The full''
     @ '' binding ties the decision to one exact candidate; it does not bind the''
     @ '' reply to a human cryptographically''"

definition DOTS_AFFIRMATIVE_REPLIES :: "str list" where
  "DOTS_AFFIRMATIVE_REPLIES = [''approved'', ''approve'']"

definition DOTS_ATTESTATION_KEYS :: "str list" where
  "DOTS_ATTESTATION_KEYS =
     [''proposal_digest_sha256'', ''presented_at'', ''reply_to'', ''relayed_reply'',
      ''relay_ref'', ''confirmation'', ''provenance'', ''residual_risk'']"

definition DELIVERY_PROPOSAL_BINDING_KEYS :: "str list" where
  "DELIVERY_PROPOSAL_BINDING_KEYS =
     [''revision'', ''previous_delivery_id'', ''workflow_identity'', ''mission'',
      ''repository'', ''remote'', ''mode'', ''source'', ''target_base'',
      ''original_baseline'', ''candidate'', ''evidence'', ''allowed_actions'',
      ''committer'', ''reverification'', ''pr_content'']"

definition PR_UPDATE_DELIVERY_PROPOSAL_BINDING_KEYS :: "str list" where
  "PR_UPDATE_DELIVERY_PROPOSAL_BINDING_KEYS =
     DELIVERY_PROPOSAL_BINDING_KEYS @ [''delivery_id'', ''pull_request_number'', ''staged_sha256'']"

definition AUTHORITY_KEYS :: "str list" where
  "AUTHORITY_KEYS =
     [''schema_version'', ''delivery_id'', ''revision'', ''previous_delivery_id'',
      ''workflow_identity'', ''mission'', ''repository'', ''remote'', ''mode'',
      ''source'', ''target_base'', ''original_baseline'', ''candidate'', ''evidence'',
      ''allowed_actions'', ''committer'', ''reverification'', ''pr_content'',
      ''human_authorization'', ''expiration'']"

definition PR_UPDATE_AUTHORITY_KEYS :: "str list" where
  "PR_UPDATE_AUTHORITY_KEYS = AUTHORITY_KEYS @ [''pull_request_number'', ''staged_sha256'']"

definition STATE_KEYS :: "str list" where
  "STATE_KEYS =
     [''phase'', ''steps'', ''base_state'', ''revocation'', ''blocker'', ''pull_request'', ''updated_at'']"

text \<open>The kind's tuples; a value that is no known kind selects the \<open>pull_request\<close> one.\<close>

definition authority_keys :: "json \<Rightarrow> str list" where
  "authority_keys m = (if m = JStr (mode_str PR_UPDATE) then PR_UPDATE_AUTHORITY_KEYS else AUTHORITY_KEYS)"

definition proposal_binding_keys :: "json \<Rightarrow> str list" where
  "proposal_binding_keys m =
     (if m = JStr (mode_str PR_UPDATE) then PR_UPDATE_DELIVERY_PROPOSAL_BINDING_KEYS
      else DELIVERY_PROPOSAL_BINDING_KEYS)"

definition top_level_keys :: "json \<Rightarrow> str list" where
  "top_level_keys m = authority_keys m @ [''authority_digest_sha256''] @ STATE_KEYS"

definition MAX_PR_TITLE_CHARS :: nat where "MAX_PR_TITLE_CHARS = 256"
definition MAX_PR_BODY_CHARS :: nat where "MAX_PR_BODY_CHARS = 16384"
definition MAX_AUTHORIZATION_VALIDITY_SECONDS :: int where "MAX_AUTHORIZATION_VALIDITY_SECONDS = 604800"
definition MAX_HUMAN_TEXT_CHARS :: nat where "MAX_HUMAN_TEXT_CHARS = 8000"
definition MAX_EVIDENCE_TEXT_CHARS :: nat where "MAX_EVIDENCE_TEXT_CHARS = 4000"
definition MAX_STEP_ATTEMPTS :: nat where "MAX_STEP_ATTEMPTS = 8"
definition MAX_REMOTE_URL_CHARS :: nat where "MAX_REMOTE_URL_CHARS = 512 + 4"
definition MAX_REVERIFICATION_ARGV :: nat where "MAX_REVERIFICATION_ARGV = 64"
definition MAX_PULL_REQUEST_NUMBER :: int where "MAX_PULL_REQUEST_NUMBER = 2147483647"
definition MAX_RELAY_TEXT_CHARS :: nat where "MAX_RELAY_TEXT_CHARS = 200"
definition MAX_RELAY_REF_CHARS :: nat where "MAX_RELAY_REF_CHARS = 128"
definition DELIVERY_ID_PREFIX :: str where "DELIVERY_ID_PREFIX = ''prd-''"
definition DELIVERY_ID_HEX_CHARS :: nat where "DELIVERY_ID_HEX_CHARS = 24"

definition BASE_REFRESH_RECEIPT_BINDING_FIELDS :: "str list" where
  "BASE_REFRESH_RECEIPT_BINDING_FIELDS =
     [''repository_realpath'', ''git_dir_realpath'', ''remote_name'',
      ''remote_url_exact'', ''remote_url_fetch'', ''source_ref'', ''base_ref'',
      ''old_base_oid'', ''new_base_oid'', ''fast_forward'',
      ''base_changed_paths_digest'', ''candidate_identity_digest'']"

definition COMMIT_RECEIPT_BINDING_FIELDS :: "str list" where
  "COMMIT_RECEIPT_BINDING_FIELDS =
     [''repository_realpath'', ''git_dir_realpath'', ''branch'', ''source_ref'',
      ''head_before'', ''staged_sha256'', ''candidate_identity_digest'',
      ''expected_tree_oid'', ''committer_name'', ''committer_email'', ''message_sha256'']"

definition PUSH_RECEIPT_BINDING_FIELDS :: "str list" where
  "PUSH_RECEIPT_BINDING_FIELDS =
     [''repository_realpath'', ''remote_name'', ''remote_url_exact'',
      ''remote_url_push'', ''source_ref'', ''source_commit'', ''destination_ref'',
      ''expected_remote_old_oid'', ''candidate_identity_digest'']"

definition PR_CREATE_RECEIPT_BINDING_FIELDS :: "str list" where
  "PR_CREATE_RECEIPT_BINDING_FIELDS =
     [''owner'', ''repo'', ''remote_url_exact'', ''head_branch'', ''head_sha'',
      ''base_branch'', ''title_sha256'', ''body_sha256'', ''candidate_identity_digest'']"

fun receipt_binding_fields :: "step \<Rightarrow> str list" where
  "receipt_binding_fields BASE_REFRESH = BASE_REFRESH_RECEIPT_BINDING_FIELDS"
| "receipt_binding_fields COMMIT = COMMIT_RECEIPT_BINDING_FIELDS"
| "receipt_binding_fields PUSH = PUSH_RECEIPT_BINDING_FIELDS"
| "receipt_binding_fields PR_CREATE = PR_CREATE_RECEIPT_BINDING_FIELDS"

definition RECEIPT_KEYS :: "str list" where
  "RECEIPT_KEYS =
     [''receipt_id'', ''step'', ''delivery_id'', ''parent_authority_digest_sha256'',
      ''derived_at'', ''attempt'', ''state'', ''binding'', ''observed'', ''receipt_digest_sha256'']"

definition RECEIPT_DIGEST_EXCLUDED_KEYS :: "str list" where
  "RECEIPT_DIGEST_EXCLUDED_KEYS = [''state'', ''observed'', ''receipt_digest_sha256'']"

section \<open>The interface of a phase table\<close>

text \<open>
  What every user of a transition table relies on: each allowed transition increases
  a bounded rank, and a terminal phase allows none. It follows that a run through the
  table visits each phase at most once, that its length is bounded, and that nothing
  follows a terminal phase.
\<close>

locale phase_table =
  fixes table :: "'p \<Rightarrow> 'p list"
    and terminal :: "'p \<Rightarrow> bool"
    and rank :: "'p \<Rightarrow> nat"
    and bound :: nat
  assumes rank_increases: "q \<in> set (table p) \<Longrightarrow> rank p < rank q"
    and rank_bound: "rank p \<le> bound"
    and terminal_stuck: "terminal p \<Longrightarrow> table p = []"
begin

inductive run :: "'p \<Rightarrow> 'p list \<Rightarrow> bool" where
  run_Nil: "run p []"
| run_Cons: "q \<in> set (table p) \<Longrightarrow> run q qs \<Longrightarrow> run p (q # qs)"

lemma run_rank: "run p qs \<Longrightarrow> q \<in> set qs \<Longrightarrow> rank p < rank q"
  by (induction rule: run.induct) (auto dest: rank_increases less_trans)

lemma run_distinct: "run p qs \<Longrightarrow> distinct (p # qs)"
proof (induction rule: run.induct)
  case (run_Nil p)
  show ?case by simp
next
  case (run_Cons q p qs)
  then have "run p (q # qs)" by (intro run.run_Cons)
  then have "p \<notin> set (q # qs)" using run_rank by blast
  with run_Cons show ?case by simp
qed

lemma run_length: "run p qs \<Longrightarrow> rank p + length qs \<le> bound"
proof (induction rule: run.induct)
  case (run_Nil p)
  show ?case by (simp add: rank_bound)
next
  case (run_Cons q p qs)
  with rank_increases [of q p] show ?case by simp
qed

lemma run_terminal: "run p qs \<Longrightarrow> terminal p \<Longrightarrow> qs = []"
  by (erule run.cases) (auto dest: terminal_stuck)

end

fun phase_rank :: "phase \<Rightarrow> nat" where
  "phase_rank AUTHORIZED = 0"
| "phase_rank BASE_CURRENT = 1"
| "phase_rank COMMITTED = 2"
| "phase_rank PUSHED = 3"
| "phase_rank PR_OPENED = 4"
| "phase_rank COMPLETE = 5"
| "phase_rank BLOCKED = 6"
| "phase_rank REVOKED = 6"

definition is_terminal :: "phase \<Rightarrow> bool" where
  "is_terminal p \<longleftrightarrow> p \<in> set TERMINAL_PHASES"

lemma is_terminal_simps [simp]:
  "is_terminal COMPLETE" "is_terminal BLOCKED" "is_terminal REVOKED"
  "\<not> is_terminal AUTHORIZED" "\<not> is_terminal BASE_CURRENT" "\<not> is_terminal COMMITTED"
  "\<not> is_terminal PUSHED" "\<not> is_terminal PR_OPENED"
  by (simp_all add: is_terminal_def TERMINAL_PHASES_def)

interpretation prt: phase_table allowed_transitions_pull_request is_terminal phase_rank 6
proof (unfold_locales, goal_cases)
  case (1 q p)
  then show ?case by (cases p) auto
next
  case (2 p)
  show ?case by (cases p) auto
next
  case (3 p)
  then show ?case by (cases p) auto
qed

interpretation upt: phase_table allowed_transitions_pr_update is_terminal phase_rank 6
proof (unfold_locales, goal_cases)
  case (1 q p)
  then show ?case by (cases p) auto
next
  case (2 p)
  show ?case by (cases p) auto
next
  case (3 p)
  then show ?case by (cases p) auto
qed

lemma allowed_transition_rank: "q \<in> set (allowed_transitions m p) \<Longrightarrow> phase_rank p < phase_rank q"
  by (cases m) (auto dest: prt.rank_increases upt.rank_increases)

lemma terminal_no_transition: "is_terminal p \<Longrightarrow> allowed_transitions m p = []"
  by (cases m) (auto dest: prt.terminal_stuck upt.terminal_stuck)

lemma step_for_terminal: "is_terminal p \<Longrightarrow> step_for_phase m p = None"
  by (cases m; cases p) auto

end
