(* ===== verification/Delivery.thy ===== *)
theory Delivery
  imports Tables
begin

text \<open>
  The PR Delivery Authorization record: one typed record per object of
  \<open>pr_delivery/authorization.py\<close>, with the JSON object that the store holds for it.
  The authority half is immutable after the ceremony, the state half is what the
  machine changes. Decoding inverts encoding.
\<close>

section \<open>Optional values and lists\<close>

definition opt_json :: "('a \<Rightarrow> json) \<Rightarrow> 'a option \<Rightarrow> json" where
  "opt_json f v = (case v of None \<Rightarrow> JNull | Some x \<Rightarrow> f x)"

definition json_opt :: "(json \<Rightarrow> 'a) \<Rightarrow> json \<Rightarrow> 'a option" where
  "json_opt f j = (case j of JNull \<Rightarrow> None | _ \<Rightarrow> Some (f j))"

definition list_json :: "('a \<Rightarrow> json) \<Rightarrow> 'a list \<Rightarrow> json" where
  "list_json f xs = JList (map f xs)"

definition json_list :: "(json \<Rightarrow> 'a) \<Rightarrow> json \<Rightarrow> 'a list" where
  "json_list f j = map f (list_of j)"

lemma json_opt_None [simp]: "json_opt f (opt_json g None) = None"
  by (simp add: json_opt_def opt_json_def)

lemma json_opt_simps [simp]:
  "json_opt str_of (opt_json JStr v) = v"
  "json_opt num_of (opt_json JNum w) = w"
  by (cases v; simp add: json_opt_def opt_json_def) (cases w; simp add: json_opt_def opt_json_def)

lemma json_opt_obj:
  "(\<And>x. \<exists>kvs. f x = JObj kvs) \<Longrightarrow> (\<And>x. g (f x) = x) \<Longrightarrow> json_opt g (opt_json f v) = v"
proof (cases v)
  case (Some x)
  assume *: "\<And>x. \<exists>kvs. f x = JObj kvs" "\<And>x. g (f x) = x"
  from *(1) obtain kvs where "f x = JObj kvs" by blast
  moreover from this *(2) have "g (JObj kvs) = x" by metis
  ultimately show ?thesis using Some by (simp add: json_opt_def opt_json_def)
qed simp

lemma json_list_json [simp]: "(\<And>x. g (f x) = x) \<Longrightarrow> json_list g (list_json f xs) = xs"
  by (induction xs) (simp_all add: json_list_def list_json_def)

lemma json_list_str [simp]: "json_list str_of (list_json JStr xs) = xs"
  by simp

section \<open>The authority half\<close>

text \<open>The repository: its real paths and its canonical identity.\<close>

record repository =
  rp_realpath :: str
  rp_git_dir :: str
  rp_host :: str
  rp_owner :: str
  rp_repo :: str
  rp_url :: str

definition repository_json :: "repository \<Rightarrow> json" where
  "repository_json r = JObj
     [(''realpath'', JStr (rp_realpath r)),
      (''git_dir_realpath'', JStr (rp_git_dir r)),
      (''canonical_host'', JStr (rp_host r)),
      (''owner'', JStr (rp_owner r)),
      (''repo'', JStr (rp_repo r)),
      (''repository_url'', JStr (rp_url r))]"

definition repository_of_json :: "json \<Rightarrow> repository" where
  "repository_of_json j =
     \<lparr>rp_realpath = str_of (jget ''realpath'' j),
      rp_git_dir = str_of (jget ''git_dir_realpath'' j),
      rp_host = str_of (jget ''canonical_host'' j),
      rp_owner = str_of (jget ''owner'' j),
      rp_repo = str_of (jget ''repo'' j),
      rp_url = str_of (jget ''repository_url'' j)\<rparr>"

lemma repository_of_json [simp]: "repository_of_json (repository_json r) = r"
  by (simp add: repository_of_json_def repository_json_def)

text \<open>The remote: the configured URL and the expanded fetch and push URLs.\<close>

record remote =
  rm_name :: str
  rm_url_exact :: str
  rm_url_fetch :: str
  rm_url_push :: str
  rm_repository_url :: str

definition remote_json :: "remote \<Rightarrow> json" where
  "remote_json r = JObj
     [(''name'', JStr (rm_name r)),
      (''url_exact'', JStr (rm_url_exact r)),
      (''url_fetch'', JStr (rm_url_fetch r)),
      (''url_push'', JStr (rm_url_push r)),
      (''repository_url'', JStr (rm_repository_url r))]"

definition remote_of_json :: "json \<Rightarrow> remote" where
  "remote_of_json j =
     \<lparr>rm_name = str_of (jget ''name'' j),
      rm_url_exact = str_of (jget ''url_exact'' j),
      rm_url_fetch = str_of (jget ''url_fetch'' j),
      rm_url_push = str_of (jget ''url_push'' j),
      rm_repository_url = str_of (jget ''repository_url'' j)\<rparr>"

lemma remote_of_json [simp]: "remote_of_json (remote_json r) = r"
  by (simp add: remote_of_json_def remote_json_def)

text \<open>A branch with its ref; the source and the target base.\<close>

record branch_pair =
  bp_branch :: str
  bp_ref :: str

definition branch_pair_json :: "branch_pair \<Rightarrow> json" where
  "branch_pair_json r = JObj
     [(''branch'', JStr (bp_branch r)),
      (''ref'', JStr (bp_ref r))]"

definition branch_pair_of_json :: "json \<Rightarrow> branch_pair" where
  "branch_pair_of_json j =
     \<lparr>bp_branch = str_of (jget ''branch'' j),
      bp_ref = str_of (jget ''ref'' j)\<rparr>"

lemma branch_pair_of_json [simp]: "branch_pair_of_json (branch_pair_json r) = r"
  by (simp add: branch_pair_of_json_def branch_pair_json_def)

text \<open>The baseline the candidate sits on.\<close>

record baseline =
  bl_ref :: str
  bl_sha :: str

definition baseline_json :: "baseline \<Rightarrow> json" where
  "baseline_json r = JObj
     [(''ref'', JStr (bl_ref r)),
      (''commit_sha'', JStr (bl_sha r))]"

definition baseline_of_json :: "json \<Rightarrow> baseline" where
  "baseline_of_json j =
     \<lparr>bl_ref = str_of (jget ''ref'' j),
      bl_sha = str_of (jget ''commit_sha'' j)\<rparr>"

lemma baseline_of_json [simp]: "baseline_of_json (baseline_json r) = r"
  by (simp add: baseline_of_json_def baseline_json_def)

text \<open>The optional Mission parent.\<close>

record mission_parent =
  mp_workflow_id :: str
  mp_digest :: str

definition mission_parent_json :: "mission_parent \<Rightarrow> json" where
  "mission_parent_json r = JObj
     [(''workflow_id'', JStr (mp_workflow_id r)),
      (''mission_authorization_digest_sha256'', JStr (mp_digest r))]"

definition mission_parent_of_json :: "json \<Rightarrow> mission_parent" where
  "mission_parent_of_json j =
     \<lparr>mp_workflow_id = str_of (jget ''workflow_id'' j),
      mp_digest = str_of (jget ''mission_authorization_digest_sha256'' j)\<rparr>"

lemma mission_parent_of_json [simp]: "mission_parent_of_json (mission_parent_json r) = r"
  by (simp add: mission_parent_of_json_def mission_parent_json_def)

text \<open>The entries of the candidate.\<close>

definition cand_entry_json :: "cand_entry \<Rightarrow> json" where
  "cand_entry_json e = JObj
     [(''path'', JStr (ce_path e)),
      (''status'', JStr (ce_status e)),
      (''mode'', JStr (ce_mode e)),
      (''blob'', JStr (ce_blob e))]"

definition cand_entry_of_json :: "json \<Rightarrow> cand_entry" where
  "cand_entry_of_json j =
     \<lparr>ce_path = str_of (jget ''path'' j),
      ce_status = str_of (jget ''status'' j),
      ce_mode = str_of (jget ''mode'' j),
      ce_blob = str_of (jget ''blob'' j)\<rparr>"

lemma cand_entry_of_json [simp]: "cand_entry_of_json (cand_entry_json e) = e"
  by (simp add: cand_entry_of_json_def cand_entry_json_def)

text \<open>The candidate: its identity digest, its number of entries and the entries.\<close>

record candidate =
  cd_digest :: str
  cd_count :: int
  cd_entries :: "cand_entry list"

definition candidate_json :: "candidate \<Rightarrow> json" where
  "candidate_json r = JObj
     [(''identity_digest_sha256'', JStr (cd_digest r)),
      (''entry_count'', JInt (cd_count r)),
      (''entries'', list_json cand_entry_json (cd_entries r))]"

definition candidate_of_json :: "json \<Rightarrow> candidate" where
  "candidate_of_json j =
     \<lparr>cd_digest = str_of (jget ''identity_digest_sha256'' j),
      cd_count = int_of_json (jget ''entry_count'' j),
      cd_entries = json_list cand_entry_of_json (jget ''entries'' j)\<rparr>"

lemma candidate_of_json [simp]: "candidate_of_json (candidate_json r) = r"
  by (simp add: candidate_of_json_def candidate_json_def)

text \<open>The three pieces of evidence.\<close>

record engineering =
  en_task_id :: str
  en_status :: str
  en_state_sha256 :: str
  en_recorded_at :: pynum
  en_candidate :: str
  en_base_oid :: str

definition engineering_json :: "engineering \<Rightarrow> json" where
  "engineering_json r = JObj
     [(''task_id'', JStr (en_task_id r)),
      (''status'', JStr (en_status r)),
      (''task_state_sha256'', JStr (en_state_sha256 r)),
      (''recorded_at'', JNum (en_recorded_at r)),
      (''candidate_identity_digest_sha256'', JStr (en_candidate r)),
      (''base_oid'', JStr (en_base_oid r))]"

definition engineering_of_json :: "json \<Rightarrow> engineering" where
  "engineering_of_json j =
     \<lparr>en_task_id = str_of (jget ''task_id'' j),
      en_status = str_of (jget ''status'' j),
      en_state_sha256 = str_of (jget ''task_state_sha256'' j),
      en_recorded_at = num_of (jget ''recorded_at'' j),
      en_candidate = str_of (jget ''candidate_identity_digest_sha256'' j),
      en_base_oid = str_of (jget ''base_oid'' j)\<rparr>"

lemma engineering_of_json [simp]: "engineering_of_json (engineering_json r) = r"
  by (simp add: engineering_of_json_def engineering_json_def)

text \<open>The canonical Reviewer decision.\<close>

record review =
  rv_task_id :: str
  rv_round :: int
  rv_file_name :: str
  rv_file_sha256 :: str
  rv_decision :: str
  rv_recorded_at :: pynum
  rv_candidate :: str
  rv_base_oid :: str

definition review_json :: "review \<Rightarrow> json" where
  "review_json r = JObj
     [(''task_id'', JStr (rv_task_id r)),
      (''round'', JInt (rv_round r)),
      (''review_file_name'', JStr (rv_file_name r)),
      (''review_file_sha256'', JStr (rv_file_sha256 r)),
      (''decision'', JStr (rv_decision r)),
      (''recorded_at'', JNum (rv_recorded_at r)),
      (''candidate_identity_digest_sha256'', JStr (rv_candidate r)),
      (''base_oid'', JStr (rv_base_oid r))]"

definition review_of_json :: "json \<Rightarrow> review" where
  "review_of_json j =
     \<lparr>rv_task_id = str_of (jget ''task_id'' j),
      rv_round = int_of_json (jget ''round'' j),
      rv_file_name = str_of (jget ''review_file_name'' j),
      rv_file_sha256 = str_of (jget ''review_file_sha256'' j),
      rv_decision = str_of (jget ''decision'' j),
      rv_recorded_at = num_of (jget ''recorded_at'' j),
      rv_candidate = str_of (jget ''candidate_identity_digest_sha256'' j),
      rv_base_oid = str_of (jget ''base_oid'' j)\<rparr>"

lemma review_of_json [simp]: "review_of_json (review_json r) = r"
  by (simp add: review_of_json_def review_json_def)

text \<open>The independent verification run.\<close>

record verification =
  vf_argv :: "str list"
  vf_exit_status :: int
  vf_log_sha256 :: str
  vf_log_bytes :: int
  vf_ran_at :: pynum
  vf_recorded_at :: pynum
  vf_candidate :: str
  vf_base_oid :: str

definition verification_json :: "verification \<Rightarrow> json" where
  "verification_json r = JObj
     [(''command_argv'', list_json JStr (vf_argv r)),
      (''exit_status'', JInt (vf_exit_status r)),
      (''log_sha256'', JStr (vf_log_sha256 r)),
      (''log_bytes'', JInt (vf_log_bytes r)),
      (''ran_at'', JNum (vf_ran_at r)),
      (''recorded_at'', JNum (vf_recorded_at r)),
      (''candidate_identity_digest_sha256'', JStr (vf_candidate r)),
      (''base_oid'', JStr (vf_base_oid r))]"

definition verification_of_json :: "json \<Rightarrow> verification" where
  "verification_of_json j =
     \<lparr>vf_argv = json_list str_of (jget ''command_argv'' j),
      vf_exit_status = int_of_json (jget ''exit_status'' j),
      vf_log_sha256 = str_of (jget ''log_sha256'' j),
      vf_log_bytes = int_of_json (jget ''log_bytes'' j),
      vf_ran_at = num_of (jget ''ran_at'' j),
      vf_recorded_at = num_of (jget ''recorded_at'' j),
      vf_candidate = str_of (jget ''candidate_identity_digest_sha256'' j),
      vf_base_oid = str_of (jget ''base_oid'' j)\<rparr>"

lemma verification_of_json [simp]: "verification_of_json (verification_json r) = r"
  by (simp add: verification_of_json_def verification_json_def)

text \<open>The evidence references.\<close>

record evidence =
  ev_engineering :: engineering
  ev_review :: review
  ev_verification :: verification

definition evidence_json :: "evidence \<Rightarrow> json" where
  "evidence_json r = JObj
     [(''engineering_complete'', engineering_json (ev_engineering r)),
      (''reviewer_approve'', review_json (ev_review r)),
      (''independent_verification'', verification_json (ev_verification r))]"

definition evidence_of_json :: "json \<Rightarrow> evidence" where
  "evidence_of_json j =
     \<lparr>ev_engineering = engineering_of_json (jget ''engineering_complete'' j),
      ev_review = review_of_json (jget ''reviewer_approve'' j),
      ev_verification = verification_of_json (jget ''independent_verification'' j)\<rparr>"

lemma evidence_of_json [simp]: "evidence_of_json (evidence_json r) = r"
  by (simp add: evidence_of_json_def evidence_json_def)

text \<open>The identity the commit carries.\<close>

record committer =
  cm_name :: str
  cm_email :: str

definition committer_json :: "committer \<Rightarrow> json" where
  "committer_json r = JObj
     [(''name'', JStr (cm_name r)),
      (''email'', JStr (cm_email r))]"

definition committer_of_json :: "json \<Rightarrow> committer" where
  "committer_of_json j =
     \<lparr>cm_name = str_of (jget ''name'' j),
      cm_email = str_of (jget ''email'' j)\<rparr>"

lemma committer_of_json [simp]: "committer_of_json (committer_json r) = r"
  by (simp add: committer_of_json_def committer_json_def)

text \<open>The human text of the pull request.\<close>

record pr_content =
  pc_title :: str
  pc_objective :: str
  pc_notes :: str
  pc_risks :: str

definition pr_content_json :: "pr_content \<Rightarrow> json" where
  "pr_content_json r = JObj
     [(''title'', JStr (pc_title r)),
      (''objective'', JStr (pc_objective r)),
      (''architecture_notes'', JStr (pc_notes r)),
      (''nonblocking_risks'', JStr (pc_risks r))]"

definition pr_content_of_json :: "json \<Rightarrow> pr_content" where
  "pr_content_of_json j =
     \<lparr>pc_title = str_of (jget ''title'' j),
      pc_objective = str_of (jget ''objective'' j),
      pc_notes = str_of (jget ''architecture_notes'' j),
      pc_risks = str_of (jget ''nonblocking_risks'' j)\<rparr>"

lemma pr_content_of_json [simp]: "pr_content_of_json (pr_content_json r) = r"
  by (simp add: pr_content_of_json_def pr_content_json_def)

text \<open>The attestation that an operator-attested authorization carries.\<close>

record attestation =
  at_proposal_digest :: str
  at_presented_at :: pynum
  at_reply_to :: str
  at_relayed_reply :: str
  at_relay_ref :: str
  at_confirmation :: str
  at_provenance :: str
  at_residual_risk :: str

definition attestation_json :: "attestation \<Rightarrow> json" where
  "attestation_json r = JObj
     [(''proposal_digest_sha256'', JStr (at_proposal_digest r)),
      (''presented_at'', JNum (at_presented_at r)),
      (''reply_to'', JStr (at_reply_to r)),
      (''relayed_reply'', JStr (at_relayed_reply r)),
      (''relay_ref'', JStr (at_relay_ref r)),
      (''confirmation'', JStr (at_confirmation r)),
      (''provenance'', JStr (at_provenance r)),
      (''residual_risk'', JStr (at_residual_risk r))]"

definition attestation_of_json :: "json \<Rightarrow> attestation" where
  "attestation_of_json j =
     \<lparr>at_proposal_digest = str_of (jget ''proposal_digest_sha256'' j),
      at_presented_at = num_of (jget ''presented_at'' j),
      at_reply_to = str_of (jget ''reply_to'' j),
      at_relayed_reply = str_of (jget ''relayed_reply'' j),
      at_relay_ref = str_of (jget ''relay_ref'' j),
      at_confirmation = str_of (jget ''confirmation'' j),
      at_provenance = str_of (jget ''provenance'' j),
      at_residual_risk = str_of (jget ''residual_risk'' j)\<rparr>"

lemma attestation_of_json [simp]: "attestation_of_json (attestation_json r) = r"
  by (simp add: attestation_of_json_def attestation_json_def)

text \<open>The human authorization; only the operator-attested source has an attestation.\<close>

record human_authorization =
  ha_identity :: str
  ha_source :: str
  ha_authorized_at :: pynum
  ha_confirmation :: str
  ha_attestation :: "attestation option"

definition human_authorization_json :: "human_authorization \<Rightarrow> json" where
  "human_authorization_json r = JObj
     ([(''identity'', JStr (ha_identity r)),
       (''source'', JStr (ha_source r)),
       (''authorized_at'', JNum (ha_authorized_at r)),
       (''confirmation_digest_sha256'', JStr (ha_confirmation r))]
      @ (case ha_attestation r of None \<Rightarrow> [] | Some a \<Rightarrow> [(''attestation'', attestation_json a)]))"

definition human_authorization_of_json :: "json \<Rightarrow> human_authorization" where
  "human_authorization_of_json j =
     \<lparr>ha_identity = str_of (jget ''identity'' j),
      ha_source = str_of (jget ''source'' j),
      ha_authorized_at = num_of (jget ''authorized_at'' j),
      ha_confirmation = str_of (jget ''confirmation_digest_sha256'' j),
      ha_attestation =
        (if jhas ''attestation'' j then Some (attestation_of_json (jget ''attestation'' j)) else None)\<rparr>"

lemma human_authorization_of_json [simp]:
  "human_authorization_of_json (human_authorization_json r) = r"
  by (cases "ha_attestation r")
     (simp_all add: human_authorization_of_json_def human_authorization_json_def jhas_def)

text \<open>The absolute deadline.\<close>

record expiration =
  ex_policy :: str
  ex_expires_at :: pynum

definition expiration_json :: "expiration \<Rightarrow> json" where
  "expiration_json r = JObj
     [(''policy'', JStr (ex_policy r)),
      (''expires_at'', JNum (ex_expires_at r))]"

definition expiration_of_json :: "json \<Rightarrow> expiration" where
  "expiration_of_json j =
     \<lparr>ex_policy = str_of (jget ''policy'' j),
      ex_expires_at = num_of (jget ''expires_at'' j)\<rparr>"

lemma expiration_of_json [simp]: "expiration_of_json (expiration_json r) = r"
  by (simp add: expiration_of_json_def expiration_json_def)

text \<open>
  The authority half. The last two fields belong to the \<open>pr_update\<close> kind alone: the JSON
  object has their keys only where they have a value.
\<close>

record authority =
  a_delivery_id :: str
  a_revision :: int
  a_previous_delivery_id :: "str option"
  a_workflow_id :: str
  a_engineering_task_id :: str
  a_mission :: "mission_parent option"
  a_repository :: repository
  a_remote :: remote
  a_mode :: mode
  a_source :: branch_pair
  a_target_base :: branch_pair
  a_baseline :: baseline
  a_candidate :: candidate
  a_evidence :: evidence
  a_allowed_actions :: "step list"
  a_committer :: committer
  a_reverification :: "str list"
  a_pr_content :: pr_content
  a_human :: human_authorization
  a_expiration :: expiration
  a_pull_request_number :: "int option"
  a_staged_sha256 :: "str option"

definition workflow_identity_json :: "authority \<Rightarrow> json" where
  "workflow_identity_json a = JObj
     [(''workflow_id'', JStr (a_workflow_id a)),
      (''engineering_task_id'', JStr (a_engineering_task_id a))]"

definition authority_fields :: "authority \<Rightarrow> (str \<times> json) list" where
  "authority_fields a =
     [(''schema_version'', JInt 1),
      (''delivery_id'', JStr (a_delivery_id a)),
      (''revision'', JInt (a_revision a)),
      (''previous_delivery_id'', opt_json JStr (a_previous_delivery_id a)),
      (''workflow_identity'', workflow_identity_json a),
      (''mission'', opt_json mission_parent_json (a_mission a)),
      (''repository'', repository_json (a_repository a)),
      (''remote'', remote_json (a_remote a)),
      (''mode'', JStr (mode_str (a_mode a))),
      (''source'', branch_pair_json (a_source a)),
      (''target_base'', branch_pair_json (a_target_base a)),
      (''original_baseline'', baseline_json (a_baseline a)),
      (''candidate'', candidate_json (a_candidate a)),
      (''evidence'', evidence_json (a_evidence a)),
      (''allowed_actions'', list_json (\<lambda>s. JStr (step_str s)) (a_allowed_actions a)),
      (''committer'', committer_json (a_committer a)),
      (''reverification'', JObj [(''argv'', list_json JStr (a_reverification a))]),
      (''pr_content'', pr_content_json (a_pr_content a)),
      (''human_authorization'', human_authorization_json (a_human a)),
      (''expiration'', expiration_json (a_expiration a))]
     @ (case a_pull_request_number a of None \<Rightarrow> [] | Some n \<Rightarrow> [(''pull_request_number'', JInt n)])
     @ (case a_staged_sha256 a of None \<Rightarrow> [] | Some s \<Rightarrow> [(''staged_sha256'', JStr s)])"

definition authority_of_json :: "json \<Rightarrow> authority" where
  "authority_of_json j =
     \<lparr>a_delivery_id = str_of (jget ''delivery_id'' j),
      a_revision = int_of_json (jget ''revision'' j),
      a_previous_delivery_id = json_opt str_of (jget ''previous_delivery_id'' j),
      a_workflow_id = str_of (jget ''workflow_id'' (jget ''workflow_identity'' j)),
      a_engineering_task_id = str_of (jget ''engineering_task_id'' (jget ''workflow_identity'' j)),
      a_mission = json_opt mission_parent_of_json (jget ''mission'' j),
      a_repository = repository_of_json (jget ''repository'' j),
      a_remote = remote_of_json (jget ''remote'' j),
      a_mode = mode_of_str (str_of (jget ''mode'' j)),
      a_source = branch_pair_of_json (jget ''source'' j),
      a_target_base = branch_pair_of_json (jget ''target_base'' j),
      a_baseline = baseline_of_json (jget ''original_baseline'' j),
      a_candidate = candidate_of_json (jget ''candidate'' j),
      a_evidence = evidence_of_json (jget ''evidence'' j),
      a_allowed_actions = json_list (\<lambda>x. step_of_str (str_of x)) (jget ''allowed_actions'' j),
      a_committer = committer_of_json (jget ''committer'' j),
      a_reverification = json_list str_of (jget ''argv'' (jget ''reverification'' j)),
      a_pr_content = pr_content_of_json (jget ''pr_content'' j),
      a_human = human_authorization_of_json (jget ''human_authorization'' j),
      a_expiration = expiration_of_json (jget ''expiration'' j),
      a_pull_request_number =
        (if jhas ''pull_request_number'' j then Some (int_of_json (jget ''pull_request_number'' j)) else None),
      a_staged_sha256 =
        (if jhas ''staged_sha256'' j then Some (str_of (jget ''staged_sha256'' j)) else None)\<rparr>"

section \<open>The state half\<close>

text \<open>
  A receipt. Its binding and its observed facts stay dictionaries: the closed tuple of
  the step says which keys a binding has.
\<close>

record receipt =
  rc_id :: str
  rc_step :: step
  rc_delivery_id :: str
  rc_parent_digest :: str
  rc_derived_at :: pynum
  rc_attempt :: int
  rc_state :: receipt_state
  rc_binding :: "(str \<times> json) list"
  rc_observed :: "(str \<times> json) list option"
  rc_digest :: str

definition receipt_json :: "receipt \<Rightarrow> json" where
  "receipt_json r = JObj
     [(''receipt_id'', JStr (rc_id r)),
      (''step'', JStr (step_str (rc_step r))),
      (''delivery_id'', JStr (rc_delivery_id r)),
      (''parent_authority_digest_sha256'', JStr (rc_parent_digest r)),
      (''derived_at'', JNum (rc_derived_at r)),
      (''attempt'', JInt (rc_attempt r)),
      (''state'', JStr (receipt_state_str (rc_state r))),
      (''binding'', JObj (rc_binding r)),
      (''observed'', opt_json JObj (rc_observed r)),
      (''receipt_digest_sha256'', JStr (rc_digest r))]"

definition receipt_of_json :: "json \<Rightarrow> receipt" where
  "receipt_of_json j =
     \<lparr>rc_id = str_of (jget ''receipt_id'' j),
      rc_step = step_of_str (str_of (jget ''step'' j)),
      rc_delivery_id = str_of (jget ''delivery_id'' j),
      rc_parent_digest = str_of (jget ''parent_authority_digest_sha256'' j),
      rc_derived_at = num_of (jget ''derived_at'' j),
      rc_attempt = int_of_json (jget ''attempt'' j),
      rc_state = receipt_state_of_str (str_of (jget ''state'' j)),
      rc_binding = obj_of (jget ''binding'' j),
      rc_observed = json_opt obj_of (jget ''observed'' j),
      rc_digest = str_of (jget ''receipt_digest_sha256'' j)\<rparr>"

lemma receipt_of_json [simp]: "receipt_of_json (receipt_json r) = r"
proof -
  have "json_opt obj_of (opt_json JObj (rc_observed r)) = rc_observed r"
    by (rule json_opt_obj) auto
  then show ?thesis by (simp add: receipt_of_json_def receipt_json_def)
qed

lemma json_opt_receipt [simp]: "json_opt receipt_of_json (opt_json receipt_json v) = v"
  by (rule json_opt_obj) (simp add: receipt_json_def, simp)

lemma json_opt_mission [simp]:
  "json_opt mission_parent_of_json (opt_json mission_parent_json v) = v"
  by (rule json_opt_obj) (simp add: mission_parent_json_def, simp)

text \<open>The durable state of one step: its state, the current receipt and the receipts voided so far.\<close>

record step_entry =
  se_state :: step_state
  se_receipt :: "receipt option"
  se_voided :: "str list"

definition step_entry_json :: "step_entry \<Rightarrow> json" where
  "step_entry_json r = JObj
     [(''state'', (\<lambda>s. JStr (step_state_str s)) (se_state r)),
      (''receipt'', opt_json receipt_json (se_receipt r)),
      (''voided'', list_json JStr (se_voided r))]"

definition step_entry_of_json :: "json \<Rightarrow> step_entry" where
  "step_entry_of_json j =
     \<lparr>se_state = (\<lambda>x. step_state_of_str (str_of x)) (jget ''state'' j),
      se_receipt = json_opt receipt_of_json (jget ''receipt'' j),
      se_voided = json_list str_of (jget ''voided'' j)\<rparr>"

lemma step_entry_of_json [simp]: "step_entry_of_json (step_entry_json r) = r"
  by (simp add: step_entry_of_json_def step_entry_json_def)

text \<open>A recorded base advance after the commit.\<close>

record advance_state =
  av_old :: str
  av_new :: str
  av_recorded_at :: pynum

definition advance_state_json :: "advance_state \<Rightarrow> json" where
  "advance_state_json r = JObj
     [(''old_base_oid'', JStr (av_old r)),
      (''new_base_oid'', JStr (av_new r)),
      (''recorded_at'', JNum (av_recorded_at r))]"

definition advance_state_of_json :: "json \<Rightarrow> advance_state" where
  "advance_state_of_json j =
     \<lparr>av_old = str_of (jget ''old_base_oid'' j),
      av_new = str_of (jget ''new_base_oid'' j),
      av_recorded_at = num_of (jget ''recorded_at'' j)\<rparr>"

lemma advance_state_of_json [simp]: "advance_state_of_json (advance_state_json r) = r"
  by (simp add: advance_state_of_json_def advance_state_json_def)

lemma json_opt_advance [simp]:
  "json_opt advance_state_of_json (opt_json advance_state_json v) = v"
  by (rule json_opt_obj) (simp add: advance_state_json_def, simp)

text \<open>The base the candidate currently sits on.\<close>

record base_state =
  bs_current :: str
  bs_refreshed_at :: "pynum option"
  bs_advance :: "advance_state option"

definition base_state_json :: "base_state \<Rightarrow> json" where
  "base_state_json r = JObj
     [(''current_base_oid'', JStr (bs_current r)),
      (''refreshed_at'', opt_json JNum (bs_refreshed_at r)),
      (''advance_after_commit'', opt_json advance_state_json (bs_advance r))]"

definition base_state_of_json :: "json \<Rightarrow> base_state" where
  "base_state_of_json j =
     \<lparr>bs_current = str_of (jget ''current_base_oid'' j),
      bs_refreshed_at = json_opt num_of (jget ''refreshed_at'' j),
      bs_advance = json_opt advance_state_of_json (jget ''advance_after_commit'' j)\<rparr>"

lemma base_state_of_json [simp]: "base_state_of_json (base_state_json r) = r"
  by (simp add: base_state_of_json_def base_state_json_def)

text \<open>The durable revocation state.\<close>

record revocation =
  rk_revoked :: bool
  rk_at :: "pynum option"
  rk_by :: "str option"
  rk_reason :: "str option"

definition revocation_json :: "revocation \<Rightarrow> json" where
  "revocation_json r = JObj
     [(''revoked'', JBool (rk_revoked r)),
      (''revoked_at'', opt_json JNum (rk_at r)),
      (''revoked_by'', opt_json JStr (rk_by r)),
      (''reason'', opt_json JStr (rk_reason r))]"

definition revocation_of_json :: "json \<Rightarrow> revocation" where
  "revocation_of_json j =
     \<lparr>rk_revoked = bool_of (jget ''revoked'' j),
      rk_at = json_opt num_of (jget ''revoked_at'' j),
      rk_by = json_opt str_of (jget ''revoked_by'' j),
      rk_reason = json_opt str_of (jget ''reason'' j)\<rparr>"

lemma revocation_of_json [simp]: "revocation_of_json (revocation_json r) = r"
  by (simp add: revocation_of_json_def revocation_json_def)

text \<open>Why a record is blocked.\<close>

record blocker =
  bk_problem :: str
  bk_detail :: str
  bk_recorded_at :: pynum

definition blocker_json :: "blocker \<Rightarrow> json" where
  "blocker_json r = JObj
     [(''problem'', JStr (bk_problem r)),
      (''detail'', JStr (bk_detail r)),
      (''recorded_at'', JNum (bk_recorded_at r))]"

definition blocker_of_json :: "json \<Rightarrow> blocker" where
  "blocker_of_json j =
     \<lparr>bk_problem = str_of (jget ''problem'' j),
      bk_detail = str_of (jget ''detail'' j),
      bk_recorded_at = num_of (jget ''recorded_at'' j)\<rparr>"

lemma blocker_of_json [simp]: "blocker_of_json (blocker_json r) = r"
  by (simp add: blocker_of_json_def blocker_json_def)

text \<open>The pull request, once one exists.\<close>

record pull_request =
  pq_number :: int
  pq_url :: str
  pq_head_sha :: str
  pq_base_ref :: str

definition pull_request_json :: "pull_request \<Rightarrow> json" where
  "pull_request_json r = JObj
     [(''number'', JInt (pq_number r)),
      (''url'', JStr (pq_url r)),
      (''head_sha'', JStr (pq_head_sha r)),
      (''base_ref'', JStr (pq_base_ref r))]"

definition pull_request_of_json :: "json \<Rightarrow> pull_request" where
  "pull_request_of_json j =
     \<lparr>pq_number = int_of_json (jget ''number'' j),
      pq_url = str_of (jget ''url'' j),
      pq_head_sha = str_of (jget ''head_sha'' j),
      pq_base_ref = str_of (jget ''base_ref'' j)\<rparr>"

lemma pull_request_of_json [simp]: "pull_request_of_json (pull_request_json r) = r"
  by (simp add: pull_request_of_json_def pull_request_json_def)

lemma json_opt_blocker [simp]: "json_opt blocker_of_json (opt_json blocker_json v) = v"
  by (rule json_opt_obj) (simp add: blocker_json_def, simp)

lemma json_opt_pull_request [simp]:
  "json_opt pull_request_of_json (opt_json pull_request_json v) = v"
  by (rule json_opt_obj) (simp add: pull_request_json_def, simp)

section \<open>The record\<close>

record delivery =
  d_authority :: authority
  d_authority_digest :: str
  d_phase :: phase
  d_steps :: "step \<Rightarrow> step_entry"
  d_base_state :: base_state
  d_revocation :: revocation
  d_blocker :: "blocker option"
  d_pull_request :: "pull_request option"
  d_updated_at :: pynum

definition state_fields :: "delivery \<Rightarrow> (str \<times> json) list" where
  "state_fields d =
     [(''phase'', JStr (phase_str (d_phase d))),
      (''steps'', JObj (map (\<lambda>s. (step_str s, step_entry_json (d_steps d s))) STEPS)),
      (''base_state'', base_state_json (d_base_state d)),
      (''revocation'', revocation_json (d_revocation d)),
      (''blocker'', opt_json blocker_json (d_blocker d)),
      (''pull_request'', opt_json pull_request_json (d_pull_request d)),
      (''updated_at'', JNum (d_updated_at d))]"

definition delivery_json :: "delivery \<Rightarrow> json" where
  "delivery_json d = JObj
     (authority_fields (d_authority d)
      @ (''authority_digest_sha256'', JStr (d_authority_digest d)) # state_fields d)"

definition steps_of_json :: "json \<Rightarrow> step \<Rightarrow> step_entry" where
  "steps_of_json j s = step_entry_of_json (jget (step_str s) j)"

definition delivery_of_json :: "json \<Rightarrow> delivery" where
  "delivery_of_json j =
     \<lparr>d_authority = authority_of_json j,
      d_authority_digest = str_of (jget ''authority_digest_sha256'' j),
      d_phase = phase_of_str (str_of (jget ''phase'' j)),
      d_steps = steps_of_json (jget ''steps'' j),
      d_base_state = base_state_of_json (jget ''base_state'' j),
      d_revocation = revocation_of_json (jget ''revocation'' j),
      d_blocker = json_opt blocker_of_json (jget ''blocker'' j),
      d_pull_request = json_opt pull_request_of_json (jget ''pull_request'' j),
      d_updated_at = num_of (jget ''updated_at'' j)\<rparr>"

section \<open>Decoding inverts encoding\<close>

lemma steps_of_json [simp]:
  "steps_of_json (JObj (map (\<lambda>s. (step_str s, step_entry_json (f s))) STEPS)) = f"
proof
  fix s
  show "steps_of_json (JObj (map (\<lambda>s. (step_str s, step_entry_json (f s))) STEPS)) s = f s"
    by (cases s) (simp_all add: steps_of_json_def STEPS_def)
qed

lemma authority_of_fields:
  assumes "map_of rest ''pull_request_number'' = None" "map_of rest ''staged_sha256'' = None"
  shows "authority_of_json (JObj (authority_fields a @ rest)) = a"
proof -
  have n: "jhas ''pull_request_number'' (JObj (authority_fields a @ rest)) = (a_pull_request_number a \<noteq> None)"
    "jhas ''staged_sha256'' (JObj (authority_fields a @ rest)) = (a_staged_sha256 a \<noteq> None)"
    using assms
    by (auto simp: jhas_def authority_fields_def map_of_eq_None_iff split: option.splits)
  show ?thesis
    unfolding authority_of_json_def n
    by (cases "a_pull_request_number a"; cases "a_staged_sha256 a")
       (simp_all add: authority_fields_def workflow_identity_json_def)
qed

text \<open>The whole record; the lookups of the state half skip the authority fields.\<close>

lemma map_of_authority_fields:
  "map_of (authority_fields a @ rest) k =
     (case map_of (authority_fields a) k of None \<Rightarrow> map_of rest k | Some v \<Rightarrow> Some v)"
  by (simp add: map_of_append map_add_def split: option.splits)

lemma state_key_not_authority:
  "k \<in> set (''authority_digest_sha256'' # STATE_KEYS) \<Longrightarrow> map_of (authority_fields a) k = None"
  unfolding map_of_eq_None_iff STATE_KEYS_def authority_fields_def
  by (cases "a_pull_request_number a"; cases "a_staged_sha256 a") auto

lemma delivery_of_json [simp]: "delivery_of_json (delivery_json d) = d"
proof -
  let ?rest = "(''authority_digest_sha256'', JStr (d_authority_digest d)) # state_fields d"
  have a: "authority_of_json (delivery_json d) = d_authority d"
    unfolding delivery_json_def by (rule authority_of_fields) (simp_all add: state_fields_def)
  have s: "jget k (delivery_json d) = (case map_of ?rest k of None \<Rightarrow> JNull | Some v \<Rightarrow> v)"
    if "k \<in> set (''authority_digest_sha256'' # STATE_KEYS)" for k
    by (simp only: delivery_json_def jget_obj map_of_authority_fields
        state_key_not_authority [OF that] option.case)
  show ?thesis
    unfolding delivery_of_json_def a
    by (simp add: s STATE_KEYS_def) (simp add: state_fields_def)
qed


end
