(* ===== verification/Canonical.thy ===== *)
theory Canonical
  imports Json
begin

text \<open>
  \<open>workflow_authority/canonical.py\<close>: the one place that turns the URL of a GitHub
  repository, issue or pull request into its components. Every refusal is an
  exception with its own problem code, and the checks run in the order of the code.
\<close>

section \<open>Constants\<close>

definition CANONICAL_TARGET_HOST :: str where
  "CANONICAL_TARGET_HOST = ''github.com''"

definition MAX_TARGET_URL_CHARS :: nat where
  "MAX_TARGET_URL_CHARS = 512"

definition MAX_TARGET_NAME_CHARS :: nat where
  "MAX_TARGET_NAME_CHARS = 100"

definition SCHEME_PREFIX :: str where
  "SCHEME_PREFIX = ''https://''"

definition NAME_CHARS :: str where
  "NAME_CHARS = ''abcdefghijklmnopqrstuvwxyzABCDEFGHIJKLMNOPQRSTUVWXYZ0123456789._-''"

definition SHELL_CHARS :: str where
  "SHELL_CHARS = '';|&$`<>(){}[]'' @ [CHR 0x27, CHR 0x22, CHR 0x5C] @ ''*!~^ '' @ [CHR 9]"

definition ISSUE_SEGMENT :: str where
  "ISSUE_SEGMENT = ''issues''"

definition PULL_SEGMENT :: str where
  "PULL_SEGMENT = ''pull''"

datatype target_kind = KIND_ISSUE | KIND_PR

record CanonicalTarget =
  ct_host :: str
  ct_owner :: str
  ct_repo :: str
  ct_kind :: "target_kind option"
  ct_number :: "nat option"
  ct_repository_url :: str
  ct_canonical_url :: str

abbreviation refuse :: "str \<Rightarrow> exn" where
  "refuse problem \<equiv> CanonicalizationError problem"

section \<open>Canonicalization\<close>

definition valid_name :: "str \<Rightarrow> bool" where
  "valid_name value \<longleftrightarrow>
     \<not> (value = [] \<or> MAX_TARGET_NAME_CHARS < py_len value
        \<or> list_ex (\<lambda>ch. ch \<notin> set NAME_CHARS) value
        \<or> starts_with value ''.'' \<or> starts_with value ''-'')"

fun require_url_chars :: "str \<Rightarrow> check" where
  "require_url_chars [] = None"
| "require_url_chars (ch # s) =
     (if ord_of ch < 32 \<or> ord_of ch = 127 then Some (refuse ''target_url_control_character'')
      else if 126 < ord_of ch then Some (refuse ''target_url_non_ascii'')
      else if ch \<in> set SHELL_CHARS then Some (refuse ''target_url_shell_character'')
      else require_url_chars s)"

fun require_segments :: "str list \<Rightarrow> check" where
  "require_segments [] = None"
| "require_segments (segment # rest) =
     (if segment = ''.'' \<or> segment = ''..'' then Some (refuse ''target_url_traversal'')
      else if segment = [] then Some (refuse ''target_url_empty_path_segment'')
      else require_segments rest)"

definition require_authority :: "str \<Rightarrow> check" where
  "require_authority authority =
     (if CHR ''@'' \<in> set authority then Some (refuse ''target_url_userinfo'')
      else if CHR '':'' \<in> set authority then Some (refuse ''target_url_port'')
      else if contains_sub (lower authority) ''xn--'' then Some (refuse ''target_url_punycode_host'')
      else if authority \<noteq> CANONICAL_TARGET_HOST then
        (if lower authority = CANONICAL_TARGET_HOST then Some (refuse ''target_url_host_not_lowercase'')
         else if starts_with (lower authority) (CANONICAL_TARGET_HOST @ ''.'')
           then Some (refuse ''target_url_host_confusable'')
         else Some (refuse ''target_url_wrong_host''))
      else None)"

definition bad_number :: "str \<Rightarrow> bool" where
  "bad_number number_text \<longleftrightarrow>
     number_text = [] \<or> \<not> list_all is_digit number_text
     \<or> number_text \<noteq> digits_of_nat (nat_of_digits 0 number_text)
     \<or> nat_of_digits 0 number_text < 1"

text \<open>The three accepted path forms, as the kind and the number they name.\<close>

definition kind_and_number :: "str list \<Rightarrow> exn + (target_kind option \<times> nat option)" where
  "kind_and_number segments =
     (if length segments = 2 then Inr (None, None)
      else if length segments = 4 \<and> (segments ! 2 = ISSUE_SEGMENT \<or> segments ! 2 = PULL_SEGMENT) then
        (if bad_number (segments ! 3) then Inl (refuse ''target_url_bad_number'')
         else Inr (Some (if segments ! 2 = ISSUE_SEGMENT then KIND_ISSUE else KIND_PR),
                   Some (nat_of_digits 0 (segments ! 3))))
      else Inl (refuse ''target_url_path_shape''))"

definition make_target :: "str \<Rightarrow> str \<Rightarrow> target_kind option \<Rightarrow> nat option \<Rightarrow> CanonicalTarget" where
  "make_target owner repo kind number =
     (let repository_url = SCHEME_PREFIX @ CANONICAL_TARGET_HOST @ ''/'' @ owner @ ''/'' @ repo in
      \<lparr> ct_host = CANONICAL_TARGET_HOST, ct_owner = owner, ct_repo = repo,
        ct_kind = kind, ct_number = number, ct_repository_url = repository_url,
        ct_canonical_url =
          (case (kind, number) of
             (Some k, Some n) \<Rightarrow>
               repository_url @ ''/'' @ (if k = KIND_ISSUE then ISSUE_SEGMENT else PULL_SEGMENT)
               @ ''/'' @ digits_of_nat n
           | _ \<Rightarrow> repository_url) \<rparr>)"

definition canonicalize_path :: "str \<Rightarrow> exn + CanonicalTarget" where
  "canonicalize_path path =
     (let segments = split_on (CHR ''/'') path in
      guard_check (require_segments segments)
        (sbind (kind_and_number segments)
          (\<lambda>(kind, number).
             guard_check
               (checks
                 [require (valid_name (segments ! 0)) (refuse ''target_url_bad_name''),
                  require (valid_name (segments ! 1)) (refuse ''target_url_bad_name''),
                  require (\<not> ends_with (segments ! 1) ''.git'') (refuse ''target_url_git_suffix'')])
               (Inr (make_target (segments ! 0) (segments ! 1) kind number)))))"

definition canonicalize_target_url :: "str \<Rightarrow> exn + CanonicalTarget" where
  "canonicalize_target_url url =
     (let rest = drop (length SCHEME_PREFIX) url;
          (authority, separator, path) = partition_on (CHR ''/'') rest in
      guard_check
        (checks
          [require (url \<noteq> []) (refuse ''target_url_not_text''),
           require (py_len url \<le> MAX_TARGET_URL_CHARS) (refuse ''target_url_too_long''),
           require_url_chars url,
           require (CHR ''%'' \<notin> set url) (refuse ''target_url_percent_encoded''),
           require (count_sub url ''://'' \<le> 1) (refuse ''target_url_multiple_targets''),
           require (\<not> starts_with url ''//'') (refuse ''target_url_scheme_relative''),
           require (starts_with url SCHEME_PREFIX) (refuse ''target_url_unsupported_scheme''),
           require (CHR ''?'' \<notin> set rest) (refuse ''target_url_query''),
           require (CHR ''#'' \<notin> set rest) (refuse ''target_url_fragment''),
           require_authority authority,
           require (separator \<and> path \<noteq> []) (refuse ''target_url_path_shape'')])
        (canonicalize_path path))"

text \<open>Where the code hands a value that is not a string, the first check refuses it.\<close>

definition canonicalize_json_url :: "json \<Rightarrow> exn + CanonicalTarget" where
  "canonicalize_json_url v =
     (case v of JStr url \<Rightarrow> canonicalize_target_url url
      | _ \<Rightarrow> Inl (refuse ''target_url_not_text''))"

definition canonicalize_repository_url :: "str \<Rightarrow> exn + CanonicalTarget" where
  "canonicalize_repository_url url =
     sbind (canonicalize_target_url url)
       (\<lambda>target. if ct_kind target \<noteq> None then Inl (refuse ''target_url_path_shape'')
                 else Inr target)"

definition repository_identity_key :: "CanonicalTarget \<Rightarrow> str" where
  "repository_identity_key target =
     ct_host target @ ''/'' @ lower (ct_owner target) @ ''/'' @ lower (ct_repo target)"

definition same_repository_identity :: "CanonicalTarget \<Rightarrow> CanonicalTarget \<Rightarrow> bool" where
  "same_repository_identity first second \<longleftrightarrow>
     repository_identity_key first = repository_identity_key second"

section \<open>What an accepted URL looks like\<close>

lemma valid_name_no_slash: "valid_name w \<Longrightarrow> CHR ''/'' \<notin> set w"
proof -
  have "CHR ''/'' \<notin> set NAME_CHARS" by (simp add: NAME_CHARS_def)
  then show "valid_name w \<Longrightarrow> CHR ''/'' \<notin> set w"
    by (auto simp: valid_name_def list_ex_iff)
qed

lemma length_2_conv: "length xs = 2 \<longleftrightarrow> (\<exists>a b. xs = [a, b])"
  by (auto simp: length_Suc_conv numeral_2_eq_2)

lemma length_4_conv: "length xs = 4 \<longleftrightarrow> (\<exists>a b c d. xs = [a, b, c, d])"
  by (auto simp: length_Suc_conv numeral_eq_Suc)

lemma canonicalize_path_shape:
  assumes "canonicalize_path path = Inr t"
  obtains owner repo kind number where
    "t = make_target owner repo kind number" "valid_name owner" "valid_name repo"
    "\<not> ends_with repo ''.git''"
    "ct_canonical_url t = SCHEME_PREFIX @ CANONICAL_TARGET_HOST @ ''/'' @ path"
    "(kind = None \<and> number = None) \<or> (\<exists>k n. kind = Some k \<and> number = Some n \<and> 1 \<le> n)"
proof -
  let ?s = "split_on (CHR ''/'') path"
  have path: "path = join_with [CHR ''/''] ?s" by simp
  from assms obtain kind number where
    kn: "kind_and_number ?s = Inr (kind, number)"
    and names: "valid_name (?s ! 0)" "valid_name (?s ! 1)" "\<not> ends_with (?s ! 1) ''.git''"
    and t: "t = make_target (?s ! 0) (?s ! 1) kind number"
    by (auto simp: canonicalize_path_def Let_def guard_check_Inr_iff sbind_Inr_iff checks_simps)
  from kn consider (two) a b where "?s = [a, b]" "kind = None" "number = None"
    | (four) a b c d where "?s = [a, b, c, d]" "c = ISSUE_SEGMENT \<or> c = PULL_SEGMENT" "\<not> bad_number d"
        "kind = Some (if c = ISSUE_SEGMENT then KIND_ISSUE else KIND_PR)"
        "number = Some (nat_of_digits 0 d)"
    by (auto simp: kind_and_number_def length_2_conv length_4_conv split: if_splits)
  then show ?thesis
  proof cases
    case two
    show ?thesis
      by (rule that [of a b kind number])
         (use two t names path in \<open>auto simp: make_target_def Let_def\<close>)
  next
    case four
    then have d: "digits_of_nat (nat_of_digits 0 d) = d" "1 \<le> nat_of_digits 0 d"
      by (auto simp: bad_number_def)
    have path4: "path = a @ ''/'' @ b @ ''/'' @ c @ ''/'' @ d"
      using path four(1) by simp
    show ?thesis
      by (rule that [of a b kind number])
         (use four t names d path4 in \<open>auto simp: make_target_def Let_def\<close>)
  qed
qed

lemma canonicalize_target_urlD:
  assumes "canonicalize_target_url url = Inr t"
  obtains path where "url = SCHEME_PREFIX @ CANONICAL_TARGET_HOST @ ''/'' @ path"
    "canonicalize_path path = Inr t"
    "require_url_chars url = None" "py_len url \<le> MAX_TARGET_URL_CHARS"
proof -
  obtain authority separator path where
    p: "partition_on (CHR ''/'') (drop (length SCHEME_PREFIX) url) = (authority, separator, path)"
    by (metis prod_cases3)
  with assms have *: "require_url_chars url = None" "py_len url \<le> MAX_TARGET_URL_CHARS"
    "starts_with url SCHEME_PREFIX" "require_authority authority = None" "separator"
    "canonicalize_path path = Inr t"
    by (auto simp: canonicalize_target_url_def Let_def guard_check_Inr_iff checks_simps)
  from *(4) have auth: "authority = CANONICAL_TARGET_HOST"
    by (auto simp: require_authority_def split: if_splits)
  from *(3) obtain rest where rest: "url = SCHEME_PREFIX @ rest"
    by (auto simp: starts_with_iff)
  with p partition_on_spec [OF p] *(5) auth
  have "url = SCHEME_PREFIX @ CANONICAL_TARGET_HOST @ ''/'' @ path" by simp
  with * show ?thesis by (intro that)
qed

lemma canonical_url_exact:
  assumes "canonicalize_target_url url = Inr t"
  shows "ct_canonical_url t = url"
  using assms by (elim canonicalize_target_urlD canonicalize_path_shape) simp

lemma canonicalize_target_shape:
  assumes "canonicalize_target_url url = Inr t"
  obtains owner repo kind number where
    "t = make_target owner repo kind number" "valid_name owner" "valid_name repo"
    "\<not> ends_with repo ''.git''"
    "(kind = None \<and> number = None) \<or> (\<exists>k n. kind = Some k \<and> number = Some n \<and> 1 \<le> n)"
  using assms by (elim canonicalize_target_urlD canonicalize_path_shape) (rule that)

lemma require_url_chars_iff:
  "require_url_chars s = None \<longleftrightarrow>
     (\<forall>ch \<in> set s. 32 \<le> ord_of ch \<and> ord_of ch \<le> 126 \<and> ch \<notin> set SHELL_CHARS)"
  by (induction s) auto

lemma lower_name_no_slash: "valid_name w \<Longrightarrow> CHR ''/'' \<notin> set (lower w)"
proof
  assume "valid_name w" "CHR ''/'' \<in> set (lower w)"
  then obtain c where c: "c \<in> set w" "lower_char c = CHR ''/''"
    by (auto simp: lower_def)
  then have "ord_of (lower_char c) = 47" by simp
  then have "ord_of c = 47"
    by (simp add: ord_lower_char split: if_splits)
  then have "ord_of c = ord_of (CHR ''/'')" by simp
  then have "c = CHR ''/''" by (simp only: of_char_eq_iff)
  with c(1) valid_name_no_slash [OF \<open>valid_name w\<close>] show False by simp
qed

lemma count_sub_absent: "c \<notin> set s \<Longrightarrow> count_sub s (c # p) = 0"
proof (induction s)
  case Nil
  show ?case by (simp add: count_sub.simps)
next
  case (Cons a s)
  then show ?case by (subst count_sub.simps) auto
qed

lemma count_scheme:
  assumes "CHR '':'' \<notin> set w"
  shows "count_sub (SCHEME_PREFIX @ w) ''://'' = 1"
proof -
  have "count_sub (SCHEME_PREFIX @ w) ''://'' = Suc (count_sub w ''://'')"
    unfolding SCHEME_PREFIX_def by (simp add: count_sub.simps [of "_ # _"])
  with count_sub_absent [OF assms, of "''//''"] show ?thesis by simp
qed

text \<open>The repository URL of an accepted target is accepted and names the repository alone.\<close>

definition without_kind :: "CanonicalTarget \<Rightarrow> CanonicalTarget" where
  "without_kind t =
     t\<lparr>ct_kind := None, ct_number := None, ct_canonical_url := ct_repository_url t\<rparr>"

lemma without_kind_make: "without_kind (make_target o1 r k n) = make_target o1 r None None"
  by (simp add: without_kind_def make_target_def Let_def)

lemma canonicalize_path_repository:
  assumes "valid_name owner" "valid_name repo" "\<not> ends_with repo ''.git''"
    "require_segments [owner, repo] = None"
  shows "canonicalize_path (owner @ ''/'' @ repo) = Inr (make_target owner repo None None)"
proof -
  have "split_on (CHR ''/'') (owner @ ''/'' @ repo) = [owner, repo]"
    using valid_name_no_slash [OF assms(1)] valid_name_no_slash [OF assms(2)]
    by (simp add: split_on_append split_on_id)
  with assms show ?thesis
    by (simp add: canonicalize_path_def kind_and_number_def require_def Let_def)
qed

lemma valid_name_segment: "valid_name w \<Longrightarrow> w \<noteq> [] \<and> w \<noteq> ''.'' \<and> w \<noteq> ''..''"
  by (auto simp: valid_name_def)

lemma repository_url_chars:
  assumes "valid_name owner" "valid_name repo"
    and "ch \<in> set (CANONICAL_TARGET_HOST @ ''/'' @ owner @ ''/'' @ repo)"
  shows "ch \<in> set NAME_CHARS \<or> ch = CHR ''/''"
proof -
  have "set CANONICAL_TARGET_HOST \<subseteq> set NAME_CHARS"
    by (simp add: CANONICAL_TARGET_HOST_def NAME_CHARS_def)
  moreover have "set owner \<subseteq> set NAME_CHARS" "set repo \<subseteq> set NAME_CHARS"
    using assms(1,2) by (auto simp: valid_name_def list_ex_iff)
  ultimately show ?thesis using assms(3) by auto
qed

lemma name_char_ok:
  assumes "ch \<in> set NAME_CHARS \<or> ch = CHR ''/''"
  shows "32 \<le> ord_of ch \<and> ord_of ch \<le> 126 \<and> ch \<notin> set SHELL_CHARS"
    "ch \<noteq> CHR '':''" "ch \<noteq> CHR ''%''" "ch \<noteq> CHR ''?''" "ch \<noteq> CHR ''#''"
  using assms by (auto simp: NAME_CHARS_def SHELL_CHARS_def)

lemma canonicalize_repository_url_of_target:
  assumes "canonicalize_target_url url = Inr t"
  shows "canonicalize_target_url (ct_repository_url t) = Inr (without_kind t)"
proof -
  obtain owner repo kind number where t: "t = make_target owner repo kind number"
    and names: "valid_name owner" "valid_name repo" "\<not> ends_with repo ''.git''"
    and kn: "(kind = None \<and> number = None) \<or> (\<exists>k n. kind = Some k \<and> number = Some n \<and> 1 \<le> n)"
    using assms by (rule canonicalize_target_shape)
  let ?w = "CANONICAL_TARGET_HOST @ ''/'' @ owner @ ''/'' @ repo"
  have r: "ct_repository_url t = SCHEME_PREFIX @ ?w"
    by (simp add: t make_target_def Let_def)
  obtain tail where "url = ct_repository_url t @ tail"
    using canonical_url_exact [OF assms] kn by (auto simp: t make_target_def Let_def)
  moreover have "py_len url \<le> MAX_TARGET_URL_CHARS"
    using assms by (rule canonicalize_target_urlD)
  ultimately have len: "py_len (ct_repository_url t) \<le> MAX_TARGET_URL_CHARS" by simp
  have ok: "ch \<in> set NAME_CHARS \<or> ch = CHR ''/''" if "ch \<in> set ?w" for ch
    using names that by (intro repository_url_chars) auto
  have colon: "CHR '':'' \<notin> set ?w" "CHR ''%'' \<notin> set ?w" "CHR ''?'' \<notin> set ?w" "CHR ''#'' \<notin> set ?w"
    using name_char_ok(2-5) [OF ok] by blast+
  have prefix: "require_url_chars SCHEME_PREFIX = None"
    by (simp add: SCHEME_PREFIX_def SHELL_CHARS_def)
  have chars: "require_url_chars (SCHEME_PREFIX @ ?w) = None"
    using prefix name_char_ok(1) [OF ok] unfolding require_url_chars_iff by auto
  have "require_segments [owner, repo] = None"
    using names valid_name_segment by auto
  with names have path: "canonicalize_path (owner @ ''/'' @ repo) = Inr (make_target owner repo None None)"
    by (intro canonicalize_path_repository)
  have part: "partition_on (CHR ''/'') ?w = (CANONICAL_TARGET_HOST, True, owner @ ''/'' @ repo)"
    using partition_on_append [of "CHR ''/''" CANONICAL_TARGET_HOST "owner @ ''/'' @ repo"]
    by (simp add: CANONICAL_TARGET_HOST_def)
  have auth: "require_authority CANONICAL_TARGET_HOST = None"
    by (simp add: require_authority_def CANONICAL_TARGET_HOST_def lower_def lower_char_def)
  have d: "drop (length SCHEME_PREFIX) (SCHEME_PREFIX @ ?w) = ?w" by simp
  have no_rel: "\<not> starts_with (SCHEME_PREFIX @ ?w) ''//''" "SCHEME_PREFIX @ ?w \<noteq> []"
    "CHR ''%'' \<notin> set (SCHEME_PREFIX @ ?w)"
    using colon(2) by (simp_all add: SCHEME_PREFIX_def)
  have len': "py_len (SCHEME_PREFIX @ ?w) \<le> MAX_TARGET_URL_CHARS"
    using len by (simp only: r)
  have "count_sub (SCHEME_PREFIX @ ?w) ''://'' \<le> 1"
    by (simp only: count_scheme [OF colon(1)])
  moreover have "True \<and> owner @ ''/'' @ repo \<noteq> []" by simp
  ultimately show ?thesis
    unfolding r canonicalize_target_url_def d
    unfolding part t without_kind_make
    using len' chars auth colon no_rel starts_with_append [of SCHEME_PREFIX ?w]
    by (simp only: Let_def part d case_prod_conv path require_def if_True simp_thms checks.simps
        guard_check_simps)
qed

end
