(* ===== verification/Validators.thy ===== *)
theory Validators
  imports Delivery Canonical
begin

text \<open>
  The field validators of \<open>pr_delivery/authorization.py\<close>: each is a check that fails
  with the problem code of the code, and nothing is ever repaired or truncated.
\<close>

abbreviation auth :: "str \<Rightarrow> exn" where
  "auth problem \<equiv> AuthorizationError problem"

definition PROBLEM_SCHEMA_VERSION :: str where "PROBLEM_SCHEMA_VERSION = ''pr_delivery_schema_version''"
definition PROBLEM_UNKNOWN_KEY :: str where "PROBLEM_UNKNOWN_KEY = ''pr_delivery_unknown_key''"
definition PROBLEM_MISSING_KEY :: str where "PROBLEM_MISSING_KEY = ''pr_delivery_missing_key''"
definition PROBLEM_BAD_TYPE :: str where "PROBLEM_BAD_TYPE = ''pr_delivery_bad_type''"
definition PROBLEM_BAD_VALUE :: str where "PROBLEM_BAD_VALUE = ''pr_delivery_bad_value''"
definition PROBLEM_TOO_LARGE :: str where "PROBLEM_TOO_LARGE = ''pr_delivery_too_large''"
definition PROBLEM_AUTHORITY_DIGEST :: str where
  "PROBLEM_AUTHORITY_DIGEST = ''pr_delivery_authority_digest_mismatch''"
definition PROBLEM_RECEIPT_DIGEST :: str where
  "PROBLEM_RECEIPT_DIGEST = ''pr_delivery_receipt_digest_mismatch''"
definition PROBLEM_MODE :: str where "PROBLEM_MODE = ''pr_delivery_mode''"
definition PROBLEM_ALLOWED_ACTIONS :: str where "PROBLEM_ALLOWED_ACTIONS = ''pr_delivery_allowed_actions''"
definition PROBLEM_REMOTE_GRAMMAR :: str where "PROBLEM_REMOTE_GRAMMAR = ''pr_delivery_remote_grammar''"
definition PROBLEM_REMOTE_IDENTITY :: str where "PROBLEM_REMOTE_IDENTITY = ''pr_delivery_remote_identity''"
definition PROBLEM_REPOSITORY_IDENTITY :: str where
  "PROBLEM_REPOSITORY_IDENTITY = ''pr_delivery_repository_identity''"
definition PROBLEM_REF_GRAMMAR :: str where "PROBLEM_REF_GRAMMAR = ''pr_delivery_ref_grammar''"
definition PROBLEM_EXPIRATION_POLICY :: str where
  "PROBLEM_EXPIRATION_POLICY = ''pr_delivery_expiration_policy''"
definition PROBLEM_CANDIDATE_ENTRY :: str where "PROBLEM_CANDIDATE_ENTRY = ''pr_delivery_candidate_entry''"
definition PROBLEM_CANDIDATE_IDENTITY :: str where
  "PROBLEM_CANDIDATE_IDENTITY = ''pr_delivery_candidate_identity''"
definition PROBLEM_EVIDENCE :: str where "PROBLEM_EVIDENCE = ''pr_delivery_evidence''"
definition PROBLEM_UNKNOWN_PHASE :: str where "PROBLEM_UNKNOWN_PHASE = ''pr_delivery_unknown_phase''"
definition PROBLEM_STEP_STATE :: str where "PROBLEM_STEP_STATE = ''pr_delivery_step_state''"

section \<open>Values\<close>

definition require_dict :: "json \<Rightarrow> check" where
  "require_dict value = require (is_obj value) (auth PROBLEM_BAD_TYPE)"

definition require_closed_keys :: "json \<Rightarrow> str list \<Rightarrow> check" where
  "require_closed_keys value allowed = checks
     [require (list_all (\<lambda>k. k \<in> set allowed) (jkeys value)) (auth PROBLEM_UNKNOWN_KEY),
      require (list_all (\<lambda>k. k \<in> set (jkeys value)) allowed) (auth PROBLEM_MISSING_KEY)]"

definition require_str :: "json \<Rightarrow> nat \<Rightarrow> bool \<Rightarrow> check" where
  "require_str value max_chars allow_empty = checks
     [require (is_str value) (auth PROBLEM_BAD_TYPE),
      require (allow_empty \<or> str_of value \<noteq> []) (auth PROBLEM_BAD_VALUE),
      require (py_len (str_of value) \<le> max_chars) (auth PROBLEM_TOO_LARGE)]"

definition require_line_free_str :: "json \<Rightarrow> nat \<Rightarrow> bool \<Rightarrow> check" where
  "require_line_free_str value max_chars allow_empty = checks
     [require_str value max_chars allow_empty,
      require (\<not> path_character_problem (str_of value)) (auth PROBLEM_BAD_VALUE)]"

definition require_int :: "json \<Rightarrow> int option \<Rightarrow> int option \<Rightarrow> check" where
  "require_int value minimum maximum = checks
     [require (is_int value) (auth PROBLEM_BAD_TYPE),
      require (case minimum of None \<Rightarrow> True | Some m \<Rightarrow> m \<le> int_of_json value) (auth PROBLEM_BAD_VALUE),
      require (case maximum of None \<Rightarrow> True | Some m \<Rightarrow> int_of_json value \<le> m) (auth PROBLEM_TOO_LARGE)]"

definition require_timestamp :: "json \<Rightarrow> check" where
  "require_timestamp value = checks
     [require (is_num value) (auth PROBLEM_BAD_TYPE),
      require (\<not> num_less (num_of value) (PInt 0)) (auth PROBLEM_BAD_VALUE)]"

definition require_bool :: "json \<Rightarrow> check" where
  "require_bool value = require (is_bool value) (auth PROBLEM_BAD_TYPE)"

definition require_hex :: "json \<Rightarrow> nat \<Rightarrow> check" where
  "require_hex value len = checks
     [require_str value len False,
      require (py_len (str_of value) = len \<and> is_hex (str_of value)) (auth PROBLEM_BAD_VALUE)]"

definition require_member :: "json \<Rightarrow> str list \<Rightarrow> check" where
  "require_member value allowed =
     require (is_str value \<and> str_of value \<in> set allowed) (auth PROBLEM_BAD_VALUE)"

definition require_id :: "json \<Rightarrow> check" where
  "require_id value = checks
     [require_str value MAX_ID_CHARS False,
      require (list_all (\<lambda>ch. ch \<in> set WORKFLOW_ID_ALPHABET) (str_of value)) (auth PROBLEM_BAD_VALUE)]"

definition require_realpath :: "host \<Rightarrow> json \<Rightarrow> check" where
  "require_realpath h value = checks
     [require_line_free_str value 4096 False,
      require (starts_with (str_of value) ''/'' \<and> os_realpath h (str_of value) = str_of value)
        (auth PROBLEM_BAD_VALUE)]"

definition require_ref :: "json \<Rightarrow> check" where
  "require_ref value = checks
     [require_str value 512 False,
      require (\<not> baseline_ref_grammar_problem (str_of value)) (auth PROBLEM_REF_GRAMMAR),
      require (starts_with (str_of value) ''refs/heads/'') (auth PROBLEM_REF_GRAMMAR)]"

definition require_branch_pair :: "json \<Rightarrow> check" where
  "require_branch_pair value = checks
     [require_dict value,
      require_closed_keys value [''branch'', ''ref''],
      require_ref (jget ''ref'' value),
      require_line_free_str (jget ''branch'' value) 500 False,
      require (str_of (jget ''ref'' value) = ''refs/heads/'' @ str_of (jget ''branch'' value))
        (auth PROBLEM_REF_GRAMMAR)]"

definition parse_exact_remote_url :: "json \<Rightarrow> exn + CanonicalTarget" where
  "parse_exact_remote_url url =
     guard_check
       (checks
         [require (is_str url \<and> str_of url \<noteq> []) (auth PROBLEM_REMOTE_GRAMMAR),
          require (py_len (str_of url) \<le> MAX_REMOTE_URL_CHARS) (auth PROBLEM_REMOTE_GRAMMAR)])
       (let s = str_of url;
            stripped = (if ends_with s ''.git'' then take (length s - 4) s else s) in
        case canonicalize_repository_url stripped of
          Inl _ \<Rightarrow> Inl (auth PROBLEM_REMOTE_GRAMMAR)
        | Inr target \<Rightarrow> Inr target)"

section \<open>The objects of the authority half\<close>

definition validate_repository :: "host \<Rightarrow> json \<Rightarrow> check" where
  "validate_repository h value = checks
     [require_dict value,
      require_closed_keys value
        [''realpath'', ''git_dir_realpath'', ''canonical_host'', ''owner'', ''repo'', ''repository_url''],
      require_realpath h (jget ''realpath'' value),
      require_realpath h (jget ''git_dir_realpath'' value),
      require_str (jget ''repository_url'' value) MAX_TARGET_URL_CHARS False,
      (case canonicalize_repository_url (str_of (jget ''repository_url'' value)) of
         Inl _ \<Rightarrow> Some (auth PROBLEM_REPOSITORY_IDENTITY)
       | Inr target \<Rightarrow>
           require (jget ''canonical_host'' value = JStr (ct_host target)
                    \<and> jget ''owner'' value = JStr (ct_owner target)
                    \<and> jget ''repo'' value = JStr (ct_repo target))
             (auth PROBLEM_REPOSITORY_IDENTITY))]"

definition validate_remote :: "json \<Rightarrow> json \<Rightarrow> check" where
  "validate_remote value repository = checks
     [require_dict value,
      require_closed_keys value [''name'', ''url_exact'', ''url_fetch'', ''url_push'', ''repository_url''],
      require_line_free_str (jget ''url_fetch'' value) 4096 False,
      require_line_free_str (jget ''url_push'' value) 4096 False,
      require_line_free_str (jget ''name'' value) 255 False,
      require (\<not> (has_space (str_of (jget ''name'' value)) \<or> starts_with (str_of (jget ''name'' value)) ''-''))
        (auth PROBLEM_BAD_VALUE),
      (case parse_exact_remote_url (jget ''url_exact'' value) of
         Inl e \<Rightarrow> Some e
       | Inr target \<Rightarrow> checks
           [require (jget ''repository_url'' value = JStr (ct_repository_url target))
              (auth PROBLEM_REMOTE_IDENTITY),
            (case canonicalize_repository_url (str_of (jget ''repository_url'' repository)) of
               Inl e \<Rightarrow> Some e
             | Inr repository_target \<Rightarrow>
                 require (same_repository_identity target repository_target)
                   (auth PROBLEM_REMOTE_IDENTITY))])]"

fun validate_entries :: "str option \<Rightarrow> json list \<Rightarrow> check" where
  "validate_entries previous [] = None"
| "validate_entries previous (entry # rest) = checks
     [require_dict entry,
      require_closed_keys entry [''path'', ''status'', ''mode'', ''blob''],
      require_line_free_str (jget ''path'' entry) 4096 False,
      require_member (jget ''status'' entry) CANDIDATE_STATUSES,
      require_member (jget ''mode'' entry) CANDIDATE_MODES,
      require_hex (jget ''blob'' entry) 40,
      require (case previous of None \<Rightarrow> True | Some p \<Rightarrow> p < str_of (jget ''path'' entry))
        (auth PROBLEM_CANDIDATE_ENTRY),
      validate_entries (Some (str_of (jget ''path'' entry))) rest]"

definition validate_candidate_entries :: "json \<Rightarrow> check" where
  "validate_candidate_entries entries = checks
     [require (is_list entries) (auth PROBLEM_BAD_TYPE),
      require (list_of entries \<noteq> []) (auth PROBLEM_CANDIDATE_ENTRY),
      require (length (list_of entries) \<le> MAX_CANDIDATE_ENTRIES) (auth PROBLEM_TOO_LARGE),
      validate_entries None (list_of entries)]"

definition validate_candidate :: "host \<Rightarrow> json \<Rightarrow> check" where
  "validate_candidate h value = checks
     [require_dict value,
      require_closed_keys value [''identity_digest_sha256'', ''entry_count'', ''entries''],
      require_hex (jget ''identity_digest_sha256'' value) 64,
      validate_candidate_entries (jget ''entries'' value),
      require_int (jget ''entry_count'' value) (Some 1) None,
      require (int_of_json (jget ''entry_count'' value) = int (length (list_of (jget ''entries'' value))))
        (auth PROBLEM_CANDIDATE_IDENTITY),
      require (identity_digest h (json_list cand_entry_of_json (jget ''entries'' value))
               = str_of (jget ''identity_digest_sha256'' value))
        (auth PROBLEM_CANDIDATE_IDENTITY)]"

definition validate_evidence_common :: "json \<Rightarrow> check" where
  "validate_evidence_common value = checks
     [require_hex (jget ''candidate_identity_digest_sha256'' value) 64,
      require_hex (jget ''base_oid'' value) 40,
      require_timestamp (jget ''recorded_at'' value)]"

definition SHELL_NAMES :: "str list" where
  "SHELL_NAMES =
     [''sh'', ''bash'', ''zsh'', ''dash'', ''ksh'', ''fish'', ''cmd'', ''pwsh'', ''powershell'']"

definition basename :: "str \<Rightarrow> str" where
  "basename p = last (split_on (CHR ''/'') p)"

definition validate_argv :: "json \<Rightarrow> check" where
  "validate_argv value = checks
     [require (is_list value \<and> list_of value \<noteq> []) (auth PROBLEM_BAD_TYPE),
      require (length (list_of value) \<le> MAX_REVERIFICATION_ARGV) (auth PROBLEM_TOO_LARGE),
      checks (map (\<lambda>item. require_str item 4096 False) (list_of value)),
      require (basename (str_of (hd (list_of value))) \<notin> set SHELL_NAMES) (auth PROBLEM_BAD_VALUE)]"

definition validate_engineering :: "json \<Rightarrow> check" where
  "validate_engineering eng = checks
     [require_dict eng,
      require_closed_keys eng
        [''task_id'', ''status'', ''task_state_sha256'', ''recorded_at'',
         ''candidate_identity_digest_sha256'', ''base_oid''],
      require_line_free_str (jget ''task_id'' eng) MAX_ID_CHARS False,
      require_member (jget ''status'' eng) [''COMPLETE''],
      require_hex (jget ''task_state_sha256'' eng) 64,
      validate_evidence_common eng]"

definition validate_review :: "json \<Rightarrow> json \<Rightarrow> check" where
  "validate_review review eng = checks
     [require_dict review,
      require_closed_keys review
        [''task_id'', ''round'', ''review_file_name'', ''review_file_sha256'', ''decision'',
         ''recorded_at'', ''candidate_identity_digest_sha256'', ''base_oid''],
      require_line_free_str (jget ''task_id'' review) MAX_ID_CHARS False,
      require_int (jget ''round'' review) (Some 1) None,
      require_line_free_str (jget ''review_file_name'' review) 255 False,
      require_hex (jget ''review_file_sha256'' review) 64,
      require_member (jget ''decision'' review) [''APPROVE''],
      validate_evidence_common review,
      require (jget ''task_id'' review = jget ''task_id'' eng) (auth PROBLEM_EVIDENCE)]"

definition validate_verification :: "json \<Rightarrow> check" where
  "validate_verification ver = checks
     [require_dict ver,
      require_closed_keys ver
        [''command_argv'', ''exit_status'', ''log_sha256'', ''log_bytes'', ''ran_at'',
         ''recorded_at'', ''candidate_identity_digest_sha256'', ''base_oid''],
      validate_argv (jget ''command_argv'' ver),
      require_int (jget ''exit_status'' ver) (Some 0) (Some 0),
      require_hex (jget ''log_sha256'' ver) 64,
      require_int (jget ''log_bytes'' ver) (Some 0) None,
      require_timestamp (jget ''ran_at'' ver),
      validate_evidence_common ver]"

definition validate_evidence :: "json \<Rightarrow> json \<Rightarrow> check" where
  "validate_evidence value candidate_digest =
     (let eng = jget ''engineering_complete'' value;
          review = jget ''reviewer_approve'' value;
          ver = jget ''independent_verification'' value in
      checks
        [require_dict value,
         require_closed_keys value [''engineering_complete'', ''reviewer_approve'', ''independent_verification''],
         validate_engineering eng,
         validate_review review eng,
         validate_verification ver,
         require (jget ''candidate_identity_digest_sha256'' eng = candidate_digest
                  \<and> jget ''candidate_identity_digest_sha256'' review = candidate_digest
                  \<and> jget ''candidate_identity_digest_sha256'' ver = candidate_digest)
           (auth PROBLEM_EVIDENCE)])"

definition validate_committer :: "json \<Rightarrow> check" where
  "validate_committer value = checks
     [require_dict value,
      require_closed_keys value [''name'', ''email''],
      require_line_free_str (jget ''name'' value) 255 False,
      require_line_free_str (jget ''email'' value) 255 False,
      require (\<not> (CHR ''<'' \<in> set (str_of (jget ''name'' value)) \<or> CHR ''>'' \<in> set (str_of (jget ''name'' value))))
        (auth PROBLEM_BAD_VALUE),
      require (\<not> (CHR ''<'' \<in> set (str_of (jget ''email'' value)) \<or> CHR ''>'' \<in> set (str_of (jget ''email'' value))))
        (auth PROBLEM_BAD_VALUE)]"

definition validate_pr_content :: "json \<Rightarrow> check" where
  "validate_pr_content value = checks
     [require_dict value,
      require_closed_keys value [''title'', ''objective'', ''architecture_notes'', ''nonblocking_risks''],
      require_line_free_str (jget ''title'' value) MAX_PR_TITLE_CHARS False,
      require_str (jget ''objective'' value) MAX_HUMAN_TEXT_CHARS True,
      require_str (jget ''architecture_notes'' value) MAX_HUMAN_TEXT_CHARS True,
      require_str (jget ''nonblocking_risks'' value) MAX_HUMAN_TEXT_CHARS True]"

definition is_dots_affirmative :: "json \<Rightarrow> bool" where
  "is_dots_affirmative reply \<longleftrightarrow>
     is_str reply \<and> py_len (str_of reply) \<le> MAX_RELAY_TEXT_CHARS
     \<and> lower (strip (str_of reply)) \<in> set DOTS_AFFIRMATIVE_REPLIES"

definition delivery_proposal :: "json \<Rightarrow> json \<Rightarrow> json \<Rightarrow> json" where
  "delivery_proposal binding presented_at expires_at =
     JObj [(''binding'', binding), (''presented_at'', presented_at), (''expires_at'', expires_at)]"

definition delivery_proposal_digest :: "host \<Rightarrow> json \<Rightarrow> exn + str" where
  "delivery_proposal_digest h proposal = json_digest h proposal"

definition dots_confirmation_digest :: "host \<Rightarrow> json \<Rightarrow> exn + str" where
  "dots_confirmation_digest h attestation =
     json_digest h (sub_object
       [''proposal_digest_sha256'', ''reply_to'', ''relayed_reply'', ''relay_ref''] attestation)"

definition require_digest :: "exn + str \<Rightarrow> json \<Rightarrow> exn \<Rightarrow> check" where
  "require_digest computed stored e =
     (case computed of Inl x \<Rightarrow> Some x | Inr d \<Rightarrow> require (stored = JStr d) e)"

definition validate_dots_attestation :: "json \<Rightarrow> check" where
  "validate_dots_attestation attestation = checks
     [require_dict attestation,
      require_closed_keys attestation DOTS_ATTESTATION_KEYS,
      require_hex (jget ''proposal_digest_sha256'' attestation) 64,
      require_timestamp (jget ''presented_at'' attestation),
      require_line_free_str (jget ''reply_to'' attestation) MAX_RELAY_REF_CHARS False,
      require_line_free_str (jget ''relay_ref'' attestation) MAX_RELAY_REF_CHARS False,
      require (is_dots_affirmative (jget ''relayed_reply'' attestation)) (auth PROBLEM_BAD_VALUE),
      require (jget ''confirmation'' attestation = JStr DOTS_CONFIRMATION
               \<and> jget ''provenance'' attestation = JStr DOTS_PROVENANCE
               \<and> jget ''residual_risk'' attestation = JStr DOTS_RESIDUAL_RISK)
        (auth PROBLEM_BAD_VALUE)]"

definition validate_dots_authorization :: "host \<Rightarrow> json \<Rightarrow> json \<Rightarrow> check" where
  "validate_dots_authorization h value document =
     (let attestation = jget ''attestation'' value in
      checks
        [require_closed_keys value
           [''identity'', ''source'', ''authorized_at'', ''confirmation_digest_sha256'', ''attestation''],
         require (jget ''identity'' value = JStr DOTS_ATTESTED_IDENTITY) (auth PROBLEM_BAD_VALUE),
         require_timestamp (jget ''authorized_at'' value),
         validate_dots_attestation attestation,
         require_hex (jget ''confirmation_digest_sha256'' value) 64,
         require_digest (dots_confirmation_digest h attestation)
           (jget ''confirmation_digest_sha256'' value) (auth PROBLEM_BAD_VALUE),
         require (\<not> num_less (num_of (jget ''authorized_at'' value)) (num_of (jget ''presented_at'' attestation)))
           (auth PROBLEM_BAD_VALUE),
         require (is_obj (jget ''expiration'' document)) TypeErr,
         require (jhas ''expires_at'' (jget ''expiration'' document)) KeyErr,
         require_digest
           (delivery_proposal_digest h
             (delivery_proposal (sub_object (proposal_binding_keys (jget ''mode'' document)) document)
               (jget ''presented_at'' attestation) (jget ''expires_at'' (jget ''expiration'' document))))
           (jget ''proposal_digest_sha256'' attestation) (auth PROBLEM_CANDIDATE_IDENTITY)])"

definition validate_human_authorization :: "host \<Rightarrow> json \<Rightarrow> json \<Rightarrow> check" where
  "validate_human_authorization h value document =
     (if \<not> is_obj value then Some (auth PROBLEM_BAD_TYPE)
      else if jget ''source'' value = JStr AUTHORIZATION_SOURCE_DOTS_OPERATOR_ATTESTED
      then validate_dots_authorization h value document
      else checks
        [require_closed_keys value [''identity'', ''source'', ''authorized_at'', ''confirmation_digest_sha256''],
         require_line_free_str (jget ''identity'' value) 255 False,
         require_member (jget ''source'' value) AUTHORIZATION_SOURCES,
         require_timestamp (jget ''authorized_at'' value),
         require_hex (jget ''confirmation_digest_sha256'' value) 64])"

definition require_validity :: "pynum \<Rightarrow> pynum \<Rightarrow> check" where
  "require_validity expires_at authorized_at =
     (case num_sub expires_at authorized_at of
        Inl e \<Rightarrow> Some e
      | Inr window \<Rightarrow>
          require (\<not> num_less (PInt MAX_AUTHORIZATION_VALIDITY_SECONDS) window) (auth PROBLEM_EXPIRATION_POLICY))"

definition validate_expiration :: "json \<Rightarrow> pynum \<Rightarrow> check" where
  "validate_expiration value authorized_at = checks
     [require_dict value,
      require_closed_keys value [''policy'', ''expires_at''],
      require_member (jget ''policy'' value) [''absolute_deadline''],
      require_timestamp (jget ''expires_at'' value),
      require (\<not> num_le (num_of (jget ''expires_at'' value)) authorized_at) (auth PROBLEM_EXPIRATION_POLICY),
      require_validity (num_of (jget ''expires_at'' value)) authorized_at]"

definition validate_allowed_actions :: "json \<Rightarrow> mode \<Rightarrow> check" where
  "validate_allowed_actions value m =
     (let names = map str_of (list_of value) in
      checks
        [require (is_list value \<and> list_of value \<noteq> []) (auth PROBLEM_ALLOWED_ACTIONS),
         require (list_all (\<lambda>item. is_str item \<and> str_of item \<in> set (map step_str STEPS)) (list_of value))
           (auth PROBLEM_ALLOWED_ACTIONS),
         require (distinct names) (auth PROBLEM_ALLOWED_ACTIONS),
         require (names = filter (\<lambda>s. s \<in> set names) (map step_str STEPS)) (auth PROBLEM_ALLOWED_ACTIONS),
         require (m = PR_UPDATE \<longrightarrow> names = map step_str PR_UPDATE_STEPS) (auth PROBLEM_ALLOWED_ACTIONS)])"

end
