(* ===== verification/Authorization.thy ===== *)
theory Authorization
  imports Validators
begin

text \<open>
  \<open>pr_delivery/authorization.py\<close>, the record as a whole: the digests that bind its
  authority half and its receipts, the validation of the state half, the complete
  validator, the transitions, and the construction of a fresh record.
\<close>

section \<open>Digests\<close>

definition receipt_digest :: "host \<Rightarrow> json \<Rightarrow> exn + str" where
  "receipt_digest h receipt =
     json_digest h (sub_object (filter (\<lambda>k. k \<notin> set RECEIPT_DIGEST_EXCLUDED_KEYS) RECEIPT_KEYS) receipt)"

definition authority_digest :: "host \<Rightarrow> json \<Rightarrow> exn + str" where
  "authority_digest h document =
     json_digest h (sub_object (authority_keys (jget ''mode'' document)) document)"

section \<open>The objects of the state half\<close>

definition require_binding_item :: "json \<Rightarrow> check" where
  "require_binding_item item = (if is_bool item then None else require_line_free_str item 4096 False)"

definition require_observed_item :: "str \<times> json \<Rightarrow> check" where
  "require_observed_item kv = checks
     [require_str (JStr (fst kv)) 64 False,
      require (snd kv = JNull \<or> is_str (snd kv) \<or> is_int (snd kv) \<or> is_bool (snd kv)) (auth PROBLEM_BAD_TYPE),
      (if is_str (snd kv) then require_str (snd kv) MAX_EVIDENCE_TEXT_CHARS True else None)]"

definition validate_receipt :: "host \<Rightarrow> json \<Rightarrow> step \<Rightarrow> json \<Rightarrow> json \<Rightarrow> check" where
  "validate_receipt h receipt step delivery_id parent_digest = checks
     [require_dict receipt,
      require_closed_keys receipt RECEIPT_KEYS,
      require_id (jget ''receipt_id'' receipt),
      require_member (jget ''step'' receipt) (map step_str STEPS),
      require (jget ''step'' receipt = JStr (step_str step)) (auth PROBLEM_BAD_VALUE),
      require (jget ''delivery_id'' receipt = delivery_id) (auth PROBLEM_BAD_VALUE),
      require_hex (jget ''parent_authority_digest_sha256'' receipt) 64,
      require (jget ''parent_authority_digest_sha256'' receipt = parent_digest)
        (auth PROBLEM_RECEIPT_DIGEST),
      require_timestamp (jget ''derived_at'' receipt),
      require_int (jget ''attempt'' receipt) (Some 1) (Some (int MAX_STEP_ATTEMPTS)),
      require_member (jget ''state'' receipt) (map receipt_state_str RECEIPT_STATES),
      require_dict (jget ''binding'' receipt),
      require_closed_keys (jget ''binding'' receipt) (receipt_binding_fields step),
      checks (map (\<lambda>kv. require_binding_item (snd kv)) (obj_of (jget ''binding'' receipt))),
      (if jget ''observed'' receipt = JNull then None
       else checks
         [require_dict (jget ''observed'' receipt),
          checks (map require_observed_item (obj_of (jget ''observed'' receipt)))]),
      require_hex (jget ''receipt_digest_sha256'' receipt) 64,
      require_digest (receipt_digest h receipt) (jget ''receipt_digest_sha256'' receipt)
        (auth PROBLEM_RECEIPT_DIGEST)]"

definition untouched_entry :: "json \<Rightarrow> bool" where
  "untouched_entry entry \<longleftrightarrow>
     is_obj entry \<and> set (jkeys entry) = {''state'', ''receipt'', ''voided''}
     \<and> jget ''state'' entry = JStr (step_state_str STEP_NOT_NEEDED)
     \<and> jget ''receipt'' entry = JNull \<and> jget ''voided'' entry = JList []"

fun state_requires_receipt :: "step_state \<Rightarrow> receipt_state option" where
  "state_requires_receipt STEP_EXECUTING = Some RECEIPT_EXECUTING"
| "state_requires_receipt STEP_SUCCEEDED = Some RECEIPT_SUCCEEDED"
| "state_requires_receipt STEP_FAILED_RETRYABLE = Some RECEIPT_FAILED_RETRYABLE"
| "state_requires_receipt _ = None"

definition validate_step_entry :: "host \<Rightarrow> json \<Rightarrow> step \<Rightarrow> json \<Rightarrow> json \<Rightarrow> check" where
  "validate_step_entry h entry step delivery_id parent_digest =
     (let receipt = jget ''receipt'' entry;
          expected = state_requires_receipt (step_state_of_str (str_of (jget ''state'' entry))) in
      checks
        [require_dict entry,
         require_closed_keys entry [''state'', ''receipt'', ''voided''],
         require_member (jget ''state'' entry) (map step_state_str STEP_STATES),
         require (is_list (jget ''voided'' entry)) (auth PROBLEM_BAD_TYPE),
         require (length (list_of (jget ''voided'' entry)) \<le> MAX_STEP_ATTEMPTS) (auth PROBLEM_TOO_LARGE),
         checks (map require_id (list_of (jget ''voided'' entry))),
         (if receipt = JNull then require (expected = None) (auth PROBLEM_STEP_STATE)
          else checks
            [validate_receipt h receipt step delivery_id parent_digest,
             (case expected of None \<Rightarrow> None
              | Some s \<Rightarrow> require (jget ''state'' receipt = JStr (receipt_state_str s)) (auth PROBLEM_STEP_STATE))])])"

definition validate_steps :: "host \<Rightarrow> json \<Rightarrow> json \<Rightarrow> json \<Rightarrow> mode \<Rightarrow> check" where
  "validate_steps h value delivery_id parent_digest m = checks
     [require_dict value,
      require_closed_keys value (map step_str STEPS),
      require (m = PR_UPDATE \<longrightarrow>
          list_all (\<lambda>s. untouched_entry (jget (step_str s) value)) PR_UPDATE_EXCLUDED_STEPS)
        (auth PROBLEM_STEP_STATE),
      checks (map (\<lambda>s. validate_step_entry h (jget (step_str s) value) s delivery_id parent_digest) STEPS)]"

definition validate_revocation :: "json \<Rightarrow> check" where
  "validate_revocation value = checks
     [require_dict value,
      require_closed_keys value [''revoked'', ''revoked_at'', ''revoked_by'', ''reason''],
      require_bool (jget ''revoked'' value),
      (if bool_of (jget ''revoked'' value)
       then checks
         [require_timestamp (jget ''revoked_at'' value),
          require_line_free_str (jget ''revoked_by'' value) 255 False,
          require_str (jget ''reason'' value) MAX_EVIDENCE_TEXT_CHARS True]
       else checks
         [require (jget ''revoked_at'' value = JNull) (auth PROBLEM_BAD_VALUE),
          require (jget ''revoked_by'' value = JNull) (auth PROBLEM_BAD_VALUE),
          require (jget ''reason'' value = JNull) (auth PROBLEM_BAD_VALUE)])]"

definition validate_blocker :: "json \<Rightarrow> check" where
  "validate_blocker value =
     (if value = JNull then None
      else checks
        [require_dict value,
         require_closed_keys value [''problem'', ''detail'', ''recorded_at''],
         require_line_free_str (jget ''problem'' value) 128 False,
         require_str (jget ''detail'' value) MAX_EVIDENCE_TEXT_CHARS True,
         require_timestamp (jget ''recorded_at'' value)])"

definition validate_pull_request :: "json \<Rightarrow> check" where
  "validate_pull_request value =
     (if value = JNull then None
      else checks
        [require_dict value,
         require_closed_keys value [''number'', ''url'', ''head_sha'', ''base_ref''],
         require_int (jget ''number'' value) (Some 1) None,
         require_str (jget ''url'' value) MAX_TARGET_URL_CHARS False,
         (case canonicalize_target_url (str_of (jget ''url'' value)) of
            Inl _ \<Rightarrow> Some (auth PROBLEM_BAD_VALUE)
          | Inr target \<Rightarrow>
              require (ct_kind target = Some KIND_PR
                       \<and> map_option int (ct_number target) = Some (int_of_json (jget ''number'' value)))
                (auth PROBLEM_BAD_VALUE)),
         require_hex (jget ''head_sha'' value) 40,
         require_ref (jget ''base_ref'' value)])"

definition validate_base_state :: "json \<Rightarrow> check" where
  "validate_base_state value =
     (let advance = jget ''advance_after_commit'' value in
      checks
        [require_dict value,
         require_closed_keys value [''current_base_oid'', ''refreshed_at'', ''advance_after_commit''],
         require_hex (jget ''current_base_oid'' value) 40,
         (if jget ''refreshed_at'' value = JNull then None else require_timestamp (jget ''refreshed_at'' value)),
         (if advance = JNull then None
          else checks
            [require_dict advance,
             require_closed_keys advance [''old_base_oid'', ''new_base_oid'', ''recorded_at''],
             require_hex (jget ''old_base_oid'' advance) 40,
             require_hex (jget ''new_base_oid'' advance) 40,
             require_timestamp (jget ''recorded_at'' advance)])])"

section \<open>The complete validator\<close>

definition is_presented_delivery_id :: "json \<Rightarrow> bool" where
  "is_presented_delivery_id value \<longleftrightarrow>
     is_str value \<and> starts_with (str_of value) DELIVERY_ID_PREFIX
     \<and> py_len (drop (length DELIVERY_ID_PREFIX) (str_of value)) = DELIVERY_ID_HEX_CHARS
     \<and> is_hex (drop (length DELIVERY_ID_PREFIX) (str_of value))"

definition validate_pr_update_authority :: "json \<Rightarrow> check" where
  "validate_pr_update_authority document =
     (let base_state = jget ''base_state'' document;
          pull_request = jget ''pull_request'' document;
          baseline = jget ''original_baseline'' document in
      checks
        [require (is_presented_delivery_id (jget ''delivery_id'' document)) (auth PROBLEM_BAD_VALUE),
         require_int (jget ''pull_request_number'' document) (Some 1) (Some MAX_PULL_REQUEST_NUMBER),
         require_hex (jget ''staged_sha256'' document) 64,
         require (jget ''ref'' baseline = jget ''ref'' (jget ''source'' document)) (auth PROBLEM_BAD_VALUE),
         require (jget ''phase'' document \<notin> set (map (\<lambda>p. JStr (phase_str p)) PR_UPDATE_UNREACHABLE_PHASES))
           (auth PROBLEM_UNKNOWN_PHASE),
         require (jget ''current_base_oid'' base_state = jget ''commit_sha'' baseline
                  \<and> jget ''refreshed_at'' base_state = JNull
                  \<and> jget ''advance_after_commit'' base_state = JNull)
           (auth PROBLEM_BAD_VALUE),
         require (pull_request \<noteq> JNull \<longrightarrow>
                    jget ''number'' pull_request = jget ''pull_request_number'' document
                    \<and> jget ''base_ref'' pull_request = jget ''ref'' (jget ''target_base'' document))
           (auth PROBLEM_BAD_VALUE)])"

definition validate_workflow_identity :: "json \<Rightarrow> check" where
  "validate_workflow_identity identity = checks
     [require_dict identity,
      require_closed_keys identity [''workflow_id'', ''engineering_task_id''],
      require_id (jget ''workflow_id'' identity),
      require_line_free_str (jget ''engineering_task_id'' identity) MAX_ID_CHARS False]"

definition validate_mission :: "json \<Rightarrow> check" where
  "validate_mission mission =
     (if mission = JNull then None
      else checks
        [require_dict mission,
         require_closed_keys mission [''workflow_id'', ''mission_authorization_digest_sha256''],
         require_id (jget ''workflow_id'' mission),
         require_hex (jget ''mission_authorization_digest_sha256'' mission) 64])"

definition validate_baseline :: "json \<Rightarrow> json \<Rightarrow> mode \<Rightarrow> check" where
  "validate_baseline baseline target_base m = checks
     [require_dict baseline,
      require_closed_keys baseline [''ref'', ''commit_sha''],
      require_ref (jget ''ref'' baseline),
      require_hex (jget ''commit_sha'' baseline) 40,
      require (m = PULL_REQUEST \<longrightarrow> jget ''ref'' baseline = jget ''ref'' target_base) (auth PROBLEM_BAD_VALUE)]"

definition validate_authority_half :: "host \<Rightarrow> json \<Rightarrow> mode \<Rightarrow> check" where
  "validate_authority_half h document m = checks
     [require_closed_keys document (top_level_keys (jget ''mode'' document)),
      require_id (jget ''delivery_id'' document),
      require_int (jget ''revision'' document) (Some 1) None,
      (if jget ''previous_delivery_id'' document = JNull then None
       else require_id (jget ''previous_delivery_id'' document)),
      require (\<not> (jget ''revision'' document = JInt 1 \<and> jget ''previous_delivery_id'' document \<noteq> JNull))
        (auth PROBLEM_BAD_VALUE),
      require (\<not> (1 < int_of_json (jget ''revision'' document) \<and> jget ''previous_delivery_id'' document = JNull))
        (auth PROBLEM_BAD_VALUE),
      validate_workflow_identity (jget ''workflow_identity'' document),
      validate_mission (jget ''mission'' document),
      validate_repository h (jget ''repository'' document),
      validate_remote (jget ''remote'' document) (jget ''repository'' document),
      require_branch_pair (jget ''source'' document),
      require_branch_pair (jget ''target_base'' document),
      require (jget ''ref'' (jget ''source'' document) \<noteq> jget ''ref'' (jget ''target_base'' document))
        (auth PROBLEM_BAD_VALUE),
      validate_baseline (jget ''original_baseline'' document) (jget ''target_base'' document) m,
      validate_candidate h (jget ''candidate'' document),
      validate_evidence (jget ''evidence'' document)
        (jget ''identity_digest_sha256'' (jget ''candidate'' document)),
      validate_allowed_actions (jget ''allowed_actions'' document) m,
      validate_committer (jget ''committer'' document),
      require_dict (jget ''reverification'' document),
      require_closed_keys (jget ''reverification'' document) [''argv''],
      validate_argv (jget ''argv'' (jget ''reverification'' document)),
      validate_pr_content (jget ''pr_content'' document),
      validate_human_authorization h (jget ''human_authorization'' document) document,
      validate_expiration (jget ''expiration'' document)
        (num_of (jget ''authorized_at'' (jget ''human_authorization'' document))),
      require_hex (jget ''authority_digest_sha256'' document) 64,
      require_digest (authority_digest h document) (jget ''authority_digest_sha256'' document)
        (auth PROBLEM_AUTHORITY_DIGEST)]"

definition validate_state_half :: "host \<Rightarrow> json \<Rightarrow> mode \<Rightarrow> check" where
  "validate_state_half h document m = checks
     [require_member (jget ''phase'' document) (map phase_str PHASES),
      validate_steps h (jget ''steps'' document) (jget ''delivery_id'' document)
        (jget ''authority_digest_sha256'' document) m,
      validate_base_state (jget ''base_state'' document),
      validate_revocation (jget ''revocation'' document),
      validate_blocker (jget ''blocker'' document),
      validate_pull_request (jget ''pull_request'' document),
      require_timestamp (jget ''updated_at'' document),
      (if m = PR_UPDATE then validate_pr_update_authority document else None),
      require (\<not> (jget ''phase'' document = JStr (phase_str REVOKED)
                  \<and> \<not> bool_of (jget ''revoked'' (jget ''revocation'' document)))) (auth PROBLEM_BAD_VALUE),
      require (\<not> (jget ''phase'' document = JStr (phase_str BLOCKED) \<and> jget ''blocker'' document = JNull))
        (auth PROBLEM_BAD_VALUE)]"

definition schema_version_ok :: "json \<Rightarrow> bool" where
  "schema_version_ok version =
     (case version of JNum n \<Rightarrow> fl_eq (num_val n) (Finite 1) | _ \<Rightarrow> False)"

definition validate_authorization :: "host \<Rightarrow> json \<Rightarrow> check" where
  "validate_authorization h document =
     (let m = mode_of_str (str_of (jget ''mode'' document)) in
      checks
        [require_dict document,
         require (schema_version_ok (jget ''schema_version'' document)) (auth PROBLEM_SCHEMA_VERSION),
         require (is_str (jget ''mode'' document) \<and> str_of (jget ''mode'' document) \<in> set (map mode_str MODES))
           (auth PROBLEM_MODE),
         validate_authority_half h document m,
         validate_state_half h document m])"

section \<open>Transitions, expiry, revocation\<close>

definition apply_transition :: "delivery \<Rightarrow> phase \<Rightarrow> pynum \<Rightarrow> exn + delivery" where
  "apply_transition d new_phase now =
     guard_check (validate_transition (d_phase d) new_phase (a_mode (d_authority d)))
       (Inr (d\<lparr>d_phase := new_phase, d_updated_at := now\<rparr>))"

definition is_expired :: "delivery \<Rightarrow> pynum \<Rightarrow> bool" where
  "is_expired d now = num_le (ex_expires_at (a_expiration (d_authority d))) now"

definition is_revoked :: "delivery \<Rightarrow> bool" where
  "is_revoked d = rk_revoked (d_revocation d)"

section \<open>A fresh record\<close>

definition initial_entry :: "mode \<Rightarrow> step \<Rightarrow> step_entry" where
  "initial_entry m s =
     \<lparr>se_state = (if m = PR_UPDATE \<and> s \<in> set PR_UPDATE_EXCLUDED_STEPS then STEP_NOT_NEEDED else STEP_PENDING),
      se_receipt = None, se_voided = []\<rparr>"

definition initial_state_fields :: "mode \<Rightarrow> json \<Rightarrow> pynum \<Rightarrow> (str \<times> json) list" where
  "initial_state_fields m baseline now =
     [(''phase'', JStr (phase_str AUTHORIZED)),
      (''steps'', JObj (map (\<lambda>s. (step_str s, step_entry_json (initial_entry m s))) STEPS)),
      (''base_state'', JObj
         [(''current_base_oid'', jget ''commit_sha'' baseline),
          (''refreshed_at'', JNull), (''advance_after_commit'', JNull)]),
      (''revocation'', revocation_json \<lparr>rk_revoked = False, rk_at = None, rk_by = None, rk_reason = None\<rparr>),
      (''blocker'', JNull),
      (''pull_request'', JNull),
      (''updated_at'', JNum now)]"

definition take_authority_key :: "json \<Rightarrow> str \<Rightarrow> str \<Rightarrow> exn + json" where
  "take_authority_key authority delivery_id key =
     (if key = ''schema_version'' \<or> key = ''delivery_id'' then
        (let given = jget key authority;
             own = (if key = ''delivery_id'' then JStr delivery_id else JInt 1);
             same = (given = own
               \<or> (key = ''schema_version'' \<and> (schema_version_ok given \<or> given = JBool True))) in
         if jhas key authority \<and> \<not> same then Inl (auth PROBLEM_BAD_VALUE)
         else Inr own)
      else if \<not> jhas key authority then Inl (auth PROBLEM_MISSING_KEY)
      else Inr (jget key authority))"

definition new_authorization :: "host \<Rightarrow> str \<Rightarrow> json \<Rightarrow> pynum \<Rightarrow> exn + json" where
  "new_authorization h delivery_id authority now =
     (let mj = jget ''mode'' authority; m = mode_of_str (str_of mj); keys = authority_keys mj in
      guard_check
        (checks
          [require (is_str mj \<and> str_of mj \<in> set (map mode_str MODES)) (auth PROBLEM_MODE),
           require (\<not> (m = PR_UPDATE \<and> \<not> jhas ''delivery_id'' authority)) (auth PROBLEM_MISSING_KEY)])
        (sbind (map_result (take_authority_key authority delivery_id) keys)
          (\<lambda>values.
             guard_check (require (list_all (\<lambda>k. k \<in> set keys) (jkeys authority)) (auth PROBLEM_UNKNOWN_KEY))
               (let fields = zip keys values; half = JObj fields in
                sbind (authority_digest h half)
                  (\<lambda>digest.
                     let document = JObj
                       (fields @ (''authority_digest_sha256'', JStr digest)
                        # initial_state_fields m (jget ''original_baseline'' half) now) in
                     guard_check (validate_authorization h document) (Inr document))))))"

end
