(* ===== verification/Effects.thy ===== *)
theory Effects
  imports Json
begin

text \<open>
  Code that performs effects: a computation takes the state and returns the state with
  either the exception raised or the value. The state survives an exception, as Python's
  mutated objects and the outside world do. Two small logics reason about computations:
  \<open>preserves I m\<close> (every run keeps \<open>I\<close>, also when it raises) and the Hoare triple
  \<open>hoare P m Q E\<close> with one postcondition for a value and one for an exception.
\<close>

type_synonym ('s, 'a) act = "'s \<Rightarrow> (exn + 'a) \<times> 's"

definition ret :: "'a \<Rightarrow> ('s, 'a) act" where
  "ret a = (\<lambda>s. (Inr a, s))"

definition throw :: "exn \<Rightarrow> ('s, 'a) act" where
  "throw e = (\<lambda>s. (Inl e, s))"

definition bnd :: "('s, 'a) act \<Rightarrow> ('a \<Rightarrow> ('s, 'b) act) \<Rightarrow> ('s, 'b) act" where
  "bnd m k = (\<lambda>s. case m s of (Inl e, t) \<Rightarrow> (Inl e, t) | (Inr a, t) \<Rightarrow> k a t)"

definition seq :: "('s, 'a) act \<Rightarrow> ('s, 'b) act \<Rightarrow> ('s, 'b) act" where
  "seq m k = bnd m (\<lambda>_. k)"

definition handle :: "('s, 'a) act \<Rightarrow> (exn \<Rightarrow> ('s, 'a) act) \<Rightarrow> ('s, 'a) act" where
  "handle m k = (\<lambda>s. case m s of (Inl e, t) \<Rightarrow> k e t | (Inr a, t) \<Rightarrow> (Inr a, t))"

definition get_state :: "('s, 's) act" where
  "get_state = (\<lambda>s. (Inr s, s))"

definition modify :: "('s \<Rightarrow> 's) \<Rightarrow> ('s, unit) act" where
  "modify f = (\<lambda>s. (Inr (), f s))"

definition of_result :: "exn + 'a \<Rightarrow> ('s, 'a) act" where
  "of_result r = (\<lambda>s. (r, s))"

definition of_check :: "check \<Rightarrow> ('s, unit) act" where
  "of_check c = (\<lambda>s. (case c of None \<Rightarrow> Inr () | Some e \<Rightarrow> Inl e, s))"

definition ensure :: "bool \<Rightarrow> exn \<Rightarrow> ('s, unit) act" where
  "ensure b e = of_check (require b e)"

section \<open>Evaluation\<close>

lemma act_simps [simp]:
  "ret a s = (Inr a, s)"
  "throw e s = (Inl e, s)"
  "get_state s = (Inr s, s)"
  "modify f s = (Inr (), f s)"
  "of_result r s = (r, s)"
  by (simp_all add: ret_def throw_def get_state_def modify_def of_result_def)

lemma of_check_simps [simp]:
  "of_check None s = (Inr (), s)" "of_check (Some e) s = (Inl e, s)"
  by (simp_all add: of_check_def)

lemma ensure_simps [simp]:
  "b \<Longrightarrow> ensure b e s = (Inr (), s)" "\<not> b \<Longrightarrow> ensure b e s = (Inl e, s)"
  by (simp_all add: ensure_def require_def)

lemma bnd_eq: "bnd m k s = (case m s of (Inl e, t) \<Rightarrow> (Inl e, t) | (Inr a, t) \<Rightarrow> k a t)"
  by (simp add: bnd_def)

lemma seq_eq: "seq m k s = (case m s of (Inl e, t) \<Rightarrow> (Inl e, t) | (Inr a, t) \<Rightarrow> k t)"
  by (simp add: seq_def bnd_def)

lemma handle_eq: "handle m k s = (case m s of (Inl e, t) \<Rightarrow> k e t | (Inr a, t) \<Rightarrow> (Inr a, t))"
  by (simp add: handle_def)

lemma bnd_cases:
  assumes "bnd m k s = (r, u)"
  obtains (raises) e where "m s = (Inl e, u)" "r = Inl e"
    | (returns) a t where "m s = (Inr a, t)" "k a t = (r, u)"
  using assms by (auto simp: bnd_def split: prod.splits sum.splits)

lemma bnd_Inr: "bnd m k s = (Inr b, u) \<longleftrightarrow> (\<exists>a t. m s = (Inr a, t) \<and> k a t = (Inr b, u))"
  by (auto simp: bnd_def split: prod.splits sum.splits)

lemma seq_Inr: "seq m k s = (Inr b, u) \<longleftrightarrow> (\<exists>a t. m s = (Inr a, t) \<and> k t = (Inr b, u))"
  by (simp add: seq_def bnd_Inr)

lemma ensure_Inr [simp]: "ensure b e s = (Inr x, t) \<longleftrightarrow> b \<and> t = s"
  by (auto simp: ensure_def require_def)

lemma of_check_Inr [simp]: "of_check c s = (Inr x, t) \<longleftrightarrow> c = None \<and> t = s"
  by (auto simp: of_check_def split: option.splits)

lemmas run_simps = bnd_eq seq_eq handle_eq

section \<open>Preservation\<close>

definition preserves :: "('s \<Rightarrow> bool) \<Rightarrow> ('s, 'a) act \<Rightarrow> bool" where
  "preserves I m \<longleftrightarrow> (\<forall>s. I s \<longrightarrow> I (snd (m s)))"

named_theorems preserves_intro "rules of preservation"

lemma preservesI: "(\<And>s r t. I s \<Longrightarrow> m s = (r, t) \<Longrightarrow> I t) \<Longrightarrow> preserves I m"
  unfolding preserves_def by (metis prod.collapse)

lemma preservesD: "preserves I m \<Longrightarrow> I s \<Longrightarrow> m s = (r, t) \<Longrightarrow> I t"
  by (auto simp: preserves_def dest: spec [of _ s])

lemma preserves_basic [preserves_intro, simp]:
  "preserves I (ret a)" "preserves I (throw e)" "preserves I get_state"
  "preserves I (of_result r)" "preserves I (of_check c)" "preserves I (ensure b e)"
  by (simp_all add: preserves_def of_check_def ensure_def)

lemma preserves_modify [preserves_intro]: "(\<And>s. I s \<Longrightarrow> I (f s)) \<Longrightarrow> preserves I (modify f)"
  by (simp add: preserves_def)

lemma preserves_bnd [preserves_intro]:
  "preserves I m \<Longrightarrow> (\<And>a. preserves I (k a)) \<Longrightarrow> preserves I (bnd m k)"
  by (intro preservesI) (auto elim!: bnd_cases dest: preservesD)

lemma preserves_seq [preserves_intro]: "preserves I m \<Longrightarrow> preserves I k \<Longrightarrow> preserves I (seq m k)"
  by (simp add: seq_def preserves_bnd)

lemma preserves_handle [preserves_intro]:
  "preserves I m \<Longrightarrow> (\<And>e. preserves I (k e)) \<Longrightarrow> preserves I (handle m k)"
  by (intro preservesI) (auto simp: handle_def split: prod.splits sum.splits dest: preservesD)

lemma preserves_if [preserves_intro]:
  "(b \<Longrightarrow> preserves I m) \<Longrightarrow> (\<not> b \<Longrightarrow> preserves I k) \<Longrightarrow> preserves I (if b then m else k)"
  by simp

lemma preserves_case_option [preserves_intro]:
  "(x = None \<Longrightarrow> preserves I m) \<Longrightarrow> (\<And>a. x = Some a \<Longrightarrow> preserves I (k a))
   \<Longrightarrow> preserves I (case x of None \<Rightarrow> m | Some a \<Rightarrow> k a)"
  by (cases x) auto

lemma preserves_case_sum [preserves_intro]:
  "(\<And>e. x = Inl e \<Longrightarrow> preserves I (m e)) \<Longrightarrow> (\<And>a. x = Inr a \<Longrightarrow> preserves I (k a))
   \<Longrightarrow> preserves I (case x of Inl e \<Rightarrow> m e | Inr a \<Rightarrow> k a)"
  by (cases x) auto

lemma preserves_case_prod [preserves_intro]:
  "(\<And>a b. x = (a, b) \<Longrightarrow> preserves I (k a b)) \<Longrightarrow> preserves I (case x of (a, b) \<Rightarrow> k a b)"
  by (cases x) auto

lemma preserves_Let [preserves_intro]: "preserves I (f x) \<Longrightarrow> preserves I (let y = x in f y)"
  by (simp add: Let_def)

section \<open>Hoare triples\<close>

definition hoare ::
  "('s \<Rightarrow> bool) \<Rightarrow> ('s, 'a) act \<Rightarrow> ('a \<Rightarrow> 's \<Rightarrow> bool) \<Rightarrow> (exn \<Rightarrow> 's \<Rightarrow> bool) \<Rightarrow> bool" where
  "hoare P m Q E \<longleftrightarrow>
     (\<forall>s. P s \<longrightarrow> (case m s of (Inr a, t) \<Rightarrow> Q a t | (Inl e, t) \<Rightarrow> E e t))"

lemma hoareI:
  "(\<And>s a t. P s \<Longrightarrow> m s = (Inr a, t) \<Longrightarrow> Q a t) \<Longrightarrow> (\<And>s e t. P s \<Longrightarrow> m s = (Inl e, t) \<Longrightarrow> E e t)
   \<Longrightarrow> hoare P m Q E"
  by (auto simp: hoare_def split: prod.splits sum.splits)

lemma hoare_Inr: "hoare P m Q E \<Longrightarrow> P s \<Longrightarrow> m s = (Inr a, t) \<Longrightarrow> Q a t"
  by (auto simp: hoare_def dest: spec [of _ s])

lemma hoare_Inl: "hoare P m Q E \<Longrightarrow> P s \<Longrightarrow> m s = (Inl e, t) \<Longrightarrow> E e t"
  by (auto simp: hoare_def dest: spec [of _ s])

lemma hoare_ret [hoare_intro]: "hoare (Q a) (ret a) Q E"
  by (simp add: hoare_def)

lemma hoare_throw [hoare_intro]: "hoare (E e) (throw e) Q E"
  by (simp add: hoare_def)

lemma hoare_bnd:
  "hoare P m R E \<Longrightarrow> (\<And>a. hoare (R a) (k a) Q E) \<Longrightarrow> hoare P (bnd m k) Q E"
  by (intro hoareI) (auto elim!: bnd_cases dest: hoare_Inr hoare_Inl)

lemma hoare_seq: "hoare P m (\<lambda>_. R) E \<Longrightarrow> hoare R k Q E \<Longrightarrow> hoare P (seq m k) Q E"
  unfolding seq_def by (rule hoare_bnd)

lemma hoare_weaken: "hoare P' m Q E \<Longrightarrow> (\<And>s. P s \<Longrightarrow> P' s) \<Longrightarrow> hoare P m Q E"
  by (simp add: hoare_def)

lemma hoare_strengthen:
  "hoare P m Q' E' \<Longrightarrow> (\<And>a s. Q' a s \<Longrightarrow> Q a s) \<Longrightarrow> (\<And>e s. E' e s \<Longrightarrow> E e s) \<Longrightarrow> hoare P m Q E"
  by (intro hoareI) (auto dest: hoare_Inr hoare_Inl)

section \<open>Termination of a loop that stops at the first outcome of another kind\<close>

text \<open>\<open>repeat_until n stop m\<close> runs \<open>m\<close> at most \<open>n\<close> times until its value satisfies
  \<open>stop\<close>; \<open>None\<close> is fuel that ran out.\<close>

fun repeat_until :: "nat \<Rightarrow> ('a \<Rightarrow> bool) \<Rightarrow> ('s, 'a) act \<Rightarrow> 's \<Rightarrow> ((exn + 'a) \<times> 's) option" where
  "repeat_until 0 stop m s = None"
| "repeat_until (Suc n) stop m s =
     (case m s of
        (Inl e, t) \<Rightarrow> Some (Inl e, t)
      | (Inr a, t) \<Rightarrow> if stop a then Some (Inr a, t) else repeat_until n stop m t)"

lemma repeat_until_mono:
  "repeat_until n stop m s = Some r \<Longrightarrow> repeat_until (Suc n) stop m s = Some r"
proof (induction n arbitrary: s)
  case 0
  then show ?case by simp
next
  case (Suc n)
  obtain x t where ms: "m s = (x, t)" by (cases "m s")
  show ?case
    using Suc.prems ms Suc.IH [of t]
    by (cases x) (auto simp del: repeat_until.simps(2) split: if_splits
        simp: repeat_until.simps(2) [of _ stop m s])
qed

text \<open>Enough fuel: a measure that every unfinished round decreases.\<close>

lemma repeat_until_enough:
  assumes step: "\<And>s a t. I s \<Longrightarrow> m s = (Inr a, t) \<Longrightarrow> \<not> stop a \<Longrightarrow> I t \<and> f t < f s"
    and "I s" and "f s < n"
  shows "\<exists>r. repeat_until n stop m s = Some r"
  using assms(2,3)
proof (induction n arbitrary: s)
  case 0
  then show ?case by simp
next
  case (Suc n)
  obtain r t where ms: "m s = (r, t)" by (cases "m s")
  show ?case
  proof (cases r)
    case (Inl e)
    with ms show ?thesis by simp
  next
    case (Inr a)
    show ?thesis
    proof (cases "stop a")
      case True
      with ms Inr show ?thesis by simp
    next
      case False
      with step [OF Suc.prems(1)] ms Inr have "I t" "f t < f s" by auto
      with Suc have "\<exists>r. repeat_until n stop m t = Some r" by auto
      with ms Inr False show ?thesis by simp
    qed
  qed
qed

end
