(* ===== verification/Store.thy ===== *)
theory Store
  imports Authorization Effects "HOL-Library.Product_Lexorder"
begin

text \<open>
  \<open>pr_delivery/store.py\<close>: the protected file that holds the delivery records, its
  fail-closed validation on every load and save, and the capacity rules under which a
  record is added. A file is its permission bits and the value that JSON parsing yields,
  \<open>None\<close> where the content is not JSON or cannot be read; the atomic replacement of
  \<open>workflow_authority/atomic.py\<close> is a single change of the file.
\<close>

section \<open>The file\<close>

datatype stored_file = Absent | File nat "json option"

record 'w sys =
  disk :: stored_file
  world :: 'w

definition STORE_SCHEMA_VERSION :: int where "STORE_SCHEMA_VERSION = 1"
definition MAX_PR_DELIVERY_RECORDS :: nat where "MAX_PR_DELIVERY_RECORDS = 64"

definition STORE_TOP_LEVEL_KEYS :: "str list" where
  "STORE_TOP_LEVEL_KEYS = [''pr_delivery_store_schema_version'', ''deliveries'']"

definition default_document :: json where
  "default_document = JObj
     [(''pr_delivery_store_schema_version'', JInt STORE_SCHEMA_VERSION), (''deliveries'', JObj [])]"

definition deliveries_of :: "json \<Rightarrow> (str \<times> json) list" where
  "deliveries_of document = obj_of (jget ''deliveries'' document)"

definition set_deliveries :: "(str \<times> json) list \<Rightarrow> json \<Rightarrow> json" where
  "set_deliveries ds document = JObj (AList.update ''deliveries'' (JObj ds) (obj_of document))"

text \<open>\<open>mode & 0o077\<close>: any group or other permission bit.\<close>

definition open_permissions :: "nat \<Rightarrow> bool" where
  "open_permissions m \<longleftrightarrow> m mod 64 \<noteq> 0"

definition as_store_error :: "check \<Rightarrow> check" where
  "as_store_error c = (case c of Some (AuthorizationError p) \<Rightarrow> Some StoreError | _ \<Rightarrow> c)"

definition validate_stored :: "host \<Rightarrow> str \<times> json \<Rightarrow> check" where
  "validate_stored h kv = checks
     [as_store_error (validate_authorization h (snd kv)),
      require (jget ''delivery_id'' (snd kv) = JStr (fst kv)) StoreError]"

definition validate_document :: "host \<Rightarrow> json \<Rightarrow> check" where
  "validate_document h document = checks
     [require (is_obj document) StoreError,
      require (schema_version_ok (jget ''pr_delivery_store_schema_version'' document)) StoreError,
      require (list_all (\<lambda>k. k \<in> set STORE_TOP_LEVEL_KEYS) (jkeys document)) StoreError,
      require (list_all (\<lambda>k. k \<in> set (jkeys document)) STORE_TOP_LEVEL_KEYS) StoreError,
      require (is_obj (jget ''deliveries'' document)) StoreError,
      require (length (deliveries_of document) \<le> MAX_PR_DELIVERY_RECORDS) StoreError,
      checks (map (validate_stored h) (deliveries_of document))]"

definition store_load :: "host \<Rightarrow> stored_file \<Rightarrow> exn + json" where
  "store_load h f =
     (case f of
        Absent \<Rightarrow> Inr default_document
      | File permissions content \<Rightarrow>
          if open_permissions permissions then Inl StoreError
          else (case content of
                  None \<Rightarrow> Inl StoreError
                | Some document \<Rightarrow> guard_check (validate_document h document) (Inr document)))"

definition store_save :: "host \<Rightarrow> json \<Rightarrow> exn + stored_file" where
  "store_save h document = guard_check (validate_document h document) (Inr (File 384 (Some document)))"

section \<open>Capacity\<close>

definition is_active :: "json \<Rightarrow> bool" where
  "is_active r \<longleftrightarrow> jget ''phase'' r \<notin> set (map (\<lambda>p. JStr (phase_str p)) TERMINAL_PHASES)"

definition is_replay_protected :: "json \<Rightarrow> pynum \<Rightarrow> bool" where
  "is_replay_protected r now \<longleftrightarrow>
     jget ''source'' (jget ''human_authorization'' r) = JStr AUTHORIZATION_SOURCE_DOTS_OPERATOR_ATTESTED
     \<and> num_less now (num_of (jget ''expires_at'' (jget ''expiration'' r)))"

definition num_rat :: "pynum \<Rightarrow> rat" where
  "num_rat n = (case num_val n of Finite r \<Rightarrow> r | _ \<Rightarrow> 0)"

definition authorized_at_of :: "json \<Rightarrow> pynum" where
  "authorized_at_of r = num_of (jget ''authorized_at'' (jget ''human_authorization'' r))"

definition prunable :: "(str \<times> json) list \<Rightarrow> pynum \<Rightarrow> str list" where
  "prunable ds now =
     map fst (sort_key (\<lambda>kv. (num_rat (authorized_at_of (snd kv)), fst kv))
       (filter (\<lambda>kv. \<not> is_active (snd kv) \<and> \<not> is_replay_protected (snd kv) now) ds))"

fun prune_loop :: "str list \<Rightarrow> (str \<times> json) list \<Rightarrow> nat \<Rightarrow> (str \<times> json) list \<times> nat" where
  "prune_loop [] ds pruned = (ds, pruned)"
| "prune_loop (i # rest) ds pruned =
     (if length ds < MAX_PR_DELIVERY_RECORDS then (ds, pruned)
      else prune_loop rest (AList.delete i ds) (Suc pruned))"

definition prune_inactive :: "(str \<times> json) list \<Rightarrow> pynum \<Rightarrow> (str \<times> json) list \<times> nat" where
  "prune_inactive ds now =
     (if length ds < MAX_PR_DELIVERY_RECORDS then (ds, 0) else prune_loop (prunable ds now) ds 0)"

datatype add_result = Added | DuplicateDelivery | StoreFull

definition add_delivery :: "host \<Rightarrow> json \<Rightarrow> json \<Rightarrow> exn + (json \<times> add_result \<times> nat)" where
  "add_delivery h document record =
     guard_check (validate_authorization h record)
       (let ds = deliveries_of document; i = str_of (jget ''delivery_id'' record) in
        if i \<in> fst ` set ds then Inr (document, DuplicateDelivery, 0)
        else
          let (kept, pruned) = prune_inactive ds (authorized_at_of record) in
          if MAX_PR_DELIVERY_RECORDS \<le> length kept
          then Inr (set_deliveries kept document, StoreFull, pruned)
          else Inr (set_deliveries (AList.update i record kept) document, Added, pruned))"

section \<open>The store as a service\<close>

definition load_document :: "host \<Rightarrow> ('w sys, json) act" where
  "load_document h = (\<lambda>s. (store_load h (disk s), s))"

definition save_document :: "host \<Rightarrow> json \<Rightarrow> ('w sys, unit) act" where
  "save_document h document = (\<lambda>s. case store_save h document of
     Inl e \<Rightarrow> (Inl e, s) | Inr f \<Rightarrow> (Inr (), s\<lparr>disk := f\<rparr>))"

section \<open>The interface of the store\<close>

text \<open>
  What a client relies on: what was saved is what a load returns, a save that is
  refused changes nothing, and only valid documents are saved or loaded.
\<close>

locale document_store =
  fixes load :: "'f \<Rightarrow> exn + 'd"
    and save :: "'d \<Rightarrow> exn + 'f"
    and valid :: "'d \<Rightarrow> bool"
  assumes load_save: "save d = Inr f \<Longrightarrow> load f = Inr d"
    and save_valid: "save d = Inr f \<Longrightarrow> valid d"
    and valid_save: "valid d \<Longrightarrow> \<exists>f. save d = Inr f"
    and load_valid: "load f = Inr d \<Longrightarrow> valid d"
begin

lemma save_load_save: "load f = Inr d \<Longrightarrow> \<exists>g. save d = Inr g \<and> load g = Inr d"
  using load_valid valid_save load_save by blast

lemma refused_iff: "(\<exists>e. save d = Inl e) \<longleftrightarrow> \<not> valid d"
  using save_valid valid_save by (metis obj_sumE sum.simps(4))

end

lemma default_document_valid: "validate_document h default_document = None"
  by (simp add: validate_document_def default_document_def deliveries_of_def jkeys_def
      STORE_SCHEMA_VERSION_def STORE_TOP_LEVEL_KEYS_def schema_version_ok_def require_def)

interpretation ds: document_store "store_load h" "store_save h" "\<lambda>d. validate_document h d = None"
  for h
proof (unfold_locales, goal_cases)
  case (1 d f)
  then show ?case
    by (auto simp: store_load_def store_save_def guard_check_Inr_iff open_permissions_def)
next
  case (2 d f)
  then show ?case by (auto simp: store_save_def guard_check_Inr_iff)
next
  case (3 d)
  then show ?case by (auto simp: store_save_def)
next
  case (4 f d)
  then show ?case
    by (auto simp: store_load_def guard_check_Inr_iff default_document_valid
        split: stored_file.splits if_splits option.splits)
qed

section \<open>Capacity lemmas\<close>

lemma length_delete_le: "length (AList.delete k al) \<le> length al"
  by (simp add: AList.delete_eq)

lemma delete_other: "k \<noteq> i \<Longrightarrow> (k, v) \<in> set (AList.delete i ds) \<longleftrightarrow> (k, v) \<in> set ds"
  by (auto simp: AList.delete_eq)

lemma prune_loop_keeps:
  "prune_loop ids ds n = (kept, m) \<Longrightarrow> (k, v) \<in> set ds \<Longrightarrow> k \<notin> set ids \<Longrightarrow> (k, v) \<in> set kept"
  by (induction ids ds n rule: prune_loop.induct) (auto split: if_splits simp: delete_other)

lemma prune_loop_subset: "prune_loop ids ds n = (kept, m) \<Longrightarrow> set kept \<subseteq> set ds"
proof (induction ids ds n rule: prune_loop.induct)
  case (2 i rest ds pruned)
  then show ?case
    by (auto split: if_splits simp: AList.delete_eq)
qed auto

lemma prune_loop_distinct:
  "prune_loop ids ds n = (kept, m) \<Longrightarrow> distinct (map fst ds) \<Longrightarrow> distinct (map fst kept)"
  by (induction ids ds n rule: prune_loop.induct)
     (auto split: if_splits simp: AList.distinct_delete)

lemma in_prunable_iff:
  "i \<in> set (prunable ds now) \<longleftrightarrow>
     (\<exists>r. (i, r) \<in> set ds \<and> \<not> is_active r \<and> \<not> is_replay_protected r now)"
  by (force simp: prunable_def)

lemma prune_inactive_keeps:
  assumes "prune_inactive ds now = (kept, n)" "distinct (map fst ds)" "(k, r) \<in> set ds"
    and "is_active r \<or> is_replay_protected r now"
  shows "(k, r) \<in> set kept"
proof -
  have "k \<notin> set (prunable ds now)"
    using assms(2-4) by (auto simp: in_prunable_iff dest: eq_key_imp_eq_value)
  with assms(1,3) show ?thesis
    by (auto simp: prune_inactive_def split: if_splits dest: prune_loop_keeps)
qed

lemma prune_inactive_subset: "prune_inactive ds now = (kept, n) \<Longrightarrow> set kept \<subseteq> set ds"
  by (auto simp: prune_inactive_def split: if_splits dest: prune_loop_subset)

lemma deliveries_of_set [simp]: "deliveries_of (set_deliveries ds document) = ds"
  by (simp add: deliveries_of_def set_deliveries_def)

end
