(* ===== verification/Receipts.thy ===== *)
theory Receipts
  imports Store
begin

text \<open>
  \<open>pr_delivery/receipts.py\<close>: the one-shot receipt of a step. \<open>derive\<close> mints one from a
  parent whose preconditions hold; \<open>guard_decision\<close> is what a git hook asks, read-only
  over the stored file, and every failure is a refusal.
\<close>

section \<open>Derivation\<close>

fun LIVE_FACT_FIELDS :: "step \<Rightarrow> str list option" where
  "LIVE_FACT_FIELDS COMMIT = Some
     [''repository_realpath'', ''git_dir_realpath'', ''branch'', ''source_ref'',
      ''head_before'', ''staged_sha256'']"
| "LIVE_FACT_FIELDS BASE_REFRESH = Some
     [''repository_realpath'', ''source_ref'', ''old_base_oid'', ''new_base_oid'']"
| "LIVE_FACT_FIELDS PUSH = Some
     [''repository_realpath'', ''remote_name'', ''remote_url_exact'',
      ''remote_url_push'', ''source_ref'', ''source_commit'',
      ''destination_ref'', ''expected_remote_old_oid'']"
| "LIVE_FACT_FIELDS PR_CREATE = None"

definition PROBLEM_STEP_NOT_ALLOWED :: str where "PROBLEM_STEP_NOT_ALLOWED = ''pr_delivery_step_not_allowed''"
definition PROBLEM_PHASE_FORBIDS_STEP :: str where "PROBLEM_PHASE_FORBIDS_STEP = ''pr_delivery_phase_forbids_step''"
definition PROBLEM_EXPIRED :: str where "PROBLEM_EXPIRED = ''pr_delivery_expired''"
definition PROBLEM_REVOKED :: str where "PROBLEM_REVOKED = ''pr_delivery_revoked''"
definition PROBLEM_ATTEMPTS_EXHAUSTED :: str where "PROBLEM_ATTEMPTS_EXHAUSTED = ''pr_delivery_attempts_exhausted''"
definition PROBLEM_RECEIPT_BINDING :: str where "PROBLEM_RECEIPT_BINDING = ''pr_delivery_receipt_binding_mismatch''"
definition PROBLEM_EVIDENCE_STALE :: str where "PROBLEM_EVIDENCE_STALE = ''pr_delivery_evidence_stale''"
definition PROPOSED_PARENTS_FACT :: str where "PROPOSED_PARENTS_FACT = ''proposed_commit_parents''"

text \<open>The candidate digest and the base of each piece of evidence, in the order of the record.\<close>

definition evidence_bindings :: "evidence \<Rightarrow> (str \<times> str) list" where
  "evidence_bindings e =
     [(en_candidate (ev_engineering e), en_base_oid (ev_engineering e)),
      (rv_candidate (ev_review e), rv_base_oid (ev_review e)),
      (vf_candidate (ev_verification e), vf_base_oid (ev_verification e))]"

definition step_attempts :: "step_entry \<Rightarrow> nat" where
  "step_attempts e = length (se_voided e) + (case se_receipt e of None \<Rightarrow> 0 | Some _ \<Rightarrow> 1)"

definition precondition_problem :: "delivery \<Rightarrow> step \<Rightarrow> pynum \<Rightarrow> str option" where
  "precondition_problem d s now =
     (let a = d_authority d in
      if s \<notin> set (a_allowed_actions a) then Some PROBLEM_STEP_NOT_ALLOWED
      else if step_for_phase (a_mode a) (d_phase d) \<noteq> Some s then Some PROBLEM_PHASE_FORBIDS_STEP
      else if is_revoked d then Some PROBLEM_REVOKED
      else if is_expired d now then Some PROBLEM_EXPIRED
      else if MAX_STEP_ATTEMPTS \<le> step_attempts (d_steps d s) then Some PROBLEM_ATTEMPTS_EXHAUSTED
      else if \<not> list_all (\<lambda>(c, b). c = cd_digest (a_candidate a) \<and> b = bl_sha (a_baseline a))
                 (evidence_bindings (a_evidence a))
        then Some PROBLEM_EVIDENCE_STALE
      else None)"

definition derive :: "host \<Rightarrow> str \<Rightarrow> delivery \<Rightarrow> step \<Rightarrow> (str \<times> json) list \<Rightarrow> pynum \<Rightarrow> exn + receipt" where
  "derive h token d s binding now =
     (case precondition_problem d s now of
        Some p \<Rightarrow> Inl (ReceiptError p)
      | None \<Rightarrow>
          if set (map fst binding) \<noteq> set (receipt_binding_fields s)
          then Inl (ReceiptError PROBLEM_RECEIPT_BINDING)
          else
            let delivery_id = a_delivery_id (d_authority d);
                draft =
                  \<lparr>rc_id = ''rcpt-'' @ token, rc_step = s, rc_delivery_id = delivery_id,
                   rc_parent_digest = d_authority_digest d, rc_derived_at = now,
                   rc_attempt = int (length (se_voided (d_steps d s))) + 1,
                   rc_state = RECEIPT_DERIVED, rc_binding = binding, rc_observed = None,
                   rc_digest = replicate 64 (CHR ''0'')\<rparr> in
            sbind (receipt_digest h (receipt_json draft))
              (\<lambda>digest.
                 let receipt = draft\<lparr>rc_digest := digest\<rparr> in
                 guard_check
                   (validate_receipt h (receipt_json receipt) s (JStr delivery_id)
                      (JStr (d_authority_digest d)))
                   (Inr receipt)))"

section \<open>The guard path\<close>

fun binding_mismatches ::
  "receipt \<Rightarrow> (str \<times> json) list \<Rightarrow> str list \<Rightarrow> exn + (str \<times> json \<times> json option) list" where
  "binding_mismatches r live [] = Inr []"
| "binding_mismatches r live (field # names) =
     (case map_of (rc_binding r) field of
        None \<Rightarrow> Inl KeyErr
      | Some expected \<Rightarrow>
          sbind (binding_mismatches r live names)
            (\<lambda>problems. Inr
               (if map_of live field = Some expected then problems
                else (field, expected, map_of live field) # problems)))"

definition executing_receipt :: "delivery \<Rightarrow> step \<Rightarrow> receipt option" where
  "executing_receipt d s =
     (let entry = d_steps d s in
      case se_receipt entry of
        None \<Rightarrow> None
      | Some r \<Rightarrow>
          if se_state entry = STEP_EXECUTING \<and> rc_state r = RECEIPT_EXECUTING then Some r else None)"

definition executing_receipts_for :: "json \<Rightarrow> str \<Rightarrow> step \<Rightarrow> (delivery \<times> receipt) list" where
  "executing_receipts_for document repo_root s =
     List.map_filter
       (\<lambda>(_, j). let d = delivery_of_json j in
          if rp_realpath (a_repository (d_authority d)) \<noteq> repo_root then None
          else if d_phase d \<in> set TERMINAL_PHASES then None
          else map_option (Pair d) (executing_receipt d s))
       (deliveries_of document)"

datatype guard_refusal =
    StepNotCovered | NoExecutingReceipt | AmbiguousReceipts nat | DeliveryRevoked | DeliveryExpired
  | ActionNotAllowed | BindingMismatch str | ProposedParents | ReceiptPathUnavailable exn

definition guard_live :: "delivery \<Rightarrow> receipt \<Rightarrow> step \<Rightarrow> str list \<Rightarrow> (str \<times> json) list \<Rightarrow> pynum \<Rightarrow> guard_refusal + str" where
  "guard_live d r s names live now =
     (if is_revoked d then Inl DeliveryRevoked
      else if is_expired d now then Inl DeliveryExpired
      else if s \<notin> set (a_allowed_actions (d_authority d)) then Inl ActionNotAllowed
      else (case binding_mismatches r live names of
              Inl e \<Rightarrow> Inl (ReceiptPathUnavailable e)
            | Inr ((field, _, _) # _) \<Rightarrow> Inl (BindingMismatch field)
            | Inr [] \<Rightarrow>
                if s = COMMIT \<and> a_mode (d_authority d) = PR_UPDATE
                   \<and> PROPOSED_PARENTS_FACT \<in> fst ` set live
                   \<and> jget PROPOSED_PARENTS_FACT (JObj live)
                       \<noteq> JList [jget ''head_before'' (JObj (rc_binding r))]
                then Inl ProposedParents
                else Inr (rc_id r)))"

definition guard_decision ::
  "host \<Rightarrow> stored_file \<Rightarrow> str \<Rightarrow> str \<Rightarrow> (str \<times> json) list \<Rightarrow> pynum \<Rightarrow> guard_refusal + str" where
  "guard_decision h f repo_root step_name live now =
     (if step_name \<notin> set (map step_str STEPS) then Inl StepNotCovered
      else let s = step_of_str step_name in
        case LIVE_FACT_FIELDS s of
          None \<Rightarrow> Inl StepNotCovered
        | Some names \<Rightarrow>
            (case store_load h f of
               Inl e \<Rightarrow> Inl (ReceiptPathUnavailable e)
             | Inr document \<Rightarrow>
                 (case executing_receipts_for document (os_realpath h repo_root) s of
                    [] \<Rightarrow> Inl NoExecutingReceipt
                  | [(d, r)] \<Rightarrow> guard_live d r s names live now
                  | found \<Rightarrow> Inl (AmbiguousReceipts (length found)))))"

section \<open>Lemmas\<close>

lemma precondition_None:
  "precondition_problem d s now = None \<longleftrightarrow>
     s \<in> set (a_allowed_actions (d_authority d))
     \<and> step_for_phase (a_mode (d_authority d)) (d_phase d) = Some s
     \<and> \<not> is_revoked d \<and> \<not> is_expired d now
     \<and> step_attempts (d_steps d s) < MAX_STEP_ATTEMPTS
     \<and> (\<forall>x \<in> set (evidence_bindings (a_evidence (d_authority d))).
          x = (cd_digest (a_candidate (d_authority d)), bl_sha (a_baseline (d_authority d))))"
  by (auto simp: precondition_problem_def Let_def list_all_iff)

lemma derive_cases:
  assumes "derive h token d s binding now = Inr r"
  shows "precondition_problem d s now = None"
    and "set (map fst binding) = set (receipt_binding_fields s)"
    and "rc_id r = ''rcpt-'' @ token" "rc_step r = s" "rc_state r = RECEIPT_DERIVED"
    and "rc_binding r = binding" "rc_observed r = None"
    and "rc_attempt r = int (length (se_voided (d_steps d s))) + 1"
    and "rc_delivery_id r = a_delivery_id (d_authority d)"
    and "rc_parent_digest r = d_authority_digest d" "rc_derived_at r = now"
    and "validate_receipt h (receipt_json r) s (JStr (a_delivery_id (d_authority d)))
           (JStr (d_authority_digest d)) = None"
  using assms
  by (auto simp: derive_def Let_def sbind_Inr_iff guard_check_Inr_iff
      split: option.splits if_splits)

lemma binding_mismatches_Nil:
  "binding_mismatches r live names = Inr [] \<longleftrightarrow>
     (\<forall>f \<in> set names. \<exists>v. map_of (rc_binding r) f = Some v \<and> map_of live f = Some v)"
  by (induction names) (auto split: option.splits simp: sbind_Inr_iff)

lemma executing_receipt_Some:
  "executing_receipt d s = Some r \<longleftrightarrow>
     se_receipt (d_steps d s) = Some r \<and> se_state (d_steps d s) = STEP_EXECUTING
     \<and> rc_state r = RECEIPT_EXECUTING"
  by (auto simp: executing_receipt_def Let_def split: option.splits)

lemma in_executing_receipts_for:
  "(d, r) \<in> set (executing_receipts_for document repo s) \<longleftrightarrow>
     (\<exists>k j. (k, j) \<in> set (deliveries_of document) \<and> d = delivery_of_json j
        \<and> rp_realpath (a_repository (d_authority d)) = repo
        \<and> d_phase d \<notin> set TERMINAL_PHASES \<and> executing_receipt d s = Some r)"
  unfolding executing_receipts_for_def in_map_filter Let_def
  by (auto split: if_splits simp: Bex_def)

text \<open>The facts that an allowing decision establishes.\<close>

definition covers :: "delivery \<Rightarrow> receipt \<Rightarrow> step \<Rightarrow> (str \<times> json) list \<Rightarrow> pynum \<Rightarrow> bool" where
  "covers d r s live now \<longleftrightarrow>
     executing_receipt d s = Some r \<and> d_phase d \<notin> set TERMINAL_PHASES
     \<and> \<not> is_revoked d \<and> \<not> is_expired d now
     \<and> s \<in> set (a_allowed_actions (d_authority d))
     \<and> (case LIVE_FACT_FIELDS s of None \<Rightarrow> False
        | Some names \<Rightarrow> \<forall>f \<in> set names. \<exists>v. map_of (rc_binding r) f = Some v \<and> map_of live f = Some v)"

lemma guard_live_Inr:
  "guard_live d r s names live now = Inr i \<longleftrightarrow>
     i = rc_id r \<and> \<not> is_revoked d \<and> \<not> is_expired d now
     \<and> s \<in> set (a_allowed_actions (d_authority d)) \<and> binding_mismatches r live names = Inr []
     \<and> \<not> (s = COMMIT \<and> a_mode (d_authority d) = PR_UPDATE
          \<and> PROPOSED_PARENTS_FACT \<in> fst ` set live
          \<and> jget PROPOSED_PARENTS_FACT (JObj live) \<noteq> JList [jget ''head_before'' (JObj (rc_binding r))])"
  by (auto simp: guard_live_def split: sum.splits list.splits simp del: jget_obj)

lemma guard_decision_unique:
  assumes "guard_decision h f repo (step_str s) live now = Inr i"
  obtains document d r where
    "store_load h f = Inr document"
    "executing_receipts_for document (os_realpath h repo) s = [(d, r)]"
    "rc_id r = i" "covers d r s live now"
    "s = COMMIT \<Longrightarrow> a_mode (d_authority d) = PR_UPDATE \<Longrightarrow> PROPOSED_PARENTS_FACT \<in> fst ` set live
       \<Longrightarrow> jget PROPOSED_PARENTS_FACT (JObj live) = JList [jget ''head_before'' (JObj (rc_binding r))]"
proof -
  from assms obtain names document d r where *:
    "LIVE_FACT_FIELDS s = Some names" "store_load h f = Inr document"
    "executing_receipts_for document (os_realpath h repo) s = [(d, r)]"
    "guard_live d r s names live now = Inr i"
    by (auto simp: guard_decision_def Let_def split: option.splits sum.splits list.splits if_splits)
  have "(d, r) \<in> set (executing_receipts_for document (os_realpath h repo) s)"
    using *(3) by simp
  then have "executing_receipt d s = Some r" "d_phase d \<notin> set TERMINAL_PHASES"
    by (auto simp: in_executing_receipts_for)
  with * have "covers d r s live now"
    by (auto simp: covers_def guard_live_Inr binding_mismatches_Nil)
  with * that show thesis by (auto simp: guard_live_Inr simp del: jget_obj)
qed

end
