(* ===== verification/PrText.thy ===== *)
theory PrText
  imports Delivery
begin

text \<open>
  \<open>pr_delivery/pr_text.py\<close>: the title, the body and the revision message of a delivery,
  rendered from the durable fields of its record alone, and their digests. The only
  exception is the lookup of a status that is no status of a candidate.
\<close>

definition LISTED_PATHS :: nat where "LISTED_PATHS = 200"

definition newline :: str where "newline = [CHR 0x0A]"

definition backtick :: str where "backtick = [CHR 0x60]"

definition quoted :: "str \<Rightarrow> str" where
  "quoted s = backtick @ s @ backtick"

fun status_word :: "str \<Rightarrow> exn + str" where
  "status_word s =
     (if s = ''A'' then Inr ''added'' else if s = ''M'' then Inr ''modified''
      else if s = ''D'' then Inr ''deleted'' else Inl KeyErr)"

definition pr_title :: "delivery \<Rightarrow> str" where
  "pr_title d = py_take MAX_PR_TITLE_CHARS (strip (pc_title (a_pr_content (d_authority d))))"

definition pr_section :: "str \<Rightarrow> str \<Rightarrow> str list" where
  "pr_section heading content =
     (let text = strip content in
      if text = [] then [] else [''## '' @ heading, [], text, []])"

definition scope_line :: "cand_entry \<Rightarrow> exn + str" where
  "scope_line e = sbind (status_word (ce_status e))
     (\<lambda>w. Inr (''- '' @ w @ '' '' @ quoted (ce_path e) @ '' ('' @ ce_mode e @ '')''))"

definition scope_heading :: "candidate \<Rightarrow> str \<Rightarrow> str list" where
  "scope_heading c base_sha =
     [''## Changed scope'', [],
      show_int (cd_count c) @ '' path(s) changed relative to base '' @ quoted base_sha
        @ ''; candidate identity '' @ quoted (cd_digest c) @ ''.'',
      []]"

definition evidence_lines :: "evidence \<Rightarrow> str list" where
  "evidence_lines e =
     (let v = ev_verification e; r = ev_review e; g = ev_engineering e in
      [''## Validation evidence'', [],
       ''- Independent verification command: '' @ quoted (join_with '' '' (vf_argv v))
         @ ''; exit status '' @ show_int (vf_exit_status v) @ ''; log sha256 ''
         @ quoted (vf_log_sha256 v) @ '' ('' @ show_int (vf_log_bytes v) @ '' bytes).'',
       ''- Engineering task '' @ quoted (en_task_id g) @ '' reached '' @ en_status g @ ''.'',
       ''- Canonical Reviewer decision: '' @ rv_decision r @ '' in round '' @ show_int (rv_round r)
         @ '' (artifact '' @ quoted (rv_file_name r) @ '', sha256 '' @ quoted (rv_file_sha256 r) @ '').'',
       []])"

definition body_lines :: "delivery \<Rightarrow> exn + str list" where
  "body_lines d =
     (let a = d_authority d; content = a_pr_content a; c = a_candidate a;
          remaining = cd_count c - int LISTED_PATHS in
      sbind (map_result scope_line (take LISTED_PATHS (cd_entries c)))
        (\<lambda>listed. Inr
           (pr_section ''Objective'' (pc_objective content)
            @ scope_heading c (bl_sha (a_baseline a))
            @ listed
            @ (if 0 < remaining
               then [''- and '' @ show_int remaining @ '' more path(s) not listed here''] else [])
            @ [[]]
            @ evidence_lines (a_evidence a)
            @ pr_section ''Architecture notes'' (pc_notes content)
            @ pr_section ''Known nonblocking risks'' (pc_risks content))))"

definition truncation_marker :: str where
  "truncation_marker =
     newline @ ''[body truncated to the '' @ show_int (int MAX_PR_BODY_CHARS) @ ''-character bound]'' @ newline"

definition bound_body :: "str \<Rightarrow> str" where
  "bound_body text =
     (if MAX_PR_BODY_CHARS < py_len text
      then py_take (MAX_PR_BODY_CHARS - py_len truncation_marker) text @ truncation_marker
      else text)"

definition pr_body :: "delivery \<Rightarrow> exn + str" where
  "pr_body d = sbind (body_lines d)
     (\<lambda>ls. Inr (bound_body (rstrip (join_with newline ls) @ newline)))"

definition revision_message :: "delivery \<Rightarrow> str" where
  "revision_message d =
     (let objective = strip (pc_objective (a_pr_content (d_authority d))) in
      py_take MAX_PR_BODY_CHARS
        (pr_title d @ newline @ (if objective = [] then [] else newline @ objective @ newline)))"

definition title_digest :: "host \<Rightarrow> delivery \<Rightarrow> str" where
  "title_digest h d = text_digest h (pr_title d)"

definition body_digest :: "host \<Rightarrow> delivery \<Rightarrow> exn + str" where
  "body_digest h d = sbind (pr_body d) (\<lambda>b. Inr (text_digest h b))"

definition message_digest :: "host \<Rightarrow> delivery \<Rightarrow> str" where
  "message_digest h d = text_digest h (revision_message d)"

section \<open>Lemmas\<close>

lemma truncation_marker_len: "py_len truncation_marker = 47"
  by (simp add: truncation_marker_def newline_def MAX_PR_BODY_CHARS_def show_int_def
      digits_of_nat.simps is_cont_def)

lemma bound_body_len: "py_len (bound_body t) \<le> MAX_PR_BODY_CHARS"
  using py_len_take [of "MAX_PR_BODY_CHARS - py_len truncation_marker" t]
  by (simp add: bound_body_def truncation_marker_len MAX_PR_BODY_CHARS_def)

lemma scope_lines_total:
  "list_all (\<lambda>e. ce_status e \<in> set CANDIDATE_STATUSES) es \<Longrightarrow> \<exists>ls. map_result scope_line es = Inr ls"
  by (induction es) (auto simp: scope_line_def CANDIDATE_STATUSES_def)

lemma pr_body_total:
  assumes "list_all (\<lambda>e. ce_status e \<in> set CANDIDATE_STATUSES) (cd_entries (a_candidate (d_authority d)))"
  shows "\<exists>b. pr_body d = Inr b"
proof -
  have "list_all (\<lambda>e. ce_status e \<in> set CANDIDATE_STATUSES)
          (take LISTED_PATHS (cd_entries (a_candidate (d_authority d))))"
    using assms by (auto simp: list_all_iff dest: in_set_takeD)
  from scope_lines_total [OF this] show ?thesis
    by (auto simp: pr_body_def body_lines_def Let_def)
qed

end
