(* ===== verification/Utf8.thy ===== *)
theory Utf8
  imports Digest
begin

text \<open>
  Reading text out of the bytes a child process writes: UTF-8 decoding with errors
  replaced, the strict incremental decoder behind \<open>_StrictUtf8Sha256\<close> of
  \<open>pr_delivery/transport.py\<close>, and Python's \<open>splitlines\<close> and \<open>split\<close>.
\<close>

section \<open>One sequence\<close>

text \<open>What stands at the head of a byte string: a whole sequence of so many bytes, the
  beginning of one that the input ends in, or so many bytes that start none.\<close>

datatype utf8_head = Whole nat | Partial | Broken nat

definition seq_length :: "nat \<Rightarrow> nat" where
  "seq_length n =
     (if n < 128 then 1 else if 194 \<le> n \<and> n < 224 then 2
      else if 224 \<le> n \<and> n < 240 then 3 else if 240 \<le> n \<and> n < 245 then 4 else 0)"

definition second_ok :: "nat \<Rightarrow> char \<Rightarrow> bool" where
  "second_ok a b \<longleftrightarrow>
     is_cont b \<and> (a = 224 \<longrightarrow> 160 \<le> ord_of b) \<and> (a = 237 \<longrightarrow> ord_of b < 160)
     \<and> (a = 240 \<longrightarrow> 144 \<le> ord_of b) \<and> (a = 244 \<longrightarrow> ord_of b < 144)"

fun head_of :: "bytes \<Rightarrow> utf8_head" where
  "head_of [] = Partial"
| "head_of (a # s) =
     (let m = seq_length (ord_of a) in
      if m = 0 then Broken 1
      else if m = 1 then Whole 1
      else (case s of
              [] \<Rightarrow> Partial
            | b # t \<Rightarrow>
                if \<not> second_ok (ord_of a) b then Broken 1
                else if m = 2 then Whole 2
                else (case t of
                        [] \<Rightarrow> Partial
                      | c # u \<Rightarrow>
                          if \<not> is_cont c then Broken 2
                          else if m = 3 then Whole 3
                          else (case u of
                                  [] \<Rightarrow> Partial
                                | d # v \<Rightarrow> if \<not> is_cont d then Broken 3 else Whole 4))))"

lemma head_of_bound:
  "head_of s = Whole n \<Longrightarrow> 0 < n \<and> n \<le> length s"
  "head_of s = Broken n \<Longrightarrow> 0 < n \<and> n \<le> length s"
  by (cases s; auto simp: Let_def split: if_splits list.splits)+

text \<open>A whole sequence, and a broken one, are decided by the bytes they consist of.\<close>

lemma head_of_append:
  "head_of s = Whole n \<Longrightarrow> head_of (s @ t) = Whole n"
  "head_of s = Broken n \<Longrightarrow> head_of (s @ t) = Broken n"
  by (cases s; auto simp: Let_def split: if_splits list.splits)+

section \<open>Decoding with replacement\<close>

definition REPLACEMENT :: str where
  "REPLACEMENT = [CHR 0xEF, CHR 0xBF, CHR 0xBD]"

function decode_replace :: "bytes \<Rightarrow> str" where
  "decode_replace s =
     (if s = [] then []
      else (case head_of s of
              Whole n \<Rightarrow> take n s @ decode_replace (drop n s)
            | Partial \<Rightarrow> REPLACEMENT
            | Broken n \<Rightarrow> REPLACEMENT @ decode_replace (drop n s)))"
  by pat_completeness auto
termination
  by (relation "measure length") (auto dest: head_of_bound)

declare decode_replace.simps [simp del]

section \<open>Incremental decoding\<close>

text \<open>The bytes an incremental decoder keeps back after it was fed \<open>s\<close>, or \<open>None\<close>
  where it raised.\<close>

function utf8_pending :: "bytes \<Rightarrow> bytes option" where
  "utf8_pending s =
     (if s = [] then Some []
      else (case head_of s of
              Whole n \<Rightarrow> utf8_pending (drop n s)
            | Partial \<Rightarrow> Some s
            | Broken n \<Rightarrow> None))"
  by pat_completeness auto
termination
  by (relation "measure length") (auto dest: head_of_bound)

declare utf8_pending.simps [simp del]

lemma utf8_pending_Nil [simp]: "utf8_pending [] = Some []"
  by (simp add: utf8_pending.simps)

lemma utf8_pending_append:
  "utf8_pending (s @ t) = (case utf8_pending s of None \<Rightarrow> None | Some r \<Rightarrow> utf8_pending (r @ t))"
proof (induction s rule: utf8_pending.induct)
  case (1 s)
  show ?case
  proof (cases "s = []")
    case False
    show ?thesis
    proof (cases "head_of s")
      case (Whole n)
      with head_of_bound(1) [of s n] have "drop n (s @ t) = drop n s @ t" by simp
      with 1 False Whole show ?thesis
        by (simp add: utf8_pending.simps [of s] utf8_pending.simps [of "s @ t"] head_of_append)
    next
      case Partial
      with False show ?thesis by (simp add: utf8_pending.simps [of s])
    next
      case (Broken n)
      with False show ?thesis
        by (simp add: utf8_pending.simps [of s] utf8_pending.simps [of "s @ t"] head_of_append)
    qed
  qed simp
qed

text \<open>\<open>_StrictUtf8Sha256\<close>: the bytes hashed so far, the bytes the decoder keeps back,
  and the flag of an invalid byte.\<close>

record strict_digest =
  sd_hashed :: bytes
  sd_pending :: bytes
  sd_invalid :: bool

definition strict_init :: strict_digest where
  "strict_init = \<lparr>sd_hashed = [], sd_pending = [], sd_invalid = False\<rparr>"

definition strict_update :: "bytes \<Rightarrow> strict_digest \<Rightarrow> strict_digest" where
  "strict_update chunk s =
     (if sd_invalid s then s
      else (case utf8_pending (sd_pending s @ chunk) of
              None \<Rightarrow> s\<lparr>sd_invalid := True\<rparr>
            | Some r \<Rightarrow> s\<lparr>sd_hashed := sd_hashed s @ chunk, sd_pending := r\<rparr>))"

definition strict_hexdigest :: "host \<Rightarrow> strict_digest \<Rightarrow> exn + str" where
  "strict_hexdigest h s =
     (if sd_invalid s \<or> sd_pending s \<noteq> [] then Inl DeliveryTransportError
      else Inr (sha256_hex h (sd_hashed s)))"

text \<open>What the state is after the chunks of some data, however they were cut.\<close>

definition strict_inv :: "bytes \<Rightarrow> strict_digest \<Rightarrow> bool" where
  "strict_inv data s \<longleftrightarrow>
     (if sd_invalid s then utf8_pending data = None
      else sd_hashed s = data \<and> utf8_pending data = Some (sd_pending s))"

lemma strict_inv_update: "strict_inv data s \<Longrightarrow> strict_inv (data @ chunk) (strict_update chunk s)"
  using utf8_pending_append [of data chunk]
  by (auto simp: strict_inv_def strict_update_def split: if_splits option.splits)

lemma strict_inv_fold: "strict_inv data s \<Longrightarrow> strict_inv (data @ concat chunks) (fold strict_update chunks s)"
proof (induction chunks arbitrary: data s)
  case (Cons c cs)
  from Cons.IH [OF strict_inv_update [OF Cons.prems]] show ?case by simp
qed simp

lemma strict_hexdigest_chunks:
  "strict_hexdigest h (fold strict_update chunks strict_init) =
     (if utf8_pending (concat chunks) = Some [] then Inr (sha256_hex h (concat chunks))
      else Inl DeliveryTransportError)"
proof -
  have "strict_inv ([] @ concat chunks) (fold strict_update chunks strict_init)"
    by (rule strict_inv_fold) (simp add: strict_inv_def strict_init_def)
  then show ?thesis by (auto simp: strict_inv_def strict_hexdigest_def split: if_splits)
qed

section \<open>The incremental and the one-shot decoder agree\<close>

lemma three_byte_range:
  assumes "y < 64" "z < (64::nat)"
  shows "2048 \<le> x * 4096 + y * 64 + z \<longleftrightarrow> (x = 0 \<longrightarrow> 32 \<le> y)"
    and "55296 \<le> x * 4096 + y * 64 + z \<and> x * 4096 + y * 64 + z < 57344 \<longleftrightarrow> x = 13 \<and> 32 \<le> y"
proof -
  show "2048 \<le> x * 4096 + y * 64 + z \<longleftrightarrow> (x = 0 \<longrightarrow> 32 \<le> y)"
    using assms by (cases x) auto
  consider "x \<le> 12" | "x = 13" | "14 \<le> x" by linarith
  then show "55296 \<le> x * 4096 + y * 64 + z \<and> x * 4096 + y * 64 + z < 57344 \<longleftrightarrow> x = 13 \<and> 32 \<le> y"
    using assms by cases auto
qed

lemma four_byte_range:
  assumes "y < 64" "z < 64" "w < (64::nat)" "x < 5"
  shows "65536 \<le> x * 262144 + y * 4096 + z * 64 + w \<longleftrightarrow> (x = 0 \<longrightarrow> 16 \<le> y)"
    and "x * 262144 + y * 4096 + z * 64 + w < 1114112 \<longleftrightarrow> (x = 4 \<longrightarrow> y < 16)"
proof -
  show "65536 \<le> x * 262144 + y * 4096 + z * 64 + w \<longleftrightarrow> (x = 0 \<longrightarrow> 16 \<le> y)"
    using assms by (cases x) auto
  consider "x \<le> 3" | "x = 4" using assms(4) by linarith
  then show "x * 262144 + y * 4096 + z * 64 + w < 1114112 \<longleftrightarrow> (x = 4 \<longrightarrow> y < 16)"
    using assms(1-3) by cases auto
qed

lemma is_contE:
  assumes "is_cont b"
  obtains y where "ord_of b = 128 + y" "y < 64"
proof -
  have "ord_of b = 128 + (ord_of b - 128)" "ord_of b - 128 < 64"
    using assms by (auto simp: is_cont_def)
  then show thesis by (rule that)
qed

lemma decode_head:
  "utf8_decode (a # s) \<noteq> None \<longleftrightarrow>
     (\<exists>n. head_of (a # s) = Whole n \<and> utf8_decode (drop n (a # s)) \<noteq> None)"
proof -
  consider "seq_length (ord_of a) = 0" | "ord_of a < 128" | "194 \<le> ord_of a" "ord_of a < 224"
    | "224 \<le> ord_of a" "ord_of a < 240" | "240 \<le> ord_of a" "ord_of a < 245"
    by (fastforce simp: seq_length_def)
  then show ?thesis
  proof cases
    case 1
    then show ?thesis by (auto simp: seq_length_def Let_def split: if_splits)
  next
    case 2
    then show ?thesis by (auto simp: seq_length_def)
  next
    case 3
    then show ?thesis by (cases s) (auto simp: seq_length_def second_ok_def Let_def)
  next
    case 4
    then have "ord_of a = 224 + (ord_of a - 224)" "ord_of a - 224 < 16" by auto
    then obtain x where x: "ord_of a = 224 + x" "x < 16" by blast
    show ?thesis
    proof (cases s rule: remdups_adj.cases)
      case (3 b c t)
      show ?thesis
      proof (cases "is_cont b \<and> is_cont c")
        case True
        then obtain y z where "ord_of b = 128 + y" "y < 64" "ord_of c = 128 + z" "z < 64"
          by (metis is_contE)
        with x True show ?thesis
          using three_byte_range [of y z x] by (simp add: 3 seq_length_def second_ok_def Let_def)
      qed (use 4 in \<open>auto simp: 3 seq_length_def second_ok_def Let_def\<close>)
    qed (use 4 in \<open>auto simp: seq_length_def second_ok_def Let_def\<close>)
  next
    case 5
    then have "ord_of a = 240 + (ord_of a - 240)" "ord_of a - 240 < 5" by auto
    then obtain x where x: "ord_of a = 240 + x" "x < 5" by blast
    show ?thesis
    proof (cases "\<exists>b c d t. s = b # c # d # t \<and> is_cont b \<and> is_cont c \<and> is_cont d")
      case True
      then obtain b c d t y z w where "s = b # c # d # t" "is_cont b" "is_cont c" "is_cont d"
        "ord_of b = 128 + y" "y < 64" "ord_of c = 128 + z" "z < 64" "ord_of d = 128 + w" "w < 64"
        by (metis is_contE)
      with x show ?thesis
        using four_byte_range [of y z w x] by (simp add: seq_length_def second_ok_def Let_def)
    next
      case False
      with 5 show ?thesis
        by (auto simp: seq_length_def second_ok_def Let_def split: list.splits)
    qed
  qed
qed

lemma utf8_pending_valid: "utf8_pending s = Some [] \<longleftrightarrow> valid_utf8 s"
proof (induction s rule: utf8_pending.induct)
  case (1 s)
  show ?case
  proof (cases s)
    case Nil
    then show ?thesis by (simp add: valid_utf8_def)
  next
    case (Cons a t)
    from 1 show ?thesis
      unfolding valid_utf8_def Cons decode_head
      by (cases "head_of (a # t)") (simp_all add: utf8_pending.simps [of "a # t"] del: head_of.simps)
  qed
qed

section \<open>Lines and words\<close>

definition line_breaks :: "str list" where
  "line_breaks =
     [[CHR 0x0D, CHR 0x0A], [CHR 0x0A], [CHR 0x0B], [CHR 0x0C], [CHR 0x0D], [CHR 0x1C], [CHR 0x1D],
      [CHR 0x1E], [CHR 0xC2, CHR 0x85], [CHR 0xE2, CHR 0x80, CHR 0xA8], [CHR 0xE2, CHR 0x80, CHR 0xA9]]"

function lines_from :: "str \<Rightarrow> str \<Rightarrow> str list" where
  "lines_from acc s =
     (case s of
        [] \<Rightarrow> if acc = [] then [] else [rev acc]
      | c # cs \<Rightarrow>
          (case List.find (starts_with s) line_breaks of
             None \<Rightarrow> lines_from (c # acc) cs
           | Some b \<Rightarrow> rev acc # lines_from [] (drop (length b - 1) cs)))"
  by pat_completeness auto
termination
  by (relation "measure (\<lambda>(acc, s). length s)") auto

declare lines_from.simps [simp del]

definition splitlines :: "str \<Rightarrow> str list" where
  "splitlines s = lines_from [] s"

definition all_spaces :: "str list" where
  "all_spaces = map (\<lambda>n. [char_of n]) ([9..<14] @ [28..<33]) @ wide_spaces"

function words_from :: "str \<Rightarrow> str \<Rightarrow> str list" where
  "words_from acc s =
     (case s of
        [] \<Rightarrow> if acc = [] then [] else [rev acc]
      | c # cs \<Rightarrow>
          (case List.find (starts_with s) all_spaces of
             None \<Rightarrow> words_from (c # acc) cs
           | Some b \<Rightarrow> (if acc = [] then [] else [rev acc]) @ words_from [] (drop (length b - 1) cs)))"
  by pat_completeness auto
termination
  by (relation "measure (\<lambda>(acc, s). length s)") auto

declare words_from.simps [simp del]

definition split_words :: "str \<Rightarrow> str list" where
  "split_words s = words_from [] s"

end
