(* ===== verification/Transport.thy ===== *)
theory Transport
  imports Effects Utf8
begin

text \<open>
  \<open>pr_delivery/transport.py\<close>: the git and gh calls of a delivery. Starting a process
  is the parameter \<open>run\<close>: it takes the argument vector, the working directory and the
  input, may change the state and may raise, and returns the exit status and the whole
  standard output. The standard error text only reaches messages and is left out.
  \<open>json.loads\<close> and \<open>repr\<close> of a container or a float are the parameters \<open>loads\<close> and \<open>repr\<close>.
\<close>

section \<open>The closed verb set\<close>

type_synonym 's runner = "str list \<Rightarrow> str option \<Rightarrow> bytes option \<Rightarrow> ('s, int \<times> bytes) act"

definition MAX_TRANSPORT_OUTPUT_BYTES :: nat where
  "MAX_TRANSPORT_OUTPUT_BYTES = 1048576"

definition ALLOWED_GIT_VERBS :: "str list" where
  "ALLOWED_GIT_VERBS =
     [''rev-parse'', ''symbolic-ref'', ''config'', ''remote'', ''status'', ''diff'',
      ''diff-index'', ''diff-tree'', ''write-tree'', ''ls-remote'', ''fetch'',
      ''merge-base'', ''update-index'', ''read-tree'', ''update-ref'', ''commit'', ''push'']"

definition ALLOWED_GH_ARGV :: "str list list" where
  "ALLOWED_GH_ARGV =
     [[''pr'', ''list''], [''pr'', ''create''], [''pr'', ''view''], [''api'', ''--method'', ''GET'']]"

definition PR_JSON_FIELDS :: str where
  "PR_JSON_FIELDS = ''number,url,headRefOid,headRefName,baseRefName,state''"

definition PR_VIEW_JSON_FIELDS :: str where
  "PR_VIEW_JSON_FIELDS = PR_JSON_FIELDS @ '',isCrossRepository''"

definition run_child :: "'s runner \<Rightarrow> str list \<Rightarrow> bytes option \<Rightarrow> ('s, int \<times> bytes) act" where
  "run_child run argv stdin =
     bnd (run argv None stdin)
       (\<lambda>(code, out). if MAX_TRANSPORT_OUTPUT_BYTES < length out then throw DeliveryTransportError
                      else ret (code, out))"

definition git_verb :: "str list \<Rightarrow> str option" where
  "git_verb argv = List.find (\<lambda>item. \<not> starts_with item ''-'') argv"

definition verb_allowed :: "str list \<Rightarrow> bool" where
  "verb_allowed argv = (case git_verb argv of None \<Rightarrow> False | Some v \<Rightarrow> v \<in> set ALLOWED_GIT_VERBS)"

definition git_argv :: "str list \<Rightarrow> str \<Rightarrow> str list \<Rightarrow> str list" where
  "git_argv config path argv =
     ''git'' # concat (map (\<lambda>item. [''-c'', item]) config) @ [''-C'', path] @ argv"

definition git :: "'s runner \<Rightarrow> str list \<Rightarrow> bool \<Rightarrow> str \<Rightarrow> str list \<Rightarrow> ('s, int \<times> bytes) act" where
  "git run config allow_fail path argv =
     seq (ensure (verb_allowed argv) DeliveryTransportError)
       (bnd (run_child run (git_argv config path argv) None)
          (\<lambda>(code, out). if code \<noteq> 0 \<and> \<not> allow_fail then throw DeliveryTransportError
                         else ret (code, out)))"

definition git_text :: "'s runner \<Rightarrow> bool \<Rightarrow> str \<Rightarrow> str list \<Rightarrow> ('s, int \<times> str) act" where
  "git_text run allow_fail path argv =
     bnd (git run [] allow_fail path argv) (\<lambda>(code, out). ret (code, strip (decode_replace out)))"

definition git_stdout :: "'s runner \<Rightarrow> str list \<Rightarrow> str \<Rightarrow> str list \<Rightarrow> ('s, bytes) act" where
  "git_stdout run config path argv = bnd (git run config False path argv) (\<lambda>(code, out). ret out)"

definition git_do :: "'s runner \<Rightarrow> str list \<Rightarrow> str \<Rightarrow> str list \<Rightarrow> ('s, unit) act" where
  "git_do run config path argv = bnd (git run config False path argv) (\<lambda>_. ret ())"

definition git_optional :: "'s runner \<Rightarrow> str \<Rightarrow> str list \<Rightarrow> ('s, str option) act" where
  "git_optional run path argv =
     bnd (git_text run True path argv)
       (\<lambda>(code, text). ret (if code = 0 \<and> text \<noteq> [] then Some text else None))"

section \<open>Read verbs\<close>

definition toplevel :: "'s runner \<Rightarrow> str \<Rightarrow> ('s, str) act" where
  "toplevel run path = bnd (git_text run False path [''rev-parse'', ''--show-toplevel'']) (\<lambda>(_, t). ret t)"

definition git_dir :: "'s runner \<Rightarrow> str \<Rightarrow> ('s, str) act" where
  "git_dir run path =
     bnd (git_text run False path [''rev-parse'', ''--path-format=absolute'', ''--git-dir'']) (\<lambda>(_, t). ret t)"

definition rev_parse :: "'s runner \<Rightarrow> str \<Rightarrow> str \<Rightarrow> ('s, str option) act" where
  "rev_parse run path spec = git_optional run path [''rev-parse'', ''--verify'', ''--quiet'', spec @ ''^{}'']"

definition symbolic_ref_head :: "'s runner \<Rightarrow> str \<Rightarrow> ('s, str option) act" where
  "symbolic_ref_head run path = git_optional run path [''symbolic-ref'', ''-q'', ''HEAD'']"

definition config_get :: "'s runner \<Rightarrow> str \<Rightarrow> str \<Rightarrow> ('s, str option) act" where
  "config_get run path key = git_optional run path [''config'', ''--get'', key]"

definition remote_url :: "'s runner \<Rightarrow> str \<Rightarrow> str \<Rightarrow> ('s, str option) act" where
  "remote_url run path name = config_get run path (''remote.'' @ name @ ''.url'')"

definition remote_fetch_url :: "'s runner \<Rightarrow> str \<Rightarrow> str \<Rightarrow> ('s, str option) act" where
  "remote_fetch_url run path name = git_optional run path [''remote'', ''get-url'', name]"

definition remote_push_url :: "'s runner \<Rightarrow> str \<Rightarrow> str \<Rightarrow> ('s, str option) act" where
  "remote_push_url run path name = git_optional run path [''remote'', ''get-url'', ''--push'', name]"

definition status_porcelain :: "'s runner \<Rightarrow> str \<Rightarrow> ('s, str) act" where
  "status_porcelain run path =
     bnd (git_stdout run [''core.quotePath=true''] path [''--no-optional-locks'', ''status'', ''--porcelain''])
       (\<lambda>out. if valid_utf8 out then ret out else throw DeliveryTransportError)"

definition worktree_status_z :: "'s runner \<Rightarrow> str \<Rightarrow> ('s, bytes) act" where
  "worktree_status_z run path =
     git_stdout run [] path
       [''--no-optional-locks'', ''status'', ''--porcelain=v1'', ''-z'', ''--untracked-files=all'', ''--no-renames'']"

definition diff_index_raw :: "'s runner \<Rightarrow> str \<Rightarrow> str \<Rightarrow> ('s, bytes) act" where
  "diff_index_raw run path base_oid =
     git_stdout run [] path
       [''diff-index'', ''--cached'', ''--raw'', ''--abbrev=40'', ''--no-renames'', ''-z'', base_oid]"

definition diff_tree_raw :: "'s runner \<Rightarrow> str \<Rightarrow> str \<Rightarrow> str \<Rightarrow> ('s, bytes) act" where
  "diff_tree_raw run path old_oid new_oid =
     git_stdout run [] path
       [''diff-tree'', ''-r'', ''--raw'', ''--abbrev=40'', ''--no-renames'', ''-z'', old_oid, new_oid]"

text \<open>The one capture without the output bound. Its chunks are the parameter \<open>chunk\<close>: how
  the pipe cuts the output into reads.\<close>

definition staged_diff_sha256 :: "host \<Rightarrow> (bytes \<Rightarrow> bytes list) \<Rightarrow> 's runner \<Rightarrow> str \<Rightarrow> ('s, str) act" where
  "staged_diff_sha256 h chunk run path =
     (let argv = [''diff'', ''--cached'', ''--binary''] in
      seq (ensure (hd argv \<in> set ALLOWED_GIT_VERBS) DeliveryTransportError)
        (bnd (run ([''git'', ''-C'', path] @ argv) None None)
           (\<lambda>(code, out). if code \<noteq> 0 then throw DeliveryTransportError
              else of_result (strict_hexdigest h (fold strict_update (chunk out) strict_init)))))"

definition write_tree :: "'s runner \<Rightarrow> str \<Rightarrow> ('s, str) act" where
  "write_tree run path = bnd (git_text run False path [''write-tree'']) (\<lambda>(_, t). ret t)"

definition commit_parents :: "'s runner \<Rightarrow> str \<Rightarrow> str \<Rightarrow> ('s, str list) act" where
  "commit_parents run path oid =
     bnd (git_text run False path [''rev-parse'', oid @ ''^@''])
       (\<lambda>(_, text). let parents = split_words text in
          if list_all (\<lambda>p. py_len p = 40 \<and> is_hex p) parents then ret parents
          else throw DeliveryTransportError)"

definition ls_remote_match :: "str \<Rightarrow> str list \<Rightarrow> str option" where
  "ls_remote_match ref lines =
     map_option hd
       (List.find (\<lambda>parts. length parts = 2 \<and> parts ! 1 = ref) (map (split_on (CHR 0x09)) lines))"

definition ls_remote :: "'s runner \<Rightarrow> str \<Rightarrow> str \<Rightarrow> str \<Rightarrow> ('s, str option) act" where
  "ls_remote run path remote_name ref =
     bnd (git_text run True path [''ls-remote'', ''--exit-code'', remote_name, ref])
       (\<lambda>(_, text). ret (ls_remote_match ref (splitlines text)))"

definition is_ancestor :: "'s runner \<Rightarrow> str \<Rightarrow> str \<Rightarrow> str \<Rightarrow> ('s, bool) act" where
  "is_ancestor run path old_oid new_oid =
     bnd (git run [] True path [''merge-base'', ''--is-ancestor'', old_oid, new_oid])
       (\<lambda>(code, _). ret (code = 0))"

section \<open>Write verbs\<close>

definition fetch_ref :: "'s runner \<Rightarrow> str \<Rightarrow> str \<Rightarrow> str \<Rightarrow> ('s, unit) act" where
  "fetch_ref run path remote_name ref =
     git_do run [] path [''fetch'', ''--quiet'', ''--no-tags'', remote_name, ref]"

definition read_tree_two_way :: "'s runner \<Rightarrow> str \<Rightarrow> str \<Rightarrow> str \<Rightarrow> ('s, unit) act" where
  "read_tree_two_way run path old_oid new_oid =
     seq (git_do run [] path [''update-index'', ''-q'', ''--refresh''])
       (git_do run [] path [''read-tree'', ''-m'', ''-u'', old_oid, new_oid])"

definition update_ref :: "'s runner \<Rightarrow> str \<Rightarrow> str \<Rightarrow> str \<Rightarrow> str \<Rightarrow> ('s, unit) act" where
  "update_ref run path ref new_oid old_oid = git_do run [] path [''update-ref'', ref, new_oid, old_oid]"

definition commit :: "'s runner \<Rightarrow> str \<Rightarrow> str \<Rightarrow> str \<Rightarrow> str \<Rightarrow> ('s, unit) act" where
  "commit run path name email message =
     git_do run [''user.name='' @ name, ''user.email='' @ email, ''commit.gpgsign=false''] path
       [''commit'', ''--quiet'', ''-m'', message]"

definition push :: "'s runner \<Rightarrow> str \<Rightarrow> str \<Rightarrow> str \<Rightarrow> str \<Rightarrow> ('s, unit) act" where
  "push run path remote_name source_ref destination_ref =
     git_do run [] path [''push'', ''--quiet'', remote_name, source_ref @ '':'' @ destination_ref]"

definition run_reverification :: "'s runner \<Rightarrow> str list \<Rightarrow> str \<Rightarrow> ('s, int \<times> bytes \<times> bool) act" where
  "run_reverification run argv cwd =
     seq (ensure (argv \<noteq> []) DeliveryTransportError)
       (bnd (run argv (Some cwd) None)
          (\<lambda>(code, out). ret (code, take MAX_TRANSPORT_OUTPUT_BYTES out,
                              MAX_TRANSPORT_OUTPUT_BYTES < length out)))"

section \<open>gh verbs\<close>

definition gh_prefix :: "str list \<Rightarrow> str list" where
  "gh_prefix argv = (if take 1 argv = [''api''] then take 3 argv else take 2 argv)"

definition gh :: "'s runner \<Rightarrow> str list \<Rightarrow> bytes option \<Rightarrow> ('s, bytes) act" where
  "gh run argv stdin =
     seq (ensure (gh_prefix argv \<in> set ALLOWED_GH_ARGV) DeliveryTransportError)
       (bnd (run_child run (''gh'' # argv) stdin)
          (\<lambda>(code, out). if code \<noteq> 0 then throw DeliveryTransportError else ret out))"

definition gh_json :: "(str \<Rightarrow> json option) \<Rightarrow> 's runner \<Rightarrow> str list \<Rightarrow> ('s, json) act" where
  "gh_json loads run argv =
     bnd (gh run argv None)
       (\<lambda>out. case (if valid_utf8 out then loads out else None) of
          None \<Rightarrow> throw DeliveryTransportError | Some v \<Rightarrow> ret v)"

definition repo_slug :: "str \<Rightarrow> str \<Rightarrow> str" where
  "repo_slug owner repo = owner @ ''/'' @ repo"

definition gh_pr_list :: "(str \<Rightarrow> json option) \<Rightarrow> 's runner \<Rightarrow> str \<Rightarrow> str \<Rightarrow> str \<Rightarrow> str \<Rightarrow> ('s, json) act" where
  "gh_pr_list loads run owner repo head_branch base_branch =
     gh_json loads run
       [''pr'', ''list'', ''--repo'', repo_slug owner repo, ''--head'', head_branch, ''--base'', base_branch,
        ''--state'', ''all'', ''--json'', PR_JSON_FIELDS]"

definition gh_pr_create ::
  "'s runner \<Rightarrow> str \<Rightarrow> str \<Rightarrow> str \<Rightarrow> str \<Rightarrow> str \<Rightarrow> str \<Rightarrow> ('s, str) act" where
  "gh_pr_create run owner repo head_branch base_branch title body_text =
     bnd (gh run
            [''pr'', ''create'', ''--repo'', repo_slug owner repo, ''--head'', head_branch,
             ''--base'', base_branch, ''--title'', title, ''--body-file'', ''-'']
            (Some body_text))
       (\<lambda>out. ret (strip (decode_replace out)))"

definition gh_pr_view :: "(str \<Rightarrow> json option) \<Rightarrow> 's runner \<Rightarrow> str \<Rightarrow> str \<Rightarrow> int \<Rightarrow> ('s, json) act" where
  "gh_pr_view loads run owner repo number =
     gh_json loads run
       [''pr'', ''view'', show_int number, ''--repo'', repo_slug owner repo, ''--json'', PR_VIEW_JSON_FIELDS]"

text \<open>\<open>str(v)\<close>.\<close>

fun py_str :: "(json \<Rightarrow> str) \<Rightarrow> json \<Rightarrow> str" where
  "py_str repr JNull = ''None''"
| "py_str repr (JBool b) = (if b then ''True'' else ''False'')"
| "py_str repr (JStr s) = s"
| "py_str repr (JNum (PInt i)) = show_int i"
| "py_str repr v = repr v"

record check_run =
  cr_name :: str
  cr_status :: str
  cr_conclusion :: json

definition check_run_of :: "(json \<Rightarrow> str) \<Rightarrow> json \<Rightarrow> check_run" where
  "check_run_of repr r =
     \<lparr>cr_name = py_str repr (jget ''name'' r), cr_status = py_str repr (jget ''status'' r),
      cr_conclusion = jget ''conclusion'' r\<rparr>"

definition gh_check_runs ::
  "(str \<Rightarrow> json option) \<Rightarrow> (json \<Rightarrow> str) \<Rightarrow> 's runner \<Rightarrow> str \<Rightarrow> str \<Rightarrow> str \<Rightarrow> ('s, check_run list) act" where
  "gh_check_runs loads repr run owner repo sha =
     bnd (gh_json loads run
            [''api'', ''--method'', ''GET'',
             ''repos/'' @ owner @ ''/'' @ repo @ ''/commits/'' @ sha @ ''/check-runs''])
       (\<lambda>document. let runs = (if is_obj document then jget ''check_runs'' document else JNull) in
          if is_list runs then ret (map (check_run_of repr) (filter is_obj (list_of runs)))
          else throw DeliveryTransportError)"

section \<open>Only the closed verbs start a process\<close>

text \<open>An argument vector of the closed set: git, its configuration items, the repository
  and an allowed verb; or gh with an allowed prefix.\<close>

fun after_config :: "str list \<Rightarrow> str list" where
  "after_config (option # value # rest) =
     (if option = ''-c'' then after_config rest else if option = ''-C'' then rest else [])"
| "after_config _ = []"

definition closed_argv :: "str list \<Rightarrow> bool" where
  "closed_argv argv \<longleftrightarrow>
     (case argv of
        [] \<Rightarrow> False
      | program # rest \<Rightarrow>
          (program = ''git'' \<and> verb_allowed (after_config rest))
          \<or> (program = ''gh'' \<and> gh_prefix rest \<in> set ALLOWED_GH_ARGV))"

text \<open>A runner that refuses every other vector without starting anything.\<close>

definition monitored :: "'s runner \<Rightarrow> 's runner" where
  "monitored run argv cwd stdin =
     (if closed_argv argv then run argv cwd stdin else throw (AuthorizationError ''monitor''))"

lemma after_config_argv: "after_config (concat (map (\<lambda>item. [''-c'', item]) config) @ ''-C'' # path # argv) = argv"
  by (induction config) auto

lemma closed_git_argv: "closed_argv (git_argv config path argv) \<longleftrightarrow> verb_allowed argv"
  by (simp add: closed_argv_def git_argv_def after_config_argv)

lemma git_monitored [simp]: "git (monitored run) = git run"
proof (intro ext)
  fix config allow_fail path argv s
  show "git (monitored run) config allow_fail path argv s = git run config allow_fail path argv s"
    by (cases "verb_allowed argv")
       (simp_all add: git_def seq_eq run_child_def monitored_def closed_git_argv)
qed

lemma gh_monitored [simp]: "gh (monitored run) = gh run"
proof (intro ext)
  fix argv stdin s
  show "gh (monitored run) argv stdin s = gh run argv stdin s"
    by (cases "gh_prefix argv \<in> set ALLOWED_GH_ARGV")
       (simp_all add: gh_def seq_eq run_child_def monitored_def closed_argv_def)
qed

lemma staged_diff_monitored [simp]:
  "staged_diff_sha256 h chunk (monitored run) = staged_diff_sha256 h chunk run"
proof (intro ext)
  fix path s
  have "closed_argv [''git'', ''-C'', path, ''diff'', ''--cached'', ''--binary'']"
    by (simp add: closed_argv_def verb_allowed_def git_verb_def ALLOWED_GIT_VERBS_def)
  then show "staged_diff_sha256 h chunk (monitored run) path s = staged_diff_sha256 h chunk run path s"
    by (simp add: staged_diff_sha256_def monitored_def)
qed

lemmas git_call_defs =
  git_text_def git_stdout_def git_do_def git_optional_def toplevel_def git_dir_def rev_parse_def
  symbolic_ref_head_def config_get_def remote_url_def remote_fetch_url_def remote_push_url_def
  status_porcelain_def worktree_status_z_def diff_index_raw_def diff_tree_raw_def write_tree_def
  commit_parents_def ls_remote_def is_ancestor_def fetch_ref_def read_tree_two_way_def
  update_ref_def commit_def push_def gh_json_def gh_pr_list_def gh_pr_create_def gh_pr_view_def
  gh_check_runs_def

section \<open>The transport object\<close>

text \<open>What the machine calls: one field per method of the transport that its steps use. The
  machine's definitions are for every such record; \<open>real_transport\<close> is the production one.\<close>

record 's transport =
  t_toplevel :: "str \<Rightarrow> ('s, str) act"
  t_git_dir :: "str \<Rightarrow> ('s, str) act"
  t_rev_parse :: "str \<Rightarrow> str \<Rightarrow> ('s, str option) act"
  t_symbolic_ref_head :: "str \<Rightarrow> ('s, str option) act"
  t_config_get :: "str \<Rightarrow> str \<Rightarrow> ('s, str option) act"
  t_remote_url :: "str \<Rightarrow> str \<Rightarrow> ('s, str option) act"
  t_remote_fetch_url :: "str \<Rightarrow> str \<Rightarrow> ('s, str option) act"
  t_remote_push_url :: "str \<Rightarrow> str \<Rightarrow> ('s, str option) act"
  t_status_porcelain :: "str \<Rightarrow> ('s, str) act"
  t_worktree_status_z :: "str \<Rightarrow> ('s, bytes) act"
  t_diff_index_raw :: "str \<Rightarrow> str \<Rightarrow> ('s, bytes) act"
  t_diff_tree_raw :: "str \<Rightarrow> str \<Rightarrow> str \<Rightarrow> ('s, bytes) act"
  t_staged_diff_sha256 :: "str \<Rightarrow> ('s, str) act"
  t_write_tree :: "str \<Rightarrow> ('s, str) act"
  t_commit_parents :: "str \<Rightarrow> str \<Rightarrow> ('s, str list) act"
  t_ls_remote :: "str \<Rightarrow> str \<Rightarrow> str \<Rightarrow> ('s, str option) act"
  t_is_ancestor :: "str \<Rightarrow> str \<Rightarrow> str \<Rightarrow> ('s, bool) act"
  t_fetch_ref :: "str \<Rightarrow> str \<Rightarrow> str \<Rightarrow> ('s, unit) act"
  t_read_tree_two_way :: "str \<Rightarrow> str \<Rightarrow> str \<Rightarrow> ('s, unit) act"
  t_update_ref :: "str \<Rightarrow> str \<Rightarrow> str \<Rightarrow> str \<Rightarrow> ('s, unit) act"
  t_commit :: "str \<Rightarrow> str \<Rightarrow> str \<Rightarrow> str \<Rightarrow> ('s, unit) act"
  t_push :: "str \<Rightarrow> str \<Rightarrow> str \<Rightarrow> str \<Rightarrow> ('s, unit) act"
  t_run_reverification :: "str list \<Rightarrow> str \<Rightarrow> ('s, int \<times> bytes \<times> bool) act"
  t_gh_pr_list :: "str \<Rightarrow> str \<Rightarrow> str \<Rightarrow> str \<Rightarrow> ('s, json) act"
  t_gh_pr_create :: "str \<Rightarrow> str \<Rightarrow> str \<Rightarrow> str \<Rightarrow> str \<Rightarrow> str \<Rightarrow> ('s, str) act"
  t_gh_pr_view :: "str \<Rightarrow> str \<Rightarrow> int \<Rightarrow> ('s, json) act"
  t_gh_check_runs :: "str \<Rightarrow> str \<Rightarrow> str \<Rightarrow> ('s, check_run list) act"

definition real_transport ::
  "host \<Rightarrow> (bytes \<Rightarrow> bytes list) \<Rightarrow> (str \<Rightarrow> json option) \<Rightarrow> (json \<Rightarrow> str) \<Rightarrow> 's runner \<Rightarrow> 's transport" where
  "real_transport h chunk loads repr run =
     \<lparr>t_toplevel = toplevel run, t_git_dir = git_dir run, t_rev_parse = rev_parse run,
      t_symbolic_ref_head = symbolic_ref_head run, t_config_get = config_get run, t_remote_url = remote_url run,
      t_remote_fetch_url = remote_fetch_url run, t_remote_push_url = remote_push_url run,
      t_status_porcelain = status_porcelain run, t_worktree_status_z = worktree_status_z run,
      t_diff_index_raw = diff_index_raw run, t_diff_tree_raw = diff_tree_raw run,
      t_staged_diff_sha256 = staged_diff_sha256 h chunk run, t_write_tree = write_tree run,
      t_commit_parents = commit_parents run, t_ls_remote = ls_remote run,
      t_is_ancestor = is_ancestor run, t_fetch_ref = fetch_ref run,
      t_read_tree_two_way = read_tree_two_way run, t_update_ref = update_ref run,
      t_commit = commit run, t_push = push run, t_run_reverification = run_reverification run,
      t_gh_pr_list = gh_pr_list loads run, t_gh_pr_create = gh_pr_create run,
      t_gh_pr_view = gh_pr_view loads run, t_gh_check_runs = gh_check_runs loads repr run\<rparr>"

end
