(* ===== verification/MachineBase.thy ===== *)
theory MachineBase
  imports Receipts PrText Transport Canonical
begin

text \<open>
  \<open>pr_delivery/machine.py\<close>, the part below the steps: the pure checks, the working copy
  of a record and its persistence, the recording of outcomes, and the start of a receipt.

  The state of a running machine is the working copy and the system it shares with other
  processes: the stored file and the outside world. The clock, the token source and every
  transport call are computations over that system, so between two actions of the machine
  another process (a revocation, a second driver, a git hook) may have changed either.
  The body of a \<open>with store.lock()\<close> block is one action.
\<close>

section \<open>Problems and outcomes\<close>

definition PROBLEM_WRONG_REPOSITORY :: str where "PROBLEM_WRONG_REPOSITORY = ''pr_delivery_wrong_repository''"
definition PROBLEM_BRANCH_NOT_CHECKED_OUT :: str where
  "PROBLEM_BRANCH_NOT_CHECKED_OUT = ''pr_delivery_branch_not_checked_out''"
definition PROBLEM_WRONG_REMOTE :: str where "PROBLEM_WRONG_REMOTE = ''pr_delivery_wrong_remote''"
definition PROBLEM_HEAD_NOT_AT_BASE :: str where "PROBLEM_HEAD_NOT_AT_BASE = ''pr_delivery_head_not_at_base''"
definition PROBLEM_CANDIDATE_UNSTAGED :: str where "PROBLEM_CANDIDATE_UNSTAGED = ''pr_delivery_candidate_unstaged''"
definition PROBLEM_BASE_REF_MISSING :: str where "PROBLEM_BASE_REF_MISSING = ''pr_delivery_base_ref_missing''"
definition PROBLEM_BASE_NOT_FAST_FORWARD :: str where
  "PROBLEM_BASE_NOT_FAST_FORWARD = ''pr_delivery_base_not_fast_forward''"
definition PROBLEM_BASE_OVERLAP :: str where "PROBLEM_BASE_OVERLAP = ''pr_delivery_base_overlap''"
definition PROBLEM_BASE_CI_RED :: str where "PROBLEM_BASE_CI_RED = ''pr_delivery_base_ci_red''"
definition PROBLEM_REVERIFICATION_FAILED :: str where
  "PROBLEM_REVERIFICATION_FAILED = ''pr_delivery_reverification_failed''"
definition PROBLEM_UNEXPECTED_REF_MOVEMENT :: str where
  "PROBLEM_UNEXPECTED_REF_MOVEMENT = ''pr_delivery_unexpected_ref_movement''"
definition PROBLEM_COMMIT_RESULT_MISMATCH :: str where
  "PROBLEM_COMMIT_RESULT_MISMATCH = ''pr_delivery_commit_result_mismatch''"
definition PROBLEM_PR_AMBIGUOUS :: str where "PROBLEM_PR_AMBIGUOUS = ''pr_delivery_pr_ambiguous''"
definition PROBLEM_PR_NOT_OPEN :: str where "PROBLEM_PR_NOT_OPEN = ''pr_delivery_pr_not_open''"
definition PROBLEM_PR_RESULT_MISMATCH :: str where "PROBLEM_PR_RESULT_MISMATCH = ''pr_delivery_pr_result_mismatch''"
definition PROBLEM_BASE_ADVANCED_OVERLAPPING_AFTER_COMMIT :: str where
  "PROBLEM_BASE_ADVANCED_OVERLAPPING_AFTER_COMMIT = ''pr_delivery_base_advanced_overlapping_after_commit''"
definition PROBLEM_MISSING_RECORD :: str where "PROBLEM_MISSING_RECORD = ''pr_delivery_missing_record''"
definition PROBLEM_PR_CLOSED :: str where "PROBLEM_PR_CLOSED = ''pr_delivery_pr_closed''"
definition PROBLEM_PR_MERGED :: str where "PROBLEM_PR_MERGED = ''pr_delivery_pr_merged''"
definition PROBLEM_PR_HEAD_BRANCH_MISMATCH :: str where
  "PROBLEM_PR_HEAD_BRANCH_MISMATCH = ''pr_delivery_pr_head_branch_mismatch''"
definition PROBLEM_PR_BASE_BRANCH_MISMATCH :: str where
  "PROBLEM_PR_BASE_BRANCH_MISMATCH = ''pr_delivery_pr_base_branch_mismatch''"
definition PROBLEM_PR_HEAD_DRIFT :: str where "PROBLEM_PR_HEAD_DRIFT = ''pr_delivery_pr_head_drift''"
definition PROBLEM_PR_REF_MISMATCH :: str where "PROBLEM_PR_REF_MISMATCH = ''pr_delivery_pr_ref_mismatch''"
definition PROBLEM_PR_IDENTITY_UNSUPPORTED :: str where
  "PROBLEM_PR_IDENTITY_UNSUPPORTED = ''pr_delivery_pr_identity_unsupported''"
definition PROBLEM_STAGED_HASH_MISMATCH :: str where
  "PROBLEM_STAGED_HASH_MISMATCH = ''pr_delivery_staged_hash_mismatch''"
definition PROBLEM_PENDING_MERGE :: str where "PROBLEM_PENDING_MERGE = ''pr_delivery_pending_merge''"
definition PROBLEM_COMMIT_PARENTS :: str where "PROBLEM_COMMIT_PARENTS = ''pr_delivery_commit_not_one_new_commit''"
definition PROBLEM_EXPECTED_STEP_REFUSED :: str where
  "PROBLEM_EXPECTED_STEP_REFUSED = ''pr_delivery_expected_step_refused''"
definition PROBLEM_WORKTREE_OVERLAP :: str where "PROBLEM_WORKTREE_OVERLAP = ''pr_delivery_worktree_overlap''"

datatype outcome =
    OUTCOME_ADVANCED | OUTCOME_BLOCKED | OUTCOME_RETRY | OUTCOME_REVOKED | OUTCOME_COMPLETE | OUTCOME_NO_STEP

section \<open>The environment and the state\<close>

text \<open>
  \<open>e_detail\<close> is the wording of a blocker or a retry note, a function of the problem; the
  code truncates it, and nothing decides on it.
\<close>

record 'w env =
  e_host :: host
  e_clock :: "('w sys, pynum) act"
  e_token :: "('w sys, str) act"
  e_transport :: "'w sys transport"
  e_detail :: "str \<Rightarrow> str"
  e_repr :: "json \<Rightarrow> str"

record 'w st =
  working :: delivery
  ssys :: "'w sys"

definition lift :: "('w sys, 'a) act \<Rightarrow> ('w st, 'a) act" where
  "lift m = (\<lambda>s. case m (ssys s) of (r, t) \<Rightarrow> (r, s\<lparr>ssys := t\<rparr>))"

definition gets :: "(delivery \<Rightarrow> 'a) \<Rightarrow> ('w st, 'a) act" where
  "gets f = (\<lambda>s. (Inr (f (working s)), s))"

definition alter :: "(delivery \<Rightarrow> delivery) \<Rightarrow> ('w st, unit) act" where
  "alter f = (\<lambda>s. (Inr (), s\<lparr>working := f (working s)\<rparr>))"

definition on_record :: "delivery \<Rightarrow> ('w st, 'a) act \<Rightarrow> ('w sys, 'a) act" where
  "on_record d m = (\<lambda>s. case m \<lparr>working = d, ssys = s\<rparr> of (r, t) \<Rightarrow> (r, ssys t))"

section \<open>Pure checks\<close>

definition EXPECTED_STEP_KEYS :: "str list" where
  "EXPECTED_STEP_KEYS = [''delivery_id'', ''revision'', ''candidate_identity_digest_sha256'', ''step'']"

definition actual_step_binding :: "delivery \<Rightarrow> str \<Rightarrow> json" where
  "actual_step_binding d key =
     (let a = d_authority d in
      if key = ''delivery_id'' then JStr (a_delivery_id a)
      else if key = ''revision'' then JInt (a_revision a)
      else if key = ''candidate_identity_digest_sha256'' then JStr (cd_digest (a_candidate a))
      else opt_json (\<lambda>s. JStr (step_str s)) (step_for_phase (a_mode a) (d_phase d)))"

definition require_expected_step :: "delivery \<Rightarrow> json \<Rightarrow> check" where
  "require_expected_step d expected =
     checks
       [require (is_obj expected \<and> set (jkeys expected) = set EXPECTED_STEP_KEYS)
          (MachineError PROBLEM_EXPECTED_STEP_REFUSED),
        require (list_all (\<lambda>k. jget k expected = actual_step_binding d k) EXPECTED_STEP_KEYS)
          (MachineError PROBLEM_EXPECTED_STEP_REFUSED)]"

definition unstaged_line :: "str \<Rightarrow> bool" where
  "unstaged_line line \<longleftrightarrow>
     \<not> py_len line < 3
     \<and> (starts_with line ''??'' \<or> hd line \<notin> set ''AMD'' \<or> line ! 1 \<noteq> CHR '' '')"

definition porcelain_unstaged :: "str \<Rightarrow> str option" where
  "porcelain_unstaged t = List.find unstaged_line (splitlines t)"

definition PR_VIEW_FIELDS :: "str list" where
  "PR_VIEW_FIELDS =
     [''number'', ''url'', ''state'', ''headRefName'', ''baseRefName'', ''headRefOid'', ''isCrossRepository'']"

definition view_types_ok :: "json \<Rightarrow> int \<Rightarrow> bool" where
  "view_types_ok viewed number \<longleftrightarrow>
     is_obj viewed \<and> list_all (\<lambda>k. jhas k viewed) PR_VIEW_FIELDS
     \<and> jget ''number'' viewed = JInt number
     \<and> list_all (\<lambda>k. is_str (jget k viewed)) [''url'', ''state'', ''headRefName'', ''baseRefName'', ''headRefOid'']
     \<and> full_oid (str_of (jget ''headRefOid'' viewed))"

definition view_names_pull_request :: "json \<Rightarrow> str \<Rightarrow> int \<Rightarrow> bool" where
  "view_names_pull_request viewed repository_url number \<longleftrightarrow>
     (case (canonicalize_target_url (str_of (jget ''url'' viewed)), canonicalize_repository_url repository_url) of
        (Inr target, Inr repository) \<Rightarrow>
          ct_kind target = Some KIND_PR \<and> map_option int (ct_number target) = Some number
          \<and> same_repository_identity target repository
      | _ \<Rightarrow> False)"

definition pr_update_identity_problem ::
  "json \<Rightarrow> str \<Rightarrow> int \<Rightarrow> str \<Rightarrow> str \<Rightarrow> str \<Rightarrow> str option" where
  "pr_update_identity_problem viewed repository_url number head_branch base_branch expected_head =
     (if \<not> view_types_ok viewed number then Some PROBLEM_PR_IDENTITY_UNSUPPORTED
      else if \<not> view_names_pull_request viewed repository_url number then Some PROBLEM_PR_IDENTITY_UNSUPPORTED
      else if jget ''isCrossRepository'' viewed \<noteq> JBool False then Some PROBLEM_PR_IDENTITY_UNSUPPORTED
      else if jget ''state'' viewed = JStr ''MERGED'' then Some PROBLEM_PR_MERGED
      else if jget ''state'' viewed = JStr ''CLOSED'' then Some PROBLEM_PR_CLOSED
      else if jget ''state'' viewed \<noteq> JStr ''OPEN'' then Some PROBLEM_PR_IDENTITY_UNSUPPORTED
      else if jget ''headRefName'' viewed \<noteq> JStr head_branch then Some PROBLEM_PR_HEAD_BRANCH_MISMATCH
      else if jget ''baseRefName'' viewed \<noteq> JStr base_branch then Some PROBLEM_PR_BASE_BRANCH_MISMATCH
      else if jget ''headRefOid'' viewed \<noteq> JStr expected_head then Some PROBLEM_PR_HEAD_DRIFT
      else None)"

section \<open>Persistence\<close>

definition record_path :: "delivery \<Rightarrow> str" where
  "record_path d = rp_realpath (a_repository (d_authority d))"

definition record_id :: "delivery \<Rightarrow> str" where
  "record_id d = a_delivery_id (d_authority d)"

definition m_load :: "host \<Rightarrow> str \<Rightarrow> ('w sys, delivery) act" where
  "m_load h delivery_id =
     bnd (load_document h)
       (\<lambda>document. case map_of (deliveries_of document) delivery_id of
          None \<Rightarrow> throw (MachineError PROBLEM_MISSING_RECORD)
        | Some j \<Rightarrow> ret (delivery_of_json j))"

definition put_record :: "delivery \<Rightarrow> json \<Rightarrow> json" where
  "put_record d document =
     set_deliveries (AList.update (record_id d) (delivery_json d) (deliveries_of document)) document"

definition store_record :: "host \<Rightarrow> delivery \<Rightarrow> ('w sys, unit) act" where
  "store_record h d = bnd (load_document h) (\<lambda>document. save_document h (put_record d document))"

definition persist :: "'w env \<Rightarrow> ('w st, unit) act" where
  "persist env =
     bnd (lift (e_clock env))
       (\<lambda>now. seq (alter (\<lambda>d. d\<lparr>d_updated_at := now\<rparr>))
         (bnd (gets (\<lambda>d. d))
            (\<lambda>d. seq (of_check (validate_authorization (e_host env) (delivery_json d)))
                   (lift (store_record (e_host env) d)))))"

definition refresh :: "'w env \<Rightarrow> ('w st, bool) act" where
  "refresh env =
     bnd (gets record_id)
       (\<lambda>i. bnd (lift (m_load (e_host env) i))
         (\<lambda>fresh. seq (alter (\<lambda>d. d\<lparr>d_revocation := d_revocation fresh\<rparr>))
           (bnd (gets is_revoked)
              (\<lambda>revoked. if revoked then ret True
                 else bnd (lift (e_clock env)) (\<lambda>now. gets (\<lambda>d. is_expired d now))))))"

definition revoke_record :: "pynum \<Rightarrow> str \<Rightarrow> str \<Rightarrow> delivery \<Rightarrow> exn + delivery" where
  "revoke_record now who reason d =
     (let d1 = (if is_revoked d then d
                else d\<lparr>d_revocation := \<lparr>rk_revoked = True, rk_at = Some now, rk_by = Some who,
                                        rk_reason = Some reason\<rparr>\<rparr>)
      in sbind (if d_phase d1 \<in> set TERMINAL_PHASES then Inr d1 else apply_transition d1 REVOKED now)
           (\<lambda>d2. Inr (d2\<lparr>d_updated_at := now\<rparr>)))"

definition revoke :: "'w env \<Rightarrow> str \<Rightarrow> str \<Rightarrow> str \<Rightarrow> ('w sys, delivery) act" where
  "revoke env delivery_id who reason =
     bnd (load_document (e_host env))
       (\<lambda>document. case map_of (deliveries_of document) delivery_id of
          None \<Rightarrow> throw (MachineError PROBLEM_MISSING_RECORD)
        | Some j \<Rightarrow>
            bnd (e_clock env)
              (\<lambda>now. bnd (of_result (revoke_record now who reason (delivery_of_json j)))
                (\<lambda>d. seq (of_check (validate_authorization (e_host env) (delivery_json d)))
                   (seq (save_document (e_host env) (put_record d document)) (ret d)))))"

section \<open>Recording outcomes\<close>

definition set_entry :: "step \<Rightarrow> (step_entry \<Rightarrow> step_entry) \<Rightarrow> delivery \<Rightarrow> delivery" where
  "set_entry s f d = d\<lparr>d_steps := (d_steps d)(s := f (d_steps d s))\<rparr>"

definition transition_at :: "phase \<Rightarrow> pynum \<Rightarrow> ('w st, unit) act" where
  "transition_at p now =
     bnd (gets (\<lambda>d. apply_transition d p now))
       (\<lambda>r. bnd (of_result r) (\<lambda>d. alter (\<lambda>_. d)))"

definition transition :: "'w env \<Rightarrow> phase \<Rightarrow> ('w st, unit) act" where
  "transition env p = bnd (lift (e_clock env)) (transition_at p)"

definition truncated_detail :: "'w env \<Rightarrow> str \<Rightarrow> str" where
  "truncated_detail env problem = py_take MAX_EVIDENCE_TEXT_CHARS (e_detail env problem)"

definition block_step :: "delivery \<Rightarrow> delivery" where
  "block_step d =
     (case step_for_phase (a_mode (d_authority d)) (d_phase d) of
        None \<Rightarrow> d
      | Some s \<Rightarrow> set_entry s
          (\<lambda>e. if se_state e \<noteq> STEP_SUCCEEDED then e\<lparr>se_state := STEP_BLOCKED\<rparr> else e) d)"

definition block_record :: "'w env \<Rightarrow> str \<Rightarrow> ('w st, unit) act" where
  "block_record env problem =
     bnd (lift (e_clock env))
       (\<lambda>now. seq
         (alter (\<lambda>d. block_step
            (d\<lparr>d_blocker := Some \<lparr>bk_problem = problem, bk_detail = truncated_detail env problem,
                                   bk_recorded_at = now\<rparr>\<rparr>)))
         (seq (bnd (gets (\<lambda>d. d_phase d \<in> set TERMINAL_PHASES))
                 (\<lambda>terminal. if terminal then ret () else transition_at BLOCKED now))
            (persist env)))"

definition retry_entry :: "str \<Rightarrow> step_entry \<Rightarrow> step_entry" where
  "retry_entry detail e =
     (let settled = (if se_state e \<notin> {STEP_SUCCEEDED, STEP_NOT_NEEDED} then e\<lparr>se_state := STEP_PENDING\<rparr> else e) in
      case se_receipt e of
        None \<Rightarrow> settled
      | Some r \<Rightarrow>
          if rc_state r = RECEIPT_EXECUTING
          then e\<lparr>se_state := STEP_FAILED_RETRYABLE,
                 se_receipt := Some (r\<lparr>rc_state := RECEIPT_FAILED_RETRYABLE,
                                       rc_observed := Some [(''error'', JStr detail)]\<rparr>)\<rparr>
          else if rc_state r \<in> {RECEIPT_VOID, RECEIPT_SUCCEEDED} then settled
          else e)"

definition retry_record :: "'w env \<Rightarrow> step option \<Rightarrow> ('w st, unit) act" where
  "retry_record env s =
     seq (alter (\<lambda>d. (case s of None \<Rightarrow> d
                     | Some step \<Rightarrow> set_entry step (retry_entry (truncated_detail env ''retry'')) d)
                    \<lparr>d_blocker := None\<rparr>))
       (persist env)"

definition void_entry :: "step_entry \<Rightarrow> step_entry" where
  "void_entry e =
     (case se_receipt e of
        None \<Rightarrow> e\<lparr>se_state := STEP_PENDING\<rparr>
      | Some r \<Rightarrow> \<lparr>se_state = STEP_PENDING, se_receipt = None, se_voided = se_voided e @ [rc_id r]\<rparr>)"

definition void_step :: "step \<Rightarrow> ('w st, unit) act" where
  "void_step s = alter (set_entry s void_entry)"

definition start_entry :: "receipt \<Rightarrow> step_entry \<Rightarrow> step_entry" where
  "start_entry r e = e\<lparr>se_state := STEP_EXECUTING, se_receipt := Some (r\<lparr>rc_state := RECEIPT_EXECUTING\<rparr>)\<rparr>"

definition start :: "'w env \<Rightarrow> step \<Rightarrow> (str \<times> json) list \<Rightarrow> ('w st, unit) act" where
  "start env s binding =
     bnd (lift (e_clock env))
       (\<lambda>now. bnd (lift (e_token env))
         (\<lambda>token. bnd (gets (\<lambda>d. derive (e_host env) token d s binding now))
           (\<lambda>derived. bnd (of_result derived)
             (\<lambda>r. seq (alter (set_entry s (start_entry r)))
               (seq (persist env)
                 (bnd (refresh env)
                   (\<lambda>stop. if \<not> stop then ret ()
                      else seq (void_step s)
                        (seq (persist env)
                          (bnd (gets is_revoked)
                             (\<lambda>revoked. throw (ReceiptError
                                (if revoked then PROBLEM_REVOKED else PROBLEM_EXPIRED)))))))))))) "

definition succeed_entry :: "(str \<times> json) list \<Rightarrow> step_entry \<Rightarrow> step_entry" where
  "succeed_entry observed e =
     e\<lparr>se_state := STEP_SUCCEEDED,
       se_receipt := map_option (\<lambda>r. r\<lparr>rc_state := RECEIPT_SUCCEEDED, rc_observed := Some observed\<rparr>)
                       (se_receipt e)\<rparr>"

definition succeed :: "'w env \<Rightarrow> step \<Rightarrow> (str \<times> json) list \<Rightarrow> phase \<Rightarrow> ('w st, unit) act" where
  "succeed env s observed new_phase =
     seq (alter (set_entry s (succeed_entry observed)))
       (seq (transition env new_phase) (persist env))"

definition mark_executing :: "step \<Rightarrow> ('w st, unit) act" where
  "mark_executing s =
     alter (set_entry s (\<lambda>e. e\<lparr>se_receipt := map_option (\<lambda>r. r\<lparr>rc_state := RECEIPT_EXECUTING\<rparr>) (se_receipt e)\<rparr>))"

end
