(* ===== verification/LiveFacts.thy ===== *)
theory LiveFacts
  imports MachineBase
begin

text \<open>
  \<open>pr_delivery/cli.py\<close>, the reading half of the ceremonies: the live facts of the repository
  that every ceremony binds (\<open>_live_repository\<close>, \<open>_live_update\<close>, \<open>_committer\<close>), and the
  comparison of a presented binding with them (\<open>_live_matches\<close>).
\<close>

section \<open>Python's subscription on JSON values\<close>

text \<open>\<open>v[k]\<close>.\<close>

definition jindex :: "str \<Rightarrow> json \<Rightarrow> exn + json" where
  "jindex k v =
     (if \<not> is_obj v then Inl TypeErr
      else (case map_of (obj_of v) k of None \<Rightarrow> Inl KeyErr | Some x \<Rightarrow> Inr x))"

definition jindex2 :: "str \<Rightarrow> str \<Rightarrow> json \<Rightarrow> exn + json" where
  "jindex2 k l v = sbind (jindex k v) (jindex l)"

definition jtext :: "json \<Rightarrow> exn + str" where
  "jtext v = (if is_str v then Inr (str_of v) else Inl TypeErr)"

lemma jindex_Inr: "jindex k v = Inr x \<Longrightarrow> jget k v = x"
  by (auto simp: jindex_def jget_def split: if_splits option.splits)

lemma jindex2_Inr: "jindex2 k l v = Inr x \<Longrightarrow> jget l (jget k v) = x"
  by (auto simp: jindex2_def sbind_Inr_iff dest: jindex_Inr)

section \<open>The live repository\<close>

record live_facts =
  lv_repo :: str
  lv_git_dir :: str
  lv_head_ref :: str
  lv_base_branch :: str
  lv_remote_name :: str
  lv_url_exact :: str
  lv_url_fetch :: str
  lv_url_push :: str
  lv_target :: CanonicalTarget
  lv_head :: str
  lv_remote_base :: "str option"
  lv_entries :: "cand_entry list"
  lv_digest :: str
  lv_committer :: committer
  lv_update :: "(int \<times> str \<times> json) option"

definition HEADS :: str where "HEADS = ''refs/heads/''"

definition lv_source_branch :: "live_facts \<Rightarrow> str" where
  "lv_source_branch v = drop (length HEADS) (lv_head_ref v)"

definition lv_base_ref :: "live_facts \<Rightarrow> str" where
  "lv_base_ref v = HEADS @ lv_base_branch v"

text \<open>\<open>if not value: raise CeremonyError\<close>.\<close>

definition require_text :: "str option \<Rightarrow> ('s, str) act" where
  "require_text x = (case x of Some (c # cs) \<Rightarrow> ret (c # cs) | _ \<Rightarrow> throw CeremonyError)"

definition as_ceremony :: "('s, 'a) act \<Rightarrow> ('s, 'a) act" where
  "as_ceremony m = handle m (\<lambda>e. if e = DeliveryTransportError then throw CeremonyError else throw e)"

text \<open>The toplevel, the git directory and the checked-out branch.\<close>

definition live_place :: "'w env \<Rightarrow> str \<Rightarrow> (int \<times> str) option \<Rightarrow> ('w sys, str \<times> str) act" where
  "live_place env repo update =
     (let tr = e_transport env; real = os_realpath (e_host env) in
      bnd (as_ceremony (t_toplevel tr repo))
        (\<lambda>top. seq (ensure (real top = repo) CeremonyError)
        (bnd (t_git_dir tr repo)
          (\<lambda>dir. bnd (t_symbolic_ref_head tr repo)
          (\<lambda>head_ref. bnd (require_text head_ref)
          (\<lambda>ref. seq (ensure (starts_with ref HEADS) CeremonyError)
            (seq (ensure (case update of None \<Rightarrow> True | Some (_, branch) \<Rightarrow> drop (length HEADS) ref = branch)
                    CeremonyError)
              (ret (real dir, ref)))))))))"

text \<open>The remote with its three URLs and the head.\<close>

definition live_remote :: "'w env \<Rightarrow> str \<Rightarrow> str \<Rightarrow> ('w sys, (str \<times> str \<times> str) \<times> CanonicalTarget \<times> str) act" where
  "live_remote env repo remote_name =
     (let tr = e_transport env in
      bnd (bnd (t_remote_url tr repo remote_name) require_text)
        (\<lambda>url_exact. bnd (of_result (parse_exact_remote_url (JStr url_exact)))
        (\<lambda>target. bnd (t_remote_fetch_url tr repo remote_name)
        (\<lambda>fetch. bnd (t_remote_push_url tr repo remote_name)
        (\<lambda>push. bnd (require_text fetch)
        (\<lambda>url_fetch. bnd (require_text push)
        (\<lambda>url_push. bnd (bnd (t_rev_parse tr repo ''HEAD'') require_text)
        (\<lambda>head. ret ((url_exact, url_fetch, url_push), target, head)))))))))"

definition live_committer :: "'w env \<Rightarrow> str \<Rightarrow> ('w sys, committer) act" where
  "live_committer env repo =
     (let tr = e_transport env in
      bnd (t_config_get tr repo ''user.name'')
        (\<lambda>name. bnd (t_config_get tr repo ''user.email'')
        (\<lambda>email. bnd (require_text name)
        (\<lambda>n. bnd (require_text email)
        (\<lambda>e. ret \<lparr>cm_name = n, cm_email = e\<rparr>)))))"

text \<open>The half of a new pull request: the head sits on the base, everything is staged.\<close>

definition live_new :: "'w env \<Rightarrow> live_facts \<Rightarrow> ('w sys, live_facts) act" where
  "live_new env v =
     (let tr = e_transport env; repo = lv_repo v; head = lv_head v in
      bnd (t_ls_remote tr repo (lv_remote_name v) (lv_base_ref v))
        (\<lambda>answer. case answer of
            None \<Rightarrow> throw CeremonyError
          | Some base \<Rightarrow>
              seq (if base \<noteq> head then t_fetch_ref tr repo (lv_remote_name v) (lv_base_ref v) else ret ())
              (bnd (if base \<noteq> head then t_is_ancestor tr repo head base else ret True)
                (\<lambda>on_base. seq (ensure on_base CeremonyError)
              (bnd (t_status_porcelain tr repo)
                (\<lambda>porcelain. seq (ensure (porcelain_unstaged porcelain = None) CeremonyError)
              (bnd (t_diff_index_raw tr repo head)
                (\<lambda>raw. bnd (of_result (parse_raw_z raw))
                (\<lambda>entries. bnd (live_committer env repo)
                (\<lambda>committer. ret (v\<lparr>lv_remote_base := Some base, lv_entries := entries,
                     lv_digest := identity_digest (e_host env) entries, lv_committer := committer\<rparr>)))))))))))"

text \<open>The half of an existing pull request.\<close>

definition live_update :: "'w env \<Rightarrow> int \<Rightarrow> str \<Rightarrow> live_facts \<Rightarrow> ('w sys, live_facts) act" where
  "live_update env number head_branch v =
     (let tr = e_transport env; repo = lv_repo v; head = lv_head v; target = lv_target v in
      bnd (as_ceremony (t_gh_pr_view tr (ct_owner target) (ct_repo target) number))
        (\<lambda>viewed. seq (ensure (pr_update_identity_problem viewed (ct_repository_url target) number head_branch
                                  (lv_base_branch v) head = None) CeremonyError)
        (bnd (t_ls_remote tr repo (lv_remote_name v) (lv_head_ref v))
          (\<lambda>remote_head. seq (ensure (remote_head = Some head) CeremonyError)
        (bnd (t_worktree_status_z tr repo)
          (\<lambda>status. bnd (of_result (worktree_dirty_paths status))
          (\<lambda>dirty. bnd (t_diff_index_raw tr repo head)
          (\<lambda>raw. bnd (of_result (parse_raw_z raw))
          (\<lambda>entries. seq (ensure (overlaps (map ce_path entries) dirty = []) CeremonyError)
        (bnd (live_committer env repo)
          (\<lambda>committer. bnd (t_staged_diff_sha256 tr repo)
          (\<lambda>staged. ret (v\<lparr>lv_entries := entries, lv_digest := identity_digest (e_host env) entries,
                lv_committer := committer, lv_update := Some (number, staged, jget ''url'' viewed)\<rparr>)))))))))))))"

definition live_repository ::
  "'w env \<Rightarrow> str \<Rightarrow> str \<Rightarrow> str \<Rightarrow> (int \<times> str) option \<Rightarrow> ('w sys, live_facts) act" where
  "live_repository env repo_path base_branch remote_name update =
     (let repo = os_realpath (e_host env) repo_path in
      bnd (live_place env repo update)
        (\<lambda>(dir, ref). bnd (live_remote env repo remote_name)
        (\<lambda>((url_exact, url_fetch, url_push), target, head).
          let v = \<lparr>lv_repo = repo, lv_git_dir = dir, lv_head_ref = ref, lv_base_branch = base_branch,
                   lv_remote_name = remote_name, lv_url_exact = url_exact, lv_url_fetch = url_fetch,
                   lv_url_push = url_push, lv_target = target, lv_head = head, lv_remote_base = None,
                   lv_entries = [], lv_digest = [], lv_committer = \<lparr>cm_name = [], cm_email = []\<rparr>,
                   lv_update = None\<rparr> in
          case update of
            Some (number, head_branch) \<Rightarrow> live_update env number head_branch v
          | None \<Rightarrow> live_new env v)))"

section \<open>The comparison with a presented binding\<close>

text \<open>The compared facts in the order of their names, first as the binding has them (reading the
  binding can raise, in the order of the code), then as the repository has them.\<close>

definition bound_facts :: "json \<Rightarrow> exn + (str \<times> json) list" where
  "bound_facts b =
     sbind (map_result (\<lambda>(name, k, l). sbind (jindex2 k l b) (\<lambda>x. Inr (name, x)))
       [(''repository'', ''repository'', ''realpath''), (''git_dir'', ''repository'', ''git_dir_realpath''),
        (''remote_exact'', ''remote'', ''url_exact''), (''remote_fetch'', ''remote'', ''url_fetch''),
        (''remote_push'', ''remote'', ''url_push''), (''source_ref'', ''source'', ''ref''),
        (''base_ref'', ''target_base'', ''ref''), (''baseline'', ''original_baseline'', ''commit_sha''),
        (''candidate'', ''candidate'', ''identity_digest_sha256''), (''entries'', ''candidate'', ''entries'')])
     (\<lambda>facts. sbind (jindex2 ''committer'' ''name'' b)
       (\<lambda>name. sbind (jindex2 ''committer'' ''email'' b)
       (\<lambda>email. Inr (facts @ (''committer'', JList [name, email])
           # (if jget ''mode'' b = JStr (mode_str PR_UPDATE)
              then [(''pull_request_number'', jget ''pull_request_number'' b),
                    (''staged_sha256'', jget ''staged_sha256'' b)]
              else [])))))"

definition live_fact :: "live_facts \<Rightarrow> str \<Rightarrow> json" where
  "live_fact v name =
     (case map_of
        [(''repository'', JStr (lv_repo v)), (''git_dir'', JStr (lv_git_dir v)),
         (''remote_exact'', JStr (lv_url_exact v)), (''remote_fetch'', JStr (lv_url_fetch v)),
         (''remote_push'', JStr (lv_url_push v)), (''source_ref'', JStr (lv_head_ref v)),
         (''base_ref'', JStr (lv_base_ref v)), (''baseline'', JStr (lv_head v)),
         (''candidate'', JStr (lv_digest v)), (''entries'', list_json cand_entry_json (lv_entries v)),
         (''committer'', JList [JStr (cm_name (lv_committer v)), JStr (cm_email (lv_committer v))]),
         (''pull_request_number'', opt_json (\<lambda>(n, _, _). JInt n) (lv_update v)),
         (''staged_sha256'', opt_json (\<lambda>(_, s, _). JStr s) (lv_update v))] name of
        Some x \<Rightarrow> x | None \<Rightarrow> JNull)"

definition live_mismatch :: "live_facts \<Rightarrow> json \<Rightarrow> exn + str option" where
  "live_mismatch v b =
     sbind (bound_facts b)
       (\<lambda>facts. Inr (map_option fst
          (List.find (\<lambda>(name, x). \<not> py_eq x (live_fact v name)) (sort_key fst facts))))"

end
