(* ===== verification/CommandLine.thy ===== *)
theory CommandLine
  imports Effects
begin

text \<open>
  The standard library's \<open>shlex.split\<close> with POSIX rules, which the ceremony applies to the
  verification commands: a state machine over the characters that yields the words, or a
  \<open>ValueError\<close> where a quotation or an escape is left open.
\<close>

text \<open>\<open>Blank\<close> between words, \<open>Word\<close> inside one, \<open>Quote q\<close> inside a quotation, \<open>Escape q\<close> after
  a backslash, inside the double quotation where \<open>q\<close> says so.\<close>

datatype lex_state = Blank | Word | Quote char | Escape bool

definition lex_space :: "char \<Rightarrow> bool" where
  "lex_space c \<longleftrightarrow> c \<in> set [CHR '' '', CHR 0x09, CHR 0x0D, CHR 0x0A]"

definition lex_quote :: "char \<Rightarrow> bool" where
  "lex_quote c \<longleftrightarrow> c = CHR 0x27 \<or> c = CHR 0x22"

text \<open>The state, the word so far, and whether the word had a quotation (it is then a word also
  when it is empty).\<close>

fun lex_words :: "lex_state \<Rightarrow> str \<Rightarrow> bool \<Rightarrow> str \<Rightarrow> exn + str list" where
  "lex_words Blank w quoted [] = Inr []"
| "lex_words Word w quoted [] = Inr (if w = [] \<and> \<not> quoted then [] else [w])"
| "lex_words (Quote q) w quoted [] = Inl ValueErr"
| "lex_words (Escape d) w quoted [] = Inl ValueErr"
| "lex_words Blank w quoted (c # cs) =
     (if lex_space c then lex_words Blank [] False cs
      else if c = CHR 0x5C then lex_words (Escape False) [] False cs
      else if lex_quote c then lex_words (Quote c) [] False cs
      else lex_words Word [c] False cs)"
| "lex_words Word w quoted (c # cs) =
     (if lex_space c then
        (if w = [] \<and> \<not> quoted then lex_words Blank [] False cs
         else sbind (lex_words Blank [] False cs) (\<lambda>ws. Inr (w # ws)))
      else if lex_quote c then lex_words (Quote c) w quoted cs
      else if c = CHR 0x5C then lex_words (Escape False) w quoted cs
      else lex_words Word (w @ [c]) quoted cs)"
| "lex_words (Quote q) w quoted (c # cs) =
     (if c = q then lex_words Word w True cs
      else if c = CHR 0x5C \<and> q = CHR 0x22 then lex_words (Escape True) w True cs
      else lex_words (Quote q) (w @ [c]) True cs)"
| "lex_words (Escape in_quote) w quoted (c # cs) =
     (if in_quote then
        lex_words (Quote (CHR 0x22))
          (w @ (if c \<noteq> CHR 0x5C \<and> c \<noteq> CHR 0x22 then [CHR 0x5C, c] else [c])) quoted cs
      else lex_words Word (w @ [c]) quoted cs)"

definition shlex_split :: "str \<Rightarrow> exn + str list" where
  "shlex_split s = lex_words Blank [] False s"

text \<open>Words without blanks, quotes and backslashes, joined by blanks, are split into themselves.\<close>

definition plain_word :: "str \<Rightarrow> bool" where
  "plain_word w \<longleftrightarrow> w \<noteq> [] \<and> (\<forall>c \<in> set w. \<not> lex_space c \<and> \<not> lex_quote c \<and> c \<noteq> CHR 0x5C)"

lemma lex_plain:
  "\<forall>c \<in> set v. \<not> lex_space c \<and> \<not> lex_quote c \<and> c \<noteq> CHR 0x5C
   \<Longrightarrow> lex_words Word w q (v @ rest) = lex_words Word (w @ v) q rest"
  by (induction v arbitrary: w) auto

lemma lex_plain_start:
  assumes "plain_word v"
  shows "lex_words Blank w q (v @ rest) = lex_words Word v False rest"
proof -
  from assms obtain c cs where "v = c # cs" by (auto simp: plain_word_def neq_Nil_conv)
  with assms lex_plain [of cs "[c]" False rest] show ?thesis by (simp add: plain_word_def)
qed

lemma shlex_split_words:
  "list_all plain_word ws \<Longrightarrow> shlex_split (join_with '' '' ws) = Inr ws"
proof (induction ws)
  case Nil
  show ?case by (simp add: shlex_split_def)
next
  case (Cons v ws)
  have v: "v \<noteq> []" using Cons.prems by (simp add: plain_word_def)
  have blank: "lex_space (CHR '' '')" by (simp add: lex_space_def)
  show ?case
  proof (cases ws)
    case Nil
    with Cons.prems v show ?thesis
      using lex_plain_start [of v "[]" False "[]"] by (simp add: shlex_split_def)
  next
    case (Cons x xs)
    with \<open>list_all plain_word (v # ws)\<close> v Cons.IH blank show ?thesis
      using lex_plain_start [of v "[]" False "CHR '' '' # join_with '' '' ws"]
      by (simp add: shlex_split_def)
  qed
qed

end
