(* ===== verification/Ceremony.thy ===== *)
theory Ceremony
  imports LiveFacts CommandLine
begin

text \<open>
  \<open>pr_delivery/cli.py\<close>, the ceremonies: gathering a binding and its display (\<open>_gather\<close>), the
  local terminal (\<open>assemble_authority\<close>, \<open>authorize_cmd\<close>), the presentation and the relayed
  attestation (\<open>present_dots_cmd\<close>, \<open>attest_dots_cmd\<close>) and the one place where a record is
  minted (\<open>_mint\<close>). \<open>CeremonyError\<close> carries only a message in the code, so it carries nothing here.
\<close>

section \<open>Inputs\<close>

text \<open>
  The desk is what the ceremonies use besides the machine: reading a file, writing to the
  terminal (a text, or a document as JSON), the confirmation, the user's name, the parsing of
  JSON and the calendar form of a time, which is only displayed.
\<close>

record 'w desk =
  k_read :: "str \<Rightarrow> ('w sys, bytes) act"
  k_write :: "str \<Rightarrow> ('w sys, unit) act"
  k_emit :: "json \<Rightarrow> ('w sys, unit) act"
  k_confirm :: "str \<Rightarrow> ('w sys, str) act"
  k_user :: str
  k_loads :: "str \<Rightarrow> json option"
  k_utc :: "pynum \<Rightarrow> str"

text \<open>The parsed arguments of \<open>authorize\<close> and \<open>present-dots\<close>.\<close>

record ceremony_args =
  g_repo :: str
  g_workflow_id :: str
  g_herd_evidence :: str
  g_verification_log :: str
  g_verification_command :: str
  g_exit_status :: int
  g_ran_at :: "pynum option"
  g_reverify_command :: "str option"
  g_title :: str
  g_objective :: str
  g_notes :: str
  g_risks :: str
  g_base_branch :: str
  g_remote :: str
  g_pr_number :: "int option"
  g_head_branch :: "str option"
  g_validity_seconds :: int
  g_mission_workflow_id :: "str option"
  g_mission_digest :: "str option"

text \<open>A text file is decoded strictly and its line ends become newlines.\<close>

fun universal_newlines :: "str \<Rightarrow> str" where
  "universal_newlines [] = []"
| "universal_newlines [c] = (if c = CHR 0x0D then [CHR 0x0A] else [c])"
| "universal_newlines (c # d # cs) =
     (if c = CHR 0x0D then CHR 0x0A # universal_newlines (if d = CHR 0x0A then cs else d # cs)
      else c # universal_newlines (d # cs))"

definition read_text_file :: "'w desk \<Rightarrow> str \<Rightarrow> ('w sys, str) act" where
  "read_text_file desk path =
     bnd (k_read desk path)
       (\<lambda>b. if valid_utf8 b then ret (universal_newlines b) else throw ValueErr)"

definition read_text :: "'w desk \<Rightarrow> str \<Rightarrow> ('w sys, str) act" where
  "read_text desk value =
     (if starts_with value ''@'' then read_text_file desk (drop 1 value) else ret value)"

definition command_argv :: "str \<Rightarrow> exn + str list" where
  "command_argv text =
     (case shlex_split text of
        Inr (w # ws) \<Rightarrow> Inr (w # ws) | _ \<Rightarrow> Inl CeremonyError)"

definition HERD_EVIDENCE_KEYS :: "str list" where
  "HERD_EVIDENCE_KEYS = [''engineering_complete'', ''reviewer_approve'']"

definition load_herd_evidence :: "'w desk \<Rightarrow> str \<Rightarrow> ('w sys, json) act" where
  "load_herd_evidence desk path =
     bnd (read_text_file desk path)
       (\<lambda>text. case k_loads desk text of
           None \<Rightarrow> throw ValueErr
         | Some document \<Rightarrow>
             seq (ensure (is_obj document \<and> set (jkeys document) = set HERD_EVIDENCE_KEYS) CeremonyError)
               (ret document))"

definition update_identity :: "ceremony_args \<Rightarrow> exn + (int \<times> str) option" where
  "update_identity args =
     (case (g_pr_number args, g_head_branch args) of
        (None, None) \<Rightarrow> Inr None
      | (Some number, Some branch) \<Rightarrow>
          if 1 \<le> number \<and> number \<le> MAX_PULL_REQUEST_NUMBER \<and> branch \<noteq> [] then Inr (Some (number, branch))
          else Inl CeremonyError
      | _ \<Rightarrow> Inl CeremonyError)"

section \<open>The binding\<close>

text \<open>\<open>dict(value, **stamp)\<close>; a value that is no object fails in the conversion or in the \<open>get\<close>
  that follows.\<close>

definition stamped :: "live_facts \<Rightarrow> json \<Rightarrow> json" where
  "stamped v e = JObj (AList.update ''base_oid'' (JStr (lv_head v))
     (AList.update ''candidate_identity_digest_sha256'' (JStr (lv_digest v)) (obj_of e)))"

definition or_else :: "str option \<Rightarrow> str \<Rightarrow> str" where
  "or_else x y = (case x of Some (c # cs) \<Rightarrow> c # cs | _ \<Rightarrow> y)"

definition evidence_binding ::
  "host \<Rightarrow> live_facts \<Rightarrow> json \<Rightarrow> ceremony_args \<Rightarrow> str list \<Rightarrow> bytes \<Rightarrow> pynum \<Rightarrow> json" where
  "evidence_binding h v herd args argv captured now = JObj
     [(''engineering_complete'', stamped v (jget ''engineering_complete'' herd)),
      (''reviewer_approve'', stamped v (jget ''reviewer_approve'' herd)),
      (''independent_verification'', stamped v (JObj
         [(''command_argv'', list_json JStr argv), (''exit_status'', JInt (g_exit_status args)),
          (''log_sha256'', JStr (sha256_hex h captured)), (''log_bytes'', JInt (int (length captured))),
          (''ran_at'', JNum (case g_ran_at args of Some t \<Rightarrow> t | None \<Rightarrow> now)),
          (''recorded_at'', JNum now)]))]"

definition mission_binding :: "ceremony_args \<Rightarrow> json" where
  "mission_binding args =
     (if or_else (g_mission_workflow_id args) [] = [] \<and> or_else (g_mission_digest args) [] = [] then JNull
      else JObj [(''workflow_id'', opt_json JStr (g_mission_workflow_id args)),
                 (''mission_authorization_digest_sha256'', opt_json JStr (g_mission_digest args))])"

definition repository_binding :: "live_facts \<Rightarrow> (str \<times> json) list" where
  "repository_binding v =
     (let target = lv_target v in
      [(''repository'', repository_json
          \<lparr>rp_realpath = lv_repo v, rp_git_dir = lv_git_dir v, rp_host = ct_host target, rp_owner = ct_owner target,
           rp_repo = ct_repo target, rp_url = ct_repository_url target\<rparr>),
       (''remote'', remote_json
          \<lparr>rm_name = lv_remote_name v, rm_url_exact = lv_url_exact v, rm_url_fetch = lv_url_fetch v,
           rm_url_push = lv_url_push v, rm_repository_url = ct_repository_url target\<rparr>),
       (''mode'', JStr (mode_str (if lv_update v = None then PULL_REQUEST else PR_UPDATE))),
       (''source'', branch_pair_json \<lparr>bp_branch = lv_source_branch v, bp_ref = lv_head_ref v\<rparr>),
       (''target_base'', branch_pair_json \<lparr>bp_branch = lv_base_branch v, bp_ref = lv_base_ref v\<rparr>),
       (''original_baseline'', baseline_json
          \<lparr>bl_ref = (if lv_update v = None then lv_base_ref v else lv_head_ref v), bl_sha = lv_head v\<rparr>),
       (''candidate'', candidate_json
          \<lparr>cd_digest = lv_digest v, cd_count = int (length (lv_entries v)), cd_entries = lv_entries v\<rparr>)])"

text \<open>The texts of the pull request, read in the order of the code.\<close>

definition gather_content :: "'w desk \<Rightarrow> ceremony_args \<Rightarrow> ('w sys, pr_content) act" where
  "gather_content desk args =
     bnd (read_text desk (g_objective args))
       (\<lambda>objective. bnd (read_text desk (g_notes args))
       (\<lambda>notes. bnd (read_text desk (g_risks args))
       (\<lambda>risks. ret \<lparr>pc_title = g_title args, pc_objective = objective, pc_notes = notes, pc_risks = risks\<rparr>)))"

text \<open>What is gathered before the binding: the evidence, the captured and the two commands.\<close>

definition gather_evidence ::
  "'w desk \<Rightarrow> ceremony_args \<Rightarrow> ('w sys, json \<times> bytes \<times> str list \<times> str list) act" where
  "gather_evidence desk args =
     bnd (load_herd_evidence desk (g_herd_evidence args))
       (\<lambda>herd. bnd (k_read desk (g_verification_log args))
       (\<lambda>captured. seq (ensure (g_exit_status args = 0) CeremonyError)
         (bnd (of_result (command_argv (g_verification_command args)))
       (\<lambda>argv. bnd (of_result (command_argv (or_else (g_reverify_command args) (g_verification_command args))))
       (\<lambda>reverify. seq (ensure (list_all (\<lambda>k. is_obj (jget k herd)) HERD_EVIDENCE_KEYS) TypeErr)
         (ret (herd, captured, argv, reverify)))))))"

definition binding_fields ::
  "'w env \<Rightarrow> live_facts \<Rightarrow> json \<Rightarrow> ceremony_args \<Rightarrow> str list \<Rightarrow> str list \<Rightarrow> bytes \<Rightarrow> pr_content \<Rightarrow> pynum
   \<Rightarrow> (str \<times> json) list" where
  "binding_fields env v herd args argv reverify captured content now =
     [(''revision'', JInt 1), (''previous_delivery_id'', JNull),
      (''workflow_identity'', JObj
         [(''workflow_id'', JStr (g_workflow_id args)),
          (''engineering_task_id'',
             JStr (py_str (e_repr env) (jget ''task_id'' (jget ''engineering_complete'' herd))))]),
      (''mission'', mission_binding args)]
     @ repository_binding v
     @ [(''evidence'', evidence_binding (e_host env) v herd args argv captured now),
        (''allowed_actions'', list_json (\<lambda>s. JStr (step_str s)) (if lv_update v = None then STEPS else PR_UPDATE_STEPS)),
        (''committer'', committer_json (lv_committer v)),
        (''reverification'', JObj [(''argv'', list_json JStr reverify)]),
        (''pr_content'', pr_content_json content)]"

text \<open>What an update binds in addition.\<close>

definition update_fields :: "str \<Rightarrow> int \<times> str \<times> json \<Rightarrow> (str \<times> json) list" where
  "update_fields token u =
     (case u of (number, staged, _) \<Rightarrow>
        [(''delivery_id'', JStr (DELIVERY_ID_PREFIX @ token)), (''pull_request_number'', JInt number),
         (''staged_sha256'', JStr staged)])"

section \<open>The display\<close>

definition evidence_lines_shown ::
  "'w env \<Rightarrow> json \<Rightarrow> str list \<Rightarrow> ceremony_args \<Rightarrow> bytes \<Rightarrow> str list" where
  "evidence_lines_shown env herd argv args captured =
     (let shown = (\<lambda>part key. py_str (e_repr env) (jget key (jget part herd))) in
      [''Engineering   : task '' @ shown ''engineering_complete'' ''task_id'' @ '' ''
         @ shown ''engineering_complete'' ''status'',
       ''Reviewer      : '' @ shown ''reviewer_approve'' ''decision'' @ '' round ''
         @ shown ''reviewer_approve'' ''round'' @ '' ('' @ shown ''reviewer_approve'' ''review_file_name'' @ '')'',
       ''Verification  : '' @ join_with '' '' argv @ '' -> exit '' @ show_int (g_exit_status args)
         @ '', log sha256 '' @ sha256_hex (e_host env) captured])"

definition entry_line :: "cand_entry \<Rightarrow> str" where
  "entry_line e = ''  '' @ ce_status e @ '' '' @ ce_mode e @ '' '' @ ce_path e"

definition heading_lines :: "str list" where
  "heading_lines = [[], ''PR DELIVERY AUTHORIZATION REQUEST'', ''---------------------------------'']"

definition remote_lines :: "live_facts \<Rightarrow> str list" where
  "remote_lines v =
     [''Repository    : '' @ lv_repo v,
      ''Remote        : '' @ lv_remote_name v @ '' = '' @ lv_url_exact v,
      ''  fetches from: '' @ lv_url_fetch v,
      ''  pushes to   : '' @ lv_url_push v]"

definition allowed_line :: "live_facts \<Rightarrow> str" where
  "allowed_line v =
     ''Allowed       : ''
     @ join_with '', '' (map step_str (if lv_update v = None then STEPS else PR_UPDATE_STEPS))"

definition expires_line :: "ceremony_args \<Rightarrow> str" where
  "expires_line args =
     ''Expires       : '' @ show_int (g_validity_seconds args) @ '' seconds from authorization''"

definition shown_entries :: "cand_entry list \<Rightarrow> str list" where
  "shown_entries es =
     map entry_line (take 50 es)
     @ (if 50 < length es then [''  ... and '' @ show_int (int (length es) - 50) @ '' more''] else [])"

definition request_lines ::
  "'w env \<Rightarrow> live_facts \<Rightarrow> json \<Rightarrow> str list \<Rightarrow> str list \<Rightarrow> ceremony_args \<Rightarrow> bytes \<Rightarrow> str list" where
  "request_lines env v herd argv reverify args captured =
     heading_lines @ remote_lines v
     @ [''Source branch : '' @ lv_source_branch v @ '' ('' @ lv_head_ref v @ '')'',
        ''Target base   : '' @ lv_base_branch v @ '' (remote at ''
          @ (case lv_remote_base v of Some b \<Rightarrow> b | None \<Rightarrow> ''None'') @ '')'',
        ''Baseline      : '' @ lv_head v,
        ''Candidate     : '' @ show_int (int (length (lv_entries v))) @ '' entries, identity '' @ lv_digest v]
     @ shown_entries (lv_entries v)
     @ evidence_lines_shown env herd argv args captured
     @ [''Reverify with : '' @ join_with '' '' reverify,
        ''Committer     : '' @ cm_name (lv_committer v) @ '' <'' @ cm_email (lv_committer v)
          @ ''> (unsigned: commit.gpgsign=false on the argv)'',
        allowed_line v,
        ''Not allowed   : merge, auto-merge, tag, release, deploy, publish, force push'',
        expires_line args]"

definition PR_UPDATE_NOT_ALLOWED :: str where
  "PR_UPDATE_NOT_ALLOWED =
     ''base refresh, pull request creation, merge, auto-merge, tag, release, deploy, publish, force push''"

definition update_lines ::
  "'w env \<Rightarrow> live_facts \<Rightarrow> str \<Rightarrow> int \<times> str \<times> json \<Rightarrow> json \<Rightarrow> str list \<Rightarrow> str list \<Rightarrow> ceremony_args \<Rightarrow> bytes
   \<Rightarrow> str list" where
  "update_lines env v token u herd argv reverify args captured =
     (case u of (number, staged, url) \<Rightarrow>
     heading_lines
     @ [''Kind          : '' @ mode_str PR_UPDATE @ '' (one new commit on existing open pull request #''
          @ show_int number @ '', a strict fast-forward of its head)'',
        ''Delivery id   : '' @ DELIVERY_ID_PREFIX @ token @ '' (the id this approval mints, exactly)'']
     @ remote_lines v
     @ [''Pull request  : #'' @ show_int number @ '' '' @ py_str (e_repr env) url @ '' (open; head ''
          @ lv_source_branch v @ '' -> base '' @ lv_base_branch v @ '')'',
        ''Head branch   : '' @ lv_source_branch v @ '' ('' @ lv_head_ref v @ '')'',
        ''Expected head : '' @ lv_head v
          @ '' (the live pull request head and remote head ref; the parent of the one new commit)'',
        ''Target base   : '' @ lv_base_branch v @ '' (the pull request's base; identity only, never refreshed)'',
        ''Staged hash   : '' @ staged @ '' (sha256 of git diff --cached --binary against the expected head;''
          @ '' re-checked before COMMIT and by the git hook)'',
        ''Candidate     : '' @ show_int (int (length (lv_entries v))) @ '' entries, identity '' @ lv_digest v
          @ '' (status, mode, blob and path of every entry; a separate binding from the staged hash)'']
     @ map entry_line (lv_entries v)
     @ [''Working tree  : unstaged and untracked paths outside the candidate may remain; they are''
          @ '' never staged or committed and must stay disjoint from every candidate path'']
     @ evidence_lines_shown env herd argv args captured
     @ [''Reverify with : '' @ join_with '' '' reverify @ '' (not run in this kind)'',
        ''Committer     : '' @ cm_name (lv_committer v) @ '' <'' @ cm_email (lv_committer v)
          @ ''> (unsigned: commit.gpgsign=false on the argv)'',
        ''Commit subject: '' @ g_title args,
        allowed_line v,
        ''Not allowed   : '' @ PR_UPDATE_NOT_ALLOWED,
        expires_line args])"

section \<open>Gathering\<close>

text \<open>The binding with its display and the candidate digest.\<close>

definition gather ::
  "'w env \<Rightarrow> 'w desk \<Rightarrow> ceremony_args \<Rightarrow> pynum \<Rightarrow> ('w sys, (str \<times> json) list \<times> str list \<times> str) act" where
  "gather env desk args now =
     bnd (of_result (update_identity args))
       (\<lambda>update. bnd (live_repository env (g_repo args) (g_base_branch args) (g_remote args) update)
       (\<lambda>v. bnd (gather_evidence desk args)
       (\<lambda>(herd, captured, argv, reverify). bnd (gather_content desk args)
       (\<lambda>content.
          let fields = binding_fields env v herd args argv reverify captured content now in
          case lv_update v of
            None \<Rightarrow> ret (fields, request_lines env v herd argv reverify args captured, lv_digest v)
          | Some u \<Rightarrow>
              bnd (e_token env)
                (\<lambda>token. ret (fields @ update_fields token u,
                    update_lines env v token u herd argv reverify args captured, lv_digest v))))))"

section \<open>Minting\<close>

text \<open>The identifier: the presented one of an update, a fresh one of a new pull request.\<close>

definition mint_id :: "'w env \<Rightarrow> json \<Rightarrow> ('w sys, str) act" where
  "mint_id env authority =
     (if jget ''mode'' authority = JStr (mode_str PR_UPDATE) then
        seq (ensure (is_presented_delivery_id (jget ''delivery_id'' authority)) CeremonyError)
          (ret (str_of (jget ''delivery_id'' authority)))
      else
        seq (ensure (\<not> jhas ''delivery_id'' authority) CeremonyError)
          (bnd (e_token env) (\<lambda>token. ret (DELIVERY_ID_PREFIX @ token))))"

definition attested_digest :: "json \<Rightarrow> json" where
  "attested_digest r = jget ''proposal_digest_sha256'' (jget ''attestation'' (jget ''human_authorization'' r))"

definition already_attested :: "str \<Rightarrow> json \<Rightarrow> bool" where
  "already_attested digest document =
     list_ex (\<lambda>(_, r). attested_digest r = JStr digest) (deliveries_of document)"

text \<open>The part under the store lock.\<close>

definition mint_locked ::
  "'w env \<Rightarrow> json \<Rightarrow> str option \<Rightarrow> pynum option \<Rightarrow> ('w sys, nat) act" where
  "mint_locked env r one_shot apply_before =
     bnd (load_document (e_host env))
       (\<lambda>document. seq (ensure (case one_shot of None \<Rightarrow> True | Some p \<Rightarrow> \<not> already_attested p document) CeremonyError)
       (seq (case apply_before of
               None \<Rightarrow> ret ()
             | Some deadline \<Rightarrow> bnd (e_clock env) (\<lambda>t. ensure (\<not> num_le deadline t) CeremonyError))
       (bnd (of_result (add_delivery (e_host env) document r))
          (\<lambda>(new, result, pruned). seq (ensure (result = Added) CeremonyError)
             (seq (save_document (e_host env) new) (ret pruned))))))"

definition mint ::
  "'w env \<Rightarrow> 'w desk \<Rightarrow> json \<Rightarrow> pynum \<Rightarrow> str option \<Rightarrow> pynum option \<Rightarrow> ('w sys, str) act" where
  "mint env desk authority now one_shot apply_before =
     bnd (mint_id env authority)
       (\<lambda>i. bnd (of_result (new_authorization (e_host env) i authority now))
       (\<lambda>r. seq (ensure (jget ''delivery_id'' authority \<noteq> JNull
                         \<longrightarrow> jget ''delivery_id'' r = jget ''delivery_id'' authority) CeremonyError)
         (bnd (mint_locked env r one_shot apply_before)
           (\<lambda>pruned. seq (k_write desk (''Authorized PR delivery '' @ i @ '' (pruned ''
                             @ show_int (int pruned) @ '' terminal record(s)).'' @ newline))
              (ret i)))))"

section \<open>The local terminal\<close>

definition CONFIRMATION_CHARS :: nat where "CONFIRMATION_CHARS = 12"

definition expiration_binding :: "json \<Rightarrow> json" where
  "expiration_binding expires_at = JObj [(''policy'', JStr ''absolute_deadline''), (''expires_at'', expires_at)]"

definition terminal_authorization :: "'w env \<Rightarrow> 'w desk \<Rightarrow> str \<Rightarrow> pynum \<Rightarrow> json" where
  "terminal_authorization env desk typed now = human_authorization_json
     \<lparr>ha_identity = k_user desk, ha_source = AUTHORIZATION_SOURCE_LOCAL_TERMINAL, ha_authorized_at = now,
      ha_confirmation = text_digest (e_host env) typed, ha_attestation = None\<rparr>"

text \<open>The display ends with the human; what is typed is compared with the first characters of the
  candidate digest.\<close>

definition assemble_authority ::
  "'w env \<Rightarrow> 'w desk \<Rightarrow> ceremony_args \<Rightarrow> pynum \<Rightarrow> ('w sys, json) act" where
  "assemble_authority env desk args now =
     bnd (gather env desk args now)
       (\<lambda>(fields, lines, digest).
          seq (k_write desk (join_with newline
                 (lines @ [''Human         : '' @ k_user desk @ '' (local terminal)'', []]) @ newline))
          (bnd (k_confirm desk (''Type the first '' @ show_int (int CONFIRMATION_CHARS)
                   @ '' characters of the candidate identity to authorize exactly this delivery: ''))
             (\<lambda>answer. let typed = strip answer in
                seq (ensure (typed = py_take CONFIRMATION_CHARS digest) CeremonyError)
                (bnd (of_result (num_add now (PInt (g_validity_seconds args))))
                   (\<lambda>expires_at. ret (JObj (fields
                      @ [(''human_authorization'', terminal_authorization env desk typed now),
                         (''expiration'', expiration_binding (JNum expires_at))])))))))"

definition authorize :: "'w env \<Rightarrow> 'w desk \<Rightarrow> ceremony_args \<Rightarrow> ('w sys, str) act" where
  "authorize env desk args =
     bnd (e_clock env)
       (\<lambda>now. bnd (assemble_authority env desk args now) (\<lambda>authority. mint env desk authority now None None))"

section \<open>The presentation\<close>

definition present_lines :: "'w desk \<Rightarrow> ceremony_args \<Rightarrow> pynum \<Rightarrow> str list \<Rightarrow> str list" where
  "present_lines desk args expires_at lines =
     map (\<lambda>line. if line = expires_line args
                 then ''Expires       : '' @ k_utc desk expires_at @ '' (absolute; '' @ show_int (g_validity_seconds args)
                        @ '' seconds from presentation, not from approval)''
                 else line) lines"

definition presented_document :: "json \<Rightarrow> str \<Rightarrow> str list \<Rightarrow> json" where
  "presented_document proposal digest lines = JObj
     [(''delivery_proposal'', proposal), (''proposal_digest_sha256'', JStr digest),
      (''display'', JStr (join_with newline (lines
         @ [''Approver      : the human, by a simple reply relayed by the Outer Operator''
            @ '' (operator-attested, not independently verified)'']))),
      (''reply'', JStr (''Reply exactly 'approved' or 'approve' to authorize THIS delivery;''
         @ '' no digest is ever typed'')),
      (''source'', JStr AUTHORIZATION_SOURCE_DOTS_OPERATOR_ATTESTED),
      (''residual_risk'', JStr DOTS_RESIDUAL_RISK)]"

definition present_dots :: "'w env \<Rightarrow> 'w desk \<Rightarrow> ceremony_args \<Rightarrow> ('w sys, json) act" where
  "present_dots env desk args =
     bnd (e_clock env)
       (\<lambda>now. bnd (gather env desk args now)
       (\<lambda>(fields, lines, digest). bnd (of_result (num_add now (PInt (g_validity_seconds args))))
       (\<lambda>expires_at. let proposal = delivery_proposal (JObj fields) (JNum now) (JNum expires_at) in
          bnd (of_result (delivery_proposal_digest (e_host env) proposal))
            (\<lambda>proposal_digest.
               let document = presented_document proposal proposal_digest (present_lines desk args expires_at lines) in
               seq (k_emit desk document) (ret document)))))"

section \<open>The relayed attestation\<close>

record relay_args =
  ra_proposal_digest :: str
  ra_reply_to :: str
  ra_relay_ref :: str

definition MAX_DOTS_INPUT_CHARS :: nat where "MAX_DOTS_INPUT_CHARS = 4194304"

definition relay_ref_ok :: "str \<Rightarrow> bool" where
  "relay_ref_ok value \<longleftrightarrow>
     value \<noteq> [] \<and> CHR 0x0A \<notin> set value \<and> py_len value \<le> MAX_RELAY_REF_CHARS"

text \<open>Everything about the input that is checked before anything is read.\<close>

definition check_relay :: "json \<Rightarrow> relay_args \<Rightarrow> check" where
  "check_relay document args = checks
     [require (is_obj document \<and> set (jkeys document) = {''delivery_proposal'', ''relayed_reply''}) CeremonyError,
      require (is_dots_affirmative (jget ''relayed_reply'' document)) CeremonyError,
      require (relay_ref_ok (ra_reply_to args) \<and> relay_ref_ok (ra_relay_ref args)
               \<and> relay_ref_ok (ra_proposal_digest args)) CeremonyError]"

definition check_proposal :: "json \<Rightarrow> check" where
  "check_proposal proposal =
     (let binding = jget ''binding'' proposal; m = jget ''mode'' binding in
      require
        (is_obj proposal \<and> set (jkeys proposal) = {''binding'', ''expires_at'', ''presented_at''}
         \<and> is_obj binding \<and> is_str m \<and> str_of m \<in> set (map mode_str MODES)
         \<and> set (jkeys binding) = set (proposal_binding_keys m)) CeremonyError)"

definition update_of_binding :: "json \<Rightarrow> exn + (int \<times> str) option" where
  "update_of_binding binding =
     (if jget ''mode'' binding \<noteq> JStr (mode_str PR_UPDATE) then Inr None
      else
        let number = jget ''pull_request_number'' binding; branch = jget ''branch'' (jget ''source'' binding) in
        if is_int number \<and> is_obj (jget ''source'' binding) \<and> is_str branch
        then Inr (Some (int_of_json number, str_of branch)) else Inl CeremonyError)"

text \<open>The arguments of the live reading. A repository, branch or remote name that is no text is
  refused here; in the code it fails as soon as it is used.\<close>

definition bound_place :: "json \<Rightarrow> exn + str \<times> str \<times> str" where
  "bound_place binding =
     sbind (jindex2 ''repository'' ''realpath'' binding)
       (\<lambda>path. sbind (jindex2 ''target_base'' ''branch'' binding)
       (\<lambda>base. sbind (jindex2 ''remote'' ''name'' binding)
       (\<lambda>remote. sbind (jtext path) (\<lambda>p. sbind (jtext base) (\<lambda>b. sbind (jtext remote)
         (\<lambda>r. Inr (p, b, r)))))))"

definition relayed_attestation :: "json \<Rightarrow> json \<Rightarrow> relay_args \<Rightarrow> str \<Rightarrow> json" where
  "relayed_attestation proposal reply args digest = JObj
     [(''proposal_digest_sha256'', JStr digest), (''presented_at'', jget ''presented_at'' proposal),
      (''reply_to'', JStr (ra_reply_to args)), (''relayed_reply'', reply),
      (''relay_ref'', JStr (ra_relay_ref args)), (''confirmation'', JStr DOTS_CONFIRMATION),
      (''provenance'', JStr DOTS_PROVENANCE), (''residual_risk'', JStr DOTS_RESIDUAL_RISK)]"

definition attested_authority :: "json \<Rightarrow> json \<Rightarrow> str \<Rightarrow> pynum \<Rightarrow> json" where
  "attested_authority proposal attestation confirmation now = JObj
     (obj_of (jget ''binding'' proposal)
      @ [(''human_authorization'', JObj
            [(''identity'', JStr DOTS_ATTESTED_IDENTITY),
             (''source'', JStr AUTHORIZATION_SOURCE_DOTS_OPERATOR_ATTESTED),
             (''authorized_at'', JNum now), (''confirmation_digest_sha256'', JStr confirmation),
             (''attestation'', attestation)]),
         (''expiration'', expiration_binding (jget ''expires_at'' proposal))])"

text \<open>From the parsed input on: the digest link, the deadline, the live facts, then the record.\<close>

definition attest_proposal ::
  "'w env \<Rightarrow> 'w desk \<Rightarrow> relay_args \<Rightarrow> json \<Rightarrow> json \<Rightarrow> ('w sys, str) act" where
  "attest_proposal env desk args proposal reply =
     (let h = e_host env; binding = jget ''binding'' proposal; expires_at = jget ''expires_at'' proposal in
      bnd (of_result (update_of_binding binding))
        (\<lambda>update. bnd (of_result (delivery_proposal_digest h proposal))
        (\<lambda>digest. seq (ensure (digest = ra_proposal_digest args) CeremonyError)
        (bnd (e_clock env)
          (\<lambda>now. seq (ensure (is_num expires_at \<and> \<not> num_le (num_of expires_at) now) CeremonyError)
        (bnd (of_result (bound_place binding))
          (\<lambda>(path, base, remote). bnd (live_repository env path base remote update)
          (\<lambda>v. bnd (of_result (live_mismatch v binding))
          (\<lambda>mismatch. seq (ensure (mismatch = None) CeremonyError)
        (let attestation = relayed_attestation proposal reply args digest in
         bnd (of_result (dots_confirmation_digest h attestation))
           (\<lambda>confirmation. mint env desk (attested_authority proposal attestation confirmation now) now
              (Some digest) (Some (num_of expires_at)))))))))))))"

definition attest_dots ::
  "'w env \<Rightarrow> 'w desk \<Rightarrow> relay_args \<Rightarrow> str \<Rightarrow> ('w sys, str) act" where
  "attest_dots env desk args text =
     seq (ensure (py_len text \<le> MAX_DOTS_INPUT_CHARS) CeremonyError)
       (case k_loads desk text of
          None \<Rightarrow> throw CeremonyError
        | Some document \<Rightarrow>
            let proposal = jget ''delivery_proposal'' document in
            seq (of_check (check_relay document args))
              (seq (of_check (check_proposal proposal))
                 (attest_proposal env desk args proposal (jget ''relayed_reply'' document))))"

section \<open>The commands\<close>

text \<open>\<open>main\<close>: the named exceptions end in exit status 1, any other one in a traceback.\<close>

fun reported :: "exn \<Rightarrow> bool" where
  "reported CeremonyError = True"
| "reported StoreError = True"
| "reported (AuthorizationError p) = True"
| "reported (CandidateError p) = True"
| "reported DeliveryTransportError = True"
| "reported (MachineError p) = True"
| "reported _ = False"

definition main_command :: "('w sys, 'a) act \<Rightarrow> ('w sys, int) act" where
  "main_command command =
     handle (seq command (ret 0)) (\<lambda>e. if reported e then ret 1 else throw e)"

end
