(* ===== verification/StoreFacts.thy ===== *)
theory StoreFacts
  imports Store
begin

text \<open>
  The capacity rules of \<open>pr_delivery/store.py\<close> as facts about the result of \<open>add_delivery\<close>.
\<close>

lemma length_update_absent: "k \<notin> fst ` set al \<Longrightarrow> length (AList.update k v al) = Suc (length al)"
  by (induction al) auto

lemma set_update_subset: "set (AList.update k v al) \<subseteq> insert (k, v) (set al)"
  by (induction al) auto

lemma in_update_other: "(k, r) \<in> set al \<Longrightarrow> k \<noteq> i \<Longrightarrow> (k, r) \<in> set (AList.update i v al)"
  by (induction al) auto

lemma length_prune_inactive: "prune_inactive ds now = (kept, n) \<Longrightarrow> length kept \<le> length ds"
proof -
  have "length (fst (prune_loop ids ds n)) \<le> length ds" for ids ds n
    by (induction ids ds n rule: prune_loop.induct) (auto intro: le_trans length_delete_le)
  from this [of "prunable ds now" ds 0] show "prune_inactive ds now = (kept, n) \<Longrightarrow> length kept \<le> length ds"
    by (auto simp: prune_inactive_def split: if_splits)
qed

lemma add_delivery_facts:
  assumes "add_delivery h document rec = Inr (new, result, pruned)"
    and "distinct (map fst (deliveries_of document))" "length (deliveries_of document) \<le> MAX_PR_DELIVERY_RECORDS"
  shows "length (deliveries_of new) \<le> MAX_PR_DELIVERY_RECORDS"
    and "(k, r) \<in> set (deliveries_of document) \<Longrightarrow> is_active r \<or> is_replay_protected r (authorized_at_of rec)
           \<Longrightarrow> (k, r) \<in> set (deliveries_of new)"
    and "set (deliveries_of new) \<subseteq> insert (str_of (jget ''delivery_id'' rec), rec) (set (deliveries_of document))"
    and "result = Added \<Longrightarrow> map_of (deliveries_of new) (str_of (jget ''delivery_id'' rec)) = Some rec
           \<and> map_of (deliveries_of document) (str_of (jget ''delivery_id'' rec)) = None"
    and "result = DuplicateDelivery \<Longrightarrow> new = document"
proof -
  let ?ds = "deliveries_of document" and ?i = "str_of (jget ''delivery_id'' rec)"
  obtain kept n where pruned: "prune_inactive ?ds (authorized_at_of rec) = (kept, n)" by fastforce
  consider (dup) "?i \<in> fst ` set ?ds" "new = document" "result = DuplicateDelivery"
    | (full) "?i \<notin> fst ` set ?ds" "MAX_PR_DELIVERY_RECORDS \<le> length kept" "new = set_deliveries kept document"
        "result = StoreFull"
    | (added) "?i \<notin> fst ` set ?ds" "\<not> MAX_PR_DELIVERY_RECORDS \<le> length kept"
        "new = set_deliveries (AList.update ?i rec kept) document" "result = Added"
    using assms(1) pruned by (auto simp: add_delivery_def guard_check_Inr_iff Let_def split: if_splits)
  note cases = this
  have kept: "(k, r) \<in> set kept" if "(k, r) \<in> set ?ds" "is_active r \<or> is_replay_protected r (authorized_at_of rec)" for k r
    by (rule prune_inactive_keeps [OF pruned assms(2) that])
  have sub: "set kept \<subseteq> set ?ds" using prune_inactive_subset [OF pruned] .
  have len: "length kept \<le> length ?ds" using length_prune_inactive [OF pruned] .
  have absent: "?i \<notin> fst ` set ?ds \<Longrightarrow> ?i \<notin> fst ` set kept" using sub by auto
  from cases show "length (deliveries_of new) \<le> MAX_PR_DELIVERY_RECORDS"
    using assms(3) len absent by cases (auto simp: length_update_absent)
  from cases show "(k, r) \<in> set (deliveries_of new)"
    if "(k, r) \<in> set ?ds" "is_active r \<or> is_replay_protected r (authorized_at_of rec)"
    using kept [OF that] that(1) by cases (auto simp: rev_image_eqI intro!: in_update_other)
  from cases show "set (deliveries_of new) \<subseteq> insert (?i, rec) (set ?ds)"
    using sub set_update_subset [of ?i rec kept] by cases auto
  from cases show "result = Added \<Longrightarrow> map_of (deliveries_of new) ?i = Some rec \<and> map_of ?ds ?i = None"
    by cases (auto simp: update_conv map_of_eq_None_iff)
  from cases show "result = DuplicateDelivery \<Longrightarrow> new = document" by cases auto
qed

end
