(* ===== verification/Lookup.thy ===== *)
theory Lookup
  imports Store
begin

text \<open>
  What each key of a stored record holds, for the record's typed form: the facts with
  which the validators are evaluated on \<open>delivery_json d\<close>.
\<close>

named_theorems delivery_get "lookups in the JSON form of a record"

lemma delivery_json_authority:
  "jget ''schema_version'' (delivery_json d) = JInt 1"
  "jget ''delivery_id'' (delivery_json d) = JStr (a_delivery_id (d_authority d))"
  "jget ''revision'' (delivery_json d) = JInt (a_revision (d_authority d))"
  "jget ''previous_delivery_id'' (delivery_json d) = opt_json JStr (a_previous_delivery_id (d_authority d))"
  "jget ''workflow_identity'' (delivery_json d) = workflow_identity_json (d_authority d)"
  "jget ''mission'' (delivery_json d) = opt_json mission_parent_json (a_mission (d_authority d))"
  "jget ''repository'' (delivery_json d) = repository_json (a_repository (d_authority d))"
  "jget ''remote'' (delivery_json d) = remote_json (a_remote (d_authority d))"
  "jget ''mode'' (delivery_json d) = JStr (mode_str (a_mode (d_authority d)))"
  "jget ''source'' (delivery_json d) = branch_pair_json (a_source (d_authority d))"
  "jget ''target_base'' (delivery_json d) = branch_pair_json (a_target_base (d_authority d))"
  "jget ''original_baseline'' (delivery_json d) = baseline_json (a_baseline (d_authority d))"
  "jget ''candidate'' (delivery_json d) = candidate_json (a_candidate (d_authority d))"
  "jget ''evidence'' (delivery_json d) = evidence_json (a_evidence (d_authority d))"
  "jget ''allowed_actions'' (delivery_json d) = list_json (\<lambda>s. JStr (step_str s)) (a_allowed_actions (d_authority d))"
  "jget ''committer'' (delivery_json d) = committer_json (a_committer (d_authority d))"
  "jget ''reverification'' (delivery_json d) = JObj [(''argv'', list_json JStr (a_reverification (d_authority d)))]"
  "jget ''pr_content'' (delivery_json d) = pr_content_json (a_pr_content (d_authority d))"
  "jget ''human_authorization'' (delivery_json d) = human_authorization_json (a_human (d_authority d))"
  "jget ''expiration'' (delivery_json d) = expiration_json (a_expiration (d_authority d))"
  by (simp_all add: delivery_json_def authority_fields_def)
lemma delivery_json_state_half:
  assumes "k \<in> set (''authority_digest_sha256'' # STATE_KEYS)"
  shows "jget k (delivery_json d) =
    (case map_of ((''authority_digest_sha256'', JStr (d_authority_digest d)) # state_fields d) k of
       None \<Rightarrow> JNull | Some v \<Rightarrow> v)"
  by (simp only: delivery_json_def jget_obj map_of_authority_fields
      state_key_not_authority [OF assms] option.case)

lemma delivery_json_state:
  "jget ''authority_digest_sha256'' (delivery_json d) = JStr (d_authority_digest d)"
  "jget ''phase'' (delivery_json d) = JStr (phase_str (d_phase d))"
  "jget ''steps'' (delivery_json d) = JObj (map (\<lambda>s. (step_str s, step_entry_json (d_steps d s))) STEPS)"
  "jget ''base_state'' (delivery_json d) = base_state_json (d_base_state d)"
  "jget ''revocation'' (delivery_json d) = revocation_json (d_revocation d)"
  "jget ''blocker'' (delivery_json d) = opt_json blocker_json (d_blocker d)"
  "jget ''pull_request'' (delivery_json d) = opt_json pull_request_json (d_pull_request d)"
  "jget ''updated_at'' (delivery_json d) = JNum (d_updated_at d)"
  by (simp_all add: delivery_json_state_half STATE_KEYS_def) (simp_all add: state_fields_def)

declare delivery_json_authority [delivery_get]
declare delivery_json_state [delivery_get]

lemma delivery_json_update:
  "jget ''pull_request_number'' (delivery_json d) = opt_json JInt (a_pull_request_number (d_authority d))"
  "jget ''staged_sha256'' (delivery_json d) = opt_json JStr (a_staged_sha256 (d_authority d))"
  by (cases "a_pull_request_number (d_authority d)"; cases "a_staged_sha256 (d_authority d)";
      simp add: delivery_json_def authority_fields_def state_fields_def opt_json_def)+

declare delivery_json_update [delivery_get]

lemma delivery_json_keys:
  "jkeys (delivery_json d) =
     AUTHORITY_KEYS
     @ (if a_pull_request_number (d_authority d) = None then [] else [''pull_request_number''])
     @ (if a_staged_sha256 (d_authority d) = None then [] else [''staged_sha256''])
     @ [''authority_digest_sha256''] @ STATE_KEYS"
  by (cases "a_pull_request_number (d_authority d)"; cases "a_staged_sha256 (d_authority d)")
     (simp_all add: delivery_json_def authority_fields_def state_fields_def AUTHORITY_KEYS_def STATE_KEYS_def)

lemma delivery_json_obj [simp]: "is_obj (delivery_json d)"
  by (simp add: delivery_json_def)

end
