(* ===== verification/Samples.thy ===== *)
theory Samples
  imports Lookup
begin

text \<open>
  Concrete records on which the theorems about valid records are instantiated: a host whose
  hash is constant, an authorization of each kind, and the stored file that holds it.
\<close>

definition hex64 :: str where "hex64 = replicate 64 (CHR ''0'')"

definition oid_of :: "char \<Rightarrow> str" where "oid_of c = replicate 40 c"

definition sample_host :: host where
  "sample_host = \<lparr>sha256 = (\<lambda>_. hex64), float_repr = (\<lambda>_. ''0.5''), os_realpath = (\<lambda>p. p)\<rparr>"

definition sample_evidence :: "str \<Rightarrow> evidence" where
  "sample_evidence base =
     \<lparr>ev_engineering = \<lparr>en_task_id = ''t'', en_status = ''COMPLETE'', en_state_sha256 = hex64,
        en_recorded_at = PInt 1, en_candidate = hex64, en_base_oid = base\<rparr>,
      ev_review = \<lparr>rv_task_id = ''t'', rv_round = 1, rv_file_name = ''r'', rv_file_sha256 = hex64,
        rv_decision = ''APPROVE'', rv_recorded_at = PInt 1, rv_candidate = hex64, rv_base_oid = base\<rparr>,
      ev_verification = \<lparr>vf_argv = [''make''], vf_exit_status = 0, vf_log_sha256 = hex64, vf_log_bytes = 0,
        vf_ran_at = PInt 1, vf_recorded_at = PInt 1, vf_candidate = hex64, vf_base_oid = base\<rparr>\<rparr>"

definition sample_authority :: "mode \<Rightarrow> authority" where
  "sample_authority m =
     \<lparr>a_delivery_id = ''prd-'' @ replicate 24 (CHR ''a''), a_revision = 1, a_previous_delivery_id = None,
      a_workflow_id = ''w'', a_engineering_task_id = ''t'', a_mission = None,
      a_repository = \<lparr>rp_realpath = ''/r'', rp_git_dir = ''/r/.git'', rp_host = ''github.com'',
        rp_owner = ''o'', rp_repo = ''p'', rp_url = ''https://github.com/o/p''\<rparr>,
      a_remote = \<lparr>rm_name = ''origin'', rm_url_exact = ''https://github.com/o/p'',
        rm_url_fetch = ''https://github.com/o/p'', rm_url_push = ''https://github.com/o/p'',
        rm_repository_url = ''https://github.com/o/p''\<rparr>,
      a_mode = m,
      a_source = \<lparr>bp_branch = ''topic'', bp_ref = ''refs/heads/topic''\<rparr>,
      a_target_base = \<lparr>bp_branch = ''main'', bp_ref = ''refs/heads/main''\<rparr>,
      a_baseline = \<lparr>bl_ref = (if m = PR_UPDATE then ''refs/heads/topic'' else ''refs/heads/main''),
        bl_sha = oid_of (CHR ''1'')\<rparr>,
      a_candidate = \<lparr>cd_digest = hex64, cd_count = 1,
        cd_entries = [\<lparr>ce_path = ''f'', ce_status = ''M'', ce_mode = ''100644'', ce_blob = oid_of (CHR ''2'')\<rparr>]\<rparr>,
      a_evidence = sample_evidence (oid_of (CHR ''1'')),
      a_allowed_actions = (if m = PR_UPDATE then PR_UPDATE_STEPS else STEPS),
      a_committer = \<lparr>cm_name = ''n'', cm_email = ''e''\<rparr>,
      a_reverification = [''make''],
      a_pr_content = \<lparr>pc_title = ''T'', pc_objective = ''O'', pc_notes = [], pc_risks = []\<rparr>,
      a_human = \<lparr>ha_identity = ''h'', ha_source = AUTHORIZATION_SOURCE_LOCAL_TERMINAL, ha_authorized_at = PInt 1,
        ha_confirmation = hex64, ha_attestation = None\<rparr>,
      a_expiration = \<lparr>ex_policy = ''absolute_deadline'', ex_expires_at = PInt 100\<rparr>,
      a_pull_request_number = (if m = PR_UPDATE then Some 7 else None),
      a_staged_sha256 = (if m = PR_UPDATE then Some hex64 else None)\<rparr>"

definition sample_delivery :: "mode \<Rightarrow> delivery" where
  "sample_delivery m =
     \<lparr>d_authority = sample_authority m, d_authority_digest = hex64, d_phase = AUTHORIZED,
      d_steps = initial_entry m,
      d_base_state = \<lparr>bs_current = oid_of (CHR ''1''), bs_refreshed_at = None, bs_advance = None\<rparr>,
      d_revocation = \<lparr>rk_revoked = False, rk_at = None, rk_by = None, rk_reason = None\<rparr>,
      d_blocker = None, d_pull_request = None, d_updated_at = PInt 2\<rparr>"

section \<open>The sample is valid\<close>

lemma sample_hash [simp]: "sha256_hex sample_host b = hex64" "framed_digest sample_host ps = hex64"
  by (simp_all add: framed_digest_def sha256_hex_def sample_host_def)

lemma sample_json_digest: "finite_json v \<Longrightarrow> json_digest sample_host v = Inr hex64"
  by (simp add: json_digest_def canonical_json_bytes_def)

lemma sample_pieces:
  "validate_workflow_identity (workflow_identity_json (sample_authority m)) = None"
  "validate_repository sample_host (repository_json (a_repository (sample_authority m))) = None"
  "validate_remote (remote_json (a_remote (sample_authority m))) (repository_json (a_repository (sample_authority m))) = None"
  "require_branch_pair (branch_pair_json (a_source (sample_authority m))) = None"
  "require_branch_pair (branch_pair_json (a_target_base (sample_authority m))) = None"
  "validate_committer (committer_json (a_committer (sample_authority m))) = None"
  "validate_pr_content (pr_content_json (a_pr_content (sample_authority m))) = None"
  "validate_expiration (expiration_json (a_expiration (sample_authority m))) (PInt 1) = None"
  "validate_evidence (evidence_json (a_evidence (sample_authority m))) (JStr hex64) = None"
  by code_simp+

lemma sample_candidate:
  "validate_candidate sample_host (candidate_json (a_candidate (sample_authority m))) = None"
proof -
  let ?c = "candidate_json (a_candidate (sample_authority m))"
  have digest: "identity_digest sample_host es = hex64" for es
    by (simp add: identity_digest_def)
  have "require_dict ?c = None" "require_hex (jget ''identity_digest_sha256'' ?c) 64 = None"
    "require_closed_keys ?c [''identity_digest_sha256'', ''entry_count'', ''entries''] = None"
    "validate_candidate_entries (jget ''entries'' ?c) = None"
    "require_int (jget ''entry_count'' ?c) (Some 1) None = None"
    "int_of_json (jget ''entry_count'' ?c) = int (length (list_of (jget ''entries'' ?c)))"
    "str_of (jget ''identity_digest_sha256'' ?c) = hex64"
    by code_simp+
  then show ?thesis by (simp add: validate_candidate_def digest checks_None_iff)
qed

lemma sample_rest:
  "validate_allowed_actions (list_json (\<lambda>s. JStr (step_str s)) (a_allowed_actions (sample_authority PULL_REQUEST)))
     PULL_REQUEST = None"
  "validate_allowed_actions (list_json (\<lambda>s. JStr (step_str s)) (a_allowed_actions (sample_authority PR_UPDATE)))
     PR_UPDATE = None"
  "validate_baseline (baseline_json (a_baseline (sample_authority PULL_REQUEST)))
     (branch_pair_json (a_target_base (sample_authority PULL_REQUEST))) PULL_REQUEST = None"
  "validate_baseline (baseline_json (a_baseline (sample_authority PR_UPDATE)))
     (branch_pair_json (a_target_base (sample_authority PR_UPDATE))) PR_UPDATE = None"
  "validate_argv (list_json JStr (a_reverification (sample_authority m))) = None"
  "require_id (JStr (a_delivery_id (sample_authority m))) = None"
  "require_hex (JStr hex64) 64 = None"
  "is_presented_delivery_id (JStr (a_delivery_id (sample_authority m)))"
  by code_simp+

lemma sample_human:
  "validate_human_authorization sample_host (human_authorization_json (a_human (sample_authority m))) doc = None"
proof -
  let ?h = "human_authorization_json (a_human (sample_authority m))"
  have "is_obj ?h" "jget ''source'' ?h \<noteq> JStr AUTHORIZATION_SOURCE_DOTS_OPERATOR_ATTESTED"
    "require_closed_keys ?h [''identity'', ''source'', ''authorized_at'', ''confirmation_digest_sha256''] = None"
    "require_line_free_str (jget ''identity'' ?h) 255 False = None"
    "require_member (jget ''source'' ?h) AUTHORIZATION_SOURCES = None"
    "require_timestamp (jget ''authorized_at'' ?h) = None"
    "require_hex (jget ''confirmation_digest_sha256'' ?h) 64 = None"
    by code_simp+
  then show ?thesis by (simp add: validate_human_authorization_def)
qed

lemma finite_jget: "finite_json v \<Longrightarrow> finite_json (jget k v)"
  by (cases v) (auto simp: jget_def list_all_iff split: option.splits dest!: map_of_SomeD)

lemma finite_sub_object: "finite_json v \<Longrightarrow> finite_json (sub_object ks v)"
  by (simp add: sub_object_def list_all_iff finite_jget)

lemma sample_finite:
  "finite_json (delivery_json (sample_delivery PULL_REQUEST))"
  "finite_json (delivery_json (sample_delivery PR_UPDATE))"
  by code_simp+

lemma sample_authority_digest:
  "authority_digest sample_host (delivery_json (sample_delivery PULL_REQUEST)) = Inr hex64"
  "authority_digest sample_host (delivery_json (sample_delivery PR_UPDATE)) = Inr hex64"
  unfolding authority_digest_def by (intro sample_json_digest finite_sub_object sample_finite)+

lemma sample_steps:
  "validate_steps sample_host
     (JObj (map (\<lambda>s. (step_str s, step_entry_json (initial_entry PULL_REQUEST s))) STEPS)) i p PULL_REQUEST = None"
  "validate_steps sample_host
     (JObj (map (\<lambda>s. (step_str s, step_entry_json (initial_entry PR_UPDATE s))) STEPS)) i p PR_UPDATE = None"
  by code_simp+

lemma sample_state:
  "validate_base_state (base_state_json (d_base_state (sample_delivery m))) = None"
  "validate_revocation (revocation_json (d_revocation (sample_delivery m))) = None"
  "validate_blocker JNull = None" "validate_pull_request JNull = None"
  by code_simp+

lemma sample_keys:
  "require_closed_keys (delivery_json (sample_delivery PULL_REQUEST)) (top_level_keys (JStr (mode_str PULL_REQUEST))) = None"
  "require_closed_keys (delivery_json (sample_delivery PR_UPDATE)) (top_level_keys (JStr (mode_str PR_UPDATE))) = None"
  by code_simp+

lemma sample_values:
  "a_revision (sample_authority m) = 1" "a_previous_delivery_id (sample_authority m) = None"
  "a_mission (sample_authority m) = None" "a_mode (sample_authority m) = m"
  "jget ''identity_digest_sha256'' (candidate_json (a_candidate (sample_authority m))) = JStr hex64"
  "jget ''authorized_at'' (human_authorization_json (a_human (sample_authority m))) = JInt 1"
  "jget ''ref'' (branch_pair_json (a_source (sample_authority m))) = JStr ''refs/heads/topic''"
  "jget ''ref'' (branch_pair_json (a_target_base (sample_authority m))) = JStr ''refs/heads/main''"
  "d_authority (sample_delivery m) = sample_authority m" "d_steps (sample_delivery m) = initial_entry m"
  "d_authority_digest (sample_delivery m) = hex64" "d_phase (sample_delivery m) = AUTHORIZED"
  "d_blocker (sample_delivery m) = None" "d_pull_request (sample_delivery m) = None"
  "d_updated_at (sample_delivery m) = PInt 2"
  "a_pull_request_number (sample_authority PR_UPDATE) = Some 7"
  "a_staged_sha256 (sample_authority PR_UPDATE) = Some hex64"
  by (simp_all add: sample_authority_def sample_delivery_def candidate_json_def
      human_authorization_json_def branch_pair_json_def)

lemma sample_checks:
  "require_int (JInt 1) (Some 1) None = None" "validate_mission JNull = None"
  "require_dict (JObj kvs) = None" "require_closed_keys (JObj [(''argv'', v)]) [''argv''] = None"
  "require_digest (Inr hex64) (JStr hex64) e = None" "require_timestamp (JInt 2) = None"
  "require_member (JStr ''AUTHORIZED'') (map phase_str PHASES) = None"
  by (simp_all add: require_int_def validate_mission_def require_dict_def require_closed_keys_def
      require_digest_def require_timestamp_def require_member_def PHASES_def checks_None_iff)

lemma sample_pull_request_valid:
  "validate_authorization sample_host (delivery_json (sample_delivery PULL_REQUEST)) = None"
proof -
  let ?d = "sample_delivery PULL_REQUEST"
  have "validate_authority_half sample_host (delivery_json ?d) PULL_REQUEST = None"
    unfolding validate_authority_half_def checks_None_iff
    using sample_keys sample_rest
    by (simp add: delivery_get sample_values opt_json_def sample_pieces sample_candidate sample_human
        sample_authority_digest sample_checks)
  moreover have "validate_state_half sample_host (delivery_json ?d) PULL_REQUEST = None"
    unfolding validate_state_half_def checks_None_iff
    by (simp add: delivery_get sample_values opt_json_def sample_steps sample_state sample_checks)
  ultimately show ?thesis
    by (simp add: validate_authorization_def checks_None_iff delivery_get sample_values
        schema_version_ok_def MODES_def Let_def require_dict_def del: mode_str.simps)
qed

lemma sample_update_authority: "validate_pr_update_authority (delivery_json (sample_delivery PR_UPDATE)) = None"
proof -
  have "jget ''ref'' (baseline_json (a_baseline (sample_authority PR_UPDATE))) = JStr ''refs/heads/topic''"
    "jget ''commit_sha'' (baseline_json (a_baseline (sample_authority PR_UPDATE))) = JStr (oid_of (CHR ''1''))"
    "d_base_state (sample_delivery PR_UPDATE) =
       \<lparr>bs_current = oid_of (CHR ''1''), bs_refreshed_at = None, bs_advance = None\<rparr>"
    by (simp_all add: sample_authority_def sample_delivery_def baseline_json_def)
  then show ?thesis
    using sample_rest(7,8)
    by (simp add: validate_pr_update_authority_def checks_None_iff delivery_get sample_values opt_json_def
        base_state_json_def require_int_def MAX_PULL_REQUEST_NUMBER_def PR_UPDATE_UNREACHABLE_PHASES_def)
qed

lemma sample_update_valid:
  "validate_authorization sample_host (delivery_json (sample_delivery PR_UPDATE)) = None"
proof -
  let ?d = "sample_delivery PR_UPDATE"
  have "validate_authority_half sample_host (delivery_json ?d) PR_UPDATE = None"
    unfolding validate_authority_half_def checks_None_iff
    using sample_keys sample_rest
    by (simp add: delivery_get sample_values opt_json_def sample_pieces sample_candidate sample_human
        sample_authority_digest sample_checks)
  moreover have "validate_state_half sample_host (delivery_json ?d) PR_UPDATE = None"
    unfolding validate_state_half_def checks_None_iff
    by (simp add: delivery_get sample_values opt_json_def sample_steps sample_state sample_checks sample_update_authority)
  ultimately show ?thesis
    by (simp add: validate_authorization_def checks_None_iff delivery_get sample_values
        schema_version_ok_def MODES_def Let_def require_dict_def del: mode_str.simps)
qed

section \<open>The stored file\<close>

definition sample_document :: "delivery \<Rightarrow> json" where
  "sample_document d = JObj
     [(''pr_delivery_store_schema_version'', JInt 1), (''deliveries'', JObj [(a_delivery_id (d_authority d), delivery_json d)])]"

definition sample_file :: "delivery \<Rightarrow> stored_file" where
  "sample_file d = File 384 (Some (sample_document d))"

lemma sample_document_valid:
  "validate_authorization h (delivery_json d) = None \<Longrightarrow> validate_document h (sample_document d) = None"
  by (simp add: validate_document_def sample_document_def deliveries_of_def jkeys_def checks_None_iff
      STORE_TOP_LEVEL_KEYS_def schema_version_ok_def MAX_PR_DELIVERY_RECORDS_def validate_stored_def
      as_store_error_def delivery_get)

lemma sample_file_loads:
  "validate_authorization h (delivery_json d) = None \<Longrightarrow> store_load h (sample_file d) = Inr (sample_document d)"
  by (simp add: sample_file_def store_load_def open_permissions_def sample_document_valid)

lemma sample_deliveries: "deliveries_of (sample_document d) = [(a_delivery_id (d_authority d), delivery_json d)]"
  by (simp add: deliveries_of_def sample_document_def)

end
