(* ===== verification/ValidFacts.thy ===== *)
theory ValidFacts
  imports Samples MachineBase
begin

text \<open>
  What the complete validator of \<open>pr_delivery/authorization.py\<close> guarantees about a record
  that it accepts.
\<close>

section \<open>The authority half\<close>

lemma valid_halves:
  assumes "validate_authorization h j = None"
  shows "is_obj j" "validate_authority_half h j (mode_of_str (str_of (jget ''mode'' j))) = None"
    "validate_state_half h j (mode_of_str (str_of (jget ''mode'' j))) = None"
    "jget ''mode'' j = JStr (mode_str (mode_of_str (str_of (jget ''mode'' j))))"
proof -
  show "is_obj j" "validate_authority_half h j (mode_of_str (str_of (jget ''mode'' j))) = None"
    "validate_state_half h j (mode_of_str (str_of (jget ''mode'' j))) = None"
    using assms by (simp_all add: validate_authorization_def checks_None_iff Let_def require_dict_def)
  have "is_str (jget ''mode'' j)" "str_of (jget ''mode'' j) \<in> set (map mode_str MODES)"
    using assms by (simp_all add: validate_authorization_def checks_None_iff Let_def)
  then show "jget ''mode'' j = JStr (mode_str (mode_of_str (str_of (jget ''mode'' j))))"
    by (auto simp: is_str_iff MODES_def mode_of_str_def)
qed

lemma valid_delivery_halves:
  assumes "validate_authorization h (delivery_json d) = None"
  shows "validate_authority_half h (delivery_json d) (a_mode (d_authority d)) = None"
    "validate_state_half h (delivery_json d) (a_mode (d_authority d)) = None"
  using valid_halves [OF assms] by (simp_all add: delivery_get del: mode_str.simps)

lemma require_hexD: "require_hex v n = None \<Longrightarrow> is_str v \<and> py_len (str_of v) = n \<and> is_hex (str_of v)"
  by (simp add: require_hex_def require_str_def checks_None_iff)

lemma require_digest_None: "require_digest r v e = None \<longleftrightarrow> (\<exists>x. r = Inr x \<and> v = JStr x)"
  by (auto simp: require_digest_def split: sum.splits)

lemma valid_bindings:
  assumes "validate_authorization h j = None"
  shows "authority_digest h j = Inr (str_of (jget ''authority_digest_sha256'' j))"
    and "identity_digest h (json_list cand_entry_of_json (jget ''entries'' (jget ''candidate'' j)))
           = str_of (jget ''identity_digest_sha256'' (jget ''candidate'' j))"
    and "e \<in> {''engineering_complete'', ''reviewer_approve'', ''independent_verification''} \<Longrightarrow>
           jget ''candidate_identity_digest_sha256'' (jget e (jget ''evidence'' j))
             = jget ''identity_digest_sha256'' (jget ''candidate'' j)"
  using valid_halves(2) [OF assms]
  by (auto simp: validate_authority_half_def validate_candidate_def validate_evidence_def checks_None_iff
      require_digest_None Let_def)

lemma require_validity_None:
  "require_validity e a = None \<longleftrightarrow>
     (\<exists>window. num_sub e a = Inr window \<and> \<not> num_less (PInt MAX_AUTHORIZATION_VALIDITY_SECONDS) window)"
  by (auto simp: require_validity_def require_def split: sum.splits)

lemma valid_window:
  assumes "validate_authorization h (delivery_json d) = None"
  shows "\<not> num_le (ex_expires_at (a_expiration (d_authority d))) (ha_authorized_at (a_human (d_authority d)))"
    and "\<exists>window. num_sub (ex_expires_at (a_expiration (d_authority d))) (ha_authorized_at (a_human (d_authority d))) = Inr window
           \<and> \<not> num_less (PInt MAX_AUTHORIZATION_VALIDITY_SECONDS) window"
  using valid_delivery_halves(1) [OF assms]
  by (auto simp: validate_authority_half_def validate_expiration_def checks_None_iff delivery_get
      expiration_json_def human_authorization_json_def require_validity_None)

lemma step_names_eq: "map step_str xs = map step_str ys \<longleftrightarrow> xs = ys"
  by (simp add: inj_map_eq_map inj_def)

lemma valid_actions:
  assumes "validate_authorization h (delivery_json d) = None"
  shows "distinct (a_allowed_actions (d_authority d))" "a_allowed_actions (d_authority d) \<noteq> []"
    and "a_mode (d_authority d) = PR_UPDATE \<Longrightarrow> a_allowed_actions (d_authority d) = [COMMIT, PUSH]"
proof -
  have names: "map str_of (list_of (list_json (\<lambda>s. JStr (step_str s)) xs)) = map step_str xs" for xs
    by (induction xs) (simp_all add: list_json_def)
  have *: "validate_allowed_actions (list_json (\<lambda>s. JStr (step_str s)) (a_allowed_actions (d_authority d)))
          (a_mode (d_authority d)) = None"
    using valid_delivery_halves(1) [OF assms]
    by (simp add: validate_authority_half_def checks_None_iff delivery_get)
  then show "distinct (a_allowed_actions (d_authority d))" "a_allowed_actions (d_authority d) \<noteq> []"
    by (auto simp: validate_allowed_actions_def checks_None_iff Let_def names distinct_map list_json_def)
  from * have "a_mode (d_authority d) = PR_UPDATE \<Longrightarrow>
      map step_str (a_allowed_actions (d_authority d)) = map step_str [COMMIT, PUSH]"
    unfolding validate_allowed_actions_def checks_None_iff Let_def names PR_UPDATE_STEPS_def
    by (simp only: list.set insert_iff ball_simps require_None_iff list.map simp_thms)
  then show "a_mode (d_authority d) = PR_UPDATE \<Longrightarrow> a_allowed_actions (d_authority d) = [COMMIT, PUSH]"
    by (simp only: step_names_eq)
qed

section \<open>The state half\<close>

lemma jget_steps:
  "jget (step_str s) (JObj (map (\<lambda>s. (step_str s, step_entry_json (f s))) STEPS)) = step_entry_json (f s)"
  by (cases s) (simp_all add: STEPS_def)

lemma step_entry_keys [simp]:
  "jget ''state'' (step_entry_json e) = JStr (step_state_str (se_state e))"
  "jget ''receipt'' (step_entry_json e) = opt_json receipt_json (se_receipt e)"
  "jget ''voided'' (step_entry_json e) = list_json JStr (se_voided e)"
  by (simp_all add: step_entry_json_def)

lemma opt_receipt_Null: "opt_json receipt_json x = JNull \<longleftrightarrow> x = None"
  by (cases x) (simp_all add: opt_json_def receipt_json_def)

lemma valid_steps:
  assumes "validate_authorization h (delivery_json d) = None"
  shows "validate_step_entry h (step_entry_json (d_steps d s)) s (JStr (record_id d)) (JStr (d_authority_digest d)) = None"
    and "a_mode (d_authority d) = PR_UPDATE \<Longrightarrow> s \<in> set PR_UPDATE_EXCLUDED_STEPS \<Longrightarrow>
           untouched_entry (step_entry_json (d_steps d s))"
proof -
  let ?v = "JObj (map (\<lambda>s. (step_str s, step_entry_json (d_steps d s))) STEPS)"
  have "validate_steps h ?v (JStr (record_id d)) (JStr (d_authority_digest d)) (a_mode (d_authority d)) = None"
    using valid_delivery_halves(2) [OF assms]
    by (simp add: validate_state_half_def checks_None_iff delivery_get record_id_def)
  then have "\<forall>s \<in> set STEPS. validate_step_entry h (jget (step_str s) ?v) s (JStr (record_id d))
               (JStr (d_authority_digest d)) = None"
    "a_mode (d_authority d) = PR_UPDATE \<longrightarrow>
       list_all (\<lambda>s. untouched_entry (jget (step_str s) ?v)) PR_UPDATE_EXCLUDED_STEPS"
    by (simp_all add: validate_steps_def checks_None_iff)
  then show "validate_step_entry h (step_entry_json (d_steps d s)) s (JStr (record_id d)) (JStr (d_authority_digest d)) = None"
    "a_mode (d_authority d) = PR_UPDATE \<Longrightarrow> s \<in> set PR_UPDATE_EXCLUDED_STEPS \<Longrightarrow>
       untouched_entry (step_entry_json (d_steps d s))"
    by (simp_all only: jget_steps list_all_iff) simp_all
qed

lemma receipt_state_str_inject: "receipt_state_str a = receipt_state_str b \<longleftrightarrow> a = b"
  by (metis receipt_state_of_str)

lemma valid_receipt_bound:
  assumes "validate_authorization h (delivery_json d) = None" "se_receipt (d_steps d s) = Some r"
  shows "validate_receipt h (receipt_json r) s (JStr (record_id d)) (JStr (d_authority_digest d)) = None"
    and "state_requires_receipt (se_state (d_steps d s)) = Some x \<Longrightarrow> rc_state r = x"
  using valid_steps(1) [OF assms(1), of s] assms(2)
  by (auto simp: validate_step_entry_def checks_None_iff Let_def opt_receipt_Null
      opt_json_def [of receipt_json "Some r"] receipt_json_def receipt_state_str_inject split: if_splits)

lemma valid_receipt_facts:
  assumes "validate_receipt h (receipt_json r) s (JStr i) (JStr g) = None"
  shows "rc_step r = s" "rc_delivery_id r = i" "rc_parent_digest r = g"
    and "receipt_digest h (receipt_json r) = Inr (rc_digest r)"
    and "set (map fst (rc_binding r)) = set (receipt_binding_fields s)"
    and "1 \<le> rc_attempt r" "rc_attempt r \<le> int MAX_STEP_ATTEMPTS"
  using assms
  by (auto simp: validate_receipt_def checks_None_iff receipt_json_def require_digest_None
      require_closed_keys_def require_int_def list_all_iff jkeys_def)


lemma step_state_str_inject: "step_state_str a = step_state_str b \<longleftrightarrow> a = b"
  by (metis step_state_of_str)

lemma untouched_entry_eq:
  "untouched_entry (step_entry_json e) \<Longrightarrow> e = \<lparr>se_state = STEP_NOT_NEEDED, se_receipt = None, se_voided = []\<rparr>"
  by (cases e)
     (simp add: untouched_entry_def opt_receipt_Null step_state_str_inject list_json_def del: step_state_str.simps)


section \<open>A minted record\<close>

lemma take_authority_key_values:
  assumes "map_result (take_authority_key authority i) ks = Inr vs" "k \<in> set ks" "distinct ks"
  shows "map_of (zip ks vs) k = Some v \<longleftrightarrow> take_authority_key authority i k = Inr v"
  using assms
proof (induction ks arbitrary: vs)
  case (Cons a ks)
  then show ?case by (cases "k = a") (auto simp: sbind_Inr_iff)
qed simp

lemma map_result_in: "map_result f xs = Inr ys \<Longrightarrow> x \<in> set xs \<Longrightarrow> \<exists>y. f x = Inr y"
  by (induction xs arbitrary: ys) (auto simp: sbind_Inr_iff)

lemma authority_keys_distinct: "distinct (authority_keys m)"
  by (simp add: authority_keys_def PR_UPDATE_AUTHORITY_KEYS_def AUTHORITY_KEYS_def)

lemma new_authorization_facts:
  assumes "new_authorization h i authority now = Inr document"
  shows "validate_authorization h document = None" "jget ''delivery_id'' document = JStr i"
    "jget ''phase'' document = JStr (phase_str AUTHORIZED)"
    "jget ''blocker'' document = JNull" "jget ''pull_request'' document = JNull"
    "jget ''revoked'' (jget ''revocation'' document) = JBool False"
    "jget (step_str s) (jget ''steps'' document)
       = step_entry_json (initial_entry (mode_of_str (str_of (jget ''mode'' document))) s)"
    "k \<in> set (authority_keys (jget ''mode'' authority)) \<Longrightarrow> k \<noteq> ''schema_version'' \<Longrightarrow> k \<noteq> ''delivery_id''
       \<Longrightarrow> jget k document = jget k authority"
proof -
  let ?keys = "authority_keys (jget ''mode'' authority)" and ?m = "mode_of_str (str_of (jget ''mode'' authority))"
  from assms obtain vs digest where *:
    "map_result (take_authority_key authority i) ?keys = Inr vs"
    "document = JObj (zip ?keys vs @ (''authority_digest_sha256'', JStr digest)
       # initial_state_fields ?m (jget ''original_baseline'' (JObj (zip ?keys vs))) now)"
    "validate_authorization h document = None"
    by (auto simp: new_authorization_def Let_def guard_check_Inr_iff sbind_Inr_iff)
  show "validate_authorization h document = None" by (rule *(3))
  have len: "length vs = length ?keys" using *(1) by (rule map_result_length)
  have low: "jget k document = v" if "k \<in> set ?keys" "take_authority_key authority i k = Inr v" for k v
    using take_authority_key_values [OF *(1) that(1) authority_keys_distinct, of v] that(2)
    by (simp add: *(2) map_of_append map_add_def split: option.splits)
  have keys: "''delivery_id'' \<in> set ?keys" "''mode'' \<in> set ?keys"
    by (simp_all add: authority_keys_def PR_UPDATE_AUTHORITY_KEYS_def AUTHORITY_KEYS_def)
  have total: "\<exists>v. take_authority_key authority i k = Inr v" if "k \<in> set ?keys" for k
    using map_result_in [OF *(1) that] .
  show other: "jget k document = jget k authority"
    if "k \<in> set ?keys" "k \<noteq> ''schema_version''" "k \<noteq> ''delivery_id''" for k
    using total [OF that(1)] low [OF that(1)] that(2,3) by (auto simp: take_authority_key_def split: if_splits)
  show "jget ''delivery_id'' document = JStr i"
    using total [OF keys(1)] low [OF keys(1)] by (auto simp: take_authority_key_def Let_def split: if_splits)
  have high: "jget k document = jget k (JObj (initial_state_fields ?m b now))"
    if "k \<in> set STATE_KEYS" "b = jget ''original_baseline'' (JObj (zip ?keys vs))" for k b
  proof -
    have "k \<notin> set ?keys" "k \<noteq> ''authority_digest_sha256''"
      using that(1) by (auto simp: STATE_KEYS_def authority_keys_def PR_UPDATE_AUTHORITY_KEYS_def AUTHORITY_KEYS_def)
    then have "map_of (zip ?keys vs) k = None"
      using len by (simp add: map_of_zip_is_None)
    with that(2) \<open>k \<noteq> ''authority_digest_sha256''\<close> show ?thesis
      by (simp add: *(2) map_of_append map_add_def split: option.splits)
  qed
  show "jget ''phase'' document = JStr (phase_str AUTHORIZED)"
    "jget ''blocker'' document = JNull" "jget ''pull_request'' document = JNull"
    "jget ''revoked'' (jget ''revocation'' document) = JBool False"
    by (simp_all add: high [OF _ refl] STATE_KEYS_def) (simp_all add: initial_state_fields_def revocation_json_def)
  have "jget ''steps'' document = JObj (map (\<lambda>s. (step_str s, step_entry_json (initial_entry ?m s))) STEPS)"
    by (simp add: high [OF _ refl] STATE_KEYS_def) (simp add: initial_state_fields_def)
  moreover have "jget ''mode'' document = jget ''mode'' authority"
    by (rule other [OF keys(2)]) simp_all
  ultimately show "jget (step_str s) (jget ''steps'' document)
       = step_entry_json (initial_entry (mode_of_str (str_of (jget ''mode'' document))) s)"
    by (simp only: jget_steps)
qed

end
