(* ===== verification/Machine.thy ===== *)
theory Machine
  imports MachineBase
begin

text \<open>
  \<open>pr_delivery/machine.py\<close>, the steps: BASE_REFRESH, COMMIT, PUSH, PR_CREATE, the
  observation that ends an update, their reconciliation after an interruption, and the
  public drive.
\<close>

section \<open>Live facts\<close>

definition head_oid :: "'w env \<Rightarrow> str \<Rightarrow> ('w st, str option) act" where
  "head_oid env path = lift (t_rev_parse (e_transport env) path ''HEAD'')"

text \<open>With no commit the code appends to \<open>None\<close>, a type error.\<close>

definition commit_parent_and_tree :: "'w env \<Rightarrow> str \<Rightarrow> str option \<Rightarrow> ('w st, str option \<times> str option) act" where
  "commit_parent_and_tree env path oid =
     (case oid of
        None \<Rightarrow> throw TypeErr
      | Some c \<Rightarrow>
          bnd (lift (t_rev_parse (e_transport env) path (c @ ''^1'')))
            (\<lambda>parent. bnd (lift (t_rev_parse (e_transport env) path (c @ ''^{tree}'')))
              (\<lambda>tree. ret (parent, tree))))"

definition check_repository :: "'w env \<Rightarrow> bool \<Rightarrow> ('w st, unit) act" where
  "check_repository env require_branch =
     bnd (gets d_authority)
       (\<lambda>a. let path = rp_realpath (a_repository a); name = rm_name (a_remote a);
                tr = e_transport env; real = os_realpath (e_host env) in
         bnd (lift (t_toplevel tr path))
           (\<lambda>top. seq (ensure (real top = path) (Block PROBLEM_WRONG_REPOSITORY))
         (bnd (lift (t_git_dir tr path))
           (\<lambda>dir. seq (ensure (real dir = rp_git_dir (a_repository a)) (Block PROBLEM_WRONG_REPOSITORY))
         (bnd (lift (t_remote_url tr path name))
           (\<lambda>url. bnd (lift (t_remote_fetch_url tr path name))
           (\<lambda>fetch. bnd (lift (t_remote_push_url tr path name))
           (\<lambda>push. seq (ensure (url = Some (rm_url_exact (a_remote a))
                                \<and> fetch = Some (rm_url_fetch (a_remote a))
                                \<and> push = Some (rm_url_push (a_remote a))) (Block PROBLEM_WRONG_REMOTE))
         (if \<not> require_branch then ret ()
          else bnd (lift (t_symbolic_ref_head tr path))
            (\<lambda>ref. ensure (ref = Some (bp_ref (a_source a))) (Block PROBLEM_BRANCH_NOT_CHECKED_OUT))))))))))) "

definition live_candidate :: "'w env \<Rightarrow> str \<Rightarrow> ('w st, cand_entry list) act" where
  "live_candidate env base_oid =
     bnd (gets record_path)
       (\<lambda>path. bnd (lift (t_status_porcelain (e_transport env) path))
         (\<lambda>status. seq (ensure (porcelain_unstaged status = None) (Block PROBLEM_CANDIDATE_UNSTAGED))
           (bnd (lift (t_diff_index_raw (e_transport env) path base_oid))
             (\<lambda>raw. of_result (parse_raw_z raw)))))"

definition require_candidate_matches :: "cand_entry list \<Rightarrow> ('w st, unit) act" where
  "require_candidate_matches entries =
     bnd (gets (\<lambda>d. compare_candidates (cd_entries (a_candidate (d_authority d))) entries))
       (\<lambda>problem. case problem of None \<Rightarrow> ret () | Some p \<Rightarrow> throw (Block p))"

definition candidate_paths :: "delivery \<Rightarrow> str list" where
  "candidate_paths d = map ce_path (cd_entries (a_candidate (d_authority d)))"

definition require_update_candidate :: "'w env \<Rightarrow> str \<Rightarrow> ('w st, unit) act" where
  "require_update_candidate env base_oid =
     bnd (gets record_path)
       (\<lambda>path. bnd (lift (t_worktree_status_z (e_transport env) path))
         (\<lambda>status. bnd (of_result (worktree_dirty_paths status))
           (\<lambda>dirty. bnd (lift (t_diff_index_raw (e_transport env) path base_oid))
             (\<lambda>raw. bnd (of_result (parse_raw_z raw))
               (\<lambda>entries. seq (require_candidate_matches entries)
                 (bnd (gets candidate_paths)
                   (\<lambda>mine. ensure (overlaps mine dirty = []) (Block PROBLEM_WORKTREE_OVERLAP))))))))"

text \<open>The fields that only an update has.\<close>

definition update_number :: "delivery \<Rightarrow> int" where
  "update_number d = (case a_pull_request_number (d_authority d) of Some n \<Rightarrow> n | None \<Rightarrow> 0)"

definition view_pull_request :: "'w env \<Rightarrow> int \<Rightarrow> ('w st, json) act" where
  "view_pull_request env number =
     bnd (gets (\<lambda>d. a_repository (d_authority d)))
       (\<lambda>r. lift (t_gh_pr_view (e_transport env) (rp_owner r) (rp_repo r) number))"

definition identity_problem :: "json \<Rightarrow> str \<Rightarrow> delivery \<Rightarrow> str option" where
  "identity_problem viewed expected_head d =
     (let a = d_authority d in
      pr_update_identity_problem viewed (rp_url (a_repository a)) (update_number d)
        (bp_branch (a_source a)) (bp_branch (a_target_base a)) expected_head)"

definition remote_head :: "'w env \<Rightarrow> ('w st, str option) act" where
  "remote_head env =
     bnd (gets d_authority)
       (\<lambda>a. lift (t_ls_remote (e_transport env) (rp_realpath (a_repository a)) (rm_name (a_remote a))
                    (bp_ref (a_source a))))"

definition require_pr_update_identity :: "'w env \<Rightarrow> str \<Rightarrow> ('w st, unit) act" where
  "require_pr_update_identity env expected_head =
     bnd (gets update_number)
       (\<lambda>number. bnd (view_pull_request env number)
         (\<lambda>viewed. bnd (gets (identity_problem viewed expected_head))
           (\<lambda>problem. seq (case problem of None \<Rightarrow> ret () | Some p \<Rightarrow> throw (Block p))
             (bnd (remote_head env)
               (\<lambda>oid. ensure (oid = Some expected_head) (Block PROBLEM_PR_REF_MISMATCH))))))"

definition PENDING_HISTORY_REFS :: "str list" where
  "PENDING_HISTORY_REFS = [''MERGE_HEAD'', ''CHERRY_PICK_HEAD'', ''REVERT_HEAD'']"

fun first_ref :: "'w env \<Rightarrow> str \<Rightarrow> str list \<Rightarrow> ('w st, str option) act" where
  "first_ref env path [] = ret None"
| "first_ref env path (name # names) =
     bnd (lift (t_rev_parse (e_transport env) path name))
       (\<lambda>oid. if oid \<noteq> None then ret (Some name) else first_ref env path names)"

definition pending_history :: "'w env \<Rightarrow> ('w st, str option) act" where
  "pending_history env = bnd (gets record_path) (\<lambda>path. first_ref env path PENDING_HISTORY_REFS)"

definition require_no_pending_history :: "'w env \<Rightarrow> ('w st, unit) act" where
  "require_no_pending_history env =
     bnd (pending_history env) (\<lambda>pending. ensure (pending = None) (Block PROBLEM_PENDING_MERGE))"

definition require_one_new_commit :: "'w env \<Rightarrow> str \<Rightarrow> str \<Rightarrow> ('w st, unit) act" where
  "require_one_new_commit env commit_oid parent_oid =
     bnd (gets record_path)
       (\<lambda>path. bnd (lift (t_commit_parents (e_transport env) path commit_oid))
         (\<lambda>parents. ensure (parents = [parent_oid]) (Block PROBLEM_COMMIT_PARENTS)))"

definition remote_base :: "'w env \<Rightarrow> ('w st, str) act" where
  "remote_base env =
     bnd (gets d_authority)
       (\<lambda>a. bnd (lift (t_ls_remote (e_transport env) (rp_realpath (a_repository a)) (rm_name (a_remote a))
                        (bp_ref (a_target_base a))))
         (\<lambda>oid. case oid of None \<Rightarrow> throw (Block PROBLEM_BASE_REF_MISSING) | Some b \<Rightarrow> ret b))"

definition prove_disjoint_advance :: "'w env \<Rightarrow> str \<Rightarrow> str \<Rightarrow> ('w st, str) act" where
  "prove_disjoint_advance env old_oid new_oid =
     bnd (gets d_authority)
       (\<lambda>a. let path = rp_realpath (a_repository a); tr = e_transport env in
         seq (lift (t_fetch_ref tr path (rm_name (a_remote a)) (bp_ref (a_target_base a))))
         (bnd (lift (t_rev_parse tr path new_oid))
           (\<lambda>present. seq (ensure (present = Some new_oid) (Block PROBLEM_BASE_REF_MISSING))
         (bnd (lift (t_is_ancestor tr path old_oid new_oid))
           (\<lambda>ancestor. seq (ensure ancestor (Block PROBLEM_BASE_NOT_FAST_FORWARD))
         (bnd (lift (t_diff_tree_raw tr path old_oid new_oid))
           (\<lambda>raw. bnd (of_result (paths_from_raw_z raw))
           (\<lambda>changed. bnd (gets candidate_paths)
           (\<lambda>mine. seq (ensure (overlaps mine changed = []) (Block PROBLEM_BASE_OVERLAP))
             (ret (framed_digest (e_host env) (sort changed)))))))))))) "

definition RED_CONCLUSIONS :: "str list" where
  "RED_CONCLUSIONS = [''failure'', ''timed_out'', ''cancelled'', ''action_required'', ''startup_failure'']"

definition base_ci_of :: "check_run list \<Rightarrow> exn + str" where
  "base_ci_of runs =
     (if runs = [] then Inr ''none''
      else if list_ex (\<lambda>r. cr_conclusion r \<in> set (map JStr RED_CONCLUSIONS)) runs then Inl (Block PROBLEM_BASE_CI_RED)
      else if list_ex (\<lambda>r. cr_status r \<noteq> ''completed'') runs then Inr ''pending''
      else Inr ''green'')"

definition as_retry :: "('w st, 'a) act \<Rightarrow> ('w st, 'a) act" where
  "as_retry m = handle m (\<lambda>e. if e = DeliveryTransportError then throw Retry else throw e)"

definition base_ci :: "'w env \<Rightarrow> str \<Rightarrow> ('w st, str) act" where
  "base_ci env oid =
     bnd (gets (\<lambda>d. a_repository (d_authority d)))
       (\<lambda>r. bnd (as_retry (lift (t_gh_check_runs (e_transport env) (rp_owner r) (rp_repo r) oid)))
         (\<lambda>runs. of_result (base_ci_of runs)))"

definition reverify :: "'w env \<Rightarrow> ('w st, (str \<times> json) list) act" where
  "reverify env =
     bnd (gets d_authority)
       (\<lambda>a. bnd (lift (t_run_reverification (e_transport env) (a_reverification a) (rp_realpath (a_repository a))))
         (\<lambda>(code, log, truncated).
           seq (ensure (code = 0) (Block PROBLEM_REVERIFICATION_FAILED))
             (ret [(''reverification_exit_status'', JInt code),
                   (''reverification_log_sha256'', JStr (sha256_hex (e_host env) log)),
                   (''reverification_log_bytes'', JInt (int (length log))),
                   (''reverification_log_truncated'', JBool truncated)])))"

definition needs_reconcile :: "step \<Rightarrow> delivery \<Rightarrow> receipt option" where
  "needs_reconcile s d =
     (case se_receipt (d_steps d s) of
        None \<Rightarrow> None
      | Some r \<Rightarrow> if rc_state r \<in> {RECEIPT_EXECUTING, RECEIPT_FAILED_RETRYABLE} then Some r else None)"

definition binding_str :: "str \<Rightarrow> (str \<times> json) list \<Rightarrow> str" where
  "binding_str key binding = str_of (jget key (JObj binding))"

section \<open>BASE_REFRESH\<close>

definition set_current_base :: "str \<Rightarrow> pynum \<Rightarrow> delivery \<Rightarrow> delivery" where
  "set_current_base new_base now d =
     d\<lparr>d_base_state := (d_base_state d)\<lparr>bs_current := new_base, bs_refreshed_at := Some now\<rparr>\<rparr>"

definition finish_base_refresh :: "'w env \<Rightarrow> str \<Rightarrow> ('w st, unit) act" where
  "finish_base_refresh env new_base =
     bnd (live_candidate env new_base)
       (\<lambda>entries. seq (require_candidate_matches entries)
         (bnd (base_ci env new_base)
           (\<lambda>ci. bnd (reverify env)
             (\<lambda>observed. bnd (lift (e_clock env))
               (\<lambda>now. seq (alter (set_current_base new_base now))
                 (succeed env BASE_REFRESH
                    (observed @ [(''base_ci'', JStr ci), (''new_base_oid'', JStr new_base)])
                    BASE_CURRENT))))))"

definition reconcile_base_refresh :: "'w env \<Rightarrow> receipt \<Rightarrow> ('w st, unit) act" where
  "reconcile_base_refresh env r =
     bnd (gets (\<lambda>d. d))
       (\<lambda>d. let path = record_path d; old = binding_str ''old_base_oid'' (rc_binding r);
                new = binding_str ''new_base_oid'' (rc_binding r); tr = e_transport env;
                bound = cd_entries (a_candidate (d_authority d)) in
         bnd (head_oid env path)
           (\<lambda>head.
              if head = Some new then seq (mark_executing BASE_REFRESH) (finish_base_refresh env new)
              else if head \<noteq> Some old then throw (Block PROBLEM_UNEXPECTED_REF_MOVEMENT)
              else
                bnd (lift (t_diff_index_raw tr path new))
                  (\<lambda>raw_new. bnd (of_result (parse_raw_z raw_new))
                  (\<lambda>live_new.
                     if compare_candidates bound live_new = None then
                       seq (mark_executing BASE_REFRESH)
                         (seq (as_retry (lift (t_update_ref tr path (bp_ref (a_source (d_authority d))) new old)))
                           (finish_base_refresh env new))
                     else
                       bnd (lift (t_diff_index_raw tr path old))
                         (\<lambda>raw_old. bnd (of_result (parse_raw_z raw_old))
                         (\<lambda>live_old.
                            if compare_candidates bound live_old = None
                            then seq (void_step BASE_REFRESH) (persist env)
                            else throw (Block PROBLEM_CANDIDATE_IDENTITY)))))))"

definition base_refresh_binding :: "authority \<Rightarrow> str \<Rightarrow> str \<Rightarrow> str \<Rightarrow> (str \<times> json) list" where
  "base_refresh_binding a current new_base changed_digest =
     [(''repository_realpath'', JStr (rp_realpath (a_repository a))),
      (''git_dir_realpath'', JStr (rp_git_dir (a_repository a))),
      (''remote_name'', JStr (rm_name (a_remote a))),
      (''remote_url_exact'', JStr (rm_url_exact (a_remote a))),
      (''remote_url_fetch'', JStr (rm_url_fetch (a_remote a))),
      (''source_ref'', JStr (bp_ref (a_source a))),
      (''base_ref'', JStr (bp_ref (a_target_base a))),
      (''old_base_oid'', JStr current),
      (''new_base_oid'', JStr new_base),
      (''fast_forward'', JBool True),
      (''base_changed_paths_digest'', JStr changed_digest),
      (''candidate_identity_digest'', JStr (cd_digest (a_candidate a)))]"

definition base_refresh_effect :: "'w env \<Rightarrow> str \<Rightarrow> str \<Rightarrow> ('w st, unit) act" where
  "base_refresh_effect env current new_base =
     bnd (gets d_authority)
       (\<lambda>a. let path = rp_realpath (a_repository a); tr = e_transport env in
         as_retry
           (seq (lift (t_read_tree_two_way tr path current new_base))
              (lift (t_update_ref tr path (bp_ref (a_source a)) new_base current))))"

definition fresh_base_refresh :: "'w env \<Rightarrow> ('w st, unit) act" where
  "fresh_base_refresh env =
     bnd (gets (\<lambda>d. d))
       (\<lambda>d. let a = d_authority d; current = bs_current (d_base_state d) in
         bnd (head_oid env (record_path d))
           (\<lambda>head. seq (ensure (head = Some current) (Block PROBLEM_HEAD_NOT_AT_BASE))
         (bnd (live_candidate env current)
           (\<lambda>entries. seq (require_candidate_matches entries)
         (bnd (remote_base env)
           (\<lambda>new_base.
              if new_base = current then
                seq (alter (set_entry BASE_REFRESH (\<lambda>e. e\<lparr>se_state := STEP_NOT_NEEDED\<rparr>)))
                  (seq (transition env BASE_CURRENT) (persist env))
              else
                bnd (prove_disjoint_advance env current new_base)
                  (\<lambda>digest. seq (start env BASE_REFRESH (base_refresh_binding a current new_base digest))
                    (seq (base_refresh_effect env current new_base)
                      (finish_base_refresh env new_base)))))))))"

definition step_base_refresh :: "'w env \<Rightarrow> ('w st, unit) act" where
  "step_base_refresh env =
     seq (check_repository env True)
       (bnd (gets (needs_reconcile BASE_REFRESH))
         (\<lambda>pending. case pending of
            Some r \<Rightarrow> reconcile_base_refresh env r
          | None \<Rightarrow> fresh_base_refresh env))"

section \<open>COMMIT\<close>

definition approved_head :: "delivery \<Rightarrow> str" where
  "approved_head d = bl_sha (a_baseline (d_authority d))"

definition is_update :: "delivery \<Rightarrow> bool" where
  "is_update d = (a_mode (d_authority d) = PR_UPDATE)"

definition observe_commit :: "'w env \<Rightarrow> (str \<times> json) list \<Rightarrow> ('w st, unit) act" where
  "observe_commit env binding =
     bnd (gets (\<lambda>d. d))
       (\<lambda>d. let path = record_path d; before = binding_str ''head_before'' binding in
         bnd (head_oid env path)
           (\<lambda>head. bnd (commit_parent_and_tree env path head)
           (\<lambda>(parent, tree).
              seq (ensure (parent = Some before \<and> tree = Some (binding_str ''expected_tree_oid'' binding))
                     (Block PROBLEM_COMMIT_RESULT_MISMATCH))
         (seq (if is_update d then require_one_new_commit env (the head) (approved_head d) else ret ())
         (bnd (lift (t_diff_tree_raw (e_transport env) path before (the head)))
           (\<lambda>raw. bnd (of_result (parse_raw_z raw))
           (\<lambda>live. seq (require_candidate_matches live)
              (succeed env COMMIT [(''commit_oid'', JStr (the head))] COMMITTED))))))))"

definition reconcile_commit :: "'w env \<Rightarrow> receipt \<Rightarrow> ('w st, bool) act" where
  "reconcile_commit env r =
     bnd (gets (\<lambda>d. d))
       (\<lambda>d. let path = record_path d; binding = rc_binding r; before = binding_str ''head_before'' binding in
         bnd (head_oid env path)
           (\<lambda>head.
              if head = Some before then seq (void_step COMMIT) (seq (persist env) (ret False))
              else
                bnd (commit_parent_and_tree env path head)
                  (\<lambda>(parent, tree).
                     if parent = Some before \<and> tree = Some (binding_str ''expected_tree_oid'' binding) then
                       seq (if is_update d then require_one_new_commit env (the head) (approved_head d) else ret ())
                         (seq (mark_executing COMMIT) (seq (observe_commit env binding) (ret True)))
                     else throw (Block PROBLEM_UNEXPECTED_REF_MOVEMENT))))"

definition commit_binding :: "host \<Rightarrow> delivery \<Rightarrow> str \<Rightarrow> str \<Rightarrow> str \<Rightarrow> (str \<times> json) list" where
  "commit_binding h d current staged tree =
     (let a = d_authority d in
      [(''repository_realpath'', JStr (rp_realpath (a_repository a))),
       (''git_dir_realpath'', JStr (rp_git_dir (a_repository a))),
       (''branch'', JStr (bp_branch (a_source a))),
       (''source_ref'', JStr (bp_ref (a_source a))),
       (''head_before'', JStr current),
       (''staged_sha256'', JStr staged),
       (''candidate_identity_digest'', JStr (cd_digest (a_candidate a))),
       (''expected_tree_oid'', JStr tree),
       (''committer_name'', JStr (cm_name (a_committer a))),
       (''committer_email'', JStr (cm_email (a_committer a))),
       (''message_sha256'', JStr (message_digest h d))])"

text \<open>The commit, and what a refusal of it means: for an update, HEAD unmoved and a pending
  operation prove that the guard refused before the branch moved.\<close>

definition commit_effect :: "'w env \<Rightarrow> str \<Rightarrow> ('w st, unit) act" where
  "commit_effect env current =
     bnd (gets (\<lambda>d. d))
       (\<lambda>d. let path = record_path d; c = a_committer (d_authority d) in
         handle (lift (t_commit (e_transport env) path (cm_name c) (cm_email c) (revision_message d)))
           (\<lambda>e. if e \<noteq> DeliveryTransportError then throw e
              else if \<not> is_update d then throw Retry
              else bnd (head_oid env path)
                (\<lambda>head. if head \<noteq> Some current then throw Retry
                  else bnd (pending_history env)
                    (\<lambda>pending. if pending = None then throw Retry
                      else seq (void_step COMMIT) (throw (Block PROBLEM_PENDING_MERGE))))))"

definition commit_checks :: "'w env \<Rightarrow> str \<Rightarrow> ('w st, unit) act" where
  "commit_checks env current =
     bnd (gets is_update)
       (\<lambda>update. if update
          then seq (require_no_pending_history env)
                 (seq (require_pr_update_identity env current) (require_update_candidate env current))
          else bnd (live_candidate env current) require_candidate_matches)"

definition fresh_commit :: "'w env \<Rightarrow> ('w st, unit) act" where
  "fresh_commit env =
     bnd (gets (\<lambda>d. d))
       (\<lambda>d. let path = record_path d; current = bs_current (d_base_state d); tr = e_transport env in
         bnd (head_oid env path)
           (\<lambda>head. seq (ensure (head = Some current) (Block PROBLEM_HEAD_NOT_AT_BASE))
         (seq (commit_checks env current)
         (bnd (lift (t_staged_diff_sha256 tr path))
           (\<lambda>staged. seq (ensure (\<not> (is_update d \<and> Some staged \<noteq> a_staged_sha256 (d_authority d)))
                             (Block PROBLEM_STAGED_HASH_MISMATCH))
         (bnd (lift (t_write_tree tr path))
           (\<lambda>tree. let binding = commit_binding (e_host env) d current staged tree in
              seq (start env COMMIT binding)
                (seq (commit_effect env current) (observe_commit env binding)))))))))"

definition step_commit :: "'w env \<Rightarrow> ('w st, unit) act" where
  "step_commit env =
     seq (check_repository env True)
       (bnd (gets (needs_reconcile COMMIT))
         (\<lambda>pending. case pending of
            None \<Rightarrow> fresh_commit env
          | Some r \<Rightarrow> bnd (reconcile_commit env r)
              (\<lambda>settled. if settled then ret () else fresh_commit env)))"

section \<open>The base after the commit\<close>

definition record_advance :: "str \<Rightarrow> str \<Rightarrow> pynum \<Rightarrow> delivery \<Rightarrow> delivery" where
  "record_advance old_base new_base now d =
     d\<lparr>d_base_state := (d_base_state d)
        \<lparr>bs_advance := Some \<lparr>av_old = old_base, av_new = new_base, av_recorded_at = now\<rparr>,
         bs_current := new_base\<rparr>\<rparr>"

definition handle_post_commit_advance :: "'w env \<Rightarrow> str \<Rightarrow> ('w st, unit) act" where
  "handle_post_commit_advance env commit_oid =
     bnd (gets (\<lambda>d. d))
       (\<lambda>d. let path = record_path d; current = bs_current (d_base_state d) in
         bnd (remote_base env)
           (\<lambda>new_base.
              if new_base = current then ret ()
              else
                seq (handle (prove_disjoint_advance env current new_base)
                       (\<lambda>e. if e = Block PROBLEM_BASE_OVERLAP
                          then throw (Block PROBLEM_BASE_ADVANCED_OVERLAPPING_AFTER_COMMIT) else throw e))
                (bnd (lift (t_diff_tree_raw (e_transport env) path current commit_oid))
                  (\<lambda>raw. bnd (of_result (parse_raw_z raw))
                  (\<lambda>live. seq (require_candidate_matches live)
                    (seq (base_ci env new_base)
                      (bnd (lift (e_clock env))
                        (\<lambda>now. seq (alter (record_advance current new_base now)) (persist env)))))))))"

section \<open>PUSH\<close>

definition recorded_commit :: "delivery \<Rightarrow> exn + str" where
  "recorded_commit d =
     (let observed = (case se_receipt (d_steps d COMMIT) of
                        None \<Rightarrow> JNull
                      | Some r \<Rightarrow> (case rc_observed r of None \<Rightarrow> JNull | Some kvs \<Rightarrow> jget ''commit_oid'' (JObj kvs)))
      in if is_str observed \<and> py_len (str_of observed) = 40 then Inr (str_of observed)
         else Inl (Block PROBLEM_COMMIT_RESULT_MISMATCH))"

definition commit_oid :: "('w st, str) act" where
  "commit_oid = bnd (gets recorded_commit) of_result"

definition push_binding :: "authority \<Rightarrow> str \<Rightarrow> str \<Rightarrow> (str \<times> json) list" where
  "push_binding a oid expected_old =
     [(''repository_realpath'', JStr (rp_realpath (a_repository a))),
      (''remote_name'', JStr (rm_name (a_remote a))),
      (''remote_url_exact'', JStr (rm_url_exact (a_remote a))),
      (''remote_url_push'', JStr (rm_url_push (a_remote a))),
      (''source_ref'', JStr (bp_ref (a_source a))),
      (''source_commit'', JStr oid),
      (''destination_ref'', JStr (bp_ref (a_source a))),
      (''expected_remote_old_oid'', JStr expected_old),
      (''candidate_identity_digest'', JStr (cd_digest (a_candidate a)))]"

definition push_observed :: "bool \<Rightarrow> str \<Rightarrow> (str \<times> json) list" where
  "push_observed reconciled remote_oid =
     [(''reconciled'', JBool reconciled), (''remote_oid'', JStr remote_oid)]"

definition bound_remote_oid :: "'w env \<Rightarrow> (str \<times> json) list \<Rightarrow> ('w st, str option) act" where
  "bound_remote_oid env binding =
     bnd (gets record_path)
       (\<lambda>path. lift (t_ls_remote (e_transport env) path (binding_str ''remote_name'' binding)
                       (binding_str ''destination_ref'' binding)))"

definition observe_push :: "'w env \<Rightarrow> (str \<times> json) list \<Rightarrow> ('w st, unit) act" where
  "observe_push env binding =
     bnd (bound_remote_oid env binding)
       (\<lambda>oid. let source = binding_str ''source_commit'' binding in
          seq (ensure (oid = Some source) (Block PROBLEM_UNEXPECTED_REF_MOVEMENT))
            (succeed env PUSH (push_observed False source) PUSHED))"

definition reconcile_push :: "'w env \<Rightarrow> receipt \<Rightarrow> ('w st, bool) act" where
  "reconcile_push env r =
     (let binding = rc_binding r; source = binding_str ''source_commit'' binding in
      bnd (bound_remote_oid env binding)
        (\<lambda>oid.
           if oid = Some source then
             seq (mark_executing PUSH) (seq (succeed env PUSH (push_observed True source) PUSHED) (ret True))
           else if (case oid of None \<Rightarrow> ZERO_OID | Some v \<Rightarrow> if v = [] then ZERO_OID else v)
                     = binding_str ''expected_remote_old_oid'' binding then
             seq (void_step PUSH) (seq (persist env) (ret False))
           else throw (Block PROBLEM_UNEXPECTED_REF_MOVEMENT)))"

definition pr_update_push_old_oid :: "'w env \<Rightarrow> str \<Rightarrow> ('w st, str) act" where
  "pr_update_push_old_oid env oid =
     bnd (gets approved_head)
       (\<lambda>expected. seq (require_one_new_commit env oid expected)
         (seq (require_pr_update_identity env expected) (ret expected)))"

definition expected_old_oid :: "'w env \<Rightarrow> str \<Rightarrow> ('w st, str) act" where
  "expected_old_oid env oid =
     bnd (gets is_update)
       (\<lambda>update. if update then pr_update_push_old_oid env oid
          else seq (handle_post_commit_advance env oid)
            (bnd (remote_head env)
              (\<lambda>old. case old of
                 None \<Rightarrow> ret ZERO_OID
               | Some v \<Rightarrow>
                   if v = oid then ret v
                   else bnd (gets record_path)
                     (\<lambda>path. bnd (lift (t_is_ancestor (e_transport env) path v oid))
                       (\<lambda>ancestor. seq (ensure ancestor (Block PROBLEM_UNEXPECTED_REF_MOVEMENT)) (ret v))))))"

definition push_effect :: "'w env \<Rightarrow> ('w st, unit) act" where
  "push_effect env =
     bnd (gets d_authority)
       (\<lambda>a. as_retry (lift (t_push (e_transport env) (rp_realpath (a_repository a)) (rm_name (a_remote a))
                              (bp_ref (a_source a)) (bp_ref (a_source a)))))"

definition fresh_push :: "'w env \<Rightarrow> str \<Rightarrow> ('w st, unit) act" where
  "fresh_push env oid =
     bnd (gets record_path)
       (\<lambda>path. bnd (head_oid env path)
         (\<lambda>head. seq (ensure (head = Some oid) (Block PROBLEM_UNEXPECTED_REF_MOVEMENT))
         (bnd (expected_old_oid env oid)
           (\<lambda>expected_old. bnd (gets (\<lambda>d. push_binding (d_authority d) oid expected_old))
           (\<lambda>binding.
              if expected_old = oid then
                seq (start env PUSH binding) (succeed env PUSH (push_observed True oid) PUSHED)
              else
                seq (start env PUSH binding) (seq (push_effect env) (observe_push env binding)))))))"

definition step_push :: "'w env \<Rightarrow> ('w st, unit) act" where
  "step_push env =
     seq (check_repository env True)
       (bnd commit_oid
         (\<lambda>oid. bnd (gets (needs_reconcile PUSH))
           (\<lambda>pending. case pending of
              None \<Rightarrow> fresh_push env oid
            | Some r \<Rightarrow> bnd (reconcile_push env r)
                (\<lambda>settled. if settled then ret () else fresh_push env oid))))"

section \<open>PR_CREATE\<close>

text \<open>Iterating over the parsed JSON: a dictionary and a string yield no dictionaries.\<close>

definition dict_items :: "json \<Rightarrow> exn + json list" where
  "dict_items v =
     (if is_list v then Inr (filter is_obj (list_of v))
      else if is_obj v \<or> is_str v then Inr [] else Inl TypeErr)"

record pr_matches =
  pm_exact :: "json list"
  pm_other :: "json list"
  pm_exact_not_open :: "json list"

definition matching_prs :: "(json \<Rightarrow> str) \<Rightarrow> delivery \<Rightarrow> str \<Rightarrow> json list \<Rightarrow> pr_matches" where
  "matching_prs repr d head_sha items =
     (let a = d_authority d;
          same_refs = (\<lambda>i. jget ''headRefName'' i = JStr (bp_branch (a_source a))
                          \<and> jget ''baseRefName'' i = JStr (bp_branch (a_target_base a)));
          is_open = (\<lambda>i. lower (py_str repr (jget ''state'' i)) = ''open'');
          at_head = (\<lambda>i. jget ''headRefOid'' i = JStr head_sha);
          found = filter same_refs items in
      \<lparr>pm_exact = filter (\<lambda>i. at_head i \<and> is_open i) found,
       pm_other = filter (\<lambda>i. \<not> at_head i \<and> is_open i) found,
       pm_exact_not_open = filter (\<lambda>i. at_head i \<and> \<not> is_open i) found\<rparr>)"

definition disposition_of :: "pr_matches \<Rightarrow> exn + json option" where
  "disposition_of m =
     (if pm_exact_not_open m \<noteq> [] then Inl (Block PROBLEM_PR_NOT_OPEN)
      else if length (pm_exact m) = 1 \<and> pm_other m = [] then Inr (Some (hd (pm_exact m)))
      else if pm_exact m \<noteq> [] \<or> pm_other m \<noteq> [] then Inl (Block PROBLEM_PR_AMBIGUOUS)
      else Inr None)"

definition pr_disposition :: "'w env \<Rightarrow> str \<Rightarrow> ('w st, json option) act" where
  "pr_disposition env head_sha =
     bnd (gets (\<lambda>d. d))
       (\<lambda>d. let a = d_authority d in
         bnd (lift (t_gh_pr_list (e_transport env) (rp_owner (a_repository a)) (rp_repo (a_repository a))
                      (bp_branch (a_source a)) (bp_branch (a_target_base a))))
           (\<lambda>listed. bnd (of_result (dict_items listed))
             (\<lambda>items. of_result (disposition_of (matching_prs (e_repr env) d head_sha items)))))"

definition pull_request_of :: "(json \<Rightarrow> str) \<Rightarrow> delivery \<Rightarrow> json \<Rightarrow> exn + pull_request" where
  "pull_request_of repr d item =
     (case canonicalize_target_url (py_str repr (jget ''url'' item)) of
        Inl _ \<Rightarrow> Inl (Block PROBLEM_PR_RESULT_MISMATCH)
      | Inr target \<Rightarrow>
          if ct_kind target \<noteq> Some KIND_PR then Inl (Block PROBLEM_PR_RESULT_MISMATCH)
          else sbind (canonicalize_repository_url (rp_url (a_repository (d_authority d))))
            (\<lambda>repository.
               if \<not> same_repository_identity target repository then Inl (Block PROBLEM_PR_RESULT_MISMATCH)
               else Inr \<lparr>pq_number = (case ct_number target of Some n \<Rightarrow> int n | None \<Rightarrow> 0),
                         pq_url = ct_canonical_url target,
                         pq_head_sha = py_str repr (jget ''headRefOid'' item),
                         pq_base_ref = bp_ref (a_target_base (d_authority d))\<rparr>))"

definition record_pull_request :: "'w env \<Rightarrow> json \<Rightarrow> ('w st, pull_request) act" where
  "record_pull_request env item =
     bnd (gets (\<lambda>d. pull_request_of (e_repr env) d item))
       (\<lambda>r. bnd (of_result r)
         (\<lambda>pr. seq (alter (\<lambda>d. d\<lparr>d_pull_request := Some pr\<rparr>)) (ret pr)))"

text \<open>\<open>int(v)\<close>.\<close>

definition py_int_str :: "str \<Rightarrow> exn + int" where
  "py_int_str s =
     (let t = strip s;
          negative = starts_with t ''-'';
          body = (if negative \<or> starts_with t ''+'' then drop 1 t else t);
          groups = split_on (CHR ''_'') body in
      if list_all (\<lambda>g. g \<noteq> [] \<and> list_all is_digit g) groups
      then Inr ((if negative then -1 else 1) * int (nat_of_digits 0 (concat groups)))
      else Inl ValueErr)"

fun py_int :: "json \<Rightarrow> exn + int" where
  "py_int (JNum (PInt i)) = Inr i"
| "py_int (JBool b) = Inr (if b then 1 else 0)"
| "py_int (JNum (PFloat (Finite r))) = Inr (if r < 0 then - \<lfloor>- r\<rfloor> else \<lfloor>r\<rfloor>)"
| "py_int (JNum (PFloat NaN)) = Inl ValueErr"
| "py_int (JNum (PFloat _)) = Inl OverflowErr"
| "py_int (JStr s) = py_int_str s"
| "py_int _ = Inl TypeErr"

definition adopted_binding_ok :: "delivery \<Rightarrow> json \<Rightarrow> bool" where
  "adopted_binding_ok d viewed \<longleftrightarrow>
     (case se_receipt (d_steps d PR_CREATE) of
        None \<Rightarrow> False
      | Some r \<Rightarrow>
          jget ''headRefOid'' viewed = jget ''head_sha'' (JObj (rc_binding r))
          \<and> jget ''baseRefName'' viewed = jget ''base_branch'' (JObj (rc_binding r))
          \<and> jget ''headRefName'' viewed = jget ''head_branch'' (JObj (rc_binding r)))"

definition complete_delivery :: "'w env \<Rightarrow> ('w st, unit) act" where
  "complete_delivery env = seq (transition env COMPLETE) (persist env)"

definition adopt_pr :: "'w env \<Rightarrow> json \<Rightarrow> bool \<Rightarrow> ('w st, unit) act" where
  "adopt_pr env item reconciled =
     bnd (of_result (py_int (jget ''number'' item)))
       (\<lambda>number. bnd (view_pull_request env number)
         (\<lambda>viewed. seq (ensure (is_obj viewed) AttributeErr)
         (bnd (gets (\<lambda>d. adopted_binding_ok d viewed))
           (\<lambda>ok. seq (ensure ok (Block PROBLEM_PR_RESULT_MISMATCH))
         (bnd (record_pull_request env viewed)
           (\<lambda>pr. seq (succeed env PR_CREATE
                        [(''reconciled'', JBool reconciled), (''number'', JInt (pq_number pr)),
                         (''url'', JStr (pq_url pr))] PR_OPENED)
              (complete_delivery env)))))))"

definition reconcile_pr_create :: "'w env \<Rightarrow> receipt \<Rightarrow> ('w st, bool) act" where
  "reconcile_pr_create env r =
     bnd (pr_disposition env (binding_str ''head_sha'' (rc_binding r)))
       (\<lambda>existing. case existing of
          Some item \<Rightarrow> seq (mark_executing PR_CREATE) (seq (adopt_pr env item True) (ret True))
        | None \<Rightarrow> seq (void_step PR_CREATE) (seq (persist env) (ret False)))"

definition pr_create_binding :: "host \<Rightarrow> delivery \<Rightarrow> str \<Rightarrow> exn + (str \<times> json) list" where
  "pr_create_binding h d head_sha =
     (let a = d_authority d in
      sbind (body_digest h d)
        (\<lambda>body_sha. Inr
           [(''owner'', JStr (rp_owner (a_repository a))),
            (''repo'', JStr (rp_repo (a_repository a))),
            (''remote_url_exact'', JStr (rm_url_exact (a_remote a))),
            (''head_branch'', JStr (bp_branch (a_source a))),
            (''head_sha'', JStr head_sha),
            (''base_branch'', JStr (bp_branch (a_target_base a))),
            (''title_sha256'', JStr (title_digest h d)),
            (''body_sha256'', JStr body_sha),
            (''candidate_identity_digest'', JStr (cd_digest (a_candidate a)))]))"

definition pr_create_effect :: "'w env \<Rightarrow> ('w st, unit) act" where
  "pr_create_effect env =
     bnd (gets (\<lambda>d. d))
       (\<lambda>d. let a = d_authority d in
         bnd (of_result (pr_body d))
           (\<lambda>body. seq
              (as_retry (lift (t_gh_pr_create (e_transport env) (rp_owner (a_repository a)) (rp_repo (a_repository a))
                   (bp_branch (a_source a)) (bp_branch (a_target_base a)) (pr_title d) body)))
              (ret ())))"

definition fresh_pr_create :: "'w env \<Rightarrow> str \<Rightarrow> ('w st, unit) act" where
  "fresh_pr_create env head_sha =
     seq (handle_post_commit_advance env head_sha)
       (bnd (remote_head env)
         (\<lambda>oid. seq (ensure (oid = Some head_sha) (Block PROBLEM_UNEXPECTED_REF_MOVEMENT))
         (bnd (gets (\<lambda>d. pr_create_binding (e_host env) d head_sha))
           (\<lambda>b. bnd (of_result b)
           (\<lambda>binding. seq (start env PR_CREATE binding)
         (bnd (pr_disposition env head_sha)
           (\<lambda>existing. case existing of
              Some item \<Rightarrow> adopt_pr env item True
            | None \<Rightarrow>
                seq (pr_create_effect env)
                  (bnd (pr_disposition env head_sha)
                    (\<lambda>created. case created of
                       None \<Rightarrow> throw (Block PROBLEM_PR_RESULT_MISMATCH)
                     | Some item \<Rightarrow> adopt_pr env item False)))))))))"

definition step_pr_create :: "'w env \<Rightarrow> ('w st, unit) act" where
  "step_pr_create env =
     seq (check_repository env False)
       (bnd commit_oid
         (\<lambda>head_sha. bnd (gets (needs_reconcile PR_CREATE))
           (\<lambda>pending. case pending of
              None \<Rightarrow> fresh_pr_create env head_sha
            | Some r \<Rightarrow> bnd (reconcile_pr_create env r)
                (\<lambda>settled. if settled then ret () else fresh_pr_create env head_sha))))"

section \<open>The observation that ends an update\<close>

definition observe_pr_update :: "'w env \<Rightarrow> ('w st, unit) act" where
  "observe_pr_update env =
     seq (check_repository env False)
       (bnd commit_oid
         (\<lambda>oid. bnd (remote_head env)
         (\<lambda>remote. seq (ensure (remote = Some oid) (Block PROBLEM_UNEXPECTED_REF_MOVEMENT))
         (bnd (gets update_number)
           (\<lambda>number. bnd (view_pull_request env number)
           (\<lambda>viewed. bnd (gets (\<lambda>d. (identity_problem viewed oid d, approved_head d)))
           (\<lambda>(problem, approved).
              if problem = Some PROBLEM_PR_HEAD_DRIFT \<and> jget ''headRefOid'' viewed = JStr approved
              then throw Retry
              else (case problem of
                 Some p \<Rightarrow> throw (Block p)
               | None \<Rightarrow> seq (record_pull_request env viewed) (complete_delivery env)))))))))"

section \<open>The public drive\<close>

definition run_step :: "'w env \<Rightarrow> step option \<Rightarrow> ('w st, unit) act" where
  "run_step env s =
     (case s of
        None \<Rightarrow> observe_pr_update env
      | Some BASE_REFRESH \<Rightarrow> step_base_refresh env
      | Some COMMIT \<Rightarrow> step_commit env
      | Some PUSH \<Rightarrow> step_push env
      | Some PR_CREATE \<Rightarrow> step_pr_create env)"

definition revoked_outcome :: "'w env \<Rightarrow> pynum \<Rightarrow> ('w st, outcome) act" where
  "revoked_outcome env now = seq (transition_at REVOKED now) (seq (persist env) (ret OUTCOME_REVOKED))"

definition settle_failure :: "'w env \<Rightarrow> step option \<Rightarrow> exn \<Rightarrow> ('w st, outcome) act" where
  "settle_failure env s e =
     (case e of
        Block p \<Rightarrow> seq (block_record env p) (ret OUTCOME_BLOCKED)
      | Retry \<Rightarrow> seq (retry_record env s) (ret OUTCOME_RETRY)
      | ReceiptError p \<Rightarrow>
          if p = PROBLEM_REVOKED then bnd (lift (e_clock env)) (revoked_outcome env)
          else seq (block_record env p) (ret OUTCOME_BLOCKED)
      | CandidateError p \<Rightarrow> seq (block_record env p) (ret OUTCOME_BLOCKED)
      | DeliveryTransportError \<Rightarrow> seq (retry_record env s) (ret OUTCOME_RETRY)
      | _ \<Rightarrow> throw e)"

definition drive_step :: "'w env \<Rightarrow> step option \<Rightarrow> ('w st, outcome) act" where
  "drive_step env s =
     handle
       (seq (run_step env s)
          (gets (\<lambda>d. if d_phase d = REVOKED then OUTCOME_REVOKED else OUTCOME_ADVANCED)))
       (settle_failure env s)"

definition advance_loaded :: "'w env \<Rightarrow> pynum \<Rightarrow> ('w st, outcome) act" where
  "advance_loaded env now =
     bnd (gets (\<lambda>d. d))
       (\<lambda>d. if d_phase d \<in> set TERMINAL_PHASES
            then ret (if d_phase d = COMPLETE then OUTCOME_COMPLETE else OUTCOME_BLOCKED)
          else if is_revoked d then revoked_outcome env now
          else if is_expired d now then seq (block_record env PROBLEM_EXPIRED) (ret OUTCOME_BLOCKED)
          else drive_step env (step_for_phase (a_mode (d_authority d)) (d_phase d)))"

definition advance_once :: "'w env \<Rightarrow> str \<Rightarrow> json option \<Rightarrow> ('w sys, outcome) act" where
  "advance_once env delivery_id expected =
     bnd (m_load (e_host env) delivery_id)
       (\<lambda>d. seq (of_check (case expected of None \<Rightarrow> None | Some e \<Rightarrow> require_expected_step d e))
         (bnd (e_clock env) (\<lambda>now. on_record d (advance_loaded env now))))"

text \<open>The loop of \<open>advance\<close>, with fuel.\<close>

definition advance :: "'w env \<Rightarrow> nat \<Rightarrow> str \<Rightarrow> 'w sys \<Rightarrow> ((exn + outcome) \<times> 'w sys) option" where
  "advance env n delivery_id =
     repeat_until n (\<lambda>r. r \<noteq> OUTCOME_ADVANCED) (advance_once env delivery_id None)"

end
