(* ===== verification/MachineInvariants.thy ===== *)
theory MachineInvariants
  imports Machine Lookup
begin

text \<open>
  What every action of the machine keeps. The locale \<open>record_invariant\<close> is the contract
  between the machine and its surroundings: an invariant \<open>K\<close> of the system that the
  clock, the token source and every transport call keep and that storing a record keeps,
  and an invariant \<open>W\<close> of the working copy that the machine's updates keep. Inside it,
  every step keeps both.
\<close>

section \<open>Computations over the machine's state\<close>

lemma lift_eq: "lift m s = (case m (ssys s) of (r, t) \<Rightarrow> (r, s\<lparr>ssys := t\<rparr>))"
  by (simp add: lift_def)

lemma gets_eq [simp]: "gets f s = (Inr (f (working s)), s)"
  by (simp add: gets_def)

lemma alter_eq [simp]: "alter f s = (Inr (), s\<lparr>working := f (working s)\<rparr>)"
  by (simp add: alter_def)

lemma lift_Inr: "lift m s = (Inr a, t) \<longleftrightarrow> (\<exists>u. m (ssys s) = (Inr a, u) \<and> t = s\<lparr>ssys := u\<rparr>)"
  by (auto simp: lift_def split: prod.splits)

lemma on_record_Inr:
  "on_record d m s = (r, t) \<longleftrightarrow> (\<exists>u. m \<lparr>working = d, ssys = s\<rparr> = (r, u) \<and> t = ssys u)"
  by (auto simp: on_record_def split: prod.splits)

section \<open>The stored record\<close>

definition stored :: "host \<Rightarrow> str \<Rightarrow> stored_file \<Rightarrow> delivery option" where
  "stored h i f =
     (case store_load h f of
        Inl _ \<Rightarrow> None
      | Inr document \<Rightarrow> map_option delivery_of_json (map_of (deliveries_of document) i))"

definition replace_record :: "host \<Rightarrow> delivery \<Rightarrow> stored_file \<Rightarrow> exn + stored_file" where
  "replace_record h d f = sbind (store_load h f) (\<lambda>document. store_save h (put_record d document))"

lemma store_record_eq:
  "store_record h d s = (case replace_record h d (disk s) of
     Inl e \<Rightarrow> (Inl e, s) | Inr f \<Rightarrow> (Inr (), s\<lparr>disk := f\<rparr>))"
  by (simp add: store_record_def replace_record_def bnd_eq load_document_def save_document_def sbind_def
      split: sum.splits)

lemma m_load_Inr: "m_load h i s = (Inr d, t) \<longleftrightarrow> stored h i (disk s) = Some d \<and> t = s"
  by (auto simp: m_load_def bnd_eq load_document_def stored_def split: sum.splits option.splits)

lemma m_load_state [simp]: "snd (m_load h i s) = s"
  by (auto simp: m_load_def bnd_eq load_document_def split: sum.splits option.splits)

text \<open>The interface of a store of records: a record that was put is the one looked up, the
  others stay. That the last writer wins follows.\<close>

locale record_store =
  fixes look :: "'k \<Rightarrow> 'f \<Rightarrow> 'r option"
    and put :: "'r \<Rightarrow> 'f \<Rightarrow> exn + 'f"
    and key :: "'r \<Rightarrow> 'k"
  assumes look_put: "put r f = Inr g \<Longrightarrow> look (key r) g = Some r"
    and look_other: "put r f = Inr g \<Longrightarrow> k \<noteq> key r \<Longrightarrow> look k g = look k f"
begin

lemma last_writer_wins:
  "put a f = Inr g \<Longrightarrow> put b g = Inr j \<Longrightarrow> key b = key a \<Longrightarrow> look (key a) j = Some b"
  by (metis look_put)

lemma put_both:
  "put a f = Inr g \<Longrightarrow> put b g = Inr j \<Longrightarrow> key b \<noteq> key a
   \<Longrightarrow> look (key a) j = Some a \<and> look (key b) j = Some b"
  by (metis look_put look_other)

end

interpretation rs: record_store "stored h" "replace_record h" record_id for h
proof (unfold_locales, goal_cases)
  case (1 r f g)
  then obtain document where "store_save h (put_record r document) = Inr g"
    by (auto simp: replace_record_def sbind_Inr_iff)
  from ds.load_save [OF this] show ?case by (simp add: stored_def put_record_def)
next
  case (2 r f g k)
  then obtain document where *: "store_load h f = Inr document" "store_save h (put_record r document) = Inr g"
    by (auto simp: replace_record_def sbind_Inr_iff)
  from ds.load_save [OF *(2)] * 2 show ?case by (simp add: stored_def put_record_def)
qed

lemma store_record_Inr:
  "store_record h d s = (Inr x, t) \<longleftrightarrow> (\<exists>f. replace_record h d (disk s) = Inr f \<and> t = s\<lparr>disk := f\<rparr>)"
  by (auto simp: store_record_eq split: sum.splits)

section \<open>The contract\<close>

definition transport_preserves :: "('s \<Rightarrow> bool) \<Rightarrow> 's transport \<Rightarrow> bool" where
  "transport_preserves K tr \<longleftrightarrow>
     (\<forall>p. preserves K (t_toplevel tr p)) \<and> (\<forall>p. preserves K (t_git_dir tr p))
     \<and> (\<forall>p x. preserves K (t_rev_parse tr p x)) \<and> (\<forall>p. preserves K (t_symbolic_ref_head tr p))
     \<and> (\<forall>p n. preserves K (t_config_get tr p n)) \<and> (\<forall>p n. preserves K (t_remote_url tr p n)) \<and> (\<forall>p n. preserves K (t_remote_fetch_url tr p n))
     \<and> (\<forall>p n. preserves K (t_remote_push_url tr p n)) \<and> (\<forall>p. preserves K (t_status_porcelain tr p))
     \<and> (\<forall>p. preserves K (t_worktree_status_z tr p)) \<and> (\<forall>p o1. preserves K (t_diff_index_raw tr p o1))
     \<and> (\<forall>p o1 o2. preserves K (t_diff_tree_raw tr p o1 o2)) \<and> (\<forall>p. preserves K (t_staged_diff_sha256 tr p))
     \<and> (\<forall>p. preserves K (t_write_tree tr p)) \<and> (\<forall>p o1. preserves K (t_commit_parents tr p o1))
     \<and> (\<forall>p n r. preserves K (t_ls_remote tr p n r)) \<and> (\<forall>p o1 o2. preserves K (t_is_ancestor tr p o1 o2))
     \<and> (\<forall>p n r. preserves K (t_fetch_ref tr p n r)) \<and> (\<forall>p o1 o2. preserves K (t_read_tree_two_way tr p o1 o2))
     \<and> (\<forall>p r o1 o2. preserves K (t_update_ref tr p r o1 o2)) \<and> (\<forall>p n e m. preserves K (t_commit tr p n e m))
     \<and> (\<forall>p n a b. preserves K (t_push tr p n a b)) \<and> (\<forall>a p. preserves K (t_run_reverification tr a p))
     \<and> (\<forall>a b c d. preserves K (t_gh_pr_list tr a b c d)) \<and> (\<forall>a b c d e f. preserves K (t_gh_pr_create tr a b c d e f))
     \<and> (\<forall>a b n. preserves K (t_gh_pr_view tr a b n)) \<and> (\<forall>a b s. preserves K (t_gh_check_runs tr a b s))"

lemma transport_callsD:
  assumes "transport_preserves K tr"
  shows
  "preserves K (t_toplevel tr p)" "preserves K (t_git_dir tr p)"
  "preserves K (t_rev_parse tr p x)" "preserves K (t_symbolic_ref_head tr p)"
  "preserves K (t_config_get tr p x)" "preserves K (t_remote_url tr p x)" "preserves K (t_remote_fetch_url tr p x)"
  "preserves K (t_remote_push_url tr p x)" "preserves K (t_status_porcelain tr p)"
  "preserves K (t_worktree_status_z tr p)" "preserves K (t_diff_index_raw tr p x)"
  "preserves K (t_diff_tree_raw tr p x y)" "preserves K (t_staged_diff_sha256 tr p)"
  "preserves K (t_write_tree tr p)" "preserves K (t_commit_parents tr p x)"
  "preserves K (t_ls_remote tr p x y)" "preserves K (t_is_ancestor tr p x y)"
  "preserves K (t_fetch_ref tr p x y)" "preserves K (t_read_tree_two_way tr p x y)"
  "preserves K (t_update_ref tr p x y z)" "preserves K (t_commit tr p x y z)"
  "preserves K (t_push tr p x y z)" "preserves K (t_run_reverification tr argv p)"
  "preserves K (t_gh_pr_list tr p x y z)" "preserves K (t_gh_pr_create tr p x y z u v)"
  "preserves K (t_gh_pr_view tr p x number)" "preserves K (t_gh_check_runs tr p x y)"
  using assms by (simp_all add: transport_preserves_def)

definition surroundings_preserve :: "('w sys \<Rightarrow> bool) \<Rightarrow> 'w env \<Rightarrow> bool" where
  "surroundings_preserve K env \<longleftrightarrow>
     preserves K (e_clock env) \<and> preserves K (e_token env) \<and> transport_preserves K (e_transport env)"

definition holds :: "(delivery \<Rightarrow> bool) \<Rightarrow> ('w sys \<Rightarrow> bool) \<Rightarrow> 'w st \<Rightarrow> bool" where
  "holds W K s \<longleftrightarrow> W (working s) \<and> K (ssys s)"

text \<open>An update of a step's entry that forgets no voided receipt.\<close>

definition keeps_voided :: "(step_entry \<Rightarrow> step_entry) \<Rightarrow> bool" where
  "keeps_voided f \<longleftrightarrow> (\<forall>e. \<exists>vs. se_voided (f e) = se_voided e @ vs)"

lemma keeps_voided_updates:
  "keeps_voided void_entry" "keeps_voided (start_entry r)" "keeps_voided (retry_entry detail)"
  "keeps_voided (succeed_entry observed)"
  "keeps_voided (\<lambda>e. e\<lparr>se_state := x\<rparr>)"
  "keeps_voided (\<lambda>e. if se_state e \<noteq> y then e\<lparr>se_state := x\<rparr> else e)"
  "keeps_voided (\<lambda>e. e\<lparr>se_receipt := f (se_receipt e)\<rparr>)"
  by (auto simp: keeps_voided_def void_entry_def start_entry_def retry_entry_def succeed_entry_def Let_def
      split: option.splits)

locale record_invariant =
  fixes env :: "'w env" and K :: "'w sys \<Rightarrow> bool" and W :: "delivery \<Rightarrow> bool"
  assumes surroundings: "surroundings_preserve K env"
    and store: "W d \<Longrightarrow> preserves K (store_record (e_host env) d)"
    and W_time: "W d \<Longrightarrow> W (d\<lparr>d_updated_at := n\<rparr>)"
    and W_entry: "W d \<Longrightarrow> keeps_voided f \<Longrightarrow> W (set_entry s f d)"
    and W_base: "W d \<Longrightarrow> W (d\<lparr>d_base_state := b\<rparr>)"
    and W_revocation: "W d \<Longrightarrow> W (d\<lparr>d_revocation := r\<rparr>)"
    and W_blocker: "W d \<Longrightarrow> W (d\<lparr>d_blocker := x\<rparr>)"
    and W_pull: "W d \<Longrightarrow> W (d\<lparr>d_pull_request := y\<rparr>)"
    and W_transition: "W d \<Longrightarrow> apply_transition d p n = Inr e \<Longrightarrow> W e"
begin

abbreviation inv :: "'w st \<Rightarrow> bool" where
  "inv \<equiv> holds W K"

lemma transport_K: "transport_preserves K (e_transport env)"
  using surroundings by (simp add: surroundings_preserve_def)

lemmas transport_calls = transport_callsD [OF transport_K]

lemma clock_token: "preserves K (e_clock env)" "preserves K (e_token env)"
  using surroundings by (simp_all add: surroundings_preserve_def)

lemma lift_inv: "preserves K m \<Longrightarrow> preserves inv (lift m)"
  by (auto simp: preserves_def lift_def holds_def split: prod.splits)

lemma gets_inv: "preserves inv (gets f)"
  by (simp add: preserves_def)

lemma alter_inv: "(\<And>d. W d \<Longrightarrow> W (f d)) \<Longrightarrow> preserves inv (alter f)"
  by (simp add: preserves_def holds_def)

lemma set_entry_inv: "keeps_voided f \<Longrightarrow> preserves inv (alter (set_entry s f))"
  by (intro alter_inv W_entry)

lemma m_load_K: "preserves K (m_load h i)"
  by (simp add: preserves_def)

lemma gets_bnd_inv:
  "(\<And>d. W d \<Longrightarrow> preserves inv (k (f d))) \<Longrightarrow> preserves inv (bnd (gets f) k)"
  by (auto simp: preserves_def bnd_def holds_def)

lemmas inv_rules = preserves_bnd preserves_seq preserves_handle preserves_if preserves_case_option
  preserves_case_sum preserves_case_prod preserves_basic gets_inv lift_inv transport_calls clock_token
  m_load_K set_entry_inv keeps_voided_updates

lemma persist_inv: "preserves inv (persist env)"
  unfolding persist_def
  by (intro inv_rules alter_inv gets_bnd_inv store W_time) auto

lemma refresh_inv: "preserves inv (refresh env)"
  unfolding refresh_def by (intro inv_rules alter_inv W_revocation) auto

lemma transition_at_inv: "preserves inv (transition_at p now)"
proof -
  have "preserves inv (bnd (of_result r) (\<lambda>d. alter (\<lambda>_. d)))"
    if "\<And>e. r = Inr e \<Longrightarrow> W e" for r
    using that by (cases r) (auto simp: preserves_def bnd_def holds_def)
  then show ?thesis
    unfolding transition_at_def by (intro gets_bnd_inv) (metis W_transition)
qed

lemma transition_inv: "preserves inv (transition env p)"
  unfolding transition_def by (intro inv_rules transition_at_inv)

lemma void_inv: "preserves inv (void_step s)"
  unfolding void_step_def by (intro inv_rules)

lemma mark_inv: "preserves inv (mark_executing s)"
  unfolding mark_executing_def by (intro inv_rules)

lemma start_inv: "preserves inv (start env s binding)"
  unfolding start_def by (intro inv_rules persist_inv refresh_inv void_inv)

lemma succeed_inv: "preserves inv (succeed env s observed p)"
  unfolding succeed_def by (intro inv_rules persist_inv transition_inv)

lemma block_step_W: "W d \<Longrightarrow> W (block_step d)"
  unfolding block_step_def by (auto split: option.splits intro!: W_entry keeps_voided_updates)

lemma block_inv: "preserves inv (block_record env p)"
  unfolding block_record_def
  by (intro inv_rules persist_inv transition_at_inv alter_inv block_step_W W_blocker) auto

lemma retry_inv: "preserves inv (retry_record env s)"
  unfolding retry_record_def
  by (cases s) (auto intro!: inv_rules persist_inv alter_inv W_blocker W_entry)

lemmas core_inv = persist_inv refresh_inv transition_at_inv transition_inv void_inv mark_inv start_inv
  succeed_inv block_inv retry_inv

text \<open>The checks of live facts.\<close>

lemma as_retry_inv: "preserves inv m \<Longrightarrow> preserves inv (as_retry m)"
  unfolding as_retry_def by (intro inv_rules)

lemma first_ref_inv: "preserves inv (first_ref env path names)"
proof (induction names)
  case Nil
  show ?case unfolding first_ref.simps by (intro inv_rules)
next
  case (Cons name names)
  then show ?case unfolding first_ref.simps by (intro inv_rules)
qed

lemma parent_tree_inv: "preserves inv (commit_parent_and_tree env path oid)"
  unfolding commit_parent_and_tree_def by (intro inv_rules)

lemma head_inv: "preserves inv (head_oid env path)"
  unfolding head_oid_def by (intro inv_rules)

lemma check_repository_inv: "preserves inv (check_repository env b)"
  unfolding check_repository_def Let_def by (intro inv_rules)

lemma matches_inv: "preserves inv (require_candidate_matches entries)"
  unfolding require_candidate_matches_def by (intro inv_rules)

lemma live_candidate_inv: "preserves inv (live_candidate env base)"
  unfolding live_candidate_def by (intro inv_rules)

lemma update_candidate_inv: "preserves inv (require_update_candidate env base)"
  unfolding require_update_candidate_def by (intro inv_rules matches_inv)

lemma view_inv: "preserves inv (view_pull_request env n)"
  unfolding view_pull_request_def by (intro inv_rules)

lemma remote_head_inv: "preserves inv (remote_head env)"
  unfolding remote_head_def by (intro inv_rules)

lemma identity_inv: "preserves inv (require_pr_update_identity env h)"
  unfolding require_pr_update_identity_def by (intro inv_rules view_inv remote_head_inv)

lemma pending_inv: "preserves inv (pending_history env)"
  unfolding pending_history_def by (intro inv_rules first_ref_inv)

lemma no_pending_inv: "preserves inv (require_no_pending_history env)"
  unfolding require_no_pending_history_def by (intro inv_rules pending_inv)

lemma one_commit_inv: "preserves inv (require_one_new_commit env c p)"
  unfolding require_one_new_commit_def by (intro inv_rules)

lemma remote_base_inv: "preserves inv (remote_base env)"
  unfolding remote_base_def by (intro inv_rules)

lemma disjoint_inv: "preserves inv (prove_disjoint_advance env a b)"
  unfolding prove_disjoint_advance_def Let_def by (intro inv_rules)

lemma base_ci_inv: "preserves inv (base_ci env oid)"
  unfolding base_ci_def by (intro inv_rules as_retry_inv)

lemma reverify_inv: "preserves inv (reverify env)"
  unfolding reverify_def by (intro inv_rules)

lemma commit_oid_inv: "preserves inv commit_oid"
  unfolding commit_oid_def by (intro inv_rules)

lemmas fact_inv = as_retry_inv first_ref_inv parent_tree_inv head_inv check_repository_inv matches_inv
  live_candidate_inv update_candidate_inv view_inv remote_head_inv identity_inv pending_inv no_pending_inv
  one_commit_inv remote_base_inv disjoint_inv base_ci_inv reverify_inv commit_oid_inv

text \<open>The steps.\<close>

lemma finish_base_refresh_inv: "preserves inv (finish_base_refresh env b)"
  unfolding finish_base_refresh_def set_current_base_def
  by (intro inv_rules fact_inv core_inv alter_inv W_base)

lemma reconcile_base_refresh_inv: "preserves inv (reconcile_base_refresh env r)"
  unfolding reconcile_base_refresh_def Let_def
  by (intro inv_rules fact_inv core_inv finish_base_refresh_inv)

lemma step_base_refresh_inv: "preserves inv (step_base_refresh env)"
  unfolding step_base_refresh_def fresh_base_refresh_def base_refresh_effect_def Let_def
  by (intro inv_rules fact_inv core_inv finish_base_refresh_inv reconcile_base_refresh_inv)

lemma observe_commit_inv: "preserves inv (observe_commit env b)"
  unfolding observe_commit_def Let_def by (intro inv_rules fact_inv core_inv)

lemma reconcile_commit_inv: "preserves inv (reconcile_commit env r)"
  unfolding reconcile_commit_def Let_def by (intro inv_rules fact_inv core_inv observe_commit_inv)

lemma commit_effect_inv: "preserves inv (commit_effect env current)"
  unfolding commit_effect_def Let_def by (intro inv_rules fact_inv core_inv)

lemma fresh_commit_inv: "preserves inv (fresh_commit env)"
  unfolding fresh_commit_def commit_checks_def Let_def
  by (intro inv_rules fact_inv core_inv observe_commit_inv commit_effect_inv)

lemma step_commit_inv: "preserves inv (step_commit env)"
  unfolding step_commit_def by (intro inv_rules fact_inv reconcile_commit_inv fresh_commit_inv)

lemma post_commit_inv: "preserves inv (handle_post_commit_advance env oid)"
  unfolding handle_post_commit_advance_def record_advance_def Let_def
  by (intro inv_rules fact_inv core_inv alter_inv W_base)

lemma bound_remote_inv: "preserves inv (bound_remote_oid env b)"
  unfolding bound_remote_oid_def by (intro inv_rules)

lemma observe_push_inv: "preserves inv (observe_push env b)"
  unfolding observe_push_def Let_def by (intro inv_rules bound_remote_inv core_inv)

lemma reconcile_push_inv: "preserves inv (reconcile_push env r)"
  unfolding reconcile_push_def Let_def by (intro inv_rules bound_remote_inv core_inv)

lemma expected_old_inv: "preserves inv (expected_old_oid env oid)"
  unfolding expected_old_oid_def pr_update_push_old_oid_def by (intro inv_rules fact_inv post_commit_inv)

lemma push_effect_inv: "preserves inv (push_effect env)"
  unfolding push_effect_def by (intro inv_rules fact_inv)

lemma fresh_push_inv: "preserves inv (fresh_push env oid)"
  unfolding fresh_push_def
  by (intro inv_rules fact_inv core_inv expected_old_inv push_effect_inv observe_push_inv)

lemma step_push_inv: "preserves inv (step_push env)"
  unfolding step_push_def by (intro inv_rules fact_inv reconcile_push_inv fresh_push_inv)

lemma disposition_inv: "preserves inv (pr_disposition env h)"
  unfolding pr_disposition_def Let_def by (intro inv_rules)

lemma record_pull_inv: "preserves inv (record_pull_request env item)"
  unfolding record_pull_request_def by (intro inv_rules alter_inv W_pull)

lemma complete_inv: "preserves inv (complete_delivery env)"
  unfolding complete_delivery_def by (intro inv_rules core_inv)

lemma adopt_inv: "preserves inv (adopt_pr env item b)"
  unfolding adopt_pr_def by (intro inv_rules fact_inv core_inv record_pull_inv complete_inv)

lemma reconcile_pr_create_inv: "preserves inv (reconcile_pr_create env r)"
  unfolding reconcile_pr_create_def by (intro inv_rules disposition_inv core_inv adopt_inv)

lemma pr_create_effect_inv: "preserves inv (pr_create_effect env)"
  unfolding pr_create_effect_def Let_def by (intro inv_rules fact_inv)

lemma fresh_pr_create_inv: "preserves inv (fresh_pr_create env h)"
  unfolding fresh_pr_create_def
  by (intro inv_rules fact_inv core_inv post_commit_inv disposition_inv adopt_inv pr_create_effect_inv)

lemma step_pr_create_inv: "preserves inv (step_pr_create env)"
  unfolding step_pr_create_def by (intro inv_rules fact_inv reconcile_pr_create_inv fresh_pr_create_inv)

lemma observe_pr_update_inv: "preserves inv (observe_pr_update env)"
  unfolding observe_pr_update_def by (intro inv_rules fact_inv record_pull_inv complete_inv)

text \<open>The drive.\<close>

lemma run_step_inv: "preserves inv (run_step env s)"
  by (cases s; cases "the s")
     (simp_all add: run_step_def step_base_refresh_inv step_commit_inv step_push_inv step_pr_create_inv
       observe_pr_update_inv)

lemma settle_failure_inv: "preserves inv (settle_failure env s e)"
  by (cases e) (auto simp: settle_failure_def revoked_outcome_def intro!: inv_rules core_inv)

lemma advance_loaded_inv: "preserves inv (advance_loaded env now)"
  unfolding advance_loaded_def drive_step_def revoked_outcome_def
  by (intro inv_rules core_inv run_step_inv settle_failure_inv)

lemma advance_once_K:
  assumes "\<And>s d. K s \<Longrightarrow> stored (e_host env) i (disk s) = Some d \<Longrightarrow> W d"
  shows "preserves K (advance_once env i expected)"
proof (rule preservesI)
  fix s r t
  assume s: "K s" and run: "advance_once env i expected s = (r, t)"
  show "K t"
  proof (cases "m_load (e_host env) i s")
    case (Pair x u)
    then have u: "u = s" by (metis m_load_state snd_conv)
    show ?thesis
    proof (cases x)
      case (Inl e)
      with Pair u run s show ?thesis by (auto simp: advance_once_def bnd_eq)
    next
      case (Inr d)
      with Pair u have d: "W d" using assms [OF s] by (auto simp: m_load_Inr)
      have "K (snd (on_record d (advance_loaded env now) v))" if "K v" for now v
      proof -
        have "inv (snd (advance_loaded env now \<lparr>working = d, ssys = v\<rparr>))"
          using advance_loaded_inv [of now] d that by (simp add: preserves_def holds_def)
        then show ?thesis by (auto simp: on_record_def holds_def split: prod.splits)
      qed
      then have "preserves K (bnd (e_clock env) (\<lambda>now. on_record d (advance_loaded env now)))"
        by (intro preserves_bnd clock_token) (auto simp: preserves_def)
      then have "preserves K (seq (of_check c) (bnd (e_clock env) (\<lambda>now. on_record d (advance_loaded env now))))"
        for c by (intro preserves_seq preserves_basic)
      with Pair Inr u run s show ?thesis
        by (auto simp: advance_once_def bnd_eq [of "m_load (e_host env) i"] dest: preservesD)
    qed
  qed
qed

end

lemma repeat_until_preserves:
  "preserves K m \<Longrightarrow> K s \<Longrightarrow> repeat_until n stop m s = Some (r, t) \<Longrightarrow> K t"
proof (induction n arbitrary: s)
  case (Suc n)
  obtain x u where m: "m s = (x, u)" by (cases "m s")
  with Suc.prems have "K u" by (auto dest: preservesD)
  with Suc m show ?case by (cases x) (auto split: if_splits)
qed simp

end
