(* ===== verification/MachineProgress.thy ===== *)
theory MachineProgress
  imports MachineInvariants
begin

text \<open>
  Two uses of the contract of \<open>MachineInvariants\<close>: the authority half and the phase order
  of the stored record, and the progress of a round, from which the loop of \<open>advance\<close>
  terminates.
\<close>

section \<open>Surroundings that leave the file alone\<close>

definition quiet :: "'w env \<Rightarrow> bool" where
  "quiet env \<longleftrightarrow> (\<forall>f. surroundings_preserve (\<lambda>s. disk s = f) env)"

lemma preserves_disk: "(\<And>f. preserves (\<lambda>s. disk s = f) m) \<Longrightarrow> preserves (\<lambda>s. P (disk s)) m"
  by (auto simp: preserves_def)

lemma quiet_preserve: "quiet env \<Longrightarrow> surroundings_preserve (\<lambda>s. P (disk s)) env"
proof -
  assume *: "quiet env"
  then have tr: "transport_preserves (\<lambda>s. disk s = f) (e_transport env)" for f
    by (simp add: quiet_def surroundings_preserve_def)
  have "transport_preserves (\<lambda>s. P (disk s)) (e_transport env)"
    unfolding transport_preserves_def
    by (intro conjI allI; rule preserves_disk; rule transport_callsD; rule tr)
  moreover from * have "preserves (\<lambda>s. disk s = f) (e_clock env)" "preserves (\<lambda>s. disk s = f) (e_token env)" for f
    by (simp_all add: quiet_def surroundings_preserve_def)
  ultimately show ?thesis
    by (simp add: surroundings_preserve_def preserves_disk)
qed

lemma surroundings_True [simp]: "surroundings_preserve (\<lambda>_. True) env"
  by (simp add: surroundings_preserve_def transport_preserves_def preserves_def)

section \<open>The authority half and the order of the phases\<close>

text \<open>\<open>follows m p q\<close>: the table of the kind leads from \<open>p\<close> to \<open>q\<close>.\<close>

definition follows :: "mode \<Rightarrow> phase \<Rightarrow> phase \<Rightarrow> bool" where
  "follows m p q \<longleftrightarrow> (\<lambda>x y. y \<in> set (allowed_transitions m x))\<^sup>*\<^sup>* p q"

definition frozen :: "authority \<Rightarrow> str \<Rightarrow> phase \<Rightarrow> delivery \<Rightarrow> bool" where
  "frozen a g p d \<longleftrightarrow>
     d_authority d = a \<and> d_authority_digest d = g \<and> follows (a_mode a) p (d_phase d)"

lemma follows_refl [simp]: "follows m p p"
  by (simp add: follows_def)

lemma follows_rank: "follows m p q \<Longrightarrow> phase_rank p \<le> phase_rank q"
  unfolding follows_def
  by (induction rule: rtranclp_induct) (auto dest: allowed_transition_rank)

lemma apply_transition_Inr:
  "apply_transition d p n = Inr e \<longleftrightarrow>
     p \<in> set (allowed_transitions (a_mode (d_authority d)) (d_phase d))
     \<and> e = d\<lparr>d_phase := p, d_updated_at := n\<rparr>"
  by (auto simp: apply_transition_def guard_check_Inr_iff validate_transition_def)

lemma set_entry_simps [simp]:
  "d_authority (set_entry s f d) = d_authority d" "d_authority_digest (set_entry s f d) = d_authority_digest d"
  "d_phase (set_entry s f d) = d_phase d" "d_revocation (set_entry s f d) = d_revocation d"
  "d_steps (set_entry s f d) x = (if x = s then f (d_steps d s) else d_steps d x)"
  by (simp_all add: set_entry_def)

lemma frozen_transition: "frozen a g p d \<Longrightarrow> apply_transition d q n = Inr e \<Longrightarrow> frozen a g p e"
  by (auto simp: frozen_def apply_transition_Inr follows_def intro: rtranclp.rtrancl_into_rtrancl)

definition stored_history ::
  "host \<Rightarrow> str \<Rightarrow> (delivery \<Rightarrow> bool) \<Rightarrow> (str \<Rightarrow> delivery option) \<Rightarrow> stored_file \<Rightarrow> bool" where
  "stored_history h i W others f \<longleftrightarrow>
     (\<exists>d. stored h i f = Some d \<and> W d) \<and> (\<forall>j. j \<noteq> i \<longrightarrow> stored h j f = others j)"

lemma store_history:
  assumes "W d" "record_id d = i"
  shows "preserves (\<lambda>s. stored_history h i W others (disk s)) (store_record h d)"
proof (rule preservesI)
  fix s r t
  assume *: "stored_history h i W others (disk s)" "store_record h d s = (r, t)"
  show "stored_history h i W others (disk t)"
  proof (cases r)
    case (Inl e)
    with * show ?thesis by (auto simp: store_record_eq split: sum.splits)
  next
    case (Inr x)
    with * obtain f where f: "replace_record h d (disk s) = Inr f" "t = s\<lparr>disk := f\<rparr>"
      by (auto simp: store_record_Inr)
    from rs.look_put [OF f(1)] rs.look_other [OF f(1)] * f assms show ?thesis
      by (auto simp: stored_history_def)
  qed
qed

interpretation fr: record_invariant env "\<lambda>_. True" "frozen a g p" for env :: "'w env" and a g p
  by unfold_locales
     (auto simp: preserves_def frozen_def apply_transition_Inr follows_def
       intro: rtranclp.rtrancl_into_rtrancl)

lemma frozen_history:
  assumes "quiet env" "a_delivery_id a = i"
  shows "record_invariant env (\<lambda>s. stored_history (e_host env) i (frozen a g p) others (disk s)) (frozen a g p)"
proof (unfold_locales, goal_cases)
  case 1
  show ?case by (rule quiet_preserve [OF assms(1)])
next
  case (2 d)
  then show ?case using assms(2) by (intro store_history) (auto simp: frozen_def record_id_def)
qed (auto simp: frozen_def apply_transition_Inr follows_def intro: rtranclp.rtrancl_into_rtrancl)

text \<open>The key under which a record is stored is its identifier.\<close>

lemma stored_id: "stored h i f = Some d \<Longrightarrow> record_id d = i"
proof -
  assume "stored h i f = Some d"
  then obtain document j where *: "store_load h f = Inr document" "d = delivery_of_json j"
    "(i, j) \<in> set (deliveries_of document)"
    by (auto simp: stored_def dest: map_of_SomeD split: sum.splits)
  from ds.load_valid [OF *(1)] *(3) have "jget ''delivery_id'' j = JStr i"
    by (auto simp: validate_document_def checks_None_iff validate_stored_def)
  with *(2) show ?thesis by (simp add: record_id_def delivery_of_json_def authority_of_json_def)
qed

lemma advance_history:
  assumes "quiet env" "stored (e_host env) i (disk s) = Some d" "advance env n i s = Some (r, t)"
  shows "stored_history (e_host env) i (frozen (d_authority d) (d_authority_digest d) (d_phase d))
           (\<lambda>j. stored (e_host env) j (disk s)) (disk t)"
proof -
  let ?W = "frozen (d_authority d) (d_authority_digest d) (d_phase d)"
  let ?K = "\<lambda>s'. stored_history (e_host env) i ?W (\<lambda>j. stored (e_host env) j (disk s)) (disk s')"
  have "a_delivery_id (d_authority d) = i"
    using stored_id [OF assms(2)] by (simp add: record_id_def)
  then have "record_invariant env ?K ?W" by (rule frozen_history [OF assms(1)])
  then have "preserves ?K (advance_once env i None)"
    by (rule record_invariant.advance_once_K) (auto simp: stored_history_def)
  moreover have "?K s" using assms(2) by (simp add: stored_history_def frozen_def)
  ultimately show ?thesis
    using assms(3) unfolding advance_def by (rule repeat_until_preserves)
qed

section \<open>Progress of a round\<close>

definition voided_count :: "delivery \<Rightarrow> nat" where
  "voided_count d = length (se_voided (d_steps d BASE_REFRESH))"

definition at_least :: "authority \<Rightarrow> nat \<Rightarrow> nat \<Rightarrow> delivery \<Rightarrow> bool" where
  "at_least a r v d \<longleftrightarrow> d_authority d = a \<and> r \<le> phase_rank (d_phase d) \<and> v \<le> voided_count d"

interpretation al: record_invariant env "\<lambda>_. True" "at_least a r v" for env :: "'w env" and a r v
proof (unfold_locales, goal_cases)
  case (4 d f s)
  then obtain vs where "se_voided (f (d_steps d BASE_REFRESH)) = se_voided (d_steps d BASE_REFRESH) @ vs"
    by (auto simp: keeps_voided_def)
  with 4 show ?case by (auto simp: at_least_def voided_count_def)
next
  case (9 d p n e)
  then show ?case
    by (force simp: at_least_def voided_count_def apply_transition_Inr dest: allowed_transition_rank)
qed (simp_all add: preserves_def at_least_def voided_count_def)

definition saved :: "'w env \<Rightarrow> 'w st \<Rightarrow> bool" where
  "saved env s \<longleftrightarrow>
     stored (e_host env) (record_id (working s)) (disk (ssys s)) = Some (working s)
     \<and> validate_authorization (e_host env) (delivery_json (working s)) = None"

definition moved :: "nat \<Rightarrow> nat \<Rightarrow> delivery \<Rightarrow> bool" where
  "moved r v d \<longleftrightarrow>
     r < phase_rank (d_phase d) \<or> (r \<le> phase_rank (d_phase d) \<and> v < voided_count d)"

definition settled_at :: "'w env \<Rightarrow> authority \<Rightarrow> nat \<Rightarrow> nat \<Rightarrow> 'w st \<Rightarrow> bool" where
  "settled_at env a r v s \<longleftrightarrow> saved env s \<and> d_authority (working s) = a \<and> moved r v (working s)"

abbreviation from_state :: "authority \<Rightarrow> nat \<Rightarrow> nat \<Rightarrow> 'w st \<Rightarrow> bool" where
  "from_state a r v \<equiv> holds (at_least a r v) (\<lambda>_. True)"

text \<open>A computation that ends a round: what it returns from is saved and has moved.\<close>

definition ends :: "'w env \<Rightarrow> ('w st, 'a) act \<Rightarrow> bool" where
  "ends env m \<longleftrightarrow>
     (\<forall>a r v. hoare (from_state a r v) m (\<lambda>_. settled_at env a r v) (\<lambda>_ _. True))"

definition keeps_position :: "('w st, 'a) act \<Rightarrow> bool" where
  "keeps_position m \<longleftrightarrow> (\<forall>a r v. preserves (from_state a r v) m)"

definition ends_if :: "'w env \<Rightarrow> ('w st, bool) act \<Rightarrow> bool" where
  "ends_if env m \<longleftrightarrow>
     (\<forall>a r v. hoare (from_state a r v) m (\<lambda>b s. b \<longrightarrow> settled_at env a r v s) (\<lambda>_ _. True))"

lemma keeps_positionD:
  "keeps_position m \<Longrightarrow> from_state a r v s \<Longrightarrow> m s = (x, t) \<Longrightarrow> from_state a r v t"
  by (auto simp: keeps_position_def dest: preservesD)

lemma endsD: "ends env m \<Longrightarrow> from_state a r v s \<Longrightarrow> m s = (Inr x, t) \<Longrightarrow> settled_at env a r v t"
  by (auto simp: ends_def dest: hoare_Inr)

lemma endsI:
  "(\<And>a r v s x t. from_state a r v s \<Longrightarrow> m s = (Inr x, t) \<Longrightarrow> settled_at env a r v t) \<Longrightarrow> ends env m"
  by (auto simp: ends_def intro: hoareI)

lemma ends_bnd: "keeps_position m \<Longrightarrow> (\<And>x. ends env (k x)) \<Longrightarrow> ends env (bnd m k)"
  by (intro endsI) (auto simp: bnd_Inr dest: keeps_positionD endsD)

lemma ends_seq: "keeps_position m \<Longrightarrow> ends env k \<Longrightarrow> ends env (seq m k)"
  unfolding seq_def by (intro ends_bnd)

lemma ends_throw: "ends env (throw e)"
  by (simp add: ends_def hoare_def)

lemma ends_cases:
  "(b \<Longrightarrow> ends env m) \<Longrightarrow> (\<not> b \<Longrightarrow> ends env k) \<Longrightarrow> ends env (if b then m else k)"
  "(x = None \<Longrightarrow> ends env m) \<Longrightarrow> (\<And>y. x = Some y \<Longrightarrow> ends env (f y)) \<Longrightarrow>
     ends env (case x of None \<Rightarrow> m | Some y \<Rightarrow> f y)"
  "(\<And>p q. z = (p, q) \<Longrightarrow> ends env (g p q)) \<Longrightarrow> ends env (case z of (p, q) \<Rightarrow> g p q)"
  by (auto split: option.splits prod.splits)

lemma ends_ifD:
  "ends_if env m \<Longrightarrow> from_state a r v s \<Longrightarrow> m s = (Inr True, t) \<Longrightarrow> settled_at env a r v t"
  unfolding ends_if_def by (metis hoare_Inr)

lemma ends_ifI:
  "(\<And>a r v s t. from_state a r v s \<Longrightarrow> m s = (Inr True, t) \<Longrightarrow> settled_at env a r v t) \<Longrightarrow> ends_if env m"
  by (auto simp: ends_if_def intro: hoareI)

lemma ends_settle:
  "keeps_position m \<Longrightarrow> ends_if env m \<Longrightarrow> ends env k
   \<Longrightarrow> ends env (bnd m (\<lambda>b. if b then ret () else k))"
  by (intro endsI) (auto simp: bnd_Inr dest: keeps_positionD endsD ends_ifD split: if_splits)

lemma ends_if_bnd: "keeps_position m \<Longrightarrow> (\<And>x. ends_if env (k x)) \<Longrightarrow> ends_if env (bnd m k)"
  by (intro ends_ifI) (auto simp: bnd_Inr dest: keeps_positionD ends_ifD)

lemma ends_if_seq: "keeps_position m \<Longrightarrow> ends_if env k \<Longrightarrow> ends_if env (seq m k)"
  unfolding seq_def by (rule ends_if_bnd)

lemma ends_if_basic: "ends_if env (throw e)" "ends_if env (ret False)" "ends env m \<Longrightarrow> ends_if env (seq m (ret True))"
  by (auto intro!: ends_ifI simp: seq_Inr dest: endsD)

lemma ends_if_cases:
  "(b \<Longrightarrow> ends_if env m) \<Longrightarrow> (\<not> b \<Longrightarrow> ends_if env k) \<Longrightarrow> ends_if env (if b then m else k)"
  "(x = None \<Longrightarrow> ends_if env m) \<Longrightarrow> (\<And>y. x = Some y \<Longrightarrow> ends_if env (f y)) \<Longrightarrow>
     ends_if env (case x of None \<Rightarrow> m | Some y \<Rightarrow> f y)"
  "(\<And>p q. z = (p, q) \<Longrightarrow> ends_if env (g p q)) \<Longrightarrow> ends_if env (case z of (p, q) \<Rightarrow> g p q)"
  by (auto split: option.splits prod.splits)

section \<open>The last action of a round\<close>

lemma persist_Inr:
  assumes "persist env s = (Inr x, t)"
  obtains now where "working t = (working s)\<lparr>d_updated_at := now\<rparr>" "saved env t"
proof -
  from assms obtain now u v where *: "e_clock env (ssys s) = (Inr now, u)"
    "working t = (working s)\<lparr>d_updated_at := now\<rparr>"
    "validate_authorization (e_host env) (delivery_json (working t)) = None"
    "store_record (e_host env) (working t) u = (Inr v, ssys t)"
    by (auto simp: persist_def bnd_Inr seq_Inr lift_Inr)
  then obtain f where "replace_record (e_host env) (working t) (disk u) = Inr f" "disk (ssys t) = f"
    by (auto simp: store_record_Inr)
  with rs.look_put have "stored (e_host env) (record_id (working t)) (disk (ssys t)) = Some (working t)"
    by metis
  with * show thesis by (intro that) (auto simp: saved_def)
qed

lemma transition_Inr:
  assumes "transition env p s = (Inr x, t)"
  obtains now where "p \<in> set (allowed_transitions (a_mode (d_authority (working s))) (d_phase (working s)))"
    "working t = (working s)\<lparr>d_phase := p, d_updated_at := now\<rparr>"
  using assms
  by (auto simp: transition_def transition_at_def bnd_Inr lift_Inr apply_transition_Inr)

lemma ends_transition: "ends env (seq (transition env p) (persist env))"
proof (intro endsI)
  fix a r v s x t
  assume s: "from_state a r v s" and run: "seq (transition env p) (persist env) s = (Inr x, t)"
  then obtain u y where u: "transition env p s = (Inr y, u)" "persist env u = (Inr x, t)"
    by (auto simp: seq_Inr)
  from u(1) obtain now where
    "p \<in> set (allowed_transitions (a_mode (d_authority (working s))) (d_phase (working s)))"
    "working u = (working s)\<lparr>d_phase := p, d_updated_at := now\<rparr>"
    by (rule transition_Inr)
  moreover from u(2) obtain now' where "working t = (working u)\<lparr>d_updated_at := now'\<rparr>" "saved env t"
    by (rule persist_Inr)
  ultimately show "settled_at env a r v t"
    using s by (force simp: settled_at_def moved_def holds_def at_least_def dest: allowed_transition_rank)
qed

lemma ends_succeed: "ends env (succeed env s observed p)"
  unfolding succeed_def
  by (intro ends_seq ends_transition) (simp add: keeps_position_def al.set_entry_inv keeps_voided_updates)

lemma ends_complete: "ends env (complete_delivery env)"
  unfolding complete_delivery_def by (rule ends_transition)

section \<open>Every step ends a round\<close>

lemmas position_rules = al.inv_rules al.fact_inv al.core_inv al.bound_remote_inv al.expected_old_inv
  al.push_effect_inv al.post_commit_inv al.commit_effect_inv al.disposition_inv al.record_pull_inv
  al.pr_create_effect_inv al.reconcile_commit_inv al.reconcile_push_inv al.reconcile_pr_create_inv

lemma position [intro]:
  "keeps_position (gets f)" "keeps_position (of_result r)" "keeps_position (ensure b e)" "keeps_position (ret x)"
  "keeps_position (mark_executing st)" "keeps_position (void_step st)" "keeps_position (persist env)"
  "keeps_position (transition env p)" "keeps_position (start env st binding)"
  "keeps_position (succeed env st obs p)"
  "keeps_position (lift m)"
  "keeps_position (head_oid env path)" "keeps_position (commit_parent_and_tree env path oid)"
  "keeps_position (check_repository env b)" "keeps_position (require_candidate_matches entries)"
  "keeps_position (live_candidate env base)" "keeps_position (require_one_new_commit env c1 c2)"
  "keeps_position (remote_base env)" "keeps_position (prove_disjoint_advance env o1 o2)"
  "keeps_position (base_ci env oid2)" "keeps_position (reverify env)" "keeps_position commit_oid"
  "keeps_position (view_pull_request env n)" "keeps_position (remote_head env)"
  "keeps_position (bound_remote_oid env binding)" "keeps_position (expected_old_oid env oid2)"
  "keeps_position (push_effect env)" "keeps_position (handle_post_commit_advance env oid2)"
  "keeps_position (commit_effect env current)" "keeps_position (pr_disposition env h)"
  "keeps_position (record_pull_request env item)" "keeps_position (pr_create_effect env)"
  "keeps_position (reconcile_commit env rc)" "keeps_position (reconcile_push env rc)"
  "keeps_position (reconcile_pr_create env rc)"
  unfolding keeps_position_def by (intro allI position_rules; simp add: preserves_def)+

lemma position_seq [intro]:
  "keeps_position m \<Longrightarrow> (\<And>x. keeps_position (k x)) \<Longrightarrow> keeps_position (bnd m k)"
  "keeps_position m \<Longrightarrow> keeps_position n \<Longrightarrow> keeps_position (seq m n)"
  "(c \<Longrightarrow> keeps_position m) \<Longrightarrow> (\<not> c \<Longrightarrow> keeps_position n) \<Longrightarrow> keeps_position (if c then m else n)"
  "keeps_position m \<Longrightarrow> keeps_position (as_retry m)"
  unfolding keeps_position_def by (auto intro!: preserves_bnd preserves_seq al.as_retry_inv)

lemma position_set_entry [intro]: "keeps_voided f \<Longrightarrow> keeps_position (alter (set_entry st f))"
  unfolding keeps_position_def by (intro allI al.set_entry_inv)

lemma position_set_base [intro]: "keeps_position (alter (set_current_base b now))"
  unfolding keeps_position_def set_current_base_def by (intro allI al.alter_inv al.W_base)

lemma position_checks [intro]:
  "keeps_position (commit_checks env current)" "keeps_position (base_refresh_effect env o1 o2)"
  unfolding keeps_position_def commit_checks_def base_refresh_effect_def Let_def
  by (intro allI al.inv_rules al.fact_inv)+

lemmas position_alter = position_set_entry position_set_base position_checks

lemmas ends_rules = ends_bnd ends_seq ends_throw ends_cases ends_succeed ends_complete ends_transition
lemmas ends_if_rules = ends_if_basic ends_if_bnd ends_if_seq ends_if_cases

lemma ends_finish_base_refresh: "ends env (finish_base_refresh env b)"
  unfolding finish_base_refresh_def by (intro ends_rules position position_alter)

lemma ends_fresh_base_refresh: "ends env (fresh_base_refresh env)"
  unfolding fresh_base_refresh_def Let_def
  by (intro ends_rules ends_finish_base_refresh position position_alter keeps_voided_updates)

lemma ends_observe_commit: "ends env (observe_commit env b)"
  unfolding observe_commit_def Let_def by (intro ends_rules position position_seq)

lemma ends_if_reconcile_commit: "ends_if env (reconcile_commit env r)"
  unfolding reconcile_commit_def Let_def
  by (intro ends_if_rules ends_observe_commit position position_seq)

lemma ends_fresh_commit: "ends env (fresh_commit env)"
  unfolding fresh_commit_def Let_def by (intro ends_rules ends_observe_commit position position_alter)

lemma ends_step_commit: "ends env (step_commit env)"
  unfolding step_commit_def
  by (intro ends_rules ends_settle ends_fresh_commit ends_if_reconcile_commit position)

lemma ends_observe_push: "ends env (observe_push env b)"
  unfolding observe_push_def Let_def by (intro ends_rules position)

lemma ends_if_reconcile_push: "ends_if env (reconcile_push env r)"
  unfolding reconcile_push_def Let_def by (intro ends_if_rules ends_succeed position position_seq)

lemma ends_fresh_push: "ends env (fresh_push env oid)"
  unfolding fresh_push_def by (intro ends_rules ends_observe_push position)

lemma ends_step_push: "ends env (step_push env)"
  unfolding step_push_def
  by (intro ends_rules ends_settle ends_fresh_push ends_if_reconcile_push position)

lemma ends_adopt: "ends env (adopt_pr env item b)"
  unfolding adopt_pr_def by (intro ends_rules position)

lemma ends_if_reconcile_pr_create: "ends_if env (reconcile_pr_create env r)"
  unfolding reconcile_pr_create_def by (intro ends_if_rules ends_adopt position position_seq)

lemma ends_fresh_pr_create: "ends env (fresh_pr_create env h)"
  unfolding fresh_pr_create_def by (intro ends_rules ends_adopt position)

lemma ends_step_pr_create: "ends env (step_pr_create env)"
  unfolding step_pr_create_def
  by (intro ends_rules ends_settle ends_fresh_pr_create ends_if_reconcile_pr_create position)

lemma ends_observe_pr_update: "ends env (observe_pr_update env)"
  unfolding observe_pr_update_def by (intro ends_rules position)

text \<open>Voiding the receipt of a base refresh is the one way to end a round in the same phase:
  from a state that still has the receipt.\<close>

definition has_receipt :: "'w st \<Rightarrow> bool" where
  "has_receipt s \<longleftrightarrow> se_receipt (d_steps (working s) BASE_REFRESH) \<noteq> None"

definition ends_with_receipt :: "'w env \<Rightarrow> ('w st, 'a) act \<Rightarrow> bool" where
  "ends_with_receipt env m \<longleftrightarrow>
     (\<forall>a r v s x t. from_state a r v s \<longrightarrow> has_receipt s \<longrightarrow> m s = (Inr x, t) \<longrightarrow> settled_at env a r v t)"

lemma ends_with_receiptD:
  "ends_with_receipt env m \<Longrightarrow> from_state a r v s \<Longrightarrow> has_receipt s \<Longrightarrow> m s = (Inr x, t) \<Longrightarrow> settled_at env a r v t"
  by (simp add: ends_with_receipt_def)

lemma ends_with_receiptI:
  "(\<And>a r v s x t. from_state a r v s \<Longrightarrow> has_receipt s \<Longrightarrow> m s = (Inr x, t) \<Longrightarrow> settled_at env a r v t)
   \<Longrightarrow> ends_with_receipt env m"
  by (simp add: ends_with_receipt_def)

lemma same_working [simp]:
  "from_state a r v (s\<lparr>ssys := u\<rparr>) = from_state a r v s" "has_receipt (s\<lparr>ssys := u\<rparr>) = has_receipt s"
  by (simp_all add: holds_def has_receipt_def)

lemma ends_with_receipt_void: "ends_with_receipt env (seq (void_step BASE_REFRESH) (persist env))"
proof -
  have "settled_at env a r v t"
    if s: "from_state a r v s" "has_receipt s" and run: "seq (void_step BASE_REFRESH) (persist env) s = (Inr x, t)"
    for a r v s x t
  proof -
    from run have "persist env (s\<lparr>working := set_entry BASE_REFRESH void_entry (working s)\<rparr>) = (Inr x, t)"
      by (simp add: seq_eq void_step_def)
    then obtain now where
      "working t = (set_entry BASE_REFRESH void_entry (working s))\<lparr>d_updated_at := now\<rparr>" "saved env t"
      by (rule persist_Inr) simp
    with s show ?thesis
      by (auto simp: settled_at_def moved_def holds_def at_least_def voided_count_def void_entry_def has_receipt_def)
  qed
  then show ?thesis unfolding ends_with_receipt_def by blast
qed

lemma ends_with_receipt_ends: "ends env m \<Longrightarrow> ends_with_receipt env m"
  by (auto simp: ends_with_receipt_def dest: endsD)

lemma ends_with_receipt_if:
  "(b \<Longrightarrow> ends_with_receipt env m) \<Longrightarrow> (\<not> b \<Longrightarrow> ends_with_receipt env k)
   \<Longrightarrow> ends_with_receipt env (if b then m else k)"
  by simp

lemma ends_with_receipt_bnd:
  assumes k: "\<And>x. ends_with_receipt env (k x)"
  shows "ends_with_receipt env (bnd (lift m) k)" "ends_with_receipt env (bnd (gets g) k)"
    "ends_with_receipt env (bnd (of_result q) k)"
proof -
  show "ends_with_receipt env (bnd (lift m) k)"
    by (intro ends_with_receiptI)
       (clarsimp simp: bnd_Inr lift_Inr, erule ends_with_receiptD [OF k, rotated 2], simp_all)
  show "ends_with_receipt env (bnd (gets g) k)" "ends_with_receipt env (bnd (of_result q) k)"
    by (intro ends_with_receiptI; clarsimp simp: bnd_Inr; erule ends_with_receiptD [OF k, rotated 2]; simp)+
qed

lemma ends_reconcile_base_refresh: "ends_with_receipt env (reconcile_base_refresh env r)"
  unfolding reconcile_base_refresh_def head_oid_def Let_def
  by (intro ends_with_receipt_bnd ends_with_receipt_if ends_with_receipt_void)
     (intro ends_with_receipt_ends ends_rules ends_finish_base_refresh position position_seq)+

lemma ends_step_base_refresh: "ends env (step_base_refresh env)"
proof -
  have "ends env (bnd (gets (needs_reconcile BASE_REFRESH))
          (\<lambda>pending. case pending of Some r \<Rightarrow> reconcile_base_refresh env r | None \<Rightarrow> fresh_base_refresh env))"
    using ends_reconcile_base_refresh ends_fresh_base_refresh
    by (intro endsI)
       (fastforce simp: bnd_eq needs_reconcile_def ends_with_receipt_def has_receipt_def
         dest: endsD split: option.splits if_splits)
  then show ?thesis unfolding step_base_refresh_def by (intro ends_seq position)
qed

lemma ends_run_step: "ends env (run_step env s)"
  by (cases s; cases "the s")
     (simp_all add: run_step_def ends_step_base_refresh ends_step_commit ends_step_push ends_step_pr_create
       ends_observe_pr_update)

section \<open>The measure\<close>

definition delivery_measure :: "delivery \<Rightarrow> nat" where
  "delivery_measure d = (6 - phase_rank (d_phase d)) * 9 + (MAX_STEP_ATTEMPTS - voided_count d)"

lemma phase_rank_le: "phase_rank p \<le> 6"
  by (cases p) simp_all

lemma delivery_measure_bound: "delivery_measure d \<le> 62"
proof -
  have "(6 - phase_rank (d_phase d)) * 9 \<le> 54" by simp
  moreover have "MAX_STEP_ATTEMPTS - voided_count d \<le> 8" by (simp add: MAX_STEP_ATTEMPTS_def)
  ultimately show ?thesis unfolding delivery_measure_def by linarith
qed

lemma valid_voided:
  assumes "validate_authorization h (delivery_json d) = None"
  shows "length (se_voided (d_steps d s)) \<le> MAX_STEP_ATTEMPTS"
proof -
  have "validate_steps h (JObj (map (\<lambda>s. (step_str s, step_entry_json (d_steps d s))) STEPS))
          (JStr (record_id d)) (JStr (d_authority_digest d)) (a_mode (d_authority d)) = None"
    using assms
    by (simp add: validate_authorization_def validate_state_half_def checks_None_iff Let_def delivery_get
        record_id_def del: mode_str.simps)
  then have "\<forall>s \<in> set STEPS. validate_step_entry h
      (jget (step_str s) (JObj (map (\<lambda>s. (step_str s, step_entry_json (d_steps d s))) STEPS))) s
      (JStr (record_id d)) (JStr (d_authority_digest d)) = None"
    by (simp add: validate_steps_def checks_None_iff)
  moreover have "jget (step_str s) (JObj (map (\<lambda>s. (step_str s, step_entry_json (d_steps d s))) STEPS))
      = step_entry_json (d_steps d s)"
    by (cases s) (simp_all add: STEPS_def)
  ultimately have "validate_step_entry h (step_entry_json (d_steps d s)) s
      (JStr (record_id d)) (JStr (d_authority_digest d)) = None"
    using in_STEPS by metis
  then show ?thesis
    by (simp add: validate_step_entry_def checks_None_iff Let_def step_entry_json_def list_json_def)
qed

lemma moved_measure:
  assumes "moved (phase_rank (d_phase d)) (voided_count d) e" "voided_count e \<le> MAX_STEP_ATTEMPTS"
  shows "delivery_measure e < delivery_measure d"
  using assms phase_rank_le [of "d_phase e"] phase_rank_le [of "d_phase d"]
  by (auto simp: moved_def delivery_measure_def MAX_STEP_ATTEMPTS_def)

text \<open>The measure of the record on disk.\<close>

definition progress_left :: "'w env \<Rightarrow> str \<Rightarrow> 'w sys \<Rightarrow> nat" where
  "progress_left env i s =
     (case stored (e_host env) i (disk s) of None \<Rightarrow> 0 | Some d \<Rightarrow> delivery_measure d)"

lemma progress_left_bound: "progress_left env i s < 63"
proof (cases "stored (e_host env) i (disk s)")
  case (Some d)
  then show ?thesis using delivery_measure_bound [of d] by (simp add: progress_left_def)
qed (simp add: progress_left_def)

section \<open>A round\<close>

lemma drive_step_advanced:
  "drive_step env st s = (Inr OUTCOME_ADVANCED, t) \<Longrightarrow> run_step env st s = (Inr (), t)"
  by (auto simp: drive_step_def handle_eq seq_eq bnd_eq settle_failure_def revoked_outcome_def
      split: prod.splits sum.splits exn.splits if_splits)

text \<open>A round that reports progress ran the step that the phase selects.\<close>

lemma advance_once_drives:
  assumes "advance_once env i x s = (Inr OUTCOME_ADVANCED, t)" "stored (e_host env) i (disk s) = Some d"
  obtains u w where
    "run_step env (step_for_phase (a_mode (d_authority d)) (d_phase d)) \<lparr>working = d, ssys = u\<rparr> = (Inr (), w)"
    "t = ssys w"
proof -
  from assms obtain now u w where *:
    "advance_loaded env now \<lparr>working = d, ssys = u\<rparr> = (Inr OUTCOME_ADVANCED, w)" "t = ssys w"
    by (auto simp: advance_once_def bnd_Inr seq_Inr m_load_Inr on_record_Inr)
  then have "run_step env (step_for_phase (a_mode (d_authority d)) (d_phase d)) \<lparr>working = d, ssys = u\<rparr> = (Inr (), w)"
    by (auto simp: advance_loaded_def bnd_eq seq_eq revoked_outcome_def
        split: prod.splits sum.splits if_splits dest: drive_step_advanced)
  with *(2) show thesis by (intro that)
qed

lemma advance_once_advanced:
  assumes "advance_once env i x s = (Inr OUTCOME_ADVANCED, t)"
  obtains d e where "stored (e_host env) i (disk s) = Some d" "stored (e_host env) i (disk t) = Some e"
    "d_authority e = d_authority d" "delivery_measure e < delivery_measure d"
    "validate_authorization (e_host env) (delivery_json e) = None"
proof -
  from assms obtain d where *: "stored (e_host env) i (disk s) = Some d"
    by (auto simp: advance_once_def bnd_Inr m_load_Inr)
  obtain u w where run:
    "run_step env (step_for_phase (a_mode (d_authority d)) (d_phase d)) \<lparr>working = d, ssys = u\<rparr> = (Inr (), w)"
    "t = ssys w"
    by (rule advance_once_drives [OF assms *])
  from run(1) have "settled_at env (d_authority d) (phase_rank (d_phase d)) (voided_count d) w"
    by (intro endsD [OF ends_run_step]) (auto simp: holds_def at_least_def)
  moreover from this have "record_id (working w) = i"
    using stored_id [OF *] by (simp add: settled_at_def record_id_def)
  ultimately show thesis
    using * run(2) valid_voided [of "e_host env" "working w" BASE_REFRESH]
    by (intro that [of d "working w"])
       (auto simp: settled_at_def saved_def voided_count_def [of "working w"] intro: moved_measure)
qed


section \<open>A revocation that returns\<close>

lemma revoke_record_Inr:
  assumes "revoke_record now who reason d = Inr e"
  shows "d_authority e = d_authority d" "is_revoked e" "d_phase e \<in> set TERMINAL_PHASES"
  using assms
  by (auto simp: revoke_record_def Let_def sbind_Inr_iff apply_transition_Inr is_revoked_def TERMINAL_PHASES_def
      split: if_splits)

lemma revoke_facts:
  assumes "revoke env i who reason s = (Inr d, t)"
  shows "stored (e_host env) i (disk t) = Some d" "is_revoked d" "d_phase d \<in> set TERMINAL_PHASES"
    and "\<exists>e. stored (e_host env) i (disk s) = Some e \<and> d_authority d = d_authority e"
    and "j \<noteq> i \<Longrightarrow> stored (e_host env) j (disk t) = stored (e_host env) j (disk s)"
proof -
  from assms obtain document j now u where *: "store_load (e_host env) (disk s) = Inr document"
    "map_of (deliveries_of document) i = Some j" "e_clock env s = (Inr now, u)"
    "revoke_record now who reason (delivery_of_json j) = Inr d"
    "save_document (e_host env) (put_record d document) u = (Inr (), t)"
    by (auto simp: revoke_def bnd_Inr seq_Inr load_document_def split: option.splits)
  have e: "stored (e_host env) i (disk s) = Some (delivery_of_json j)"
    using * by (simp add: stored_def)
  have id: "record_id d = i"
    using stored_id [OF e] revoke_record_Inr(1) [OF *(4)] by (simp add: record_id_def)
  from *(5) obtain f where f: "store_save (e_host env) (put_record d document) = Inr f" "t = u\<lparr>disk := f\<rparr>"
    by (auto simp: save_document_def split: sum.splits)
  have put: "replace_record (e_host env) d (disk s) = Inr f"
    using * f by (simp add: replace_record_def)
  show "stored (e_host env) i (disk t) = Some d"
    using rs.look_put [OF put] f(2) id by simp
  show "is_revoked d" "d_phase d \<in> set TERMINAL_PHASES"
    using revoke_record_Inr [OF *(4)] by auto
  show "\<exists>e. stored (e_host env) i (disk s) = Some e \<and> d_authority d = d_authority e"
    using e revoke_record_Inr(1) [OF *(4)] by blast
  show "j \<noteq> i \<Longrightarrow> stored (e_host env) j (disk t) = stored (e_host env) j (disk s)" for j
    using rs.look_other [OF put] f(2) id by simp
qed

end
