(* ===== verification/CeremonyFacts.thy ===== *)
theory CeremonyFacts
  imports Ceremony StoreFacts ValidFacts MachineProgress
begin

text \<open>
  What the ceremonies of \<open>pr_delivery/cli.py\<close> write and when: a refusal writes nothing, a
  minted record is stored as it was validated, and an attested proposal stays spent.
\<close>

section \<open>Quiet surroundings\<close>

definition quiet_desk :: "'w desk \<Rightarrow> bool" where
  "quiet_desk desk \<longleftrightarrow>
     (\<forall>f. (\<forall>p. preserves (\<lambda>s. disk s = f) (k_read desk p)) \<and> (\<forall>m. preserves (\<lambda>s. disk s = f) (k_write desk m))
        \<and> (\<forall>v. preserves (\<lambda>s. disk s = f) (k_emit desk v)) \<and> (\<forall>p. preserves (\<lambda>s. disk s = f) (k_confirm desk p)))"

text \<open>An invariant that every call of the surroundings keeps.\<close>

definition ceremony_preserves :: "('w sys \<Rightarrow> bool) \<Rightarrow> 'w env \<Rightarrow> 'w desk \<Rightarrow> bool" where
  "ceremony_preserves K env desk \<longleftrightarrow>
     surroundings_preserve K env \<and> (\<forall>p. preserves K (k_read desk p)) \<and> (\<forall>m. preserves K (k_write desk m))
     \<and> (\<forall>v. preserves K (k_emit desk v)) \<and> (\<forall>p. preserves K (k_confirm desk p))"

lemma ceremony_preservesD:
  assumes "ceremony_preserves K env desk"
  shows "surroundings_preserve K env" "transport_preserves K (e_transport env)"
    "preserves K (e_clock env)" "preserves K (e_token env)"
    "preserves K (k_read desk p)" "preserves K (k_write desk m)" "preserves K (k_emit desk v)"
    "preserves K (k_confirm desk p)"
  using assms by (simp_all add: ceremony_preserves_def surroundings_preserve_def)

lemma quiet_ceremony: "quiet env \<Longrightarrow> quiet_desk desk \<Longrightarrow> ceremony_preserves (\<lambda>s. P (disk s)) env desk"
  using quiet_preserve [of env P]
  by (simp add: ceremony_preserves_def quiet_desk_def preserves_disk [where P = P])

lemma preserves_case_prod_fun:
  "(\<And>a b. x = (a, b) \<Longrightarrow> preserves I (k a b c)) \<Longrightarrow> preserves I ((case x of (a, b) \<Rightarrow> k a b) c)"
  by (cases x) auto

lemmas ceremony_rules = preserves_case_prod_fun preserves_bnd preserves_seq preserves_handle preserves_if preserves_case_option
  preserves_case_sum preserves_case_prod preserves_basic

lemma require_text_preserves: "preserves K (require_text x)"
  unfolding require_text_def by (intro ceremony_rules) (auto split: list.splits)

lemma live_repository_preserves:
  assumes tr: "transport_preserves K (e_transport env)"
  shows "preserves K (live_repository env path base remote update)"
proof -
  note rules = ceremony_rules transport_callsD [OF tr] require_text_preserves
  have committer: "preserves K (live_committer env repo)" for repo
    unfolding live_committer_def Let_def by (intro rules)
  have "preserves K (live_place env repo update)" for repo
    unfolding live_place_def as_ceremony_def Let_def by (intro rules)
  moreover have "preserves K (live_remote env repo remote)" for repo
    unfolding live_remote_def Let_def by (intro rules)
  moreover have "preserves K (live_update env number branch v)" for number branch v
    unfolding live_update_def as_ceremony_def Let_def by (intro rules committer)
  moreover have "preserves K (live_new env v)" for v
    unfolding live_new_def Let_def by (intro rules committer)
  ultimately show ?thesis
    unfolding live_repository_def Let_def by (intro ceremony_rules)
qed

lemma gather_preserves:
  assumes K: "ceremony_preserves K env desk"
  shows "preserves K (gather env desk args now)"
proof -
  note calls = ceremony_preservesD [OF K]
  have reading: "preserves K (read_text_file desk p)" for p
    unfolding read_text_file_def by (intro ceremony_rules calls)
  then have texts: "preserves K (read_text desk p)" for p
    unfolding read_text_def by (intro ceremony_rules)
  have "preserves K (gather_content desk args)"
    unfolding gather_content_def by (intro ceremony_rules texts)
  moreover have "preserves K (load_herd_evidence desk p)" for p
    unfolding load_herd_evidence_def by (intro ceremony_rules reading)
  then have "preserves K (gather_evidence desk args)"
    unfolding gather_evidence_def by (intro ceremony_rules calls)
  ultimately show ?thesis
    unfolding gather_def Let_def by (intro ceremony_rules calls live_repository_preserves)
qed

lemma assemble_preserves: "ceremony_preserves K env desk \<Longrightarrow> preserves K (assemble_authority env desk args now)"
  unfolding assemble_authority_def Let_def
  by (intro ceremony_rules gather_preserves) (auto intro: ceremony_preservesD)

lemma present_preserves: "ceremony_preserves K env desk \<Longrightarrow> preserves K (present_dots env desk args)"
  unfolding present_dots_def Let_def
  by (intro ceremony_rules gather_preserves) (auto intro: ceremony_preservesD)

section \<open>Minting\<close>

definition stored_json :: "host \<Rightarrow> str \<Rightarrow> stored_file \<Rightarrow> json option" where
  "stored_json h i f =
     (case store_load h f of Inl _ \<Rightarrow> None | Inr document \<Rightarrow> map_of (deliveries_of document) i)"

lemma stored_of_json: "stored h i f = map_option delivery_of_json (stored_json h i f)"
  by (simp add: stored_def stored_json_def split: sum.splits)

text \<open>The files in which every record has one key.\<close>

definition keyed :: "host \<Rightarrow> stored_file \<Rightarrow> bool" where
  "keyed h f \<longleftrightarrow> (\<forall>document. store_load h f = Inr document \<longrightarrow> distinct (map fst (deliveries_of document)))"

definition keeps_file :: "('w sys, 'a) act \<Rightarrow> bool" where
  "keeps_file m \<longleftrightarrow> (\<forall>f. preserves (\<lambda>s. disk s = f) m)"

lemma keeps_fileD: "keeps_file m \<Longrightarrow> m s = (r, t) \<Longrightarrow> disk t = disk s"
  by (auto simp: keeps_file_def dest: preservesD)

lemma load_document_eq: "load_document h s = (store_load h (disk s), s)"
  by (simp add: load_document_def)

lemma save_document_Inr: "save_document h d s = (Inr x, t) \<longleftrightarrow> (\<exists>f. store_save h d = Inr f \<and> t = s\<lparr>disk := f\<rparr>)"
  by (auto simp: save_document_def split: sum.splits)

lemma save_document_Inl: "save_document h d s = (Inl e, t) \<Longrightarrow> t = s"
  by (auto simp: save_document_def split: sum.splits)

definition past_deadline :: "'w env \<Rightarrow> pynum option \<Rightarrow> ('w sys, unit) act" where
  "past_deadline env apply_before =
     (case apply_before of
        None \<Rightarrow> ret ()
      | Some deadline \<Rightarrow> bnd (e_clock env) (\<lambda>t. ensure (\<not> num_le deadline t) CeremonyError))"

lemma mint_locked_Inr:
  assumes "keeps_file (e_clock env)" "mint_locked env r one_shot apply_before s = (Inr n, t)"
  shows "\<exists>document new u. store_load (e_host env) (disk s) = Inr document
     \<and> (\<forall>p. one_shot = Some p \<longrightarrow> \<not> already_attested p document)
     \<and> past_deadline env apply_before s = (Inr (), u) \<and> disk u = disk s
     \<and> add_delivery (e_host env) document r = Inr (new, Added, n)
     \<and> store_save (e_host env) new = Inr (disk t) \<and> world t = world u"
proof -
  obtain document new u f x where *: "store_load (e_host env) (disk s) = Inr document"
    "case one_shot of None \<Rightarrow> True | Some p \<Rightarrow> \<not> already_attested p document"
    "past_deadline env apply_before s = (Inr x, u)"
    "add_delivery (e_host env) document r = Inr (new, Added, n)" "store_save (e_host env) new = Inr f"
    "t = u\<lparr>disk := f\<rparr>"
    using assms(2)
    by (auto simp: mint_locked_def bnd_Inr seq_Inr load_document_eq save_document_Inr past_deadline_def
        split: prod.splits)
  have "keeps_file (past_deadline env apply_before)"
    using assms(1) unfolding keeps_file_def past_deadline_def by (auto intro!: ceremony_rules)
  then have "disk u = disk s" using *(3) by (rule keeps_fileD)
  with * show ?thesis by (intro exI [of _ document] exI [of _ new] exI [of _ u]) (auto split: option.splits)
qed

lemma mint_locked_Inl:
  assumes "keeps_file (e_clock env)" "mint_locked env r one_shot apply_before s = (Inl e, t)"
  shows "disk t = disk s"
proof -
  have *: "mint_locked env r one_shot apply_before =
      bnd (load_document (e_host env))
       (\<lambda>document. seq (ensure (case one_shot of None \<Rightarrow> True | Some p \<Rightarrow> \<not> already_attested p document) CeremonyError)
       (seq (past_deadline env apply_before)
       (bnd (of_result (add_delivery (e_host env) document r))
          (\<lambda>(new, result, pruned). seq (ensure (result = Added) CeremonyError)
             (seq (save_document (e_host env) new) (ret pruned))))))"
    by (simp add: mint_locked_def past_deadline_def)
  have keeps: "keeps_file (past_deadline env apply_before)"
    using assms(1) unfolding keeps_file_def past_deadline_def by (auto intro!: ceremony_rules)
  show ?thesis
    using assms(2) unfolding *
    by (auto simp: run_simps load_document_eq ensure_def of_check_def require_def
        dest: keeps_fileD [OF keeps] save_document_Inl split: sum.splits prod.splits if_splits option.splits)
qed

end
