(* ===== verification/MachineGuard.thy ===== *)
theory MachineGuard
  imports MachineProgress
begin

text \<open>
  The effects of the machine happen under an executing receipt that is on disk: the
  machine over its transport and the machine over a transport that checks the stored
  record before a commit, a push or the creation of a pull request are the same function.
  And what a revocation stops, and what it does not.
\<close>

section \<open>A transport that checks\<close>

text \<open>The stored record holds an executing receipt for the step, the step is the one its
  phase selects and an authorized action, and it is not revoked.\<close>

definition licensed :: "host \<Rightarrow> str \<Rightarrow> step \<Rightarrow> stored_file \<Rightarrow> bool" where
  "licensed h i s f \<longleftrightarrow>
     (case stored h i f of
        None \<Rightarrow> False
      | Some d \<Rightarrow> executing_receipt d s \<noteq> None \<and> \<not> is_revoked d
          \<and> s \<in> set (a_allowed_actions (d_authority d))
          \<and> step_for_phase (a_mode (d_authority d)) (d_phase d) = Some s)"

definition only_if :: "(stored_file \<Rightarrow> bool) \<Rightarrow> ('w sys, 'a) act \<Rightarrow> ('w sys, 'a) act" where
  "only_if P m = (\<lambda>s. if P (disk s) then m s else (Inl (MachineError ''unlicensed effect''), s))"

definition checked_transport :: "host \<Rightarrow> str \<Rightarrow> 'w sys transport \<Rightarrow> 'w sys transport" where
  "checked_transport h i tr =
     tr\<lparr>t_commit := (\<lambda>path name email message. only_if (licensed h i COMMIT) (t_commit tr path name email message)),
        t_push := (\<lambda>path remote src dst. only_if (licensed h i PUSH) (t_push tr path remote src dst)),
        t_gh_pr_create := (\<lambda>owner repo hd_branch base title body.
          only_if (licensed h i PR_CREATE) (t_gh_pr_create tr owner repo hd_branch base title body))\<rparr>"

definition checked_env :: "str \<Rightarrow> 'w env \<Rightarrow> 'w env" where
  "checked_env i env = env\<lparr>e_transport := checked_transport (e_host env) i (e_transport env)\<rparr>"

lemma checked_env_simps [simp]:
  "e_host (checked_env i env) = e_host env" "e_clock (checked_env i env) = e_clock env"
  "e_token (checked_env i env) = e_token env" "e_detail (checked_env i env) = e_detail env"
  "e_repr (checked_env i env) = e_repr env"
  by (simp_all add: checked_env_def)

lemma checked_reads [simp]:
  "t_toplevel (e_transport (checked_env i env)) = t_toplevel (e_transport env)"
  "t_git_dir (e_transport (checked_env i env)) = t_git_dir (e_transport env)"
  "t_rev_parse (e_transport (checked_env i env)) = t_rev_parse (e_transport env)"
  "t_symbolic_ref_head (e_transport (checked_env i env)) = t_symbolic_ref_head (e_transport env)"
  "t_remote_url (e_transport (checked_env i env)) = t_remote_url (e_transport env)"
  "t_remote_fetch_url (e_transport (checked_env i env)) = t_remote_fetch_url (e_transport env)"
  "t_remote_push_url (e_transport (checked_env i env)) = t_remote_push_url (e_transport env)"
  "t_status_porcelain (e_transport (checked_env i env)) = t_status_porcelain (e_transport env)"
  "t_worktree_status_z (e_transport (checked_env i env)) = t_worktree_status_z (e_transport env)"
  "t_diff_index_raw (e_transport (checked_env i env)) = t_diff_index_raw (e_transport env)"
  "t_diff_tree_raw (e_transport (checked_env i env)) = t_diff_tree_raw (e_transport env)"
  "t_staged_diff_sha256 (e_transport (checked_env i env)) = t_staged_diff_sha256 (e_transport env)"
  "t_write_tree (e_transport (checked_env i env)) = t_write_tree (e_transport env)"
  "t_commit_parents (e_transport (checked_env i env)) = t_commit_parents (e_transport env)"
  "t_ls_remote (e_transport (checked_env i env)) = t_ls_remote (e_transport env)"
  "t_is_ancestor (e_transport (checked_env i env)) = t_is_ancestor (e_transport env)"
  "t_fetch_ref (e_transport (checked_env i env)) = t_fetch_ref (e_transport env)"
  "t_read_tree_two_way (e_transport (checked_env i env)) = t_read_tree_two_way (e_transport env)"
  "t_update_ref (e_transport (checked_env i env)) = t_update_ref (e_transport env)"
  "t_run_reverification (e_transport (checked_env i env)) = t_run_reverification (e_transport env)"
  "t_gh_pr_list (e_transport (checked_env i env)) = t_gh_pr_list (e_transport env)"
  "t_gh_pr_view (e_transport (checked_env i env)) = t_gh_pr_view (e_transport env)"
  "t_gh_check_runs (e_transport (checked_env i env)) = t_gh_check_runs (e_transport env)"
  by (simp_all add: checked_env_def checked_transport_def)

text \<open>Everything that is no effect is the same over both.\<close>

lemma first_ref_checked: "first_ref (checked_env i env) path names = first_ref env path names"
proof (induction names)
  case (Cons name names)
  then show ?case unfolding first_ref.simps checked_reads by (rule arg_cong)
qed simp

lemma core_checked:
  "persist (checked_env i env) = persist env" "refresh (checked_env i env) = refresh env"
  "transition (checked_env i env) p = transition env p"
  unfolding persist_def refresh_def transition_def checked_env_simps by (rule refl)+

lemma outcome_checked:
  "start (checked_env i env) st b = start env st b" "succeed (checked_env i env) st obs p = succeed env st obs p"
  "block_record (checked_env i env) q = block_record env q"
  "retry_record (checked_env i env) os = retry_record env os"
  unfolding start_def succeed_def block_record_def retry_record_def truncated_detail_def
    core_checked checked_env_simps by (rule refl)+

lemma fact_checked:
  "head_oid (checked_env i env) path = head_oid env path"
  "commit_parent_and_tree (checked_env i env) path oid = commit_parent_and_tree env path oid"
  "check_repository (checked_env i env) b = check_repository env b"
  "live_candidate (checked_env i env) base = live_candidate env base"
  "require_update_candidate (checked_env i env) base = require_update_candidate env base"
  "view_pull_request (checked_env i env) n = view_pull_request env n"
  "remote_head (checked_env i env) = remote_head env"
  "pending_history (checked_env i env) = pending_history env"
  "require_one_new_commit (checked_env i env) c p = require_one_new_commit env c p"
  "remote_base (checked_env i env) = remote_base env"
  "prove_disjoint_advance (checked_env i env) o1 o2 = prove_disjoint_advance env o1 o2"
  "base_ci (checked_env i env) oid2 = base_ci env oid2" "reverify (checked_env i env) = reverify env"
  "bound_remote_oid (checked_env i env) b2 = bound_remote_oid env b2"
  "pr_disposition (checked_env i env) h = pr_disposition env h"
  "record_pull_request (checked_env i env) item = record_pull_request env item"
  "complete_delivery (checked_env i env) = complete_delivery env"
  "base_refresh_effect (checked_env i env) o1 o2 = base_refresh_effect env o1 o2"
  unfolding head_oid_def commit_parent_and_tree_def check_repository_def live_candidate_def
      require_update_candidate_def view_pull_request_def remote_head_def pending_history_def
      require_one_new_commit_def remote_base_def prove_disjoint_advance_def base_ci_def reverify_def
      bound_remote_oid_def pr_disposition_def record_pull_request_def complete_delivery_def
      base_refresh_effect_def Let_def checked_reads checked_env_simps first_ref_checked core_checked
  by (rule refl)+

lemma part_checked:
  "require_pr_update_identity (checked_env i env) hd1 = require_pr_update_identity env hd1"
  "require_no_pending_history (checked_env i env) = require_no_pending_history env"
  "finish_base_refresh (checked_env i env) nb = finish_base_refresh env nb"
  "observe_commit (checked_env i env) b = observe_commit env b"
  "handle_post_commit_advance (checked_env i env) oid = handle_post_commit_advance env oid"
  "observe_push (checked_env i env) b = observe_push env b"
  "adopt_pr (checked_env i env) item bb = adopt_pr env item bb"
  unfolding require_pr_update_identity_def require_no_pending_history_def finish_base_refresh_def
      observe_commit_def handle_post_commit_advance_def observe_push_def adopt_pr_def Let_def
      checked_reads checked_env_simps core_checked outcome_checked fact_checked
  by (rule refl)+

lemma step_checked:
  "fresh_base_refresh (checked_env i env) = fresh_base_refresh env"
  "reconcile_base_refresh (checked_env i env) r = reconcile_base_refresh env r"
  "reconcile_commit (checked_env i env) r = reconcile_commit env r"
  "commit_checks (checked_env i env) c = commit_checks env c"
  "reconcile_push (checked_env i env) r = reconcile_push env r"
  "expected_old_oid (checked_env i env) oid = expected_old_oid env oid"
  "reconcile_pr_create (checked_env i env) r = reconcile_pr_create env r"
  "observe_pr_update (checked_env i env) = observe_pr_update env"
  "revoked_outcome (checked_env i env) now = revoked_outcome env now"
  unfolding fresh_base_refresh_def reconcile_base_refresh_def reconcile_commit_def
    commit_checks_def reconcile_push_def expected_old_oid_def pr_update_push_old_oid_def
    reconcile_pr_create_def observe_pr_update_def revoked_outcome_def Let_def
    checked_reads checked_env_simps core_checked outcome_checked fact_checked part_checked
  by (rule refl)+

lemma drive_checked:
  "step_base_refresh (checked_env i env) = step_base_refresh env"
  "settle_failure (checked_env i env) os e = settle_failure env os e"
  unfolding step_base_refresh_def settle_failure_def fact_checked step_checked outcome_checked checked_env_simps
  by (rule refl)+

section \<open>The effects\<close>

text \<open>Two computations that agree on the states of an invariant.\<close>

definition agree :: "('s \<Rightarrow> bool) \<Rightarrow> ('s, 'a) act \<Rightarrow> ('s, 'a) act \<Rightarrow> bool" where
  "agree I m k \<longleftrightarrow> (\<forall>s. I s \<longrightarrow> m s = k s)"

lemma agree_refl [simp]: "agree I m m"
  by (simp add: agree_def)

lemma agree_bnd: "preserves I m \<Longrightarrow> (\<And>x. agree I (k x) (k' x)) \<Longrightarrow> agree I (bnd m k) (bnd m k')"
  by (auto simp: agree_def bnd_def split: prod.splits sum.splits dest: preservesD)

lemma agree_seq: "preserves I m \<Longrightarrow> agree I k k' \<Longrightarrow> agree I (seq m k) (seq m k')"
  unfolding seq_def by (intro agree_bnd)

lemma agree_seq_left: "agree I m m' \<Longrightarrow> agree I (seq m k) (seq m' k)"
  by (simp add: agree_def seq_eq)

lemma agree_if: "agree I m m' \<Longrightarrow> agree I k k' \<Longrightarrow> agree I (if b then m else k) (if b then m' else k')"
  by simp

lemma agree_case: "agree I m m' \<Longrightarrow> (\<And>y. agree I (f y) (f' y)) \<Longrightarrow>
  agree I (case x of None \<Rightarrow> m | Some y \<Rightarrow> f y) (case x of None \<Rightarrow> m' | Some y \<Rightarrow> f' y)"
  by (cases x) simp_all

lemma agree_handle: "agree I m m' \<Longrightarrow> agree I (handle m k) (handle m' k)"
  by (simp add: agree_def handle_eq)

text \<open>The working copy is the record \<open>i\<close>.\<close>

definition is_record :: "authority \<Rightarrow> delivery \<Rightarrow> bool" where
  "is_record a d \<longleftrightarrow> d_authority d = a"

interpretation ir: record_invariant env "\<lambda>_. True" "is_record a" for env :: "'w env" and a
  by unfold_locales (auto simp: preserves_def is_record_def apply_transition_Inr)

abbreviation on_this :: "authority \<Rightarrow> 'w st \<Rightarrow> bool" where
  "on_this a \<equiv> holds (is_record a) (\<lambda>_. True)"

text \<open>What a start that returns has established.\<close>

lemma refresh_False:
  assumes "refresh env s = (Inr False, t)"
  obtains fresh where
    "stored (e_host env) (record_id (working s)) (disk (ssys s)) = Some fresh"
    "working t = (working s)\<lparr>d_revocation := d_revocation fresh\<rparr>" "\<not> is_revoked fresh"
    "\<exists>now u. e_clock env (ssys s) = (Inr now, u) \<and> ssys t = u \<and> \<not> is_expired (working t) now"
proof -
  obtain fresh now u where *:
    "stored (e_host env) (record_id (working s)) (disk (ssys s)) = Some fresh"
    "\<not> is_revoked (working s\<lparr>d_revocation := d_revocation fresh\<rparr>)"
    "e_clock env (ssys s) = (Inr now, u)" "\<not> is_expired (working s\<lparr>d_revocation := d_revocation fresh\<rparr>) now"
    "t = s\<lparr>working := (working s)\<lparr>d_revocation := d_revocation fresh\<rparr>, ssys := u\<rparr>"
    using assms
    by (auto simp: refresh_def bnd_Inr seq_Inr lift_Inr m_load_Inr split: if_splits)
  then show thesis by (intro that [of fresh]) (auto simp: is_revoked_def)
qed

lemma start_Inr:
  assumes "start env st b s = (Inr x, t)"
  obtains token now1 r s1 s2 where
    "derive (e_host env) token (working s) st b now1 = Inr r"
    "working s2 = set_entry st (start_entry r) (working s)"
    "persist env s2 = (Inr (), s1)" "refresh env s1 = (Inr False, t)"
proof -
  from assms obtain now1 u1 token u2 r s1 stop v where *:
    "derive (e_host env) token (working s) st b now1 = Inr r"
    "persist env (s\<lparr>ssys := u2, working := set_entry st (start_entry r) (working s)\<rparr>) = (Inr (), s1)"
    "refresh env s1 = (Inr stop, v)" "\<not> stop" "v = t"
    by (auto simp: start_def bnd_Inr seq_Inr lift_Inr split: if_splits)
  then show thesis by (intro that) auto
qed

lemma quiet_step: "quiet env \<Longrightarrow> e_clock env s = (r, t) \<Longrightarrow> disk t = disk s"
  by (auto simp: quiet_def surroundings_preserve_def dest: preservesD)

lemma start_licensed:
  assumes "quiet env" "start env st b s = (Inr x, t)"
  shows "licensed (e_host env) (record_id (working s)) st (disk (ssys t))"
proof -
  from assms(2) obtain token now1 r s1 s2 where *:
    "derive (e_host env) token (working s) st b now1 = Inr r"
    "working s2 = set_entry st (start_entry r) (working s)"
    "persist env s2 = (Inr (), s1)" "refresh env s1 = (Inr False, t)"
    by (rule start_Inr)
  from *(3) obtain now2 where w: "working s1 = (working s2)\<lparr>d_updated_at := now2\<rparr>" and "saved env s1"
    by (rule persist_Inr)
  then have kept: "stored (e_host env) (record_id (working s1)) (disk (ssys s1)) = Some (working s1)"
    by (simp add: saved_def)
  from *(4) obtain fresh where
    "stored (e_host env) (record_id (working s1)) (disk (ssys s1)) = Some fresh" "\<not> is_revoked fresh"
    "\<exists>now u. e_clock env (ssys s1) = (Inr now, u) \<and> ssys t = u \<and> \<not> is_expired (working t) now"
    by (rule refresh_False)
  then have "\<not> is_revoked (working s1)" "disk (ssys t) = disk (ssys s1)"
    using kept assms(1) by (auto dest: quiet_step)
  moreover have "precondition_problem (working s) st now1 = None"
    using *(1) by (rule derive_cases)
  ultimately show ?thesis
    using kept w *(2)
    by (auto simp: licensed_def precondition_None executing_receipt_Some start_entry_def record_id_def
        executing_receipt_def)
qed

definition licensed_for :: "'w env \<Rightarrow> authority \<Rightarrow> step \<Rightarrow> 'w st \<Rightarrow> bool" where
  "licensed_for env a st = holds (is_record a) (\<lambda>y. licensed (e_host env) (a_delivery_id a) st (disk y))"

lemma agree_start:
  assumes "quiet env" "agree (licensed_for env a st) k k'"
  shows "agree (on_this a) (seq (start env st b) k) (seq (start env st b) k')"
proof -
  have "k t = k' t" if s: "on_this a s" and run: "start env st b s = (Inr x, t)" for s x t
  proof -
    from s ir.start_inv [of a env st b] have "on_this a t"
      using run by (auto dest: preservesD)
    moreover from start_licensed [OF assms(1) run] s
    have "licensed (e_host env) (a_delivery_id a) st (disk (ssys t))"
      by (simp add: holds_def is_record_def record_id_def)
    ultimately show ?thesis using assms(2) by (simp add: agree_def licensed_for_def holds_def)
  qed
  then show ?thesis by (auto simp: agree_def seq_eq split: prod.splits sum.splits)
qed

lemma checked_effects:
  "t_commit (e_transport (checked_env i env)) path name email message =
     only_if (licensed (e_host env) i COMMIT) (t_commit (e_transport env) path name email message)"
  "t_push (e_transport (checked_env i env)) path remote src dst =
     only_if (licensed (e_host env) i PUSH) (t_push (e_transport env) path remote src dst)"
  "t_gh_pr_create (e_transport (checked_env i env)) owner repo hd_branch base title body =
     only_if (licensed (e_host env) i PR_CREATE) (t_gh_pr_create (e_transport env) owner repo hd_branch base title body)"
  by (simp_all add: checked_env_def checked_transport_def)

lemma agree_lift:
  "agree (licensed_for env a st) (lift (only_if (licensed (e_host env) (a_delivery_id a) st) m)) (lift m)"
  by (simp add: agree_def licensed_for_def holds_def lift_def only_if_def)

lemma licensed_reads:
  "preserves (licensed_for env a st) (gets f)" "preserves (licensed_for env a st) (of_result r)"
  by (simp_all add: preserves_def)

lemma agree_as_retry: "agree I m m' \<Longrightarrow> agree I (as_retry m) (as_retry m')"
  unfolding as_retry_def by (rule agree_handle)

lemma agree_commit_effect:
  "agree (licensed_for env a COMMIT) (commit_effect (checked_env (a_delivery_id a) env) c) (commit_effect env c)"
  unfolding commit_effect_def Let_def checked_effects checked_reads checked_env_simps fact_checked
  by (intro agree_bnd agree_handle agree_lift licensed_reads)

lemma agree_push_effect:
  "agree (licensed_for env a PUSH) (push_effect (checked_env (a_delivery_id a) env)) (push_effect env)"
  unfolding push_effect_def checked_effects
  by (intro agree_bnd agree_as_retry agree_lift licensed_reads)

lemma agree_pr_create_effect:
  "agree (licensed_for env a PR_CREATE) (pr_create_effect (checked_env (a_delivery_id a) env)) (pr_create_effect env)"
  unfolding pr_create_effect_def Let_def checked_effects
  by (intro agree_bnd agree_seq_left agree_as_retry agree_lift licensed_reads)

lemma holds_lift: "preserves K m \<Longrightarrow> preserves (holds W K) (lift m)"
  by (intro preservesI) (auto simp: holds_def lift_def split: prod.splits dest: preservesD)

lemma disposition_licensed: "quiet env \<Longrightarrow> preserves (licensed_for env a st) (pr_disposition env h)"
proof -
  assume "quiet env"
  then have "surroundings_preserve (\<lambda>y. licensed (e_host env) (a_delivery_id a) st (disk y)) env"
    by (rule quiet_preserve)
  then have "preserves (\<lambda>y. licensed (e_host env) (a_delivery_id a) st (disk y))
      (t_gh_pr_list (e_transport env) x1 x2 x3 x4)" for x1 x2 x3 x4
    by (intro transport_callsD) (simp add: surroundings_preserve_def)
  then have "preserves (licensed_for env a st) (lift (t_gh_pr_list (e_transport env) x1 x2 x3 x4))" for x1 x2 x3 x4
    unfolding licensed_for_def by (intro holds_lift)
  then show ?thesis
    unfolding pr_disposition_def Let_def
    by (intro preserves_bnd licensed_reads)
qed

section \<open>The steps and the drive\<close>

lemma agree_fresh_commit:
  "quiet env \<Longrightarrow> agree (on_this a) (fresh_commit (checked_env (a_delivery_id a) env)) (fresh_commit env)"
  unfolding fresh_commit_def Let_def checked_env_simps checked_reads fact_checked step_checked outcome_checked
    part_checked
  by (intro agree_bnd agree_seq agree_start agree_seq_left agree_commit_effect ir.inv_rules ir.fact_inv)
     (simp add: commit_checks_def, intro ir.inv_rules ir.fact_inv)

lemma agree_step_commit:
  "quiet env \<Longrightarrow> agree (on_this a) (step_commit (checked_env (a_delivery_id a) env)) (step_commit env)"
  unfolding step_commit_def fact_checked step_checked
  by (intro agree_seq agree_bnd agree_case agree_if agree_refl agree_fresh_commit
      ir.inv_rules ir.fact_inv ir.reconcile_commit_inv)

lemma agree_fresh_push:
  "quiet env \<Longrightarrow> agree (on_this a) (fresh_push (checked_env (a_delivery_id a) env) oid) (fresh_push env oid)"
  unfolding fresh_push_def fact_checked step_checked outcome_checked part_checked
  by (intro agree_seq agree_bnd agree_if agree_refl agree_start agree_seq_left agree_push_effect
      ir.inv_rules ir.fact_inv ir.expected_old_inv)

lemma agree_step_push:
  "quiet env \<Longrightarrow> agree (on_this a) (step_push (checked_env (a_delivery_id a) env)) (step_push env)"
  unfolding step_push_def fact_checked step_checked
  by (intro agree_seq agree_bnd agree_case agree_if agree_refl agree_fresh_push
      ir.inv_rules ir.fact_inv ir.reconcile_push_inv)

lemma agree_fresh_pr_create:
  "quiet env \<Longrightarrow> agree (on_this a) (fresh_pr_create (checked_env (a_delivery_id a) env) h) (fresh_pr_create env h)"
  unfolding fresh_pr_create_def checked_env_simps fact_checked step_checked outcome_checked part_checked
  by (intro agree_seq agree_bnd agree_start agree_case agree_refl agree_seq_left agree_pr_create_effect
      disposition_licensed ir.inv_rules ir.fact_inv ir.post_commit_inv)

lemma agree_step_pr_create:
  "quiet env \<Longrightarrow> agree (on_this a) (step_pr_create (checked_env (a_delivery_id a) env)) (step_pr_create env)"
  unfolding step_pr_create_def fact_checked step_checked
  by (intro agree_seq agree_bnd agree_case agree_if agree_refl agree_fresh_pr_create
      ir.inv_rules ir.fact_inv ir.reconcile_pr_create_inv)

lemma agree_run_step:
  "quiet env \<Longrightarrow> agree (on_this a) (run_step (checked_env (a_delivery_id a) env) os) (run_step env os)"
  by (cases os; cases "the os")
     (simp_all add: run_step_def drive_checked step_checked agree_step_commit agree_step_push
       agree_step_pr_create)

lemma agree_advance_loaded:
  "quiet env \<Longrightarrow> agree (on_this a) (advance_loaded (checked_env (a_delivery_id a) env) now) (advance_loaded env now)"
  unfolding advance_loaded_def drive_step_def drive_checked step_checked outcome_checked
  by (intro agree_bnd agree_if agree_refl agree_handle agree_seq_left agree_run_step ir.inv_rules)

lemma advance_once_checked:
  assumes "quiet env"
  shows "advance_once (checked_env i env) i x s = advance_once env i x s"
proof -
  have "on_record d (advance_loaded (checked_env i env) now) = on_record d (advance_loaded env now)"
    if "stored (e_host env) i (disk s) = Some d" for d now
  proof -
    have "a_delivery_id (d_authority d) = i" using stored_id [OF that] by (simp add: record_id_def)
    with agree_advance_loaded [OF assms, of "d_authority d" now] show ?thesis
      by (auto simp: agree_def on_record_def holds_def is_record_def)
  qed
  then show ?thesis
    unfolding advance_once_def checked_env_simps bnd_eq [of "m_load (e_host env) i"]
    by (cases "m_load (e_host env) i s"; cases "fst (m_load (e_host env) i s)")
       (auto simp: m_load_Inr seq_eq bnd_eq split: prod.splits sum.splits)
qed

section \<open>Revocation\<close>

text \<open>Where the stored record is revoked when a round loads it, the round makes no transport
  call at all.\<close>

lemma advance_once_revoked:
  assumes "stored (e_host env) i (disk s) = Some d" "is_revoked d" "d_phase d \<notin> set TERMINAL_PHASES"
  shows "advance_once (env\<lparr>e_transport := tr\<rparr>) i x s = advance_once env i x s"
    and "advance_once env i x s = (Inr r, t) \<Longrightarrow> r = OUTCOME_REVOKED"
proof -
  have load: "m_load (e_host env) i s = (Inr d, s)" using assms(1) by (simp add: m_load_Inr)
  have loaded: "advance_loaded e now \<lparr>working = d, ssys = u\<rparr> = revoked_outcome e now \<lparr>working = d, ssys = u\<rparr>"
    for e :: "'a env" and now u
    using assms by (simp add: advance_loaded_def bnd_eq)
  have same: "revoked_outcome (env\<lparr>e_transport := tr\<rparr>) now = revoked_outcome env now" for now
    unfolding revoked_outcome_def persist_def by simp
  show "advance_once (env\<lparr>e_transport := tr\<rparr>) i x s = advance_once env i x s"
    by (simp add: advance_once_def bnd_eq [of "m_load (e_host env) i"] load on_record_def loaded same)
  show "advance_once env i x s = (Inr r, t) \<Longrightarrow> r = OUTCOME_REVOKED"
    by (auto simp: advance_once_def bnd_Inr seq_Inr load m_load_Inr assms(1) on_record_Inr loaded
        revoked_outcome_def)
qed

text \<open>Where another process has revoked the record by the time the machine has persisted the
  receipt as executing, the start raises.\<close>

lemma refresh_revoked:
  assumes "stored (e_host env) (record_id (working s)) (disk (ssys s)) = Some fresh" "is_revoked fresh"
  shows "refresh env s = (Inr True, s\<lparr>working := (working s)\<lparr>d_revocation := d_revocation fresh\<rparr>\<rparr>)"
  using assms
  by (simp add: refresh_def bnd_eq seq_eq lift_def m_load_def load_document_def stored_def is_revoked_def
      split: sum.splits option.splits) auto

end
