(* ===== verification/MachineSteps.thy ===== *)
theory MachineSteps
  imports MachineGuard
begin

text \<open>
  What the steps establish when they return: the facts that the transport reported. A fact
  is stated as an answer: a call and two states such that the call, in the first, returned
  the value and the second.
\<close>

definition answered :: "('s, 'a) act \<Rightarrow> 'a \<Rightarrow> bool" where
  "answered m v \<longleftrightarrow> (\<exists>s t. m s = (Inr v, t))"

lemma lift_answered: "lift m s = (Inr v, t) \<Longrightarrow> answered m v"
  by (auto simp: answered_def lift_Inr)

section \<open>Postconditions of a step\<close>

text \<open>On the record with authority \<open>a\<close>, every return satisfies \<open>Q\<close>.\<close>

definition yields :: "authority \<Rightarrow> ('w st \<Rightarrow> bool) \<Rightarrow> ('w st, 'a) act \<Rightarrow> bool" where
  "yields a Q m \<longleftrightarrow> (\<forall>s x t. on_this a s \<longrightarrow> m s = (Inr x, t) \<longrightarrow> Q t)"

definition yields_if :: "authority \<Rightarrow> ('w st \<Rightarrow> bool) \<Rightarrow> ('w st, bool) act \<Rightarrow> bool" where
  "yields_if a Q m \<longleftrightarrow> (\<forall>s t. on_this a s \<longrightarrow> m s = (Inr True, t) \<longrightarrow> Q t)"

lemma yieldsI: "(\<And>s x t. on_this a s \<Longrightarrow> m s = (Inr x, t) \<Longrightarrow> Q t) \<Longrightarrow> yields a Q m"
  by (simp add: yields_def)

lemma yieldsD: "yields a Q m \<Longrightarrow> on_this a s \<Longrightarrow> m s = (Inr x, t) \<Longrightarrow> Q t"
  by (simp add: yields_def)

lemma yields_bnd: "preserves (on_this a) m \<Longrightarrow> (\<And>x. yields a Q (k x)) \<Longrightarrow> yields a Q (bnd m k)"
  by (intro yieldsI) (auto simp: bnd_Inr dest: preservesD yieldsD)

lemma yields_seq: "preserves (on_this a) m \<Longrightarrow> yields a Q k \<Longrightarrow> yields a Q (seq m k)"
  unfolding seq_def by (intro yields_bnd)

lemma yields_basic: "yields a Q (throw e)"
  "(b \<Longrightarrow> yields a Q m) \<Longrightarrow> (\<not> b \<Longrightarrow> yields a Q k) \<Longrightarrow> yields a Q (if b then m else k)"
  "(x = None \<Longrightarrow> yields a Q m) \<Longrightarrow> (\<And>y. x = Some y \<Longrightarrow> yields a Q (f y)) \<Longrightarrow>
     yields a Q (case x of None \<Rightarrow> m | Some y \<Rightarrow> f y)"
  "(\<And>p q. z = (p, q) \<Longrightarrow> yields a Q (g p q)) \<Longrightarrow> yields a Q (case z of (p, q) \<Rightarrow> g p q)"
  by (auto simp: yields_def split: option.splits prod.splits)

lemma yields_if_rules:
  "yields_if a Q (throw e)" "yields_if a Q (ret False)" "yields a Q m \<Longrightarrow> yields_if a Q (seq m (ret True))"
  "preserves (on_this a) n \<Longrightarrow> (\<And>x. yields_if a Q (k x)) \<Longrightarrow> yields_if a Q (bnd n k)"
  "preserves (on_this a) n \<Longrightarrow> yields_if a Q k' \<Longrightarrow> yields_if a Q (seq n k')"
  "(b \<Longrightarrow> yields_if a Q k') \<Longrightarrow> (\<not> b \<Longrightarrow> yields_if a Q k'') \<Longrightarrow> yields_if a Q (if b then k' else k'')"
  "(\<And>p q. z = (p, q) \<Longrightarrow> yields_if a Q (g p q)) \<Longrightarrow> yields_if a Q (case z of (p, q) \<Rightarrow> g p q)"
  by (auto simp: yields_if_def seq_Inr bnd_Inr dest: yieldsD preservesD split: prod.splits)

lemma yields_settle:
  "preserves (on_this a) m \<Longrightarrow> yields_if a Q m \<Longrightarrow> yields a Q k \<Longrightarrow> yields a Q (bnd m (\<lambda>b. if b then ret () else k))"
  by (intro yieldsI) (auto simp: bnd_Inr yields_if_def dest: preservesD yieldsD split: if_splits)

section \<open>COMMIT\<close>

text \<open>The commit that a COMMIT step has delivered, and what the transport said about it.\<close>

definition delivered_commit :: "'w env \<Rightarrow> authority \<Rightarrow> 'w st \<Rightarrow> bool" where
  "delivered_commit env a t \<longleftrightarrow>
     (let path = rp_realpath (a_repository a); tr = e_transport env in
      \<exists>oid before tree raw entries.
        answered (t_rev_parse tr path ''HEAD'') (Some oid)
        \<and> answered (t_rev_parse tr path (oid @ ''^1'')) (Some before)
        \<and> answered (t_rev_parse tr path (oid @ ''^{tree}'')) (Some tree)
        \<and> (a_mode a = PR_UPDATE \<longrightarrow> answered (t_commit_parents tr path oid) [bl_sha (a_baseline a)])
        \<and> answered (t_diff_tree_raw tr path before oid) raw
        \<and> parse_raw_z raw = Inr entries \<and> compare_candidates (cd_entries (a_candidate a)) entries = None
        \<and> d_phase (working t) = COMMITTED \<and> saved env t
        \<and> (\<forall>r. se_receipt (d_steps (working t) COMMIT) = Some r \<longrightarrow>
             rc_state r = RECEIPT_SUCCEEDED \<and> rc_observed r = Some [(''commit_oid'', JStr oid)]))"

lemma succeed_Inr:
  assumes "succeed env st observed p s = (Inr x, t)"
  shows "d_phase (working t) = p" "saved env t" "d_authority (working t) = d_authority (working s)"
    and "se_receipt (d_steps (working t) st) = Some r \<Longrightarrow>
           rc_state r = RECEIPT_SUCCEEDED \<and> rc_observed r = Some observed"
proof -
  from assms obtain u v y z where u: "alter (set_entry st (succeed_entry observed)) s = (Inr y, u)"
    "transition env p u = (Inr z, v)" "persist env v = (Inr x, t)"
    by (auto simp: succeed_def seq_Inr)
  from u(2) obtain n1 where v: "working v = (working u)\<lparr>d_phase := p, d_updated_at := n1\<rparr>"
    by (rule transition_Inr)
  from u(3) obtain n2 where t: "working t = (working v)\<lparr>d_updated_at := n2\<rparr>" "saved env t"
    by (rule persist_Inr)
  from u v t show "d_phase (working t) = p" "saved env t" "d_authority (working t) = d_authority (working s)"
    by auto
  from u v t show "se_receipt (d_steps (working t) st) = Some r \<Longrightarrow>
           rc_state r = RECEIPT_SUCCEEDED \<and> rc_observed r = Some observed"
    by (auto simp: succeed_entry_def)
qed

lemma observe_commit_yields: "yields a (delivered_commit env a) (observe_commit env binding)"
proof (rule yieldsI)
  fix s x t
  assume s: "on_this a s" and run: "observe_commit env binding s = (Inr x, t)"
  let ?path = "rp_realpath (a_repository a)" and ?tr = "e_transport env"
  have a: "d_authority (working s) = a" using s by (simp add: holds_def is_record_def)
  from run a obtain oid tree raw entries s1 s2 s3 s4 s5 where *:
    "lift (t_rev_parse ?tr ?path ''HEAD'') s = (Inr (Some oid), s1)"
    "lift (t_rev_parse ?tr ?path (oid @ ''^1'')) s1 = (Inr (Some (binding_str ''head_before'' binding)), s2)"
    "lift (t_rev_parse ?tr ?path (oid @ ''^{tree}'')) s2 = (Inr (Some tree), s3)"
    "(if a_mode a = PR_UPDATE then require_one_new_commit env oid (bl_sha (a_baseline a)) else ret ()) s3 = (Inr (), s4)"
    "lift (t_diff_tree_raw ?tr ?path (binding_str ''head_before'' binding) oid) s4 = (Inr raw, s5)"
    "parse_raw_z raw = Inr entries"
    "seq (require_candidate_matches entries) (succeed env COMMIT [(''commit_oid'', JStr oid)] COMMITTED) s5 = (Inr x, t)"
    by (auto simp: observe_commit_def bnd_Inr seq_Inr head_oid_def commit_parent_and_tree_def record_path_def
        is_update_def approved_head_def Let_def split: option.splits cong: if_cong)
  have parents: "answered (t_commit_parents ?tr ?path oid) [bl_sha (a_baseline a)]" if "a_mode a = PR_UPDATE"
  proof -
    have "on_this a s3"
      using * a by (auto simp: lift_Inr holds_def is_record_def)
    with *(4) that show ?thesis
      by (auto simp: require_one_new_commit_def bnd_Inr record_path_def holds_def is_record_def
          dest!: lift_answered)
  qed
  have "d_authority (working s5) = a"
  proof -
    have "on_this a s3" using * a by (auto simp: lift_Inr holds_def is_record_def)
    then have "on_this a s4" using *(4) ir.one_commit_inv [of a env] by (auto split: if_splits dest: preservesD)
    with *(5) show ?thesis by (auto simp: lift_Inr holds_def is_record_def)
  qed
  with *(7) obtain s6 where "compare_candidates (cd_entries (a_candidate a)) entries = None"
    "succeed env COMMIT [(''commit_oid'', JStr oid)] COMMITTED s6 = (Inr x, t)"
    by (auto simp: seq_Inr require_candidate_matches_def bnd_Inr split: option.splits)
  with * parents show "delivered_commit env a t"
    unfolding delivered_commit_def Let_def
    by (blast intro: lift_answered succeed_Inr dest: succeed_Inr)
qed

lemma step_commit_yields: "yields a (delivered_commit env a) (step_commit env)"
proof -
  have fresh: "yields a (delivered_commit env a) (fresh_commit env)"
    unfolding fresh_commit_def commit_checks_def Let_def
    by (intro yields_bnd yields_seq observe_commit_yields ir.inv_rules ir.fact_inv ir.core_inv
        ir.commit_effect_inv)
  have "yields_if a (delivered_commit env a) (reconcile_commit env r)" for r
    unfolding reconcile_commit_def Let_def
    by (intro yields_if_rules observe_commit_yields ir.inv_rules ir.fact_inv ir.core_inv)
  with fresh show ?thesis
    unfolding step_commit_def
    by (intro yields_seq yields_bnd yields_basic yields_settle ir.inv_rules ir.fact_inv ir.reconcile_commit_inv)
qed

section \<open>The end of an update\<close>

definition observed_update :: "'w env \<Rightarrow> authority \<Rightarrow> 'w st \<Rightarrow> bool" where
  "observed_update env a t \<longleftrightarrow>
     (let tr = e_transport env; repository = a_repository a in
      \<exists>oid viewed number.
        answered (t_ls_remote tr (rp_realpath repository) (rm_name (a_remote a)) (bp_ref (a_source a))) (Some oid)
        \<and> answered (t_gh_pr_view tr (rp_owner repository) (rp_repo repository) number) viewed
        \<and> pr_update_identity_problem viewed (rp_url repository) number (bp_branch (a_source a))
             (bp_branch (a_target_base a)) oid = None
        \<and> (case a_pull_request_number a of Some n \<Rightarrow> number = n | None \<Rightarrow> number = 0)
        \<and> d_phase (working t) = COMPLETE \<and> saved env t)"

lemma complete_Inr:
  assumes "complete_delivery env s = (Inr x, t)"
  shows "d_phase (working t) = COMPLETE \<and> saved env t"
proof -
  from assms obtain u y where u: "transition env COMPLETE s = (Inr y, u)" "persist env u = (Inr x, t)"
    by (auto simp: complete_delivery_def seq_Inr)
  from u(1) obtain n1 where "working u = (working s)\<lparr>d_phase := COMPLETE, d_updated_at := n1\<rparr>"
    by (rule transition_Inr)
  moreover from u(2) obtain n2 where "working t = (working u)\<lparr>d_updated_at := n2\<rparr>" "saved env t"
    by (rule persist_Inr)
  ultimately show ?thesis by simp
qed

lemma observe_pr_update_yields: "yields a (observed_update env a) (observe_pr_update env)"
proof (rule yieldsI)
  fix s x t
  assume s: "on_this a s" and run: "observe_pr_update env s = (Inr x, t)"
  let ?tail = "\<lambda>oid. bnd (remote_head env)
         (\<lambda>remote. seq (ensure (remote = Some oid) (Block PROBLEM_UNEXPECTED_REF_MOVEMENT))
         (bnd (gets update_number)
           (\<lambda>number. bnd (view_pull_request env number)
           (\<lambda>viewed. bnd (gets (\<lambda>d. (identity_problem viewed oid d, approved_head d)))
           (\<lambda>(problem, approved).
              if problem = Some PROBLEM_PR_HEAD_DRIFT \<and> jget ''headRefOid'' viewed = JStr approved
              then throw Retry
              else (case problem of
                 Some p \<Rightarrow> throw (Block p)
               | None \<Rightarrow> seq (record_pull_request env viewed) (complete_delivery env)))))))"
  from run obtain u oid v where u: "check_repository env False s = (Inr (), u)" "commit_oid u = (Inr oid, v)"
    "?tail oid v = (Inr x, t)"
    unfolding observe_pr_update_def by (auto simp: seq_Inr bnd_Inr [of "commit_oid"])
  have "on_this a u" using s u(1) by (auto dest: preservesD [OF ir.check_repository_inv])
  then have "on_this a v" using u(2) by (auto dest: preservesD [OF ir.commit_oid_inv])
  then have a: "d_authority (working v) = a" by (simp add: holds_def is_record_def)
  from u(3) obtain s1 viewed s2 s3 y where *: "remote_head env v = (Inr (Some oid), s1)"
    "view_pull_request env (update_number (working s1)) s1 = (Inr viewed, s2)"
    "identity_problem viewed oid (working s2) = None" "complete_delivery env s3 = (Inr x, t)"
    by (auto simp: bnd_Inr seq_Inr split: if_splits option.splits)
  have s1: "d_authority (working s1) = a"
    "answered (t_ls_remote (e_transport env) (rp_realpath (a_repository a)) (rm_name (a_remote a)) (bp_ref (a_source a)))
       (Some oid)"
    using *(1) a by (auto simp: remote_head_def bnd_Inr lift_Inr answered_def)
  have s2: "d_authority (working s2) = a"
    "answered (t_gh_pr_view (e_transport env) (rp_owner (a_repository a)) (rp_repo (a_repository a))
        (update_number (working s1))) viewed"
    using *(2) s1 by (auto simp: view_pull_request_def bnd_Inr lift_Inr answered_def)
  have number: "update_number (working s2) = update_number (working s1)"
    using s1 s2 by (simp add: update_number_def)
  have "case a_pull_request_number a of Some n \<Rightarrow> update_number (working s1) = n | None \<Rightarrow> update_number (working s1) = 0"
    using s1 by (simp add: update_number_def split: option.splits)
  with * s1 s2 number complete_Inr [OF *(4)] show "observed_update env a t"
    unfolding observed_update_def Let_def identity_problem_def by metis
qed

section \<open>PR_CREATE\<close>

lemma disposition_None_iff:
  "disposition_of (matching_prs repr d head_sha items) = Inr None \<longleftrightarrow>
     (\<forall>item \<in> set items.
        jget ''headRefName'' item = JStr (bp_branch (a_source (d_authority d)))
        \<longrightarrow> jget ''baseRefName'' item = JStr (bp_branch (a_target_base (d_authority d)))
        \<longrightarrow> jget ''headRefOid'' item \<noteq> JStr head_sha \<and> lower (py_str repr (jget ''state'' item)) \<noteq> ''open'')"
  by (auto simp: disposition_of_def matching_prs_def Let_def filter_empty_conv)

lemma disposition_Some:
  assumes "disposition_of (matching_prs repr d head_sha items) = Inr (Some item)"
  shows "item \<in> set items" "jget ''headRefOid'' item = JStr head_sha"
    and "jget ''headRefName'' item = JStr (bp_branch (a_source (d_authority d)))"
    and "jget ''baseRefName'' item = JStr (bp_branch (a_target_base (d_authority d)))"
    and "lower (py_str repr (jget ''state'' item)) = ''open''"
proof -
  have "pm_exact (matching_prs repr d head_sha items) = [item]"
    using assms by (cases "pm_exact (matching_prs repr d head_sha items)")
      (auto simp: disposition_of_def split: if_splits)
  then have "item \<in> set (pm_exact (matching_prs repr d head_sha items))" by simp
  then show "item \<in> set items" "jget ''headRefOid'' item = JStr head_sha"
    "jget ''headRefName'' item = JStr (bp_branch (a_source (d_authority d)))"
    "jget ''baseRefName'' item = JStr (bp_branch (a_target_base (d_authority d)))"
    "lower (py_str repr (jget ''state'' item)) = ''open''"
    by (auto simp: matching_prs_def Let_def)
qed

end
