(* ===== verification/OneShot.thy ===== *)
theory OneShot
  imports CeremonyFacts MachineSteps
begin

text \<open>
  A presented proposal authorizes at most once: the attested record, which the store keeps
  until the deadline of the proposal, refuses a second attestation before it, and the deadline
  refuses one after it.
\<close>

section \<open>What is stored after a mint\<close>

lemma keyed_load: "keyed h f \<Longrightarrow> store_load h f = Inr document \<Longrightarrow> distinct (map fst (deliveries_of document))"
  by (simp add: keyed_def)

lemma load_bounded: "store_load h f = Inr document \<Longrightarrow> length (deliveries_of document) \<le> MAX_PR_DELIVERY_RECORDS"
  using ds.load_valid by (fastforce simp: validate_document_def checks_None_iff)

lemma load_valid_record:
  assumes "store_load h f = Inr document" "(i, r) \<in> set (deliveries_of document)"
  shows "validate_authorization h r = None"
proof -
  have "checks (map (validate_stored h) (deliveries_of document)) = None"
    using ds.load_valid [OF assms(1)] by (simp add: validate_document_def checks_None_iff)
  then have "as_store_error (validate_authorization h r) = None"
    using assms(2) by (auto simp: checks_None_iff validate_stored_def)
  then show ?thesis
    by (cases "validate_authorization h r"; cases "the (validate_authorization h r)") (auto simp: as_store_error_def)
qed

lemma stored_json_valid: "stored_json h i f = Some r \<Longrightarrow> validate_authorization h r = None"
  by (auto simp: stored_json_def dest!: map_of_SomeD dest: load_valid_record split: sum.splits)

lemma distinct_update: "distinct (map fst al) \<Longrightarrow> distinct (map fst (AList.update k v al))"
  by (rule AList.distinct_update)

lemma add_delivery_distinct:
  assumes "add_delivery h document r = Inr (new, Added, n)" "distinct (map fst (deliveries_of document))"
  shows "distinct (map fst (deliveries_of new))"
proof -
  obtain kept m where *: "prune_inactive (deliveries_of document) (authorized_at_of r) = (kept, m)" by fastforce
  have "distinct (map fst kept)"
    using * assms(2) by (auto simp: prune_inactive_def split: if_splits dest: prune_loop_distinct)
  then show ?thesis
    using assms(1) * by (auto simp: add_delivery_def guard_check_Inr_iff Let_def distinct_update split: if_splits)
qed

lemma minted_stored:
  assumes "store_load h f = Inr document" "distinct (map fst (deliveries_of document))"
    and "add_delivery h document r = Inr (new, Added, n)" "store_save h new = Inr g"
  defines "i \<equiv> str_of (jget ''delivery_id'' r)"
  shows "stored_json h i g = Some r" "stored_json h i f = None" "keyed h g"
    and "stored_json h k f = Some j \<Longrightarrow> is_active j \<or> is_replay_protected j (authorized_at_of r)
           \<Longrightarrow> stored_json h k g = Some j"
proof -
  note facts = add_delivery_facts [OF assms(3,2) load_bounded [OF assms(1)]]
  have loaded: "store_load h g = Inr new" by (rule ds.load_save [OF assms(4)])
  have distinct: "distinct (map fst (deliveries_of new))" by (rule add_delivery_distinct [OF assms(3,2)])
  show "stored_json h i g = Some r" "stored_json h i f = None"
    using facts(4) loaded assms(1) by (simp_all add: stored_json_def i_def)
  show "keyed h g" using loaded distinct by (simp add: keyed_def)
  assume "stored_json h k f = Some j" "is_active j \<or> is_replay_protected j (authorized_at_of r)"
  then have "(k, j) \<in> set (deliveries_of new)"
    using facts(2) assms(1,2) by (auto simp: stored_json_def dest: map_of_SomeD)
  then show "stored_json h k g = Some j"
    using loaded distinct by (simp add: stored_json_def)
qed

section \<open>Attested records\<close>

lemma is_obj_of_attested: "attested_digest r = JStr p \<Longrightarrow> jhas ''attestation'' (jget ''human_authorization'' r)"
  by (auto simp: attested_digest_def jget_def jhas_def rev_image_eqI split: option.splits dest!: map_of_SomeD)

lemma json_digest_finite: "json_digest h v = Inr x \<Longrightarrow> finite_json v"
  by (auto simp: json_digest_def canonical_json_bytes_def split: if_splits)

lemma finite_json_jget: "finite_json v \<Longrightarrow> finite_json (jget k v)"
  by (cases v) (auto simp: list_all_iff jget_def dest!: map_of_SomeD split: option.splits)

lemma valid_attestation:
  assumes "validate_authorization h r = None" "attested_digest r = JStr p"
  shows "jget ''source'' (jget ''human_authorization'' r) = JStr AUTHORIZATION_SOURCE_DOTS_OPERATOR_ATTESTED"
    and "is_num (jget ''expires_at'' (jget ''expiration'' r))"
    and "is_finite_num (num_of (jget ''expires_at'' (jget ''expiration'' r)))"
proof -
  let ?human = "jget ''human_authorization'' r" and ?m = "mode_of_str (str_of (jget ''mode'' r))"
  have half: "validate_authority_half h r ?m = None" by (rule valid_halves(2) [OF assms(1)])
  then have human: "validate_human_authorization h ?human r = None"
    by (simp add: validate_authority_half_def checks_None_iff)
  show "jget ''source'' ?human = JStr AUTHORIZATION_SOURCE_DOTS_OPERATOR_ATTESTED"
  proof (rule ccontr)
    assume "jget ''source'' ?human \<noteq> JStr AUTHORIZATION_SOURCE_DOTS_OPERATOR_ATTESTED"
    with human have "require_closed_keys ?human [''identity'', ''source'', ''authorized_at'', ''confirmation_digest_sha256''] = None"
      by (auto simp: validate_human_authorization_def checks_None_iff split: if_splits)
    with is_obj_of_attested [OF assms(2)] show False
      by (auto simp: require_closed_keys_def checks_None_iff list_all_iff jhas_def jkeys_def)
  qed
  have expiration: "validate_expiration (jget ''expiration'' r) (num_of (jget ''authorized_at'' ?human)) = None"
    using half by (simp add: validate_authority_half_def checks_None_iff)
  then show num: "is_num (jget ''expires_at'' (jget ''expiration'' r))"
    by (simp add: validate_expiration_def checks_None_iff require_timestamp_def)
  have "\<exists>x. authority_digest h r = Inr x"
    using half by (auto simp: validate_authority_half_def checks_None_iff require_digest_None)
  then have "finite_json (sub_object (authority_keys (jget ''mode'' r)) r)"
    by (auto simp: authority_digest_def dest: json_digest_finite)
  moreover have "''expiration'' \<in> set (authority_keys (jget ''mode'' r))"
    by (simp add: authority_keys_def AUTHORITY_KEYS_def PR_UPDATE_AUTHORITY_KEYS_def)
  ultimately have "finite_json (jget ''expiration'' r)"
    by (auto simp: sub_object_def list_all_iff)
  then have "finite_json (jget ''expires_at'' (jget ''expiration'' r))" by (rule finite_json_jget)
  with num show "is_finite_num (num_of (jget ''expires_at'' (jget ''expiration'' r)))"
    by (auto simp: is_num_iff)
qed

lemma attested_protected:
  assumes "validate_authorization h r = None" "attested_digest r = JStr p" "is_finite_num now"
    and "\<not> num_le (num_of (jget ''expires_at'' (jget ''expiration'' r))) now"
  shows "is_replay_protected r now"
  using valid_attestation [OF assms(1,2)] assms(3,4)
  by (simp add: is_replay_protected_def num_le_iff_not_less)

text \<open>The same facts of the typed record.\<close>

lemma typed_attestation:
  assumes "validate_authorization h r = None"
  shows "attested_digest r = JStr p \<longleftrightarrow>
     (\<exists>a. ha_attestation (a_human (d_authority (delivery_of_json r))) = Some a \<and> at_proposal_digest a = p)"
proof -
  let ?human = "jget ''human_authorization'' r"
  have attestation: "ha_attestation (a_human (d_authority (delivery_of_json r)))
      = (if jhas ''attestation'' ?human then Some (attestation_of_json (jget ''attestation'' ?human)) else None)"
    by (simp add: delivery_of_json_def authority_of_json_def human_authorization_of_json_def)
  have digest: "at_proposal_digest (attestation_of_json j) = str_of (jget ''proposal_digest_sha256'' j)" for j
    by (simp add: attestation_of_json_def)
  have "is_str (jget ''proposal_digest_sha256'' (jget ''attestation'' ?human))" if "jhas ''attestation'' ?human"
  proof -
    have "validate_human_authorization h ?human r = None"
      using valid_halves(2) [OF assms] by (simp add: validate_authority_half_def checks_None_iff)
    with that have "validate_dots_authorization h ?human r = None"
      by (auto simp: validate_human_authorization_def checks_None_iff require_closed_keys_def list_all_iff
          jhas_def jkeys_def split: if_splits)
    then have "validate_dots_attestation (jget ''attestation'' ?human) = None"
      by (simp add: validate_dots_authorization_def checks_None_iff Let_def)
    then show ?thesis
      by (auto simp: validate_dots_attestation_def checks_None_iff dest: require_hexD)
  qed
  then show ?thesis
    using is_obj_of_attested [of r p] by (auto simp: attestation digest attested_digest_def is_str_iff)
qed

lemma typed_deadline:
  "ex_expires_at (a_expiration (d_authority (delivery_of_json r))) = num_of (jget ''expires_at'' (jget ''expiration'' r))"
  by (simp add: delivery_of_json_def authority_of_json_def expiration_of_json_def)

section \<open>Time\<close>

text \<open>A clock that reads a time of the system, which no call turns back and storing does not change.\<close>

definition timely :: "('w sys \<Rightarrow> pynum) \<Rightarrow> 'w env \<Rightarrow> 'w desk \<Rightarrow> bool" where
  "timely time env desk \<longleftrightarrow>
     (\<forall>s. e_clock env s = (Inr (time s), s)) \<and> (\<forall>T. ceremony_preserves (\<lambda>s. num_le T (time s)) env desk)
     \<and> (\<forall>s. is_finite_num (time s)) \<and> (\<forall>s f. time (s\<lparr>disk := f\<rparr>) = time s)"

definition fair :: "host \<Rightarrow> ('w sys \<Rightarrow> pynum) \<Rightarrow> 'w env \<Rightarrow> 'w desk \<Rightarrow> bool" where
  "fair h time env desk \<longleftrightarrow> e_host env = h \<and> quiet env \<and> quiet_desk desk \<and> timely time env desk"

lemma num_le_refl: "is_finite_num a \<Longrightarrow> num_le a a"
  by (simp add: num_le_iff_not_less) (cases "num_val a"; simp add: num_less_def is_finite_num_def)

lemma fairD:
  assumes "fair h time env desk"
  shows "e_host env = h" "quiet env" "quiet_desk desk" "e_clock env s = (Inr (time s), s)"
    "ceremony_preserves (\<lambda>s. num_le T (time s)) env desk" "is_finite_num (time s)"
    "time (s\<lparr>disk := f\<rparr>) = time s" "num_le (time s) (time s)"
    "ceremony_preserves (\<lambda>s. P (disk s)) env desk" "keeps_file (e_clock env)"
proof -
  show "ceremony_preserves (\<lambda>s. P (disk s)) env desk"
    using assms by (intro quiet_ceremony) (simp_all add: fair_def)
  show "keeps_file (e_clock env)"
    using assms by (simp add: fair_def quiet_def surroundings_preserve_def keeps_file_def)
qed (use assms in \<open>auto simp: fair_def timely_def intro: num_le_refl\<close>)

text \<open>What depends on the file and grows with the time is kept by every call.\<close>

definition ripens :: "(stored_file \<Rightarrow> pynum \<Rightarrow> bool) \<Rightarrow> bool" where
  "ripens Q \<longleftrightarrow> (\<forall>f T U. Q f T \<longrightarrow> num_le T U \<longrightarrow> Q f U)"

lemma preserves_ripe:
  assumes "ripens Q" "\<And>f. preserves (\<lambda>s. disk s = f) m" "\<And>T. preserves (\<lambda>s. num_le T (time s)) m"
    and "\<And>s. num_le (time s) (time s)"
  shows "preserves (\<lambda>s. Q (disk s) (time s)) m"
proof (rule preservesI)
  fix s r t
  assume "Q (disk s) (time s)" "m s = (r, t)"
  moreover from this(2) have "disk t = disk s" "num_le (time s) (time t)"
    using preservesD [OF assms(2)] preservesD [OF assms(3)] assms(4) by blast+
  ultimately show "Q (disk t) (time t)" using assms(1) by (auto simp: ripens_def)
qed

lemma fair_ripe:
  assumes "fair h time env desk" "ripens Q"
  shows "ceremony_preserves (\<lambda>s. Q (disk s) (time s)) env desk"
proof -
  note ripe = preserves_ripe [OF assms(2) _ _ fairD(8) [OF assms(1)]]
  have d: "ceremony_preserves (\<lambda>s. disk s = f) env desk" for f by (rule fairD(9) [OF assms(1)])
  have t: "ceremony_preserves (\<lambda>s. num_le T (time s)) env desk" for T by (rule fairD(5) [OF assms(1)])
  have "transport_preserves (\<lambda>s. Q (disk s) (time s)) (e_transport env)"
    unfolding transport_preserves_def
    by (intro conjI allI; rule ripe;
        rule transport_callsD, rule ceremony_preservesD(2), (rule d | rule t))
  then show ?thesis
    unfolding ceremony_preserves_def surroundings_preserve_def
    using d t by (auto intro!: ripe dest: ceremony_preservesD)
qed

section \<open>Spent proposals\<close>

text \<open>The proposal of a digest and a deadline is spent: the deadline has passed, or a stored record
  was attested by it.\<close>

definition attested_by :: "str \<Rightarrow> pynum \<Rightarrow> delivery \<Rightarrow> bool" where
  "attested_by p deadline d \<longleftrightarrow>
     (\<exists>a. ha_attestation (a_human (d_authority d)) = Some a \<and> at_proposal_digest a = p)
     \<and> ex_expires_at (a_expiration (d_authority d)) = deadline"

definition spent :: "host \<Rightarrow> str \<Rightarrow> pynum \<Rightarrow> stored_file \<Rightarrow> pynum \<Rightarrow> bool" where
  "spent h p deadline f now \<longleftrightarrow>
     keyed h f \<and> (num_le deadline now \<or> (\<exists>i d. stored h i f = Some d \<and> attested_by p deadline d))"

lemma ripens_spent: "ripens (spent h p deadline)"
  by (auto simp: ripens_def spent_def intro: num_le_trans)

lemma ripens_late: "ripens (\<lambda>f now. spent h p deadline f now \<and> num_le T now)"
  by (auto simp: ripens_def spent_def intro: num_le_trans)

lemma attested_by_json:
  assumes "validate_authorization h r = None"
  shows "attested_by p deadline (delivery_of_json r)
     \<longleftrightarrow> attested_digest r = JStr p \<and> num_of (jget ''expires_at'' (jget ''expiration'' r)) = deadline"
  by (simp add: attested_by_def typed_attestation [OF assms] typed_deadline)

lemma mint_locked_time:
  assumes "fair h time env desk"
  shows "preserves (\<lambda>s. num_le U (time s)) (mint_locked env r one_shot apply_before)"
  unfolding mint_locked_def
  by (intro ceremony_rules ceremony_preservesD [OF fairD(5) [OF assms]])
     (auto simp: preserves_def load_document_eq save_document_def fairD(7) [OF assms] split: sum.splits)

lemma mint_locked_spent:
  assumes fair: "fair h time env desk" and "num_le T (time s)" "is_finite_num T" "authorized_at_of r = T"
    and spent: "spent h p deadline (disk s) (time s)"
    and run: "mint_locked env r one_shot apply_before s = (x, t)"
  shows "spent h p deadline (disk t) (time t)"
proof (cases x)
  case (Inl e)
  have same: "disk t = disk s"
    using mint_locked_Inl [OF fairD(10) [OF fair]] run Inl by blast
  have "num_le (time s) (time t)"
    using preservesD [OF mint_locked_time [OF fair]] run fairD(8) [OF fair] by blast
  with same spent ripens_spent show ?thesis by (metis ripens_def)
next
  case (Inr n)
  obtain document new u where *: "store_load h (disk s) = Inr document" "disk u = disk s"
    "past_deadline env apply_before s = (Inr (), u)"
    "add_delivery h document r = Inr (new, Added, n)" "store_save h new = Inr (disk t)" "world t = world u"
    using mint_locked_Inr [OF fairD(10) [OF fair]] run Inr fairD(1) [OF fair] by blast
  have "u = s"
    using *(3) by (auto simp: past_deadline_def bnd_eq fairD(4) [OF fair] split: option.splits)
  moreover have "t = u\<lparr>disk := disk t\<rparr>" using *(6) by simp
  ultimately have time: "time t = time s" using fairD(7) [OF fair] by metis
  have distinct: "distinct (map fst (deliveries_of document))"
    using spent *(1) by (auto simp: spent_def intro: keyed_load)
  note minted = minted_stored [OF *(1) distinct *(4,5)]
  have "stored h i (disk t) = Some d"
    if d: "stored h i (disk s) = Some d" "attested_by p deadline d" "\<not> num_le deadline (time s)" for i d
  proof -
    obtain j where j: "stored_json h i (disk s) = Some j" "d = delivery_of_json j"
      using d(1) by (auto simp: stored_of_json)
    have valid: "validate_authorization h j = None" by (rule stored_json_valid [OF j(1)])
    have "attested_digest j = JStr p" "num_of (jget ''expires_at'' (jget ''expiration'' j)) = deadline"
      using d(2) attested_by_json [OF valid] j(2) by simp_all
    moreover have "\<not> num_le deadline T" using d(3) assms(2) num_le_trans by blast
    ultimately have "is_replay_protected j (authorized_at_of r)"
      using attested_protected [OF valid] assms(3,4) by simp
    then have "stored_json h i (disk t) = Some j" using minted(4) [OF j(1)] by simp
    with j(2) show ?thesis by (simp add: stored_of_json)
  qed
  with spent minted(3) time show ?thesis by (auto simp: spent_def)
qed

lemma preserves_of_result:
  "(\<And>a. r = Inr a \<Longrightarrow> preserves I (k a)) \<Longrightarrow> preserves I (bnd (of_result r) k)"
  by (cases r) (auto simp: preserves_def bnd_eq)

lemma mint_spent:
  assumes fair: "fair h time env desk" and "is_finite_num T"
    and at: "\<And>i r. new_authorization h i authority T = Inr r \<Longrightarrow> authorized_at_of r = T"
  shows "preserves (\<lambda>s. spent h p deadline (disk s) (time s) \<and> num_le T (time s))
           (mint env desk authority T one_shot apply_before)"
proof -
  let ?K = "\<lambda>s. spent h p deadline (disk s) (time s) \<and> num_le T (time s)"
  have calls: "ceremony_preserves ?K env desk"
    by (rule fair_ripe [OF fair ripens_late])
  have "preserves ?K (mint_locked env r one_shot apply_before)" if "authorized_at_of r = T" for r
  proof (rule preservesI)
    fix s x t
    assume s: "?K s" and run: "mint_locked env r one_shot apply_before s = (x, t)"
    have "num_le T (time t)"
      using preservesD [OF mint_locked_time [OF fair]] s run by blast
    with mint_locked_spent [OF fair _ assms(2) that _ run] s show "?K t" by blast
  qed
  then show ?thesis
    unfolding mint_def mint_id_def fairD(1) [OF fair]
    by (intro preserves_of_result ceremony_rules ceremony_preservesD [OF calls]) (auto dest: at)
qed

section \<open>Every operation keeps spent proposals spent\<close>

lemma minted_time:
  assumes "jget ''authorized_at'' (jget ''human_authorization'' authority) = JNum T"
    and "new_authorization h i authority now = Inr r"
  shows "authorized_at_of r = T"
proof -
  have "jget ''human_authorization'' r = jget ''human_authorization'' authority"
    using new_authorization_facts(8) [OF assms(2), of "''human_authorization''"]
    by (simp add: authority_keys_def AUTHORITY_KEYS_def PR_UPDATE_AUTHORITY_KEYS_def)
  with assms(1) show ?thesis by (simp add: authorized_at_of_def)
qed

lemma binding_fields_keys:
  "map fst (binding_fields env v herd args argv rechecked captured content now) =
     [''revision'', ''previous_delivery_id'', ''workflow_identity'', ''mission'', ''repository'', ''remote'',
      ''mode'', ''source'', ''target_base'', ''original_baseline'', ''candidate'', ''evidence'',
      ''allowed_actions'', ''committer'', ''reverification'', ''pr_content'']"
  by (simp add: binding_fields_def repository_binding_def Let_def)

lemma gather_fields:
  assumes "gather env desk args now s = (Inr (bound, lines, digest), t)"
  shows "map_of bound ''human_authorization'' = None" "map_of bound ''expiration'' = None"
proof -
  obtain v herd argv rechecked captured content where
    "bound = binding_fields env v herd args argv rechecked captured content now
     \<or> (\<exists>token u. bound = binding_fields env v herd args argv rechecked captured content now @ update_fields token u)"
    using assms by (auto simp: gather_def bnd_Inr Let_def split: option.splits) blast+
  moreover have "map fst (update_fields token u) = [''delivery_id'', ''pull_request_number'', ''staged_sha256'']"
    for token u by (cases u) (simp add: update_fields_def)
  ultimately have "set (map fst bound) \<subseteq> {''revision'', ''previous_delivery_id'', ''workflow_identity'', ''mission'',
      ''repository'', ''remote'', ''mode'', ''source'', ''target_base'', ''original_baseline'', ''candidate'',
      ''evidence'', ''allowed_actions'', ''committer'', ''reverification'', ''pr_content'',
      ''delivery_id'', ''pull_request_number'', ''staged_sha256''}"
    by (auto simp: binding_fields_keys simp flip: set_map)
  then show "map_of bound ''human_authorization'' = None" "map_of bound ''expiration'' = None"
    by (auto simp: map_of_eq_None_iff)
qed

lemma assemble_Inr:
  assumes "assemble_authority env desk args now s = (Inr authority, t)"
  obtains bound lines digest u answer expires_at where
    "gather env desk args now s = (Inr (bound, lines, digest), u)"
    "answered (k_confirm desk (''Type the first '' @ show_int (int CONFIRMATION_CHARS)
        @ '' characters of the candidate identity to authorize exactly this delivery: '')) answer"
    "strip answer = py_take CONFIRMATION_CHARS digest" "num_add now (PInt (g_validity_seconds args)) = Inr expires_at"
    "authority = JObj (bound
       @ [(''human_authorization'', terminal_authorization env desk (strip answer) now),
          (''expiration'', expiration_binding (JNum expires_at))])"
  using assms by (fastforce simp: assemble_authority_def bnd_Inr seq_Inr Let_def answered_def)

lemma assembled_time:
  assumes "assemble_authority env desk args now s = (Inr authority, t)"
  shows "jget ''authorized_at'' (jget ''human_authorization'' authority) = JNum now"
  using assms
  by (rule assemble_Inr)
     (auto dest: gather_fields simp: map_of_append map_add_def terminal_authorization_def human_authorization_json_def)

lemma authorize_spent:
  assumes fair: "fair h time env desk"
  shows "preserves (\<lambda>s. spent h p deadline (disk s) (time s)) (authorize env desk args)"
proof (rule preservesI)
  fix s x t
  assume s: "spent h p deadline (disk s) (time s)" and run: "authorize env desk args s = (x, t)"
  let ?K = "\<lambda>u. spent h p deadline (disk u) (time u) \<and> num_le (time s) (time u)"
  obtain a u where assembled: "assemble_authority env desk args (time s) s = (a, u)" by fastforce
  have "?K u"
    using preservesD [OF assemble_preserves [OF fair_ripe [OF fair ripens_late]] _ assembled] s fairD(8) [OF fair]
    by blast
  moreover have "(x, t) = mint env desk authority (time s) None None u" if "a = Inr authority" for authority
    using run assembled that by (simp add: authorize_def bnd_eq fairD(4) [OF fair])
  moreover have "t = u" if "a = Inl e" for e
    using run assembled that by (simp add: authorize_def bnd_eq fairD(4) [OF fair])
  moreover have "?K t" if "a = Inr authority" "?K u" "mint env desk authority (time s) None None u = (x, t)" for authority
  proof (rule preservesD [OF mint_spent [OF fair fairD(6) [OF fair]] that(2,3)])
    fix i r
    assume "new_authorization h i authority (time s) = Inr r"
    with assembled_time show "authorized_at_of r = time s"
      using assembled that(1) minted_time by blast
  qed
  ultimately show "spent h p deadline (disk t) (time t)" by (cases a) auto
qed

lemma attested_authority_get:
  assumes "check_proposal proposal = None"
  shows "jget k (attested_authority proposal attestation confirmation now) =
     (if k = ''human_authorization'' then JObj
            [(''identity'', JStr DOTS_ATTESTED_IDENTITY),
             (''source'', JStr AUTHORIZATION_SOURCE_DOTS_OPERATOR_ATTESTED),
             (''authorized_at'', JNum now), (''confirmation_digest_sha256'', JStr confirmation),
             (''attestation'', attestation)]
      else if k = ''expiration'' then expiration_binding (jget ''expires_at'' proposal)
      else jget k (jget ''binding'' proposal))"
proof -
  let ?b = "jget ''binding'' proposal"
  have "set (map fst (obj_of ?b)) = set (proposal_binding_keys (jget ''mode'' ?b))"
    using assms by (simp add: check_proposal_def Let_def require_def jkeys_def split: if_splits)
  moreover have "''human_authorization'' \<notin> set (proposal_binding_keys m)" "''expiration'' \<notin> set (proposal_binding_keys m)" for m
    by (simp_all add: proposal_binding_keys_def DELIVERY_PROPOSAL_BINDING_KEYS_def PR_UPDATE_DELIVERY_PROPOSAL_BINDING_KEYS_def)
  ultimately have "map_of (obj_of ?b) ''human_authorization'' = None" "map_of (obj_of ?b) ''expiration'' = None"
    by (auto simp: map_of_eq_None_iff)
  then show ?thesis
    by (auto simp: attested_authority_def jget_def map_of_append map_add_def split: option.splits)
qed

text \<open>A successful attestation, taken apart.\<close>

lemma attest_dots_Inr:
  assumes "attest_dots env desk args text s = (Inr i, t)"
  obtains document proposal attestation confirmation now v update path base remote s1 s2 where
    "k_loads desk text = Some document" "proposal = jget ''delivery_proposal'' document"
    "check_relay document args = None" "check_proposal proposal = None"
    "update_of_binding (jget ''binding'' proposal) = Inr update"
    "delivery_proposal_digest (e_host env) proposal = Inr (ra_proposal_digest args)"
    "e_clock env s = (Inr now, s1)" "is_num (jget ''expires_at'' proposal)"
    "\<not> num_le (num_of (jget ''expires_at'' proposal)) now"
    "bound_place (jget ''binding'' proposal) = Inr (path, base, remote)"
    "live_repository env path base remote update s1 = (Inr v, s2)"
    "live_mismatch v (jget ''binding'' proposal) = Inr None"
    "attestation = relayed_attestation proposal (jget ''relayed_reply'' document) args (ra_proposal_digest args)"
    "dots_confirmation_digest (e_host env) attestation = Inr confirmation"
    "mint env desk (attested_authority proposal attestation confirmation now) now (Some (ra_proposal_digest args))
       (Some (num_of (jget ''expires_at'' proposal))) s2 = (Inr i, t)"
proof -
  obtain document where d: "k_loads desk text = Some document" "check_relay document args = None"
    "check_proposal (jget ''delivery_proposal'' document) = None"
    "attest_proposal env desk args (jget ''delivery_proposal'' document) (jget ''relayed_reply'' document) s = (Inr i, t)"
    using assms by (auto simp: attest_dots_def seq_Inr Let_def split: option.splits)
  let ?p = "jget ''delivery_proposal'' document"
  let ?a = "relayed_attestation ?p (jget ''relayed_reply'' document) args (ra_proposal_digest args)"
  obtain now update path base remote v s1 s2 confirmation where *:
    "update_of_binding (jget ''binding'' ?p) = Inr update"
    "delivery_proposal_digest (e_host env) ?p = Inr (ra_proposal_digest args)"
    "e_clock env s = (Inr now, s1)" "is_num (jget ''expires_at'' ?p)"
    "\<not> num_le (num_of (jget ''expires_at'' ?p)) now"
    "bound_place (jget ''binding'' ?p) = Inr (path, base, remote)"
    "live_repository env path base remote update s1 = (Inr v, s2)"
    "live_mismatch v (jget ''binding'' ?p) = Inr None" "dots_confirmation_digest (e_host env) ?a = Inr confirmation"
    "mint env desk (attested_authority ?p ?a confirmation now) now (Some (ra_proposal_digest args))
       (Some (num_of (jget ''expires_at'' ?p))) s2 = (Inr i, t)"
    using d(4) unfolding attest_proposal_def Let_def
    by (auto simp: bnd_Inr seq_Inr simp del: not_None_eq split: prod.splits)
  show ?thesis
    by (rule that [OF d(1) refl d(2,3) *(1-8) refl *(9,10)])
qed

end
