(* ===== verification/Proposals.thy ===== *)
theory Proposals
  imports OneShot
begin

text \<open>
  The life of a presented proposal in the whole system: every ceremony, every round of the
  machine and every revocation, in any order, keeps a spent proposal spent, and a spent
  proposal is refused without a write.
\<close>

section \<open>The machine and the revocations\<close>

lemma keyed_replace:
  assumes "keyed h f" "replace_record h d f = Inr g"
  shows "keyed h g"
proof -
  obtain document where *: "store_load h f = Inr document" "store_save h (put_record d document) = Inr g"
    using assms(2) by (auto simp: replace_record_def sbind_Inr_iff)
  have "store_load h g = Inr (put_record d document)" by (rule ds.load_save [OF *(2)])
  then show ?thesis
    using keyed_load [OF assms(1) *(1)] by (simp add: keyed_def put_record_def OneShot.distinct_update)
qed

lemma spent_replace:
  assumes "spent h p deadline f now" "replace_record h d f = Inr g"
    and "stored h (record_id d) f = Some e" "d_authority e = d_authority d"
  shows "spent h p deadline g now"
proof -
  have "\<exists>d'. stored h j g = Some d' \<and> attested_by p deadline d'"
    if "stored h j f = Some d0" "attested_by p deadline d0" for j d0
    using rs.look_put [OF assms(2)] rs.look_other [OF assms(2), of j] that assms(3,4)
    by (cases "j = record_id d") (auto simp: attested_by_def)
  then show ?thesis
    using assms(1) keyed_replace [OF _ assms(2)] by (auto simp: spent_def)
qed

definition spent_with ::
  "host \<Rightarrow> str \<Rightarrow> pynum \<Rightarrow> str \<Rightarrow> authority \<Rightarrow> stored_file \<Rightarrow> pynum \<Rightarrow> bool" where
  "spent_with h p deadline i a f now \<longleftrightarrow>
     spent h p deadline f now \<and> (\<exists>d. stored h i f = Some d \<and> is_record a d)"

lemma spent_invariant:
  assumes fair: "fair h time env desk" and i: "a_delivery_id a = i"
  shows "record_invariant env (\<lambda>s. spent_with h p deadline i a (disk s) (time s)) (is_record a)"
proof (unfold_locales, goal_cases)
  case 1
  have "ripens (spent_with h p deadline i a)"
    using ripens_spent by (fastforce simp: ripens_def spent_with_def)
  from ceremony_preservesD(1) [OF fair_ripe [OF fair this]] show ?case .
next
  case (2 d)
  show ?case
  proof (rule preservesI)
    fix s x t
    assume s: "spent_with h p deadline i a (disk s) (time s)" and run: "store_record (e_host env) d s = (x, t)"
    have id: "record_id d = i" using 2 i by (simp add: is_record_def record_id_def)
    show "spent_with h p deadline i a (disk t) (time t)"
    proof (cases "replace_record h d (disk s)")
      case (Inl e)
      with run s fairD(1) [OF fair] show ?thesis by (auto simp: store_record_eq)
    next
      case (Inr g)
      obtain e where e: "stored h i (disk s) = Some e" "is_record a e" "spent h p deadline (disk s) (time s)"
        using s by (auto simp: spent_with_def)
      have "spent h p deadline g (time s)"
        using spent_replace [OF e(3) Inr] e(1,2) 2 id by (simp add: is_record_def)
      with rs.look_put [OF Inr] id 2 Inr run fairD(1,7) [OF fair] show ?thesis
        by (auto simp: store_record_eq spent_with_def)
    qed
  qed
qed (auto simp: is_record_def apply_transition_Inr)

lemma advance_once_missing:
  assumes "stored (e_host env) i (disk s) = None" "advance_once env i expected s = (x, t)"
  shows "t = s"
proof (cases "m_load (e_host env) i s")
  case (Pair y u)
  then have "u = s" by (metis m_load_state snd_conv)
  moreover have "\<exists>e. y = Inl e" using Pair assms(1) \<open>u = s\<close> by (cases y) (auto simp: m_load_Inr)
  ultimately show ?thesis using Pair assms(2) by (auto simp: advance_once_def bnd_eq)
qed

lemma advance_once_spent:
  assumes fair: "fair h time env desk"
  shows "preserves (\<lambda>s. spent h p deadline (disk s) (time s)) (advance_once env i expected)"
proof (rule preservesI)
  fix s x t
  assume s: "spent h p deadline (disk s) (time s)" and run: "advance_once env i expected s = (x, t)"
  note h = fairD(1) [OF fair]
  show "spent h p deadline (disk t) (time t)"
  proof (cases "stored h i (disk s)")
    case None
    with run h s show ?thesis using advance_once_missing by metis
  next
    case (Some d)
    let ?a = "d_authority d" and ?K = "\<lambda>s. spent_with h p deadline i (d_authority d) (disk s) (time s)"
    have "a_delivery_id ?a = i" using stored_id [OF Some] by (simp add: record_id_def)
    then have "record_invariant env ?K (is_record ?a)" by (rule spent_invariant [OF fair])
    then have "preserves ?K (advance_once env i expected)"
      by (rule record_invariant.advance_once_K) (auto simp: h spent_with_def)
    moreover have "?K s" using s Some by (simp add: spent_with_def is_record_def)
    ultimately have "?K t" using run by (auto dest: preservesD)
    then show ?thesis by (simp add: spent_with_def)
  qed
qed

lemma revoke_Inr:
  assumes "revoke env i who reason s = (Inr d, t)" "keeps_file (e_clock env)"
  shows "replace_record (e_host env) d (disk s) = Inr (disk t)"
    and "\<exists>e. stored (e_host env) (record_id d) (disk s) = Some e \<and> d_authority d = d_authority e"
proof -
  from assms(1) obtain document j now u where *: "store_load (e_host env) (disk s) = Inr document"
    "map_of (deliveries_of document) i = Some j" "e_clock env s = (Inr now, u)"
    "revoke_record now who reason (delivery_of_json j) = Inr d"
    "save_document (e_host env) (put_record d document) u = (Inr (), t)"
    by (auto simp: revoke_def bnd_Inr seq_Inr load_document_eq split: option.splits)
  have e: "stored (e_host env) i (disk s) = Some (delivery_of_json j)"
    using * by (simp add: stored_def)
  from *(1,5) show "replace_record (e_host env) d (disk s) = Inr (disk t)"
    by (auto simp: replace_record_def save_document_Inr)
  show "\<exists>e. stored (e_host env) (record_id d) (disk s) = Some e \<and> d_authority d = d_authority e"
    using e stored_id [OF e] revoke_record_Inr(1) [OF *(4)] by (auto simp: record_id_def)
qed

lemma revoke_Inl:
  assumes "revoke env i who reason s = (Inl e, t)" "keeps_file (e_clock env)"
  shows "disk t = disk s"
  using assms(1)
  by (auto simp: revoke_def run_simps load_document_eq ensure_def of_check_def require_def
      dest: keeps_fileD [OF assms(2)] save_document_Inl split: sum.splits prod.splits if_splits option.splits)

lemma revoke_time:
  assumes "fair h time env desk"
  shows "preserves (\<lambda>s. num_le U (time s)) (revoke env i who reason)"
  unfolding revoke_def
  by (intro ceremony_rules ceremony_preservesD [OF fairD(5) [OF assms]])
     (auto simp: preserves_def load_document_eq save_document_def fairD(7) [OF assms] split: sum.splits)

lemma revoke_spent:
  assumes fair: "fair h time env desk"
  shows "preserves (\<lambda>s. spent h p deadline (disk s) (time s)) (revoke env i who reason)"
proof (rule preservesI)
  fix s x t
  assume s: "spent h p deadline (disk s) (time s)" and run: "revoke env i who reason s = (x, t)"
  note h = fairD(1) [OF fair] and clock = fairD(10) [OF fair]
  have "num_le (time s) (time t)"
    using preservesD [OF revoke_time [OF fair]] run fairD(8) [OF fair] by blast
  moreover have "spent h p deadline (disk t) (time s)"
  proof (cases x)
    case (Inl e)
    with run s revoke_Inl [OF _ clock] show ?thesis by metis
  next
    case (Inr d)
    with run have r: "revoke env i who reason s = (Inr d, t)" by simp
    obtain e where "stored h (record_id d) (disk s) = Some e" "d_authority e = d_authority d"
      using revoke_Inr(2) [OF r clock] h by auto
    then show ?thesis using spent_replace [OF s] revoke_Inr(1) [OF r clock] h by simp
  qed
  ultimately show "spent h p deadline (disk t) (time t)"
    using ripens_spent by (auto simp: ripens_def)
qed

section \<open>A spent proposal is refused\<close>

lemma spent_attested:
  assumes "spent h p deadline f now" "store_load h f = Inr document" "\<not> num_le deadline now"
  shows "already_attested p document"
proof -
  obtain i d where "stored h i f = Some d" "attested_by p deadline d"
    using assms by (auto simp: spent_def)
  then obtain j where j: "stored_json h i f = Some j" "attested_by p deadline (delivery_of_json j)"
    by (auto simp: stored_of_json)
  then have "attested_digest j = JStr p"
    using attested_by_json [OF stored_json_valid [OF j(1)]] by simp
  moreover have "(i, j) \<in> set (deliveries_of document)"
    using j(1) assms(2) by (auto simp: stored_json_def dest: map_of_SomeD)
  ultimately show ?thesis by (auto simp: already_attested_def list_ex_iff)
qed

lemma mint_locked_refused:
  assumes fair: "fair h time env desk" and spent: "spent h p deadline (disk s) (time s)"
    and run: "mint_locked env r (Some p) (Some deadline) s = (x, t)"
  shows "(\<exists>e. x = Inl e) \<and> disk t = disk s"
proof (cases x)
  case (Inl e)
  with run mint_locked_Inl [OF fairD(10) [OF fair]] show ?thesis by blast
next
  case (Inr n)
  with run have "mint_locked env r (Some p) (Some deadline) s = (Inr n, t)" by simp
  from mint_locked_Inr [OF fairD(10) [OF fair] this] obtain document u where *:
    "store_load h (disk s) = Inr document" "\<not> already_attested p document"
    "past_deadline env (Some deadline) s = (Inr (), u)"
    unfolding fairD(1) [OF fair] by blast
  have "\<not> num_le deadline (time s)"
    using *(3) by (auto simp: past_deadline_def bnd_eq fairD(4) [OF fair] ensure_def of_check_def require_def
        split: if_splits)
  with spent_attested [OF spent *(1)] *(2) show ?thesis by blast
qed

text \<open>The file a spent proposal meets.\<close>

definition spent_on ::
  "host \<Rightarrow> ('w sys \<Rightarrow> pynum) \<Rightarrow> str \<Rightarrow> pynum \<Rightarrow> stored_file \<Rightarrow> 'w sys \<Rightarrow> bool" where
  "spent_on h time p deadline f s \<longleftrightarrow> spent h p deadline (disk s) (time s) \<and> disk s = f"

lemma spent_on_calls:
  assumes "fair h time env desk"
  shows "ceremony_preserves (spent_on h time p deadline f) env desk"
proof -
  have "ripens (\<lambda>g now. spent h p deadline g now \<and> g = f)"
    using ripens_spent by (auto simp: ripens_def)
  from fair_ripe [OF assms this] show ?thesis
    unfolding spent_on_def .
qed

lemma mint_locked_spent_on:
  assumes fair: "fair h time env desk"
  shows "preserves (spent_on h time p deadline f) (mint_locked env r (Some p) (Some deadline))"
proof (rule preservesI)
  fix s x t
  assume s: "spent_on h time p deadline f s" and run: "mint_locked env r (Some p) (Some deadline) s = (x, t)"
  have "num_le (time s) (time t)"
    using preservesD [OF mint_locked_time [OF fair]] run fairD(8) [OF fair] by blast
  moreover have "disk t = disk s"
    using mint_locked_refused [OF fair _ run] s by (auto simp: spent_on_def)
  ultimately show "spent_on h time p deadline f t"
    using s ripens_spent by (auto simp: spent_on_def ripens_def)
qed

lemma mint_parts:
  assumes "mint env desk authority now one_shot apply_before s = (Inr i, t)"
  shows "\<exists>u r v n w x. mint_id env authority s = (Inr i, u) \<and> new_authorization (e_host env) i authority now = Inr r
     \<and> mint_locked env r one_shot apply_before u = (Inr n, v) \<and> k_write desk w v = (Inr x, t)"
  using assms unfolding mint_def bnd_Inr seq_Inr act_simps ensure_Inr prod.inject sum.inject
  by (elim exE conjE) blast

lemma mint_refused:
  assumes fair: "fair h time env desk" and s: "spent_on h time p deadline f s"
  shows "\<exists>e t. mint env desk authority now (Some p) (Some deadline) s = (Inl e, t)"
proof (rule ccontr)
  note keeps = ceremony_preservesD [OF spent_on_calls [OF fair]]
  assume "\<not> ?thesis"
  then obtain i t where "mint env desk authority now (Some p) (Some deadline) s = (Inr i, t)"
    by (metis obj_sumE prod.exhaust)
  then obtain j r u n v where *: "mint_id env authority s = (Inr j, u)"
    "mint_locked env r (Some p) (Some deadline) u = (Inr n, v)"
    using mint_parts by blast
  have "preserves (spent_on h time p deadline f) (mint_id env authority)"
    unfolding mint_id_def by (intro ceremony_rules keeps)
  with *(1) s have "spent_on h time p deadline f u" by (auto dest: preservesD)
  then show False using mint_locked_refused [OF fair _ *(2)] by (auto simp: spent_on_def)
qed

lemma mint_spent_on:
  assumes fair: "fair h time env desk"
  shows "preserves (spent_on h time p deadline f) (mint env desk authority now (Some p) (Some deadline))"
  unfolding mint_def mint_id_def
  by (intro ceremony_rules ceremony_preservesD [OF spent_on_calls [OF fair]] mint_locked_spent_on [OF fair])

lemma attest_proposal_spent_on:
  assumes fair: "fair h time env desk" and "delivery_proposal_digest h proposal = Inr p"
    and "num_of (jget ''expires_at'' proposal) = deadline"
  shows "preserves (spent_on h time p deadline f) (attest_proposal env desk args proposal reply)"
  unfolding attest_proposal_def Let_def fairD(1) [OF fair] assms(2,3)
  by (intro ceremony_rules ceremony_preservesD [OF spent_on_calls [OF fair]] live_repository_preserves
      preserves_of_result) (auto intro: mint_spent_on [OF fair])

lemma attest_refused:
  assumes fair: "fair h time env desk" and s: "spent h p deadline (disk s) (time s)"
    and "k_loads desk text = Some document" "proposal = jget ''delivery_proposal'' document"
    and "delivery_proposal_digest h proposal = Inr p" "num_of (jget ''expires_at'' proposal) = deadline"
  shows "\<exists>e t. attest_dots env desk args text s = (Inl e, t) \<and> disk t = disk s"
proof -
  let ?K = "spent_on h time p deadline (disk s)"
  obtain x t where run: "attest_dots env desk args text s = (x, t)" by fastforce
  have s': "?K s" using s by (simp add: spent_on_def)
  have "preserves ?K (attest_dots env desk args text)"
    unfolding attest_dots_def Let_def assms(3)
    using attest_proposal_spent_on [OF fair assms(5,6)] assms(4) by (simp, intro ceremony_rules) auto
  with s' run have "disk t = disk s" by (auto dest!: preservesD simp: spent_on_def)
  moreover have "x \<noteq> Inr i" for i
  proof
    assume "x = Inr i"
    with run have "attest_dots env desk args text s = (Inr i, t)" by simp
    then show False
    proof (rule attest_dots_Inr, goal_cases)
      case (1 document' proposal' attestation confirmation now v update path base remote s1 s2)
      have same: "proposal' = proposal" "ra_proposal_digest args = p"
        using 1 assms fairD(1) [OF fair] by auto
      have "?K s1" using 1(7) s' fairD(4) [OF fair] by simp
      then have "?K s2"
        by (rule preservesD [OF live_repository_preserves [OF ceremony_preservesD(2) [OF spent_on_calls [OF fair]]]
              _ 1(11)])
      then obtain e w where "mint env desk (attested_authority proposal' attestation confirmation now) now
          (Some p) (Some deadline) s2 = (Inl e, w)"
        using mint_refused [OF fair] by blast
      with 1(15) same assms(6) show ?case by simp
    qed
  qed
  ultimately show ?thesis using run by (cases x) auto
qed

section \<open>A successful ceremony\<close>

text \<open>A mint that returns, from the file it found to the file it left.\<close>

lemma mint_Inr:
  assumes clock: "keeps_file (e_clock env)" "keeps_file (e_token env)" "\<And>m. keeps_file (k_write desk m)"
    and keyed: "keyed (e_host env) (disk s)"
    and run: "mint env desk authority now one_shot apply_before s = (Inr i, t)"
  obtains r u where
    "mint_id env authority s = (Inr i, u)" "new_authorization (e_host env) i authority now = Inr r"
    "stored_json (e_host env) i (disk t) = Some r" "stored_json (e_host env) i (disk s) = None"
    "keyed (e_host env) (disk t)" "validate_authorization (e_host env) r = None"
proof -
  let ?h = "e_host env"
  obtain u r v n w where *: "mint_id env authority s = (Inr i, u)" "new_authorization ?h i authority now = Inr r"
    "mint_locked env r one_shot apply_before u = (Inr n, v)" "k_write desk w v = (Inr (), t)"
    using mint_parts [OF run] by auto
  have "keeps_file (mint_id env authority)"
    using clock(2) unfolding keeps_file_def mint_id_def by (auto intro!: ceremony_rules)
  with *(1,4) clock(3) have files: "disk u = disk s" "disk t = disk v" by (auto dest: keeps_fileD)
  obtain document new m where l: "store_load ?h (disk u) = Inr document"
    "add_delivery ?h document r = Inr (new, Added, m)" "store_save ?h new = Inr (disk v)"
    using mint_locked_Inr [OF clock(1) *(3)] by blast
  have id: "str_of (jget ''delivery_id'' r) = i"
    using new_authorization_facts [OF *(2)] by simp
  have "distinct (map fst (deliveries_of document))"
    using keyed_load [OF keyed] l(1) files(1) by simp
  note minted = minted_stored [OF l(1) this l(2,3)]
  have "validate_authorization ?h r = None"
    using l(2) by (auto simp: add_delivery_def guard_check_Inr_iff)
  with * minted id files that show ?thesis by simp
qed

lemma quiet_desk_keeps: "quiet_desk desk \<Longrightarrow> keeps_file (k_write desk m)"
  by (simp add: quiet_desk_def keeps_file_def)

lemma quiet_keeps: "quiet env \<Longrightarrow> keeps_file (e_clock env)" "quiet env \<Longrightarrow> keeps_file (e_token env)"
  by (simp_all add: quiet_def surroundings_preserve_def keeps_file_def)

text \<open>The record of an attested proposal.\<close>

lemma update_keys_differ:
  "m \<noteq> JStr (mode_str PR_UPDATE) \<Longrightarrow> ''delivery_id'' \<notin> set (proposal_binding_keys m)"
  "k \<in> set (proposal_binding_keys m) \<Longrightarrow> k \<noteq> ''delivery_id''
     \<Longrightarrow> k \<in> set (authority_keys m) \<and> k \<noteq> ''schema_version'' \<and> k \<noteq> ''human_authorization'' \<and> k \<noteq> ''expiration''"
  by (auto simp: proposal_binding_keys_def authority_keys_def DELIVERY_PROPOSAL_BINDING_KEYS_def AUTHORITY_KEYS_def
      PR_UPDATE_DELIVERY_PROPOSAL_BINDING_KEYS_def PR_UPDATE_AUTHORITY_KEYS_def)

lemma attested_record:
  assumes proposal: "check_proposal proposal = None"
    and authority: "authority = attested_authority proposal attestation confirmation now"
    and id: "mint_id env authority s = (Inr i, u)" and r: "new_authorization h i authority now = Inr r"
  shows "k \<in> set (proposal_binding_keys (jget ''mode'' (jget ''binding'' proposal)))
           \<Longrightarrow> jget k r = jget k (jget ''binding'' proposal)"
    and "jget ''attestation'' (jget ''human_authorization'' r) = attestation"
    and "jget ''expires_at'' (jget ''expiration'' r) = jget ''expires_at'' proposal"
    and "authorized_at_of r = now"
proof -
  let ?b = "jget ''binding'' proposal"
  note get = attested_authority_get [OF proposal, of _ attestation confirmation now, folded authority]
  have keys: "''human_authorization'' \<in> set (authority_keys m)" "''expiration'' \<in> set (authority_keys m)" for m
    by (simp_all add: authority_keys_def PR_UPDATE_AUTHORITY_KEYS_def AUTHORITY_KEYS_def)
  have "jget ''human_authorization'' r = jget ''human_authorization'' authority"
    "jget ''expiration'' r = jget ''expiration'' authority"
    using new_authorization_facts(8) [OF r keys(1)] new_authorization_facts(8) [OF r keys(2)] by simp_all
  then show "jget ''attestation'' (jget ''human_authorization'' r) = attestation"
    "jget ''expires_at'' (jget ''expiration'' r) = jget ''expires_at'' proposal" "authorized_at_of r = now"
    by (simp_all add: get expiration_binding_def authorized_at_of_def)
  have mode: "jget ''mode'' authority = jget ''mode'' ?b" by (simp add: get)
  assume k: "k \<in> set (proposal_binding_keys (jget ''mode'' ?b))"
  show "jget k r = jget k ?b"
  proof (cases "k = ''delivery_id''")
    case True
    with k have "jget ''mode'' authority = JStr (mode_str PR_UPDATE)"
      unfolding mode using update_keys_differ(1) by blast
    with id have "jget ''delivery_id'' authority = JStr i"
      by (auto simp: mint_id_def seq_Inr is_presented_delivery_id_def is_str_iff)
    then have "jget ''delivery_id'' ?b = JStr i" by (simp add: get)
    with True new_authorization_facts(2) [OF r] show ?thesis by simp
  next
    case False
    with update_keys_differ(2) [OF k] have *: "k \<in> set (authority_keys (jget ''mode'' authority))"
      "k \<noteq> ''schema_version''" "k \<noteq> ''human_authorization''" "k \<noteq> ''expiration''"
      by (simp_all add: mode)
    then show ?thesis using new_authorization_facts(8) [OF r *(1,2) False] by (simp add: get)
  qed
qed

lemma attested_digest_relayed:
  assumes "jget ''attestation'' (jget ''human_authorization'' r) = relayed_attestation proposal reply args p"
  shows "attested_digest r = JStr p"
  by (simp add: attested_digest_def assms relayed_attestation_def)

text \<open>Once attested, a proposal is spent.\<close>

lemma attest_spends:
  assumes fair: "fair h time env desk" and keyed: "keyed h (disk s)"
    and load: "k_loads desk text = Some document" "proposal = jget ''delivery_proposal'' document"
    and run: "attest_dots env desk args text s = (Inr i, t)"
  shows "delivery_proposal_digest h proposal = Inr (ra_proposal_digest args)"
    and "spent h (ra_proposal_digest args) (num_of (jget ''expires_at'' proposal)) (disk t) (time t)"
proof -
  have q: "quiet env" "quiet_desk desk" and h: "e_host env = h" using fair by (auto simp: fair_def)
  have "delivery_proposal_digest h proposal = Inr (ra_proposal_digest args)
      \<and> spent h (ra_proposal_digest args) (num_of (jget ''expires_at'' proposal)) (disk t) (time t)"
    using run
  proof (rule attest_dots_Inr, goal_cases)
    case (1 document' proposal' attestation confirmation now v update path base remote s1 s2)
    then have p: "proposal' = proposal" using load by simp
    have "disk s2 = disk s1"
      using preservesD [OF live_repository_preserves [OF ceremony_preservesD(2) [OF fairD(9) [OF fair]]] _ 1(11),
          of "\<lambda>f. f = disk s1"] by simp
    then have disk: "disk s2 = disk s" using 1(7) fairD(4) [OF fair] by simp
    note minted = mint_Inr [OF quiet_keeps [OF q(1)] quiet_desk_keeps [OF q(2)] _ 1(15)]
    obtain r u where r: "mint_id env (attested_authority proposal attestation confirmation now) s2 = (Inr i, u)"
      "new_authorization h i (attested_authority proposal attestation confirmation now) now = Inr r"
      "stored_json h i (disk t) = Some r" "keyed h (disk t)" "validate_authorization h r = None"
      using minted keyed unfolding h p disk by blast
    note made = attested_record [OF 1(4) [unfolded p] refl r(1,2)]
    have "attested_by (ra_proposal_digest args) (num_of (jget ''expires_at'' proposal)) (delivery_of_json r)"
      using attested_digest_relayed [of r] made(2,3) 1(13) p attested_by_json [OF r(5)] by simp
    with r(3,4) have "spent h (ra_proposal_digest args) (num_of (jget ''expires_at'' proposal)) (disk t) (time t)"
      by (auto simp: spent_def stored_of_json)
    with 1(6) p h show ?case by simp
  qed
  then show "delivery_proposal_digest h proposal = Inr (ra_proposal_digest args)"
    and "spent h (ra_proposal_digest args) (num_of (jget ''expires_at'' proposal)) (disk t) (time t)" by simp_all
qed

section \<open>The system\<close>

text \<open>
  What may happen to the store: any ceremony, any round of the machine and any revocation, each
  with surroundings of its own, the end of what they leave to their caller, and time.
\<close>

inductive next_system :: "host \<Rightarrow> ('w sys \<Rightarrow> pynum) \<Rightarrow> 'w sys \<Rightarrow> 'w sys \<Rightarrow> bool"
  for h :: host and time :: "'w sys \<Rightarrow> pynum" where
  authorized: "next_system h time s t" if "fair h time env desk" "authorize env desk args s = (x, t)"
| presented: "next_system h time s t" if "fair h time env desk" "present_dots env desk args s = (v, t)"
| attested: "next_system h time s t" if "fair h time env desk" "attest_dots env desk relay text s = (x, t)"
| advanced: "next_system h time s t" if "fair h time env desk" "advance_once env i expected s = (y, t)"
| revoked: "next_system h time s t" if "fair h time env desk" "revoke env i who reason s = (z, t)"
| elapsed: "next_system h time s t" if "disk t = disk s" "num_le (time s) (time t)"

lemma preserves_clock:
  assumes fair: "fair h time env desk"
    and "\<And>now. is_finite_num now \<Longrightarrow> preserves (\<lambda>s. spent h p deadline (disk s) (time s) \<and> num_le now (time s)) (f now)"
  shows "preserves (\<lambda>s. spent h p deadline (disk s) (time s)) (bnd (e_clock env) f)"
  using assms(2) [OF fairD(6) [OF fair]] fairD(8) [OF fair]
  by (auto simp: preserves_def bnd_eq fairD(4) [OF fair])

lemma attest_proposal_spent:
  assumes fair: "fair h time env desk" and proposal: "check_proposal proposal = None"
  shows "preserves (\<lambda>s. spent h p deadline (disk s) (time s)) (attest_proposal env desk args proposal reply)"
proof -
  let ?K = "\<lambda>now s. spent h p deadline (disk s) (time s) \<and> num_le now (time s)"
  have calls: "ceremony_preserves (?K now) env desk" for now by (rule fair_ripe [OF fair ripens_late])
  have minted: "preserves (?K now) (mint env desk (attested_authority proposal attestation confirmation now) now x y)"
    if "is_finite_num now" for attestation confirmation now x y
  proof (rule mint_spent [OF fair that], goal_cases)
    case (1 i r)
    have "jget ''authorized_at'' (jget ''human_authorization'' (attested_authority proposal attestation confirmation now))
        = JNum now"
      by (simp add: attested_authority_get [OF proposal])
    from minted_time [OF this 1] show ?case .
  qed
  show ?thesis
    unfolding attest_proposal_def Let_def
    by (intro preserves_of_result preserves_seq preserves_basic preserves_clock [OF fair])
       (intro ceremony_rules live_repository_preserves ceremony_preservesD(2) [OF calls] minted; assumption)
qed

lemma preserves_check: "(c = None \<Longrightarrow> preserves I m) \<Longrightarrow> preserves I (seq (of_check c) m)"
  by (cases c) (auto simp: preserves_def seq_eq)

lemma attest_spent:
  assumes fair: "fair h time env desk"
  shows "preserves (\<lambda>s. spent h p deadline (disk s) (time s)) (attest_dots env desk args text)"
  unfolding attest_dots_def Let_def
  by (intro preserves_seq preserves_case_option preserves_check preserves_basic attest_proposal_spent [OF fair])

theorem spent_forever:
  assumes "(next_system h time)\<^sup>*\<^sup>* s t" "spent h p deadline (disk s) (time s)"
  shows "spent h p deadline (disk t) (time t)"
  using assms
proof (induction rule: rtranclp_induct)
  case (step u t)
  from step(2) step(3) [OF step(4)] show ?case
  proof (cases rule: next_system.cases)
    case (presented env desk args v)
    then show ?thesis
      using preservesD [OF present_preserves [OF fair_ripe [OF _ ripens_spent]]] step(3) [OF step(4)] by blast
  next
    case elapsed
    then show ?thesis using step(3) [OF step(4)] ripens_spent by (simp add: ripens_def)
  qed (blast intro: preservesD [OF authorize_spent] preservesD [OF attest_spent] preservesD [OF advance_once_spent]
      preservesD [OF revoke_spent])+
qed

end
