(* ===== verification/Attested.thy ===== *)
theory Attested
  imports Proposals
begin

text \<open>
  What a ceremony that returns has established: the record that it stored carries exactly the
  binding that was presented or displayed, and that binding is what the transport reported about
  the repository.
\<close>

section \<open>The live reading\<close>

text \<open>The repository is as an authority has it: the branch that is checked out, the head, the
  URL of the remote and the staged candidate were reported.\<close>

definition live_as_bound :: "'w env \<Rightarrow> authority \<Rightarrow> bool" where
  "live_as_bound env a \<longleftrightarrow>
     (let tr = e_transport env; path = rp_realpath (a_repository a) in
      answered (t_symbolic_ref_head tr path) (Some (bp_ref (a_source a)))
      \<and> answered (t_rev_parse tr path ''HEAD'') (Some (bl_sha (a_baseline a)))
      \<and> answered (t_remote_url tr path (rm_name (a_remote a))) (Some (rm_url_exact (a_remote a)))
      \<and> (\<exists>raw. answered (t_diff_index_raw tr path (bl_sha (a_baseline a))) raw
            \<and> parse_raw_z raw = Inr (cd_entries (a_candidate a))))"

definition live_reading :: "'w env \<Rightarrow> live_facts \<Rightarrow> bool" where
  "live_reading env v \<longleftrightarrow>
     (let tr = e_transport env in
      answered (t_symbolic_ref_head tr (lv_repo v)) (Some (lv_head_ref v))
      \<and> answered (t_rev_parse tr (lv_repo v) ''HEAD'') (Some (lv_head v))
      \<and> answered (t_remote_url tr (lv_repo v) (lv_remote_name v)) (Some (lv_url_exact v))
      \<and> (\<exists>raw. answered (t_diff_index_raw tr (lv_repo v) (lv_head v)) raw \<and> parse_raw_z raw = Inr (lv_entries v))
      \<and> lv_digest v = identity_digest (e_host env) (lv_entries v))"

lemma require_text_Inr [simp]: "require_text x s = (Inr a, t) \<longleftrightarrow> x = Some a \<and> a \<noteq> [] \<and> t = s"
  by (cases x) (auto simp: require_text_def split: list.splits)

lemma answeredI: "m s = (Inr v, t) \<Longrightarrow> answered m v"
  by (auto simp: answered_def)

lemma live_place_Inr:
  assumes "live_place env repo update s = (Inr (dir, ref), t)"
  shows "answered (t_symbolic_ref_head (e_transport env) repo) (Some ref)"
  using assms by (auto simp: live_place_def bnd_Inr seq_Inr Let_def intro: answeredI)

lemma live_remote_Inr:
  assumes "live_remote env repo name s = (Inr ((exact, fetched, pushed), target, head), t)"
  shows "answered (t_remote_url (e_transport env) repo name) (Some exact)"
    and "answered (t_rev_parse (e_transport env) repo ''HEAD'') (Some head)"
  using assms by (auto simp: live_remote_def bnd_Inr seq_Inr Let_def intro: answeredI)

text \<open>Either half completes the facts it is given with the entries that the index reports.\<close>

lemma live_half:
  assumes "(case update of Some (n, b) \<Rightarrow> live_update env n b v0 | None \<Rightarrow> live_new env v0) s = (Inr v, t)"
  shows "lv_repo v = lv_repo v0" "lv_head_ref v = lv_head_ref v0" "lv_head v = lv_head v0"
    "lv_remote_name v = lv_remote_name v0" "lv_url_exact v = lv_url_exact v0"
    "\<exists>raw. answered (t_diff_index_raw (e_transport env) (lv_repo v0) (lv_head v0)) raw \<and> parse_raw_z raw = Inr (lv_entries v)"
    "lv_digest v = identity_digest (e_host env) (lv_entries v)"
proof -
  have "lv_repo v = lv_repo v0 \<and> lv_head_ref v = lv_head_ref v0 \<and> lv_head v = lv_head v0
    \<and> lv_remote_name v = lv_remote_name v0 \<and> lv_url_exact v = lv_url_exact v0
    \<and> (\<exists>raw. answered (t_diff_index_raw (e_transport env) (lv_repo v0) (lv_head v0)) raw \<and> parse_raw_z raw = Inr (lv_entries v))
    \<and> lv_digest v = identity_digest (e_host env) (lv_entries v)"
  proof (cases update)
    case None
    with assms show ?thesis
      by (auto simp: live_new_def bnd_Inr seq_Inr Let_def split: option.splits) (blast intro: answeredI)
  next
    case (Some u)
    with assms show ?thesis
      by (cases u) (auto simp: live_update_def bnd_Inr seq_Inr Let_def split: option.splits, blast intro: answeredI)
  qed
  then show "lv_repo v = lv_repo v0" "lv_head_ref v = lv_head_ref v0" "lv_head v = lv_head v0"
    "lv_remote_name v = lv_remote_name v0" "lv_url_exact v = lv_url_exact v0"
    "\<exists>raw. answered (t_diff_index_raw (e_transport env) (lv_repo v0) (lv_head v0)) raw \<and> parse_raw_z raw = Inr (lv_entries v)"
    "lv_digest v = identity_digest (e_host env) (lv_entries v)" by simp_all
qed

lemma live_repository_reading:
  assumes "live_repository env path base remote update s = (Inr v, t)"
  shows "live_reading env v" "lv_remote_name v = remote"
proof -
  let ?repo = "os_realpath (e_host env) path"
  obtain dir ref u where place: "live_place env ?repo update s = (Inr (dir, ref), u)"
    and rest: "bnd (live_remote env ?repo remote) (\<lambda>((exact, fetched, pushed), target, head).
          let v = \<lparr>lv_repo = ?repo, lv_git_dir = dir, lv_head_ref = ref, lv_base_branch = base,
            lv_remote_name = remote, lv_url_exact = exact, lv_url_fetch = fetched, lv_url_push = pushed,
            lv_target = target, lv_head = head, lv_remote_base = None, lv_entries = [], lv_digest = [],
            lv_committer = \<lparr>cm_name = [], cm_email = []\<rparr>, lv_update = None\<rparr> in
          case update of Some (n, b) \<Rightarrow> live_update env n b v | None \<Rightarrow> live_new env v) u = (Inr v, t)"
    using assms unfolding live_repository_def Let_def by (auto simp: bnd_Inr [of "live_place env ?repo update"])
  obtain exact fetched pushed target head w where remote:
    "live_remote env ?repo remote u = (Inr ((exact, fetched, pushed), target, head), w)"
    using rest by (auto simp: bnd_Inr)
  note half = live_half [OF rest [unfolded bnd_eq remote Let_def, simplified]]
  show "live_reading env v"
    using half live_place_Inr [OF place] live_remote_Inr [OF remote] by (simp add: live_reading_def)
  show "lv_remote_name v = remote" using half by simp
qed

section \<open>The comparison\<close>

lemma sorted_find: "List.find P (sort_key f xs) = None \<longleftrightarrow> (\<forall>x \<in> set xs. \<not> P x)"
  by (auto simp: find_None_iff)

lemma live_mismatch_None:
  assumes "live_mismatch v b = Inr None"
  shows "jget ''realpath'' (jget ''repository'' b) = JStr (lv_repo v)"
    "jget ''url_exact'' (jget ''remote'' b) = JStr (lv_url_exact v)"
    "jget ''ref'' (jget ''source'' b) = JStr (lv_head_ref v)"
    "jget ''commit_sha'' (jget ''original_baseline'' b) = JStr (lv_head v)"
    "jget ''identity_digest_sha256'' (jget ''candidate'' b) = JStr (lv_digest v)"
    "py_eq (jget ''entries'' (jget ''candidate'' b)) (list_json cand_entry_json (lv_entries v))"
proof -
  obtain bound where bound: "bound_facts b = Inr bound" "\<forall>(name, x) \<in> set bound. py_eq x (live_fact v name)"
    using assms by (auto simp: live_mismatch_def sbind_Inr_iff sorted_find)
  have look: "py_eq (jget l (jget k b)) (live_fact v name)"
    if "(name, k, l) \<in> set
       [(''repository'', ''repository'', ''realpath''), (''remote_exact'', ''remote'', ''url_exact''),
        (''source_ref'', ''source'', ''ref''), (''baseline'', ''original_baseline'', ''commit_sha''),
        (''candidate'', ''candidate'', ''identity_digest_sha256''), (''entries'', ''candidate'', ''entries'')]"
    for name k l
  proof -
    have "(name, jget l (jget k b)) \<in> set bound"
      using bound(1) that
      by (auto simp: bound_facts_def sbind_Inr_iff dest!: jindex2_Inr)
    with bound(2) show ?thesis by blast
  qed
  note facts = look [of "''repository''"] look [of "''remote_exact''"] look [of "''source_ref''"] look [of "''baseline''"]
    look [of "''candidate''"] look [of "''entries''"]
  from facts show "jget ''realpath'' (jget ''repository'' b) = JStr (lv_repo v)"
    "jget ''url_exact'' (jget ''remote'' b) = JStr (lv_url_exact v)"
    "jget ''ref'' (jget ''source'' b) = JStr (lv_head_ref v)"
    "jget ''commit_sha'' (jget ''original_baseline'' b) = JStr (lv_head v)"
    "jget ''identity_digest_sha256'' (jget ''candidate'' b) = JStr (lv_digest v)"
    "py_eq (jget ''entries'' (jget ''candidate'' b)) (list_json cand_entry_json (lv_entries v))"
    by (auto simp: live_fact_def)
qed

text \<open>Entries that are equal to the live ones in Python's sense are the live ones.\<close>

lemma validate_entries_closed:
  "validate_entries previous es = None \<Longrightarrow> e \<in> set es
     \<Longrightarrow> require_closed_keys e [''path'', ''status'', ''mode'', ''blob''] = None"
  by (induction previous es rule: validate_entries.induct) (auto simp: checks_None_iff)

lemma py_eq_field:
  assumes "py_eq (JObj kvs) (JObj lws)" "map_of lws k = Some (JStr x)" "k \<in> fst ` set kvs"
  shows "jget k (JObj kvs) = JStr x"
proof -
  obtain y where y: "map_of kvs k = Some y" using assms(3) by (metis map_of_eq_None_iff not_None_eq)
  then have "(k, y) \<in> set kvs" by (rule map_of_SomeD)
  with assms(1,2) have "py_eq y (JStr x)" by (auto simp: py_eq.simps [of "JObj kvs"] list_all_iff)
  with y show ?thesis by simp
qed

lemma py_eq_entry:
  assumes "py_eq j (cand_entry_json e)" "require_closed_keys j [''path'', ''status'', ''mode'', ''blob''] = None"
  shows "cand_entry_of_json j = e"
proof -
  obtain kvs where j: "j = JObj kvs"
    using assms(1) by (cases j) (auto simp: py_eq.simps cand_entry_json_def)
  have keys: "k \<in> fst ` set kvs" if "k \<in> {''path'', ''status'', ''mode'', ''blob''}" for k
    using assms(2) that j by (auto simp: require_closed_keys_def checks_None_iff)
  note field = py_eq_field [OF assms(1) [unfolded j cand_entry_json_def]]
  have "jget ''path'' j = JStr (ce_path e)" "jget ''status'' j = JStr (ce_status e)"
    "jget ''mode'' j = JStr (ce_mode e)" "jget ''blob'' j = JStr (ce_blob e)"
    unfolding j by (rule field; use keys in simp)+
  then show ?thesis by (simp add: cand_entry_of_json_def)
qed

lemma py_eq_entries:
  assumes "py_eq js (list_json cand_entry_json es)" "validate_candidate_entries js = None"
  shows "json_list cand_entry_of_json js = es"
proof -
  obtain xs where js: "js = JList xs"
    using assms(2) by (cases js) (auto simp: validate_candidate_entries_def checks_None_iff)
  have len: "length xs = length es"
    and eq: "\<forall>(x, y) \<in> set (zip xs (map cand_entry_json es)). py_eq x y"
    using assms(1) by (auto simp: js list_json_def py_eq.simps [of "JList xs"] list_all_iff)
  have "validate_entries None xs = None"
    using assms(2) by (simp add: js validate_candidate_entries_def checks_None_iff)
  then have closed: "x \<in> set xs \<Longrightarrow> require_closed_keys x [''path'', ''status'', ''mode'', ''blob''] = None" for x
    by (rule validate_entries_closed)
  have "cand_entry_of_json (xs ! n) = es ! n" if "n < length es" for n
  proof (rule py_eq_entry)
    show "py_eq (xs ! n) (cand_entry_json (es ! n))" using eq that len by (force simp: set_zip)
  qed (use closed that len in simp)
  then have "map cand_entry_of_json xs = es" using len by (intro nth_equalityI) auto
  then show ?thesis by (simp add: js json_list_def)
qed

section \<open>The attested record\<close>

lemma bound_place_remote: "bound_place b = Inr (path, base, remote) \<Longrightarrow> jget ''name'' (jget ''remote'' b) = JStr remote"
  by (auto simp: bound_place_def sbind_Inr_iff jtext_def is_str_iff split: if_splits dest!: jindex2_Inr)

lemma valid_entries:
  assumes "validate_authorization h r = None"
  shows "validate_candidate_entries (jget ''entries'' (jget ''candidate'' r)) = None"
proof -
  have "validate_candidate h (jget ''candidate'' r) = None"
    using valid_halves(2) [OF assms] by (simp add: validate_authority_half_def checks_None_iff)
  then show ?thesis by (simp add: validate_candidate_def checks_None_iff)
qed

lemma proposal_keys:
  "{''repository'', ''remote'', ''source'', ''original_baseline'', ''candidate''} \<subseteq> set (proposal_binding_keys m)"
  by (simp add: proposal_binding_keys_def DELIVERY_PROPOSAL_BINDING_KEYS_def PR_UPDATE_DELIVERY_PROPOSAL_BINDING_KEYS_def)

lemma typed_fields:
  "rp_realpath (a_repository (d_authority (delivery_of_json r))) = str_of (jget ''realpath'' (jget ''repository'' r))"
  "rm_name (a_remote (d_authority (delivery_of_json r))) = str_of (jget ''name'' (jget ''remote'' r))"
  "rm_url_exact (a_remote (d_authority (delivery_of_json r))) = str_of (jget ''url_exact'' (jget ''remote'' r))"
  "bp_ref (a_source (d_authority (delivery_of_json r))) = str_of (jget ''ref'' (jget ''source'' r))"
  "bl_sha (a_baseline (d_authority (delivery_of_json r))) = str_of (jget ''commit_sha'' (jget ''original_baseline'' r))"
  "cd_entries (a_candidate (d_authority (delivery_of_json r)))
     = json_list cand_entry_of_json (jget ''entries'' (jget ''candidate'' r))"
  "cd_digest (a_candidate (d_authority (delivery_of_json r)))
     = str_of (jget ''identity_digest_sha256'' (jget ''candidate'' r))"
  by (simp_all add: delivery_of_json_def authority_of_json_def repository_of_json_def remote_of_json_def
      branch_pair_of_json_def baseline_of_json_def candidate_of_json_def)

lemma attested_facts:
  assumes q: "quiet env" "quiet_desk desk" and keyed: "keyed (e_host env) (disk s)"
    and load: "k_loads desk text = Some document" "proposal = jget ''delivery_proposal'' document"
      "b = jget ''binding'' proposal"
    and run: "attest_dots env desk args text s = (Inr i, t)"
  obtains r where
    "stored_json (e_host env) i (disk t) = Some r" "stored_json (e_host env) i (disk s) = None"
    "validate_authorization (e_host env) r = None"
    "\<forall>k \<in> set (proposal_binding_keys (jget ''mode'' b)). jget k r = jget k b"
    "jget ''expires_at'' (jget ''expiration'' r) = jget ''expires_at'' proposal"
    "attested_digest r = JStr (ra_proposal_digest args)"
    "live_as_bound env (d_authority (delivery_of_json r))"
  using run
proof (rule attest_dots_Inr, goal_cases)
  case (1 document' proposal' attestation confirmation now v update path base remote s1 s2)
  let ?h = "e_host env" and ?a = "attested_authority proposal attestation confirmation now"
  have p: "proposal' = proposal" using 1 load by simp
  note calls = quiet_ceremony [OF q, of "\<lambda>f. f = disk s"]
  have "disk s1 = disk s" using preservesD [OF ceremony_preservesD(3) [OF calls] _ 1(8)] by simp
  then have disk: "disk s2 = disk s"
    using preservesD [OF live_repository_preserves [OF ceremony_preservesD(2) [OF calls]] _ 1(12)] by simp
  note minted = mint_Inr [OF quiet_keeps [OF q(1)] quiet_desk_keeps [OF q(2)] _ 1(16)]
  obtain r u where r: "mint_id env ?a s2 = (Inr i, u)" "new_authorization ?h i ?a now = Inr r"
    "stored_json ?h i (disk t) = Some r" "stored_json ?h i (disk s) = None" "validate_authorization ?h r = None"
    using minted keyed unfolding p disk by blast
  note made = attested_record [OF 1(5) [unfolded p] refl r(1,2)]
  have keys: "jget k r = jget k b" if "k \<in> set (proposal_binding_keys (jget ''mode'' b))" for k
    using made(1) that load(3) by simp
  then have live: "jget k r = jget k b"
    if "k \<in> {''repository'', ''remote'', ''source'', ''original_baseline'', ''candidate''}" for k
    using proposal_keys that by blast
  note reading = live_repository_reading [OF 1(12)] and same = live_mismatch_None [OF 1(13) [unfolded p]]
  have entries: "json_list cand_entry_of_json (jget ''entries'' (jget ''candidate'' r)) = lv_entries v"
    using py_eq_entries [OF _ valid_entries [OF r(5)]] same(6) live load(3) by simp
  have "live_as_bound env (d_authority (delivery_of_json r))"
    using reading same(1-4) bound_place_remote [OF 1(11)] entries live load(3) p
    by (simp add: live_as_bound_def live_reading_def typed_fields Let_def)
  moreover have "attested_digest r = JStr (ra_proposal_digest args)"
    using attested_digest_relayed made(2) 1(14) p by simp
  ultimately show ?case using 1(1) r(3-5) keys made(3) by blast
qed

section \<open>The record of the local terminal\<close>

lemma repository_binding_has:
  "k \<in> {''repository'', ''remote'', ''source'', ''original_baseline'', ''candidate''}
     \<Longrightarrow> \<exists>x. map_of (repository_binding v) k = Some x"
  by (auto simp: repository_binding_def Let_def)

lemma binding_fields_look:
  assumes "map_of (repository_binding v) k = Some x"
    "k \<notin> {''revision'', ''previous_delivery_id'', ''workflow_identity'', ''mission''}"
  shows "map_of (binding_fields env v herd args argv rechecked captured content now) k = Some x"
  using assms by (simp add: binding_fields_def map_of_append map_add_def)

lemma update_fields_look:
  "k \<notin> {''delivery_id'', ''pull_request_number'', ''staged_sha256''} \<Longrightarrow> map_of (xs @ update_fields token u) k = map_of xs k"
  by (cases u) (simp add: update_fields_def map_of_append map_add_def split: option.splits)

lemma gather_reading:
  assumes "gather env desk args now s = (Inr (bound, lines, digest), t)"
  obtains v where "live_reading env v" "digest = lv_digest v" "lv_remote_name v = g_remote args"
    "\<And>k. k \<in> {''repository'', ''remote'', ''source'', ''original_baseline'', ''candidate''}
       \<Longrightarrow> map_of bound k = map_of (repository_binding v) k"
proof -
  obtain update v u herd argv rechecked captured content u' where *:
    "live_repository env (g_repo args) (g_base_branch args) (g_remote args) update u = (Inr v, u')"
    "digest = lv_digest v"
    "bound = binding_fields env v herd args argv rechecked captured content now
     \<or> (\<exists>token w. bound = binding_fields env v herd args argv rechecked captured content now @ update_fields token w)"
    using assms by (auto simp: gather_def bnd_Inr Let_def split: option.splits) blast+
  have "map_of bound k = map_of (repository_binding v) k"
    if k: "k \<in> {''repository'', ''remote'', ''source'', ''original_baseline'', ''candidate''}" for k
  proof -
    obtain x where "map_of (repository_binding v) k = Some x" using repository_binding_has [OF k] by blast
    moreover have "k \<notin> {''revision'', ''previous_delivery_id'', ''workflow_identity'', ''mission''}"
      "k \<notin> {''delivery_id'', ''pull_request_number'', ''staged_sha256''}" using k by auto
    ultimately show ?thesis
      using *(3) binding_fields_look update_fields_look by (elim disjE exE; simp)
  qed
  with live_repository_reading [OF *(1)] *(2) that show ?thesis by blast
qed

lemma repository_binding_fields:
  "map_of (repository_binding v) ''repository'' = Some x \<Longrightarrow> jget ''realpath'' x = JStr (lv_repo v)"
  "map_of (repository_binding v) ''remote'' = Some x
     \<Longrightarrow> jget ''name'' x = JStr (lv_remote_name v) \<and> jget ''url_exact'' x = JStr (lv_url_exact v)"
  "map_of (repository_binding v) ''source'' = Some x \<Longrightarrow> jget ''ref'' x = JStr (lv_head_ref v)"
  "map_of (repository_binding v) ''original_baseline'' = Some x \<Longrightarrow> jget ''commit_sha'' x = JStr (lv_head v)"
  "map_of (repository_binding v) ''candidate'' = Some x
     \<Longrightarrow> jget ''identity_digest_sha256'' x = JStr (lv_digest v)
        \<and> json_list cand_entry_of_json (jget ''entries'' x) = lv_entries v"
  by (auto simp: repository_binding_def Let_def repository_json_def remote_json_def branch_pair_json_def
      baseline_json_def candidate_json_def list_json_def json_list_def comp_def)

lemma terminal_facts:
  assumes q: "quiet env" "quiet_desk desk" and keyed: "keyed (e_host env) (disk s)"
    and run: "authorize env desk args s = (Inr i, t)"
  obtains r now answer expires_at where
    "stored_json (e_host env) i (disk t) = Some r" "stored_json (e_host env) i (disk s) = None"
    "validate_authorization (e_host env) r = None"
    "answered (k_confirm desk (''Type the first '' @ show_int (int CONFIRMATION_CHARS)
        @ '' characters of the candidate identity to authorize exactly this delivery: '')) answer"
    "strip answer = py_take CONFIRMATION_CHARS (cd_digest (a_candidate (d_authority (delivery_of_json r))))"
    "jget ''human_authorization'' r = terminal_authorization env desk (strip answer) now"
    "jget ''expires_at'' (jget ''expiration'' r) = JNum expires_at"
    "num_add now (PInt (g_validity_seconds args)) = Inr expires_at" "answered (e_clock env) now"
    "live_as_bound env (d_authority (delivery_of_json r))"
proof -
  let ?h = "e_host env"
  obtain now u authority v where *: "e_clock env s = (Inr now, u)" "assemble_authority env desk args now u = (Inr authority, v)"
    "mint env desk authority now None None v = (Inr i, t)"
    using run by (auto simp: authorize_def bnd_Inr)
  note calls = quiet_ceremony [OF q, of "\<lambda>f. f = disk s"]
  have "disk u = disk s" using preservesD [OF ceremony_preservesD(3) [OF calls] _ *(1)] by simp
  then have disk: "disk v = disk s" using preservesD [OF assemble_preserves [OF calls] _ *(2)] by simp
  note minted = mint_Inr [OF quiet_keeps [OF q(1)] quiet_desk_keeps [OF q(2)] _ *(3)]
  obtain r w where r: "new_authorization ?h i authority now = Inr r"
    "stored_json ?h i (disk t) = Some r" "stored_json ?h i (disk s) = None" "validate_authorization ?h r = None"
    using minted keyed unfolding disk by blast
  from *(2) show ?thesis
  proof (rule assemble_Inr, goal_cases)
    case (1 bound lines digest s2 answer expires_at)
    obtain lv where lv: "live_reading env lv" "digest = lv_digest lv" "lv_remote_name lv = g_remote args"
      "\<And>k. k \<in> {''repository'', ''remote'', ''source'', ''original_baseline'', ''candidate''}
         \<Longrightarrow> map_of bound k = map_of (repository_binding lv) k"
      using gather_reading [OF 1(1)] by blast
    have keys: "k \<in> set (authority_keys m) \<and> k \<noteq> ''schema_version'' \<and> k \<noteq> ''delivery_id''"
      if "k \<in> {''repository'', ''remote'', ''source'', ''original_baseline'', ''candidate'', ''human_authorization'',
            ''expiration''}" for k m
      using that by (auto simp: authority_keys_def AUTHORITY_KEYS_def PR_UPDATE_AUTHORITY_KEYS_def)
    have field: "map_of (repository_binding lv) k = Some (jget k r)"
      if k: "k \<in> {''repository'', ''remote'', ''source'', ''original_baseline'', ''candidate''}" for k
    proof -
      obtain x where x: "map_of (repository_binding lv) k = Some x" using repository_binding_has [OF k] by blast
      then have "jget k authority = x"
        using lv(4) [OF k] k by (auto simp: 1(5) map_of_append map_add_def)
      moreover have "k \<in> set (authority_keys (jget ''mode'' authority)) \<and> k \<noteq> ''schema_version'' \<and> k \<noteq> ''delivery_id''"
        by (rule keys) (use k in auto)
      ultimately show ?thesis using new_authorization_facts(8) [OF r(1), of k] x by simp
    qed
    have live: "live_as_bound env (d_authority (delivery_of_json r))"
      "cd_digest (a_candidate (d_authority (delivery_of_json r))) = digest"
      using lv(1,2) repository_binding_fields [OF field] by (simp_all add: live_as_bound_def live_reading_def typed_fields Let_def)
    have "jget ''human_authorization'' r = terminal_authorization env desk (strip answer) now"
      "jget ''expires_at'' (jget ''expiration'' r) = JNum expires_at"
      using new_authorization_facts(8) [OF r(1), of "''human_authorization''"]
        new_authorization_facts(8) [OF r(1), of "''expiration''"] keys [of "''human_authorization''"] keys [of "''expiration''"]
        gather_fields [OF 1(1)]
      by (simp_all add: 1(5) map_of_append map_add_def expiration_binding_def)
    with that [OF r(2-4) 1(2)] live 1(3,4) *(1) show ?case by (auto simp: answered_def)
  qed
qed

section \<open>Refusals\<close>

text \<open>A terminal that takes every line; the last message of a ceremony is written after the store.\<close>

definition prints :: "'w desk \<Rightarrow> bool" where
  "prints desk \<longleftrightarrow> (\<forall>m s. \<exists>t. k_write desk m s = (Inr (), t))"

text \<open>A computation whose refusals leave the file \<open>f\<close> as it was.\<close>

definition clean :: "stored_file \<Rightarrow> ('w sys, 'a) act \<Rightarrow> bool" where
  "clean f m \<longleftrightarrow> (\<forall>s e t. disk s = f \<longrightarrow> m s = (Inl e, t) \<longrightarrow> disk t = f)"

lemma keeps_disk: "preserves (\<lambda>s. disk s = f) m \<Longrightarrow> m s = (r, t) \<Longrightarrow> disk s = f \<Longrightarrow> disk t = f"
  by (rule preservesD)

lemma clean_keeps: "preserves (\<lambda>s. disk s = f) m \<Longrightarrow> clean f m"
  unfolding clean_def by (intro allI impI) (rule keeps_disk)

lemma clean_bnd:
  assumes m: "preserves (\<lambda>s. disk s = f) m" and k: "\<And>x. clean f (k x)"
  shows "clean f (bnd m k)"
  unfolding clean_def
proof (intro allI impI)
  fix s e t
  assume s: "disk s = f" and run: "bnd m k s = (Inl e, t)"
  obtain x u where mu: "m s = (x, u)" by fastforce
  then have u: "disk u = f" using s by (rule keeps_disk [OF m])
  show "disk t = f"
  proof (cases x)
    case (Inl d)
    with run mu u show ?thesis by (simp add: bnd_eq)
  next
    case (Inr y)
    with run mu have "k y u = (Inl e, t)" by (simp add: bnd_eq)
    with k u show ?thesis unfolding clean_def by blast
  qed
qed

lemma clean_seq: "preserves (\<lambda>s. disk s = f) m \<Longrightarrow> clean f k \<Longrightarrow> clean f (seq m k)"
  by (simp add: seq_def clean_bnd)

lemma clean_last:
  assumes m: "clean f m" and k: "\<And>x s. \<exists>y t. k x s = (Inr y, t)"
  shows "clean f (bnd m k)"
  unfolding clean_def
proof (intro allI impI)
  fix s e t
  assume s: "disk s = f" and run: "bnd m k s = (Inl e, t)"
  obtain x u where mu: "m s = (x, u)" by fastforce
  show "disk t = f"
  proof (cases x)
    case (Inl d)
    with run mu have "m s = (Inl d, t)" by (simp add: bnd_eq)
    with m s show ?thesis unfolding clean_def by blast
  next
    case (Inr y)
    obtain z w where "k y u = (Inr z, w)" using k by blast
    with run mu Inr show ?thesis by (simp add: bnd_eq)
  qed
qed

lemma clean_case: "(\<And>x y. p = (x, y) \<Longrightarrow> clean f (g x y)) \<Longrightarrow> clean f (case p of (x, y) \<Rightarrow> g x y)"
  "(z = None \<Longrightarrow> clean f m) \<Longrightarrow> (\<And>y. z = Some y \<Longrightarrow> clean f (k y)) \<Longrightarrow> clean f (case z of None \<Rightarrow> m | Some y \<Rightarrow> k y)"
  by (cases p) (auto split: option.splits)

lemma mint_clean:
  assumes q: "quiet env" "quiet_desk desk" and "prints desk"
  shows "clean f (mint env desk authority now one_shot apply_before)"
proof -
  have locked: "clean f (mint_locked env r one_shot apply_before)" for r
    using mint_locked_Inl [OF quiet_keeps(1) [OF q(1)]] by (auto simp: clean_def)
  have last: "\<exists>y t. seq (k_write desk m) (ret i) s = (Inr y, t)" for m i s
    using assms(3) [unfolded prints_def, rule_format, of m s] by (auto simp: seq_eq)
  have id: "preserves (\<lambda>s. disk s = f) (mint_id env authority)"
    unfolding mint_id_def
    by (intro ceremony_rules ceremony_preservesD(4) [OF quiet_ceremony [OF q, of "\<lambda>g. g = f"]])
  show ?thesis
    unfolding mint_def by (intro clean_bnd clean_seq clean_last id locked last preserves_basic)
qed

lemma authorize_clean:
  assumes "quiet env" "quiet_desk desk" "prints desk"
  shows "clean f (authorize env desk args)"
proof -
  note calls = quiet_ceremony [OF assms(1,2), of "\<lambda>g. g = f"]
  show ?thesis
    unfolding authorize_def
    by (intro clean_bnd mint_clean [OF assms] assemble_preserves [OF calls] ceremony_preservesD(3) [OF calls])
qed

lemma attest_clean:
  assumes "quiet env" "quiet_desk desk" "prints desk"
  shows "clean f (attest_dots env desk args text)"
proof -
  note calls = quiet_ceremony [OF assms(1,2), of "\<lambda>g. g = f"]
  show ?thesis
    unfolding attest_dots_def attest_proposal_def Let_def
    by (intro clean_case clean_bnd clean_seq preserves_basic mint_clean [OF assms] ceremony_preservesD(3) [OF calls]
        live_repository_preserves [OF ceremony_preservesD(2) [OF calls]] clean_keeps [OF preserves_basic(2)])
qed

end
