(* ===== verification/MachineSamples.thy ===== *)
theory MachineSamples
  imports MachineSteps ValidFacts
begin

text \<open>
  Records in the course of a delivery, on which the theorems about the machine are
  instantiated, and that the validator accepts them.
\<close>

section \<open>Validity in the course of a delivery\<close>

text \<open>The authority half of the validator reads the authority half of the record only.\<close>

lemma same_authority_lookup:
  assumes "d_authority d = d_authority e" "k \<in> set PR_UPDATE_AUTHORITY_KEYS"
  shows "jget k (delivery_json d) = jget k (delivery_json e)"
  using assms
  by (auto simp: PR_UPDATE_AUTHORITY_KEYS_def AUTHORITY_KEYS_def delivery_get)

lemma same_authority_sub_object:
  assumes "d_authority d = d_authority e" "set ks \<subseteq> set PR_UPDATE_AUTHORITY_KEYS"
  shows "sub_object ks (delivery_json d) = sub_object ks (delivery_json e)"
  using assms same_authority_lookup [of d e] by (auto simp: sub_object_def)

lemma key_tuples:
  "set (authority_keys m) \<subseteq> set PR_UPDATE_AUTHORITY_KEYS"
  "set (proposal_binding_keys m) \<subseteq> set PR_UPDATE_AUTHORITY_KEYS"
  by (simp_all add: authority_keys_def proposal_binding_keys_def PR_UPDATE_AUTHORITY_KEYS_def AUTHORITY_KEYS_def
      PR_UPDATE_DELIVERY_PROPOSAL_BINDING_KEYS_def DELIVERY_PROPOSAL_BINDING_KEYS_def)

lemma authority_half_cong:
  assumes "d_authority d = d_authority e" "d_authority_digest d = d_authority_digest e"
  shows "validate_authority_half h (delivery_json d) m = validate_authority_half h (delivery_json e) m"
proof -
  have keys: "jkeys (delivery_json d) = jkeys (delivery_json e)"
    using assms by (simp add: delivery_json_keys)
  have mode: "jget ''mode'' (delivery_json d) = jget ''mode'' (delivery_json e)"
    using assms by (simp add: delivery_get)
  have digest: "authority_digest h (delivery_json d) = authority_digest h (delivery_json e)"
    unfolding authority_digest_def mode
    using same_authority_sub_object [OF assms(1) key_tuples(1)] by simp
  have human: "validate_human_authorization h v (delivery_json d) = validate_human_authorization h v (delivery_json e)" for v
    unfolding validate_human_authorization_def validate_dots_authorization_def mode
    using same_authority_sub_object [OF assms(1) key_tuples(2)] assms by (simp add: delivery_get)
  show ?thesis
    unfolding validate_authority_half_def require_closed_keys_def keys digest human
    using assms by (simp only: delivery_get)
qed

lemma valid_delivery_iff:
  "validate_authorization h (delivery_json d) = None \<longleftrightarrow>
     validate_authority_half h (delivery_json d) (a_mode (d_authority d)) = None
     \<and> validate_state_half h (delivery_json d) (a_mode (d_authority d)) = None"
proof
  assume "validate_authority_half h (delivery_json d) (a_mode (d_authority d)) = None
     \<and> validate_state_half h (delivery_json d) (a_mode (d_authority d)) = None"
  moreover have "mode_str (a_mode (d_authority d)) \<in> mode_str ` set MODES"
    by (cases "a_mode (d_authority d)") (simp_all add: MODES_def)
  ultimately show "validate_authorization h (delivery_json d) = None"
    by (simp add: validate_authorization_def checks_None_iff Let_def delivery_get schema_version_ok_def
        require_dict_def del: mode_str.simps)
qed (simp add: valid_delivery_halves)

text \<open>So a record with the sample's authority half is valid if its state half is.\<close>

lemma sample_state_suffices:
  assumes "d_authority d = sample_authority m" "d_authority_digest d = hex64"
    and "validate_state_half sample_host (delivery_json d) m = None"
  shows "validate_authorization sample_host (delivery_json d) = None"
proof -
  have "validate_authorization sample_host (delivery_json (sample_delivery m)) = None"
    using sample_pull_request_valid sample_update_valid by (cases m) simp_all
  then have "validate_authority_half sample_host (delivery_json (sample_delivery m)) m = None"
    using valid_delivery_halves(1) [of sample_host "sample_delivery m"] by (simp add: sample_values)
  then show ?thesis
    using assms authority_half_cong [of d "sample_delivery m" sample_host m]
    by (simp add: valid_delivery_iff sample_values)
qed

section \<open>The running record\<close>

definition sample_receipt :: "str \<Rightarrow> step \<Rightarrow> (str \<times> json) list \<Rightarrow> pynum \<Rightarrow> receipt_state \<Rightarrow> (str \<times> json) list option \<Rightarrow> receipt" where
  "sample_receipt token s binding now state observed =
     \<lparr>rc_id = ''rcpt-'' @ token, rc_step = s, rc_delivery_id = a_delivery_id (sample_authority PR_UPDATE),
      rc_parent_digest = hex64, rc_derived_at = now, rc_attempt = 1, rc_state = state,
      rc_binding = binding, rc_observed = observed, rc_digest = hex64\<rparr>"

definition sample_commit_binding :: "(str \<times> json) list" where
  "sample_commit_binding =
     commit_binding sample_host (sample_delivery PR_UPDATE) (oid_of (CHR ''1'')) hex64 (oid_of (CHR ''3''))"

definition update_entries :: "step_entry \<Rightarrow> step \<Rightarrow> step_entry" where
  "update_entries e = (initial_entry PR_UPDATE)(COMMIT := e)"

definition executing_entry :: step_entry where
  "executing_entry = \<lparr>se_state = STEP_EXECUTING,
     se_receipt = Some (sample_receipt ''0'' COMMIT sample_commit_binding (PInt 50) RECEIPT_EXECUTING None), se_voided = []\<rparr>"

definition succeeded_entry :: step_entry where
  "succeeded_entry = \<lparr>se_state = STEP_SUCCEEDED,
     se_receipt = Some (sample_receipt ''0'' COMMIT sample_commit_binding (PInt 50) RECEIPT_SUCCEEDED
       (Some [(''commit_oid'', JStr (oid_of (CHR ''4'')))])), se_voided = []\<rparr>"

definition executing_delivery :: delivery where
  "executing_delivery = (sample_delivery PR_UPDATE)
     \<lparr>d_steps := update_entries executing_entry, d_updated_at := PInt 50\<rparr>"

definition committed_delivery :: delivery where
  "committed_delivery = (sample_delivery PR_UPDATE)
     \<lparr>d_steps := update_entries succeeded_entry, d_phase := COMMITTED, d_updated_at := PInt 50\<rparr>"

definition revoked_delivery :: delivery where
  "revoked_delivery = (sample_delivery PR_UPDATE)
     \<lparr>d_revocation := \<lparr>rk_revoked = True, rk_at = Some (PInt 50), rk_by = Some ''h'', rk_reason = Some ''r''\<rparr>,
      d_phase := REVOKED, d_updated_at := PInt 50\<rparr>"

lemma binding_explicit:
  "sample_commit_binding =
      [(''repository_realpath'', JStr ''/r''), (''git_dir_realpath'', JStr ''/r/.git''), (''branch'', JStr ''topic''),
       (''source_ref'', JStr ''refs/heads/topic''), (''head_before'', JStr (oid_of (CHR ''1''))),
       (''staged_sha256'', JStr hex64), (''candidate_identity_digest'', JStr hex64),
       (''expected_tree_oid'', JStr (oid_of (CHR ''3''))), (''committer_name'', JStr ''n''),
       (''committer_email'', JStr ''e''), (''message_sha256'', JStr hex64)]"
  by (simp add: sample_commit_binding_def commit_binding_def message_digest_def text_digest_def sample_values
      Let_def) (simp add: sample_authority_def)

lemma sample_receipt_digest:
  "receipt_digest sample_host (receipt_json (sample_receipt t COMMIT sample_commit_binding (PInt n) st ob)) = Inr hex64"
proof -
  have "finite_json (sub_object (filter (\<lambda>k. k \<notin> set RECEIPT_DIGEST_EXCLUDED_KEYS) RECEIPT_KEYS)
          (receipt_json (sample_receipt t COMMIT sample_commit_binding (PInt n) st ob)))"
    unfolding binding_explicit
    by (simp add: sub_object_def RECEIPT_KEYS_def RECEIPT_DIGEST_EXCLUDED_KEYS_def receipt_json_def
        sample_receipt_def is_finite_num_def)
  then show ?thesis unfolding receipt_digest_def by (rule sample_json_digest)
qed


lemma sample_receipt_valid:
  assumes "require_id (JStr (''rcpt-'' @ t)) = None" "require_timestamp (JNum (PInt n)) = None"
    and "ob = None \<or> ob = Some [(''commit_oid'', JStr (oid_of (CHR ''4'')))]"
  shows "validate_receipt sample_host (receipt_json (sample_receipt t COMMIT sample_commit_binding (PInt n) st ob)) COMMIT
           (JStr (a_delivery_id (sample_authority PR_UPDATE))) (JStr hex64) = None"
proof -
  let ?r = "receipt_json (sample_receipt t COMMIT sample_commit_binding (PInt n) st ob)"
  have keys: "jkeys ?r = RECEIPT_KEYS" "require_dict ?r = None"
    by (simp_all add: receipt_json_def RECEIPT_KEYS_def jkeys_def require_dict_def)
  have fields: "jget ''receipt_id'' ?r = JStr (''rcpt-'' @ t)" "jget ''step'' ?r = JStr ''COMMIT''"
    "jget ''delivery_id'' ?r = JStr (a_delivery_id (sample_authority PR_UPDATE))"
    "jget ''parent_authority_digest_sha256'' ?r = JStr hex64" "jget ''derived_at'' ?r = JNum (PInt n)"
    "jget ''attempt'' ?r = JInt 1" "jget ''state'' ?r = JStr (receipt_state_str st)"
    "jget ''binding'' ?r = JObj sample_commit_binding" "jget ''observed'' ?r = opt_json JObj ob"
    "jget ''receipt_digest_sha256'' ?r = JStr hex64"
    by (simp_all add: receipt_json_def sample_receipt_def)
  have states: "require_member (JStr (receipt_state_str st)) (map receipt_state_str RECEIPT_STATES) = None"
    by (cases st) (simp_all add: require_member_def RECEIPT_STATES_def checks_None_iff)
  have rest: "require_member (JStr ''COMMIT'') (map step_str STEPS) = None"
    "require_int (JInt 1) (Some 1) (Some (int MAX_STEP_ATTEMPTS)) = None"
    "require_closed_keys (JObj sample_commit_binding) (receipt_binding_fields COMMIT) = None"
    "require_dict (JObj sample_commit_binding) = None"
    "checks (map (\<lambda>kv. require_binding_item (snd kv)) sample_commit_binding) = None"
    "checks (map require_observed_item [(''commit_oid'', JStr (oid_of (CHR ''4'')))]) = None"
    unfolding binding_explicit by code_simp+
  have observed: "opt_json JObj ob = JNull \<or> opt_json JObj ob = JObj [(''commit_oid'', JStr (oid_of (CHR ''4'')))]"
    using assms(3) by (auto simp: opt_json_def)
  have closed: "require_closed_keys ?r RECEIPT_KEYS = None"
    unfolding require_closed_keys_def keys by code_simp
  show ?thesis
    using observed
    by (elim disjE)
       (simp_all add: validate_receipt_def checks_None_iff [of "_ # _"] fields assms(1,2) rest states keys closed
         sample_rest(7) sample_receipt_digest sample_checks
         del: append.simps append_Cons map_eq_conv list.map receipt_binding_fields.simps)
qed

lemma sample_ids: "require_id (JStr (''rcpt-'' @ ''0'')) = None" "require_timestamp (JNum (PInt 50)) = None"
  by code_simp+

text \<open>The state half of an update whose COMMIT entry is \<open>e\<close>.\<close>

lemma untouched_initial:
  "s \<in> set PR_UPDATE_EXCLUDED_STEPS \<Longrightarrow> untouched_entry (step_entry_json (initial_entry PR_UPDATE s))"
  "validate_step_entry sample_host (step_entry_json (initial_entry PR_UPDATE BASE_REFRESH)) BASE_REFRESH i p = None"
  "validate_step_entry sample_host (step_entry_json (initial_entry PR_UPDATE PUSH)) PUSH i p = None"
  "validate_step_entry sample_host (step_entry_json (initial_entry PR_UPDATE PR_CREATE)) PR_CREATE i p = None"
proof -
  have "untouched_entry (step_entry_json (initial_entry PR_UPDATE BASE_REFRESH))"
    "untouched_entry (step_entry_json (initial_entry PR_UPDATE PR_CREATE))"
    by code_simp+
  then show "s \<in> set PR_UPDATE_EXCLUDED_STEPS \<Longrightarrow> untouched_entry (step_entry_json (initial_entry PR_UPDATE s))"
    by (auto simp: PR_UPDATE_EXCLUDED_STEPS_def)
qed code_simp+


lemma update_steps_valid:
  assumes "validate_step_entry sample_host (step_entry_json e) COMMIT i p = None"
  shows "validate_steps sample_host
           (JObj (map (\<lambda>s. (step_str s, step_entry_json (update_entries e s))) STEPS)) i p PR_UPDATE = None"
proof -
  let ?v = "JObj (map (\<lambda>s. (step_str s, step_entry_json (update_entries e s))) STEPS)"
  have "jkeys ?v = map step_str STEPS" by (simp add: jkeys_def)
  then have keys: "require_closed_keys ?v (map step_str STEPS) = None"
    by (simp add: require_closed_keys_def checks_None_iff list_all_iff)
  have "list_all (\<lambda>s. untouched_entry (jget (step_str s) ?v)) PR_UPDATE_EXCLUDED_STEPS"
    unfolding jget_steps list_all_iff
    by (auto simp: update_entries_def PR_UPDATE_EXCLUDED_STEPS_def untouched_initial)
  moreover have "validate_step_entry sample_host (jget (step_str s) ?v) s i p = None" for s
    unfolding jget_steps by (cases s) (simp_all add: update_entries_def untouched_initial assms)
  ultimately show ?thesis
    using keys by (simp add: validate_steps_def checks_None_iff [of "_ # _"] checks_None_iff [of "map _ _"]
        require_dict_def del: list.map)
qed

definition sample_pull :: pull_request where
  "sample_pull = \<lparr>pq_number = 7, pq_url = ''https://github.com/o/p/pull/7'', pq_head_sha = oid_of (CHR ''4''),
     pq_base_ref = ''refs/heads/main''\<rparr>"

lemma sample_pull_valid:
  assumes "p = None \<or> p = Some sample_pull"
  shows "opt_json pull_request_json p \<noteq> JNull \<longrightarrow>
           jget ''number'' (opt_json pull_request_json p) = JInt 7
           \<and> jget ''base_ref'' (opt_json pull_request_json p) = JStr ''refs/heads/main''"
    and "validate_pull_request (opt_json pull_request_json p) = None"
proof -
  have "validate_pull_request (opt_json pull_request_json (Some sample_pull)) = None"
    "validate_pull_request JNull = None"
    by code_simp+
  with assms show "validate_pull_request (opt_json pull_request_json p) = None"
    by (auto simp: opt_json_def)
qed (use assms in \<open>auto simp: sample_pull_def opt_json_def pull_request_json_def\<close>)

lemma update_state_valid:
  assumes d: "d_authority d = sample_authority PR_UPDATE" "d_authority_digest d = hex64"
      "d_base_state d = d_base_state (sample_delivery PR_UPDATE)" "d_steps d = update_entries e"
      "d_updated_at d = PInt 50" "d_blocker d = None"
    and pull: "d_pull_request d = None \<or> d_pull_request d = Some sample_pull"
    and e: "validate_step_entry sample_host (step_entry_json e) COMMIT
              (JStr (a_delivery_id (sample_authority PR_UPDATE))) (JStr hex64) = None"
    and r: "validate_revocation (revocation_json (d_revocation d)) = None"
      "d_phase d = REVOKED \<longrightarrow> rk_revoked (d_revocation d)"
    and p: "d_phase d \<notin> set PR_UPDATE_UNREACHABLE_PHASES" "d_phase d \<noteq> BLOCKED"
  shows "validate_authorization sample_host (delivery_json d) = None"
proof -
  have phase: "require_member (JStr (phase_str (d_phase d))) (map phase_str PHASES) = None"
    by (cases "d_phase d") (simp_all add: require_member_def PHASES_def checks_None_iff)
  have same: "jget ''ref'' (baseline_json (a_baseline (sample_authority PR_UPDATE))) = JStr ''refs/heads/topic''"
    "jget ''commit_sha'' (baseline_json (a_baseline (sample_authority PR_UPDATE))) = JStr (oid_of (CHR ''1''))"
    "d_base_state (sample_delivery PR_UPDATE) =
       \<lparr>bs_current = oid_of (CHR ''1''), bs_refreshed_at = None, bs_advance = None\<rparr>"
    by (simp_all add: sample_authority_def sample_delivery_def baseline_json_def)
  have "JStr (phase_str (d_phase d)) \<notin> set (map (\<lambda>p. JStr (phase_str p)) PR_UPDATE_UNREACHABLE_PHASES)"
    using p(1) by (cases "d_phase d") (simp_all add: PR_UPDATE_UNREACHABLE_PHASES_def)
  then have "validate_pr_update_authority (delivery_json d) = None"
    unfolding validate_pr_update_authority_def
    using sample_rest(7,8) same sample_pull_valid(1) [OF pull]
    by (simp add: checks_None_iff Let_def delivery_get d sample_values opt_json_def [of JInt] opt_json_def [of JStr]
        opt_json_def [of JNum] opt_json_def [of advance_state_json] base_state_json_def require_int_def
        MAX_PULL_REQUEST_NUMBER_def del: set_map)
  moreover have "validate_base_state (base_state_json (d_base_state (sample_delivery PR_UPDATE))) = None"
    by (rule sample_state)
  moreover have "jget ''revoked'' (revocation_json x) = JBool (rk_revoked x)" for x
    by (simp add: revocation_json_def)
  moreover have "phase_str (d_phase d) = phase_str BLOCKED \<Longrightarrow> False" "phase_str (d_phase d) = phase_str REVOKED \<Longrightarrow> d_phase d = REVOKED"
    using p(2) by (cases "d_phase d"; simp)+
  ultimately have "validate_state_half sample_host (delivery_json d) PR_UPDATE = None"
    unfolding validate_state_half_def checks_None_iff [of "_ # _"] delivery_get d
    using phase update_steps_valid [OF e] r sample_state(3) sample_pull_valid(2) [OF pull] sample_ids(2)
    by (auto simp: opt_json_def [of blocker_json] simp del: phase_str.simps)
  with d show ?thesis by (intro sample_state_suffices) (simp_all add: sample_values)
qed

lemma sample_entries_valid:
  "validate_step_entry sample_host (step_entry_json executing_entry) COMMIT
     (JStr (a_delivery_id (sample_authority PR_UPDATE))) (JStr hex64) = None"
  "validate_step_entry sample_host (step_entry_json succeeded_entry) COMMIT
     (JStr (a_delivery_id (sample_authority PR_UPDATE))) (JStr hex64) = None"
  "validate_step_entry sample_host (step_entry_json (initial_entry PR_UPDATE COMMIT)) COMMIT i p = None"
proof -
  have state: "jget ''state'' (receipt_json (sample_receipt t s b n st ob)) = JStr (receipt_state_str st)"
    for t s b n st ob by (simp add: receipt_json_def sample_receipt_def)
  have null: "receipt_json r \<noteq> JNull" for r by (simp add: receipt_json_def)
  have shape: "require_closed_keys (step_entry_json e) [''state'', ''receipt'', ''voided''] = None"
    "require_dict (step_entry_json e) = None" for e
    by (simp_all add: step_entry_json_def require_closed_keys_def require_dict_def jkeys_def checks_None_iff)
  have members: "require_member (JStr (step_state_str x)) (map step_state_str STEP_STATES) = None" for x
    by (cases x) (simp_all add: require_member_def STEP_STATES_def checks_None_iff)
  note valid = sample_receipt_valid [OF sample_ids, of None]
    sample_receipt_valid [OF sample_ids, of "Some [(''commit_oid'', JStr (oid_of (CHR ''4'')))]"]
  show "validate_step_entry sample_host (step_entry_json executing_entry) COMMIT
     (JStr (a_delivery_id (sample_authority PR_UPDATE))) (JStr hex64) = None"
    "validate_step_entry sample_host (step_entry_json succeeded_entry) COMMIT
     (JStr (a_delivery_id (sample_authority PR_UPDATE))) (JStr hex64) = None"
    unfolding validate_step_entry_def
    using valid state null shape members [of STEP_EXECUTING] members [of STEP_SUCCEEDED]
    by (simp_all add: Let_def checks_None_iff [of "_ # _"] executing_entry_def succeeded_entry_def opt_json_def
        list_json_def del: append.simps step_state_str.simps receipt_state_str.simps)
  show "validate_step_entry sample_host (step_entry_json (initial_entry PR_UPDATE COMMIT)) COMMIT i p = None"
    by code_simp
qed

lemma sample_deliveries_valid:
  "validate_authorization sample_host (delivery_json executing_delivery) = None"
  "validate_authorization sample_host (delivery_json committed_delivery) = None"
  "validate_authorization sample_host (delivery_json revoked_delivery) = None"
proof -
  have revocations: "validate_revocation (revocation_json (d_revocation (sample_delivery PR_UPDATE))) = None"
    "validate_revocation (revocation_json \<lparr>rk_revoked = True, rk_at = Some (PInt 50), rk_by = Some ''h'', rk_reason = Some ''r''\<rparr>) = None"
    by code_simp+
  have initial: "initial_entry PR_UPDATE = update_entries (initial_entry PR_UPDATE COMMIT)"
    by (simp add: update_entries_def)
  show "validate_authorization sample_host (delivery_json executing_delivery) = None"
    by (rule update_state_valid [where e = executing_entry])
       (simp_all add: executing_delivery_def sample_values sample_entries_valid revocations PR_UPDATE_UNREACHABLE_PHASES_def)
  show "validate_authorization sample_host (delivery_json committed_delivery) = None"
    by (rule update_state_valid [where e = succeeded_entry])
       (simp_all add: committed_delivery_def sample_values sample_entries_valid revocations PR_UPDATE_UNREACHABLE_PHASES_def)
  show "validate_authorization sample_host (delivery_json revoked_delivery) = None"
    by (rule update_state_valid [where e = "initial_entry PR_UPDATE COMMIT"])
       (simp_all add: revoked_delivery_def sample_values sample_entries_valid revocations initial [symmetric] PR_UPDATE_UNREACHABLE_PHASES_def)
qed


text \<open>The record after the push and after its completion, and after a retry.\<close>

definition pushed_delivery :: delivery where
  "pushed_delivery = committed_delivery\<lparr>d_phase := PUSHED\<rparr>"

definition completed_delivery :: delivery where
  "completed_delivery = committed_delivery\<lparr>d_phase := COMPLETE, d_pull_request := Some sample_pull\<rparr>"

definition retried_delivery :: delivery where
  "retried_delivery = (sample_delivery PR_UPDATE)\<lparr>d_updated_at := PInt 50\<rparr>"

lemma later_deliveries_valid:
  "validate_authorization sample_host (delivery_json pushed_delivery) = None"
  "validate_authorization sample_host (delivery_json completed_delivery) = None"
  "validate_authorization sample_host (delivery_json retried_delivery) = None"
proof -
  have revocation: "validate_revocation (revocation_json (d_revocation (sample_delivery PR_UPDATE))) = None"
    by code_simp
  have initial: "initial_entry PR_UPDATE = update_entries (initial_entry PR_UPDATE COMMIT)"
    by (simp add: update_entries_def)
  show "validate_authorization sample_host (delivery_json pushed_delivery) = None"
    by (rule update_state_valid [where e = succeeded_entry])
       (simp_all add: pushed_delivery_def committed_delivery_def sample_values sample_entries_valid revocation
         PR_UPDATE_UNREACHABLE_PHASES_def)
  show "validate_authorization sample_host (delivery_json completed_delivery) = None"
    by (rule update_state_valid [where e = succeeded_entry])
       (simp_all add: completed_delivery_def committed_delivery_def sample_values sample_entries_valid revocation
         PR_UPDATE_UNREACHABLE_PHASES_def)
  show "validate_authorization sample_host (delivery_json retried_delivery) = None"
    by (rule update_state_valid [where e = "initial_entry PR_UPDATE COMMIT"])
       (simp_all add: retried_delivery_def sample_values sample_entries_valid revocation initial [symmetric]
         PR_UPDATE_UNREACHABLE_PHASES_def)
qed

text \<open>A revoked record in a phase that is not terminal is valid as well.\<close>

definition marked_delivery :: delivery where
  "marked_delivery = revoked_delivery\<lparr>d_phase := AUTHORIZED\<rparr>"

lemma revoked_anywhere_valid: "validate_authorization sample_host (delivery_json marked_delivery) = None"
proof -
  have "validate_revocation (revocation_json \<lparr>rk_revoked = True, rk_at = Some (PInt 50), rk_by = Some ''h'', rk_reason = Some ''r''\<rparr>) = None"
    by code_simp
  moreover have "initial_entry PR_UPDATE = update_entries (initial_entry PR_UPDATE COMMIT)"
    by (simp add: update_entries_def)
  ultimately show ?thesis
    by (intro update_state_valid [where e = "initial_entry PR_UPDATE COMMIT"])
       (simp_all add: marked_delivery_def revoked_delivery_def sample_values sample_entries_valid
         PR_UPDATE_UNREACHABLE_PHASES_def)
qed


lemma sample_new_authorization:
  "new_authorization sample_host (record_id (sample_delivery PR_UPDATE))
     (JObj (authority_fields (sample_authority PR_UPDATE))) (PInt 2) = Inr (delivery_json (sample_delivery PR_UPDATE))"
proof -
  let ?a = "sample_authority PR_UPDATE"
  have keys: "map fst (authority_fields ?a) = PR_UPDATE_AUTHORITY_KEYS"
    by code_simp
  have mode: "jget ''mode'' (JObj (authority_fields ?a)) = JStr ''pr_update''"
    "mode_of_str ''pr_update'' = PR_UPDATE" "authority_keys (JStr ''pr_update'') = PR_UPDATE_AUTHORITY_KEYS"
    by code_simp+
  have vals: "map_result (take_authority_key (JObj (authority_fields ?a)) (a_delivery_id ?a)) PR_UPDATE_AUTHORITY_KEYS
      = Inr (map snd (authority_fields ?a))"
    by code_simp
  have zip: "zip PR_UPDATE_AUTHORITY_KEYS (map snd (authority_fields ?a)) = authority_fields ?a"
    unfolding keys [symmetric] by (rule zip_map_fst_snd)
  have digest: "authority_digest sample_host (JObj (authority_fields ?a)) = Inr hex64"
  proof -
    have "finite_json (JObj (authority_fields ?a))" by code_simp
    then show ?thesis unfolding authority_digest_def by (intro sample_json_digest finite_sub_object)
  qed
  have base: "jget ''original_baseline'' (JObj (authority_fields ?a)) = baseline_json (a_baseline ?a)"
    by code_simp
  have doc: "JObj (authority_fields ?a @ (''authority_digest_sha256'', JStr hex64)
        # initial_state_fields PR_UPDATE (baseline_json (a_baseline ?a)) (PInt 2))
      = delivery_json (sample_delivery PR_UPDATE)"
    by (simp add: delivery_json_def state_fields_def initial_state_fields_def sample_values baseline_json_def
        base_state_json_def opt_json_def) (simp add: sample_delivery_def sample_authority_def)
  have modes: "''pr_update'' \<in> set (map mode_str MODES)" "jhas ''delivery_id'' (JObj (authority_fields ?a))"
    "list_all (\<lambda>k. k \<in> set PR_UPDATE_AUTHORITY_KEYS) (jkeys (JObj (authority_fields ?a)))"
    by code_simp+
  show ?thesis
    unfolding new_authorization_def Let_def mode record_id_def sample_values str_of.simps vals
    using modes sample_update_valid
    by (simp add: require_def zip digest base doc sbind_def del: set_map jget_obj)
qed

section \<open>An integer wider than the preflight accepts\<close>

definition wide_evidence :: evidence where
  "wide_evidence = (sample_evidence (oid_of (CHR ''1'')))
     \<lparr>ev_verification := (ev_verification (sample_evidence (oid_of (CHR ''1''))))\<lparr>vf_log_bytes := 2 ^ 63\<rparr>\<rparr>"

definition wide_delivery :: delivery where
  "wide_delivery = (sample_delivery PULL_REQUEST)
     \<lparr>d_authority := (sample_authority PULL_REQUEST)\<lparr>a_evidence := wide_evidence\<rparr>\<rparr>"

lemma wide_delivery_valid: "validate_authorization sample_host (delivery_json wide_delivery) = None"
proof -
  let ?d = wide_delivery and ?a = "sample_authority PULL_REQUEST"
  have a: "d_authority ?d = ?a\<lparr>a_evidence := wide_evidence\<rparr>" by (simp add: wide_delivery_def)
  have s: "d_steps ?d = initial_entry PULL_REQUEST" "d_authority_digest ?d = hex64" "d_phase ?d = AUTHORIZED"
    "d_blocker ?d = None" "d_pull_request ?d = None" "d_updated_at ?d = PInt 2"
    "d_base_state ?d = d_base_state (sample_delivery PULL_REQUEST)"
    "d_revocation ?d = d_revocation (sample_delivery PULL_REQUEST)"
    by (simp_all add: wide_delivery_def sample_values)
  have evidence: "validate_evidence (evidence_json wide_evidence) (JStr hex64) = None" by code_simp
  have keys: "require_closed_keys (delivery_json ?d) (top_level_keys (JStr (mode_str PULL_REQUEST))) = None"
    by code_simp
  have "finite_json (delivery_json ?d)" by code_simp
  then have digest: "authority_digest sample_host (delivery_json ?d) = Inr hex64"
    unfolding authority_digest_def by (intro sample_json_digest finite_sub_object)
  have same: "workflow_identity_json (?a\<lparr>a_evidence := wide_evidence\<rparr>) = workflow_identity_json ?a"
    by (simp add: workflow_identity_json_def)
  have "validate_authority_half sample_host (delivery_json ?d) PULL_REQUEST = None"
    unfolding validate_authority_half_def checks_None_iff
    using keys sample_rest
    by (simp add: delivery_get a s same evidence sample_values opt_json_def sample_pieces sample_candidate
        sample_human digest sample_checks)
  moreover have "validate_state_half sample_host (delivery_json ?d) PULL_REQUEST = None"
    unfolding validate_state_half_def checks_None_iff
    by (simp add: delivery_get a s sample_values opt_json_def sample_steps sample_state sample_checks)
  ultimately show ?thesis by (simp add: valid_delivery_iff a sample_values)
qed

end
