(* ===== verification/Scripted.thy ===== *)
theory Scripted
  imports MachineSamples
begin

text \<open>
  Concrete surroundings of the machine: a transport that only fails, and a scripted
  checkout on which an update is committed and completed.
\<close>

section \<open>Surroundings\<close>

text \<open>A transport whose every call fails.\<close>

definition failing_transport :: "'s transport" where
  "failing_transport =
     \<lparr>t_toplevel = (\<lambda>_. throw DeliveryTransportError), t_git_dir = (\<lambda>_. throw DeliveryTransportError),
      t_rev_parse = (\<lambda>_ _. throw DeliveryTransportError), t_symbolic_ref_head = (\<lambda>_. throw DeliveryTransportError),
      t_config_get = (\<lambda>_ _. throw DeliveryTransportError), t_remote_url = (\<lambda>_ _. throw DeliveryTransportError),
      t_remote_fetch_url = (\<lambda>_ _. throw DeliveryTransportError),
      t_remote_push_url = (\<lambda>_ _. throw DeliveryTransportError), t_status_porcelain = (\<lambda>_. throw DeliveryTransportError),
      t_worktree_status_z = (\<lambda>_. throw DeliveryTransportError), t_diff_index_raw = (\<lambda>_ _. throw DeliveryTransportError),
      t_diff_tree_raw = (\<lambda>_ _ _. throw DeliveryTransportError), t_staged_diff_sha256 = (\<lambda>_. throw DeliveryTransportError),
      t_write_tree = (\<lambda>_. throw DeliveryTransportError), t_commit_parents = (\<lambda>_ _. throw DeliveryTransportError),
      t_ls_remote = (\<lambda>_ _ _. throw DeliveryTransportError), t_is_ancestor = (\<lambda>_ _ _. throw DeliveryTransportError),
      t_fetch_ref = (\<lambda>_ _ _. throw DeliveryTransportError), t_read_tree_two_way = (\<lambda>_ _ _. throw DeliveryTransportError),
      t_update_ref = (\<lambda>_ _ _ _. throw DeliveryTransportError), t_commit = (\<lambda>_ _ _ _. throw DeliveryTransportError),
      t_push = (\<lambda>_ _ _ _. throw DeliveryTransportError), t_run_reverification = (\<lambda>_ _. throw DeliveryTransportError),
      t_gh_pr_list = (\<lambda>_ _ _ _. throw DeliveryTransportError), t_gh_pr_create = (\<lambda>_ _ _ _ _ _. throw DeliveryTransportError),
      t_gh_pr_view = (\<lambda>_ _ _. throw DeliveryTransportError), t_gh_check_runs = (\<lambda>_ _ _. throw DeliveryTransportError)\<rparr>"

text \<open>A checkout of the sample: the head before and after the commit, which the world records.\<close>

definition sample_head :: "bool \<Rightarrow> str" where
  "sample_head committed = (if committed then oid_of (CHR ''4'') else oid_of (CHR ''1''))"

definition sample_raw :: bytes where
  "sample_raw = '':100644 100644 '' @ oid_of (CHR ''5'') @ '' '' @ oid_of (CHR ''2'') @ '' M'' @ [CHR 0x00] @ ''f'' @ [CHR 0x00]"

definition sample_view :: "str \<Rightarrow> json" where
  "sample_view head_sha = JObj
     [(''number'', JInt 7), (''url'', JStr ''https://github.com/o/p/pull/7''), (''state'', JStr ''OPEN''),
      (''headRefName'', JStr ''topic''), (''baseRefName'', JStr ''main''), (''headRefOid'', JStr head_sha),
      (''isCrossRepository'', JBool False)]"

definition scripted_rev_parse :: "str \<Rightarrow> bool \<Rightarrow> str option" where
  "scripted_rev_parse spec committed =
     (if spec = ''HEAD'' then Some (sample_head committed)
      else if spec = sample_head True @ ''^1'' then Some (sample_head False)
      else if spec = sample_head True @ ''^{tree}'' then Some (oid_of (CHR ''3''))
      else None)"

definition scripted_transport :: "bool sys transport" where
  "scripted_transport = failing_transport
     \<lparr>t_toplevel := (\<lambda>_. ret ''/r''), t_git_dir := (\<lambda>_. ret ''/r/.git''),
      t_rev_parse := (\<lambda>_ spec s. (Inr (scripted_rev_parse spec (world s)), s)),
      t_symbolic_ref_head := (\<lambda>_. ret (Some ''refs/heads/topic'')),
      t_config_get := (\<lambda>_ key. ret (Some (if key = ''user.name'' then ''n'' else ''e''))),
      t_remote_url := (\<lambda>_ _. ret (Some ''https://github.com/o/p'')),
      t_remote_fetch_url := (\<lambda>_ _. ret (Some ''https://github.com/o/p'')),
      t_remote_push_url := (\<lambda>_ _. ret (Some ''https://github.com/o/p'')),
      t_worktree_status_z := (\<lambda>_. ret []), t_diff_index_raw := (\<lambda>_ _. ret sample_raw),
      t_diff_tree_raw := (\<lambda>_ _ _. ret sample_raw), t_staged_diff_sha256 := (\<lambda>_. ret hex64),
      t_write_tree := (\<lambda>_. ret (oid_of (CHR ''3''))), t_commit_parents := (\<lambda>_ _. ret [sample_head False]),
      t_ls_remote := (\<lambda>_ _ _ s. (Inr (Some (sample_head (world s))), s)),
      t_gh_pr_view := (\<lambda>_ _ _ s. (Inr (sample_view (sample_head (world s))), s)),
      t_commit := (\<lambda>_ _ _ _ s. (Inr (), s\<lparr>world := True\<rparr>))\<rparr>"

text \<open>The time stands still at 50; the token source is the parameter: what it does to the system
  is what another process does between the checks of a step and its receipt.\<close>

definition sample_env :: "('w sys, str) act \<Rightarrow> 'w sys transport \<Rightarrow> 'w env" where
  "sample_env tok tr =
     \<lparr>e_host = sample_host, e_clock = ret (PInt 50), e_token = tok, e_transport = tr,
      e_detail = (\<lambda>p. p), e_repr = (\<lambda>_. ''x'')\<rparr>"

definition sample_sys :: "delivery \<Rightarrow> bool sys" where
  "sample_sys d = \<lparr>disk = sample_file d, world = False\<rparr>"

lemma sample_env_simps [simp]:
  "e_host (sample_env tok tr) = sample_host" "e_clock (sample_env tok tr) = ret (PInt 50)"
  "e_token (sample_env tok tr) = tok" "e_transport (sample_env tok tr) = tr"
  by (simp_all add: sample_env_def)

lemma sample_quiet: "quiet (sample_env (ret ''0'') failing_transport)" "quiet (sample_env (ret ''0'') scripted_transport)"
  by (simp_all add: quiet_def surroundings_preserve_def transport_preserves_def failing_transport_def
      scripted_transport_def preserves_def)

lemma sample_stored:
  "validate_authorization h (delivery_json d) = None \<Longrightarrow> stored h (record_id d) (sample_file d) = Some d"
  by (simp add: stored_def sample_file_loads sample_deliveries record_id_def)

lemma sample_persist:
  assumes "validate_authorization sample_host (delivery_json e) = None" "record_id d = record_id e"
    and "e = d\<lparr>d_updated_at := PInt 50\<rparr>"
    and "validate_authorization sample_host (delivery_json f) = None" "record_id f = record_id e"
  shows "persist (sample_env tok tr) \<lparr>working = d, ssys = \<lparr>disk = sample_file f, world = w\<rparr>\<rparr>
           = (Inr (), \<lparr>working = e, ssys = \<lparr>disk = sample_file e, world = w\<rparr>\<rparr>)"
proof -
  have "put_record e (sample_document f) = sample_document e"
    using assms(5) by (simp add: put_record_def sample_document_def deliveries_of_def set_deliveries_def record_id_def)
  then have "replace_record sample_host e (sample_file f) = Inr (sample_file e)"
    using assms(1,4)
    by (simp add: replace_record_def sbind_def sample_file_loads store_save_def sample_document_valid)
       (simp add: sample_file_def)
  then show ?thesis
    using assms(1,3) by (simp add: persist_def run_simps lift_eq store_record_eq)
qed


section \<open>A commit is delivered\<close>

definition sample_st :: "delivery \<Rightarrow> delivery \<Rightarrow> bool \<Rightarrow> bool st" where
  "sample_st d e w = \<lparr>working = d, ssys = \<lparr>disk = sample_file e, world = w\<rparr>\<rparr>"

abbreviation scripted :: "(bool sys, str) act \<Rightarrow> bool env" where
  "scripted tok \<equiv> sample_env tok scripted_transport"

lemma scripted_calls:
  "t_toplevel scripted_transport p = ret ''/r''" "t_git_dir scripted_transport p = ret ''/r/.git''"
  "t_rev_parse scripted_transport p spec s = (Inr (scripted_rev_parse spec (world s)), s)"
  "t_symbolic_ref_head scripted_transport p = ret (Some ''refs/heads/topic'')"
  "t_remote_url scripted_transport p x = ret (Some ''https://github.com/o/p'')"
  "t_remote_fetch_url scripted_transport p x = ret (Some ''https://github.com/o/p'')"
  "t_remote_push_url scripted_transport p x = ret (Some ''https://github.com/o/p'')"
  "t_worktree_status_z scripted_transport p = ret []" "t_diff_index_raw scripted_transport p x = ret sample_raw"
  "t_diff_tree_raw scripted_transport p x y = ret sample_raw" "t_staged_diff_sha256 scripted_transport p = ret hex64"
  "t_write_tree scripted_transport p = ret (oid_of (CHR ''3''))"
  "t_commit_parents scripted_transport p x = ret [sample_head False]"
  "t_ls_remote scripted_transport p x y s = (Inr (Some (sample_head (world s))), s)"
  "t_gh_pr_view scripted_transport p x n s = (Inr (sample_view (sample_head (world s))), s)"
  "t_commit scripted_transport p x y z s = (Inr (), s\<lparr>world := True\<rparr>)"
  by (simp_all add: scripted_transport_def)

lemma sample_st_simps [simp]:
  "working (sample_st d e w) = d" "disk (ssys (sample_st d e w)) = sample_file e"
  "world (ssys (sample_st d e w)) = w" "(sample_st d e w)\<lparr>ssys := ssys (sample_st d e w)\<rparr> = sample_st d e w"
  "(sample_st d e w)\<lparr>working := f\<rparr> = sample_st f e w"
  "(sample_st d e w)\<lparr>ssys := (ssys (sample_st d e w))\<lparr>world := v\<rparr>\<rparr> = sample_st d e v"
  by (simp_all add: sample_st_def)

lemma sample_fields:
  "record_path (sample_delivery m) = ''/r''"
  "a_repository (sample_authority m) = \<lparr>rp_realpath = ''/r'', rp_git_dir = ''/r/.git'', rp_host = ''github.com'',
        rp_owner = ''o'', rp_repo = ''p'', rp_url = ''https://github.com/o/p''\<rparr>"
  "rm_url_exact (a_remote (sample_authority m)) = ''https://github.com/o/p''"
  "rm_url_fetch (a_remote (sample_authority m)) = ''https://github.com/o/p''"
  "rm_url_push (a_remote (sample_authority m)) = ''https://github.com/o/p''"
  "a_source (sample_authority m) = \<lparr>bp_branch = ''topic'', bp_ref = ''refs/heads/topic''\<rparr>"
  "a_target_base (sample_authority m) = \<lparr>bp_branch = ''main'', bp_ref = ''refs/heads/main''\<rparr>"
  "cd_entries (a_candidate (sample_authority m)) =
     [\<lparr>ce_path = ''f'', ce_status = ''M'', ce_mode = ''100644'', ce_blob = oid_of (CHR ''2'')\<rparr>]"
  "bl_sha (a_baseline (sample_authority m)) = sample_head False"
  "bs_current (d_base_state (sample_delivery m)) = sample_head False"
  by (simp_all add: sample_authority_def sample_delivery_def record_path_def sample_head_def)

lemma sample_parse:
  "parse_raw_z sample_raw = Inr [\<lparr>ce_path = ''f'', ce_status = ''M'', ce_mode = ''100644'', ce_blob = oid_of (CHR ''2'')\<rparr>]"
  "worktree_dirty_paths [] = Inr []"
  "compare_candidates [\<lparr>ce_path = ''f'', ce_status = ''M'', ce_mode = ''100644'', ce_blob = oid_of (CHR ''2'')\<rparr>]
     [\<lparr>ce_path = ''f'', ce_status = ''M'', ce_mode = ''100644'', ce_blob = oid_of (CHR ''2'')\<rparr>] = None"
  "overlaps [''f''] [] = []"
  "pr_update_identity_problem (sample_view (oid_of (CHR ''1''))) ''https://github.com/o/p'' 7 ''topic'' ''main''
     (oid_of (CHR ''1'')) = None"
  by code_simp+

lemma sample_heads:
  "scripted_rev_parse ''HEAD'' w = Some (sample_head w)"
  "scripted_rev_parse (sample_head True @ ''^1'') w = Some (sample_head False)"
  "scripted_rev_parse (sample_head True @ ''^{tree}'') w = Some (oid_of (CHR ''3''))"
  "scripted_rev_parse ''MERGE_HEAD'' w = None" "scripted_rev_parse ''CHERRY_PICK_HEAD'' w = None"
  "scripted_rev_parse ''REVERT_HEAD'' w = None"
proof -
  show "scripted_rev_parse ''HEAD'' w = Some (sample_head w)" by (simp add: scripted_rev_parse_def)
  show "scripted_rev_parse (sample_head True @ ''^1'') w = Some (sample_head False)"
    "scripted_rev_parse (sample_head True @ ''^{tree}'') w = Some (oid_of (CHR ''3''))"
    "scripted_rev_parse ''MERGE_HEAD'' w = None" "scripted_rev_parse ''CHERRY_PICK_HEAD'' w = None"
    "scripted_rev_parse ''REVERT_HEAD'' w = None"
    by (simp_all add: scripted_rev_parse_def sample_head_def oid_of_def eval_nat_numeral)
qed

lemma scripted_checks:
  "check_repository (scripted tok) True (sample_st (sample_delivery PR_UPDATE) e w)
     = (Inr (), sample_st (sample_delivery PR_UPDATE) e w)"
  "commit_checks (scripted tok) (sample_head False) (sample_st (sample_delivery PR_UPDATE) e False)
     = (Inr (), sample_st (sample_delivery PR_UPDATE) e False)"
proof -
  have real: "os_realpath sample_host p = p" for p by (simp add: sample_host_def)
  show "check_repository (scripted tok) True (sample_st (sample_delivery PR_UPDATE) e w)
     = (Inr (), sample_st (sample_delivery PR_UPDATE) e w)"
    by (simp add: check_repository_def run_simps lift_eq scripted_calls sample_values sample_fields real Let_def)
  have head: "oid_of (CHR ''1'') = sample_head False" by (simp add: sample_head_def)
  show "commit_checks (scripted tok) (sample_head False) (sample_st (sample_delivery PR_UPDATE) e False)
     = (Inr (), sample_st (sample_delivery PR_UPDATE) e False)"
    by (simp add: commit_checks_def is_update_def require_no_pending_history_def pending_history_def
        PENDING_HISTORY_REFS_def require_pr_update_identity_def view_pull_request_def remote_head_def
        require_update_candidate_def require_candidate_matches_def candidate_paths_def identity_problem_def
        update_number_def run_simps lift_eq scripted_calls sample_values sample_fields sample_heads
        sample_parse [unfolded head] head Let_def)
qed


lemma sample_derive:
  "derive sample_host ''0'' (sample_delivery PR_UPDATE) COMMIT sample_commit_binding (PInt 50)
     = Inr (sample_receipt ''0'' COMMIT sample_commit_binding (PInt 50) RECEIPT_DERIVED None)"
proof -
  have pre: "precondition_problem (sample_delivery PR_UPDATE) COMMIT (PInt 50) = None"
    by code_simp
  have fields: "set (map fst sample_commit_binding) = set (receipt_binding_fields COMMIT)"
    unfolding binding_explicit by code_simp
  have draft: "\<lparr>rc_id = ''rcpt-0'', rc_step = COMMIT, rc_delivery_id = a_delivery_id (sample_authority PR_UPDATE),
        rc_parent_digest = hex64, rc_derived_at = PInt 50, rc_attempt = 1, rc_state = RECEIPT_DERIVED,
        rc_binding = sample_commit_binding, rc_observed = None, rc_digest = hex64\<rparr>
      = sample_receipt ''0'' COMMIT sample_commit_binding (PInt 50) RECEIPT_DERIVED None"
    by (simp add: sample_receipt_def)
  have zero: "replicate 64 (CHR ''0'') = hex64" by (simp add: hex64_def)
  have same: "sample_receipt ''0'' COMMIT sample_commit_binding (PInt 50) RECEIPT_DERIVED None\<lparr>rc_digest := hex64\<rparr>
      = sample_receipt ''0'' COMMIT sample_commit_binding (PInt 50) RECEIPT_DERIVED None"
    by (simp add: sample_receipt_def)
  have entry: "se_voided (initial_entry PR_UPDATE COMMIT) = []" by code_simp
  show ?thesis
    unfolding derive_def pre
    using fields sample_receipt_valid [OF sample_ids, of None RECEIPT_DERIVED]
    by (simp add: Let_def sample_values entry draft zero sample_receipt_digest same sbind_def
        del: replicate.simps replicate_Suc receipt_binding_fields.simps)
qed

lemma sample_refresh:
  assumes "validate_authorization sample_host (delivery_json d) = None" "\<not> is_revoked d" "\<not> is_expired d (PInt 50)"
  shows "refresh (sample_env tok tr) (sample_st d d w) = (Inr False, sample_st d d w)"
proof -
  have "m_load sample_host (record_id d) (ssys (sample_st d d w)) = (Inr d, ssys (sample_st d d w))"
    using sample_stored [OF assms(1)] by (simp add: m_load_Inr)
  moreover have "d\<lparr>d_revocation := d_revocation d\<rparr> = d" by simp
  ultimately show ?thesis using assms(2,3) by (simp add: refresh_def run_simps lift_eq)
qed

lemma sample_started:
  assumes tok: "tok (ssys (sample_st d e w)) = (Inr ''0'', ssys (sample_st d f w))"
    and f: "validate_authorization sample_host (delivery_json f) = None"
      "record_id f = record_id (sample_delivery PR_UPDATE)"
  shows "start (scripted tok) COMMIT sample_commit_binding (sample_st (sample_delivery PR_UPDATE) e w)
     = (Inr (), sample_st executing_delivery executing_delivery w)"
proof -
  let ?r = "sample_receipt ''0'' COMMIT sample_commit_binding (PInt 50) RECEIPT_DERIVED None"
  let ?d = "set_entry COMMIT (start_entry ?r) (sample_delivery PR_UPDATE)"
  have entry: "start_entry ?r (initial_entry PR_UPDATE COMMIT) = executing_entry"
    by (simp add: start_entry_def executing_entry_def sample_receipt_def) code_simp
  have "executing_delivery = ?d\<lparr>d_updated_at := PInt 50\<rparr>"
    by (simp add: executing_delivery_def set_entry_def sample_values entry update_entries_def)
  then have "persist (scripted tok) (sample_st ?d f w)
      = (Inr (), sample_st executing_delivery executing_delivery w)"
    unfolding sample_st_def
    by (intro sample_persist sample_deliveries_valid f(1))
       (simp_all add: record_id_def executing_delivery_def f(2) [unfolded record_id_def])
  moreover have "refresh (scripted tok) (sample_st executing_delivery executing_delivery w)
      = (Inr False, sample_st executing_delivery executing_delivery w)"
    by (rule sample_refresh [OF sample_deliveries_valid(1)])
       (simp_all add: executing_delivery_def is_revoked_def is_expired_def sample_delivery_def sample_authority_def
         num_le_def)
  moreover have "tok (ssys (sample_st (sample_delivery PR_UPDATE) e w)) = (Inr ''0'', ssys (sample_st d f w))"
    using tok by (simp add: sample_st_def)
  ultimately show ?thesis
    by (simp add: start_def run_simps lift_eq sample_derive sample_st_def)
qed

lemma sample_succeeded:
  "succeed (scripted tok) COMMIT [(''commit_oid'', JStr (oid_of (CHR ''4'')))] COMMITTED
       (sample_st executing_delivery executing_delivery w)
     = (Inr (), sample_st committed_delivery committed_delivery w)"
proof -
  let ?d = "(set_entry COMMIT (succeed_entry [(''commit_oid'', JStr (oid_of (CHR ''4'')))]) executing_delivery)
      \<lparr>d_phase := COMMITTED, d_updated_at := PInt 50\<rparr>"
  have entry: "succeed_entry [(''commit_oid'', JStr (oid_of (CHR ''4'')))] executing_entry = succeeded_entry"
    by (simp add: succeed_entry_def executing_entry_def succeeded_entry_def sample_receipt_def)
  have d: "?d = committed_delivery"
    by (simp add: committed_delivery_def executing_delivery_def set_entry_def entry update_entries_def)
  have "apply_transition (set_entry COMMIT (succeed_entry [(''commit_oid'', JStr (oid_of (CHR ''4'')))]) executing_delivery)
      COMMITTED (PInt 50) = Inr ?d"
    by (simp add: apply_transition_Inr executing_delivery_def sample_values)
  then have "transition (scripted tok) COMMITTED
        (sample_st (set_entry COMMIT (succeed_entry [(''commit_oid'', JStr (oid_of (CHR ''4'')))]) executing_delivery)
          executing_delivery w) = (Inr (), sample_st committed_delivery executing_delivery w)"
    by (simp add: transition_def transition_at_def run_simps lift_eq d)
  moreover have "persist (scripted tok) (sample_st committed_delivery executing_delivery w)
      = (Inr (), sample_st committed_delivery committed_delivery w)"
    unfolding sample_st_def
    by (intro sample_persist sample_deliveries_valid)
       (simp_all add: record_id_def executing_delivery_def committed_delivery_def)
  ultimately show ?thesis by (simp add: succeed_def run_simps)
qed


lemma sample_effect:
  "commit_effect (scripted tok) (sample_head False) (sample_st executing_delivery executing_delivery False)
     = (Inr (), sample_st executing_delivery executing_delivery True)"
  by (simp add: commit_effect_def run_simps lift_eq scripted_calls Let_def)

lemma sample_observed:
  "observe_commit (scripted tok) sample_commit_binding (sample_st executing_delivery executing_delivery True)
     = (Inr (), sample_st committed_delivery committed_delivery True)"
proof -
  have binding: "binding_str ''head_before'' sample_commit_binding = sample_head False"
    "binding_str ''expected_tree_oid'' sample_commit_binding = oid_of (CHR ''3'')"
    by (simp_all add: binding_explicit binding_str_def sample_head_def)
  have d: "record_path executing_delivery = ''/r''" "approved_head executing_delivery = sample_head False"
    "is_update executing_delivery" "d_authority executing_delivery = sample_authority PR_UPDATE"
    by (simp_all add: executing_delivery_def record_path_def sample_fields approved_head_def is_update_def
        sample_values)
  have head: "oid_of (CHR ''4'') = sample_head True" by (simp add: sample_head_def)
  show ?thesis
    by (simp add: observe_commit_def head_oid_def commit_parent_and_tree_def require_one_new_commit_def
        require_candidate_matches_def run_simps lift_eq scripted_calls sample_heads binding d sample_fields
        sample_parse sample_succeeded [unfolded head] Let_def)
qed

lemma sample_committed:
  assumes tok: "tok \<lparr>disk = sample_file (sample_delivery PR_UPDATE), world = False\<rparr>
      = (Inr ''0'', \<lparr>disk = sample_file f, world = False\<rparr>)"
    and f: "validate_authorization sample_host (delivery_json f) = None"
      "record_id f = record_id (sample_delivery PR_UPDATE)"
  shows "step_commit (scripted tok) (sample_st (sample_delivery PR_UPDATE) (sample_delivery PR_UPDATE) False)
     = (Inr (), sample_st committed_delivery committed_delivery True)"
proof -
  have none: "needs_reconcile COMMIT (sample_delivery PR_UPDATE) = None"
    by (simp add: needs_reconcile_def sample_values) code_simp
  have update: "is_update (sample_delivery PR_UPDATE)" by (simp add: is_update_def sample_values)
  have binding: "commit_binding sample_host (sample_delivery PR_UPDATE) (sample_head False) hex64 (oid_of (CHR ''3''))
      = sample_commit_binding"
    by (simp add: sample_commit_binding_def sample_head_def)
  have started: "start (scripted tok) COMMIT sample_commit_binding
        (sample_st (sample_delivery PR_UPDATE) (sample_delivery PR_UPDATE) False)
      = (Inr (), sample_st executing_delivery executing_delivery False)"
    by (rule sample_started [of _ f _ _ f]) (use tok f in \<open>simp_all add: sample_st_def\<close>)
  show ?thesis
    by (simp add: step_commit_def fresh_commit_def head_oid_def run_simps lift_eq scripted_calls scripted_checks
        sample_heads sample_fields none update sample_values binding started sample_effect sample_observed
        Let_def)
qed

lemma sample_advanced:
  assumes tok: "tok \<lparr>disk = sample_file (sample_delivery PR_UPDATE), world = False\<rparr>
      = (Inr ''0'', \<lparr>disk = sample_file f, world = False\<rparr>)"
    and f: "validate_authorization sample_host (delivery_json f) = None"
      "record_id f = record_id (sample_delivery PR_UPDATE)"
  shows "advance_once (scripted tok) (record_id (sample_delivery PR_UPDATE)) None (sample_sys (sample_delivery PR_UPDATE))
     = (Inr OUTCOME_ADVANCED, \<lparr>disk = sample_file committed_delivery, world = True\<rparr>)"
proof -
  let ?d = "sample_delivery PR_UPDATE"
  have load: "m_load sample_host (record_id ?d) (sample_sys ?d) = (Inr ?d, sample_sys ?d)"
    by (simp add: m_load_Inr sample_sys_def sample_stored [OF sample_update_valid])
  have st: "\<lparr>working = ?d, ssys = sample_sys ?d\<rparr> = sample_st ?d ?d False"
    by (simp add: sample_st_def sample_sys_def)
  have facts: "d_phase ?d = AUTHORIZED" "\<not> is_revoked ?d" "\<not> is_expired ?d (PInt 50)"
    by (simp_all add: is_revoked_def is_expired_def sample_delivery_def sample_authority_def num_le_def)
  have step: "step_for_phase PR_UPDATE AUTHORIZED = Some COMMIT" "AUTHORIZED \<notin> set TERMINAL_PHASES"
    by code_simp+
  have phase: "d_phase committed_delivery = COMMITTED" by (simp add: committed_delivery_def)
  have "advance_loaded (scripted tok) (PInt 50) (sample_st ?d ?d False)
      = (Inr OUTCOME_ADVANCED, sample_st committed_delivery committed_delivery True)"
    by (simp add: advance_loaded_def drive_step_def run_simps facts step sample_values run_step_def
        sample_committed [where tok = tok and f = f, OF assms] phase)
  then show ?thesis
    by (simp add: advance_once_def run_simps load on_record_def st sample_st_def)
qed


section \<open>An update is completed\<close>

lemma sample_pull_found:
  "pr_update_identity_problem (sample_view (sample_head True)) ''https://github.com/o/p'' 7 ''topic'' ''main''
     (sample_head True) = None"
  "pull_request_of r (sample_delivery PR_UPDATE) (sample_view (sample_head True)) = Inr sample_pull"
proof -
  show "pr_update_identity_problem (sample_view (sample_head True)) ''https://github.com/o/p'' 7 ''topic'' ''main''
     (sample_head True) = None"
    by code_simp
  have "canonicalize_target_url ''https://github.com/o/p/pull/7''
      = Inr (make_target ''o'' ''p'' (Some KIND_PR) (Some 7))"
    "canonicalize_repository_url ''https://github.com/o/p'' = Inr (make_target ''o'' ''p'' None None)"
    "same_repository_identity (make_target ''o'' ''p'' (Some KIND_PR) (Some 7)) (make_target ''o'' ''p'' None None)"
    "ct_kind (make_target ''o'' ''p'' (Some KIND_PR) (Some 7)) = Some KIND_PR"
    "ct_number (make_target ''o'' ''p'' (Some KIND_PR) (Some 7)) = Some 7"
    "ct_canonical_url (make_target ''o'' ''p'' (Some KIND_PR) (Some 7)) = ''https://github.com/o/p/pull/7''"
    by code_simp+
  then show "pull_request_of r (sample_delivery PR_UPDATE) (sample_view (sample_head True)) = Inr sample_pull"
    by (simp add: pull_request_of_def sample_view_def sample_values sample_fields sample_pull_def sample_head_def
        sbind_def)
qed

lemma sample_observed_update:
  "observe_pr_update (scripted tok) (sample_st pushed_delivery pushed_delivery True)
     = (Inr (), sample_st completed_delivery completed_delivery True)"
proof -
  have a: "d_authority pushed_delivery = sample_authority PR_UPDATE"
    by (simp add: pushed_delivery_def committed_delivery_def sample_values)
  have real: "os_realpath sample_host p = p" for p by (simp add: sample_host_def)
  have check: "check_repository (scripted tok) False (sample_st pushed_delivery pushed_delivery True)
      = (Inr (), sample_st pushed_delivery pushed_delivery True)"
    by (simp add: check_repository_def run_simps lift_eq scripted_calls sample_values sample_fields real a Let_def)
  have commit: "recorded_commit pushed_delivery = Inr (sample_head True)"
    by (simp add: recorded_commit_def pushed_delivery_def committed_delivery_def update_entries_def succeeded_entry_def
        sample_receipt_def sample_head_def) code_simp
  have pull: "pull_request_of r pushed_delivery (sample_view (sample_head True)) = Inr sample_pull" for r
    unfolding sample_pull_found(2) [of r, symmetric] pull_request_of_def by (simp only: a sample_values)
  let ?c = "pushed_delivery\<lparr>d_pull_request := Some sample_pull\<rparr>"
  have "apply_transition ?c COMPLETE (PInt 50) = Inr completed_delivery"
    by (auto simp: apply_transition_Inr pushed_delivery_def completed_delivery_def committed_delivery_def sample_values)
  then have "transition (scripted tok) COMPLETE (sample_st ?c pushed_delivery True)
      = (Inr (), sample_st completed_delivery pushed_delivery True)"
    by (simp add: transition_def transition_at_def run_simps lift_eq)
  moreover have "persist (scripted tok) (sample_st completed_delivery pushed_delivery True)
      = (Inr (), sample_st completed_delivery completed_delivery True)"
    unfolding sample_st_def
    by (intro sample_persist later_deliveries_valid)
       (simp_all add: record_id_def completed_delivery_def pushed_delivery_def committed_delivery_def)
  ultimately have complete: "complete_delivery (scripted tok) (sample_st ?c pushed_delivery True)
      = (Inr (), sample_st completed_delivery completed_delivery True)"
    by (simp add: complete_delivery_def run_simps)
  show ?thesis
    by (simp add: observe_pr_update_def run_simps check commit_oid_def commit remote_head_def view_pull_request_def
        identity_problem_def update_number_def lift_eq scripted_calls a sample_values sample_fields
        sample_pull_found(1) record_pull_request_def pull complete)
qed

lemma sample_completed:
  "advance_once (scripted tok) (record_id pushed_delivery) None \<lparr>disk = sample_file pushed_delivery, world = True\<rparr>
     = (Inr OUTCOME_ADVANCED, \<lparr>disk = sample_file completed_delivery, world = True\<rparr>)"
proof -
  let ?d = pushed_delivery
  let ?s = "\<lparr>disk = sample_file ?d, world = True\<rparr>"
  have load: "m_load sample_host (record_id ?d) ?s = (Inr ?d, ?s)"
    by (simp add: m_load_Inr sample_stored [OF later_deliveries_valid(1)])
  have a: "d_authority ?d = sample_authority PR_UPDATE" "d_revocation ?d = d_revocation (sample_delivery PR_UPDATE)"
    by (simp_all add: pushed_delivery_def committed_delivery_def sample_values)
  have "ex_expires_at (a_expiration (sample_authority PR_UPDATE)) = PInt 100"
    "rk_revoked (d_revocation (sample_delivery PR_UPDATE)) = False"
    by (simp_all add: sample_authority_def sample_delivery_def)
  then have facts: "d_phase ?d = PUSHED" "\<not> is_revoked ?d" "\<not> is_expired ?d (PInt 50)" "a_mode (d_authority ?d) = PR_UPDATE"
    by (simp_all add: is_revoked_def is_expired_def a sample_values num_le_def) (simp add: pushed_delivery_def)
  have step: "step_for_phase PR_UPDATE PUSHED = None" "PUSHED \<notin> set TERMINAL_PHASES"
    by code_simp+
  have phase: "d_phase completed_delivery = COMPLETE" by (simp add: completed_delivery_def)
  have drive: "drive_step (scripted tok) None (sample_st ?d ?d True)
      = (Inr OUTCOME_ADVANCED, sample_st completed_delivery completed_delivery True)"
    by (simp add: drive_step_def run_simps run_step_def sample_observed_update phase)
  have "advance_loaded (scripted tok) (PInt 50) (sample_st ?d ?d True)
      = (Inr OUTCOME_ADVANCED, sample_st completed_delivery completed_delivery True)"
    unfolding advance_loaded_def bnd_eq gets_eq sample_st_simps prod.case sum.case facts step drive
    by (simp add: facts step drive)
  then show ?thesis
    by (simp add: advance_once_def run_simps load on_record_def sample_st_def)
qed

section \<open>A failing transport, and a revocation in the course of a step\<close>

lemma sample_retried:
  "advance_once (sample_env tok failing_transport) (record_id (sample_delivery PR_UPDATE)) None
       (sample_sys (sample_delivery PR_UPDATE))
     = (Inr OUTCOME_RETRY, \<lparr>disk = sample_file retried_delivery, world = False\<rparr>)"
proof -
  let ?d = "sample_delivery PR_UPDATE" and ?e = "sample_env tok failing_transport"
  have load: "m_load sample_host (record_id ?d) (sample_sys ?d) = (Inr ?d, sample_sys ?d)"
    by (simp add: m_load_Inr sample_sys_def sample_stored [OF sample_update_valid])
  have st: "\<lparr>working = ?d, ssys = sample_sys ?d\<rparr> = sample_st ?d ?d False"
    by (simp add: sample_st_def sample_sys_def)
  have facts: "d_phase ?d = AUTHORIZED" "\<not> is_revoked ?d" "\<not> is_expired ?d (PInt 50)"
    by (simp_all add: is_revoked_def is_expired_def sample_delivery_def sample_authority_def num_le_def)
  have step: "step_for_phase PR_UPDATE AUTHORIZED = Some COMMIT" "AUTHORIZED \<notin> set TERMINAL_PHASES"
    by code_simp+
  have fails: "step_commit ?e (sample_st ?d ?d False) = (Inl DeliveryTransportError, sample_st ?d ?d False)"
    by (simp add: step_commit_def check_repository_def run_simps lift_eq failing_transport_def Let_def)
  have entry: "retry_entry x (initial_entry PR_UPDATE COMMIT) = initial_entry PR_UPDATE COMMIT" for x
    by (simp add: retry_entry_def initial_entry_def PR_UPDATE_EXCLUDED_STEPS_def)
  have same: "(set_entry COMMIT (retry_entry x) ?d)\<lparr>d_blocker := None\<rparr> = ?d" for x
    by (simp add: set_entry_def sample_values entry fun_upd_idem)
  have "persist ?e (sample_st ?d ?d False) = (Inr (), sample_st retried_delivery retried_delivery False)"
    unfolding sample_st_def
    by (intro sample_persist sample_update_valid later_deliveries_valid)
       (simp_all add: record_id_def retried_delivery_def)
  then have "advance_loaded ?e (PInt 50) (sample_st ?d ?d False)
      = (Inr OUTCOME_RETRY, sample_st retried_delivery retried_delivery False)"
    by (simp add: advance_loaded_def drive_step_def run_simps facts step sample_values run_step_def fails
        settle_failure_def retry_record_def same)
  then show ?thesis
    by (simp add: advance_once_def run_simps load on_record_def st sample_st_def)
qed

text \<open>Another process revokes the record while the machine draws the token of its receipt.\<close>

definition revoking_token :: "(bool sys, str) act" where
  "revoking_token =
     seq (revoke (sample_env (ret ''0'') failing_transport) (record_id (sample_delivery PR_UPDATE)) ''h'' ''r'')
       (ret ''0'')"

lemma sample_revoked:
  "revoke (sample_env tok tr) (record_id (sample_delivery PR_UPDATE)) ''h'' ''r''
       \<lparr>disk = sample_file (sample_delivery PR_UPDATE), world = w\<rparr>
     = (Inr revoked_delivery, \<lparr>disk = sample_file revoked_delivery, world = w\<rparr>)"
proof -
  let ?d = "sample_delivery PR_UPDATE"
  have "revoke_record (PInt 50) ''h'' ''r'' ?d = Inr revoked_delivery"
    by (simp add: revoke_record_def Let_def sbind_Inr_iff apply_transition_Inr)
       (simp add: is_revoked_def revoked_delivery_def sample_delivery_def sample_authority_def TERMINAL_PHASES_def)
  moreover have "put_record revoked_delivery (sample_document ?d) = sample_document revoked_delivery"
    by (simp add: put_record_def sample_document_def deliveries_of_def set_deliveries_def record_id_def
        revoked_delivery_def)
  moreover have "save_document sample_host (sample_document revoked_delivery)
        \<lparr>disk = sample_file ?d, world = w\<rparr>
      = (Inr (), \<lparr>disk = sample_file revoked_delivery, world = w\<rparr>)"
    by (simp add: save_document_def store_save_def sample_document_valid sample_deliveries_valid sample_file_def)
  ultimately show ?thesis
    by (simp add: revoke_def run_simps load_document_def sample_file_loads [OF sample_update_valid] sample_deliveries
        record_id_def sample_deliveries_valid)
qed

end
