(* ===== verification/SampleCeremony.thy ===== *)
theory SampleCeremony
  imports Attested Scripted
begin

text \<open>
  Two concrete ceremonies on the scripted checkout and an empty store: the local terminal
  authorizes an update, and a presented update is attested.
\<close>

section \<open>The records\<close>

text \<open>The sample of an update with another human and other evidence, minted at time 50.\<close>

definition minted :: "human_authorization \<Rightarrow> evidence \<Rightarrow> delivery" where
  "minted human evidence = (sample_delivery PR_UPDATE)
     \<lparr>d_authority := (sample_authority PR_UPDATE)\<lparr>a_human := human, a_evidence := evidence\<rparr>,
      d_updated_at := PInt 50\<rparr>"

definition sample_id :: str where "sample_id = ''prd-'' @ replicate 24 (CHR ''a'')"

lemma minted_values:
  "d_authority (minted x e) = (sample_authority PR_UPDATE)\<lparr>a_human := x, a_evidence := e\<rparr>"
  "d_authority_digest (minted x e) = hex64" "d_phase (minted x e) = AUTHORIZED"
  "d_steps (minted x e) = initial_entry PR_UPDATE" "d_blocker (minted x e) = None"
  "d_pull_request (minted x e) = None" "d_updated_at (minted x e) = PInt 50"
  "d_base_state (minted x e) = d_base_state (sample_delivery PR_UPDATE)"
  "d_revocation (minted x e) = d_revocation (sample_delivery PR_UPDATE)"
  "workflow_identity_json ((sample_authority PR_UPDATE)\<lparr>a_human := x, a_evidence := e\<rparr>)
     = workflow_identity_json (sample_authority PR_UPDATE)"
  by (simp_all add: minted_def sample_values workflow_identity_json_def)

lemma minted_valid:
  assumes "validate_human_authorization sample_host (human_authorization_json x) (delivery_json (minted x e)) = None"
    and "validate_evidence (evidence_json e) (JStr hex64) = None"
    and "validate_expiration (expiration_json (a_expiration (sample_authority PR_UPDATE)))
           (num_of (jget ''authorized_at'' (human_authorization_json x))) = None"
    and "finite_json (delivery_json (minted x e))"
    and "require_closed_keys (delivery_json (minted x e)) (top_level_keys (JStr (mode_str PR_UPDATE))) = None"
  shows "validate_authorization sample_host (delivery_json (minted x e)) = None"
proof -
  let ?d = "minted x e"
  have digest: "authority_digest sample_host (delivery_json ?d) = Inr hex64"
    unfolding authority_digest_def using assms(4) by (intro sample_json_digest finite_sub_object)
  have "validate_authority_half sample_host (delivery_json ?d) PR_UPDATE = None"
    unfolding validate_authority_half_def checks_None_iff
    using assms sample_rest
    by (simp add: delivery_get minted_values sample_values opt_json_def sample_pieces sample_candidate digest sample_checks)
  moreover have "validate_pr_update_authority (delivery_json ?d) = None"
    using sample_update_authority
    by (simp add: validate_pr_update_authority_def checks_None_iff delivery_get minted_values sample_values
        opt_json_def)
  then have "validate_state_half sample_host (delivery_json ?d) PR_UPDATE = None"
    unfolding validate_state_half_def checks_None_iff
    by (simp add: delivery_get minted_values sample_values opt_json_def sample_steps sample_state sample_checks
        require_timestamp_def checks_None_iff)
  ultimately show ?thesis by (simp add: valid_delivery_iff minted_values sample_values)
qed

definition relayed :: attestation where
  "relayed = \<lparr>at_proposal_digest = hex64, at_presented_at = PInt 40, at_reply_to = ''m1'',
     at_relayed_reply = ''approved'', at_relay_ref = ''m2'', at_confirmation = DOTS_CONFIRMATION,
     at_provenance = DOTS_PROVENANCE, at_residual_risk = DOTS_RESIDUAL_RISK\<rparr>"

definition dots_human :: human_authorization where
  "dots_human = \<lparr>ha_identity = DOTS_ATTESTED_IDENTITY, ha_source = AUTHORIZATION_SOURCE_DOTS_OPERATOR_ATTESTED,
     ha_authorized_at = PInt 50, ha_confirmation = hex64, ha_attestation = Some relayed\<rparr>"

definition terminal_human :: human_authorization where
  "terminal_human = \<lparr>ha_identity = ''h'', ha_source = AUTHORIZATION_SOURCE_LOCAL_TERMINAL,
     ha_authorized_at = PInt 50, ha_confirmation = hex64, ha_attestation = None\<rparr>"

definition dots_delivery :: delivery where
  "dots_delivery = minted dots_human (sample_evidence (oid_of (CHR ''1'')))"

definition terminal_evidence :: evidence where
  "terminal_evidence = (sample_evidence (oid_of (CHR ''1'')))
     \<lparr>ev_verification := (ev_verification (sample_evidence (oid_of (CHR ''1''))))
        \<lparr>vf_log_bytes := 1, vf_recorded_at := PInt 50\<rparr>\<rparr>"

definition terminal_delivery :: delivery where
  "terminal_delivery = minted terminal_human terminal_evidence"

lemma ceremony_finite:
  "finite_json (delivery_json dots_delivery)" "finite_json (delivery_json terminal_delivery)"
  "require_closed_keys (delivery_json dots_delivery) (top_level_keys (JStr (mode_str PR_UPDATE))) = None"
  "require_closed_keys (delivery_json terminal_delivery) (top_level_keys (JStr (mode_str PR_UPDATE))) = None"
  by code_simp+

lemma dots_delivery_valid: "validate_authorization sample_host (delivery_json dots_delivery) = None"
proof -
  let ?x = "human_authorization_json dots_human" and ?doc = "delivery_json dots_delivery"
  have checks: "is_obj ?x" "jget ''source'' ?x = JStr AUTHORIZATION_SOURCE_DOTS_OPERATOR_ATTESTED"
    "require_closed_keys ?x
       [''identity'', ''source'', ''authorized_at'', ''confirmation_digest_sha256'', ''attestation''] = None"
    "jget ''identity'' ?x = JStr DOTS_ATTESTED_IDENTITY" "require_timestamp (jget ''authorized_at'' ?x) = None"
    "jget ''attestation'' ?x = attestation_json relayed" "require_hex (jget ''confirmation_digest_sha256'' ?x) 64 = None"
    "jget ''confirmation_digest_sha256'' ?x = JStr hex64"
    "\<not> num_less (num_of (jget ''authorized_at'' ?x)) (num_of (jget ''presented_at'' (attestation_json relayed)))"
    "jget ''proposal_digest_sha256'' (attestation_json relayed) = JStr hex64"
    by code_simp+
  have expiration: "jget ''expiration'' ?doc = expiration_json (a_expiration (sample_authority PR_UPDATE))"
    by (simp add: delivery_get dots_delivery_def minted_values)
  then have expires: "is_obj (jget ''expiration'' ?doc)" "jhas ''expires_at'' (jget ''expiration'' ?doc)"
    by (simp_all add: expiration_json_def jhas_def)
  have attestation: "validate_dots_attestation (attestation_json relayed) = None"
    by code_simp
  have finite: "finite_json (attestation_json relayed)" "finite_json ?doc"
    using ceremony_finite by (simp_all add: attestation_json_def relayed_def is_finite_num_def)
  have confirmation: "dots_confirmation_digest sample_host (attestation_json relayed) = Inr hex64"
    unfolding dots_confirmation_digest_def by (intro sample_json_digest finite_sub_object finite)
  have proposal: "delivery_proposal_digest sample_host
      (delivery_proposal (sub_object (proposal_binding_keys m) ?doc)
        (jget ''presented_at'' (attestation_json relayed)) (jget ''expires_at'' (jget ''expiration'' ?doc))) = Inr hex64" for m
    unfolding delivery_proposal_digest_def delivery_proposal_def
    using finite_sub_object [OF finite(2)] finite_jget [OF finite(1)] finite_jget [OF finite_jget [OF finite(2)]]
    by (intro sample_json_digest) (simp add: del: jget_obj)
  have "validate_human_authorization sample_host ?x ?doc = None"
    by (simp add: validate_human_authorization_def validate_dots_authorization_def Let_def checks expires attestation
        confirmation proposal sample_checks sample_rest(7) checks_None_iff)
  moreover have "validate_evidence (evidence_json (sample_evidence (oid_of (CHR ''1'')))) (JStr hex64) = None"
    "validate_expiration (expiration_json (a_expiration (sample_authority PR_UPDATE)))
       (num_of (jget ''authorized_at'' ?x)) = None"
    by code_simp+
  ultimately show ?thesis
    using ceremony_finite unfolding dots_delivery_def by (intro minted_valid)
qed

lemma terminal_delivery_valid: "validate_authorization sample_host (delivery_json terminal_delivery) = None"
  unfolding terminal_delivery_def
proof (rule minted_valid)
  show "validate_human_authorization sample_host (human_authorization_json terminal_human)
      (delivery_json (minted terminal_human terminal_evidence)) = None"
  proof -
    let ?h = "human_authorization_json terminal_human"
    have "is_obj ?h" "jget ''source'' ?h \<noteq> JStr AUTHORIZATION_SOURCE_DOTS_OPERATOR_ATTESTED"
      "require_closed_keys ?h [''identity'', ''source'', ''authorized_at'', ''confirmation_digest_sha256''] = None"
      "require_line_free_str (jget ''identity'' ?h) 255 False = None"
      "require_member (jget ''source'' ?h) AUTHORIZATION_SOURCES = None"
      "require_timestamp (jget ''authorized_at'' ?h) = None"
      "require_hex (jget ''confirmation_digest_sha256'' ?h) 64 = None"
      by code_simp+
    then show ?thesis by (simp add: validate_human_authorization_def)
  qed
  show "validate_evidence (evidence_json terminal_evidence) (JStr hex64) = None"
    "validate_expiration (expiration_json (a_expiration (sample_authority PR_UPDATE)))
       (num_of (jget ''authorized_at'' (human_authorization_json terminal_human))) = None"
    by code_simp+
qed (use ceremony_finite in \<open>simp_all add: terminal_delivery_def\<close>)

section \<open>The desk\<close>

definition sample_desk :: "json \<Rightarrow> bool desk" where
  "sample_desk document =
     \<lparr>k_read = (\<lambda>_. ret ''x''), k_write = (\<lambda>_. ret ()), k_emit = (\<lambda>_. ret ()),
      k_confirm = (\<lambda>_. ret (py_take CONFIRMATION_CHARS hex64)), k_user = ''h'', k_loads = (\<lambda>_. Some document),
      k_utc = (\<lambda>_. ''z'')\<rparr>"

abbreviation ceremony_env :: "bool env" where
  "ceremony_env \<equiv> scripted (ret (replicate 24 (CHR ''a'')))"

definition empty_sys :: "bool sys" where
  "empty_sys = \<lparr>disk = Absent, world = False\<rparr>"

lemma empty_sys_simps [simp]: "disk empty_sys = Absent" "world empty_sys = False"
  by (simp_all add: empty_sys_def)

lemma sample_desk_simps [simp]:
  "k_read (sample_desk j) p = ret ''x''" "k_write (sample_desk j) m = ret ()" "k_emit (sample_desk j) v = ret ()"
  "k_confirm (sample_desk j) m = ret (py_take CONFIRMATION_CHARS hex64)" "k_user (sample_desk j) = ''h''"
  "k_loads (sample_desk j) x = Some j"
  by (simp_all add: sample_desk_def)

lemma sample_surroundings:
  "quiet ceremony_env" "quiet_desk (sample_desk j)" "prints (sample_desk j)" "keyed h (disk empty_sys)"
  by (auto simp: quiet_def surroundings_preserve_def transport_preserves_def failing_transport_def
      scripted_transport_def preserves_def quiet_desk_def prints_def keyed_def empty_sys_def store_load_def
      default_document_def deliveries_of_def)

lemma ceremony_fair: "fair sample_host (\<lambda>_. PInt 50) ceremony_env (sample_desk j)"
  using sample_surroundings
  by (simp add: fair_def timely_def ceremony_preserves_def surroundings_preserve_def transport_preserves_def
      failing_transport_def scripted_transport_def preserves_def is_finite_num_def)

section \<open>Minting\<close>

lemma add_first:
  assumes "validate_authorization h (delivery_json d) = None"
  shows "add_delivery h default_document (delivery_json d) = Inr (sample_document d, Added, 0)"
  using assms
  by (simp add: add_delivery_def Let_def deliveries_of_def default_document_def prune_inactive_def
      MAX_PR_DELIVERY_RECORDS_def set_deliveries_def sample_document_def delivery_get STORE_SCHEMA_VERSION_def)

lemma mint_first:
  assumes new: "new_authorization sample_host sample_id authority (PInt 50) = Inr (delivery_json d)"
    and valid: "validate_authorization sample_host (delivery_json d) = None"
    and mode: "jget ''mode'' authority = JStr (mode_str PR_UPDATE)"
    and id: "jget ''delivery_id'' authority = JStr sample_id"
    and before: "deadline = None \<or> deadline = Some (PInt 100)"
  shows "mint ceremony_env (sample_desk j) authority (PInt 50) one_shot deadline empty_sys
     = (Inr sample_id, \<lparr>disk = sample_file d, world = False\<rparr>)"
proof -
  have presented: "is_presented_delivery_id (JStr sample_id)" by code_simp
  have load: "store_load sample_host Absent = Inr default_document" by (simp add: store_load_def)
  have fresh: "\<not> already_attested p default_document" for p
    by (simp add: already_attested_def default_document_def deliveries_of_def)
  have save: "store_save sample_host (sample_document d) = Inr (sample_file d)"
    using valid by (simp add: store_save_def sample_document_valid sample_file_def)
  have stored: "jget ''delivery_id'' (delivery_json d) = JStr sample_id"
    by (rule new_authorization_facts(2) [OF new])
  have "mint_locked ceremony_env (delivery_json d) one_shot deadline empty_sys
      = (Inr 0, \<lparr>disk = sample_file d, world = False\<rparr>)"
    using before fresh
    by (auto simp: mint_locked_def run_simps load_document_eq empty_sys_def load add_first [OF valid]
        save_document_def save num_le_def split: option.splits)
  then show ?thesis
    using mode id presented stored
    by (simp add: mint_def mint_id_def run_simps new del: mode_str.simps)
qed

text \<open>A record with the sample's keys is minted as it is presented.\<close>

lemma new_minted:
  assumes mode: "jget ''mode'' authority = JStr ''pr_update''" "jhas ''delivery_id'' authority"
      "list_all (\<lambda>k. k \<in> set PR_UPDATE_AUTHORITY_KEYS) (jkeys authority)"
    and vals: "map_result (take_authority_key authority sample_id) PR_UPDATE_AUTHORITY_KEYS
        = Inr (map snd (authority_fields (d_authority (minted x e))))"
    and finite: "finite_json (JObj (authority_fields (d_authority (minted x e))))"
    and valid: "validate_authorization sample_host (delivery_json (minted x e)) = None"
  shows "new_authorization sample_host sample_id authority (PInt 50) = Inr (delivery_json (minted x e))"
proof -
  let ?a = "d_authority (minted x e)"
  have keys: "map fst (authority_fields ?a) = PR_UPDATE_AUTHORITY_KEYS"
    unfolding minted_values by code_simp
  have known: "mode_of_str ''pr_update'' = PR_UPDATE" "authority_keys (JStr ''pr_update'') = PR_UPDATE_AUTHORITY_KEYS"
    "''pr_update'' \<in> set (map mode_str MODES)"
    by code_simp+
  have zip: "zip PR_UPDATE_AUTHORITY_KEYS (map snd (authority_fields ?a)) = authority_fields ?a"
    unfolding keys [symmetric] by (rule zip_map_fst_snd)
  have digest: "authority_digest sample_host (JObj (authority_fields ?a)) = Inr hex64"
    unfolding authority_digest_def using finite by (intro sample_json_digest finite_sub_object)
  have base: "jget ''original_baseline'' (JObj (authority_fields ?a)) = baseline_json (a_baseline (sample_authority PR_UPDATE))"
    unfolding minted_values by code_simp
  have doc: "JObj (authority_fields ?a @ (''authority_digest_sha256'', JStr hex64)
        # initial_state_fields PR_UPDATE (baseline_json (a_baseline (sample_authority PR_UPDATE))) (PInt 50))
      = delivery_json (minted x e)"
    by (simp add: delivery_json_def state_fields_def initial_state_fields_def minted_values sample_values baseline_json_def
        base_state_json_def opt_json_def) (simp add: sample_delivery_def sample_authority_def)
  show ?thesis
    unfolding new_authorization_def Let_def mode(1) str_of.simps known(1,2) vals
    using mode(2,3) known(3) valid
    by (simp add: require_def zip digest base doc sbind_def del: set_map jget_obj)
qed

section \<open>The live repository\<close>

definition sample_live :: live_facts where
  "sample_live = \<lparr>lv_repo = ''/r'', lv_git_dir = ''/r/.git'', lv_head_ref = ''refs/heads/topic'',
     lv_base_branch = ''main'', lv_remote_name = ''origin'', lv_url_exact = ''https://github.com/o/p'',
     lv_url_fetch = ''https://github.com/o/p'', lv_url_push = ''https://github.com/o/p'',
     lv_target = make_target ''o'' ''p'' None None, lv_head = oid_of (CHR ''1''), lv_remote_base = None,
     lv_entries = [\<lparr>ce_path = ''f'', ce_status = ''M'', ce_mode = ''100644'', ce_blob = oid_of (CHR ''2'')\<rparr>],
     lv_digest = hex64, lv_committer = \<lparr>cm_name = ''n'', cm_email = ''e''\<rparr>,
     lv_update = Some (7, hex64, JStr ''https://github.com/o/p/pull/7'')\<rparr>"

lemma config_calls:
  "t_config_get scripted_transport p ''user.name'' = ret (Some ''n'')"
  "t_config_get scripted_transport p ''user.email'' = ret (Some ''e'')"
  by (simp_all add: scripted_transport_def)

lemma sample_live_read:
  "live_repository ceremony_env ''/r'' ''main'' ''origin'' (Some (7, ''topic'')) empty_sys = (Inr sample_live, empty_sys)"
proof -
  have real: "os_realpath sample_host p = p" for p by (simp add: sample_host_def)
  have heads: "starts_with ''refs/heads/topic'' HEADS" "drop (length HEADS) ''refs/heads/topic'' = ''topic''"
    by code_simp+
  have head: "sample_head False = oid_of (CHR ''1'')" by (simp add: sample_head_def)
  have oid: "\<exists>c cs. oid_of (CHR ''1'') = c # cs" by (simp add: oid_of_def eval_nat_numeral)
  have read: "require_text (Some (oid_of (CHR ''1''))) = ret (oid_of (CHR ''1''))"
    using oid by (auto simp: require_text_def)
  have place: "live_place ceremony_env ''/r'' (Some (7, ''topic'')) empty_sys = (Inr (''/r/.git'', ''refs/heads/topic''), empty_sys)"
    by (simp add: live_place_def as_ceremony_def run_simps scripted_calls real heads require_text_def Let_def)
  have target: "parse_exact_remote_url (JStr ''https://github.com/o/p'') = Inr (make_target ''o'' ''p'' None None)"
    by code_simp
  have remote: "live_remote ceremony_env ''/r'' ''origin'' empty_sys =
      (Inr ((''https://github.com/o/p'', ''https://github.com/o/p'', ''https://github.com/o/p''),
        make_target ''o'' ''p'' None None, oid_of (CHR ''1'')), empty_sys)"
    by (simp add: live_remote_def run_simps scripted_calls sample_heads target read head require_text_def [of "Some ''https://github.com/o/p''"]
        Let_def)
  have fields: "ct_owner (make_target ''o'' ''p'' None None) = ''o''" "ct_repo (make_target ''o'' ''p'' None None) = ''p''"
    "ct_repository_url (make_target ''o'' ''p'' None None) = ''https://github.com/o/p''"
    by code_simp+
  have digest: "identity_digest sample_host es = hex64" for es by (simp add: identity_digest_def)
  show ?thesis
    by (simp add: live_repository_def real run_simps place remote live_update_def as_ceremony_def scripted_calls
        fields head sample_parse lv_base_ref_def live_committer_def config_calls require_text_def Let_def)
      (simp add: sample_live_def sample_view_def digest)
qed

section \<open>An attestation\<close>

definition dots_binding :: json where
  "dots_binding = sub_object PR_UPDATE_DELIVERY_PROPOSAL_BINDING_KEYS (delivery_json dots_delivery)"

definition dots_proposal :: json where
  "dots_proposal = delivery_proposal dots_binding (JInt 40) (JInt 100)"

definition dots_document :: json where
  "dots_document = JObj [(''delivery_proposal'', dots_proposal), (''relayed_reply'', JStr ''approved'')]"

definition dots_relay :: relay_args where
  "dots_relay = \<lparr>ra_proposal_digest = hex64, ra_reply_to = ''m1'', ra_relay_ref = ''m2''\<rparr>"

lemma sample_identity: "a_delivery_id (sample_authority m) = sample_id"
  by (simp add: sample_authority_def sample_id_def)

lemma dots_pieces:
  "jindex ''repository'' dots_binding = Inr (repository_json (a_repository (sample_authority PR_UPDATE)))"
  "jindex ''remote'' dots_binding = Inr (remote_json (a_remote (sample_authority PR_UPDATE)))"
  "jindex ''source'' dots_binding = Inr (branch_pair_json (a_source (sample_authority PR_UPDATE)))"
  "jindex ''target_base'' dots_binding = Inr (branch_pair_json (a_target_base (sample_authority PR_UPDATE)))"
  "jindex ''original_baseline'' dots_binding = Inr (baseline_json (a_baseline (sample_authority PR_UPDATE)))"
  "jindex ''candidate'' dots_binding = Inr (candidate_json (a_candidate (sample_authority PR_UPDATE)))"
  "jindex ''committer'' dots_binding = Inr (committer_json (a_committer (sample_authority PR_UPDATE)))"
  "jget ''pull_request_number'' dots_binding = JInt 7" "jget ''staged_sha256'' dots_binding = JStr hex64"
  "jget ''mode'' dots_binding = JStr (mode_str PR_UPDATE)" "jget ''delivery_id'' dots_binding = JStr sample_id"
  "jget ''source'' dots_binding = branch_pair_json (a_source (sample_authority PR_UPDATE))"
  by (simp_all add: jindex_def dots_binding_def sub_object_def PR_UPDATE_DELIVERY_PROPOSAL_BINDING_KEYS_def
      DELIVERY_PROPOSAL_BINDING_KEYS_def delivery_get dots_delivery_def minted_values sample_values opt_json_def
      sample_identity del: mode_str.simps)

lemma dots_proposal_checks: "check_proposal dots_proposal = None"
proof -
  have "jkeys dots_binding = PR_UPDATE_DELIVERY_PROPOSAL_BINDING_KEYS" "is_obj dots_binding"
    by (simp_all add: dots_binding_def sub_object_def comp_def)
  moreover have "mode_str PR_UPDATE \<in> set (map mode_str MODES)" by code_simp
  ultimately show ?thesis
    using dots_pieces
    by (auto simp: check_proposal_def dots_proposal_def delivery_proposal_def Let_def require_def
        proposal_binding_keys_def simp del: mode_str.simps set_map)
qed

lemma dots_relay_checks: "check_relay dots_document dots_relay = None"
proof -
  have "is_dots_affirmative (JStr ''approved'')" "relay_ref_ok hex64" "relay_ref_ok ''m1''" "relay_ref_ok ''m2''"
    by code_simp+
  then show ?thesis
    by (auto simp: check_relay_def dots_document_def dots_relay_def checks_None_iff)
qed

lemma dots_checks:
  "update_of_binding dots_binding = Inr (Some (7, ''topic''))"
  "bound_place dots_binding = Inr (''/r'', ''main'', ''origin'')"
  "relayed_attestation dots_proposal (JStr ''approved'') dots_relay hex64 = attestation_json relayed"
  "finite_json dots_proposal" "finite_json (attestation_json relayed)"
proof -
  show "update_of_binding dots_binding = Inr (Some (7, ''topic''))"
    by (simp add: update_of_binding_def dots_pieces Let_def del: mode_str.simps)
       (simp add: branch_pair_json_def sample_authority_def)
  show "bound_place dots_binding = Inr (''/r'', ''main'', ''origin'')"
    by (simp add: bound_place_def jindex2_def sbind_def dots_pieces)
       (simp add: jindex_def repository_json_def branch_pair_json_def remote_json_def sample_authority_def jtext_def)
  show "relayed_attestation dots_proposal (JStr ''approved'') dots_relay hex64 = attestation_json relayed"
    by (simp add: relayed_attestation_def attestation_json_def relayed_def dots_relay_def dots_proposal_def
        delivery_proposal_def)
  show "finite_json dots_proposal"
    using finite_sub_object [OF ceremony_finite(1)]
    by (simp add: dots_proposal_def delivery_proposal_def dots_binding_def is_finite_num_def del: sub_object_def)
  show "finite_json (attestation_json relayed)"
    by (simp add: attestation_json_def relayed_def is_finite_num_def)
qed

definition dots_facts :: "(str \<times> json) list" where
  "dots_facts =
     [(''repository'', JStr ''/r''), (''git_dir'', JStr ''/r/.git''), (''remote_exact'', JStr ''https://github.com/o/p''),
      (''remote_fetch'', JStr ''https://github.com/o/p''), (''remote_push'', JStr ''https://github.com/o/p''),
      (''source_ref'', JStr ''refs/heads/topic''), (''base_ref'', JStr ''refs/heads/main''),
      (''baseline'', JStr (oid_of (CHR ''1''))), (''candidate'', JStr hex64),
      (''entries'', list_json cand_entry_json (lv_entries sample_live)),
      (''committer'', JList [JStr ''n'', JStr ''e'']), (''pull_request_number'', JInt 7), (''staged_sha256'', JStr hex64)]"

lemma dots_bound: "bound_facts dots_binding = Inr dots_facts"
  by (simp add: bound_facts_def jindex2_def sbind_def dots_pieces del: mode_str.simps)
     (simp add: jindex_def repository_json_def remote_json_def branch_pair_json_def baseline_json_def candidate_json_def
       committer_json_def sample_authority_def dots_facts_def sample_live_def)

lemma dots_equal:
  "py_eq (list_json cand_entry_json (lv_entries sample_live)) (list_json cand_entry_json (lv_entries sample_live))"
  "py_eq (JList [JStr ''n'', JStr ''e'']) (JList [JStr ''n'', JStr ''e''])" "py_eq (JInt 7) (JInt 7)"
  by code_simp+

lemma dots_matches: "live_mismatch sample_live dots_binding = Inr None"
proof -
  have "\<forall>(name, x) \<in> set dots_facts. py_eq x (live_fact sample_live name)"
    using dots_equal
    by (simp add: dots_facts_def live_fact_def lv_base_ref_def HEADS_def opt_json_def)
       (simp add: sample_live_def)
  then show ?thesis
    by (auto simp: live_mismatch_def dots_bound sbind_def sorted_find)
qed

lemma dots_authority:
  defines "authority \<equiv> attested_authority dots_proposal (attestation_json relayed) hex64 (PInt 50)"
  shows "new_authorization sample_host sample_id authority (PInt 50) = Inr (delivery_json dots_delivery)"
    and "jget ''mode'' authority = JStr (mode_str PR_UPDATE)" "jget ''delivery_id'' authority = JStr sample_id"
proof -
  show "new_authorization sample_host sample_id authority (PInt 50) = Inr (delivery_json dots_delivery)"
    unfolding dots_delivery_def
  proof (rule new_minted)
    note get = attested_authority_get [OF dots_proposal_checks, of _ "attestation_json relayed" hex64 "PInt 50",
        folded authority_def]
    have keys: "jkeys authority = PR_UPDATE_DELIVERY_PROPOSAL_BINDING_KEYS @ [''human_authorization'', ''expiration'']"
      by (simp add: authority_def attested_authority_def dots_proposal_def delivery_proposal_def dots_binding_def
          sub_object_def comp_def)
    have binding: "jget ''binding'' dots_proposal = dots_binding"
      by (simp add: dots_proposal_def delivery_proposal_def)
    show "jget ''mode'' authority = JStr ''pr_update''"
      using dots_pieces by (simp add: get binding)
    have has: "jhas k authority \<longleftrightarrow> k \<in> set (jkeys authority)" for k
      by (simp add: jhas_def jkeys_def)
    show "jhas ''delivery_id'' authority" "list_all (\<lambda>k. k \<in> set PR_UPDATE_AUTHORITY_KEYS) (jkeys authority)"
      by (simp_all add: has keys PR_UPDATE_DELIVERY_PROPOSAL_BINDING_KEYS_def
          DELIVERY_PROPOSAL_BINDING_KEYS_def PR_UPDATE_AUTHORITY_KEYS_def AUTHORITY_KEYS_def)
    show "map_result (take_authority_key authority sample_id) PR_UPDATE_AUTHORITY_KEYS
        = Inr (map snd (authority_fields (d_authority (minted dots_human (sample_evidence (oid_of (CHR ''1'')))))))"
      by (simp add: PR_UPDATE_AUTHORITY_KEYS_def AUTHORITY_KEYS_def take_authority_key_def Let_def has keys
          PR_UPDATE_DELIVERY_PROPOSAL_BINDING_KEYS_def DELIVERY_PROPOSAL_BINDING_KEYS_def get binding dots_pieces
          sbind_def)
        (simp add: dots_binding_def dots_proposal_def delivery_proposal_def sub_object_def
          PR_UPDATE_DELIVERY_PROPOSAL_BINDING_KEYS_def DELIVERY_PROPOSAL_BINDING_KEYS_def delivery_get dots_delivery_def
          minted_values sample_values authority_fields_def opt_json_def sample_identity expiration_binding_def
          expiration_json_def human_authorization_json_def dots_human_def,
         simp add: sample_authority_def)
    show "finite_json (JObj (authority_fields (d_authority (minted dots_human (sample_evidence (oid_of (CHR ''1'')))))))"
      by code_simp
  qed (use dots_delivery_valid in \<open>simp add: dots_delivery_def\<close>)
  show "jget ''mode'' authority = JStr (mode_str PR_UPDATE)" "jget ''delivery_id'' authority = JStr sample_id"
    using attested_authority_get [OF dots_proposal_checks, of _ "attestation_json relayed" hex64 "PInt 50",
        folded authority_def] dots_pieces
    by (simp_all add: dots_proposal_def delivery_proposal_def del: mode_str.simps)
qed

lemma sample_attested:
  "attest_dots ceremony_env (sample_desk dots_document) dots_relay [] empty_sys
     = (Inr sample_id, \<lparr>disk = sample_file dots_delivery, world = False\<rparr>)"
proof -
  have get: "jget ''delivery_proposal'' dots_document = dots_proposal"
    "jget ''relayed_reply'' dots_document = JStr ''approved''" "jget ''binding'' dots_proposal = dots_binding"
    "jget ''expires_at'' dots_proposal = JInt 100"
    by (simp_all add: dots_document_def dots_proposal_def delivery_proposal_def)
  have digest: "delivery_proposal_digest sample_host dots_proposal = Inr hex64"
    unfolding delivery_proposal_digest_def by (rule sample_json_digest) (rule dots_checks)
  have confirmation: "dots_confirmation_digest sample_host (attestation_json relayed) = Inr hex64"
    unfolding dots_confirmation_digest_def by (intro sample_json_digest finite_sub_object dots_checks)
  have relay: "ra_proposal_digest dots_relay = hex64" by (simp add: dots_relay_def)
  have time: "\<not> num_le (PInt 100) (PInt 50)" by (simp add: num_le_def)
  have minted: "mint ceremony_env (sample_desk dots_document)
        (attested_authority dots_proposal (attestation_json relayed) hex64 (PInt 50)) (PInt 50)
        (Some hex64) (Some (PInt 100)) empty_sys
      = (Inr sample_id, \<lparr>disk = sample_file dots_delivery, world = False\<rparr>)"
    by (rule mint_first) (simp_all add: dots_authority dots_delivery_valid del: mode_str.simps)
  show ?thesis
    by (simp add: attest_dots_def attest_proposal_def run_simps get dots_relay_checks dots_proposal_checks dots_checks digest confirmation relay time
        sample_live_read dots_matches minted MAX_DOTS_INPUT_CHARS_def py_len_def Let_def)
qed

section \<open>The local terminal\<close>

definition herd_document :: json where
  "herd_document = JObj
     [(''engineering_complete'', engineering_json (ev_engineering terminal_evidence)),
      (''reviewer_approve'', review_json (ev_review terminal_evidence))]"

definition terminal_args :: ceremony_args where
  "terminal_args = \<lparr>g_repo = ''/r'', g_workflow_id = ''w'', g_herd_evidence = ''e'', g_verification_log = ''l'',
     g_verification_command = ''make'', g_exit_status = 0, g_ran_at = Some (PInt 1), g_reverify_command = None,
     g_title = ''T'', g_objective = ''O'', g_notes = [], g_risks = [], g_base_branch = ''main'', g_remote = ''origin'',
     g_pr_number = Some 7, g_head_branch = Some ''topic'', g_validity_seconds = 50,
     g_mission_workflow_id = None, g_mission_digest = None\<rparr>"

definition terminal_content :: pr_content where
  "terminal_content = \<lparr>pc_title = ''T'', pc_objective = ''O'', pc_notes = [], pc_risks = []\<rparr>"

definition terminal_fields :: "(str \<times> json) list" where
  "terminal_fields =
     binding_fields ceremony_env sample_live herd_document terminal_args [''make''] [''make''] ''x'' terminal_content (PInt 50)
     @ update_fields (replicate 24 (CHR ''a'')) (7, hex64, JStr ''https://github.com/o/p/pull/7'')"

definition terminal_authority :: json where
  "terminal_authority = JObj (terminal_fields
     @ [(''human_authorization'', human_authorization_json terminal_human),
        (''expiration'', expiration_binding (JInt 100))])"

lemma terminal_checks:
  "update_identity terminal_args = Inr (Some (7, ''topic''))" "command_argv ''make'' = Inr [''make'']"
  "valid_utf8 ''x''" "universal_newlines ''x'' = ''x''" "num_add (PInt 50) (PInt 50) = Inr (PInt 100)"
  "strip (py_take CONFIRMATION_CHARS hex64) = py_take CONFIRMATION_CHARS hex64"
  "is_obj herd_document \<and> set (jkeys herd_document) = set HERD_EVIDENCE_KEYS"
  "list_all (\<lambda>k. is_obj (jget k herd_document)) HERD_EVIDENCE_KEYS"
  by code_simp+

lemma terminal_arguments:
  "g_repo terminal_args = ''/r''" "g_base_branch terminal_args = ''main''" "g_remote terminal_args = ''origin''"
  "g_exit_status terminal_args = 0" "g_verification_command terminal_args = ''make''"
  "or_else (g_reverify_command terminal_args) ''make'' = ''make''" "g_title terminal_args = ''T''"
  "g_objective terminal_args = ''O''" "g_notes terminal_args = []" "g_risks terminal_args = []"
  "g_validity_seconds terminal_args = 50"
  by (simp_all add: terminal_args_def or_else_def)

lemma sample_gathered:
  "\<exists>lines. gather ceremony_env (sample_desk herd_document) terminal_args (PInt 50) empty_sys
     = (Inr (terminal_fields, lines, hex64), empty_sys)"
proof -
  let ?desk = "sample_desk herd_document"
  have herd: "load_herd_evidence ?desk p empty_sys = (Inr herd_document, empty_sys)" for p
    using terminal_checks(7)
    by (simp add: load_herd_evidence_def read_text_file_def run_simps terminal_checks(3,4))
  have evidence: "gather_evidence ?desk terminal_args empty_sys
      = (Inr (herd_document, ''x'', [''make''], [''make'']), empty_sys)"
    by (simp add: gather_evidence_def run_simps herd terminal_checks terminal_arguments)
  have content: "gather_content ?desk terminal_args empty_sys = (Inr terminal_content, empty_sys)"
    by (simp add: gather_content_def read_text_def run_simps terminal_arguments terminal_content_def)
  have live: "lv_update sample_live = Some (7, hex64, JStr ''https://github.com/o/p/pull/7'')" "lv_digest sample_live = hex64"
    by (simp_all add: sample_live_def)
  show ?thesis
    by (simp add: gather_def run_simps terminal_checks(1) terminal_arguments sample_live_read evidence content live
        terminal_fields_def Let_def del: replicate.simps replicate_Suc)
qed

lemma terminal_minted:
  "new_authorization sample_host sample_id terminal_authority (PInt 50) = Inr (delivery_json terminal_delivery)"
  "jget ''mode'' terminal_authority = JStr (mode_str PR_UPDATE)" "jget ''delivery_id'' terminal_authority = JStr sample_id"
proof -
  show "new_authorization sample_host sample_id terminal_authority (PInt 50) = Inr (delivery_json terminal_delivery)"
    unfolding terminal_delivery_def
  proof (rule new_minted)
    show "jget ''mode'' terminal_authority = JStr ''pr_update''" "jhas ''delivery_id'' terminal_authority"
      "list_all (\<lambda>k. k \<in> set PR_UPDATE_AUTHORITY_KEYS) (jkeys terminal_authority)"
      "map_result (take_authority_key terminal_authority sample_id) PR_UPDATE_AUTHORITY_KEYS
        = Inr (map snd (authority_fields (d_authority (minted terminal_human terminal_evidence))))"
      "finite_json (JObj (authority_fields (d_authority (minted terminal_human terminal_evidence))))"
      by code_simp+
  qed (use terminal_delivery_valid in \<open>simp add: terminal_delivery_def\<close>)
  show "jget ''mode'' terminal_authority = JStr (mode_str PR_UPDATE)" "jget ''delivery_id'' terminal_authority = JStr sample_id"
    by code_simp+
qed

lemma sample_authorized:
  "authorize ceremony_env (sample_desk herd_document) terminal_args empty_sys
     = (Inr sample_id, \<lparr>disk = sample_file terminal_delivery, world = False\<rparr>)"
proof -
  let ?desk = "sample_desk herd_document"
  obtain lines where gathered: "gather ceremony_env ?desk terminal_args (PInt 50) empty_sys
     = (Inr (terminal_fields, lines, hex64), empty_sys)"
    using sample_gathered by blast
  have human: "terminal_authorization ceremony_env ?desk typed (PInt 50) = human_authorization_json terminal_human" for typed
    by (simp add: terminal_authorization_def terminal_human_def text_digest_def)
  have "assemble_authority ceremony_env ?desk terminal_args (PInt 50) empty_sys = (Inr terminal_authority, empty_sys)"
    by (simp add: assemble_authority_def run_simps gathered terminal_checks terminal_arguments human terminal_authority_def
        Let_def)
  moreover have "mint ceremony_env ?desk terminal_authority (PInt 50) None None empty_sys
      = (Inr sample_id, \<lparr>disk = sample_file terminal_delivery, world = False\<rparr>)"
    by (rule mint_first) (simp_all add: terminal_minted terminal_delivery_valid del: mode_str.simps)
  ultimately show ?thesis by (simp add: authorize_def run_simps)
qed

end
