(* ===== verification/Boundary.thy ===== *)
theory Boundary
  imports Machine
begin

text \<open>
  \<open>pr_delivery/boundary.py\<close>: the status projection, a function of the stored record and
  the time alone, and the three calls of the boundary over one machine.
\<close>

datatype next_kind = NEXT_ADVANCE | NEXT_WAIT_RETRY | NEXT_RESOLVE_BLOCKER | NEXT_REVOKED | NEXT_EXPIRED | NEXT_COMPLETE

fun next_str :: "next_kind \<Rightarrow> str" where
  "next_str NEXT_ADVANCE = ''ADVANCE''"
| "next_str NEXT_WAIT_RETRY = ''WAIT_RETRY''"
| "next_str NEXT_RESOLVE_BLOCKER = ''RESOLVE_BLOCKER''"
| "next_str NEXT_REVOKED = ''REVOKED''"
| "next_str NEXT_EXPIRED = ''EXPIRED''"
| "next_str NEXT_COMPLETE = ''COMPLETE''"

definition POST_COMMIT_REVERIFICATION_NOTE :: str where
  "POST_COMMIT_REVERIFICATION_NOTE =
     ''the reverification command is not re-run after the commit; a''
     @ '' post-commit base advance is accepted only with a recorded''
     @ '' fast-forward, disjointness, candidate identity re-match, and base'' @ '' CI proof''"

definition PR_UPDATE_REVERIFICATION_NOTE :: str where
  "PR_UPDATE_REVERIFICATION_NOTE =
     ''the reverification command is not re-run; the pr_update kind never''
     @ '' refreshes or advances the approved head, so the recorded''
     @ '' verification stays bound to exactly that head''"

text \<open>\<open>dict(observed) if receipt and observed\<close>: an empty dictionary is falsy.\<close>

definition step_observed :: "step_entry \<Rightarrow> (str \<times> json) list option" where
  "step_observed e =
     (case se_receipt e of
        None \<Rightarrow> None
      | Some r \<Rightarrow> (case rc_observed r of Some (kv # kvs) \<Rightarrow> Some (kv # kvs) | _ \<Rightarrow> None))"

definition step_view :: "delivery \<Rightarrow> step \<Rightarrow> (str \<times> json) list" where
  "step_view d s =
     (let e = d_steps d s in
      [(''state'', JStr (step_state_str (se_state e))),
       (''receipt_id'', opt_json (\<lambda>r. JStr (rc_id r)) (se_receipt e)),
       (''receipt_state'', opt_json (\<lambda>r. JStr (receipt_state_str (rc_state r))) (se_receipt e)),
       (''attempts'', JInt (int (length (se_voided e)) + (if se_receipt e = None then 0 else 1))),
       (''observed'', opt_json JObj (step_observed e))])"

definition next_action :: "delivery \<Rightarrow> pynum \<Rightarrow> next_kind \<times> step option" where
  "next_action d now =
     (if d_phase d = COMPLETE then (NEXT_COMPLETE, None)
      else if d_phase d = REVOKED \<or> is_revoked d then (NEXT_REVOKED, None)
      else if d_phase d = BLOCKED then
        (if map_option bk_problem (d_blocker d) = Some PROBLEM_EXPIRED then (NEXT_EXPIRED, None)
         else (NEXT_RESOLVE_BLOCKER, None))
      else if is_expired d now then (NEXT_EXPIRED, None)
      else (case step_for_phase (a_mode (d_authority d)) (d_phase d) of
              None \<Rightarrow> (NEXT_ADVANCE, None)
            | Some s \<Rightarrow>
                if se_state (d_steps d s) = STEP_FAILED_RETRYABLE then (NEXT_WAIT_RETRY, Some s)
                else (NEXT_ADVANCE, Some s)))"

definition authorization_view :: "delivery \<Rightarrow> pynum \<Rightarrow> json" where
  "authorization_view d now =
     (let a = d_authority d;
          problem = (if is_revoked d then Some (PROBLEM_REVOKED, ''revoked'')
                     else if is_expired d now then Some (PROBLEM_EXPIRED, ''expired'') else None) in
      JObj
       [(''valid'', JBool (problem = None)),
        (''problem'', opt_json (\<lambda>p. JStr (fst p)) problem),
        (''detail'', opt_json (\<lambda>p. JStr (snd p)) problem),
        (''human_identity'', JStr (ha_identity (a_human a))),
        (''source'', JStr (ha_source (a_human a))),
        (''authorized_at'', JNum (ha_authorized_at (a_human a))),
        (''expires_at'', JNum (ex_expires_at (a_expiration a))),
        (''revoked'', JBool (is_revoked d)),
        (''allowed_actions'', list_json (\<lambda>s. JStr (step_str s)) (a_allowed_actions a)),
        (''mode'', JStr (mode_str (a_mode a))),
        (''pull_request_number'', opt_json JInt (a_pull_request_number a)),
        (''repository_url'', JStr (rp_url (a_repository a))),
        (''source_branch'', JStr (bp_branch (a_source a))),
        (''target_base_branch'', JStr (bp_branch (a_target_base a))),
        (''candidate_identity_digest_sha256'', JStr (cd_digest (a_candidate a)))])"

definition evidence_views :: "delivery \<Rightarrow> (str \<times> json) list" where
  "evidence_views d =
     (let e = a_evidence (d_authority d); v = ev_verification e in
      [(''engineering'', JObj
          [(''task_id'', JStr (en_task_id (ev_engineering e))),
           (''status'', JStr (en_status (ev_engineering e))),
           (''reviewer_decision'', JStr (rv_decision (ev_review e))),
           (''reviewer_round'', JInt (rv_round (ev_review e)))]),
       (''verification'', JObj
          [(''recorded'', JObj
              [(''command_argv'', list_json JStr (vf_argv v)),
               (''exit_status'', JInt (vf_exit_status v)),
               (''log_sha256'', JStr (vf_log_sha256 v)),
               (''base_oid'', JStr (vf_base_oid v))]),
           (''after_base_refresh'', opt_json JObj (step_observed (d_steps d BASE_REFRESH))),
           (''post_commit_note'', JStr
              (if a_mode (d_authority d) = PR_UPDATE then PR_UPDATE_REVERIFICATION_NOTE
               else POST_COMMIT_REVERIFICATION_NOTE))])])"

definition observed_value :: "delivery \<Rightarrow> step \<Rightarrow> str \<Rightarrow> json" where
  "observed_value d s key =
     (case step_observed (d_steps d s) of None \<Rightarrow> JNull | Some kvs \<Rightarrow> jget key (JObj kvs))"

definition project_status :: "delivery \<Rightarrow> pynum \<Rightarrow> json" where
  "project_status d now =
     (let b = d_base_state d; (action, step) = next_action d now in
      JObj
       ([(''delivery_id'', JStr (record_id d)),
         (''revision'', JInt (a_revision (d_authority d))),
         (''phase'', JStr (phase_str (d_phase d))),
         (''authorization'', authorization_view d now)]
        @ evidence_views d
        @ [(''base_refresh'', JObj
              (step_view d BASE_REFRESH
               @ [(''original_base_oid'', JStr (bl_sha (a_baseline (d_authority d)))),
                  (''current_base_oid'', JStr (bs_current b)),
                  (''refreshed_at'', opt_json JNum (bs_refreshed_at b)),
                  (''advance_after_commit'', opt_json advance_state_json (bs_advance b))])),
           (''commit'', JObj (step_view d COMMIT @ [(''commit_oid'', observed_value d COMMIT ''commit_oid'')])),
           (''push'', JObj (step_view d PUSH @ [(''remote_oid'', observed_value d PUSH ''remote_oid'')])),
           (''pull_request'', opt_json pull_request_json (d_pull_request d)),
           (''pr_url'', opt_json (\<lambda>p. JStr (pq_url p)) (d_pull_request d)),
           (''blocker'', opt_json blocker_json (d_blocker d)),
           (''next_action'', JObj
              [(''action'', JStr (next_str action)), (''step'', opt_json (\<lambda>s. JStr (step_str s)) step)])]))"

section \<open>The three calls\<close>

definition boundary_status :: "'w env \<Rightarrow> str \<Rightarrow> ('w sys, json) act" where
  "boundary_status env i =
     bnd (m_load (e_host env) i) (\<lambda>d. bnd (e_clock env) (\<lambda>now. ret (project_status d now)))"

fun outcome_str :: "outcome \<Rightarrow> str" where
  "outcome_str OUTCOME_ADVANCED = ''advanced''"
| "outcome_str OUTCOME_BLOCKED = ''blocked''"
| "outcome_str OUTCOME_RETRY = ''retry''"
| "outcome_str OUTCOME_REVOKED = ''revoked''"
| "outcome_str OUTCOME_COMPLETE = ''complete''"
| "outcome_str OUTCOME_NO_STEP = ''no_step''"

definition boundary_advance :: "'w env \<Rightarrow> nat \<Rightarrow> str \<Rightarrow> 'w sys \<Rightarrow> ((exn + json) \<times> 'w sys) option" where
  "boundary_advance env n i s =
     (case advance env n i s of
        None \<Rightarrow> None
      | Some (Inl e, t) \<Rightarrow> Some (Inl e, t)
      | Some (Inr r, t) \<Rightarrow> Some
          (bnd (boundary_status env i)
             (\<lambda>status. ret (JObj (AList.update ''outcome'' (JStr (outcome_str r)) (obj_of status)))) t))"

definition boundary_revoke :: "'w env \<Rightarrow> str \<Rightarrow> str \<Rightarrow> str \<Rightarrow> ('w sys, json) act" where
  "boundary_revoke env i who reason = seq (revoke env i who reason) (boundary_status env i)"

section \<open>Lemmas\<close>

text \<open>The projection and the drive agree: what is reported as the next action is what the
  next round does first.\<close>

lemma next_action_drive:
  assumes "next_action d now = (NEXT_ADVANCE, s) \<or> next_action d now = (NEXT_WAIT_RETRY, s)"
  shows "advance_loaded env now \<lparr>working = d, ssys = y\<rparr> = drive_step env s \<lparr>working = d, ssys = y\<rparr>"
  using assms
  by (auto simp: next_action_def advance_loaded_def bnd_def gets_def TERMINAL_PHASES_def
      split: if_splits option.splits)

lemma next_action_kinds:
  "fst (next_action d now) = NEXT_COMPLETE \<longleftrightarrow> d_phase d = COMPLETE"
  "fst (next_action d now) = NEXT_REVOKED \<longleftrightarrow> d_phase d \<noteq> COMPLETE \<and> (d_phase d = REVOKED \<or> is_revoked d)"
  by (auto simp: next_action_def split: option.splits)

end
