(* ===== verification/MissionRecord.thy ===== *)
theory MissionRecord
  imports Canonical Digest Tables Grammar
begin

text \<open>
  \<open>mission/record.py\<close>: the identifiers of a Mission, the validators that every Mission record
  shares, the proposal with its proof contract and their normal form, the lifecycle table, the
  contexts a caller may present and the provenance block that records them. A refusal is a
  \<open>MissionError\<close> with the problem code of the code.
\<close>

abbreviation NOT_AN_OBJECT :: exn where "NOT_AN_OBJECT \<equiv> MissionError ''mission_not_an_object''"
abbreviation UNKNOWN_KEY :: exn where "UNKNOWN_KEY \<equiv> MissionError ''mission_unknown_key''"
abbreviation MISSING_KEY :: exn where "MISSING_KEY \<equiv> MissionError ''mission_missing_key''"
abbreviation BAD_TYPE :: exn where "BAD_TYPE \<equiv> MissionError ''mission_bad_type''"
abbreviation BAD_VALUE :: exn where "BAD_VALUE \<equiv> MissionError ''mission_bad_value''"
abbreviation TOO_LARGE :: exn where "TOO_LARGE \<equiv> MissionError ''mission_too_large''"
abbreviation ID_GRAMMAR :: exn where "ID_GRAMMAR \<equiv> MissionError ''mission_id_grammar''"
abbreviation REPOSITORY_IDENTITY :: exn where
  "REPOSITORY_IDENTITY \<equiv> MissionError ''mission_repository_identity''"
abbreviation ACTION_SCOPE :: exn where "ACTION_SCOPE \<equiv> MissionError ''mission_action_scope''"
abbreviation DELIVERY_TARGET :: exn where "DELIVERY_TARGET \<equiv> MissionError ''mission_delivery_target''"
abbreviation UNKNOWN_STATE :: exn where "UNKNOWN_STATE \<equiv> MissionError ''mission_unknown_state''"
abbreviation INVALID_TRANSITION :: exn where
  "INVALID_TRANSITION \<equiv> MissionError ''mission_invalid_transition''"
abbreviation PROVENANCE :: exn where "PROVENANCE \<equiv> MissionError ''mission_provenance''"
abbreviation UNAUTHENTICATED_PRINCIPAL :: exn where
  "UNAUTHENTICATED_PRINCIPAL \<equiv> MissionError ''mission_unauthenticated_principal''"
abbreviation ATTESTED_APPROVAL :: exn where
  "ATTESTED_APPROVAL \<equiv> MissionError ''mission_attested_approval''"
abbreviation CHANGE_REQUEST_REASON :: exn where
  "CHANGE_REQUEST_REASON \<equiv> MissionError ''mission_change_request_reason''"
abbreviation PROOF_CONTRACT :: exn where "PROOF_CONTRACT \<equiv> MissionError ''mission_proof_contract''"
abbreviation CONTRACT_INCOHERENT :: exn where
  "CONTRACT_INCOHERENT \<equiv> MissionError ''mission_state_contract_incoherent''"

section \<open>Identifiers\<close>

definition MISSION_ID_PREFIX :: str where "MISSION_ID_PREFIX = ''mn''"
definition REQUEST_ID_PREFIX :: str where "REQUEST_ID_PREFIX = ''mq''"
definition DECISION_ID_PREFIX :: str where "DECISION_ID_PREFIX = ''md''"
definition AUTHORIZATION_ID_PREFIX :: str where "AUTHORIZATION_ID_PREFIX = ''ma''"
definition LEDGER_ENTRY_ID_PREFIX :: str where "LEDGER_ENTRY_ID_PREFIX = ''ml''"
definition EVIDENCE_ID_PREFIX :: str where "EVIDENCE_ID_PREFIX = ''mv''"
definition STATE_OPERATION_ID_PREFIX :: str where "STATE_OPERATION_ID_PREFIX = ''mo''"

definition ID_PREFIXES :: "str list" where
  "ID_PREFIXES =
     [MISSION_ID_PREFIX, REQUEST_ID_PREFIX, DECISION_ID_PREFIX, AUTHORIZATION_ID_PREFIX,
      LEDGER_ENTRY_ID_PREFIX, ''mt'', EVIDENCE_ID_PREFIX, ''mf'', ''mb'', ''mc'', ''mk'', ''mx'',
      STATE_OPERATION_ID_PREFIX]"

definition ID_HEX_CHARS :: nat where "ID_HEX_CHARS = 32"

text \<open>\<open>secrets.token_hex\<close> is the argument \<open>token\<close>: so many random bytes in lowercase hexadecimal.\<close>

definition mint_id_m :: "(nat \<Rightarrow> str) \<Rightarrow> str \<Rightarrow> exn + json" where
  "mint_id_m token prefix =
     guard_check (require (prefix \<in> set ID_PREFIXES) ID_GRAMMAR)
       (Inr (JStr (prefix @ ''-'' @ token (ID_HEX_CHARS div 2))))"

text \<open>Only whether there is a reason is kept; the prefixes are ASCII.\<close>

definition id_problem :: "json \<Rightarrow> str \<Rightarrow> bool" where
  "id_problem value prefix \<longleftrightarrow>
     \<not> (is_str value
        \<and> py_len (str_of value) = length prefix + 1 + ID_HEX_CHARS
        \<and> starts_with (str_of value) (prefix @ ''-'')
        \<and> is_hex (drop (length prefix + 1) (str_of value)))"

definition require_id_m :: "json \<Rightarrow> str \<Rightarrow> check" where
  "require_id_m value prefix = require (\<not> id_problem value prefix) ID_GRAMMAR"

section \<open>Generic validators\<close>

definition require_dict_m :: "json \<Rightarrow> check" where
  "require_dict_m value = require (is_obj value) NOT_AN_OBJECT"

definition require_closed_keys_m :: "json \<Rightarrow> str list \<Rightarrow> str list \<Rightarrow> check" where
  "require_closed_keys_m value allowed optional = checks
     [require (list_all (\<lambda>k. k \<in> set allowed \<or> k \<in> set optional) (jkeys value)) UNKNOWN_KEY,
      require (list_all (\<lambda>k. k \<in> set (jkeys value)) allowed) MISSING_KEY]"

definition require_str_m :: "json \<Rightarrow> nat \<Rightarrow> bool \<Rightarrow> check" where
  "require_str_m value max_chars allow_empty = checks
     [require (is_str value) BAD_TYPE,
      require (allow_empty \<or> str_of value \<noteq> []) BAD_VALUE,
      require (py_len (str_of value) \<le> max_chars) TOO_LARGE]"

definition require_optional_str :: "json \<Rightarrow> nat \<Rightarrow> check" where
  "require_optional_str value max_chars =
     (if value = JNull then None else require_str_m value max_chars False)"

definition require_int_m :: "json \<Rightarrow> int option \<Rightarrow> check" where
  "require_int_m value minimum = checks
     [require (is_int value) BAD_TYPE,
      require (case minimum of None \<Rightarrow> True | Some m \<Rightarrow> m \<le> int_of_json value) BAD_VALUE]"

definition require_timestamp_m :: "json \<Rightarrow> check" where
  "require_timestamp_m value = require_int_m value (Some 0)"

definition require_optional_timestamp :: "json \<Rightarrow> check" where
  "require_optional_timestamp value = (if value = JNull then None else require_timestamp_m value)"

definition require_bool_m :: "json \<Rightarrow> check" where
  "require_bool_m value = require (is_bool value) BAD_TYPE"

definition require_hex_m :: "json \<Rightarrow> nat \<Rightarrow> check" where
  "require_hex_m value len = checks
     [require_str_m value len False,
      require (py_len (str_of value) = len \<and> is_hex (str_of value)) BAD_VALUE]"

definition require_member_m :: "json \<Rightarrow> str list \<Rightarrow> exn \<Rightarrow> check" where
  "require_member_m value allowed problem = require (is_str value \<and> str_of value \<in> set allowed) problem"

definition sorted_strs :: "json \<Rightarrow> json" where
  "sorted_strs value = JList (map JStr (sort (map str_of (list_of value))))"

definition require_sorted_subset :: "json \<Rightarrow> str list \<Rightarrow> exn \<Rightarrow> bool \<Rightarrow> exn + json" where
  "require_sorted_subset value allowed problem allow_empty =
     guard_check
       (checks
         [require (is_list value) BAD_TYPE,
          checks (map (\<lambda>item. require_member_m item allowed problem) (list_of value)),
          require (distinct (map str_of (list_of value))) problem,
          require (allow_empty \<or> list_of value \<noteq> []) problem])
       (Inr (sorted_strs value))"

section \<open>The proof contract\<close>

definition MAX_REQUIREMENT_DESCRIPTION_CHARS :: nat where "MAX_REQUIREMENT_DESCRIPTION_CHARS = 2000"
definition MAX_CONTRACT_KEY_CHARS :: nat where "MAX_CONTRACT_KEY_CHARS = 128"
definition MAX_PROOF_REQUIREMENTS :: nat where "MAX_PROOF_REQUIREMENTS = 32"
definition MAX_REQUIRED_ARTIFACTS :: nat where "MAX_REQUIRED_ARTIFACTS = 64"
definition MAX_REQUIRED_DEPENDENCIES :: nat where "MAX_REQUIRED_DEPENDENCIES = 32"
definition MAX_REQUIRED_RESOURCE_READINESS :: nat where "MAX_REQUIRED_RESOURCE_READINESS = 16"
definition MAX_PERMITTED_BLOCKER_KEYS :: nat where "MAX_PERMITTED_BLOCKER_KEYS = 32"
definition MAX_STALENESS_BOUND_SECONDS :: int where "MAX_STALENESS_BOUND_SECONDS = 315360000"
definition MAX_CONTINUATION_ATTEMPTS :: int where "MAX_CONTINUATION_ATTEMPTS = 64"
definition MAX_CONTINUATION_CHECKPOINTS :: int where "MAX_CONTINUATION_CHECKPOINTS = 256"

definition SATISFYING_EVIDENCE_KINDS :: "str list" where
  "SATISFYING_EVIDENCE_KINDS = [''ARTIFACT_DIGEST'', ''EXTERNAL_ATTESTATION'', ''VERIFICATION_RECORD'']"

definition NON_SATISFYING_EVIDENCE_KINDS :: "str list" where
  "NON_SATISFYING_EVIDENCE_KINDS = [''NARRATIVE_CLAIM'', ''PROCESS_EXIT'']"

definition EVIDENCE_KINDS :: "str list" where
  "EVIDENCE_KINDS =
     [''ARTIFACT_DIGEST'', ''EXTERNAL_ATTESTATION'', ''NARRATIVE_CLAIM'', ''PROCESS_EXIT'', ''VERIFICATION_RECORD'']"

definition ARTIFACT_ROLES :: "str list" where
  "ARTIFACT_ROLES = [''ORIGINAL_INPUT'', ''PRODUCED'', ''VERIFICATION'']"

definition DEPENDENCY_KINDS :: "str list" where
  "DEPENDENCY_KINDS = [''MISSION'', ''RESOURCE'']"

definition TARGET_FORMS :: "str list" where
  "TARGET_FORMS = [''ELIGIBILITY'', ''EXACT_MISSION'', ''EXACT_RESOURCE'']"

definition TARGET_FORMS_BY_KIND :: "str \<Rightarrow> str list" where
  "TARGET_FORMS_BY_KIND kind =
     (if kind = ''MISSION'' then [''EXACT_MISSION'', ''ELIGIBILITY''] else [''EXACT_RESOURCE''])"

definition TARGET_KEYS_BY_FORM :: "str \<Rightarrow> str list" where
  "TARGET_KEYS_BY_FORM form =
     (if form = ''EXACT_MISSION'' then [''form'', ''mission_id'', ''revision'', ''proposal_digest_sha256'']
      else if form = ''EXACT_RESOURCE'' then [''form'', ''resource_key'']
      else [''form'', ''condition'', ''proposal_digest_sha256''])"

definition CONTRACT_KEY_ALPHABET :: str where
  "CONTRACT_KEY_ALPHABET = ''abcdefghijklmnopqrstuvwxyz0123456789_.-''"

definition require_contract_key :: "json \<Rightarrow> check" where
  "require_contract_key value = checks
     [require_str_m value MAX_CONTRACT_KEY_CHARS False,
      require (list_all (\<lambda>ch. ch \<in> set CONTRACT_KEY_ALPHABET) (str_of value)) PROOF_CONTRACT]"

definition require_bounded_seconds :: "json \<Rightarrow> check" where
  "require_bounded_seconds value = checks
     [require_int_m value (Some 1),
      require (int_of_json value \<le> MAX_STALENESS_BOUND_SECONDS) TOO_LARGE]"

definition require_list_m :: "json \<Rightarrow> nat \<Rightarrow> check" where
  "require_list_m value max_items = checks
     [require (is_list value) BAD_TYPE,
      require (length (list_of value) \<le> max_items) TOO_LARGE]"

definition require_keyed_entries :: "json \<Rightarrow> nat \<Rightarrow> str \<Rightarrow> (json \<Rightarrow> exn + json) \<Rightarrow> exn + json list" where
  "require_keyed_entries value max_items key_name validator =
     guard_check (require_list_m value max_items)
       (sbind (map_result validator (list_of value))
         (\<lambda>clean. let key = (\<lambda>entry. str_of (jget key_name entry)) in
            guard_check (require (distinct (map key clean)) PROOF_CONTRACT) (Inr (sort_key key clean))))"

definition require_sorted_keys :: "json \<Rightarrow> nat \<Rightarrow> exn + json" where
  "require_sorted_keys value max_items =
     guard_check
       (checks
         [require_list_m value max_items,
          checks (map require_contract_key (list_of value)),
          require (distinct (map str_of (list_of value))) PROOF_CONTRACT])
       (Inr (sorted_strs value))"

definition require_evidence_kind :: "json \<Rightarrow> check" where
  "require_evidence_kind kind = checks
     [require (kind \<in> set (map JStr EVIDENCE_KINDS)) PROOF_CONTRACT,
      require (kind \<in> set (map JStr SATISFYING_EVIDENCE_KINDS)) PROOF_CONTRACT]"

definition validate_requirement :: "json \<Rightarrow> exn + json" where
  "validate_requirement value =
     (let kinds = jget ''evidence_kinds'' value in
      guard_check
        (checks
          [require_dict_m value,
           require_closed_keys_m value
             [''key'', ''description'', ''evidence_kinds'', ''required_artifact_keys'', ''max_evidence_age_seconds''] [],
           require (is_list kinds) BAD_TYPE,
           checks (map require_evidence_kind (list_of kinds)),
           require (distinct (map str_of (list_of kinds))) PROOF_CONTRACT,
           require (list_of kinds \<noteq> []) PROOF_CONTRACT,
           require_contract_key (jget ''key'' value),
           require_str_m (jget ''description'' value) MAX_REQUIREMENT_DESCRIPTION_CHARS False])
        (sbind (require_sorted_keys (jget ''required_artifact_keys'' value) MAX_REQUIRED_ARTIFACTS)
          (\<lambda>artifact_keys.
             guard_check (require_bounded_seconds (jget ''max_evidence_age_seconds'' value))
               (Inr (JObj
                  [(''key'', jget ''key'' value), (''description'', jget ''description'' value),
                   (''evidence_kinds'', sorted_strs kinds), (''required_artifact_keys'', artifact_keys),
                   (''max_evidence_age_seconds'', jget ''max_evidence_age_seconds'' value)])))))"

definition validate_required_artifact :: "json \<Rightarrow> exn + json" where
  "validate_required_artifact value =
     guard_check
       (checks
         [require_dict_m value,
          require_closed_keys_m value [''key'', ''role'', ''expected_content_digest_sha256''] [],
          require_contract_key (jget ''key'' value),
          require_member_m (jget ''role'' value) ARTIFACT_ROLES PROOF_CONTRACT,
          require_hex_m (jget ''expected_content_digest_sha256'' value) 64])
       (Inr (JObj
          [(''key'', jget ''key'' value), (''role'', jget ''role'' value),
           (''expected_content_digest_sha256'', jget ''expected_content_digest_sha256'' value)]))"

definition validate_dependency_target :: "json \<Rightarrow> exn + json" where
  "validate_dependency_target value =
     (let form = jget ''form'' value in
      guard_check
        (checks
          [require_dict_m value,
           require_member_m form TARGET_FORMS PROOF_CONTRACT,
           require_closed_keys_m value (TARGET_KEYS_BY_FORM (str_of form)) []])
        (if str_of form = ''EXACT_MISSION'' then
           guard_check
             (checks
               [require_id_m (jget ''mission_id'' value) MISSION_ID_PREFIX,
                require_int_m (jget ''revision'' value) (Some 1),
                require_hex_m (jget ''proposal_digest_sha256'' value) 64])
             (Inr (JObj
                [(''form'', form), (''mission_id'', jget ''mission_id'' value),
                 (''revision'', jget ''revision'' value),
                 (''proposal_digest_sha256'', jget ''proposal_digest_sha256'' value)]))
         else if str_of form = ''EXACT_RESOURCE'' then
           guard_check (require_contract_key (jget ''resource_key'' value))
             (Inr (JObj [(''form'', form), (''resource_key'', jget ''resource_key'' value)]))
         else
           guard_check
             (checks
               [require_member_m (jget ''condition'' value) [''MISSION_WITH_PROPOSAL_DIGEST''] PROOF_CONTRACT,
                require_hex_m (jget ''proposal_digest_sha256'' value) 64])
             (Inr (JObj
                [(''form'', form), (''condition'', jget ''condition'' value),
                 (''proposal_digest_sha256'', jget ''proposal_digest_sha256'' value)]))))"

definition validate_required_dependency :: "json \<Rightarrow> exn + json" where
  "validate_required_dependency value =
     guard_check
       (checks
         [require_dict_m value,
          require_closed_keys_m value [''key'', ''kind'', ''target''] [],
          require_member_m (jget ''kind'' value) DEPENDENCY_KINDS PROOF_CONTRACT])
       (sbind (validate_dependency_target (jget ''target'' value))
         (\<lambda>target.
            guard_check
              (checks
                [require (str_of (jget ''form'' target) \<in> set (TARGET_FORMS_BY_KIND (str_of (jget ''kind'' value))))
                   PROOF_CONTRACT,
                 require_contract_key (jget ''key'' value)])
              (Inr (JObj [(''key'', jget ''key'' value), (''kind'', jget ''kind'' value), (''target'', target)]))))"

definition validate_required_readiness :: "json \<Rightarrow> exn + json" where
  "validate_required_readiness value =
     guard_check
       (checks
         [require_dict_m value,
          require_closed_keys_m value [''resource_key'', ''max_age_seconds''] [],
          require_contract_key (jget ''resource_key'' value),
          require_bounded_seconds (jget ''max_age_seconds'' value)])
       (Inr (JObj
          [(''resource_key'', jget ''resource_key'' value), (''max_age_seconds'', jget ''max_age_seconds'' value)]))"

definition validate_bounded_count :: "json \<Rightarrow> int \<Rightarrow> int \<Rightarrow> check" where
  "validate_bounded_count value minimum maximum = checks
     [require_int_m value (Some minimum),
      require (int_of_json value \<le> maximum) TOO_LARGE]"

text \<open>Every artifact a requirement names is declared, and every declared one is named.\<close>

definition artifact_coherence :: "json list \<Rightarrow> json list \<Rightarrow> check" where
  "artifact_coherence requirements artifacts =
     (let declared = map (\<lambda>entry. str_of (jget ''key'' entry)) artifacts;
          named = concat (map (\<lambda>r. map str_of (list_of (jget ''required_artifact_keys'' r))) requirements) in
      checks
        [require (list_all (\<lambda>key. key \<in> set declared) named) CONTRACT_INCOHERENT,
         require (list_all (\<lambda>key. key \<in> set named) declared) CONTRACT_INCOHERENT])"

definition validate_proof_contract :: "json \<Rightarrow> exn + json" where
  "validate_proof_contract value =
     (let policy = jget ''degradation_policy'' value; budget = jget ''continuation_budget'' value in
      guard_check
        (checks
          [require_dict_m value,
           require_closed_keys_m value
             [''requirements'', ''required_artifacts'', ''required_dependencies'', ''required_resource_readiness'',
              ''degradation_policy'', ''continuation_budget''] []])
        (sbind (require_keyed_entries (jget ''requirements'' value) MAX_PROOF_REQUIREMENTS ''key'' validate_requirement)
          (\<lambda>requirements. guard_check (require (requirements \<noteq> []) PROOF_CONTRACT)
        (sbind (require_keyed_entries (jget ''required_artifacts'' value) MAX_REQUIRED_ARTIFACTS ''key''
                  validate_required_artifact)
          (\<lambda>artifacts. guard_check (artifact_coherence requirements artifacts)
        (sbind (require_keyed_entries (jget ''required_dependencies'' value) MAX_REQUIRED_DEPENDENCIES ''key''
                  validate_required_dependency)
          (\<lambda>dependencies.
         sbind (require_keyed_entries (jget ''required_resource_readiness'' value) MAX_REQUIRED_RESOURCE_READINESS
                  ''resource_key'' validate_required_readiness)
          (\<lambda>readiness.
             guard_check
               (checks
                 [require_dict_m policy, require_closed_keys_m policy [''permitted_blocker_keys''] [],
                  require_dict_m budget, require_closed_keys_m budget [''max_attempts'', ''max_checkpoints''] []])
               (sbind (require_sorted_keys (jget ''permitted_blocker_keys'' policy) MAX_PERMITTED_BLOCKER_KEYS)
                 (\<lambda>permitted.
                    guard_check
                      (checks
                        [validate_bounded_count (jget ''max_attempts'' budget) 0 MAX_CONTINUATION_ATTEMPTS,
                         validate_bounded_count (jget ''max_checkpoints'' budget) 1 MAX_CONTINUATION_CHECKPOINTS])
                      (Inr (JObj
                         [(''requirements'', JList requirements), (''required_artifacts'', JList artifacts),
                          (''required_dependencies'', JList dependencies),
                          (''required_resource_readiness'', JList readiness),
                          (''degradation_policy'', JObj [(''permitted_blocker_keys'', permitted)]),
                          (''continuation_budget'', JObj
                             [(''max_attempts'', jget ''max_attempts'' budget),
                              (''max_checkpoints'', jget ''max_checkpoints'' budget)])]))))))))))))"

definition proof_contract_digest :: "host \<Rightarrow> json \<Rightarrow> exn + str" where
  "proof_contract_digest h value = sbind (validate_proof_contract value) (json_digest h)"

section \<open>The proposal\<close>

definition MAX_OBJECTIVE_CHARS :: nat where "MAX_OBJECTIVE_CHARS = 8000"
definition MAX_TARGET_CONTEXT_CHARS :: nat where "MAX_TARGET_CONTEXT_CHARS = 4000"
definition MAX_SCOPE_TEXT_CHARS :: nat where "MAX_SCOPE_TEXT_CHARS = 4000"

definition ACTION_SCOPES :: "str list" where
  "ACTION_SCOPES = [''engineering_change'', ''repository_read'', ''verification_run'']"

definition DELIVERY_TARGETS :: "str list" where
  "DELIVERY_TARGETS = [''github_pr'']"

definition PROPOSAL_KEYS :: "str list" where
  "PROPOSAL_KEYS =
     [''objective'', ''target_context'', ''repository_url'', ''requested_scope'',
      ''requested_action_scope'', ''requested_delivery_target'']"

definition validate_repository_url_m :: "json \<Rightarrow> check" where
  "validate_repository_url_m value =
     (case value of
        JNull \<Rightarrow> None
      | JStr url \<Rightarrow>
          (case canonicalize_repository_url url of
             Inl _ \<Rightarrow> Some REPOSITORY_IDENTITY
           | Inr target \<Rightarrow> require (ct_canonical_url target = url) REPOSITORY_IDENTITY)
      | _ \<Rightarrow> Some BAD_TYPE)"

definition validate_delivery_target :: "json \<Rightarrow> check" where
  "validate_delivery_target value =
     (if value = JNull then None else require_member_m value DELIVERY_TARGETS DELIVERY_TARGET)"

definition validate_proposal :: "json \<Rightarrow> exn + json" where
  "validate_proposal value =
     guard_check
       (checks
         [require_dict_m value,
          require_closed_keys_m value PROPOSAL_KEYS [''proof_contract''],
          require_str_m (jget ''objective'' value) MAX_OBJECTIVE_CHARS False,
          require_str_m (jget ''target_context'' value) MAX_TARGET_CONTEXT_CHARS True,
          validate_repository_url_m (jget ''repository_url'' value),
          require_str_m (jget ''requested_scope'' value) MAX_SCOPE_TEXT_CHARS False])
       (sbind (require_sorted_subset (jget ''requested_action_scope'' value) ACTION_SCOPES ACTION_SCOPE False)
         (\<lambda>actions.
            guard_check (validate_delivery_target (jget ''requested_delivery_target'' value))
              (let clean =
                 [(''objective'', jget ''objective'' value), (''target_context'', jget ''target_context'' value),
                  (''repository_url'', jget ''repository_url'' value),
                  (''requested_scope'', jget ''requested_scope'' value), (''requested_action_scope'', actions),
                  (''requested_delivery_target'', jget ''requested_delivery_target'' value)] in
               if jget ''proof_contract'' value = JNull then Inr (JObj clean)
               else sbind (validate_proof_contract (jget ''proof_contract'' value))
                 (\<lambda>contract. Inr (JObj (clean @ [(''proof_contract'', contract)]))))))"

definition proposal_digest :: "host \<Rightarrow> json \<Rightarrow> exn + str" where
  "proposal_digest h value = sbind (validate_proposal value) (json_digest h)"

section \<open>The lifecycle\<close>

datatype mission_state =
    STATE_AWAITING_DECISION | STATE_AUTHORIZED | STATE_DENIED | STATE_RUNNING | STATE_BLOCKED | STATE_COMPLETED | STATE_CLOSED | STATE_CANCELLED
  | STATE_REJECTED | STATE_CHANGES_REQUESTED

fun state_str :: "mission_state \<Rightarrow> str" where
  "state_str STATE_AWAITING_DECISION = ''AWAITING_DECISION''"
| "state_str STATE_AUTHORIZED = ''AUTHORIZED''"
| "state_str STATE_DENIED = ''DENIED''"
| "state_str STATE_RUNNING = ''RUNNING''"
| "state_str STATE_BLOCKED = ''BLOCKED''"
| "state_str STATE_COMPLETED = ''COMPLETED''"
| "state_str STATE_CLOSED = ''CLOSED''"
| "state_str STATE_CANCELLED = ''CANCELLED''"
| "state_str STATE_REJECTED = ''REJECTED''"
| "state_str STATE_CHANGES_REQUESTED = ''CHANGES_REQUESTED''"

declare state_str.simps [simp del]

lemma state_str_inject [simp]: "state_str a = state_str b \<longleftrightarrow> a = b"
  by (cases a; cases b) (simp_all add: state_str.simps)

abbreviation JState :: "mission_state \<Rightarrow> json" where
  "JState s \<equiv> JStr (state_str s)"

definition MISSION_STATES :: "mission_state list" where
  "MISSION_STATES =
     [STATE_AWAITING_DECISION, STATE_AUTHORIZED, STATE_DENIED, STATE_RUNNING, STATE_BLOCKED, STATE_COMPLETED, STATE_CLOSED, STATE_CANCELLED,
      STATE_REJECTED, STATE_CHANGES_REQUESTED]"

definition REACHABLE_STATES :: "mission_state list" where
  "REACHABLE_STATES =
     [STATE_AWAITING_DECISION, STATE_AUTHORIZED, STATE_DENIED, STATE_RUNNING, STATE_BLOCKED, STATE_COMPLETED, STATE_CANCELLED, STATE_REJECTED,
      STATE_CHANGES_REQUESTED]"

definition RUN_TRANSITIONS :: "(mission_state \<times> mission_state) list" where
  "RUN_TRANSITIONS =
     [(STATE_AUTHORIZED, STATE_RUNNING), (STATE_AUTHORIZED, STATE_BLOCKED), (STATE_AUTHORIZED, STATE_CANCELLED),
      (STATE_RUNNING, STATE_COMPLETED), (STATE_RUNNING, STATE_BLOCKED), (STATE_RUNNING, STATE_CANCELLED)]"

definition TERMINAL_STATES :: "mission_state list" where
  "TERMINAL_STATES = [STATE_BLOCKED, STATE_COMPLETED, STATE_CANCELLED, STATE_REJECTED]"

fun ALLOWED_TRANSITIONS :: "mission_state \<Rightarrow> mission_state list" where
  "ALLOWED_TRANSITIONS STATE_AWAITING_DECISION = [STATE_AUTHORIZED, STATE_DENIED, STATE_REJECTED, STATE_CHANGES_REQUESTED]"
| "ALLOWED_TRANSITIONS STATE_AUTHORIZED = [STATE_AWAITING_DECISION, STATE_RUNNING, STATE_BLOCKED, STATE_CANCELLED]"
| "ALLOWED_TRANSITIONS STATE_DENIED = [STATE_AWAITING_DECISION]"
| "ALLOWED_TRANSITIONS STATE_RUNNING = [STATE_COMPLETED, STATE_BLOCKED, STATE_CANCELLED]"
| "ALLOWED_TRANSITIONS STATE_BLOCKED = []"
| "ALLOWED_TRANSITIONS STATE_COMPLETED = []"
| "ALLOWED_TRANSITIONS STATE_CLOSED = []"
| "ALLOWED_TRANSITIONS STATE_CANCELLED = []"
| "ALLOWED_TRANSITIONS STATE_REJECTED = []"
| "ALLOWED_TRANSITIONS STATE_CHANGES_REQUESTED = [STATE_AWAITING_DECISION]"

definition state_of :: "json \<Rightarrow> mission_state option" where
  "state_of value = List.find (\<lambda>s. JState s = value) MISSION_STATES"

definition require_state :: "json \<Rightarrow> check" where
  "require_state value = require_member_m value (map state_str MISSION_STATES) UNKNOWN_STATE"

definition validate_transition_m :: "json \<Rightarrow> mission_state \<Rightarrow> check" where
  "validate_transition_m current target =
     (case state_of current of
        None \<Rightarrow> Some UNKNOWN_STATE
      | Some s \<Rightarrow> require (target \<in> set (ALLOWED_TRANSITIONS s)) INVALID_TRANSITION)"

definition VERIFY_CONJUNCTS :: "(str \<times> str) list" where
  "VERIFY_CONJUNCTS =
     [(''result_reported'', ''verify_result_not_reported''),
      (''evidence_complete'', ''verify_evidence_incomplete''),
      (''evidence_valid'', ''verify_evidence_invalid''),
      (''target_identity'', ''verify_target_identity_mismatch''),
      (''target_stopped'', ''verify_target_not_stopped''),
      (''target_succeeded'', ''verify_target_not_succeeded''),
      (''review_approve'', ''verify_review_not_approve''),
      (''result_bound'', ''verify_result_not_bound''),
      (''baseline_unmoved'', ''verify_baseline_moved''),
      (''surface_receipt_present'', ''verify_surface_receipt_missing''),
      (''surface_unchanged'', ''verify_surface_changed''),
      (''delivery_authority_none'', ''verify_delivery_authority_not_none'')]"

definition verification_outcome :: "json \<Rightarrow> bool \<times> str option" where
  "verification_outcome conjunct_holds =
     (case List.find (\<lambda>(name, code). jget name conjunct_holds \<noteq> JBool True) VERIFY_CONJUNCTS of
        None \<Rightarrow> (True, None)
      | Some (name, code) \<Rightarrow> (False, Some code))"

definition RECONCILE_STOP_REASONS :: "str list" where
  "RECONCILE_STOP_REASONS =
     [''reconcile_no_match'', ''reconcile_multiple_matches'', ''reconcile_conflicting_identity'',
      ''reconcile_degraded'', ''reconcile_unproven_association'', ''reconcile_not_observable'',
      ''reconcile_late_child_aborted'']"

definition LATE_RESOLUTION_STOP_REASONS :: "str list" where
  "LATE_RESOLUTION_STOP_REASONS = [''reconcile_degraded'', ''reconcile_not_observable'']"

definition CANCEL_ACHIEVED_STATES :: "str list" where
  "CANCEL_ACHIEVED_STATES =
     [''cancelled_before_intent'', ''cancelled_after_intent_target_unknown'',
      ''cancelled_after_observed_running'', ''cancelled_after_target_terminated'']"

fun RUN_REASONS_BY_TARGET :: "mission_state \<Rightarrow> str list" where
  "RUN_REASONS_BY_TARGET STATE_RUNNING = [''observed_running'', ''observed_after_stop'']"
| "RUN_REASONS_BY_TARGET STATE_COMPLETED = [''verified_completion'']"
| "RUN_REASONS_BY_TARGET STATE_BLOCKED = RECONCILE_STOP_REASONS @ map snd VERIFY_CONJUNCTS"
| "RUN_REASONS_BY_TARGET STATE_CANCELLED = CANCEL_ACHIEVED_STATES"
| "RUN_REASONS_BY_TARGET _ = []"

definition workspace_binding_digest ::
  "host \<Rightarrow> json \<Rightarrow> json \<Rightarrow> json \<Rightarrow> json \<Rightarrow> json \<Rightarrow> json \<Rightarrow> json \<Rightarrow> exn + str" where
  "workspace_binding_digest h mission_id path repository url revision digest baseline =
     json_digest h (JObj
       [(''mission_id'', mission_id), (''path_realpath'', path), (''repository_realpath'', repository),
        (''target_repository_url'', url), (''revision'', revision), (''proposal_digest_sha256'', digest),
        (''baseline_commit_sha'', baseline)])"

section \<open>Contexts\<close>

definition AUTHENTICATED_PRINCIPAL_KINDS :: "str list" where
  "AUTHENTICATED_PRINCIPAL_KINDS = [''configured_connector_credential_ordinal'', ''local_process_user'']"

definition UNAUTHENTICATED_LOCAL_CALLER :: str where
  "UNAUTHENTICATED_LOCAL_CALLER = ''unauthenticated_local_caller''"

definition OPERATOR_ATTESTED :: str where "OPERATOR_ATTESTED = ''operator_attested_relay''"

definition ADAPTER_CONTEXT_PRINCIPAL_KINDS :: "str list" where
  "ADAPTER_CONTEXT_PRINCIPAL_KINDS = AUTHENTICATED_PRINCIPAL_KINDS @ [UNAUTHENTICATED_LOCAL_CALLER]"

definition APPROVE_ONLY_PRINCIPAL_KINDS :: "str list" where
  "APPROVE_ONLY_PRINCIPAL_KINDS = [OPERATOR_ATTESTED]"

definition MAX_TRANSPORT_CHARS :: nat where "MAX_TRANSPORT_CHARS = 64"
definition MAX_PRINCIPAL_REF_CHARS :: nat where "MAX_PRINCIPAL_REF_CHARS = 128"
definition MAX_SUBJECT_CHARS :: nat where "MAX_SUBJECT_CHARS = 256"

definition TRANSPORT_ALPHABET :: str where
  "TRANSPORT_ALPHABET = ''abcdefghijklmnopqrstuvwxyz0123456789_''"

definition CONTEXT_KEYS :: "str list" where
  "CONTEXT_KEYS = [''transport'', ''principal_kind'', ''principal_ref'', ''configured_subject'']"

text \<open>What an adapter hands in: one of the two context classes, whose fields may hold anything
  until they are validated, or an object of another class.\<close>

record context_fields =
  cx_transport :: json
  cx_kind :: json
  cx_ref :: json
  cx_subject :: json

datatype caller_context =
    AuthenticatedContext context_fields
  | OperatorAttestedContext context_fields
  | OtherContext

fun context_of :: "caller_context \<Rightarrow> context_fields" where
  "context_of (AuthenticatedContext c) = c"
| "context_of (OperatorAttestedContext c) = c"
| "context_of OtherContext = \<lparr>cx_transport = JNull, cx_kind = JNull, cx_ref = JNull, cx_subject = JNull\<rparr>"

definition principal_kind :: "caller_context \<Rightarrow> json" where
  "principal_kind ctxt = cx_kind (context_of ctxt)"

definition context_dict :: "caller_context \<Rightarrow> json" where
  "context_dict ctxt =
     (let c = context_of ctxt in
      JObj [(''transport'', cx_transport c), (''principal_kind'', cx_kind c),
            (''principal_ref'', cx_ref c), (''configured_subject'', cx_subject c)])"

definition require_transport :: "json \<Rightarrow> check" where
  "require_transport value = checks
     [require_str_m value MAX_TRANSPORT_CHARS False,
      require (list_all (\<lambda>ch. ch \<in> set TRANSPORT_ALPHABET) (str_of value)) BAD_VALUE]"

definition validate_authenticated :: "context_fields \<Rightarrow> check" where
  "validate_authenticated c = checks
     [require_transport (cx_transport c),
      require_member_m (cx_kind c) ADAPTER_CONTEXT_PRINCIPAL_KINDS PROVENANCE,
      require_str_m (cx_ref c) MAX_PRINCIPAL_REF_CHARS False,
      require_optional_str (cx_subject c) MAX_SUBJECT_CHARS]"

definition validate_attested :: "context_fields \<Rightarrow> check" where
  "validate_attested c = checks
     [require_transport (cx_transport c),
      require (cx_kind c = JStr OPERATOR_ATTESTED) ATTESTED_APPROVAL,
      require_str_m (cx_ref c) MAX_PRINCIPAL_REF_CHARS False,
      require_optional_str (cx_subject c) MAX_SUBJECT_CHARS]"

definition require_operator_attested_context :: "caller_context \<Rightarrow> check" where
  "require_operator_attested_context ctxt =
     (case ctxt of OperatorAttestedContext c \<Rightarrow> validate_attested c | _ \<Rightarrow> Some ATTESTED_APPROVAL)"

definition require_context :: "caller_context \<Rightarrow> check" where
  "require_context ctxt =
     (case ctxt of AuthenticatedContext c \<Rightarrow> validate_authenticated c | _ \<Rightarrow> Some PROVENANCE)"

definition context_from_dict :: "json \<Rightarrow> exn + caller_context" where
  "context_from_dict value =
     guard_check
       (checks [require_dict_m value, require_closed_keys_m value CONTEXT_KEYS []])
       (let c = \<lparr>cx_transport = jget ''transport'' value, cx_kind = jget ''principal_kind'' value,
                 cx_ref = jget ''principal_ref'' value, cx_subject = jget ''configured_subject'' value\<rparr>;
            ctxt = (if cx_kind c = JStr OPERATOR_ATTESTED then OperatorAttestedContext c
                    else AuthenticatedContext c) in
        guard_check
          (case ctxt of OperatorAttestedContext c \<Rightarrow> validate_attested c
           | _ \<Rightarrow> validate_authenticated c)
          (Inr ctxt))"

definition refuse_unauthenticated :: "json \<Rightarrow> check" where
  "refuse_unauthenticated kind =
     require (kind \<in> set (map JStr AUTHENTICATED_PRINCIPAL_KINDS)) UNAUTHENTICATED_PRINCIPAL"

definition require_authenticated_context :: "caller_context \<Rightarrow> check" where
  "require_authenticated_context ctxt = checks
     [require_context ctxt, refuse_unauthenticated (principal_kind ctxt)]"

definition require_decision_kind :: "json \<Rightarrow> bool \<Rightarrow> check" where
  "require_decision_kind kind approve =
     (if kind \<in> set (map JStr AUTHENTICATED_PRINCIPAL_KINDS) then None
      else if kind \<in> set (map JStr APPROVE_ONLY_PRINCIPAL_KINDS) \<and> approve then None
      else if kind \<in> set (map JStr APPROVE_ONLY_PRINCIPAL_KINDS) then Some ATTESTED_APPROVAL
      else refuse_unauthenticated kind)"

definition require_decision_context :: "caller_context \<Rightarrow> bool \<Rightarrow> check" where
  "require_decision_context ctxt approve =
     (case ctxt of
        OperatorAttestedContext c \<Rightarrow>
          checks [require_operator_attested_context ctxt, require approve ATTESTED_APPROVAL]
      | _ \<Rightarrow> require_authenticated_context ctxt)"

definition require_decision_reservation_context :: "caller_context \<Rightarrow> check" where
  "require_decision_reservation_context ctxt =
     (case ctxt of
        OperatorAttestedContext c \<Rightarrow> require_operator_attested_context ctxt
      | _ \<Rightarrow> require_authenticated_context ctxt)"

definition require_any_context :: "caller_context \<Rightarrow> check" where
  "require_any_context ctxt =
     (case ctxt of
        OperatorAttestedContext c \<Rightarrow> require_operator_attested_context ctxt
      | _ \<Rightarrow> require_context ctxt)"

section \<open>Provenance\<close>

definition REFERENCE_KINDS :: "str list" where
  "REFERENCE_KINDS = [''request'', ''decision'', ''state_operation'']"

definition REFERENCE_PREFIXES :: "str \<Rightarrow> str" where
  "REFERENCE_PREFIXES kind =
     (if kind = ''request'' then REQUEST_ID_PREFIX
      else if kind = ''decision'' then DECISION_ID_PREFIX else STATE_OPERATION_ID_PREFIX)"

definition PROOF_BY_PRINCIPAL_KIND :: "str \<Rightarrow> str" where
  "PROOF_BY_PRINCIPAL_KIND kind =
     (if kind \<in> set AUTHENTICATED_PRINCIPAL_KINDS then ''transport_credential_only''
      else if kind = UNAUTHENTICATED_LOCAL_CALLER then ''none_unauthenticated''
      else ''operator_attested_not_independently_verified'')"

definition PROVENANCE_KEYS :: "str list" where
  "PROVENANCE_KEYS =
     CONTEXT_KEYS @ [''received_at'', ''reference_kind'', ''reference_id'', ''mission_id'', ''revision'',
                     ''human_identity_proof'', ''proof'']"

definition provenance_record ::
  "caller_context \<Rightarrow> json \<Rightarrow> str \<Rightarrow> json \<Rightarrow> json \<Rightarrow> json \<Rightarrow> exn + json" where
  "provenance_record ctxt received_at reference_kind reference_id mission_id revision =
     guard_check
       (checks
         [require_any_context ctxt,
          require_timestamp_m received_at,
          require_member_m (JStr reference_kind) REFERENCE_KINDS BAD_VALUE,
          require_id_m reference_id (REFERENCE_PREFIXES reference_kind),
          require_id_m mission_id MISSION_ID_PREFIX,
          require_int_m revision (Some 1)])
       (Inr (JObj (obj_of (context_dict ctxt) @
          [(''received_at'', received_at), (''reference_kind'', JStr reference_kind),
           (''reference_id'', reference_id), (''mission_id'', mission_id), (''revision'', revision),
           (''human_identity_proof'', JNull),
           (''proof'', JStr (PROOF_BY_PRINCIPAL_KIND (str_of (principal_kind ctxt))))])))"

definition provenance_context :: "json \<Rightarrow> exn + caller_context" where
  "provenance_context value = context_from_dict (sub_object CONTEXT_KEYS value)"

definition validate_provenance :: "json \<Rightarrow> check" where
  "validate_provenance value = checks
     [require_dict_m value,
      require_closed_keys_m value PROVENANCE_KEYS [],
      (case provenance_context value of Inl e \<Rightarrow> Some e | Inr _ \<Rightarrow> None),
      require_timestamp_m (jget ''received_at'' value),
      require_member_m (jget ''reference_kind'' value) REFERENCE_KINDS PROVENANCE,
      require_id_m (jget ''reference_id'' value) (REFERENCE_PREFIXES (str_of (jget ''reference_kind'' value))),
      require_id_m (jget ''mission_id'' value) MISSION_ID_PREFIX,
      require_int_m (jget ''revision'' value) (Some 1),
      require (jget ''human_identity_proof'' value = JNull) PROVENANCE,
      require (jget ''proof'' value = JStr (PROOF_BY_PRINCIPAL_KIND (str_of (jget ''principal_kind'' value))))
        PROVENANCE]"

definition require_decision_provenance :: "json \<Rightarrow> bool \<Rightarrow> check" where
  "require_decision_provenance value approve = checks
     [validate_provenance value, require_decision_kind (jget ''principal_kind'' value) approve]"

definition require_authenticated_provenance :: "json \<Rightarrow> check" where
  "require_authenticated_provenance value = checks
     [validate_provenance value, refuse_unauthenticated (jget ''principal_kind'' value)]"

definition MAX_CHANGE_REQUEST_REASON_CHARS :: nat where "MAX_CHANGE_REQUEST_REASON_CHARS = 2000"

definition change_request_reason_problem :: "json \<Rightarrow> bool" where
  "change_request_reason_problem value \<longleftrightarrow>
     \<not> is_str value
     \<or> MAX_CHANGE_REQUEST_REASON_CHARS < py_len (str_of value)
     \<or> strip (str_of value) = []
     \<or> list_ex (\<lambda>ch. ord_of ch < 32 \<and> ch \<notin> {CHR 0x0A, CHR 0x09} \<or> ord_of ch = 127) (str_of value)"

definition require_change_request_reason :: "json \<Rightarrow> check" where
  "require_change_request_reason value =
     require (\<not> change_request_reason_problem value) CHANGE_REQUEST_REASON"

definition withdrawal_key_digest :: "host \<Rightarrow> json \<Rightarrow> exn + str option" where
  "withdrawal_key_digest h key =
     (if \<not> is_str key \<or> str_of key = [] then Inr None
      else sbind (json_digest h (JObj [(''withdrawal_key'', key)])) (\<lambda>d. Inr (Some d)))"

end
