(* ===== verification/Normalization.thy ===== *)
theory Normalization
  imports MissionRecord
begin

text \<open>
  The normal form of a proposal: normalizing twice is normalizing once, so a digest does not
  depend on how often a proposal went through the validator.
\<close>

section \<open>Sorted lists\<close>

lemma checks_None_simps:
  "checks [] = None \<longleftrightarrow> True" "checks (c # cs) = None \<longleftrightarrow> c = None \<and> checks cs = None"
  by (simp_all add: checks_simps)

lemma sort_sort [simp]: "sort (sort (xs :: 'a :: linorder list)) = sort xs"
  by (simp add: sort_key_id_if_sorted)

lemma sort_Nil_iff [simp]: "sort (xs :: 'a :: linorder list) = [] \<longleftrightarrow> xs = []"
  by (metis length_0_conv length_sort)

lemma sorted_strs_simps [simp]:
  "is_list (sorted_strs v)" "list_of (sorted_strs v) = map JStr (sort (map str_of (list_of v)))"
  by (simp_all add: sorted_strs_def)

lemma map_str_of_JStr [simp]: "map str_of (map JStr xs) = xs" "map (str_of \<circ> JStr) xs = xs"
  by (induction xs) simp_all

lemma sorted_strs_idem [simp]: "sorted_strs (sorted_strs v) = sorted_strs v"
  by (simp add: sorted_strs_def)

lemma in_sorted_strs: "x \<in> set (list_of (sorted_strs v)) \<longleftrightarrow> (\<exists>y \<in> set (list_of v). x = JStr (str_of y))"
  by (auto simp: sorted_strs_def)

lemma strings_sorted: "\<forall>x \<in> set (list_of v). is_str x \<Longrightarrow> set (list_of (sorted_strs v)) = set (list_of v)"
  by (force simp: in_sorted_strs is_str_iff)

lemma sorted_subset_Inr:
  "require_sorted_subset v allowed problem allow_empty = Inr c \<longleftrightarrow>
     is_list v \<and> (\<forall>x \<in> set (list_of v). is_str x \<and> str_of x \<in> set allowed)
     \<and> distinct (map str_of (list_of v)) \<and> (allow_empty \<or> list_of v \<noteq> []) \<and> c = sorted_strs v"
  by (auto simp: require_sorted_subset_def guard_check_Inr_iff checks_simps require_member_m_def)

lemma sorted_subset_idem:
  "require_sorted_subset v allowed problem allow_empty = Inr c
   \<Longrightarrow> require_sorted_subset c allowed problem allow_empty = Inr c"
  by (auto simp: sorted_subset_Inr)

lemma contract_key_str: "require_contract_key v = None \<Longrightarrow> is_str v"
  by (simp add: require_contract_key_def require_str_m_def checks_simps)

lemma sorted_keys_Inr:
  "require_sorted_keys v n = Inr c \<longleftrightarrow>
     is_list v \<and> length (list_of v) \<le> n \<and> (\<forall>x \<in> set (list_of v). require_contract_key x = None)
     \<and> distinct (map str_of (list_of v)) \<and> c = sorted_strs v"
  by (auto simp: require_sorted_keys_def require_list_m_def guard_check_Inr_iff checks_simps)

lemma sorted_keys_idem:
  assumes "require_sorted_keys v n = Inr c"
  shows "require_sorted_keys c n = Inr c"
proof -
  have c: "c = sorted_strs v" and keys: "\<forall>x \<in> set (list_of v). require_contract_key x = None"
    using assms by (simp_all add: sorted_keys_Inr)
  then have "set (list_of c) = set (list_of v)"
    using contract_key_str by (simp only: c) (rule strings_sorted, blast)
  with assms keys show ?thesis by (simp add: sorted_keys_Inr c)
qed

section \<open>Keyed entries\<close>

lemma keyed_entries_Inr:
  "require_keyed_entries v n k f = Inr es \<longleftrightarrow>
     is_list v \<and> length (list_of v) \<le> n
     \<and> (\<exists>clean. map_result f (list_of v) = Inr clean
          \<and> distinct (map (\<lambda>e. str_of (jget k e)) clean) \<and> es = sort_key (\<lambda>e. str_of (jget k e)) clean)"
  by (auto simp: require_keyed_entries_def require_list_m_def guard_check_Inr_iff sbind_Inr_iff checks_simps Let_def)

lemma map_result_id: "(\<And>x. x \<in> set xs \<Longrightarrow> f x = Inr x) \<Longrightarrow> map_result f xs = Inr xs"
  by (induction xs) auto

lemma keyed_entries_idem:
  assumes "require_keyed_entries v n k f = Inr es" "\<And>x y. f x = Inr y \<Longrightarrow> f y = Inr y"
  shows "require_keyed_entries (JList es) n k f = Inr es"
proof -
  let ?k = "\<lambda>e. str_of (jget k e)"
  obtain clean where clean: "map_result f (list_of v) = Inr clean" "distinct (map ?k clean)"
      "es = sort_key ?k clean" and len: "length (list_of v) \<le> n"
    using assms(1) by (auto simp: keyed_entries_Inr)
  have "f e = Inr e" if "e \<in> set es" for e
    using that clean(1,3) assms(2) map_result_set [OF clean(1), of e] by auto
  then have "map_result f es = Inr es" by (intro map_result_id)
  moreover have "distinct (map ?k es)"
    using clean(2) by (simp add: clean(3) distinct_map)
  moreover have "sort_key ?k es = es" by (simp add: clean(3) sorted_sort_id sort_key_id_if_sorted)
  moreover have "length es \<le> n" using len map_result_length [OF clean(1)] by (simp add: clean(3))
  ultimately show ?thesis by (simp add: keyed_entries_Inr)
qed

lemma keyed_entries_wf:
  assumes "require_keyed_entries v n k f = Inr es"
  shows "length es \<le> n" "sorted (map (\<lambda>e. str_of (jget k e)) es)" "distinct (map (\<lambda>e. str_of (jget k e)) es)"
    and "\<forall>e \<in> set es. \<exists>x \<in> set (list_of v). f x = Inr e"
proof -
  let ?k = "\<lambda>e. str_of (jget k e)"
  obtain clean where clean: "map_result f (list_of v) = Inr clean" "distinct (map ?k clean)"
      "es = sort_key ?k clean" and len: "length (list_of v) \<le> n"
    using assms(1) by (auto simp: keyed_entries_Inr)
  show "length es \<le> n" using len map_result_length [OF clean(1)] by (simp add: clean(3))
  show "sorted (map ?k es)" by (simp add: clean(3))
  show "distinct (map ?k es)" using clean(2) by (simp add: clean(3) distinct_map)
  show "\<forall>e \<in> set es. \<exists>x \<in> set (list_of v). f x = Inr e"
    using map_result_set [OF clean(1)] by (auto simp: clean(3))
qed

section \<open>The validators of the contract\<close>

lemmas validator_simps =
  guard_check_Inr_iff sbind_Inr_iff checks_simps require_dict_m_def require_closed_keys_m_def

lemma requirement_idem:
  assumes "validate_requirement v = Inr c"
  shows "validate_requirement c = Inr c"
proof -
  obtain artifact_keys where
    kinds: "is_list (jget ''evidence_kinds'' v)"
      "\<forall>k \<in> set (list_of (jget ''evidence_kinds'' v)). require_evidence_kind k = None"
      "distinct (map str_of (list_of (jget ''evidence_kinds'' v)))" "list_of (jget ''evidence_kinds'' v) \<noteq> []"
    and rest: "require_contract_key (jget ''key'' v) = None"
      "require_str_m (jget ''description'' v) MAX_REQUIREMENT_DESCRIPTION_CHARS False = None"
      "require_bounded_seconds (jget ''max_evidence_age_seconds'' v) = None"
    and keys: "require_sorted_keys (jget ''required_artifact_keys'' v) MAX_REQUIRED_ARTIFACTS = Inr artifact_keys"
    and c: "c = JObj
       [(''key'', jget ''key'' v), (''description'', jget ''description'' v),
        (''evidence_kinds'', sorted_strs (jget ''evidence_kinds'' v)), (''required_artifact_keys'', artifact_keys),
        (''max_evidence_age_seconds'', jget ''max_evidence_age_seconds'' v)]"
    using assms by (auto simp: validate_requirement_def Let_def validator_simps)
  have "\<forall>k \<in> set (list_of (jget ''evidence_kinds'' v)). is_str k"
    using kinds(2) by (auto simp: require_evidence_kind_def checks_simps)
  then have "set (list_of (sorted_strs (jget ''evidence_kinds'' v))) = set (list_of (jget ''evidence_kinds'' v))"
    by (rule strings_sorted)
  with kinds have sorted: "\<forall>k \<in> set (list_of (sorted_strs (jget ''evidence_kinds'' v))). require_evidence_kind k = None"
    by blast
  have "distinct (map str_of (list_of (sorted_strs (jget ''evidence_kinds'' v))))"
    "list_of (sorted_strs (jget ''evidence_kinds'' v)) \<noteq> []"
    using kinds by simp_all
  with rest sorted keys [THEN sorted_keys_idem] show ?thesis
    by (simp add: validate_requirement_def Let_def validator_simps c del: sorted_strs_simps(2))
qed

lemma artifact_idem: "validate_required_artifact v = Inr c \<Longrightarrow> validate_required_artifact c = Inr c"
  by (auto simp: validate_required_artifact_def validator_simps)

lemma target_form:
  "validate_dependency_target v = Inr c \<Longrightarrow>
     jget ''form'' v = JStr ''EXACT_MISSION'' \<or> jget ''form'' v = JStr ''EXACT_RESOURCE''
     \<or> jget ''form'' v = JStr ''ELIGIBILITY''"
  by (auto simp: validate_dependency_target_def Let_def guard_check_Inr_iff checks_simps require_member_m_def
      TARGET_FORMS_def is_str_iff)

lemma target_idem:
  assumes "validate_dependency_target v = Inr c"
  shows "validate_dependency_target c = Inr c"
  using target_form [OF assms] assms
proof (elim disjE)
  assume form: "jget ''form'' v = JStr ''EXACT_MISSION''"
  show ?thesis
    using assms unfolding validate_dependency_target_def Let_def form
    by (simp add: validator_simps TARGET_KEYS_BY_FORM_def require_member_m_def TARGET_FORMS_def)
       (elim conjE, hypsubst, simp add: validator_simps TARGET_KEYS_BY_FORM_def require_member_m_def TARGET_FORMS_def)
next
  assume form: "jget ''form'' v = JStr ''EXACT_RESOURCE''"
  show ?thesis
    using assms unfolding validate_dependency_target_def Let_def form
    by (simp add: validator_simps TARGET_KEYS_BY_FORM_def require_member_m_def TARGET_FORMS_def)
       (elim conjE, hypsubst, simp add: validator_simps TARGET_KEYS_BY_FORM_def require_member_m_def TARGET_FORMS_def)
next
  assume form: "jget ''form'' v = JStr ''ELIGIBILITY''"
  show ?thesis
    using assms unfolding validate_dependency_target_def Let_def form
    by (simp add: validator_simps TARGET_KEYS_BY_FORM_def require_member_m_def TARGET_FORMS_def)
       (elim conjE, hypsubst, simp add: validator_simps TARGET_KEYS_BY_FORM_def require_member_m_def TARGET_FORMS_def)
qed

lemma dependency_idem: "validate_required_dependency v = Inr c \<Longrightarrow> validate_required_dependency c = Inr c"
  by (auto simp: validate_required_dependency_def validator_simps dest: target_idem)

lemma readiness_idem: "validate_required_readiness v = Inr c \<Longrightarrow> validate_required_readiness c = Inr c"
  by (auto simp: validate_required_readiness_def validator_simps)

section \<open>The contract and the proposal\<close>

lemma contract_parts:
  assumes "validate_proof_contract v = Inr c"
  obtains requirements artifacts dependencies readiness permitted where
    "require_keyed_entries (jget ''requirements'' v) MAX_PROOF_REQUIREMENTS ''key'' validate_requirement = Inr requirements"
    "requirements \<noteq> []"
    "require_keyed_entries (jget ''required_artifacts'' v) MAX_REQUIRED_ARTIFACTS ''key''
       validate_required_artifact = Inr artifacts"
    "artifact_coherence requirements artifacts = None"
    "require_keyed_entries (jget ''required_dependencies'' v) MAX_REQUIRED_DEPENDENCIES ''key''
       validate_required_dependency = Inr dependencies"
    "require_keyed_entries (jget ''required_resource_readiness'' v) MAX_REQUIRED_RESOURCE_READINESS
       ''resource_key'' validate_required_readiness = Inr readiness"
    "require_sorted_keys (jget ''permitted_blocker_keys'' (jget ''degradation_policy'' v))
       MAX_PERMITTED_BLOCKER_KEYS = Inr permitted"
    "validate_bounded_count (jget ''max_attempts'' (jget ''continuation_budget'' v)) 0 MAX_CONTINUATION_ATTEMPTS = None"
    "validate_bounded_count (jget ''max_checkpoints'' (jget ''continuation_budget'' v)) 1
       MAX_CONTINUATION_CHECKPOINTS = None"
    "c = JObj
       [(''requirements'', JList requirements), (''required_artifacts'', JList artifacts),
        (''required_dependencies'', JList dependencies), (''required_resource_readiness'', JList readiness),
        (''degradation_policy'', JObj [(''permitted_blocker_keys'', permitted)]),
        (''continuation_budget'', JObj
           [(''max_attempts'', jget ''max_attempts'' (jget ''continuation_budget'' v)),
            (''max_checkpoints'', jget ''max_checkpoints'' (jget ''continuation_budget'' v))])]"
  using assms unfolding validate_proof_contract_def Let_def guard_check_Inr_iff sbind_Inr_iff require_None_iff
    checks_None_simps sum.inject
  by (elim conjE exE) (rule that, (assumption | erule sym)+)

lemma contract_idem:
  assumes "validate_proof_contract v = Inr c"
  shows "validate_proof_contract c = Inr c"
  using assms
proof (rule contract_parts, goal_cases)
  case (1 requirements artifacts dependencies readiness permitted)
  note idem = keyed_entries_idem [OF 1(1) requirement_idem] keyed_entries_idem [OF 1(3) artifact_idem]
    keyed_entries_idem [OF 1(5) dependency_idem] keyed_entries_idem [OF 1(6) readiness_idem]
    sorted_keys_idem [OF 1(7)]
  show ?thesis
    using 1(2,4,8,9) idem by (simp add: validate_proof_contract_def Let_def validator_simps 1(10))
qed

lemma proposal_parts:
  assumes "validate_proposal v = Inr c"
  obtains actions more where
    "require_str_m (jget ''objective'' v) MAX_OBJECTIVE_CHARS False = None"
    "require_str_m (jget ''target_context'' v) MAX_TARGET_CONTEXT_CHARS True = None"
    "validate_repository_url_m (jget ''repository_url'' v) = None"
    "require_str_m (jget ''requested_scope'' v) MAX_SCOPE_TEXT_CHARS False = None"
    "require_sorted_subset (jget ''requested_action_scope'' v) ACTION_SCOPES ACTION_SCOPE False = Inr actions"
    "validate_delivery_target (jget ''requested_delivery_target'' v) = None"
    "c = JObj ([(''objective'', jget ''objective'' v), (''target_context'', jget ''target_context'' v),
                (''repository_url'', jget ''repository_url'' v),
                (''requested_scope'', jget ''requested_scope'' v), (''requested_action_scope'', actions),
                (''requested_delivery_target'', jget ''requested_delivery_target'' v)] @ more)"
    "more = [] \<and> jget ''proof_contract'' v = JNull
     \<or> (\<exists>contract. jget ''proof_contract'' v \<noteq> JNull \<and> validate_proof_contract (jget ''proof_contract'' v) = Inr contract
          \<and> more = [(''proof_contract'', contract)])"
proof -
  obtain actions where 1:
    "require_str_m (jget ''objective'' v) MAX_OBJECTIVE_CHARS False = None"
    "require_str_m (jget ''target_context'' v) MAX_TARGET_CONTEXT_CHARS True = None"
    "validate_repository_url_m (jget ''repository_url'' v) = None"
    "require_str_m (jget ''requested_scope'' v) MAX_SCOPE_TEXT_CHARS False = None"
    "require_sorted_subset (jget ''requested_action_scope'' v) ACTION_SCOPES ACTION_SCOPE False = Inr actions"
    "validate_delivery_target (jget ''requested_delivery_target'' v) = None"
    using assms unfolding validate_proposal_def guard_check_Inr_iff sbind_Inr_iff checks_simps by auto
  have more: "validate_proposal v =
     (let clean = [(''objective'', jget ''objective'' v), (''target_context'', jget ''target_context'' v),
                   (''repository_url'', jget ''repository_url'' v),
                   (''requested_scope'', jget ''requested_scope'' v), (''requested_action_scope'', actions),
                   (''requested_delivery_target'', jget ''requested_delivery_target'' v)] in
      if jget ''proof_contract'' v = JNull then Inr (JObj clean)
      else sbind (validate_proof_contract (jget ''proof_contract'' v))
             (\<lambda>contract. Inr (JObj (clean @ [(''proof_contract'', contract)]))))"
    using assms 1(5,6) unfolding validate_proposal_def guard_check_Inr_iff by simp
  show thesis
  proof (cases "jget ''proof_contract'' v = JNull")
    case True
    with assms more that [OF 1, of "[]"] show ?thesis by simp
  next
    case False
    with assms more obtain contract where "validate_proof_contract (jget ''proof_contract'' v) = Inr contract"
      by (auto simp: Let_def sbind_Inr_iff)
    with False assms more that [OF 1, of "[(''proof_contract'', contract)]"] show ?thesis
      by (simp add: Let_def)
  qed
qed

lemma contract_obj: "validate_proof_contract v = Inr c \<Longrightarrow> c \<noteq> JNull"
  by (erule contract_parts) simp

lemma proposal_idem:
  assumes "validate_proposal v = Inr c"
  shows "validate_proposal c = Inr c"
  using assms
proof (rule proposal_parts, goal_cases)
  case (1 actions more)
  note idem = sorted_subset_idem [OF 1(5)]
  from 1(8) show ?thesis
  proof (elim disjE exE conjE)
    assume "more = []"
    with 1(1-6) idem show ?thesis
      by (simp add: validate_proposal_def validator_simps 1(7) PROPOSAL_KEYS_def)
  next
    fix contract
    assume c: "validate_proof_contract (jget ''proof_contract'' v) = Inr contract" "more = [(''proof_contract'', contract)]"
    from c(2) 1(1-6) idem contract_obj [OF c(1)] contract_idem [OF c(1)] show ?thesis
      by (simp add: validate_proposal_def validator_simps 1(7) PROPOSAL_KEYS_def)
  qed
qed

lemma proposal_contract:
  assumes "validate_proposal v = Inr c" "jget ''proof_contract'' c \<noteq> JNull"
  shows "validate_proof_contract (jget ''proof_contract'' c) = Inr (jget ''proof_contract'' c)"
  using assms(1)
proof (rule proposal_parts, goal_cases)
  case (1 actions more)
  with assms(2) obtain contract where "validate_proof_contract (jget ''proof_contract'' v) = Inr contract"
    "more = [(''proof_contract'', contract)]"
    by auto
  then show ?case using contract_idem [of "jget ''proof_contract'' v" contract] 1(7) by simp
qed

lemma proposal_digest_idem:
  "validate_proposal v = Inr c \<Longrightarrow> proposal_digest h c = json_digest h c \<and> proposal_digest h v = json_digest h c"
  by (simp add: proposal_digest_def proposal_idem)

lemma proposal_scope:
  assumes "validate_proposal v = Inr c"
  shows "is_list (jget ''requested_action_scope'' c)"
    "\<forall>x \<in> set (list_of (jget ''requested_action_scope'' c)). is_str x"
    "jget ''requested_delivery_target'' c = JNull \<or> jget ''requested_delivery_target'' c = JStr ''github_pr''"
  using proposal_idem [OF assms]
  by (auto elim!: proposal_parts simp: sorted_subset_Inr validate_delivery_target_def require_member_m_def
      DELIVERY_TARGETS_def is_str_iff split: if_splits)

text \<open>A contract cannot make a narrative or an exit status count as proof.\<close>

lemma requirement_kinds:
  "validate_requirement v = Inr c \<Longrightarrow> k \<in> set (list_of (jget ''evidence_kinds'' c))
   \<Longrightarrow> k \<in> set (map JStr SATISFYING_EVIDENCE_KINDS)"
  using requirement_idem [of v c]
  by (auto simp: validate_requirement_def Let_def validator_simps require_evidence_kind_def)

end
