(* ===== verification/MissionDecision.thy ===== *)
theory MissionDecision
  imports Normalization
begin

text \<open>
  \<open>mission/decision.py\<close>: the envelope from which a decision is applied, the digest of its
  content, and the durable record of an applied decision.
\<close>

abbreviation DECISION :: exn where "DECISION \<equiv> MissionError ''mission_decision''"

definition DECISIONS :: "str list" where "DECISIONS = [''APPROVE'', ''EDIT'', ''DENY'']"

definition RECORDED_DECISIONS :: "str list" where
  "RECORDED_DECISIONS = DECISIONS @ [''REJECT'', ''REQUEST_CHANGES'']"

definition ATTESTED_OUTCOME_DECISIONS :: "str list" where
  "ATTESTED_OUTCOME_DECISIONS = [''DENY'', ''REJECT'', ''REQUEST_CHANGES'']"

definition ATTESTED_RECORD_DECISIONS :: "str list" where
  "ATTESTED_RECORD_DECISIONS = ''APPROVE'' # ATTESTED_OUTCOME_DECISIONS"

definition DECISION_KEYS :: "str list" where
  "DECISION_KEYS =
     [''decision_id'', ''mission_id'', ''revision'', ''decision'', ''approved_action_scope'',
      ''approved_delivery_targets'', ''expires_at'', ''proposal_digest_sha256'', ''provenance'',
      ''received_at'', ''decided_at'', ''decision_digest_sha256'', ''outcome'']"

definition OUTCOME_KEYS :: "str list" where
  "OUTCOME_KEYS =
     [''resulting_state'', ''resulting_revision'', ''proposal_digest_sha256'', ''authorization_id'',
      ''invalidated_authorization_ids'']"

section \<open>The envelope\<close>

record envelope =
  en_context :: caller_context
  en_decision_id :: json
  en_mission_id :: json
  en_revision :: json
  en_decision :: json
  en_received_at :: json
  en_actions :: json
  en_targets :: json
  en_proposal :: json
  en_expires_at :: json
  en_expected_digest :: json

definition is_approve :: "envelope \<Rightarrow> bool" where
  "is_approve e \<longleftrightarrow> en_decision e = JStr ''APPROVE''"

definition approve_only :: "caller_context \<Rightarrow> bool" where
  "approve_only ctxt \<longleftrightarrow> principal_kind ctxt \<in> set (map JStr APPROVE_ONLY_PRINCIPAL_KINDS)"

definition result_check :: "exn + 'a \<Rightarrow> check" where
  "result_check r = (case r of Inl e \<Rightarrow> Some e | Inr _ \<Rightarrow> None)"

definition validate_envelope :: "envelope \<Rightarrow> check" where
  "validate_envelope e = checks
     [require_decision_context (en_context e) (is_approve e),
      (if en_expected_digest e = JNull then None else require_hex_m (en_expected_digest e) 64),
      require (\<not> (approve_only (en_context e) \<and> (en_expected_digest e = JNull \<or> en_expires_at e = JNull)))
        ATTESTED_APPROVAL,
      require_id_m (en_decision_id e) DECISION_ID_PREFIX,
      require_id_m (en_mission_id e) MISSION_ID_PREFIX,
      require_int_m (en_revision e) (Some 1),
      require_member_m (en_decision e) DECISIONS DECISION,
      require_timestamp_m (en_received_at e),
      (if is_approve e then checks
         [result_check (require_sorted_subset (en_actions e) ACTION_SCOPES ACTION_SCOPE False),
          result_check (require_sorted_subset (en_targets e) DELIVERY_TARGETS DELIVERY_TARGET True),
          require (en_proposal e = JNull) DECISION,
          require_optional_timestamp (en_expires_at e)]
       else checks
         [require (en_actions e = JNull) DECISION,
          require (en_targets e = JNull) DECISION,
          require (en_expires_at e = JNull) DECISION,
          (if en_decision e = JStr ''EDIT'' then result_check (validate_proposal (en_proposal e))
           else require (en_proposal e = JNull) DECISION)])]"

definition normalized_scope :: "envelope \<Rightarrow> json \<times> json" where
  "normalized_scope e =
     (if is_approve e then (sorted_strs (en_actions e), sorted_strs (en_targets e)) else (JNull, JNull))"

definition digest_json :: "exn + str \<Rightarrow> exn + json" where
  "digest_json r = sbind r (\<lambda>d. Inr (JStr d))"

definition replacement_digest :: "host \<Rightarrow> envelope \<Rightarrow> exn + json" where
  "replacement_digest h e =
     (if en_decision e = JStr ''EDIT'' then digest_json (proposal_digest h (en_proposal e)) else Inr JNull)"

definition decision_digest ::
  "host \<Rightarrow> json \<Rightarrow> json \<Rightarrow> json \<Rightarrow> json \<Rightarrow> json \<Rightarrow> json \<Rightarrow> json \<Rightarrow> json \<Rightarrow> exn + str" where
  "decision_digest h mission_id revision decision actions targets expires_at proposal_digest_sha256 reason =
     json_digest h (JObj
       ([(''mission_id'', mission_id), (''revision'', revision), (''decision'', decision),
         (''approved_action_scope'', actions), (''approved_delivery_targets'', targets),
         (''expires_at'', expires_at), (''proposal_digest_sha256'', proposal_digest_sha256)]
        @ (if reason = JNull then [] else [(''reason'', reason)])))"

definition envelope_digest :: "host \<Rightarrow> envelope \<Rightarrow> exn + str" where
  "envelope_digest h e =
     sbind (replacement_digest h e)
       (\<lambda>replacement. decision_digest h (en_mission_id e) (en_revision e) (en_decision e)
          (fst (normalized_scope e)) (snd (normalized_scope e)) (en_expires_at e) replacement JNull)"

section \<open>The record\<close>

definition validate_scope_of_record :: "json \<Rightarrow> check" where
  "validate_scope_of_record value =
     (let actions = jget ''approved_action_scope'' value; targets = jget ''approved_delivery_targets'' value;
          replacement = jget ''proposal_digest_sha256'' value; expires_at = jget ''expires_at'' value in
      if jget ''decision'' value = JStr ''APPROVE'' then checks
        [require_optional_timestamp expires_at,
         result_check (require_sorted_subset actions ACTION_SCOPES ACTION_SCOPE False),
         require (sorted_strs actions = actions) ACTION_SCOPE,
         result_check (require_sorted_subset targets DELIVERY_TARGETS DELIVERY_TARGET True),
         require (sorted_strs targets = targets) DELIVERY_TARGET,
         require (replacement = JNull) DECISION]
      else checks
        [require (actions = JNull \<and> targets = JNull \<and> expires_at = JNull) DECISION,
         (if jget ''decision'' value = JStr ''EDIT'' then require_hex_m replacement 64
          else require (replacement = JNull) DECISION)])"

definition validate_outcome :: "json \<Rightarrow> check" where
  "validate_outcome outcome = checks
     [require_dict_m outcome,
      require_closed_keys_m outcome OUTCOME_KEYS [],
      require_state (jget ''resulting_state'' outcome),
      require_int_m (jget ''resulting_revision'' outcome) (Some 1),
      require_hex_m (jget ''proposal_digest_sha256'' outcome) 64,
      (if jget ''authorization_id'' outcome = JNull then None
       else require_id_m (jget ''authorization_id'' outcome) AUTHORIZATION_ID_PREFIX),
      require (is_list (jget ''invalidated_authorization_ids'' outcome)) BAD_TYPE,
      checks (map (\<lambda>item. require_id_m item AUTHORIZATION_ID_PREFIX)
        (list_of (jget ''invalidated_authorization_ids'' outcome)))]"

definition require_decision_digest :: "host \<Rightarrow> json \<Rightarrow> check" where
  "require_decision_digest h value =
     (case decision_digest h (jget ''mission_id'' value) (jget ''revision'' value) (jget ''decision'' value)
             (jget ''approved_action_scope'' value) (jget ''approved_delivery_targets'' value)
             (jget ''expires_at'' value) (jget ''proposal_digest_sha256'' value) (jget ''reason'' value) of
        Inl e \<Rightarrow> Some e
      | Inr expected \<Rightarrow> checks
          [require_hex_m (jget ''decision_digest_sha256'' value) 64,
           require (jget ''decision_digest_sha256'' value = JStr expected) DECISION])"

definition validate_decision_record :: "host \<Rightarrow> json \<Rightarrow> check" where
  "validate_decision_record h value =
     (let decision = jget ''decision'' value; provenance = jget ''provenance'' value in
      checks
        [require_dict_m value,
         require_closed_keys_m value DECISION_KEYS [''reason''],
         require_id_m (jget ''decision_id'' value) DECISION_ID_PREFIX,
         require_id_m (jget ''mission_id'' value) MISSION_ID_PREFIX,
         require_int_m (jget ''revision'' value) (Some 1),
         require_member_m decision RECORDED_DECISIONS DECISION,
         (if decision = JStr ''REQUEST_CHANGES'' then require_change_request_reason (jget ''reason'' value)
          else require (\<not> jhas ''reason'' value) UNKNOWN_KEY),
         validate_scope_of_record value,
         require_decision_provenance provenance (decision \<in> set (map JStr ATTESTED_RECORD_DECISIONS)),
         require (jget ''reference_kind'' provenance = JStr ''decision'') PROVENANCE,
         require (jget ''reference_id'' provenance = jget ''decision_id'' value
                  \<and> jget ''mission_id'' provenance = jget ''mission_id'' value
                  \<and> jget ''revision'' provenance = jget ''revision'' value) PROVENANCE,
         require_timestamp_m (jget ''received_at'' value),
         require_timestamp_m (jget ''decided_at'' value),
         require (jget ''received_at'' provenance = jget ''received_at'' value) PROVENANCE,
         require_decision_digest h value,
         validate_outcome (jget ''outcome'' value)])"

definition new_decision_record :: "host \<Rightarrow> envelope \<Rightarrow> json \<Rightarrow> json \<Rightarrow> exn + json" where
  "new_decision_record h e decided_at outcome =
     guard_check (checks [validate_envelope e, require_timestamp_m decided_at])
       (sbind (provenance_record (en_context e) (en_received_at e) ''decision'' (en_decision_id e)
                 (en_mission_id e) (en_revision e))
         (\<lambda>provenance. sbind (replacement_digest h e)
         (\<lambda>replacement. sbind (envelope_digest h e)
         (\<lambda>digest.
            let document = JObj
              [(''decision_id'', en_decision_id e), (''mission_id'', en_mission_id e),
               (''revision'', en_revision e), (''decision'', en_decision e),
               (''approved_action_scope'', fst (normalized_scope e)),
               (''approved_delivery_targets'', snd (normalized_scope e)),
               (''expires_at'', en_expires_at e), (''proposal_digest_sha256'', replacement),
               (''provenance'', provenance), (''received_at'', en_received_at e),
               (''decided_at'', decided_at), (''decision_digest_sha256'', JStr digest),
               (''outcome'', outcome)] in
            guard_check (validate_decision_record h document) (Inr document)))))"

definition new_attested_outcome_record ::
  "host \<Rightarrow> caller_context \<Rightarrow> json \<Rightarrow> json \<Rightarrow> json \<Rightarrow> str \<Rightarrow> json \<Rightarrow> json \<Rightarrow> json \<Rightarrow> json \<Rightarrow> exn + json" where
  "new_attested_outcome_record h ctxt decision_id mission_id revision decision received_at decided_at outcome reason =
     guard_check
       (checks
         [require_operator_attested_context ctxt,
          require_member_m (JStr decision) ATTESTED_OUTCOME_DECISIONS DECISION])
       (sbind (provenance_record ctxt received_at ''decision'' decision_id mission_id revision)
         (\<lambda>provenance.
            sbind (decision_digest h mission_id revision (JStr decision) JNull JNull JNull JNull reason)
         (\<lambda>digest.
            let document = JObj
              ([(''decision_id'', decision_id), (''mission_id'', mission_id),
                (''revision'', revision), (''decision'', JStr decision),
                (''approved_action_scope'', JNull), (''approved_delivery_targets'', JNull),
                (''expires_at'', JNull), (''proposal_digest_sha256'', JNull),
                (''provenance'', provenance), (''received_at'', received_at),
                (''decided_at'', decided_at), (''decision_digest_sha256'', JStr digest),
                (''outcome'', outcome)]
               @ (if decision = ''REQUEST_CHANGES'' then [(''reason'', reason)] else [])) in
            guard_check (validate_decision_record h document) (Inr document))))"

end
