(* ===== verification/MissionManifest.thy ===== *)
theory MissionManifest
  imports MissionDecision
begin

text \<open>
  \<open>mission/manifest.py\<close>: the Mission record, its constructors and its validator, which judges
  the revisions, the decisions, the withdrawal marker and the run with its lifecycle chain.
\<close>

abbreviation REVISIONS_FULL :: exn where "REVISIONS_FULL \<equiv> MissionError ''mission_revisions_full''"
abbreviation DECISIONS_FULL :: exn where "DECISIONS_FULL \<equiv> MissionError ''mission_decisions_full''"
abbreviation MALFORMED_STATE :: exn where "MALFORMED_STATE \<equiv> MissionError ''mission_malformed_state''"

definition SCHEMA_VERSION_m :: int where "SCHEMA_VERSION_m = 1"
definition MAX_MISSION_REVISIONS :: nat where "MAX_MISSION_REVISIONS = 64"
definition MAX_MISSION_DECISIONS :: nat where "MAX_MISSION_DECISIONS = 256"
definition MAX_LIFECYCLE_EVENTS :: nat where "MAX_LIFECYCLE_EVENTS = 2"
definition MAX_RUN_TASK_ID_CHARS :: nat where "MAX_RUN_TASK_ID_CHARS = 128"
definition MAX_RUN_PAUSES :: nat where "MAX_RUN_PAUSES = 16"
definition MAX_RUN_PATH_CHARS :: nat where "MAX_RUN_PATH_CHARS = 4096"
definition MAX_WORKSPACE_PROBLEM_CHARS :: nat where "MAX_WORKSPACE_PROBLEM_CHARS = 128"
definition MAX_WORKSPACE_DETAIL_CHARS :: nat where "MAX_WORKSPACE_DETAIL_CHARS = 2000"
definition MAX_VERIFICATION_ATTEMPTS :: int where "MAX_VERIFICATION_ATTEMPTS = 16"
definition MAX_RECONCILE_ATTEMPTS :: int where "MAX_RECONCILE_ATTEMPTS = 16"
definition MAX_PENDING_PROOF_BLOCKERS :: nat where "MAX_PENDING_PROOF_BLOCKERS = 16"
definition MAX_BLOCKER_DETAIL_CHARS :: nat where "MAX_BLOCKER_DETAIL_CHARS = 2000"
definition MAX_OBSERVED_STATUS_CHARS :: nat where "MAX_OBSERVED_STATUS_CHARS = 64"
definition WITHDRAWAL_KEY_VALIDITY_SECONDS :: int where "WITHDRAWAL_KEY_VALIDITY_SECONDS = 604800"

definition MISSION_KEYS :: "str list" where
  "MISSION_KEYS =
     [''schema_version'', ''mission_id'', ''request_id'', ''created_at'', ''updated_at'', ''state'',
      ''current_revision'', ''revisions'', ''decisions'', ''authorization_ids'']"

definition MISSION_OPTIONAL_KEYS :: "str list" where
  "MISSION_OPTIONAL_KEYS =
     [''withdrawal'', ''withdrawal_key_digest_sha256'', ''withdrawal_key_expires_at'', ''run'', ''lifecycle'']"

definition REVISION_KEYS :: "str list" where
  "REVISION_KEYS = [''revision'', ''proposal'', ''proposal_digest_sha256'', ''created_at'', ''provenance'']"

definition RUN_STATES :: "mission_state list" where
  "RUN_STATES = [STATE_RUNNING, STATE_BLOCKED, STATE_COMPLETED, STATE_CANCELLED]"

definition RUN_RECLAIMABLE_STATES :: "mission_state list" where
  "RUN_RECLAIMABLE_STATES = [STATE_BLOCKED, STATE_COMPLETED, STATE_CANCELLED]"

abbreviation jint :: "str \<Rightarrow> json \<Rightarrow> int" where
  "jint k v \<equiv> int_of_json (jget k v)"

abbreviation jlist :: "str \<Rightarrow> json \<Rightarrow> json list" where
  "jlist k v \<equiv> list_of (jget k v)"

definition in_states :: "json \<Rightarrow> mission_state list \<Rightarrow> bool" where
  "in_states v states \<longleftrightarrow> list_ex (\<lambda>s. v = JState s) states"

lemma in_states_JState [simp]: "in_states (JState s) states \<longleftrightarrow> s \<in> set states"
  by (auto simp: in_states_def list_ex_iff)

section \<open>The constructors\<close>

definition new_revision_entry :: "host \<Rightarrow> json \<Rightarrow> json \<Rightarrow> json \<Rightarrow> json \<Rightarrow> exn + json" where
  "new_revision_entry h revision proposal created_at provenance =
     sbind (validate_proposal proposal)
       (\<lambda>clean. sbind (proposal_digest h clean)
       (\<lambda>digest. Inr (JObj
          [(''revision'', revision), (''proposal'', clean), (''proposal_digest_sha256'', JStr digest),
           (''created_at'', created_at), (''provenance'', provenance)])))"

definition current_revision_entry :: "json \<Rightarrow> json" where
  "current_revision_entry mission = last (jlist ''revisions'' mission)"

definition revision_entry :: "json \<Rightarrow> json \<Rightarrow> json option" where
  "revision_entry mission revision =
     (let revisions = jlist ''revisions'' mission; n = int_of_json revision in
      if \<not> is_int revision then None
      else if 1 \<le> n \<and> n \<le> int (length revisions) \<and> py_eq (jget ''revision'' (revisions ! nat (n - 1))) revision
      then Some (revisions ! nat (n - 1)) else None)"

definition append_revision ::
  "host \<Rightarrow> json \<Rightarrow> json \<Rightarrow> json \<Rightarrow> json \<Rightarrow> caller_context \<Rightarrow> json \<Rightarrow> exn + json \<times> json" where
  "append_revision h mission proposal created_at decision_id ctxt received_at =
     guard_check (require (length (jlist ''revisions'' mission) < MAX_MISSION_REVISIONS) REVISIONS_FULL)
       (let revision = JInt (jint ''current_revision'' mission + 1) in
        sbind (provenance_record ctxt received_at ''decision'' decision_id (jget ''mission_id'' mission) revision)
          (\<lambda>provenance. sbind (new_revision_entry h revision proposal created_at provenance)
          (\<lambda>entry. Inr
             (jput ''updated_at'' created_at (jput ''current_revision'' revision
                (jput ''revisions'' (JList (jlist ''revisions'' mission @ [entry])) mission)), entry))))"

definition new_withdrawal :: "json \<Rightarrow> caller_context \<Rightarrow> json \<Rightarrow> exn + json" where
  "new_withdrawal mission ctxt withdrawn_at =
     sbind (provenance_record ctxt withdrawn_at ''request'' (jget ''request_id'' mission)
              (jget ''mission_id'' mission) (JInt 1))
       (\<lambda>provenance. Inr (JObj
          [(''withdrawn_at'', withdrawn_at), (''revision'', JInt 1),
           (''proposal_digest_sha256'', jget ''proposal_digest_sha256'' (hd (jlist ''revisions'' mission))),
           (''provenance'', provenance)]))"

definition append_decision :: "json \<Rightarrow> json \<Rightarrow> exn + json" where
  "append_decision mission decision_record =
     guard_check (require (length (jlist ''decisions'' mission) < MAX_MISSION_DECISIONS) DECISIONS_FULL)
       (Inr (jput ''decisions'' (JList (jlist ''decisions'' mission @ [decision_record])) mission))"

definition new_run_block :: json where
  "new_run_block = JObj
     [(''intent'', JNull), (''receipt'', JNull), (''pauses'', JList []), (''cancel'', JNull),
      (''verification'', JNull), (''pending_proof'', JNull)]"

definition run_is_paused :: "json \<Rightarrow> bool" where
  "run_is_paused run \<longleftrightarrow>
     jlist ''pauses'' run \<noteq> [] \<and> jget ''resumed_at'' (last (jlist ''pauses'' run)) = JNull"

definition map_list :: "str \<Rightarrow> (json \<Rightarrow> json) \<Rightarrow> json \<Rightarrow> json" where
  "map_list k f v = jput k (JList (map f (jlist k v))) v"

definition reclaimed_run :: "json \<Rightarrow> json \<Rightarrow> json \<Rightarrow> json" where
  "reclaimed_run run recorded_at outcome =
     (let r1 = (if jhas ''workspace_refusal'' run
                then jput ''workspace_refusal'' (jput ''detail'' JNull (jget ''workspace_refusal'' run)) run else run);
          r2 = (if jget ''pending_proof'' r1 = JNull then r1
                else jput ''pending_proof'' (map_list ''blockers'' (jput ''detail'' JNull) (jget ''pending_proof'' r1)) r1) in
      jput ''reclaimed'' (JObj [(''reclaimed_at'', recorded_at), (''outcome'', outcome)]) r2)"

section \<open>The revisions and the decisions\<close>

definition validate_revision :: "host \<Rightarrow> json \<Rightarrow> nat \<Rightarrow> json \<Rightarrow> check" where
  "validate_revision h value index entry =
     (let provenance = jget ''provenance'' entry in
      checks
        [require_dict_m entry,
         require_closed_keys_m entry REVISION_KEYS [],
         require (py_eq (jget ''revision'' entry) (JInt (int index + 1)) \<and> \<not> is_bool (jget ''revision'' entry)) BAD_VALUE,
         (case validate_proposal (jget ''proposal'' entry) of
            Inl e \<Rightarrow> Some e
          | Inr clean \<Rightarrow> checks
              [require (py_eq clean (jget ''proposal'' entry)) BAD_VALUE,
               require_hex_m (jget ''proposal_digest_sha256'' entry) 64,
               (case proposal_digest h clean of
                  Inl e \<Rightarrow> Some e
                | Inr digest \<Rightarrow> require (jget ''proposal_digest_sha256'' entry = JStr digest) BAD_VALUE)]),
         require_timestamp_m (jget ''created_at'' entry),
         (if index = 0 then validate_provenance provenance else require_authenticated_provenance provenance),
         require (jget ''mission_id'' provenance = jget ''mission_id'' value
                  \<and> jget ''revision'' provenance = JInt (int index + 1)) PROVENANCE,
         require (jget ''reference_kind'' provenance = JStr (if index = 0 then ''request'' else ''decision'')) PROVENANCE,
         require (index = 0 \<longrightarrow> jget ''reference_id'' provenance = jget ''request_id'' value) PROVENANCE])"

fun validate_revisions :: "host \<Rightarrow> json \<Rightarrow> nat \<Rightarrow> json list \<Rightarrow> check" where
  "validate_revisions h value index [] = None"
| "validate_revisions h value index (entry # rest) = checks
     [validate_revision h value index entry, validate_revisions h value (Suc index) rest]"

definition validate_decision_of :: "host \<Rightarrow> json \<Rightarrow> json list \<Rightarrow> json \<Rightarrow> check" where
  "validate_decision_of h value seen entry =
     (let current = jint ''current_revision'' value; outcome = jget ''outcome'' entry;
          produced = jint ''resulting_revision'' outcome in
      checks
        [validate_decision_record h entry,
         require (jget ''mission_id'' entry = jget ''mission_id'' value) BAD_VALUE,
         require (jint ''revision'' entry \<le> current) BAD_VALUE,
         require (produced \<le> current) BAD_VALUE,
         require (jget ''proposal_digest_sha256'' (jlist ''revisions'' value ! nat (produced - 1))
                  = jget ''proposal_digest_sha256'' outcome) BAD_VALUE,
         require (jget ''decision_id'' entry \<notin> set seen) BAD_VALUE])"

fun validate_decisions :: "host \<Rightarrow> json \<Rightarrow> json list \<Rightarrow> json list \<Rightarrow> check" where
  "validate_decisions h value seen [] = None"
| "validate_decisions h value seen (entry # rest) = checks
     [validate_decision_of h value seen entry,
      validate_decisions h value (seen @ [jget ''decision_id'' entry]) rest]"

section \<open>The withdrawal marker\<close>

definition first_revision :: "json \<Rightarrow> json" where
  "first_revision value = hd (jlist ''revisions'' value)"

definition proposer_kind :: "json \<Rightarrow> json" where
  "proposer_kind value = jget ''principal_kind'' (jget ''provenance'' (first_revision value))"

definition undecided :: "json \<Rightarrow> bool" where
  "undecided value \<longleftrightarrow>
     jget ''state'' value = JState STATE_AWAITING_DECISION \<and> jget ''current_revision'' value = JInt 1
     \<and> jlist ''decisions'' value = [] \<and> jlist ''authorization_ids'' value = []"

definition validate_withdrawal :: "json \<Rightarrow> check" where
  "validate_withdrawal value =
     (let withdrawal = jget ''withdrawal'' value; first = first_revision value;
          withdrawn = jint ''withdrawn_at'' withdrawal; provenance = jget ''provenance'' withdrawal in
      checks
        [require_dict_m withdrawal,
         require_closed_keys_m withdrawal [''withdrawn_at'', ''revision'', ''proposal_digest_sha256'', ''provenance''] [],
         require_timestamp_m (jget ''withdrawn_at'' withdrawal),
         require (undecided value) BAD_VALUE,
         require (proposer_kind value = JStr UNAUTHENTICATED_LOCAL_CALLER) PROVENANCE,
         require (py_eq (jget ''revision'' withdrawal) (JInt 1)
                  \<and> jget ''proposal_digest_sha256'' withdrawal = jget ''proposal_digest_sha256'' first) BAD_VALUE,
         require (jint ''created_at'' value \<le> withdrawn \<and> jint ''updated_at'' value = withdrawn) BAD_VALUE,
         require (withdrawn < jint ''withdrawal_key_expires_at'' value) BAD_VALUE,
         validate_provenance provenance,
         require (provenance_context provenance = provenance_context (jget ''provenance'' first)
                  \<and> jget ''reference_kind'' provenance = JStr ''request''
                  \<and> jget ''reference_id'' provenance = jget ''request_id'' value
                  \<and> jget ''mission_id'' provenance = jget ''mission_id'' value
                  \<and> jint ''revision'' provenance = 1
                  \<and> jint ''received_at'' provenance = withdrawn) PROVENANCE])"

section \<open>The run\<close>

fun validate_events :: "json \<Rightarrow> int \<Rightarrow> json list \<Rightarrow> exn + json \<times> int" where
  "validate_events previous_state previous_at [] = Inr (previous_state, previous_at)"
| "validate_events previous_state previous_at (event # rest) =
     (let source = jget ''from_state'' event; target = jget ''to_state'' event in
      guard_check
        (checks
          [require_dict_m event,
           require_closed_keys_m event [''from_state'', ''to_state'', ''reason'', ''recorded_at''] [],
           require_state source,
           require_state target,
           require (source = previous_state
                    \<and> list_ex (\<lambda>(a, b). source = JState a \<and> target = JState b) RUN_TRANSITIONS) INVALID_TRANSITION,
           require_member_m (jget ''reason'' event)
             (case state_of target of None \<Rightarrow> [] | Some s \<Rightarrow> RUN_REASONS_BY_TARGET s) BAD_VALUE,
           require_timestamp_m (jget ''recorded_at'' event),
           require (previous_at \<le> jint ''recorded_at'' event) BAD_VALUE])
        (validate_events target (jint ''recorded_at'' event) rest))"

definition validate_lifecycle :: "json \<Rightarrow> json \<Rightarrow> check" where
  "validate_lifecycle value events = checks
     [require (is_list events \<and> list_of events \<noteq> [] \<and> length (list_of events) \<le> MAX_LIFECYCLE_EVENTS) BAD_VALUE,
      (case validate_events (JState STATE_AUTHORIZED) (jint ''created_at'' value) (list_of events) of
         Inl e \<Rightarrow> Some e
       | Inr (previous_state, previous_at) \<Rightarrow>
           require (previous_state = jget ''state'' value \<and> previous_at \<le> jint ''updated_at'' value) BAD_VALUE)]"

definition require_absolute :: "json \<Rightarrow> check" where
  "require_absolute value = checks
     [require_str_m value MAX_RUN_PATH_CHARS False, require (starts_with (str_of value) ''/'') BAD_VALUE]"

definition validate_intent :: "json \<Rightarrow> json \<Rightarrow> check" where
  "validate_intent value intent =
     (let entry = current_revision_entry value; url = jget ''repository_url'' (jget ''proposal'' entry);
          actions = jget ''approved_action_scope'' intent; targets = jget ''approved_delivery_targets'' intent in
      checks
        [require_dict_m intent,
         require_closed_keys_m intent
           [''recorded_at'', ''authorization_id'', ''revision'', ''proposal_digest_sha256'',
            ''target_repository_url'', ''workspace_realpath'', ''observed_baseline_commit_sha'',
            ''request_digest_sha256'', ''handoff_digest_sha256'', ''surface_baseline_digest_sha256'',
            ''approved_action_scope'', ''approved_delivery_targets''] [],
         require_timestamp_m (jget ''recorded_at'' intent),
         require_id_m (jget ''authorization_id'' intent) AUTHORIZATION_ID_PREFIX,
         require (jget ''authorization_id'' intent \<in> set (jlist ''authorization_ids'' value)) BAD_VALUE,
         require (py_eq (jget ''revision'' intent) (jget ''current_revision'' value)) BAD_VALUE,
         require (jget ''proposal_digest_sha256'' intent = jget ''proposal_digest_sha256'' entry) BAD_VALUE,
         require (url \<noteq> JNull \<and> jget ''target_repository_url'' intent = url) REPOSITORY_IDENTITY,
         require_absolute (jget ''workspace_realpath'' intent),
         require_hex_m (jget ''observed_baseline_commit_sha'' intent) 40,
         require_hex_m (jget ''request_digest_sha256'' intent) 64,
         require_hex_m (jget ''handoff_digest_sha256'' intent) 64,
         require_hex_m (jget ''surface_baseline_digest_sha256'' intent) 64,
         result_check (require_sorted_subset actions ACTION_SCOPES ACTION_SCOPE False),
         require (sorted_strs actions = actions \<and> JStr ''engineering_change'' \<in> set (list_of actions)) ACTION_SCOPE,
         result_check (require_sorted_subset targets DELIVERY_TARGETS DELIVERY_TARGET True),
         require (sorted_strs targets = targets) DELIVERY_TARGET,
         require (list_all (\<lambda>d. jint ''decided_at'' d \<le> jint ''recorded_at'' intent) (jlist ''decisions'' value)) BAD_VALUE])"

definition workspace_binding :: "host \<Rightarrow> json \<Rightarrow> json \<Rightarrow> json \<Rightarrow> json \<Rightarrow> exn + json" where
  "workspace_binding h value path repository baseline =
     (let entry = current_revision_entry value; url = jget ''repository_url'' (jget ''proposal'' entry);
          revision = jget ''revision'' entry; digest = jget ''proposal_digest_sha256'' entry in
      guard_check
        (checks
          [require_absolute path, require_absolute repository,
           require (url \<noteq> JNull) REPOSITORY_IDENTITY, require_hex_m baseline 40])
        (sbind (workspace_binding_digest h (jget ''mission_id'' value) path repository url revision digest baseline)
          (\<lambda>binding_digest. Inr (JObj
             [(''path_realpath'', path), (''repository_realpath'', repository), (''target_repository_url'', url),
              (''revision'', revision), (''proposal_digest_sha256'', digest), (''baseline_commit_sha'', baseline),
              (''binding_digest_sha256'', JStr binding_digest)]))))"

definition validate_workspace :: "host \<Rightarrow> json \<Rightarrow> json \<Rightarrow> json \<Rightarrow> check" where
  "validate_workspace h value binding intent =
     (let prepared = jget ''prepared_at'' binding; state = jget ''state'' binding in
      checks
        [require_dict_m binding,
         require_closed_keys_m binding
           [''path_realpath'', ''repository_realpath'', ''target_repository_url'', ''revision'',
            ''proposal_digest_sha256'', ''baseline_commit_sha'', ''binding_digest_sha256'', ''state'',
            ''recorded_at'', ''prepared_at''] [],
         require_member_m state [''preparing'', ''prepared''] BAD_VALUE,
         require_timestamp_m (jget ''recorded_at'' binding),
         require_optional_timestamp prepared,
         (case workspace_binding h value (jget ''path_realpath'' binding) (jget ''repository_realpath'' binding)
                 (jget ''baseline_commit_sha'' binding) of
            Inl e \<Rightarrow> Some e
          | Inr expected \<Rightarrow> require (list_all (\<lambda>(k, x). py_eq (jget k binding) x) (obj_of expected)) BAD_VALUE),
         require ((state = JStr ''prepared'') = (prepared \<noteq> JNull)
                  \<and> (prepared \<noteq> JNull \<longrightarrow> jint ''recorded_at'' binding \<le> int_of_json prepared)) BAD_VALUE,
         require (intent \<noteq> JNull \<longrightarrow>
                    state = JStr ''prepared''
                    \<and> jget ''workspace_realpath'' intent = jget ''path_realpath'' binding
                    \<and> jget ''observed_baseline_commit_sha'' intent = jget ''baseline_commit_sha'' binding
                    \<and> int_of_json prepared \<le> jint ''recorded_at'' intent) BAD_VALUE])"

definition require_detail :: "bool \<Rightarrow> json \<Rightarrow> nat \<Rightarrow> check" where
  "require_detail reclaimed detail max_chars =
     (if reclaimed then require (detail = JNull) BAD_VALUE else require_str_m detail max_chars False)"

definition validate_workspace_refusal :: "json \<Rightarrow> bool \<Rightarrow> check" where
  "validate_workspace_refusal refusal reclaimed = checks
     [require_dict_m refusal,
      require_closed_keys_m refusal [''problem'', ''detail'', ''recorded_at'', ''refusals''] [],
      require_str_m (jget ''problem'' refusal) MAX_WORKSPACE_PROBLEM_CHARS False,
      require_detail reclaimed (jget ''detail'' refusal) MAX_WORKSPACE_DETAIL_CHARS,
      require_timestamp_m (jget ''recorded_at'' refusal),
      require_int_m (jget ''refusals'' refusal) (Some 1)]"

definition validate_receipt_m :: "json \<Rightarrow> json \<Rightarrow> check" where
  "validate_receipt_m receipt intent =
     (let group = jget ''owned_process_group'' receipt in
      checks
        [require_dict_m receipt,
         require_closed_keys_m receipt [''recorded_at'', ''task_id'', ''identity_source'', ''owned_process_group''] [],
         require_timestamp_m (jget ''recorded_at'' receipt),
         require (jint ''recorded_at'' intent \<le> jint ''recorded_at'' receipt) BAD_VALUE,
         (if jget ''task_id'' receipt = JNull then None
          else require_str_m (jget ''task_id'' receipt) MAX_RUN_TASK_ID_CHARS False),
         require_member_m (jget ''identity_source'' receipt) [''start_result'', ''reconciliation''] BAD_VALUE,
         require (group = JNull \<or> (is_int group \<and> 1 < int_of_json group)) BAD_VALUE])"

fun validate_pause_list :: "int \<Rightarrow> json list \<Rightarrow> check" where
  "validate_pause_list previous [] = None"
| "validate_pause_list previous (pause # rest) =
     (let paused = jint ''paused_at'' pause; resumed = jget ''resumed_at'' pause in
      checks
        [require_dict_m pause,
         require_closed_keys_m pause [''paused_at'', ''resumed_at''] [],
         require_timestamp_m (jget ''paused_at'' pause),
         require_optional_timestamp resumed,
         require (previous \<le> paused \<and> (resumed \<noteq> JNull \<longrightarrow> paused \<le> int_of_json resumed)
                  \<and> (resumed = JNull \<longrightarrow> rest = [])) BAD_VALUE,
         validate_pause_list (if resumed = JNull then paused else int_of_json resumed) rest])"

definition validate_pauses :: "json \<Rightarrow> check" where
  "validate_pauses pauses = checks
     [require (is_list pauses \<and> length (list_of pauses) \<le> MAX_RUN_PAUSES) BAD_VALUE,
      validate_pause_list 0 (list_of pauses)]"

definition COMPLETENESS_VALUES :: "json list" where
  "COMPLETENESS_VALUES = [JNull, JStr ''COMPLETE'', JStr ''PARTIAL'']"

fun validate_conjuncts :: "(str \<times> str) list \<Rightarrow> json list \<Rightarrow> check" where
  "validate_conjuncts ((name, code) # names) (conjunct # rest) = checks
     [require_dict_m conjunct,
      require_closed_keys_m conjunct [''name'', ''holds''] [],
      require (jget ''name'' conjunct = JStr name) BAD_VALUE,
      require_bool_m (jget ''holds'' conjunct),
      validate_conjuncts names rest]"
| "validate_conjuncts _ _ = None"

definition conjunct_values :: "json \<Rightarrow> json" where
  "conjunct_values conjuncts =
     JObj (map (\<lambda>c. (str_of (jget ''name'' c), jget ''holds'' c)) (list_of conjuncts))"

definition failed_json :: "str option \<Rightarrow> json" where
  "failed_json failed = (case failed of None \<Rightarrow> JNull | Some code \<Rightarrow> JStr code)"

definition validate_verification_m :: "json \<Rightarrow> check" where
  "validate_verification_m verification =
     (let conjuncts = jget ''conjuncts'' verification;
          failed = snd (verification_outcome (conjunct_values conjuncts));
          verified = jget ''verified'' verification in
      checks
        [require_dict_m verification,
         require_closed_keys_m verification
           [''decided_at'', ''verified'', ''failed_conjunct'', ''conjuncts'', ''raw_global_completeness'',
            ''supports_verification'', ''reported_result_digest_sha256'', ''result_evidence_id'',
            ''observed_task_status''] [],
         require_timestamp_m (jget ''decided_at'' verification),
         require_bool_m verified,
         require (is_list conjuncts \<and> length (list_of conjuncts) = length VERIFY_CONJUNCTS) BAD_VALUE,
         validate_conjuncts VERIFY_CONJUNCTS (list_of conjuncts),
         require (verified = JBool (failed = None) \<and> jget ''failed_conjunct'' verification = failed_json failed) BAD_VALUE,
         require (jget ''raw_global_completeness'' verification \<in> set COMPLETENESS_VALUES) BAD_VALUE,
         (if jget ''supports_verification'' verification = JNull then None
          else require_bool_m (jget ''supports_verification'' verification)),
         (if jget ''reported_result_digest_sha256'' verification = JNull then None
          else require_hex_m (jget ''reported_result_digest_sha256'' verification) 64),
         require_str_m (jget ''observed_task_status'' verification) MAX_OBSERVED_STATUS_CHARS False,
         (if jget ''result_evidence_id'' verification = JNull then require (verified \<noteq> JBool True) BAD_VALUE
          else require_id_m (jget ''result_evidence_id'' verification) EVIDENCE_ID_PREFIX)])"

definition validate_reconcile_unobserved :: "json \<Rightarrow> json \<Rightarrow> bool \<Rightarrow> check" where
  "validate_reconcile_unobserved unobserved intent exhausted = checks
     [require_dict_m unobserved,
      require_closed_keys_m unobserved [''attempts'', ''last_attempted_at''] [],
      require (intent \<noteq> JNull) BAD_VALUE,
      require_int_m (jget ''attempts'' unobserved) (Some 1),
      require (jint ''attempts'' unobserved \<le> MAX_RECONCILE_ATTEMPTS) BAD_VALUE,
      require ((jint ''attempts'' unobserved = MAX_RECONCILE_ATTEMPTS) = exhausted) BAD_VALUE,
      require_timestamp_m (jget ''last_attempted_at'' unobserved),
      require (jint ''recorded_at'' intent \<le> jint ''last_attempted_at'' unobserved) BAD_VALUE]"

definition names_target :: "json \<Rightarrow> bool" where
  "names_target receipt \<longleftrightarrow> receipt \<noteq> JNull \<and> jget ''task_id'' receipt \<noteq> JNull"

definition validate_late_resolution :: "json \<Rightarrow> json \<Rightarrow> json list \<Rightarrow> check" where
  "validate_late_resolution value run events =
     (let resolution = jget ''late_resolution'' run in
      checks
        [require_dict_m resolution,
         require_closed_keys_m resolution [''recorded_at'', ''task_id'', ''observed_task_status''] [],
         require (jget ''state'' value = JState STATE_BLOCKED \<and> length events = 1
                  \<and> jget ''reason'' (hd events) \<in> set (map JStr LATE_RESOLUTION_STOP_REASONS)
                  \<and> \<not> names_target (jget ''receipt'' run)) BAD_VALUE,
         require_timestamp_m (jget ''recorded_at'' resolution),
         require (jint ''recorded_at'' (hd events) \<le> jint ''recorded_at'' resolution
                  \<and> jint ''recorded_at'' resolution \<le> jint ''updated_at'' value) BAD_VALUE,
         require_str_m (jget ''task_id'' resolution) MAX_RUN_TASK_ID_CHARS False,
         require_str_m (jget ''observed_task_status'' resolution) MAX_OBSERVED_STATUS_CHARS False])"

definition validate_blocker_m :: "bool \<Rightarrow> json \<Rightarrow> check" where
  "validate_blocker_m reclaimed blocker = checks
     [require_dict_m blocker,
      require_closed_keys_m blocker [''code'', ''detail''] [],
      require_str_m (jget ''code'' blocker) MAX_CONTRACT_KEY_CHARS False,
      require (starts_with (str_of (jget ''code'' blocker)) ''mission_state_'') BAD_VALUE,
      require_detail reclaimed (jget ''detail'' blocker) MAX_BLOCKER_DETAIL_CHARS]"

definition validate_pending_proof :: "json \<Rightarrow> json \<Rightarrow> bool \<Rightarrow> check" where
  "validate_pending_proof pending receipt reclaimed =
     (let blockers = jget ''blockers'' pending in
      checks
        [require_dict_m pending,
         require_closed_keys_m pending
           [''decided_at'', ''attempts'', ''target_task_id'', ''observed_task_status'', ''raw_global_completeness'',
            ''supports_verification'', ''result_evidence_id'', ''blockers''] [],
         require_timestamp_m (jget ''decided_at'' pending),
         require_int_m (jget ''attempts'' pending) (Some 1),
         require (jint ''attempts'' pending \<le> MAX_VERIFICATION_ATTEMPTS) BAD_VALUE,
         require (receipt \<noteq> JNull \<and> jget ''target_task_id'' pending = jget ''task_id'' receipt) BAD_VALUE,
         require_str_m (jget ''observed_task_status'' pending) MAX_OBSERVED_STATUS_CHARS False,
         require (jget ''raw_global_completeness'' pending \<in> set COMPLETENESS_VALUES) BAD_VALUE,
         (if jget ''supports_verification'' pending = JNull then None
          else require_bool_m (jget ''supports_verification'' pending)),
         require_id_m (jget ''result_evidence_id'' pending) EVIDENCE_ID_PREFIX,
         require (is_list blockers \<and> list_of blockers \<noteq> []
                  \<and> length (list_of blockers) \<le> MAX_PENDING_PROOF_BLOCKERS) BAD_VALUE,
         checks (map (validate_blocker_m reclaimed) (list_of blockers))])"

definition CANCEL_CONTROLS :: "str list" where
  "CANCEL_CONTROLS =
     [''not_applicable'', ''owned_group_reaped'', ''owned_group_already_gone'', ''unavailable_no_owned_group'',
      ''refused_ownership_unverified'', ''failed_group_still_alive'', ''interrupted_not_resignalled'']"

definition CANCEL_QUIESCENCE_BY_ACHIEVED :: "str \<Rightarrow> str list" where
  "CANCEL_QUIESCENCE_BY_ACHIEVED achieved =
     (if achieved = ''cancelled_before_intent'' then [''nothing_started'']
      else if achieved = ''cancelled_after_target_terminated''
      then [''task_observed_stopped'', ''owned_group_reaped'', ''unproven'']
      else [''owned_group_reaped'', ''unproven''])"

definition validate_cancel_outcome :: "json \<Rightarrow> json \<Rightarrow> check" where
  "validate_cancel_outcome cancel run =
     (let achieved = str_of (jget ''achieved'' cancel); control = jget ''control'' cancel;
          reaped = (control \<in> {JStr ''owned_group_reaped'', JStr ''owned_group_already_gone''});
          receipt = jget ''receipt'' run in
      if jget ''completed_at'' cancel = JNull
      then require (control = JNull \<and> jget ''quiescence'' cancel = JNull) BAD_VALUE
      else checks
        [require_timestamp_m (jget ''completed_at'' cancel),
         require_member_m control CANCEL_CONTROLS BAD_VALUE,
         require_member_m (jget ''quiescence'' cancel) (CANCEL_QUIESCENCE_BY_ACHIEVED achieved) BAD_VALUE,
         require ((jget ''quiescence'' cancel = JStr ''owned_group_reaped'') = reaped
                  \<and> (reaped \<longrightarrow> receipt \<noteq> JNull \<and> jget ''owned_process_group'' receipt \<noteq> JNull)
                  \<and> (achieved = ''cancelled_before_intent'' \<longrightarrow> control = JStr ''not_applicable'')) BAD_VALUE])"

definition validate_cancel :: "json \<Rightarrow> json \<Rightarrow> json list \<Rightarrow> check" where
  "validate_cancel cancel run events =
     (let achieved = jget ''achieved'' cancel; observed = (jget ''to_state'' (hd events) = JState STATE_RUNNING) in
      checks
        [require_dict_m cancel,
         require_closed_keys_m cancel [''requested_at'', ''achieved'', ''control'', ''quiescence'', ''completed_at''] [],
         require_timestamp_m (jget ''requested_at'' cancel),
         require_member_m achieved CANCEL_ACHIEVED_STATES BAD_VALUE,
         require (jget ''reason'' (last events) = achieved) BAD_VALUE,
         require ((achieved = JStr ''cancelled_before_intent'') = (jget ''intent'' run = JNull)
                  \<and> observed = (achieved \<in> {JStr ''cancelled_after_observed_running'',
                                            JStr ''cancelled_after_target_terminated''})) BAD_VALUE,
         validate_cancel_outcome cancel run])"

definition validate_reclaimed :: "json \<Rightarrow> json \<Rightarrow> check" where
  "validate_reclaimed value marker = checks
     [require_dict_m marker,
      require_closed_keys_m marker [''reclaimed_at'', ''outcome''] [],
      require_timestamp_m (jget ''reclaimed_at'' marker),
      require (jget ''outcome'' marker \<in> {JStr ''reclaimed'', JStr ''deleted''}) BAD_VALUE,
      require (in_states (jget ''state'' value) RUN_RECLAIMABLE_STATES) BAD_VALUE]"

definition when_check :: "bool \<Rightarrow> check \<Rightarrow> check" where
  "when_check b c = (if b then c else None)"

definition validate_run :: "host \<Rightarrow> json \<Rightarrow> check" where
  "validate_run h value =
     (let state = jget ''state'' value; run = jget ''run'' value; events = jlist ''lifecycle'' value;
          intent = jget ''intent'' run; receipt = jget ''receipt'' run; verification = jget ''verification'' run;
          pending = jget ''pending_proof'' run; cancel = jget ''cancel'' run;
          reclaimed = jhas ''reclaimed'' run; reasons = map (jget ''reason'') events;
          reached_running = (events \<noteq> [] \<and> jget ''to_state'' (hd events) = JState STATE_RUNNING);
          exhausted = (reasons \<noteq> [] \<and> last reasons = JStr ''reconcile_not_observable'') in
      checks
        [require_dict_m run,
         require_closed_keys_m run
           [''intent'', ''receipt'', ''pauses'', ''cancel'', ''verification'', ''pending_proof'']
           [''reconcile_unobserved'', ''late_resolution'', ''workspace'', ''workspace_refusal'', ''reclaimed''],
         require (\<not> jhas ''withdrawal'' value) BAD_VALUE,
         when_check (jhas ''lifecycle'' value) (validate_lifecycle value (jget ''lifecycle'' value)),
         when_check (intent \<noteq> JNull) (validate_intent value intent),
         when_check (jhas ''workspace'' run) (validate_workspace h value (jget ''workspace'' run) intent),
         when_check reclaimed (validate_reclaimed value (jget ''reclaimed'' run)),
         when_check (jhas ''workspace_refusal'' run)
           (validate_workspace_refusal (jget ''workspace_refusal'' run) reclaimed),
         when_check (receipt \<noteq> JNull)
           (checks [require (intent \<noteq> JNull) BAD_VALUE, validate_receipt_m receipt intent]),
         validate_pauses (jget ''pauses'' run),
         require (reached_running \<longrightarrow> names_target receipt) BAD_VALUE,
         (if verification \<noteq> JNull then checks
            [validate_verification_m verification,
             require (reasons \<noteq> [] \<and> length events = 2
                      \<and> last reasons = (if jget ''verified'' verification = JBool True then JStr ''verified_completion''
                                        else jget ''failed_conjunct'' verification)) BAD_VALUE]
          else require (state \<noteq> JState STATE_COMPLETED
                        \<and> list_all (\<lambda>r. r \<notin> set (map (JStr \<circ> snd) VERIFY_CONJUNCTS)) reasons) BAD_VALUE),
         when_check (pending \<noteq> JNull)
           (checks [require reached_running BAD_VALUE, validate_pending_proof pending receipt reclaimed]),
         require ((cancel \<noteq> JNull) = (state = JState STATE_CANCELLED)) BAD_VALUE,
         when_check (cancel \<noteq> JNull) (validate_cancel cancel run events),
         (if jhas ''reconcile_unobserved'' run
          then validate_reconcile_unobserved (jget ''reconcile_unobserved'' run) intent exhausted
          else require (\<not> exhausted) BAD_VALUE),
         require (reasons \<noteq> [] \<and> last reasons = JStr ''reconcile_late_child_aborted''
                  \<longrightarrow> names_target receipt \<and> jget ''identity_source'' receipt = JStr ''reconciliation'') BAD_VALUE,
         when_check (jhas ''late_resolution'' run) (validate_late_resolution value run events),
         require (\<not> (intent = JNull \<and> in_states state [STATE_RUNNING, STATE_COMPLETED, STATE_BLOCKED])) BAD_VALUE])"

definition validate_run_and_lifecycle :: "host \<Rightarrow> json \<Rightarrow> check" where
  "validate_run_and_lifecycle h value =
     (let state = jget ''state'' value; has_run = jhas ''run'' value; has_lifecycle = jhas ''lifecycle'' value in
      checks
        [(if in_states state RUN_STATES then require (has_run \<and> has_lifecycle) BAD_VALUE
          else require (\<not> (has_lifecycle \<or> (has_run \<and> state \<noteq> JState STATE_AUTHORIZED))) BAD_VALUE),
         when_check has_run (validate_run h value)])"

section \<open>The whole record\<close>

definition validate_withdrawal_key :: "json \<Rightarrow> check" where
  "validate_withdrawal_key value = checks
     [require_hex_m (jget ''withdrawal_key_digest_sha256'' value) 64,
      require_timestamp_m (jget ''withdrawal_key_expires_at'' value),
      require (jint ''withdrawal_key_expires_at'' value \<le> jint ''created_at'' value + WITHDRAWAL_KEY_VALIDITY_SECONDS)
        BAD_VALUE,
      require (proposer_kind value = JStr UNAUTHENTICATED_LOCAL_CALLER) PROVENANCE]"

definition validate_mission_m :: "host \<Rightarrow> json \<Rightarrow> check" where
  "validate_mission_m h value =
     (let revisions = jget ''revisions'' value; decisions = jget ''decisions'' value;
          ids = jget ''authorization_ids'' value; has_key = jhas ''withdrawal_key_digest_sha256'' value in
      checks
        [require_dict_m value,
         require_closed_keys_m value MISSION_KEYS MISSION_OPTIONAL_KEYS,
         require (py_eq (jget ''schema_version'' value) (JInt SCHEMA_VERSION_m)
                  \<and> \<not> is_bool (jget ''schema_version'' value)) BAD_VALUE,
         require_id_m (jget ''mission_id'' value) MISSION_ID_PREFIX,
         require_id_m (jget ''request_id'' value) REQUEST_ID_PREFIX,
         require_timestamp_m (jget ''created_at'' value),
         require_timestamp_m (jget ''updated_at'' value),
         require (jint ''created_at'' value \<le> jint ''updated_at'' value) BAD_VALUE,
         require_state (jget ''state'' value),
         require (in_states (jget ''state'' value) REACHABLE_STATES) UNKNOWN_STATE,
         require_int_m (jget ''current_revision'' value) (Some 1),
         require (is_list revisions \<and> list_of revisions \<noteq> []) BAD_TYPE,
         require (length (list_of revisions) \<le> MAX_MISSION_REVISIONS) REVISIONS_FULL,
         require (int (length (list_of revisions)) = jint ''current_revision'' value) BAD_VALUE,
         validate_revisions h value 0 (list_of revisions),
         require (is_list decisions) BAD_TYPE,
         require (length (list_of decisions) \<le> MAX_MISSION_DECISIONS) DECISIONS_FULL,
         validate_decisions h value [] (list_of decisions),
         require (is_list ids) BAD_TYPE,
         checks (map (\<lambda>item. require_id_m item AUTHORIZATION_ID_PREFIX) (list_of ids)),
         require (distinct (list_of ids)) BAD_VALUE,
         require (has_key = jhas ''withdrawal_key_expires_at'' value) BAD_VALUE,
         when_check has_key (validate_withdrawal_key value),
         when_check (jhas ''withdrawal'' value) (checks [require has_key BAD_VALUE, validate_withdrawal value]),
         validate_run_and_lifecycle h value])"

definition as_malformed :: "check \<Rightarrow> check" where
  "as_malformed c =
     (case c of
        Some (MissionError p) \<Rightarrow>
          if MissionError p = REVISIONS_FULL \<or> MissionError p = DECISIONS_FULL then c else Some MALFORMED_STATE
      | _ \<Rightarrow> c)"

definition validate_mission_record :: "host \<Rightarrow> json \<Rightarrow> check" where
  "validate_mission_record h value = as_malformed (validate_mission_m h value)"

definition new_mission_record ::
  "host \<Rightarrow> json \<Rightarrow> json \<Rightarrow> json \<Rightarrow> json \<Rightarrow> caller_context \<Rightarrow> json \<Rightarrow> json \<Rightarrow> exn + json" where
  "new_mission_record h mission_id request_id proposal created_at ctxt key_digest key_expires_at =
     guard_check
       (checks
         [require_id_m mission_id MISSION_ID_PREFIX,
          require_id_m request_id REQUEST_ID_PREFIX,
          require_timestamp_m created_at])
       (sbind (provenance_record ctxt created_at ''request'' request_id mission_id (JInt 1))
         (\<lambda>provenance. sbind (new_revision_entry h (JInt 1) proposal created_at provenance)
         (\<lambda>entry.
            let document = JObj
              ([(''schema_version'', JInt SCHEMA_VERSION_m), (''mission_id'', mission_id),
                (''request_id'', request_id), (''created_at'', created_at), (''updated_at'', created_at),
                (''state'', JState STATE_AWAITING_DECISION), (''current_revision'', JInt 1),
                (''revisions'', JList [entry]), (''decisions'', JList []), (''authorization_ids'', JList [])]
               @ (if key_digest \<noteq> JNull \<or> key_expires_at \<noteq> JNull
                  then [(''withdrawal_key_digest_sha256'', key_digest), (''withdrawal_key_expires_at'', key_expires_at)]
                  else [])) in
            guard_check (validate_mission_record h document) (Inr document))))"

end
