(* ===== verification/MissionAuthorization.thy ===== *)
theory MissionAuthorization
  imports MissionManifest
begin

text \<open>
  \<open>mission/authorization.py\<close>: the Mission Authorization, the ledger entries, the replay of the
  decision history and the one path that decides whether an authorization permits a use. A
  function of the code that returns a problem with a text returns the problem code here.
\<close>

definition PROBLEM_UNKNOWN_MISSION :: str where "PROBLEM_UNKNOWN_MISSION = ''mission_unknown_mission''"
definition PROBLEM_MALFORMED_STATE :: str where "PROBLEM_MALFORMED_STATE = ''mission_malformed_state''"
definition PROBLEM_UNKNOWN_AUTHORIZATION :: str where
  "PROBLEM_UNKNOWN_AUTHORIZATION = ''mission_unknown_authorization''"
definition PROBLEM_AUTHORIZATION_TAMPERED :: str where
  "PROBLEM_AUTHORIZATION_TAMPERED = ''mission_authorization_digest_mismatch''"
definition PROBLEM_WRONG_MISSION :: str where "PROBLEM_WRONG_MISSION = ''mission_authorization_wrong_mission''"
definition PROBLEM_WRONG_REVISION :: str where "PROBLEM_WRONG_REVISION = ''mission_authorization_wrong_revision''"
definition PROBLEM_WRONG_MANIFEST_DIGEST :: str where
  "PROBLEM_WRONG_MANIFEST_DIGEST = ''mission_authorization_wrong_manifest_digest''"
definition PROBLEM_EXPIRED_m :: str where "PROBLEM_EXPIRED_m = ''mission_authorization_expired''"
definition PROBLEM_REVOKED_m :: str where "PROBLEM_REVOKED_m = ''mission_authorization_revoked''"
definition PROBLEM_DENIED :: str where "PROBLEM_DENIED = ''mission_denied''"
definition PROBLEM_ACTION_OUTSIDE_SCOPE :: str where
  "PROBLEM_ACTION_OUTSIDE_SCOPE = ''mission_action_outside_scope''"
definition PROBLEM_TARGET_OUTSIDE_SCOPE :: str where
  "PROBLEM_TARGET_OUTSIDE_SCOPE = ''mission_delivery_target_outside_scope''"
definition PROBLEM_LEDGER_INCONSISTENT :: str where
  "PROBLEM_LEDGER_INCONSISTENT = ''mission_ledger_inconsistent''"
definition PROBLEM_STORE_UNREADABLE :: str where "PROBLEM_STORE_UNREADABLE = ''mission_store_unreadable''"
definition PROBLEM_NOT_AUTHORIZED :: str where "PROBLEM_NOT_AUTHORIZED = ''mission_not_authorized''"
definition PROBLEM_HISTORY_INCONSISTENT :: str where
  "PROBLEM_HISTORY_INCONSISTENT = ''mission_history_inconsistent''"
definition PROBLEM_DECISION_MISMATCH :: str where
  "PROBLEM_DECISION_MISMATCH = ''mission_authorization_decision_mismatch''"

abbreviation LEDGER :: exn where "LEDGER \<equiv> MissionError ''mission_ledger_entry''"
abbreviation TAMPERED :: exn where "TAMPERED \<equiv> MissionError ''mission_authorization_digest_mismatch''"

section \<open>The authorization\<close>

definition AUTHORITY_KEYS_m :: "str list" where
  "AUTHORITY_KEYS_m =
     [''authorization_id'', ''mission_id'', ''revision'', ''proposal_digest_sha256'', ''human_principal'',
      ''authorized_action_scope'', ''authorized_delivery_targets'', ''issued_at'', ''expires_at'']"

definition AUTHORIZATION_KEYS :: "str list" where
  "AUTHORIZATION_KEYS = AUTHORITY_KEYS_m @ [''revocation'', ''authorization_digest_sha256'']"

definition authorization_digest :: "host \<Rightarrow> json \<Rightarrow> exn + str" where
  "authorization_digest h value = json_digest h (sub_object AUTHORITY_KEYS_m value)"

definition validate_revocation_m :: "json \<Rightarrow> check" where
  "validate_revocation_m revocation = checks
     [require_dict_m revocation,
      require_closed_keys_m revocation [''revoked'', ''revoked_at'', ''reason''] [],
      require_bool_m (jget ''revoked'' revocation),
      (if bool_of (jget ''revoked'' revocation) then checks
         [require_timestamp_m (jget ''revoked_at'' revocation),
          require_member_m (jget ''reason'' revocation) [''superseded_by_edit''] BAD_VALUE]
       else require (jget ''revoked_at'' revocation = JNull \<and> jget ''reason'' revocation = JNull) BAD_VALUE)]"

definition validate_authorization_record :: "host \<Rightarrow> json \<Rightarrow> check" where
  "validate_authorization_record h value =
     (let caller = jget ''human_principal'' value; actions = jget ''authorized_action_scope'' value;
          targets = jget ''authorized_delivery_targets'' value; expires = jget ''expires_at'' value in
      checks
        [require_dict_m value,
         require_closed_keys_m value AUTHORIZATION_KEYS [],
         require_id_m (jget ''authorization_id'' value) AUTHORIZATION_ID_PREFIX,
         require_id_m (jget ''mission_id'' value) MISSION_ID_PREFIX,
         require_int_m (jget ''revision'' value) (Some 1),
         require_hex_m (jget ''proposal_digest_sha256'' value) 64,
         require_decision_provenance caller True,
         require (jget ''reference_kind'' caller = JStr ''decision''
                  \<and> jget ''mission_id'' caller = jget ''mission_id'' value
                  \<and> jget ''revision'' caller = jget ''revision'' value) PROVENANCE,
         result_check (require_sorted_subset actions ACTION_SCOPES ACTION_SCOPE False),
         require (sorted_strs actions = actions) ACTION_SCOPE,
         result_check (require_sorted_subset targets DELIVERY_TARGETS DELIVERY_TARGET True),
         require (sorted_strs targets = targets) DELIVERY_TARGET,
         require_timestamp_m (jget ''issued_at'' value),
         require_optional_timestamp expires,
         require (expires \<noteq> JNull \<longrightarrow> jint ''issued_at'' value < int_of_json expires) BAD_VALUE,
         validate_revocation_m (jget ''revocation'' value),
         require_hex_m (jget ''authorization_digest_sha256'' value) 64,
         (case authorization_digest h value of
            Inl e \<Rightarrow> Some e
          | Inr digest \<Rightarrow> require (jget ''authorization_digest_sha256'' value = JStr digest) TAMPERED)])"

definition issue_mission_authorization ::
  "host \<Rightarrow> json \<Rightarrow> json \<Rightarrow> json \<Rightarrow> json \<Rightarrow> json \<Rightarrow> json \<Rightarrow> json \<Rightarrow> json \<Rightarrow> json \<Rightarrow> exn + json" where
  "issue_mission_authorization h authorization_id mission_id revision digest caller actions targets issued_at expires_at =
     (let fields =
        [(''authorization_id'', authorization_id), (''mission_id'', mission_id), (''revision'', revision),
         (''proposal_digest_sha256'', digest), (''human_principal'', caller),
         (''authorized_action_scope'', actions), (''authorized_delivery_targets'', targets),
         (''issued_at'', issued_at), (''expires_at'', expires_at),
         (''revocation'', JObj [(''revoked'', JBool False), (''revoked_at'', JNull), (''reason'', JNull)])] in
      sbind (authorization_digest h (JObj (fields @ [(''authorization_digest_sha256'', JNull)])))
        (\<lambda>authority_digest.
           let document = JObj (fields @ [(''authorization_digest_sha256'', JStr authority_digest)]) in
           guard_check (validate_authorization_record h document) (Inr document)))"

definition revoke_authorization :: "json \<Rightarrow> json \<Rightarrow> exn + json" where
  "revoke_authorization authorization revoked_at =
     guard_check (require_timestamp_m revoked_at)
       (Inr (jput ''revocation''
          (JObj [(''revoked'', JBool True), (''revoked_at'', revoked_at), (''reason'', JStr ''superseded_by_edit'')])
          authorization))"

section \<open>The ledger\<close>

definition LEDGER_KINDS :: "str list" where
  "LEDGER_KINDS = [''ISSUED'', ''REVOKED'', ''INVALIDATED_BY_EDIT'', ''DENIED'', ''EXPIRED'']"

definition HISTORY_LEDGER_KINDS :: "str list" where
  "HISTORY_LEDGER_KINDS = [''ISSUED'', ''DENIED'', ''INVALIDATED_BY_EDIT'', ''EXPIRED'']"

definition LEDGER_ENTRY_KEYS :: "str list" where
  "LEDGER_ENTRY_KEYS =
     [''entry_id'', ''kind'', ''recorded_at'', ''mission_id'', ''revision'', ''authorization_id'',
      ''decision_id'', ''reason'']"

definition MAX_LEDGER_REASON_CHARS :: nat where "MAX_LEDGER_REASON_CHARS = 256"

definition validate_ledger_entry :: "json \<Rightarrow> check" where
  "validate_ledger_entry value = checks
     [require_dict_m value,
      require_closed_keys_m value LEDGER_ENTRY_KEYS [],
      require_id_m (jget ''entry_id'' value) LEDGER_ENTRY_ID_PREFIX,
      require_member_m (jget ''kind'' value) LEDGER_KINDS LEDGER,
      require_timestamp_m (jget ''recorded_at'' value),
      require_id_m (jget ''mission_id'' value) MISSION_ID_PREFIX,
      require_int_m (jget ''revision'' value) (Some 1),
      (if jget ''kind'' value = JStr ''DENIED'' then require (jget ''authorization_id'' value = JNull) LEDGER
       else require_id_m (jget ''authorization_id'' value) AUTHORIZATION_ID_PREFIX),
      (if jget ''decision_id'' value \<noteq> JNull then require_id_m (jget ''decision_id'' value) DECISION_ID_PREFIX
       else require (jget ''kind'' value \<notin> {JStr ''ISSUED'', JStr ''DENIED'', JStr ''INVALIDATED_BY_EDIT''}) LEDGER),
      require_str_m (jget ''reason'' value) MAX_LEDGER_REASON_CHARS False]"

definition new_ledger_entry ::
  "json \<Rightarrow> str \<Rightarrow> json \<Rightarrow> json \<Rightarrow> json \<Rightarrow> json \<Rightarrow> json \<Rightarrow> str \<Rightarrow> exn + json" where
  "new_ledger_entry entry_id kind recorded_at mission_id revision authorization_id decision_id reason =
     (let entry = JObj
        [(''entry_id'', entry_id), (''kind'', JStr kind), (''recorded_at'', recorded_at),
         (''mission_id'', mission_id), (''revision'', revision), (''authorization_id'', authorization_id),
         (''decision_id'', decision_id), (''reason'', JStr reason)] in
      guard_check (validate_ledger_entry entry) (Inr entry))"

section \<open>The registry\<close>

definition members :: "str \<Rightarrow> json \<Rightarrow> (str \<times> json) list" where
  "members k document = obj_of (jget k document)"

definition mission_decisions :: "json \<Rightarrow> json list" where
  "mission_decisions mission = jlist ''decisions'' mission"

definition applied_count :: "json \<Rightarrow> str \<Rightarrow> nat" where
  "applied_count document operation_id =
     length (filter (\<lambda>op. jget ''operation_id'' op = JStr operation_id)
       (concat (map (\<lambda>(i, state). jlist ''applied_operations'' state) (members ''mission_state'' document))))"

definition reservation_reconciled :: "json \<Rightarrow> str \<times> json \<Rightarrow> bool" where
  "reservation_reconciled document entry =
     (case entry of (reserved_id, reservation) \<Rightarrow>
        let consumed_by = jget ''consumed_by'' reservation; missions = members ''missions'' document in
        if consumed_by = JNull then True
        else if jget ''kind'' reservation = JStr ''request''
        then list_ex (\<lambda>(i, m). jget ''request_id'' m = JStr reserved_id \<and> consumed_by = JStr i) missions
        else if jget ''kind'' reservation = JStr ''state_operation''
        then consumed_by = JStr reserved_id \<and> applied_count document reserved_id = 1
        else consumed_by = JStr reserved_id
             \<and> list_ex (\<lambda>(i, m). list_ex (\<lambda>d. jget ''decision_id'' d = JStr reserved_id) (mission_decisions m)) missions)"

text \<open>Every failing branch of the code reports the same problem.\<close>

definition reconcile_registry :: "json \<Rightarrow> str option" where
  "reconcile_registry document =
     (let missions = map snd (members ''missions'' document) in
      if distinct (map (jget ''request_id'') missions)
         \<and> distinct (concat (map (\<lambda>m. map (jget ''decision_id'') (mission_decisions m)) missions))
         \<and> list_all (reservation_reconciled document) (members ''reservations'' document)
      then None else Some PROBLEM_HISTORY_INCONSISTENT)"

definition reservation_agrees :: "json \<Rightarrow> json \<Rightarrow> str \<Rightarrow> json \<Rightarrow> json \<Rightarrow> bool" where
  "reservation_agrees document reserved_id kind consumed_by provenance =
     (case map_of (members ''reservations'' document) (str_of reserved_id) of
        None \<Rightarrow> False
      | Some reservation \<Rightarrow>
          is_obj reservation \<and> jget ''kind'' reservation = JStr kind
          \<and> jget ''consumed_by'' reservation = consumed_by
          \<and> py_eq (jget ''context'' reservation) (sub_object CONTEXT_KEYS provenance))"

section \<open>The replay of the decision history\<close>

type_synonym ledger_fact = "str \<times> json \<times> json \<times> json \<times> json"

record history =
  hs_state :: mission_state
  hs_revision :: int
  hs_issued :: "str list"
  hs_live :: "(str \<times> int) list"
  hs_revoked_by :: "(str \<times> json) list"
  hs_expired :: "str list"
  hs_ledger :: "ledger_fact list"

definition initial_history :: history where
  "initial_history =
     \<lparr>hs_state = STATE_AWAITING_DECISION, hs_revision = 1, hs_issued = [], hs_live = [], hs_revoked_by = [],
      hs_expired = [], hs_ledger = []\<rparr>"

definition authorization_at :: "json \<Rightarrow> str \<Rightarrow> json" where
  "authorization_at document authorization_id = jget authorization_id (jget ''authorizations'' document)"

definition revision_at :: "json \<Rightarrow> int \<Rightarrow> json" where
  "revision_at mission revision = jlist ''revisions'' mission ! nat (revision - 1)"

definition newly_expired :: "json \<Rightarrow> history \<Rightarrow> json \<Rightarrow> str list" where
  "newly_expired document r decision =
     filter (\<lambda>i. let expires = jget ''expires_at'' (authorization_at document i) in
               expires \<noteq> JNull \<and> int_of_json expires \<le> jint ''decided_at'' decision \<and> i \<notin> set (hs_expired r))
       (sort (map fst (hs_live r)))"

definition note_expired :: "json \<Rightarrow> history \<Rightarrow> json \<Rightarrow> history" where
  "note_expired document r decision =
     (let ids = newly_expired document r decision in
      r\<lparr>hs_expired := hs_expired r @ ids,
        hs_ledger := hs_ledger r @ map (\<lambda>i.
          (''EXPIRED'', JStr i, JNull, jget ''revision'' (authorization_at document i), jget ''decided_at'' decision)) ids\<rparr>)"

definition authorization_agrees :: "json \<Rightarrow> json \<Rightarrow> json \<Rightarrow> json \<Rightarrow> bool" where
  "authorization_agrees authorization decision entry mission_id \<longleftrightarrow>
     jget ''mission_id'' authorization = mission_id
     \<and> jget ''revision'' authorization = jget ''revision'' decision
     \<and> jget ''proposal_digest_sha256'' authorization = jget ''proposal_digest_sha256'' entry
     \<and> jget ''authorized_action_scope'' authorization = jget ''approved_action_scope'' decision
     \<and> jget ''authorized_delivery_targets'' authorization = jget ''approved_delivery_targets'' decision
     \<and> jget ''expires_at'' authorization = jget ''expires_at'' decision
     \<and> py_eq (jget ''human_principal'' authorization) (jget ''provenance'' decision)
     \<and> jget ''issued_at'' authorization = jget ''decided_at'' decision"

definition scope_requested :: "json \<Rightarrow> json \<Rightarrow> bool" where
  "scope_requested decision requested \<longleftrightarrow>
     list_all (\<lambda>a. a \<in> set (jlist ''requested_action_scope'' requested)) (jlist ''approved_action_scope'' decision)
     \<and> list_all (\<lambda>t. t = jget ''requested_delivery_target'' requested \<and> t \<noteq> JNull)
         (jlist ''approved_delivery_targets'' decision)"

definition edit_produced :: "json \<Rightarrow> json \<Rightarrow> int \<Rightarrow> json \<Rightarrow> bool" where
  "edit_produced decision entry revision mission_id \<longleftrightarrow>
     jget ''reference_id'' (jget ''provenance'' entry) = jget ''decision_id'' decision
     \<and> (case sbind (provenance_context (jget ''provenance'' decision))
               (\<lambda>ctxt. provenance_record ctxt (jget ''received_at'' decision) ''decision''
                  (jget ''decision_id'' decision) mission_id (JInt revision)) of
          Inl _ \<Rightarrow> False
        | Inr provenance \<Rightarrow> py_eq (jget ''provenance'' entry) provenance)
     \<and> jget ''proposal_digest_sha256'' entry = jget ''proposal_digest_sha256'' decision
     \<and> jget ''created_at'' entry = jget ''decided_at'' decision"

definition outcome_matches :: "json \<Rightarrow> json \<Rightarrow> mission_state \<Rightarrow> int \<Rightarrow> str list \<Rightarrow> bool" where
  "outcome_matches mission outcome state revision invalidated \<longleftrightarrow>
     jget ''resulting_state'' outcome = JState state
     \<and> jget ''resulting_revision'' outcome = JInt revision
     \<and> sort (map str_of (jlist ''invalidated_authorization_ids'' outcome)) = invalidated
     \<and> jget ''proposal_digest_sha256'' outcome = jget ''proposal_digest_sha256'' (revision_at mission revision)"

definition replay_approve :: "json \<Rightarrow> json \<Rightarrow> history \<Rightarrow> json \<Rightarrow> str + history" where
  "replay_approve document mission r decision =
     (let outcome = jget ''outcome'' decision; i = str_of (jget ''authorization_id'' outcome);
          entry = revision_at mission (hs_revision r) in
      if hs_state r \<noteq> STATE_AWAITING_DECISION
         \<or> jget ''authorization_id'' outcome = JNull \<or> authorization_at document i = JNull
         \<or> i \<in> set (hs_issued r)
         \<or> \<not> scope_requested decision (jget ''proposal'' entry)
      then Inl PROBLEM_HISTORY_INCONSISTENT
      else if \<not> authorization_agrees (authorization_at document i) decision entry (jget ''mission_id'' mission)
      then Inl PROBLEM_DECISION_MISMATCH
      else if \<not> outcome_matches mission outcome STATE_AUTHORIZED (hs_revision r) []
      then Inl PROBLEM_HISTORY_INCONSISTENT
      else Inr (r\<lparr>hs_state := STATE_AUTHORIZED, hs_issued := hs_issued r @ [i],
             hs_live := hs_live r @ [(i, hs_revision r)],
             hs_ledger := hs_ledger r @ [(''ISSUED'', JStr i, jget ''decision_id'' decision,
               JInt (hs_revision r), jget ''decided_at'' decision)]\<rparr>))"

text \<open>A denial, a rejection and a change request end in their state; only a denial has an entry.\<close>

definition replay_refusal ::
  "json \<Rightarrow> history \<Rightarrow> json \<Rightarrow> mission_state \<Rightarrow> ledger_fact list \<Rightarrow> str + history" where
  "replay_refusal mission r decision state facts =
     (if hs_state r \<noteq> STATE_AWAITING_DECISION
         \<or> jget ''authorization_id'' (jget ''outcome'' decision) \<noteq> JNull
         \<or> \<not> outcome_matches mission (jget ''outcome'' decision) state (hs_revision r) []
      then Inl PROBLEM_HISTORY_INCONSISTENT
      else Inr (r\<lparr>hs_state := state, hs_ledger := hs_ledger r @ facts\<rparr>))"

definition replay_edit :: "json \<Rightarrow> history \<Rightarrow> json \<Rightarrow> str + history" where
  "replay_edit mission r decision =
     (let superseded = hs_revision r; revision = superseded + 1;
          invalidated = sort (map fst (filter (\<lambda>(i, n). n = superseded) (hs_live r))) in
      if int (length (jlist ''revisions'' mission)) < revision
         \<or> \<not> edit_produced decision (revision_at mission revision) revision (jget ''mission_id'' mission)
         \<or> jget ''authorization_id'' (jget ''outcome'' decision) \<noteq> JNull
         \<or> \<not> outcome_matches mission (jget ''outcome'' decision) STATE_AWAITING_DECISION revision invalidated
      then Inl PROBLEM_HISTORY_INCONSISTENT
      else Inr (r\<lparr>hs_state := STATE_AWAITING_DECISION, hs_revision := revision,
             hs_live := filter (\<lambda>(i, n). n \<noteq> superseded) (hs_live r),
             hs_revoked_by := hs_revoked_by r @ map (\<lambda>i. (i, decision)) invalidated,
             hs_ledger := hs_ledger r @ map (\<lambda>i. (''INVALIDATED_BY_EDIT'', JStr i, jget ''decision_id'' decision,
               JInt superseded, jget ''decided_at'' decision)) invalidated\<rparr>))"

definition replay_decision :: "json \<Rightarrow> json \<Rightarrow> history \<Rightarrow> json \<Rightarrow> str + history" where
  "replay_decision document mission r0 decision =
     (let kind = jget ''decision'' decision in
      if \<not> reservation_agrees document (jget ''decision_id'' decision) ''decision'' (jget ''decision_id'' decision)
            (jget ''provenance'' decision)
         \<or> hs_state r0 = STATE_REJECTED
         \<or> jget ''revision'' decision \<noteq> JInt (hs_revision r0)
      then Inl PROBLEM_HISTORY_INCONSISTENT
      else
        let r = note_expired document r0 decision in
        if kind = JStr ''APPROVE'' then replay_approve document mission r decision
        else if kind = JStr ''DENY'' then replay_refusal mission r decision STATE_DENIED
          [(''DENIED'', JNull, jget ''decision_id'' decision, JInt (hs_revision r), jget ''decided_at'' decision)]
        else if kind = JStr ''REJECT'' then replay_refusal mission r decision STATE_REJECTED []
        else if kind = JStr ''REQUEST_CHANGES'' then replay_refusal mission r decision STATE_CHANGES_REQUESTED []
        else if kind = JStr ''EDIT'' then replay_edit mission r decision
        else Inl PROBLEM_HISTORY_INCONSISTENT)"

fun replay :: "json \<Rightarrow> json \<Rightarrow> history \<Rightarrow> json list \<Rightarrow> str + history" where
  "replay document mission r [] = Inr r"
| "replay document mission r (decision # rest) =
     (case replay_decision document mission r decision of
        Inl problem \<Rightarrow> Inl problem
      | Inr r' \<Rightarrow> replay document mission r' rest)"

definition run_intent :: "json \<Rightarrow> json" where
  "run_intent mission = jget ''intent'' (jget ''run'' mission)"

definition intent_bound :: "json \<Rightarrow> history \<Rightarrow> json \<Rightarrow> bool" where
  "intent_bound document r intent \<longleftrightarrow>
     (let i = str_of (jget ''authorization_id'' intent); authorization = authorization_at document i in
      hs_issued r \<noteq> [] \<and> jget ''authorization_id'' intent = JStr (last (hs_issued r))
      \<and> py_eq (jget ''revision'' intent) (JInt (hs_revision r))
      \<and> i \<notin> fst ` set (hs_revoked_by r)
      \<and> jget ''approved_action_scope'' intent = jget ''authorized_action_scope'' authorization
      \<and> jget ''approved_delivery_targets'' intent = jget ''authorized_delivery_targets'' authorization)"

definition final_state :: "json \<Rightarrow> history \<Rightarrow> json" where
  "final_state mission r =
     (if jlist ''lifecycle'' mission \<noteq> [] then jget ''to_state'' (last (jlist ''lifecycle'' mission))
      else JState (hs_state r))"

definition revocation_recorded :: "json \<Rightarrow> history \<Rightarrow> str \<Rightarrow> bool" where
  "revocation_recorded document r i =
     (let revocation = jget ''revocation'' (authorization_at document i) in
      case map_of (hs_revoked_by r) i of
        None \<Rightarrow> jget ''revoked'' revocation \<noteq> JBool True
      | Some editor \<Rightarrow> py_eq revocation (JObj
          [(''revoked'', JBool True), (''revoked_at'', jget ''decided_at'' editor),
           (''reason'', JStr ''superseded_by_edit'')]))"

definition mission_entries :: "json \<Rightarrow> json \<Rightarrow> json list" where
  "mission_entries document mission_id =
     filter (\<lambda>e. is_obj e \<and> jget ''mission_id'' e = mission_id) (jlist ''authority_ledger'' document)"

definition ledger_fact_of :: "json \<Rightarrow> ledger_fact" where
  "ledger_fact_of e =
     (str_of (jget ''kind'' e), jget ''authorization_id'' e, jget ''decision_id'' e, jget ''revision'' e,
      jget ''recorded_at'' e)"

definition reconcile_mission_history :: "json \<Rightarrow> json \<Rightarrow> str option" where
  "reconcile_mission_history document mission =
     (let mission_id = jget ''mission_id'' mission; has_run = (jget ''run'' mission \<noteq> JNull);
          intent = run_intent mission; entries = mission_entries document mission_id in
      if \<not> reservation_agrees document (jget ''request_id'' mission) ''request'' mission_id
            (jget ''provenance'' (first_revision mission))
      then Some PROBLEM_HISTORY_INCONSISTENT
      else case replay document mission initial_history (mission_decisions mission) of
        Inl problem \<Rightarrow> Some problem
      | Inr r \<Rightarrow>
          if (has_run \<and> hs_state r \<noteq> STATE_AUTHORIZED)
             \<or> (has_run \<and> intent \<noteq> JNull \<and> \<not> intent_bound document r intent)
             \<or> final_state mission r \<noteq> jget ''state'' mission
             \<or> jget ''current_revision'' mission \<noteq> JInt (hs_revision r)
             \<or> int (length (jlist ''revisions'' mission)) \<noteq> hs_revision r
             \<or> jlist ''authorization_ids'' mission \<noteq> map JStr (hs_issued r)
          then Some PROBLEM_HISTORY_INCONSISTENT
          else if \<not> list_all (revocation_recorded document r) (hs_issued r)
             \<or> \<not> list_all (\<lambda>e. jget ''kind'' e \<in> set (map JStr HISTORY_LEDGER_KINDS)) entries
             \<or> map ledger_fact_of entries \<noteq> hs_ledger r
          then Some PROBLEM_LEDGER_INCONSISTENT
          else None)"

section \<open>The one validation path\<close>

record authority_check =
  ac_valid :: bool
  ac_problem :: "str option"
  ac_authorization :: "json option"

definition refusal :: "str \<Rightarrow> json option \<Rightarrow> authority_check" where
  "refusal problem authorization =
     \<lparr>ac_valid = False, ac_problem = Some problem, ac_authorization = authorization\<rparr>"

text \<open>The projection of the check is the authorization it resolved, if any; the projected fields
  are read from it.\<close>

definition permitted :: "json \<Rightarrow> authority_check" where
  "permitted authorization = \<lparr>ac_valid = True, ac_problem = None, ac_authorization = Some authorization\<rparr>"

definition refusal_of_record :: "check \<Rightarrow> str option" where
  "refusal_of_record c =
     (case c of
        None \<Rightarrow> None
      | Some e \<Rightarrow>
          if e = TAMPERED then Some PROBLEM_AUTHORIZATION_TAMPERED
          else if e = UNAUTHENTICATED_PRINCIPAL then Some ''mission_unauthenticated_principal''
          else Some PROBLEM_MALFORMED_STATE)"

text \<open>The checks that follow the resolution of the two records, in order.\<close>

definition use_problem ::
  "json \<Rightarrow> json \<Rightarrow> json \<Rightarrow> json \<Rightarrow> json \<Rightarrow> json \<Rightarrow> json \<Rightarrow> json \<Rightarrow> json \<Rightarrow> str option" where
  "use_problem document mission authorization_id authorization revision now required_actions required_target
     expected_digest =
     (let expires = jget ''expires_at'' authorization;
          digest = jget ''proposal_digest_sha256'' authorization in
      if authorization_id \<notin> set (jlist ''authorization_ids'' mission)
      then Some PROBLEM_LEDGER_INCONSISTENT
      else if reconcile_registry document \<noteq> None then reconcile_registry document
      else if reconcile_mission_history document mission \<noteq> None then reconcile_mission_history document mission
      else if jget ''revoked'' (jget ''revocation'' authorization) = JBool True then Some PROBLEM_REVOKED_m
      else if \<not> is_int revision \<or> jget ''revision'' authorization \<noteq> revision then Some PROBLEM_WRONG_REVISION
      else if jget ''current_revision'' mission \<noteq> revision then Some PROBLEM_WRONG_REVISION
      else if \<not> (case revision_entry mission revision of
                   None \<Rightarrow> False | Some entry \<Rightarrow> jget ''proposal_digest_sha256'' entry = digest)
      then Some PROBLEM_WRONG_MANIFEST_DIGEST
      else if expected_digest \<noteq> JNull \<and> expected_digest \<noteq> digest then Some PROBLEM_WRONG_MANIFEST_DIGEST
      else if jget ''state'' mission = JState STATE_DENIED then Some PROBLEM_DENIED
      else if jget ''state'' mission \<noteq> JState STATE_AUTHORIZED then Some PROBLEM_NOT_AUTHORIZED
      else if \<not> is_int now then Some ''mission_bad_type''
      else if expires \<noteq> JNull \<and> int_of_json expires \<le> int_of_json now then Some PROBLEM_EXPIRED_m
      else if \<not> is_list required_actions then Some PROBLEM_ACTION_OUTSIDE_SCOPE
      else if \<not> list_all (\<lambda>a. a \<in> set (jlist ''authorized_action_scope'' authorization)) (list_of required_actions)
      then Some PROBLEM_ACTION_OUTSIDE_SCOPE
      else if required_target \<noteq> JNull
              \<and> required_target \<notin> set (jlist ''authorized_delivery_targets'' authorization)
      then Some PROBLEM_TARGET_OUTSIDE_SCOPE
      else None)"

definition validate_authorization_use ::
  "host \<Rightarrow> json \<Rightarrow> json \<Rightarrow> json \<Rightarrow> json \<Rightarrow> json \<Rightarrow> json \<Rightarrow> json \<Rightarrow> json \<Rightarrow> authority_check" where
  "validate_authorization_use h document authorization_id mission_id revision now required_actions required_target
     expected_digest =
     (let mission = jget (str_of mission_id) (jget ''missions'' document);
          authorization = jget (str_of authorization_id) (jget ''authorizations'' document) in
      if \<not> (is_obj document \<and> is_obj (jget ''missions'' document) \<and> is_obj (jget ''authorizations'' document)
              \<and> is_list (jget ''authority_ledger'' document))
      then refusal PROBLEM_STORE_UNREADABLE None
      else if id_problem mission_id MISSION_ID_PREFIX \<or> mission = JNull then refusal PROBLEM_UNKNOWN_MISSION None
      else if validate_mission_record h mission \<noteq> None then refusal PROBLEM_MALFORMED_STATE None
      else if id_problem authorization_id AUTHORIZATION_ID_PREFIX \<or> authorization = JNull
      then refusal PROBLEM_UNKNOWN_AUTHORIZATION None
      else case refusal_of_record (validate_authorization_record h authorization) of
        Some problem \<Rightarrow> refusal problem None
      | None \<Rightarrow>
          if jget ''mission_id'' authorization \<noteq> mission_id then refusal PROBLEM_WRONG_MISSION (Some authorization)
          else case use_problem document mission authorization_id authorization revision now required_actions
                      required_target expected_digest of
            Some problem \<Rightarrow> refusal problem (Some authorization)
          | None \<Rightarrow> permitted authorization)"

definition validate_delivery_parent_use ::
  "host \<Rightarrow> json \<Rightarrow> json \<Rightarrow> json \<Rightarrow> json \<Rightarrow> json \<Rightarrow> json \<Rightarrow> authority_check" where
  "validate_delivery_parent_use h document authorization_id mission_id revision now target =
     (let c = validate_authorization_use h document authorization_id mission_id revision now (JList []) target JNull;
          mission = jget (str_of mission_id) (jget ''missions'' document);
          authorization = jget (str_of authorization_id) (jget ''authorizations'' document);
          intent = run_intent mission in
      if ac_valid c \<or> ac_problem c \<noteq> Some PROBLEM_NOT_AUTHORIZED then c
      else if \<not> in_states (jget ''state'' mission) [STATE_RUNNING, STATE_COMPLETED]
              \<or> intent = JNull \<or> jget ''authorization_id'' intent \<noteq> authorization_id
              \<or> \<not> py_eq (jget ''revision'' intent) revision
      then c
      else if target \<notin> set (jlist ''authorized_delivery_targets'' authorization)
      then refusal PROBLEM_TARGET_OUTSIDE_SCOPE (Some authorization)
      else permitted authorization)"

definition find_authorization_by_digest :: "json \<Rightarrow> json \<Rightarrow> json option" where
  "find_authorization_by_digest document digest =
     (if \<not> is_str digest \<or> py_len (str_of digest) \<noteq> 64 then None
      else List.find (\<lambda>a. is_obj a \<and> jget ''authorization_digest_sha256'' a = digest)
             (map snd (members ''authorizations'' document)))"

end
