(* ===== verification/Replay.thy ===== *)
theory Replay
  imports MissionAuthorization
begin

text \<open>
  What the replay of a decision history establishes. The history knows at most one live
  authorization, and only where its last decision is the approval that issued it; so a use that
  the validation path permits rests on the last decision of the Mission, an approval.
\<close>

section \<open>The replay as a fold\<close>

lemma replay_snoc:
  "replay document mission r (ds @ [d]) =
     (case replay document mission r ds of
        Inl problem \<Rightarrow> Inl problem | Inr r' \<Rightarrow> replay_decision document mission r' d)"
  by (induction ds arbitrary: r) (auto split: sum.splits)

text \<open>An invariant of the steps holds of the replay.\<close>

lemma replay_induct:
  assumes "replay document mission r ds = Inr r'" "I [] r"
    and "\<And>xs d s s'. I xs s \<Longrightarrow> replay_decision document mission s d = Inr s' \<Longrightarrow> I (xs @ [d]) s'"
  shows "I ds r'"
  using assms(1)
proof (induction ds arbitrary: r' rule: rev_induct)
  case Nil
  with assms(2) show ?case by simp
next
  case (snoc d ds)
  then show ?case
    by (auto simp: replay_snoc split: sum.splits intro: assms(3))
qed

lemma note_expired_simps [simp]:
  "hs_state (note_expired document r d) = hs_state r" "hs_revision (note_expired document r d) = hs_revision r"
  "hs_issued (note_expired document r d) = hs_issued r" "hs_live (note_expired document r d) = hs_live r"
  "hs_revoked_by (note_expired document r d) = hs_revoked_by r"
  by (simp_all add: note_expired_def Let_def)

section \<open>The live approval\<close>

definition approves :: "json \<Rightarrow> json \<Rightarrow> json \<Rightarrow> str \<Rightarrow> int \<Rightarrow> bool" where
  "approves document mission d i n \<longleftrightarrow>
     jget ''decision'' d = JStr ''APPROVE'' \<and> str_of (jget ''authorization_id'' (jget ''outcome'' d)) = i
     \<and> jget ''revision'' d = JInt n
     \<and> scope_requested d (jget ''proposal'' (revision_at mission n))
     \<and> authorization_agrees (authorization_at document i) d (revision_at mission n) (jget ''mission_id'' mission)"

definition history_ok :: "json \<Rightarrow> json \<Rightarrow> json list \<Rightarrow> history \<Rightarrow> bool" where
  "history_ok document mission ds r \<longleftrightarrow>
     (if hs_state r = STATE_AUTHORIZED
      then \<exists>d i. ds \<noteq> [] \<and> last ds = d \<and> approves document mission d i (hs_revision r)
             \<and> hs_live r = [(i, hs_revision r)] \<and> hs_issued r \<noteq> [] \<and> last (hs_issued r) = i
      else hs_live r = [])
     \<and> set (hs_issued r) = fst ` set (hs_live r) \<union> fst ` set (hs_revoked_by r)
     \<and> hs_state r \<in> {STATE_AWAITING_DECISION, STATE_AUTHORIZED, STATE_DENIED, STATE_REJECTED,
          STATE_CHANGES_REQUESTED}"

lemma history_ok_step:
  assumes "history_ok document mission ds s" "replay_decision document mission s d = Inr s'"
  shows "history_ok document mission (ds @ [d]) s'"
proof -
  let ?r = "note_expired document s d"
  have rev: "jget ''revision'' d = JInt (hs_revision s)"
    using assms(2) by (auto simp: replay_decision_def Let_def split: if_splits)
  consider (approve) "jget ''decision'' d = JStr ''APPROVE''" "replay_approve document mission ?r d = Inr s'"
    | (refuse) state facts where "replay_refusal mission ?r d state facts = Inr s'"
        "state \<in> {STATE_DENIED, STATE_REJECTED, STATE_CHANGES_REQUESTED}"
    | (edit) "replay_edit mission ?r d = Inr s'"
    using assms(2) by (auto simp: replay_decision_def Let_def split: if_splits)
  then show ?thesis
  proof cases
    case approve
    show ?thesis
    proof -
      let ?i = "str_of (jget ''authorization_id'' (jget ''outcome'' d))" and ?e = "revision_at mission (hs_revision s)"
      have ok: "hs_state s = STATE_AWAITING_DECISION" "scope_requested d (jget ''proposal'' ?e)"
          "authorization_agrees (authorization_at document ?i) d ?e (jget ''mission_id'' mission)"
        and s': "s' = ?r\<lparr>hs_state := STATE_AUTHORIZED, hs_issued := hs_issued s @ [?i],
             hs_live := hs_live s @ [(?i, hs_revision s)], hs_ledger := hs_ledger s'\<rparr>"
        using approve(2) by (auto simp: replay_approve_def Let_def split: if_splits)
      have "history_ok document mission (ds @ [d]) (?r\<lparr>hs_state := STATE_AUTHORIZED,
          hs_issued := hs_issued s @ [?i], hs_live := hs_live s @ [(?i, hs_revision s)], hs_ledger := l\<rparr>)" for l
        using assms(1) ok approve(1) rev by (simp add: history_ok_def approves_def)
      then show ?thesis using s' by metis
    qed
  next
    case (refuse state facts)
    then have "hs_state s = STATE_AWAITING_DECISION" "s' = ?r\<lparr>hs_state := state, hs_ledger := hs_ledger ?r @ facts\<rparr>"
      by (auto simp: replay_refusal_def split: if_splits)
    then show ?thesis
      using assms(1) refuse(2) by (simp only: history_ok_def) auto
  next
    case edit
    have live: "hs_live s = [] \<or> (\<exists>i. hs_live s = [(i, hs_revision s)])"
      using assms(1) by (auto simp: history_ok_def split: if_splits)
    have s': "s' = ?r\<lparr>hs_state := STATE_AWAITING_DECISION, hs_revision := hs_revision s + 1, hs_live := [],
        hs_revoked_by := hs_revoked_by s @ map (\<lambda>(i, n). (i, d)) (hs_live s), hs_ledger := hs_ledger s'\<rparr>"
      using edit live by (auto simp: replay_edit_def Let_def split: if_splits)
    have "history_ok document mission (ds @ [d]) (?r\<lparr>hs_state := STATE_AWAITING_DECISION,
        hs_revision := hs_revision s + 1, hs_live := [],
        hs_revoked_by := hs_revoked_by s @ map (\<lambda>(i, n). (i, d)) (hs_live s), hs_ledger := l\<rparr>)" for l
      using assms(1) live by (auto simp: history_ok_def)
    then show ?thesis using s' by metis
  qed
qed

lemma replay_history_ok:
  "replay document mission initial_history ds = Inr r \<Longrightarrow> history_ok document mission ds r"
  by (erule replay_induct) (auto intro: history_ok_step, simp add: history_ok_def initial_history_def)

section \<open>A use rests on an approval\<close>

lemma reconcile_None:
  assumes "reconcile_mission_history document mission = None"
  obtains r where "replay document mission initial_history (mission_decisions mission) = Inr r"
    "jget ''run'' mission \<noteq> JNull \<Longrightarrow> hs_state r = STATE_AUTHORIZED"
    "jget ''run'' mission \<noteq> JNull \<Longrightarrow> run_intent mission \<noteq> JNull \<Longrightarrow> intent_bound document r (run_intent mission)"
    "final_state mission r = jget ''state'' mission" "jget ''current_revision'' mission = JInt (hs_revision r)"
    "int (length (jlist ''revisions'' mission)) = hs_revision r"
    "jlist ''authorization_ids'' mission = map JStr (hs_issued r)"
    "\<forall>i \<in> set (hs_issued r). revocation_recorded document r i"
    "map ledger_fact_of (mission_entries document (jget ''mission_id'' mission)) = hs_ledger r"
  using assms unfolding reconcile_mission_history_def Let_def
  by (auto split: sum.splits if_splits simp: list_all_iff)

lemma revocation_revoked:
  assumes "validate_authorization_record h a = None"
    and "py_eq (jget ''revocation'' a) (JObj [(''revoked'', JBool True), (''revoked_at'', t), (''reason'', b)])"
  shows "jget ''revoked'' (jget ''revocation'' a) = JBool True"
proof -
  let ?v = "jget ''revocation'' a"
  have "validate_revocation_m ?v = None"
    using assms(1) by (simp add: validate_authorization_record_def Let_def checks_simps)
  then have "jhas ''revoked'' ?v" and bool: "is_bool (jget ''revoked'' ?v)"
    by (auto simp: validate_revocation_m_def checks_simps require_closed_keys_m_def require_bool_m_def jhas_def jkeys_def)
  with py_eq_get [OF assms(2)] have "py_eq (jget ''revoked'' ?v) (JBool True)" by fastforce
  with bool show ?thesis by (auto simp: is_bool_iff py_eq.simps)
qed

definition mission_at :: "json \<Rightarrow> json \<Rightarrow> json" where
  "mission_at document mission_id = jget (str_of mission_id) (jget ''missions'' document)"

definition resolved :: "host \<Rightarrow> json \<Rightarrow> json \<Rightarrow> json \<Rightarrow> bool" where
  "resolved h document i mission_id \<longleftrightarrow>
     mission_at document mission_id \<noteq> JNull \<and> authorization_at document (str_of i) \<noteq> JNull
     \<and> validate_mission_record h (mission_at document mission_id) = None
     \<and> validate_authorization_record h (authorization_at document (str_of i)) = None
     \<and> jget ''mission_id'' (authorization_at document (str_of i)) = mission_id
     \<and> \<not> id_problem i AUTHORIZATION_ID_PREFIX \<and> \<not> id_problem mission_id MISSION_ID_PREFIX"

lemma refusal_of_record_None [simp]: "refusal_of_record None = None" "refusal_of_record x = None \<longleftrightarrow> x = None"
  by (simp_all add: refusal_of_record_def split: option.split)

lemma use_cases:
  assumes "validate_authorization_use h document i mission_id revision now actions target digest = c"
  obtains (unresolved) "\<not> ac_valid c"
      "ac_problem c \<in> Some ` {PROBLEM_STORE_UNREADABLE, PROBLEM_UNKNOWN_MISSION, PROBLEM_MALFORMED_STATE,
         PROBLEM_UNKNOWN_AUTHORIZATION, PROBLEM_AUTHORIZATION_TAMPERED, ''mission_unauthenticated_principal'',
         PROBLEM_WRONG_MISSION}"
    | (refused) problem where "resolved h document i mission_id"
        "use_problem document (mission_at document mission_id) i
           (authorization_at document (str_of i)) revision now actions target digest = Some problem"
        "c = refusal problem (Some (authorization_at document (str_of i)))"
    | (allowed) "resolved h document i mission_id"
        "use_problem document (mission_at document mission_id) i
           (authorization_at document (str_of i)) revision now actions target digest = None"
        "c = permitted (authorization_at document (str_of i))"
proof -
  let ?m = "mission_at document mission_id" and ?a = "authorization_at document (str_of i)"
  let ?shape = "is_obj document \<and> is_obj (jget ''missions'' document) \<and> is_obj (jget ''authorizations'' document)
              \<and> is_list (jget ''authority_ledger'' document)"
  note def = validate_authorization_use_def [of h document i mission_id revision now actions target digest,
      unfolded Let_def, folded mission_at_def authorization_at_def]
  show thesis
  proof (cases "?shape \<and> \<not> (id_problem mission_id MISSION_ID_PREFIX \<or> ?m = JNull)
      \<and> validate_mission_record h ?m = None \<and> \<not> (id_problem i AUTHORIZATION_ID_PREFIX \<or> ?a = JNull)
      \<and> validate_authorization_record h ?a = None \<and> jget ''mission_id'' ?a = mission_id")
    case True
    then have r: "resolved h document i mission_id" by (simp add: resolved_def)
    show ?thesis
    proof (cases "use_problem document ?m i ?a revision now actions target digest")
      case None
      with True assms have "c = permitted ?a" by (simp add: def)
      with r None show ?thesis by (rule allowed)
    next
      case (Some problem)
      with True assms have "c = refusal problem (Some ?a)" by (simp add: def)
      with r Some show ?thesis by (rule refused)
    qed
  next
    case False
    have codes: "refusal_of_record x = Some p \<Longrightarrow> p \<in> {PROBLEM_AUTHORIZATION_TAMPERED,
        ''mission_unauthenticated_principal'', PROBLEM_MALFORMED_STATE}" for x p
      by (auto simp: refusal_of_record_def split: option.splits if_splits)
    show ?thesis
    proof (cases "refusal_of_record (validate_authorization_record h ?a)")
      case None
      with False show ?thesis
        by (intro unresolved) (auto simp: assms [symmetric] def refusal_def split: if_split)
    next
      case (Some p)
      with codes [OF Some] show ?thesis
        by (intro unresolved) (auto simp: assms [symmetric] def refusal_def split: if_split)
    qed
  qed
qed

lemma use_problem_None:
  assumes "use_problem document mission i a revision now actions target digest = None"
  shows "i \<in> set (jlist ''authorization_ids'' mission)"
    "reconcile_registry document = None" "reconcile_mission_history document mission = None"
    "jget ''revoked'' (jget ''revocation'' a) \<noteq> JBool True" "is_int revision" "jget ''revision'' a = revision"
    "jget ''current_revision'' mission = revision"
    "digest \<noteq> JNull \<longrightarrow> digest = jget ''proposal_digest_sha256'' a"
    "jget ''state'' mission = JState STATE_AUTHORIZED" "is_int now"
    "jget ''expires_at'' a \<noteq> JNull \<longrightarrow> int_of_json now < jint ''expires_at'' a"
    "set (list_of actions) \<subseteq> set (jlist ''authorized_action_scope'' a)"
    "target \<noteq> JNull \<longrightarrow> target \<in> set (jlist ''authorized_delivery_targets'' a)"
  using assms unfolding use_problem_def Let_def
  by (auto split: if_splits simp: list_all_iff)

lemma mission_valid: "validate_mission_record h m = None \<longleftrightarrow> validate_mission_m h m = None"
  by (auto simp: validate_mission_record_def as_malformed_def split: option.splits exn.splits if_splits)

lemma authorized_no_lifecycle:
  assumes "validate_mission_record h m = None" "jget ''state'' m = JState STATE_AUTHORIZED"
  shows "jlist ''lifecycle'' m = []"
proof -
  have "validate_run_and_lifecycle h m = None"
    using assms(1) by (simp add: mission_valid validate_mission_m_def Let_def checks_simps)
  with assms(2) have "\<not> jhas ''lifecycle'' m"
    by (simp add: validate_run_and_lifecycle_def Let_def checks_simps RUN_STATES_def)
  then show ?thesis by (simp add: jget_absent)
qed

text \<open>An unrevoked authorization of a reconciled Mission whose history ends authorized was issued
  by the last decision.\<close>

lemma live_approval:
  assumes reconciled: "reconcile_mission_history document m = None"
    and member: "i \<in> set (jlist ''authorization_ids'' m)"
    and valid: "validate_authorization_record h (authorization_at document (str_of i)) = None"
    and live: "jget ''revoked'' (jget ''revocation'' (authorization_at document (str_of i))) \<noteq> JBool True"
    and authorized: "jget ''run'' m \<noteq> JNull
      \<or> (jlist ''lifecycle'' m = [] \<and> jget ''state'' m = JState STATE_AUTHORIZED)"
  shows "mission_decisions m \<noteq> [] \<and>
     approves document m (last (mission_decisions m)) (str_of i) (jint ''current_revision'' m)"
proof -
  obtain r where r: "replay document m initial_history (mission_decisions m) = Inr r"
    and run: "jget ''run'' m \<noteq> JNull \<Longrightarrow> hs_state r = STATE_AUTHORIZED"
    and state: "final_state m r = jget ''state'' m" and rev: "jget ''current_revision'' m = JInt (hs_revision r)"
    and ids: "jlist ''authorization_ids'' m = map JStr (hs_issued r)"
    and revoked: "\<forall>i \<in> set (hs_issued r). revocation_recorded document r i"
    by (rule reconcile_None [OF reconciled]) blast
  have ok: "history_ok document m (mission_decisions m) r" by (rule replay_history_ok [OF r])
  have "hs_state r = STATE_AUTHORIZED"
    using authorized run state by (auto simp: final_state_def)
  with ok obtain d j where d: "mission_decisions m \<noteq> []" "last (mission_decisions m) = d"
      "approves document m d j (hs_revision r)" "hs_live r = [(j, hs_revision r)]"
    and issued: "set (hs_issued r) = insert j (fst ` set (hs_revoked_by r))"
    by (auto simp: history_ok_def)
  have member: "i \<in> set (map JStr (hs_issued r))" using member ids by simp
  have unrevoked: "str_of i \<notin> fst ` set (hs_revoked_by r)"
  proof
    assume "str_of i \<in> fst ` set (hs_revoked_by r)"
    then obtain editor where "map_of (hs_revoked_by r) (str_of i) = Some editor"
      by (auto dest: weak_map_of_SomeI)
    moreover have "revocation_recorded document r (str_of i)" using member revoked by auto
    ultimately have "jget ''revoked'' (jget ''revocation'' (authorization_at document (str_of i))) = JBool True"
      by (intro revocation_revoked [OF valid]) (auto simp: revocation_recorded_def Let_def)
    with live show False by simp
  qed
  have "str_of i \<in> set (hs_issued r)" using member by auto
  then have "str_of i \<in> insert j (fst ` set (hs_revoked_by r))" by (simp only: issued)
  with unrevoked have "j = str_of i" by blast
  with d rev show ?thesis by simp
qed

text \<open>What a permitted use rests on.\<close>

lemma use_rests_on_approval:
  assumes "validate_authorization_use h document i mission_id revision now actions target digest = c" "ac_valid c"
  shows "mission_decisions (mission_at document mission_id) \<noteq> []"
    "approves document (mission_at document mission_id) (last (mission_decisions (mission_at document mission_id)))
       (str_of i) (int_of_json revision)"
    "resolved h document i mission_id"
    "use_problem document (mission_at document mission_id) i
       (authorization_at document (str_of i)) revision now actions target digest = None"
proof -
  let ?m = "mission_at document mission_id" and ?a = "authorization_at document (str_of i)"
  have "resolved h document i mission_id \<and>
      use_problem document ?m i ?a revision now actions target digest = None"
    using assms(1)
  proof (cases rule: use_cases)
    case unresolved
    with assms(2) show ?thesis by simp
  next
    case (refused problem)
    with assms(2) show ?thesis by (simp add: refusal_def)
  next
    case allowed
    then show ?thesis by blast
  qed
  then have valid: "resolved h document i mission_id"
    and none: "use_problem document ?m i ?a revision now actions target digest = None"
    by blast+
  note use = use_problem_None [OF none]
  have "jlist ''lifecycle'' ?m = []"
    using use(9) valid by (intro authorized_no_lifecycle [of h]) (simp_all add: resolved_def)
  then have "mission_decisions ?m \<noteq> [] \<and>
      approves document ?m (last (mission_decisions ?m)) (str_of i) (jint ''current_revision'' ?m)"
    using valid use by (intro live_approval [of _ _ _ h]) (simp_all add: resolved_def)
  with use(7) show "mission_decisions ?m \<noteq> []"
    "approves document ?m (last (mission_decisions ?m)) (str_of i) (int_of_json revision)" by simp_all
  show "resolved h document i mission_id"
    "use_problem document ?m i ?a revision now actions target digest = None" by fact+
qed

section \<open>The delivery parent\<close>

lemmas use_codes = PROBLEM_UNKNOWN_MISSION_def PROBLEM_MALFORMED_STATE_def PROBLEM_UNKNOWN_AUTHORIZATION_def
  PROBLEM_AUTHORIZATION_TAMPERED_def PROBLEM_WRONG_MISSION_def PROBLEM_WRONG_REVISION_def
  PROBLEM_WRONG_MANIFEST_DIGEST_def PROBLEM_EXPIRED_m_def PROBLEM_REVOKED_m_def PROBLEM_DENIED_def
  PROBLEM_ACTION_OUTSIDE_SCOPE_def PROBLEM_TARGET_OUTSIDE_SCOPE_def PROBLEM_LEDGER_INCONSISTENT_def
  PROBLEM_STORE_UNREADABLE_def PROBLEM_NOT_AUTHORIZED_def PROBLEM_HISTORY_INCONSISTENT_def
  PROBLEM_DECISION_MISMATCH_def

lemma replay_decision_codes:
  "replay_decision document m r d = Inl p \<Longrightarrow> p \<in> {PROBLEM_HISTORY_INCONSISTENT, PROBLEM_DECISION_MISMATCH}"
  by (auto simp: replay_decision_def replay_approve_def replay_refusal_def replay_edit_def Let_def split: if_splits)

lemma replay_codes:
  "replay document m r ds = Inl p \<Longrightarrow> p \<in> {PROBLEM_HISTORY_INCONSISTENT, PROBLEM_DECISION_MISMATCH}"
proof (induction ds arbitrary: r)
  case (Cons d ds)
  then show ?case
    by (cases "replay_decision document m r d") (auto dest: replay_decision_codes)
qed simp

lemma reconcile_codes:
  "reconcile_mission_history document m = Some p \<Longrightarrow>
     p \<in> {PROBLEM_HISTORY_INCONSISTENT, PROBLEM_DECISION_MISMATCH, PROBLEM_LEDGER_INCONSISTENT}"
  unfolding reconcile_mission_history_def Let_def
  by (auto split: if_splits sum.splits dest: replay_codes)

lemma registry_code: "reconcile_registry document = Some p \<Longrightarrow> p = PROBLEM_HISTORY_INCONSISTENT"
  by (simp add: reconcile_registry_def Let_def split: if_splits)

lemma use_problem_not_authorized:
  assumes "use_problem document m i a revision now actions target digest = Some PROBLEM_NOT_AUTHORIZED"
  shows "i \<in> set (jlist ''authorization_ids'' m)"
    "reconcile_registry document = None" "reconcile_mission_history document m = None"
    "jget ''revoked'' (jget ''revocation'' a) \<noteq> JBool True" "is_int revision" "jget ''revision'' a = revision"
    "jget ''current_revision'' m = revision"
proof -
  have registry: "reconcile_registry document \<noteq> Some PROBLEM_NOT_AUTHORIZED"
    by (auto dest!: registry_code simp: use_codes)
  have history: "reconcile_mission_history document m \<noteq> Some PROBLEM_NOT_AUTHORIZED"
    by (auto dest!: reconcile_codes simp: use_codes)
  show "i \<in> set (jlist ''authorization_ids'' m)"
    "reconcile_registry document = None" "reconcile_mission_history document m = None"
    "jget ''revoked'' (jget ''revocation'' a) \<noteq> JBool True" "is_int revision" "jget ''revision'' a = revision"
    "jget ''current_revision'' m = revision"
    using assms registry history unfolding use_problem_def Let_def
    by (auto split: if_splits simp: use_codes)
qed

text \<open>The answer for a delivery parent: the approval of the current revision names the target.\<close>

lemma parent_use_rests_on_approval:
  assumes "validate_delivery_parent_use h document i mission_id revision now target = c" "ac_valid c"
    and "target \<noteq> JNull"
  defines "m \<equiv> mission_at document mission_id"
  shows "mission_decisions m \<noteq> []"
    "approves document m (last (mission_decisions m)) (str_of i) (jint ''current_revision'' m)"
    "resolved h document i mission_id"
    "target \<in> set (jlist ''approved_delivery_targets'' (last (mission_decisions m)))"
    "jget ''current_revision'' m = revision"
    "in_states (jget ''state'' m) [STATE_AUTHORIZED, STATE_RUNNING, STATE_COMPLETED]"
    "ac_authorization c = Some (authorization_at document (str_of i))"
proof -
  let ?a = "authorization_at document (str_of i)"
  define u where "u = validate_authorization_use h document i mission_id revision now (JList []) target JNull"
  have *: "mission_decisions m \<noteq> [] \<and> approves document m (last (mission_decisions m)) (str_of i) (jint ''current_revision'' m)
      \<and> resolved h document i mission_id \<and> target \<in> set (jlist ''authorized_delivery_targets'' ?a)
      \<and> jget ''current_revision'' m = revision
      \<and> in_states (jget ''state'' m) [STATE_AUTHORIZED, STATE_RUNNING, STATE_COMPLETED]
      \<and> ac_authorization c = Some ?a"
  proof (cases "ac_valid u")
    case True
    then have "c = u"
      using assms(1) by (simp add: validate_delivery_parent_use_def Let_def u_def)
    note use = use_rests_on_approval [OF refl True [unfolded u_def], folded m_def]
      use_problem_None [OF use_rests_on_approval(4) [OF refl True [unfolded u_def]], folded m_def]
    have "ac_authorization u = Some ?a"
      using u_def [symmetric] True
      by (cases rule: use_cases) (simp_all add: refusal_def permitted_def)
    with use \<open>c = u\<close> assms(3) show ?thesis by auto
  next
    case False
    note parent = assms(1) [unfolded validate_delivery_parent_use_def Let_def, folded u_def mission_at_def
        authorization_at_def, folded m_def]
    from False assms(2) parent have not_authorized: "ac_problem u = Some PROBLEM_NOT_AUTHORIZED"
      by (auto split: if_splits)
    have u: "resolved h document i mission_id"
      "use_problem document m i ?a revision now (JList []) target JNull = Some PROBLEM_NOT_AUTHORIZED"
      using u_def [symmetric] False not_authorized unfolding m_def
      by (cases rule: use_cases; auto simp: refusal_def permitted_def use_codes)+
    note use = use_problem_not_authorized [OF u(2)]
    have run: "in_states (jget ''state'' m) [STATE_RUNNING, STATE_COMPLETED]" "run_intent m \<noteq> JNull"
      "target \<in> set (jlist ''authorized_delivery_targets'' ?a)" "c = permitted ?a"
      using False not_authorized assms(2) parent by (auto simp: refusal_def split: if_splits)
    have "jget ''run'' m \<noteq> JNull" using run(2) by (auto simp: run_intent_def jget_def)
    then have "mission_decisions m \<noteq> [] \<and>
        approves document m (last (mission_decisions m)) (str_of i) (jint ''current_revision'' m)"
      using u(1) use by (intro live_approval [of _ _ _ h]) (simp_all add: resolved_def m_def)
    with u(1) use(7) run show ?thesis by (auto simp: permitted_def in_states_def)
  qed
  then show "mission_decisions m \<noteq> []"
    "approves document m (last (mission_decisions m)) (str_of i) (jint ''current_revision'' m)"
    "resolved h document i mission_id" "jget ''current_revision'' m = revision"
    "in_states (jget ''state'' m) [STATE_AUTHORIZED, STATE_RUNNING, STATE_COMPLETED]"
    "ac_authorization c = Some ?a"
    by blast+
  from * show "target \<in> set (jlist ''approved_delivery_targets'' (last (mission_decisions m)))"
    by (auto simp: approves_def authorization_agrees_def)
qed

end
