(* ===== verification/DependencyGraph.thy ===== *)
theory DependencyGraph
  imports MissionManifest
begin

text \<open>
  \<open>mission/progress.py\<close>, \<open>dependency_graph_problem\<close>: the depth-first search with three colours
  that refuses a cycle among the dependencies of the Missions, and that it refuses nothing else.
\<close>

section \<open>The search\<close>

datatype colour = White | Grey | Black

type_synonym colouring = "(str \<times> colour) list"
type_synonym adjacency = "(str \<times> str list) list"

definition succs :: "adjacency \<Rightarrow> str \<Rightarrow> str list" where
  "succs edges node = (case map_of edges node of None \<Rightarrow> [] | Some targets \<Rightarrow> targets)"

datatype scan = FoundGrey str | FoundWhite str "str list" | Exhausted

fun scan_children :: "colouring \<Rightarrow> str list \<Rightarrow> scan" where
  "scan_children colour [] = Exhausted"
| "scan_children colour (child # rest) =
     (case map_of colour child of
        Some Grey \<Rightarrow> FoundGrey child
      | Some White \<Rightarrow> FoundWhite child rest
      | _ \<Rightarrow> scan_children colour rest)"

text \<open>The iterator of a frame is the list of its remaining children; the path of the code is the
  list of the nodes on the stack. A cycle is returned as the path that the code prints.\<close>

definition cycle_path :: "(str \<times> str list) list \<Rightarrow> str \<Rightarrow> str list" where
  "cycle_path stack child = dropWhile (\<lambda>x. x \<noteq> child) (rev (map fst stack)) @ [child]"

definition whites :: "colouring \<Rightarrow> nat" where
  "whites colour = card {x. map_of colour x = Some White}"

lemma finite_whites: "finite {x. map_of colour x = Some White}"
  by (rule finite_subset [OF _ finite_dom_map_of [of colour]]) auto

lemma map_of_update: "map_of (AList.update k v al) x = (if x = k then Some v else map_of al x)"
  by (simp add: update_conv')

lemma whites_less:
  assumes "map_of colour x = Some White" "c \<noteq> White"
  shows "whites (AList.update x c colour) < whites colour"
  unfolding whites_def
proof (rule psubset_card_mono [OF finite_whites])
  show "{y. map_of (AList.update x c colour) y = Some White} \<subset> {y. map_of colour y = Some White}"
    using assms by (auto simp: map_of_update)
qed

lemma whites_le:
  assumes "c \<noteq> White"
  shows "whites (AList.update x c colour) \<le> whites colour"
  unfolding whites_def
  by (rule card_mono [OF finite_whites]) (use assms in \<open>auto simp: map_of_update\<close>)

lemma scan_white: "scan_children colour cs = FoundWhite child rest \<Longrightarrow> map_of colour child = Some White"
  by (induction cs) (auto split: option.splits colour.splits)

function search :: "adjacency \<Rightarrow> colouring \<Rightarrow> (str \<times> str list) list \<Rightarrow> str list + colouring" where
  "search edges colour [] = Inr colour"
| "search edges colour ((node, children) # stack) =
     (case scan_children colour children of
        FoundGrey child \<Rightarrow> Inl (cycle_path ((node, children) # stack) child)
      | FoundWhite child rest \<Rightarrow>
          search edges (AList.update child Grey colour) ((child, succs edges child) # (node, rest) # stack)
      | Exhausted \<Rightarrow> search edges (AList.update node Black colour) stack)"
  by pat_completeness auto
termination
proof (relation "measures [\<lambda>(e, c, s). whites c, \<lambda>(e, c, s). length s]", goal_cases)
  case (2 edges colour node children stack child rest)
  then show ?case by (simp add: whites_less scan_white)
next
  case (3 edges colour node children stack)
  then show ?case using whites_le [of Black node colour] by (auto simp: le_less)
qed simp

fun search_all :: "adjacency \<Rightarrow> colouring \<Rightarrow> str list \<Rightarrow> str list option" where
  "search_all edges colour [] = None"
| "search_all edges colour (start # rest) =
     (if map_of colour start \<noteq> Some White then search_all edges colour rest
      else (case search edges (AList.update start Grey colour) [(start, succs edges start)] of
              Inl cycle \<Rightarrow> Some cycle
            | Inr colour' \<Rightarrow> search_all edges colour' rest))"

definition mission_targets :: "json \<Rightarrow> str list" where
  "mission_targets state =
     map (\<lambda>d. str_of (jget ''reference'' d))
       (filter (\<lambda>d. jget ''kind'' d = JStr ''MISSION'') (jlist ''dependencies'' state))"

fun build_edges :: "(str \<times> json) list \<Rightarrow> str + adjacency" where
  "build_edges [] = Inr []"
| "build_edges ((mission_id, state) # rest) =
     (if mission_id \<in> set (mission_targets state) then Inl ''mission_state_dependency_self''
      else (case build_edges rest of
              Inl problem \<Rightarrow> Inl problem
            | Inr edges \<Rightarrow> Inr ((mission_id, sort (remdups (mission_targets state))) # edges)))"

definition dependency_graph_problem :: "(str \<times> json) list \<Rightarrow> str option" where
  "dependency_graph_problem mission_states =
     (case build_edges (sort_key fst mission_states) of
        Inl problem \<Rightarrow> Some problem
      | Inr edges \<Rightarrow>
          (case search_all edges (map (\<lambda>(m, ts). (m, White)) edges) (sort (map fst edges)) of
             None \<Rightarrow> None
           | Some cycle \<Rightarrow> Some ''mission_state_dependency_cycle''))"

section \<open>The graph\<close>

text \<open>The edges between coloured nodes; a dependency on a Mission without a state record leads
  nowhere.\<close>

definition arcs :: "adjacency \<Rightarrow> colouring \<Rightarrow> (str \<times> str) set" where
  "arcs edges colour = {(x, y). y \<in> set (succs edges x) \<and> map_of colour x \<noteq> None \<and> map_of colour y \<noteq> None}"

definition black_arcs :: "adjacency \<Rightarrow> colouring \<Rightarrow> (str \<times> str) set" where
  "black_arcs edges colour =
     {(x, y). (x, y) \<in> arcs edges colour \<and> map_of colour x = Some Black \<and> map_of colour y = Some Black}"

text \<open>A frame below \<open>upper\<close>: its remaining children are successors, and a successor that is not
  among them is finished or is the node above it.\<close>

fun frames_ok :: "adjacency \<Rightarrow> colouring \<Rightarrow> str option \<Rightarrow> (str \<times> str list) list \<Rightarrow> bool" where
  "frames_ok edges colour upper [] = True"
| "frames_ok edges colour upper ((node, rest) # stack) \<longleftrightarrow>
     (\<forall>y \<in> set (succs edges node). y \<in> set rest \<or> map_of colour y \<in> {None, Some Black} \<or> upper = Some y)
     \<and> (\<forall>y. upper = Some y \<longrightarrow> y \<in> set (succs edges node))
     \<and> set rest \<subseteq> set (succs edges node) \<and> map_of colour node \<noteq> None
     \<and> frames_ok edges colour (Some node) stack"

definition search_inv :: "adjacency \<Rightarrow> colouring \<Rightarrow> (str \<times> str list) list \<Rightarrow> bool" where
  "search_inv edges colour stack \<longleftrightarrow>
     (\<forall>x. map_of colour x = Some Grey \<longleftrightarrow> x \<in> fst ` set stack) \<and> distinct (map fst stack)
     \<and> (\<forall>x y. map_of colour x = Some Black \<and> (x, y) \<in> arcs edges colour \<longrightarrow> map_of colour y = Some Black)
     \<and> acyclic (black_arcs edges colour)
     \<and> frames_ok edges colour None stack"

lemma scan_Exhausted:
  "scan_children colour cs = Exhausted \<Longrightarrow> y \<in> set cs \<Longrightarrow> map_of colour y \<in> {None, Some Black}"
  by (induction cs) (auto split: option.splits colour.splits)

lemma scan_FoundGrey:
  "scan_children colour cs = FoundGrey child \<Longrightarrow> child \<in> set cs \<and> map_of colour child = Some Grey"
  by (induction cs) (auto split: option.splits colour.splits)

lemma scan_FoundWhite:
  "scan_children colour cs = FoundWhite child rest \<Longrightarrow>
     child \<in> set cs \<and> set rest \<subseteq> set cs \<and> map_of colour child = Some White
     \<and> (\<forall>y \<in> set cs. y \<in> set rest \<or> map_of colour y \<in> {None, Some Black} \<or> y = child)"
  by (induction cs) (auto split: option.splits colour.splits)

lemma arcs_update [simp]:
  "map_of colour k \<noteq> None \<Longrightarrow> arcs edges (AList.update k c colour) = arcs edges colour"
  by (auto simp: arcs_def map_of_update split: if_splits)

lemma frames_ok_grey:
  assumes "frames_ok edges colour upper stack" "map_of colour child = Some White"
  shows "frames_ok edges (AList.update child Grey colour) upper stack"
  using assms by (induction edges colour upper stack rule: frames_ok.induct) (auto simp: map_of_update)

lemma frames_ok_black:
  assumes "frames_ok edges colour (Some node) stack"
  shows "frames_ok edges (AList.update node Black colour) None stack"
proof -
  have keep: "frames_ok edges (AList.update node Black colour) upper st" if "frames_ok edges colour upper st" for upper st
    using that by (induction edges colour upper st rule: frames_ok.induct) (auto simp: map_of_update)
  show ?thesis
    using assms keep by (cases stack) (auto simp: map_of_update)
qed

lemma acyclic_insert_source:
  assumes "acyclic r" "\<And>x y. (x, y) \<in> r \<Longrightarrow> y \<noteq> n" "\<And>x y. (x, y) \<in> s \<Longrightarrow> x = n \<and> y \<noteq> n"
  shows "acyclic (r \<union> s)"
proof -
  have no_in: "y \<noteq> n" if "(x, y) \<in> (r \<union> s)\<^sup>+" for x y
    using that assms(2,3) by (induction rule: trancl.induct) auto
  have inside: "(x, y) \<in> r\<^sup>+" if "(x, y) \<in> (r \<union> s)\<^sup>+" "x \<noteq> n" for x y
    using that
  proof (induction rule: trancl.induct)
    case (r_into_trancl a b)
    then show ?case using assms(3) by auto
  next
    case (trancl_into_trancl a b c)
    then have "b \<noteq> n" using no_in by blast
    with trancl_into_trancl assms(3) have "(b, c) \<in> r" by auto
    with trancl_into_trancl show ?case by (auto intro: trancl.trancl_into_trancl)
  qed
  show ?thesis
    using assms(1) no_in inside by (fastforce simp: acyclic_def)
qed

lemma inv_black:
  assumes "search_inv edges colour ((node, children) # stack)" "scan_children colour children = Exhausted"
  shows "search_inv edges (AList.update node Black colour) stack"
proof -
  let ?c = "AList.update node Black colour"
  from assms(1) have grey: "map_of colour x = Some Grey \<longleftrightarrow> x = node \<or> x \<in> fst ` set stack" for x
    by (simp add: search_inv_def)
  have node: "map_of colour node = Some Grey" "node \<notin> fst ` set stack"
    using assms(1) grey by (simp_all add: search_inv_def)
  have closed: "map_of colour x = Some Black \<Longrightarrow> (x, y) \<in> arcs edges colour \<Longrightarrow> map_of colour y = Some Black" for x y
    using assms(1) by (simp add: search_inv_def)
  have finished: "map_of colour y = Some Black" if "(node, y) \<in> arcs edges colour" for y
    using assms that scan_Exhausted [OF assms(2)] by (fastforce simp: search_inv_def arcs_def)
  have arcs: "arcs edges ?c = arcs edges colour" using node by simp
  have "black_arcs edges ?c = black_arcs edges colour \<union> {(x, y). x = node \<and> (node, y) \<in> arcs edges colour}"
    using finished closed node by (auto simp: black_arcs_def arcs map_of_update split: if_splits)
  moreover have "acyclic \<dots>"
  proof (rule acyclic_insert_source)
    show "acyclic (black_arcs edges colour)" using assms(1) by (simp add: search_inv_def)
    show "y \<noteq> node" if "(x, y) \<in> black_arcs edges colour" for x y
      using that node by (auto simp: black_arcs_def)
    show "x = node \<and> y \<noteq> node" if "(x, y) \<in> {(x, y). x = node \<and> (node, y) \<in> arcs edges colour}" for x y
      using that finished [of y] node by auto
  qed
  moreover have "map_of ?c x = Some Grey \<longleftrightarrow> x \<in> fst ` set stack" for x
    using grey [of x] node by (auto simp: map_of_update)
  moreover have "map_of ?c x = Some Black \<and> (x, y) \<in> arcs edges ?c \<longrightarrow> map_of ?c y = Some Black" for x y
    using closed [of x y] finished [of y] by (auto simp: map_of_update arcs split: if_splits)
  moreover have "frames_ok edges ?c None stack"
    using assms(1) by (intro frames_ok_black) (simp add: search_inv_def)
  ultimately show ?thesis using assms(1) by (simp add: search_inv_def)
qed

lemma inv_grey:
  assumes "search_inv edges colour ((node, children) # stack)" "scan_children colour children = FoundWhite child rest"
  shows "search_inv edges (AList.update child Grey colour) ((child, succs edges child) # (node, rest) # stack)"
proof -
  let ?c = "AList.update child Grey colour"
  note found = scan_FoundWhite [OF assms(2)]
  have grey: "map_of colour x = Some Grey \<longleftrightarrow> x = node \<or> x \<in> fst ` set stack" for x
    using assms(1) by (simp add: search_inv_def)
  have new: "child \<noteq> node" "child \<notin> fst ` set stack"
    using grey [of child] found by auto
  have arcs: "arcs edges ?c = arcs edges colour" using found by simp
  have "black_arcs edges ?c = black_arcs edges colour"
    using found by (auto simp: black_arcs_def arcs map_of_update split: if_splits)
  moreover have "map_of ?c x = Some Grey \<longleftrightarrow> x \<in> fst ` set ((child, succs edges child) # (node, rest) # stack)" for x
    using grey [of x] by (auto simp: map_of_update)
  moreover have "map_of ?c x = Some Black \<and> (x, y) \<in> arcs edges ?c \<longrightarrow> map_of ?c y = Some Black" for x y
    using assms(1) found by (auto simp: search_inv_def arcs map_of_update split: if_splits)
  moreover have "frames_ok edges ?c (Some node) stack"
    using assms(1) found by (intro frames_ok_grey) (simp_all add: search_inv_def)
  moreover have "frames_ok edges ?c (Some child) [(node, rest)]"
    using assms(1) found by (auto simp: search_inv_def map_of_update)
  ultimately show ?thesis
    using assms(1) new found by (auto simp: search_inv_def map_of_update)
qed

section \<open>Correctness\<close>

definition cyclic_path :: "adjacency \<Rightarrow> str list \<Rightarrow> bool" where
  "cyclic_path edges p \<longleftrightarrow>
     2 \<le> length p \<and> hd p = last p \<and> (\<forall>n < length p - 1. p ! Suc n \<in> set (succs edges (p ! n)))"

text \<open>The stack from bottom to top is a path.\<close>

lemma frames_path:
  "frames_ok edges colour upper stack \<Longrightarrow> Suc n < length stack \<Longrightarrow>
     fst (stack ! n) \<in> set (succs edges (fst (stack ! Suc n)))"
proof (induction edges colour upper stack arbitrary: n rule: frames_ok.induct)
  case (2 edges colour upper node rest stack)
  then show ?case
    by (cases n; cases stack) auto
qed simp

lemma dom_update: "map_of al k \<noteq> None \<Longrightarrow> dom (map_of (AList.update k v al)) = dom (map_of al)"
  by (auto simp: map_of_update dom_def split: if_splits)

lemma search_Inr:
  assumes "search edges colour stack = Inr colour'" "search_inv edges colour stack"
  shows "search_inv edges colour' [] \<and> dom (map_of colour') = dom (map_of colour)
    \<and> (\<forall>x. map_of colour x = Some Black \<or> x \<in> fst ` set stack \<longrightarrow> map_of colour' x = Some Black)"
  using assms
proof (induction edges colour stack rule: search.induct)
  case (1 edges colour)
  then show ?case by simp
next
  case (2 edges colour node children stack)
  note inv = 2(4)
  have node: "map_of colour node = Some Grey" using inv by (simp add: search_inv_def)
  show ?case
  proof (cases "scan_children colour children")
    case (FoundGrey child)
    with 2(3) show ?thesis by simp
  next
    case (FoundWhite child rest)
    have white: "map_of colour child = Some White" using FoundWhite scan_white by blast
    have "search edges (AList.update child Grey colour) ((child, succs edges child) # (node, rest) # stack) = Inr colour'"
      using 2(3) FoundWhite by simp
    note IH = 2(1) [OF FoundWhite this inv_grey [OF inv FoundWhite]]
    have "map_of colour' x = Some Black" if "map_of colour x = Some Black" for x
    proof -
      have "map_of (AList.update child Grey colour) x = Some Black" using that white by (auto simp: map_of_update)
      with IH show ?thesis by blast
    qed
    with IH white show ?thesis by (simp add: dom_update)
  next
    case Exhausted
    have "search edges (AList.update node Black colour) stack = Inr colour'"
      using 2(3) Exhausted by simp
    note IH = 2(2) [OF Exhausted this inv_black [OF inv Exhausted]]
    have "map_of colour' x = Some Black" if "map_of colour x = Some Black \<or> x = node" for x
    proof -
      have "map_of (AList.update node Black colour) x = Some Black" using that by (auto simp: map_of_update)
      with IH show ?thesis by blast
    qed
    with IH node show ?thesis by (simp add: dom_update)
  qed
qed

lemma search_Inl:
  assumes "search edges colour stack = Inl p" "search_inv edges colour stack"
  shows "cyclic_path edges p"
  using assms
proof (induction edges colour stack rule: search.induct)
  case (1 edges colour)
  then show ?case by simp
next
  case (2 edges colour node children stack)
  note inv = 2(4)
  show ?case
  proof (cases "scan_children colour children")
    case (FoundGrey child)
    let ?s = "(node, children) # stack"
    have grey: "child \<in> set (map fst ?s)" and child: "child \<in> set (succs edges node)"
      using scan_FoundGrey [OF FoundGrey] inv by (auto simp: search_inv_def)
    define r where "r = rev (map fst ?s)"
    have step: "r ! Suc n \<in> set (succs edges (r ! n))" if "Suc n < length r" for n
    proof -
      have len: "length r = length ?s" by (simp add: r_def)
      let ?m = "length ?s - Suc (Suc n)"
      have "Suc ?m < length ?s" using that len by simp
      then have "fst (?s ! ?m) \<in> set (succs edges (fst (?s ! Suc ?m)))"
        using inv by (intro frames_path [of edges colour None]) (simp_all add: search_inv_def del: frames_ok.simps)
      moreover have "Suc ?m = length ?s - Suc n" using that len by simp
      ultimately show ?thesis
        using that len unfolding r_def by (simp add: rev_nth del: list.map)
    qed
    have p: "p = dropWhile (\<lambda>x. x \<noteq> child) r @ [child]"
      using 2(3) FoundGrey by (simp add: cycle_path_def r_def)
    obtain us vs where r: "r = us @ child # vs" "child \<notin> set us"
      using grey by (metis r_def set_rev split_list_first)
    have dw: "dropWhile (\<lambda>x. x \<noteq> child) r = child # vs"
      using r by (subst r(1)) (auto simp: dropWhile_append3)
    have last: "last (child # vs) = node"
    proof -
      have "last r = node" by (simp add: r_def)
      then show ?thesis by (simp add: r(1))
    qed
    have "(child # vs @ [child]) ! Suc n \<in> set (succs edges ((child # vs @ [child]) ! n))" if "n < Suc (length vs)" for n
    proof (cases "n = length vs")
      case True
      have "(child # vs @ [child]) ! n = node" using last True by (metis append_Cons last_conv_nth length_Cons
          list.discI nth_append diff_Suc_1 lessI)
      with True child show ?thesis by (simp add: nth_append)
    next
      case False
      with that have n: "n < length vs" by simp
      have "r ! Suc (length us + n) \<in> set (succs edges (r ! (length us + n)))"
        by (rule step) (use n in \<open>simp add: r(1)\<close>)
      moreover have "r ! Suc (length us + n) = vs ! n" by (simp add: r(1) nth_append)
      moreover have "r ! (length us + n) = (child # vs) ! n" by (simp add: r(1) nth_append)
      moreover have "(child # vs @ [child]) ! n = (child # vs) ! n" using n by (cases n) (simp_all add: nth_append)
      ultimately show ?thesis using n by (simp add: nth_append)
    qed
    then show ?thesis by (simp add: cyclic_path_def p dw)
  next
    case (FoundWhite child rest)
    with 2 show ?thesis by (auto intro: inv_grey)
  next
    case Exhausted
    with 2 show ?thesis by (auto intro: inv_black)
  qed
qed

section \<open>The whole graph\<close>

definition graph :: "adjacency \<Rightarrow> (str \<times> str) set" where
  "graph edges = {(x, y). y \<in> set (succs edges x)}"

lemma cyclic_path_cycle:
  assumes "cyclic_path edges p"
  shows "\<not> acyclic (graph edges)"
proof -
  have len: "2 \<le> length p" and ends: "hd p = last p"
    and step: "Suc n < length p \<Longrightarrow> (p ! n, p ! Suc n) \<in> graph edges" for n
    using assms by (auto simp: cyclic_path_def graph_def)
  have "Suc n < length p \<Longrightarrow> (p ! 0, p ! Suc n) \<in> (graph edges)\<^sup>+" for n
    by (induction n) (auto intro: step trancl.trancl_into_trancl)
  from this [of "length p - 2"] len have "(p ! 0, p ! (length p - 1)) \<in> (graph edges)\<^sup>+"
    by (simp add: numeral_2_eq_2 Suc_diff_Suc)
  moreover have "p ! (length p - 1) = p ! 0"
    using len ends by (metis hd_conv_nth last_conv_nth list.size(3) not_numeral_le_zero)
  ultimately show ?thesis by (auto simp: acyclic_def)
qed

lemma acyclic_arcs:
  assumes "acyclic (arcs edges colour)" "dom (map_of colour) = fst ` set edges"
  shows "acyclic (graph edges)"
proof -
  have key: "map_of colour x \<noteq> None" if "y \<in> set (succs edges x)" for x y
  proof -
    have "x \<in> fst ` set edges"
      using that by (cases "map_of edges x") (auto simp: succs_def dest!: map_of_SomeD intro: rev_image_eqI)
    with assms(2) show ?thesis by blast
  qed
  have "(x, y) \<in> (arcs edges colour)\<^sup>+" if "(x, y) \<in> (graph edges)\<^sup>+" "map_of colour y \<noteq> None" for x y
    using that
  proof (induction rule: trancl.induct)
    case (r_into_trancl a b)
    then show ?case using key [of b a] by (auto simp: graph_def arcs_def)
  next
    case (trancl_into_trancl a b c)
    then have "map_of colour b \<noteq> None" "(b, c) \<in> arcs edges colour"
      using key [of c b] by (auto simp: graph_def arcs_def)
    with trancl_into_trancl show ?case by (auto intro: trancl.trancl_into_trancl)
  qed
  moreover have "map_of colour x \<noteq> None" if "(x, y) \<in> (graph edges)\<^sup>+" for x y
    using that key by (auto dest!: tranclD simp: graph_def)
  ultimately show ?thesis using assms(1) unfolding acyclic_def by meson
qed

lemma inv_start:
  assumes "search_inv edges colour []" "map_of colour start = Some White"
  shows "search_inv edges (AList.update start Grey colour) [(start, succs edges start)]"
proof -
  have "black_arcs edges (AList.update start Grey colour) = black_arcs edges colour"
    using assms(2) by (auto simp: black_arcs_def map_of_update split: if_splits)
  with assms show ?thesis
    by (auto simp: search_inv_def map_of_update split: if_splits)
qed

lemma search_all_Some:
  "search_all edges colour starts = Some p \<Longrightarrow> search_inv edges colour [] \<Longrightarrow> cyclic_path edges p"
proof (induction edges colour starts rule: search_all.induct)
  case (2 edges colour start rest)
  show ?case
  proof (cases "map_of colour start = Some White")
    case True
    show ?thesis
    proof (cases "search edges (AList.update start Grey colour) [(start, succs edges start)]")
      case (Inl q)
      with 2(3) True have "q = p" by simp
      with search_Inl [OF Inl inv_start [OF 2(4) True]] show ?thesis by simp
    next
      case (Inr colour')
      with True 2(3) have "search_all edges colour' rest = Some p" by simp
      with 2(2) [of colour'] True Inr search_Inr [OF Inr inv_start [OF 2(4) True]] show ?thesis by simp
    qed
  next
    case False
    with 2 show ?thesis by simp
  qed
qed simp

lemma search_all_None:
  "search_all edges colour starts = None \<Longrightarrow> search_inv edges colour [] \<Longrightarrow>
     \<exists>colour'. search_inv edges colour' [] \<and> dom (map_of colour') = dom (map_of colour)
       \<and> (\<forall>x. map_of colour x = Some Black \<or> (x \<in> set starts \<and> map_of colour x \<noteq> None) \<longrightarrow> map_of colour' x = Some Black)"
proof (induction edges colour starts rule: search_all.induct)
  case (2 edges colour start rest)
  show ?case
  proof (cases "map_of colour start = Some White")
    case True
    obtain c where c: "search edges (AList.update start Grey colour) [(start, succs edges start)] = Inr c"
      using 2(3) True by (cases "search edges (AList.update start Grey colour) [(start, succs edges start)]") simp_all
    note found = search_Inr [OF c inv_start [OF 2(4) True]]
    have dom: "dom (map_of c) = dom (map_of colour)" using found True by (simp add: dom_update)
    obtain c' where c': "search_inv edges c' []" "dom (map_of c') = dom (map_of c)"
        "\<forall>x. map_of c x = Some Black \<or> (x \<in> set rest \<and> map_of c x \<noteq> None) \<longrightarrow> map_of c' x = Some Black"
      using 2(2) [OF _ c] 2(3) True c found by auto
    have "map_of c x = Some Black" if "map_of colour x = Some Black" for x
      using that True found by (auto simp: map_of_update split: if_splits)
    moreover have "map_of c start = Some Black" using found by simp
    moreover have "map_of c x \<noteq> None" if "map_of colour x \<noteq> None" for x
      using that dom by (metis domIff)
    ultimately show ?thesis using c' dom by (intro exI [of _ c']) auto
  next
    case False
    have start: "map_of colour start = Some Black" if "map_of colour start \<noteq> None"
      using that False 2(4) by (cases "the (map_of colour start)") (auto simp: search_inv_def)
    obtain c' where c': "search_inv edges c' []" "dom (map_of c') = dom (map_of colour)"
        "\<forall>x. map_of colour x = Some Black \<or> (x \<in> set rest \<and> map_of colour x \<noteq> None) \<longrightarrow> map_of c' x = Some Black"
      using 2(1) 2(3,4) False by auto
    with start show ?thesis by (intro exI [of _ c']) auto
  qed
qed auto

lemma search_all_iff:
  assumes "distinct (map fst edges)"
  shows "search_all edges (map (\<lambda>(m, ts). (m, White)) edges) (sort (map fst edges)) = None
    \<longleftrightarrow> acyclic (graph edges)"
proof -
  let ?c = "map (\<lambda>(m, ts). (m, White)) edges"
  have white: "map_of ?c x = (if x \<in> fst ` set edges then Some White else None)" for x
    by (induction edges) auto
  then have dom: "dom (map_of ?c) = fst ` set edges"
    by (simp only: dom_def white) (simp split: if_splits)
  have inv: "search_inv edges ?c []"
    by (auto simp: search_inv_def white black_arcs_def acyclic_def split: if_splits)
  show ?thesis
  proof
    assume "search_all edges ?c (sort (map fst edges)) = None"
    then obtain c where c: "search_inv edges c []" "dom (map_of c) = dom (map_of ?c)"
        "\<forall>x. map_of ?c x = Some Black \<or> (x \<in> set (sort (map fst edges)) \<and> map_of ?c x \<noteq> None)
          \<longrightarrow> map_of c x = Some Black"
      using search_all_None [OF _ inv] by blast
    have "map_of c x = Some Black" if "map_of c x \<noteq> None" for x
    proof -
      have "x \<in> fst ` set edges" using that c(2) dom by blast
      with c(3) show ?thesis by (simp add: white)
    qed
    then have "black_arcs edges c = arcs edges c" by (auto simp: black_arcs_def arcs_def)
    with c(1,2) dom show "acyclic (graph edges)"
      by (intro acyclic_arcs [of edges c]) (simp_all add: search_inv_def)
  next
    assume "acyclic (graph edges)"
    then show "search_all edges ?c (sort (map fst edges)) = None"
      using search_all_Some [OF _ inv] cyclic_path_cycle by (cases "search_all edges ?c (sort (map fst edges))") auto
  qed
qed

section \<open>The dependencies of the Missions\<close>

definition depends :: "(str \<times> json) list \<Rightarrow> (str \<times> str) set" where
  "depends states = {(m, t). \<exists>state. (m, state) \<in> set states \<and> t \<in> set (mission_targets state)}"

lemma build_edges_Inl: "build_edges states = Inl p \<Longrightarrow> \<exists>m. (m, m) \<in> depends states"
  by (induction states rule: build_edges.induct) (auto simp: depends_def split: if_splits sum.splits)

lemma build_edges_Inr:
  "build_edges states = Inr edges \<Longrightarrow> map fst edges = map fst states
     \<and> (distinct (map fst states) \<longrightarrow> graph edges = depends states)"
proof (induction states arbitrary: edges rule: build_edges.induct)
  case 1
  then show ?case by (auto simp: graph_def depends_def succs_def)
next
  case (2 m state rest)
  then obtain es where es: "build_edges rest = Inr es" "edges = (m, sort (remdups (mission_targets state))) # es"
    and no_self: "m \<notin> set (mission_targets state)"
    by (auto split: if_splits sum.splits)
  have IH: "map fst es = map fst rest" "distinct (map fst rest) \<Longrightarrow> graph es = depends rest"
    using 2(1) [OF no_self es(1)] by auto
  show ?case
  proof (intro conjI impI)
    show "map fst edges = map fst ((m, state) # rest)" by (simp add: es(2) IH(1))
    assume d: "distinct (map fst ((m, state) # rest))"
    then have g: "graph es = depends rest" and new: "m \<notin> fst ` set rest" using IH(2) by auto
    have "succs edges x = (if x = m then sort (remdups (mission_targets state)) else succs es x)" for x
      by (simp add: succs_def es(2))
    then have "graph edges = {(x, y). x = m \<and> y \<in> set (mission_targets state)} \<union> {(x, y) \<in> graph es. x \<noteq> m}"
      by (auto simp: graph_def split: if_splits)
    also have "{(x, y) \<in> graph es. x \<noteq> m} = depends rest"
      unfolding g using new by (auto simp: depends_def intro: rev_image_eqI)
    also have "{(x, y). x = m \<and> y \<in> set (mission_targets state)} \<union> depends rest = depends ((m, state) # rest)"
      by (auto simp: depends_def)
    finally show "graph edges = depends ((m, state) # rest)" .
  qed
qed

lemma acyclic_no_self: "acyclic r \<Longrightarrow> (x, x) \<notin> r"
  by (auto simp: acyclic_def)

lemma dependency_graph_iff:
  assumes "distinct (map fst states)"
  shows "dependency_graph_problem states = None \<longleftrightarrow> acyclic (depends states)"
proof -
  let ?s = "sort_key fst states"
  have same: "depends ?s = depends states" by (simp add: depends_def)
  have d: "distinct (map fst ?s)" using assms by (simp add: distinct_map)
  show ?thesis
  proof (cases "build_edges ?s")
    case (Inl p)
    then show ?thesis
      using build_edges_Inl [OF Inl] acyclic_no_self [of "depends states"]
      by (simp add: dependency_graph_problem_def same) blast
  next
    case (Inr edges)
    with build_edges_Inr [OF Inr] d have "distinct (map fst edges)" "graph edges = depends states"
      by (simp_all add: same)
    with search_all_iff [of edges] Inr show ?thesis
      by (cases "search_all edges (map (\<lambda>(m, ts). (m, White)) edges) (sort (map fst edges))")
        (simp_all add: dependency_graph_problem_def)
  qed
qed

end
