(* ===== verification/MissionStore.thy ===== *)
theory MissionStore
  imports Replay DependencyGraph Store
begin

text \<open>
  \<open>mission/store.py\<close>: the one document that holds the Missions, the authorizations, the ledger
  and the reservations, its validation on every load and save, and the protected directory. The
  validation of one Mission State record (\<open>_validate_mission_state\<close>) is a parameter.
\<close>

abbreviation UNREADABLE :: exn where "UNREADABLE \<equiv> MissionStoreError ''mission_store_unreadable''"
abbreviation STORE_FULL :: exn where "STORE_FULL \<equiv> MissionStoreError ''mission_store_full''"

definition MISSION_STORE_SCHEMA_VERSION :: int where "MISSION_STORE_SCHEMA_VERSION = 1"
definition MAX_MISSION_RECORDS :: nat where "MAX_MISSION_RECORDS = 1024"
definition MAX_AUTHORIZATION_RECORDS :: nat where "MAX_AUTHORIZATION_RECORDS = 4096"
definition MAX_AUTHORITY_LEDGER_ENTRIES :: nat where "MAX_AUTHORITY_LEDGER_ENTRIES = 16384"
definition MAX_MISSION_STATE_RECORDS :: nat where "MAX_MISSION_STATE_RECORDS = 1024"

definition MISSION_TOP_LEVEL_KEYS :: "str list" where
  "MISSION_TOP_LEVEL_KEYS =
     [''mission_store_schema_version'', ''missions'', ''authorizations'', ''authority_ledger'', ''reservations'',
      ''mission_state'']"

definition RESERVATION_CAPS :: "str \<Rightarrow> nat" where
  "RESERVATION_CAPS kind = (if kind = ''state_operation'' then 65536 else 4096)"

definition mission_default_document :: json where
  "mission_default_document = JObj
     [(''mission_store_schema_version'', JInt MISSION_STORE_SCHEMA_VERSION), (''missions'', JObj []),
      (''authorizations'', JObj []), (''authority_ledger'', JList []), (''reservations'', JObj []),
      (''mission_state'', JObj [])]"

definition validate_reservation :: "json \<Rightarrow> check" where
  "validate_reservation value =
     (let kind = str_of (jget ''kind'' value); consumed = jget ''consumed_by'' value in
      checks
        [require_dict_m value,
         require_closed_keys_m value [''reserved_at'', ''kind'', ''context'', ''consumed_by''] [],
         require_timestamp_m (jget ''reserved_at'' value),
         require_member_m (jget ''kind'' value) REFERENCE_KINDS BAD_VALUE,
         (case context_from_dict (jget ''context'' value) of
            Inl e \<Rightarrow> Some e
          | Inr ctxt \<Rightarrow>
              if kind = ''decision'' then require_decision_reservation_context ctxt
              else if kind \<noteq> ''request'' then require_authenticated_context ctxt
              else None),
         (if consumed = JNull then None
          else require_id_m consumed (if kind = ''request'' then MISSION_ID_PREFIX else REFERENCE_PREFIXES kind))])"

definition held :: "str \<Rightarrow> json \<Rightarrow> nat" where
  "held kind document =
     length (filter (\<lambda>(i, r). jget ''kind'' r = JStr kind) (members ''reservations'' document))"

definition is_consumed :: "json \<Rightarrow> json \<Rightarrow> str \<Rightarrow> json \<Rightarrow> bool" where
  "is_consumed document reserved_id kind consumed_by =
     (case map_of (members ''reservations'' document) (str_of reserved_id) of
        None \<Rightarrow> False
      | Some r \<Rightarrow> jget ''kind'' r = JStr kind \<and> jget ''consumed_by'' r = consumed_by)"

definition validate_stored_mission :: "host \<Rightarrow> json \<Rightarrow> json list \<Rightarrow> str \<times> json \<Rightarrow> check" where
  "validate_stored_mission h document seen entry =
     (case entry of (mission_id, mission) \<Rightarrow> checks
        [validate_mission_record h mission,
         require (jget ''mission_id'' mission = JStr mission_id) UNREADABLE,
         require (jget ''request_id'' mission \<notin> set seen) UNREADABLE,
         require (is_consumed document (jget ''request_id'' mission) ''request'' (JStr mission_id)) UNREADABLE,
         require (list_all (\<lambda>d. is_consumed document (jget ''decision_id'' d) ''decision'' (jget ''decision_id'' d))
           (mission_decisions mission)) UNREADABLE,
         require (list_all (\<lambda>i. authorization_at document (str_of i) \<noteq> JNull
             \<and> jget ''mission_id'' (authorization_at document (str_of i)) = JStr mission_id)
           (jlist ''authorization_ids'' mission)) UNREADABLE])"

fun validate_stored_missions :: "host \<Rightarrow> json \<Rightarrow> json list \<Rightarrow> (str \<times> json) list \<Rightarrow> check" where
  "validate_stored_missions h document seen [] = None"
| "validate_stored_missions h document seen (entry # rest) = checks
     [validate_stored_mission h document seen entry,
      validate_stored_missions h document (jget ''request_id'' (snd entry) # seen) rest]"

definition validate_stored_authorization :: "host \<Rightarrow> json \<Rightarrow> str \<times> json \<Rightarrow> check" where
  "validate_stored_authorization h document entry =
     (case entry of (authorization_id, authorization) \<Rightarrow>
        let mission = mission_at document (jget ''mission_id'' authorization) in
        checks
          [validate_authorization_record h authorization,
           require (jget ''authorization_id'' authorization = JStr authorization_id) UNREADABLE,
           require (mission \<noteq> JNull \<and> JStr authorization_id \<in> set (jlist ''authorization_ids'' mission)) UNREADABLE,
           require (revision_entry mission (jget ''revision'' authorization) \<noteq> None) UNREADABLE])"

fun validate_stored_ledger :: "json \<Rightarrow> json list \<Rightarrow> json list \<Rightarrow> check" where
  "validate_stored_ledger document seen [] = None"
| "validate_stored_ledger document seen (entry # rest) = checks
     [validate_ledger_entry entry,
      require (jget ''entry_id'' entry \<notin> set seen) UNREADABLE,
      require (mission_at document (jget ''mission_id'' entry) \<noteq> JNull) UNREADABLE,
      require (jget ''authorization_id'' entry \<noteq> JNull
               \<longrightarrow> authorization_at document (str_of (jget ''authorization_id'' entry)) \<noteq> JNull) UNREADABLE,
      validate_stored_ledger document (jget ''entry_id'' entry # seen) rest]"

definition revision_identities :: "json \<Rightarrow> bool" where
  "revision_identities mission \<longleftrightarrow>
     require_int_m (jget ''current_revision'' mission) (Some 1) = None
     \<and> list_all (\<lambda>entry. require_int_m (jget ''revision'' entry) (Some 1) = None) (jlist ''revisions'' mission)"

definition as_mission_store_error :: "check \<Rightarrow> check" where
  "as_mission_store_error c =
     (case c of
        Some (MissionError p) \<Rightarrow> Some (if p = ''mission_state_full'' then STORE_FULL else UNREADABLE)
      | _ \<Rightarrow> c)"

type_synonym state_check = "json \<Rightarrow> str \<times> json \<Rightarrow> check"

definition validate_mission_document :: "host \<Rightarrow> state_check \<Rightarrow> json \<Rightarrow> check" where
  "validate_mission_document h state_check document =
     (let version = jget ''mission_store_schema_version'' document; missions = members ''missions'' document;
          authorizations = members ''authorizations'' document; ledger = jget ''authority_ledger'' document;
          reservations = members ''reservations'' document in
      as_mission_store_error (checks
        [require (is_obj document) UNREADABLE,
         require (version = JInt MISSION_STORE_SCHEMA_VERSION) UNREADABLE,
         require (list_all (\<lambda>k. k \<in> set MISSION_TOP_LEVEL_KEYS) (jkeys document)) UNREADABLE,
         require (list_all (\<lambda>k. k \<in> set (jkeys document)) MISSION_TOP_LEVEL_KEYS) UNREADABLE,
         require (is_obj (jget ''missions'' document) \<and> is_obj (jget ''authorizations'' document) \<and> is_list ledger
                  \<and> is_obj (jget ''reservations'' document) \<and> is_obj (jget ''mission_state'' document)) UNREADABLE,
         require (length missions \<le> MAX_MISSION_RECORDS) STORE_FULL,
         require (length authorizations \<le> MAX_AUTHORIZATION_RECORDS) STORE_FULL,
         require (length (list_of ledger) \<le> MAX_AUTHORITY_LEDGER_ENTRIES) STORE_FULL,
         checks (map (\<lambda>(i, r). checks
           [validate_reservation r, require_id_m (JStr i) (REFERENCE_PREFIXES (str_of (jget ''kind'' r)))]) reservations),
         require (list_all (\<lambda>kind. held kind document \<le> RESERVATION_CAPS kind) REFERENCE_KINDS) STORE_FULL,
         require (length (members ''mission_state'' document) \<le> MAX_MISSION_STATE_RECORDS) STORE_FULL,
         validate_stored_missions h document [] missions,
         checks (map (validate_stored_authorization h document) authorizations),
         validate_stored_ledger document [] (list_of ledger),
         require (list_all (\<lambda>(i, m). revision_identities m) missions) UNREADABLE,
         checks (map (state_check document) (members ''mission_state'' document)),
         require (dependency_graph_problem (members ''mission_state'' document) = None) UNREADABLE,
         require (reconcile_registry document = None) UNREADABLE,
         require (list_all (\<lambda>(i, m). reconcile_mission_history document m = None) missions) UNREADABLE]))"

text \<open>The one compatibility rule: a document without \<open>mission_state\<close> loads with an empty one.\<close>

definition accept_loaded_document :: "host \<Rightarrow> state_check \<Rightarrow> json \<Rightarrow> exn + json" where
  "accept_loaded_document h state_check document =
     (let d = (if is_obj document \<and> \<not> jhas ''mission_state'' document
               then jput ''mission_state'' (JObj []) document else document) in
      guard_check (validate_mission_document h state_check d) (Inr d))"

section \<open>The file and its directory\<close>

datatype store_dir = DirAbsent | NotADirectory | Directory nat

record 'w msys =
  m_dir :: store_dir
  m_file :: stored_file
  m_world :: 'w

definition refuse_open_directory :: "store_dir \<Rightarrow> check" where
  "refuse_open_directory d =
     (case d of
        DirAbsent \<Rightarrow> None
      | NotADirectory \<Rightarrow> Some UNREADABLE
      | Directory permissions \<Rightarrow> require (\<not> open_permissions permissions) UNREADABLE)"

definition mission_load :: "host \<Rightarrow> state_check \<Rightarrow> stored_file \<Rightarrow> exn + json" where
  "mission_load h state_check f =
     (case f of
        Absent \<Rightarrow> Inr mission_default_document
      | File permissions content \<Rightarrow>
          if open_permissions permissions then Inl UNREADABLE
          else (case content of
                  None \<Rightarrow> Inl UNREADABLE
                | Some document \<Rightarrow> accept_loaded_document h state_check document))"

definition mission_save :: "host \<Rightarrow> state_check \<Rightarrow> json \<Rightarrow> exn + stored_file" where
  "mission_save h state_check document =
     guard_check (validate_mission_document h state_check document) (Inr (File 384 (Some document)))"

text \<open>\<open>os.makedirs(directory, mode=0o700, exist_ok=True)\<close>.\<close>

definition make_directory :: "('w msys, unit) act" where
  "make_directory = modify (\<lambda>s. if m_dir s = DirAbsent then s\<lparr>m_dir := Directory 448\<rparr> else s)"

definition mission_lock :: "('w msys, unit) act" where
  "mission_lock = bnd get_state (\<lambda>s. seq (of_check (refuse_open_directory (m_dir s))) make_directory)"

definition load_missions :: "host \<Rightarrow> state_check \<Rightarrow> ('w msys, json) act" where
  "load_missions h state_check =
     bnd get_state (\<lambda>s. seq (of_check (refuse_open_directory (m_dir s)))
       (of_result (mission_load h state_check (m_file s))))"

definition save_missions :: "host \<Rightarrow> state_check \<Rightarrow> json \<Rightarrow> ('w msys, unit) act" where
  "save_missions h state_check document =
     bnd get_state (\<lambda>s. seq (of_check (refuse_open_directory (m_dir s)))
       (bnd (of_result (mission_save h state_check document))
          (\<lambda>f. seq make_directory (modify (\<lambda>s. s\<lparr>m_file := f\<rparr>)))))"

lemma checks_mission_store: "as_mission_store_error c = None \<longleftrightarrow> c = None"
  by (auto simp: as_mission_store_error_def split: option.splits exn.splits)

lemma default_missions_valid: "validate_mission_document h state_check mission_default_document = None"
  by (simp add: validate_mission_document_def Let_def checks_mission_store checks_simps mission_default_document_def
      members_def MISSION_TOP_LEVEL_KEYS_def held_def reconcile_registry_def list_all_iff
      dependency_graph_problem_def)

lemma has_state: "validate_mission_document h state_check d = None \<Longrightarrow> jhas ''mission_state'' d"
  by (auto simp: validate_mission_document_def Let_def checks_mission_store checks_simps MISSION_TOP_LEVEL_KEYS_def
      jhas_def jkeys_def)

text \<open>The store keeps the laws of a document store.\<close>

interpretation ms: document_store "mission_load h state_check" "mission_save h state_check"
  "\<lambda>d. validate_mission_document h state_check d = None" for h state_check
proof (unfold_locales, goal_cases)
  case (1 d f)
  then show ?case
    by (auto simp: mission_load_def mission_save_def guard_check_Inr_iff open_permissions_def
        accept_loaded_document_def Let_def dest: has_state)
next
  case (2 d f)
  then show ?case by (auto simp: mission_save_def guard_check_Inr_iff)
next
  case (3 d)
  then show ?case by (simp add: mission_save_def)
next
  case (4 f d)
  then show ?case
    by (auto simp: mission_load_def accept_loaded_document_def Let_def guard_check_Inr_iff default_missions_valid
        split: stored_file.splits if_splits option.splits)
qed

end
