(* ===== verification/MissionService.thy ===== *)
theory MissionService
  imports MissionStore
begin

text \<open>
  \<open>mission/service.py\<close>, the proposals and the decisions: the reservation of identifiers, the
  proposal and its replay, the withdrawal, the three human decisions with their effects, the
  attested outcomes and their replay. An operation runs under the lock of the store, works on the
  document it loaded and saves it whole; it returns the JSON object that the code returns. The
  clock and the identifier minter are injected, as in the code.
\<close>

section \<open>The service\<close>

record 'w menv =
  me_host :: host
  me_state_check :: state_check
  me_clock :: "('w msys, json) act"
  me_mint :: "str \<Rightarrow> ('w msys, json) act"
  me_failures :: "json \<Rightarrow> json \<Rightarrow> json \<Rightarrow> exn + (str \<times> str) list"

abbreviation service_problem :: "str \<Rightarrow> exn" where "service_problem p \<equiv> MissionError p"

definition mission_now :: "'w menv \<Rightarrow> ('w msys, json) act" where
  "mission_now env = bnd (me_clock env) (\<lambda>t. seq (of_check (require_timestamp_m t)) (ret t))"

primrec fresh_tries :: "'w menv \<Rightarrow> str \<Rightarrow> str list \<Rightarrow> nat \<Rightarrow> ('w msys, json) act" where
  "fresh_tries env prefix taken 0 = throw ID_GRAMMAR"
| "fresh_tries env prefix taken (Suc n) =
     bnd (me_mint env prefix) (\<lambda>candidate. seq (of_check (require_id_m candidate prefix))
       (if str_of candidate \<notin> set taken then ret candidate else fresh_tries env prefix taken n))"

definition fresh_id :: "'w menv \<Rightarrow> str \<Rightarrow> str list \<Rightarrow> ('w msys, json) act" where
  "fresh_id env prefix taken = fresh_tries env prefix taken 8"

definition put_member :: "str \<Rightarrow> str \<Rightarrow> json \<Rightarrow> json \<Rightarrow> json" where
  "put_member k i value document = jput k (jput i value (jget k document)) document"

definition put_mission :: "json \<Rightarrow> json \<Rightarrow> json" where
  "put_mission mission = put_member ''missions'' (str_of (jget ''mission_id'' mission)) mission"

definition locked :: "'w menv \<Rightarrow> (json \<Rightarrow> ('w msys, 'a) act) \<Rightarrow> ('w msys, 'a) act" where
  "locked env body = seq mission_lock (bnd (load_missions (me_host env) (me_state_check env)) body)"

definition save :: "'w menv \<Rightarrow> json \<Rightarrow> ('w msys, unit) act" where
  "save env document = save_missions (me_host env) (me_state_check env) document"

definition require_reserving_context :: "str \<Rightarrow> caller_context \<Rightarrow> check" where
  "require_reserving_context kind ctxt =
     (if kind = ''decision'' then require_decision_reservation_context ctxt
      else if kind = ''request'' then require_context ctxt
      else require_authenticated_context ctxt)"

definition reservation_entry :: "json \<Rightarrow> str \<Rightarrow> json \<Rightarrow> json \<Rightarrow> json" where
  "reservation_entry reserved_at kind context consumed_by = JObj
     [(''reserved_at'', reserved_at), (''kind'', JStr kind), (''context'', context),
      (''consumed_by'', consumed_by)]"

definition reserve :: "'w menv \<Rightarrow> str \<Rightarrow> caller_context \<Rightarrow> ('w msys, json) act" where
  "reserve env kind ctxt =
     seq (of_check (require_reserving_context kind ctxt))
       (locked env (\<lambda>document.
          seq (ensure (held kind document < RESERVATION_CAPS kind) STORE_FULL)
            (bnd (fresh_id env (REFERENCE_PREFIXES kind) (map fst (members ''reservations'' document))) (\<lambda>reserved_id.
               bnd (mission_now env) (\<lambda>now.
                 seq (save env (put_member ''reservations'' (str_of reserved_id)
                        (reservation_entry now kind (context_dict ctxt) JNull) document))
                   (ret reserved_id))))))"

definition mint_request_id :: "'w menv \<Rightarrow> caller_context \<Rightarrow> ('w msys, json) act" where
  "mint_request_id env ctxt = reserve env ''request'' ctxt"

definition mint_decision_id :: "'w menv \<Rightarrow> caller_context \<Rightarrow> ('w msys, json) act" where
  "mint_decision_id env ctxt = reserve env ''decision'' ctxt"

definition reservation :: "json \<Rightarrow> json \<Rightarrow> str \<Rightarrow> caller_context \<Rightarrow> str \<Rightarrow> str \<Rightarrow> exn + json" where
  "reservation document reserved_id kind ctxt unknown_problem context_problem =
     (case map_of (members ''reservations'' document) (str_of reserved_id) of
        None \<Rightarrow> Inl (service_problem unknown_problem)
      | Some r \<Rightarrow>
          if jget ''kind'' r \<noteq> JStr kind then Inl (service_problem unknown_problem)
          else if \<not> py_eq (jget ''context'' r) (context_dict ctxt) then Inl (service_problem context_problem)
          else Inr r)"

definition consume :: "json \<Rightarrow> json \<Rightarrow> json \<Rightarrow> json" where
  "consume reserved_id consumer document =
     put_member ''reservations'' (str_of reserved_id)
       (jput ''consumed_by'' consumer (jget (str_of reserved_id) (jget ''reservations'' document))) document"

definition mission_of :: "json \<Rightarrow> json \<Rightarrow> exn + json" where
  "mission_of document mission_id =
     (if id_problem mission_id MISSION_ID_PREFIX \<or> mission_at document mission_id = JNull
      then Inl (service_problem PROBLEM_UNKNOWN_MISSION)
      else Inr (mission_at document mission_id))"

definition append_ledger ::
  "'w menv \<Rightarrow> str \<Rightarrow> json \<Rightarrow> json \<Rightarrow> json \<Rightarrow> json \<Rightarrow> json \<Rightarrow> str \<Rightarrow> json \<Rightarrow> ('w msys, json) act" where
  "append_ledger env kind now mission_id revision authorization_id decision_id reason document =
     (let ledger = jlist ''authority_ledger'' document in
      seq (ensure (length ledger < MAX_AUTHORITY_LEDGER_ENTRIES) STORE_FULL)
        (bnd (fresh_id env LEDGER_ENTRY_ID_PREFIX (map (\<lambda>e. str_of (jget ''entry_id'' e)) ledger)) (\<lambda>entry_id.
           bnd (of_result (new_ledger_entry entry_id kind now mission_id revision authorization_id decision_id reason))
             (\<lambda>entry. ret (jput ''authority_ledger'' (JList (ledger @ [entry])) document)))))"

text \<open>The authorizations recorded as expired are read once, before the loop.\<close>

definition expiry_due :: "json \<Rightarrow> json \<Rightarrow> json \<Rightarrow> bool" where
  "expiry_due document now i =
     (let authorization = authorization_at document (str_of i); expires = jget ''expires_at'' authorization in
      \<not> (expires = JNull \<or> int_of_json now < int_of_json expires
         \<or> bool_of (jget ''revoked'' (jget ''revocation'' authorization))
         \<or> (\<exists>e \<in> set (jlist ''authority_ledger'' document).
              jget ''kind'' e = JStr ''EXPIRED'' \<and> jget ''authorization_id'' e = i)))"

fun note_each :: "'w menv \<Rightarrow> json \<Rightarrow> json \<Rightarrow> json list \<Rightarrow> json \<Rightarrow> ('w msys, json) act" where
  "note_each env mission now [] document = ret document"
| "note_each env mission now (i # rest) document =
     bnd (append_ledger env ''EXPIRED'' now (jget ''mission_id'' mission)
            (jget ''revision'' (authorization_at document (str_of i))) i JNull ''expires_at passed'' document)
       (note_each env mission now rest)"

definition note_expirations :: "'w menv \<Rightarrow> json \<Rightarrow> json \<Rightarrow> json \<Rightarrow> ('w msys, json) act" where
  "note_expirations env mission now document =
     note_each env mission now (filter (expiry_due document now) (jlist ''authorization_ids'' mission)) document"

section \<open>The proposal\<close>

definition propose_outcome :: "json \<Rightarrow> json \<Rightarrow> bool \<Rightarrow> json" where
  "propose_outcome mission request_id idempotent =
     (let entry = current_revision_entry mission in JObj
        [(''mission_id'', jget ''mission_id'' mission), (''revision'', jget ''revision'' entry),
         (''state'', jget ''state'' mission), (''request_id'', request_id), (''idempotent'', JBool idempotent),
         (''proposal'', jget ''proposal'' entry),
         (''proposal_digest_sha256'', jget ''proposal_digest_sha256'' entry)])"

definition propose_replay :: "json \<Rightarrow> json \<Rightarrow> str \<Rightarrow> json \<Rightarrow> json \<Rightarrow> exn + json" where
  "propose_replay mission request_id digest key_digest key_expires_at =
     (if jget ''proposal_digest_sha256'' (first_revision mission) \<noteq> JStr digest
         \<or> jget ''withdrawal_key_digest_sha256'' mission \<noteq> key_digest
         \<or> \<not> py_eq (jget ''withdrawal_key_expires_at'' mission) key_expires_at
      then Inl (service_problem ''mission_request_id_conflict'')
      else Inr (propose_outcome mission request_id True))"

definition propose_new ::
  "'w menv \<Rightarrow> json \<Rightarrow> json \<Rightarrow> caller_context \<Rightarrow> json \<Rightarrow> json \<Rightarrow> json \<Rightarrow> ('w msys, json) act" where
  "propose_new env request_id clean ctxt key_digest key_expires_at document =
     seq (ensure (length (members ''missions'' document) < MAX_MISSION_RECORDS) STORE_FULL)
       (bnd (mission_now env) (\<lambda>now.
        bnd (fresh_id env MISSION_ID_PREFIX (map fst (members ''missions'' document))) (\<lambda>mission_id.
        bnd (of_result (new_mission_record (me_host env) mission_id request_id clean now ctxt key_digest
                          key_expires_at)) (\<lambda>mission.
        seq (save env (consume request_id mission_id (put_mission mission document)))
          (ret (propose_outcome mission request_id False))))))"

definition propose ::
  "'w menv \<Rightarrow> json \<Rightarrow> json \<Rightarrow> caller_context \<Rightarrow> json \<Rightarrow> json \<Rightarrow> ('w msys, json) act" where
  "propose env request_id proposal ctxt key_digest key_expires_at =
     seq (of_check (checks [require_context ctxt, require_id_m request_id REQUEST_ID_PREFIX]))
       (bnd (of_result (validate_proposal proposal)) (\<lambda>clean.
        bnd (of_result (proposal_digest (me_host env) clean)) (\<lambda>digest.
        seq (of_check (checks
               [require ((key_digest = JNull) = (key_expires_at = JNull)) BAD_VALUE,
                when_check (key_digest \<noteq> JNull)
                  (checks [require_hex_m key_digest 64, require_timestamp_m key_expires_at])]))
          (locked env (\<lambda>document.
             bnd (of_result (reservation document request_id ''request'' ctxt ''mission_unknown_request_id''
                    ''mission_request_context_conflict'')) (\<lambda>r.
             if jget ''consumed_by'' r \<noteq> JNull
             then of_result (propose_replay (mission_at document (jget ''consumed_by'' r)) request_id digest
                    key_digest key_expires_at)
             else propose_new env request_id clean ctxt key_digest key_expires_at document))))))"

definition live_authorizations :: "host \<Rightarrow> json \<Rightarrow> json \<Rightarrow> json \<Rightarrow> json list" where
  "live_authorizations h document mission now =
     filter (\<lambda>i. ac_valid (validate_authorization_use h document i (jget ''mission_id'' mission)
        (jget ''current_revision'' mission) now (JList []) JNull JNull)) (jlist ''authorization_ids'' mission)"

definition get_mission :: "'w menv \<Rightarrow> json \<Rightarrow> ('w msys, json) act" where
  "get_mission env mission_id =
     bnd (load_missions (me_host env) (me_state_check env)) (\<lambda>document.
       bnd (of_result (mission_of document mission_id)) (\<lambda>mission.
       bnd (mission_now env) (\<lambda>now.
         let live = live_authorizations (me_host env) document mission now in
         ret (JObj
           [(''record'', mission),
            (''authorizations'', JList (map (\<lambda>i. authorization_at document (str_of i)) (jlist ''authorization_ids'' mission))),
            (''live_authorization_id'', if live = [] then JNull else hd live)]))))"

section \<open>The withdrawal\<close>

definition withdraw_outcome :: "json \<Rightarrow> json \<Rightarrow> bool \<Rightarrow> json" where
  "withdraw_outcome mission_id mission idempotent = JObj
     [(''mission_id'', mission_id), (''state'', jget ''state'' mission),
      (''withdrawal'', jget ''withdrawal'' mission), (''idempotent'', JBool idempotent)]"

definition may_withdraw :: "host \<Rightarrow> json \<Rightarrow> json \<Rightarrow> json \<Rightarrow> caller_context \<Rightarrow> check" where
  "may_withdraw h mission request_id key ctxt =
     (case provenance_context (jget ''provenance'' (first_revision mission)) of
        Inl e \<Rightarrow> Some e
      | Inr proposer \<Rightarrow>
          if jget ''request_id'' mission \<noteq> request_id \<or> \<not> py_eq (context_dict proposer) (context_dict ctxt)
             \<or> principal_kind ctxt \<noteq> JStr UNAUTHENTICATED_LOCAL_CALLER
          then Some (service_problem ''mission_withdrawal_context_conflict'')
          else case withdrawal_key_digest h key of
            Inl e \<Rightarrow> Some e
          | Inr presented \<Rightarrow>
              require (\<exists>d. presented = Some d \<and> jget ''withdrawal_key_digest_sha256'' mission = JStr d)
                (service_problem ''mission_withdrawal_key_mismatch''))"

definition withdrawable :: "json \<Rightarrow> json \<Rightarrow> check" where
  "withdrawable mission now = checks
     [require (int_of_json now < jint ''withdrawal_key_expires_at'' mission)
        (service_problem ''mission_withdrawal_key_expired''),
      require (undecided mission) (service_problem ''mission_not_withdrawable'')]"

definition withdraw_proposal ::
  "'w menv \<Rightarrow> json \<Rightarrow> json \<Rightarrow> json \<Rightarrow> caller_context \<Rightarrow> ('w msys, json) act" where
  "withdraw_proposal env mission_id request_id key ctxt =
     seq (of_check (checks [require_context ctxt, require_id_m request_id REQUEST_ID_PREFIX]))
       (locked env (\<lambda>document.
          bnd (of_result (mission_of document mission_id)) (\<lambda>mission.
          seq (of_check (may_withdraw (me_host env) mission request_id key ctxt))
            (if jget ''withdrawal'' mission \<noteq> JNull then ret (withdraw_outcome mission_id mission True)
             else bnd (mission_now env) (\<lambda>now.
               seq (of_check (withdrawable mission now))
                 (bnd (of_result (new_withdrawal mission ctxt now)) (\<lambda>marker.
                    let mission' = jput ''updated_at'' now (jput ''withdrawal'' marker mission) in
                    seq (save env (put_mission mission' document))
                      (ret (withdraw_outcome mission_id mission' False)))))))))"

section \<open>The effects of the decisions\<close>

definition decision_effect :: "mission_state \<Rightarrow> json \<Rightarrow> json \<Rightarrow> json list \<Rightarrow> json" where
  "decision_effect state entry authorization_id invalidated = JObj
     [(''resulting_state'', JState state), (''resulting_revision'', jget ''revision'' entry),
      (''proposal_digest_sha256'', jget ''proposal_digest_sha256'' entry),
      (''authorization_id'', authorization_id), (''invalidated_authorization_ids'', JList invalidated)]"

definition approvable :: "json \<Rightarrow> json \<Rightarrow> envelope \<Rightarrow> json \<Rightarrow> check" where
  "approvable document mission e now =
     (let requested = jget ''proposal'' (current_revision_entry mission);
          actions = list_of (fst (normalized_scope e)); targets = list_of (snd (normalized_scope e)) in
      checks
        [validate_transition_m (jget ''state'' mission) STATE_AUTHORIZED,
         require (list_all (\<lambda>a. a \<in> set (jlist ''requested_action_scope'' requested)) actions)
           (service_problem PROBLEM_ACTION_OUTSIDE_SCOPE),
         require (list_all (\<lambda>t. t = jget ''requested_delivery_target'' requested) targets)
           (service_problem PROBLEM_TARGET_OUTSIDE_SCOPE),
         require (en_expires_at e = JNull \<or> int_of_json now < int_of_json (en_expires_at e)) BAD_VALUE,
         require (length (members ''authorizations'' document) < MAX_AUTHORIZATION_RECORDS) STORE_FULL])"

definition approve_effect ::
  "'w menv \<Rightarrow> json \<Rightarrow> json \<Rightarrow> envelope \<Rightarrow> json \<Rightarrow> ('w msys, json \<times> json \<times> json) act" where
  "approve_effect env document mission e now =
     (let entry = current_revision_entry mission; mission_id = jget ''mission_id'' mission in
      seq (of_check (approvable document mission e now))
        (bnd (fresh_id env AUTHORIZATION_ID_PREFIX (map fst (members ''authorizations'' document))) (\<lambda>i.
         bnd (of_result (provenance_record (en_context e) (en_received_at e) ''decision'' (en_decision_id e)
                mission_id (jget ''revision'' entry))) (\<lambda>caller.
         bnd (of_result (issue_mission_authorization (me_host env) i mission_id (jget ''revision'' entry)
                (jget ''proposal_digest_sha256'' entry) caller (fst (normalized_scope e)) (snd (normalized_scope e))
                now (en_expires_at e))) (\<lambda>authorization.
         bnd (append_ledger env ''ISSUED'' now mission_id (jget ''revision'' entry) i (en_decision_id e)
                ''approved by human decision'' (put_member ''authorizations'' (str_of i) authorization document))
           (\<lambda>document'. ret
              (document',
               jput ''state'' (JState STATE_AUTHORIZED)
                 (jput ''authorization_ids'' (JList (jlist ''authorization_ids'' mission @ [i])) mission),
               decision_effect STATE_AUTHORIZED entry i [])))))))"

definition deny_effect ::
  "'w menv \<Rightarrow> json \<Rightarrow> json \<Rightarrow> json \<Rightarrow> json \<Rightarrow> ('w msys, json \<times> json \<times> json) act" where
  "deny_effect env document mission decision_id now =
     seq (of_check (validate_transition_m (jget ''state'' mission) STATE_DENIED))
       (bnd (append_ledger env ''DENIED'' now (jget ''mission_id'' mission) (jget ''current_revision'' mission)
               JNull decision_id ''denied by human decision'' document)
          (\<lambda>document'. ret
             (document', jput ''state'' (JState STATE_DENIED) mission,
              jput ''resulting_revision'' (jget ''current_revision'' mission)
                (decision_effect STATE_DENIED (current_revision_entry mission) JNull []))))"

definition superseded_by_edit :: "json \<Rightarrow> json \<Rightarrow> json \<Rightarrow> bool" where
  "superseded_by_edit document mission i =
     (let authorization = authorization_at document (str_of i) in
      jget ''revision'' authorization = jget ''current_revision'' mission
      \<and> \<not> bool_of (jget ''revoked'' (jget ''revocation'' authorization)))"

fun invalidate :: "'w menv \<Rightarrow> json \<Rightarrow> json \<Rightarrow> json \<Rightarrow> json list \<Rightarrow> json \<Rightarrow> ('w msys, json) act" where
  "invalidate env mission decision_id now [] document = ret document"
| "invalidate env mission decision_id now (i # rest) document =
     bnd (of_result (revoke_authorization (authorization_at document (str_of i)) now)) (\<lambda>revoked.
     bnd (append_ledger env ''INVALIDATED_BY_EDIT'' now (jget ''mission_id'' mission)
            (jget ''current_revision'' mission) i decision_id ''superseded_by_edit''
            (put_member ''authorizations'' (str_of i) revoked document))
       (invalidate env mission decision_id now rest))"

definition edit_effect ::
  "'w menv \<Rightarrow> json \<Rightarrow> json \<Rightarrow> envelope \<Rightarrow> json \<Rightarrow> ('w msys, json \<times> json \<times> json) act" where
  "edit_effect env document mission e now =
     (let invalidated = filter (superseded_by_edit document mission) (jlist ''authorization_ids'' mission) in
      seq (of_check (when_check (jget ''state'' mission \<noteq> JState STATE_AWAITING_DECISION)
             (validate_transition_m (jget ''state'' mission) STATE_AWAITING_DECISION)))
        (bnd (invalidate env mission (en_decision_id e) now invalidated document) (\<lambda>document'.
         bnd (of_result (append_revision (me_host env) mission (en_proposal e) now (en_decision_id e)
                (en_context e) (en_received_at e)))
           (\<lambda>(mission', entry). ret
              (document', jput ''state'' (JState STATE_AWAITING_DECISION) mission',
               decision_effect STATE_AWAITING_DECISION entry JNull invalidated)))))"

section \<open>The decision\<close>

definition recorded_decision :: "json \<Rightarrow> json \<Rightarrow> json option" where
  "recorded_decision document decision_id =
     List.find (\<lambda>d. jget ''decision_id'' d = decision_id)
       (concat (map (\<lambda>(i, m). mission_decisions m) (members ''missions'' document)))"

definition decision_outcome :: "'w menv \<Rightarrow> json \<Rightarrow> json \<Rightarrow> bool \<Rightarrow> ('w msys, json) act" where
  "decision_outcome env document decision_record idempotent =
     (let outcome = jget ''outcome'' decision_record; mission_id = jget ''mission_id'' decision_record;
          mission = mission_at document mission_id; i = jget ''authorization_id'' outcome;
          approved = (jget ''decision'' decision_record = JStr ''APPROVE'');
          answer = (\<lambda>digest live problem. JObj
            [(''decision'', jget ''decision'' decision_record), (''decision_id'', jget ''decision_id'' decision_record),
             (''mission_id'', mission_id), (''revision'', jget ''resulting_revision'' outcome),
             (''state'', jget ''resulting_state'' outcome),
             (''proposal_digest_sha256'', jget ''proposal_digest_sha256'' outcome),
             (''authorization_id'', i), (''authorization_digest_sha256'', digest),
             (''authorized_action_scope'', if approved then jget ''approved_action_scope'' decision_record else JNull),
             (''authorized_delivery_targets'',
                if approved then jget ''approved_delivery_targets'' decision_record else JNull),
             (''expires_at'', if approved then jget ''expires_at'' decision_record else JNull),
             (''invalidated_authorization_ids'', jget ''invalidated_authorization_ids'' outcome),
             (''idempotent'', JBool idempotent), (''current_revision'', jget ''current_revision'' mission),
             (''current_state'', jget ''state'' mission), (''authorization_live'', live),
             (''authorization_problem'', problem)]) in
      if i = JNull then ret (answer JNull JNull JNull)
      else bnd (mission_now env) (\<lambda>now.
        let c = validate_authorization_use (me_host env) document i mission_id (jget ''revision'' decision_record)
                  now (JList []) JNull JNull in
        ret (answer (jget ''authorization_digest_sha256'' (authorization_at document (str_of i)))
               (JBool (ac_valid c)) (case ac_problem c of None \<Rightarrow> JNull | Some p \<Rightarrow> JStr p))))"

definition MAX_ATTESTED_APPROVAL_VALIDITY_SECONDS :: int where
  "MAX_ATTESTED_APPROVAL_VALIDITY_SECONDS = 900"

definition require_exact_content :: "'w menv \<Rightarrow> json \<Rightarrow> envelope \<Rightarrow> ('w msys, unit) act" where
  "require_exact_content env mission e =
     (let entry = current_revision_entry mission; expected = en_expected_digest e;
          requested = jget ''proposal'' entry; target = jget ''requested_delivery_target'' requested in
      seq (ensure (expected = JNull \<or> expected = jget ''proposal_digest_sha256'' entry)
             (service_problem ''mission_proposal_digest_mismatch''))
        (if \<not> approve_only (en_context e) then ret ()
         else seq (ensure (proposer_kind mission = JStr UNAUTHENTICATED_LOCAL_CALLER) ATTESTED_APPROVAL)
           (seq (ensure
                   (sorted_strs (en_actions e) = sorted_strs (jget ''requested_action_scope'' requested)
                    \<and> sorted_strs (en_targets e) = JList (if target = JNull then [] else [target]))
                   ATTESTED_APPROVAL)
             (bnd (mission_now env) (\<lambda>now.
                ensure (int_of_json (en_expires_at e) \<le> int_of_json now + MAX_ATTESTED_APPROVAL_VALIDITY_SECONDS)
                  ATTESTED_APPROVAL)))))"

definition refuse_terminal :: "json \<Rightarrow> check" where
  "refuse_terminal mission =
     require (\<not> in_states (jget ''state'' mission) TERMINAL_STATES) (service_problem ''mission_terminal'')"

definition takes_decisions :: "json \<Rightarrow> check" where
  "takes_decisions mission = checks
     [refuse_terminal mission,
      require (jget ''run'' mission = JNull) (service_problem ''mission_run_recorded''),
      require (jget ''withdrawal'' mission = JNull) (service_problem ''mission_proposal_withdrawn'')]"

definition replayed_decision :: "json \<Rightarrow> envelope \<Rightarrow> str \<Rightarrow> exn + json" where
  "replayed_decision document e digest =
     (case recorded_decision document (en_decision_id e) of
        None \<Rightarrow> Inl (service_problem ''mission_decision_id_conflict'')
      | Some d \<Rightarrow>
          if jget ''mission_id'' d \<noteq> en_mission_id e \<or> jget ''decision_digest_sha256'' d \<noteq> JStr digest
             \<or> (is_approve e \<and> en_expected_digest e \<noteq> JNull
                \<and> jget ''proposal_digest_sha256'' (jget ''outcome'' d) \<noteq> en_expected_digest e)
          then Inl (service_problem ''mission_decision_id_conflict'')
          else Inr d)"

definition apply_effect ::
  "'w menv \<Rightarrow> json \<Rightarrow> json \<Rightarrow> envelope \<Rightarrow> json \<Rightarrow> ('w msys, json \<times> json \<times> json) act" where
  "apply_effect env document mission e now =
     (if is_approve e then approve_effect env document mission e now
      else if en_decision e = JStr ''DENY'' then deny_effect env document mission (en_decision_id e) now
      else edit_effect env document mission e now)"

definition record_decision ::
  "'w menv \<Rightarrow> json \<Rightarrow> json \<Rightarrow> json \<Rightarrow> json \<Rightarrow> json \<Rightarrow> ('w msys, json) act" where
  "record_decision env document mission decision_id now decision_record =
     bnd (of_result (append_decision mission decision_record)) (\<lambda>mission'.
       let document' = consume decision_id decision_id (put_mission (jput ''updated_at'' now mission') document) in
       seq (save env document') (decision_outcome env document' decision_record False))"

definition apply_new_decision ::
  "'w menv \<Rightarrow> json \<Rightarrow> json \<Rightarrow> envelope \<Rightarrow> ('w msys, json) act" where
  "apply_new_decision env document mission e =
     seq (of_check (takes_decisions mission))
       (seq (if py_eq (en_revision e) (jget ''current_revision'' mission) then require_exact_content env mission e
             else throw (service_problem ''mission_stale_revision''))
         (bnd (mission_now env) (\<lambda>now.
          bnd (note_expirations env mission now document) (\<lambda>document1.
          bnd (apply_effect env document1 mission e now) (\<lambda>(document2, mission2, outcome).
          bnd (of_result (new_decision_record (me_host env) e now outcome)) (\<lambda>decision_record.
            record_decision env document2 mission2 (en_decision_id e) now decision_record))))))"

definition apply_human_decision :: "'w menv \<Rightarrow> envelope \<Rightarrow> ('w msys, json) act" where
  "apply_human_decision env e =
     seq (of_check (validate_envelope e))
       (bnd (of_result (envelope_digest (me_host env) e)) (\<lambda>digest.
        locked env (\<lambda>document.
          bnd (of_result (reservation document (en_decision_id e) ''decision'' (en_context e)
                 ''mission_unknown_decision_id'' ''mission_decision_context_conflict'')) (\<lambda>r.
          bnd (of_result (mission_of document (en_mission_id e))) (\<lambda>mission.
          if jget ''consumed_by'' r \<noteq> JNull
          then bnd (of_result (replayed_decision document e digest)) (\<lambda>d. decision_outcome env document d True)
          else apply_new_decision env document mission e)))))"

definition edit_mission ::
  "'w menv \<Rightarrow> json \<Rightarrow> json \<Rightarrow> json \<Rightarrow> json \<Rightarrow> caller_context \<Rightarrow> ('w msys, json) act" where
  "edit_mission env mission_id expected_revision proposal decision_id ctxt =
     bnd (mission_now env) (\<lambda>now. apply_human_decision env
       \<lparr>en_context = ctxt, en_decision_id = decision_id, en_mission_id = mission_id,
        en_revision = expected_revision, en_decision = JStr ''EDIT'', en_received_at = now,
        en_actions = JNull, en_targets = JNull, en_proposal = proposal, en_expires_at = JNull,
        en_expected_digest = JNull\<rparr>)"

definition apply_operator_attested_approval ::
  "'w menv \<Rightarrow> caller_context \<Rightarrow> json \<Rightarrow> json \<Rightarrow> json \<Rightarrow> json \<Rightarrow> str list \<Rightarrow> str list \<Rightarrow> json
     \<Rightarrow> ('w msys, json) act" where
  "apply_operator_attested_approval env ctxt decision_id mission_id revision digest actions targets expires_at =
     seq (of_check (require_operator_attested_context ctxt))
       (bnd (mission_now env) (\<lambda>now. apply_human_decision env
          \<lparr>en_context = ctxt, en_decision_id = decision_id, en_mission_id = mission_id, en_revision = revision,
           en_decision = JStr ''APPROVE'', en_received_at = now, en_actions = JList (map JStr (sort actions)),
           en_targets = JList (map JStr (sort targets)), en_proposal = JNull, en_expires_at = expires_at,
           en_expected_digest = digest\<rparr>))"

section \<open>The attested outcomes\<close>

datatype attested_kind = Decline | Reject | RequestChanges

fun attested_decision :: "attested_kind \<Rightarrow> str" where
  "attested_decision Decline = ''DENY''"
| "attested_decision Reject = ''REJECT''"
| "attested_decision RequestChanges = ''REQUEST_CHANGES''"

fun attested_state :: "attested_kind \<Rightarrow> mission_state" where
  "attested_state Decline = STATE_DENIED"
| "attested_state Reject = STATE_REJECTED"
| "attested_state RequestChanges = STATE_CHANGES_REQUESTED"

definition replayed_outcome :: "json \<Rightarrow> json \<Rightarrow> json \<Rightarrow> str \<Rightarrow> json \<Rightarrow> exn + json" where
  "replayed_outcome document decision_id mission_id digest proposal_digest_sha256 =
     (case recorded_decision document decision_id of
        None \<Rightarrow> Inl (service_problem ''mission_decision_id_conflict'')
      | Some d \<Rightarrow>
          if jget ''mission_id'' d \<noteq> mission_id \<or> jget ''decision_digest_sha256'' d \<noteq> JStr digest
             \<or> jget ''proposal_digest_sha256'' (jget ''outcome'' d) \<noteq> proposal_digest_sha256
          then Inl (service_problem ''mission_decision_id_conflict'')
          else Inr d)"

definition attested_applies :: "json \<Rightarrow> json \<Rightarrow> json \<Rightarrow> attested_kind \<Rightarrow> check" where
  "attested_applies mission revision proposal_digest_sha256 kind = checks
     [takes_decisions mission,
      require (py_eq revision (jget ''current_revision'' mission)) (service_problem ''mission_stale_revision''),
      require (proposal_digest_sha256 = jget ''proposal_digest_sha256'' (current_revision_entry mission))
        (service_problem ''mission_proposal_digest_mismatch''),
      require (proposer_kind mission = JStr UNAUTHENTICATED_LOCAL_CALLER) (service_problem ''mission_attested_outcome''),
      validate_transition_m (jget ''state'' mission) (attested_state kind)]"

definition attested_effect ::
  "'w menv \<Rightarrow> json \<Rightarrow> json \<Rightarrow> json \<Rightarrow> json \<Rightarrow> attested_kind \<Rightarrow> ('w msys, json \<times> json) act" where
  "attested_effect env document mission decision_id now kind =
     (if kind = Decline
      then bnd (deny_effect env document mission decision_id now) (\<lambda>(document', mission', outcome). ret (document', mission'))
      else ret (document, jput ''state'' (JState (attested_state kind)) mission))"

definition apply_attested_outcome ::
  "'w menv \<Rightarrow> caller_context \<Rightarrow> json \<Rightarrow> json \<Rightarrow> json \<Rightarrow> json \<Rightarrow> attested_kind \<Rightarrow> json \<Rightarrow> ('w msys, json) act" where
  "apply_attested_outcome env ctxt decision_id mission_id revision proposal_digest_sha256 kind reason =
     seq (of_check (checks
            [require_operator_attested_context ctxt,
             when_check (kind = RequestChanges) (require_change_request_reason reason),
             require_id_m decision_id DECISION_ID_PREFIX, require_id_m mission_id MISSION_ID_PREFIX,
             require_int_m revision (Some 1), require_hex_m proposal_digest_sha256 64]))
       (bnd (of_result (decision_digest (me_host env) mission_id revision (JStr (attested_decision kind))
               JNull JNull JNull JNull reason)) (\<lambda>digest.
        locked env (\<lambda>document.
          bnd (of_result (reservation document decision_id ''decision'' ctxt
                 ''mission_unknown_decision_id'' ''mission_decision_context_conflict'')) (\<lambda>r.
          bnd (of_result (mission_of document mission_id)) (\<lambda>mission.
          if jget ''consumed_by'' r \<noteq> JNull
          then bnd (of_result (replayed_outcome document decision_id mission_id digest proposal_digest_sha256))
                 (\<lambda>d. decision_outcome env document d True)
          else seq (of_check (attested_applies mission revision proposal_digest_sha256 kind))
            (let entry = current_revision_entry mission in
             bnd (mission_now env) (\<lambda>now.
             bnd (note_expirations env mission now document) (\<lambda>document1.
             bnd (attested_effect env document1 mission decision_id now kind) (\<lambda>(document2, mission2).
             bnd (of_result (new_attested_outcome_record (me_host env) ctxt decision_id mission_id
                    (jget ''revision'' entry) (attested_decision kind) now now
                    (decision_effect (attested_state kind) entry JNull []) reason)) (\<lambda>decision_record.
               record_decision env document2 mission2 decision_id now decision_record))))))))))"

definition apply_operator_attested_decline ::
  "'w menv \<Rightarrow> caller_context \<Rightarrow> json \<Rightarrow> json \<Rightarrow> json \<Rightarrow> json \<Rightarrow> ('w msys, json) act" where
  "apply_operator_attested_decline env ctxt decision_id mission_id revision digest =
     apply_attested_outcome env ctxt decision_id mission_id revision digest Decline JNull"

definition apply_operator_attested_rejection ::
  "'w menv \<Rightarrow> caller_context \<Rightarrow> json \<Rightarrow> json \<Rightarrow> json \<Rightarrow> json \<Rightarrow> ('w msys, json) act" where
  "apply_operator_attested_rejection env ctxt decision_id mission_id revision digest =
     apply_attested_outcome env ctxt decision_id mission_id revision digest Reject JNull"

definition apply_operator_attested_change_request ::
  "'w menv \<Rightarrow> caller_context \<Rightarrow> json \<Rightarrow> json \<Rightarrow> json \<Rightarrow> json \<Rightarrow> json \<Rightarrow> ('w msys, json) act" where
  "apply_operator_attested_change_request env ctxt decision_id mission_id revision digest reason =
     apply_attested_outcome env ctxt decision_id mission_id revision digest RequestChanges reason"

section \<open>The validation of an authorization\<close>

definition load_for_validation :: "'w menv \<Rightarrow> (json \<Rightarrow> ('w msys, authority_check) act) \<Rightarrow> ('w msys, authority_check) act" where
  "load_for_validation env body =
     (\<lambda>s. case load_missions (me_host env) (me_state_check env) s of
        (Inl (MissionStoreError p), t) \<Rightarrow> (Inr (refusal PROBLEM_STORE_UNREADABLE None), t)
      | (Inl e, t) \<Rightarrow> (Inl e, t)
      | (Inr document, t) \<Rightarrow> body document t)"

definition validate_authorization_m ::
  "'w menv \<Rightarrow> json \<Rightarrow> json \<Rightarrow> json \<Rightarrow> json \<Rightarrow> json \<Rightarrow> json \<Rightarrow> ('w msys, authority_check) act" where
  "validate_authorization_m env i mission_id revision actions target digest =
     load_for_validation env (\<lambda>document. bnd (mission_now env) (\<lambda>now.
       ret (validate_authorization_use (me_host env) document i mission_id revision now actions target digest)))"

definition check_parent_authority :: "'w menv \<Rightarrow> json \<Rightarrow> json \<Rightarrow> json \<Rightarrow> ('w msys, authority_check) act" where
  "check_parent_authority env mission_id digest target =
     (if target \<notin> set (map JStr DELIVERY_TARGETS) then ret (refusal PROBLEM_TARGET_OUTSIDE_SCOPE None)
      else load_for_validation env (\<lambda>document.
        case find_authorization_by_digest document digest of
          None \<Rightarrow> ret (refusal PROBLEM_UNKNOWN_AUTHORIZATION None)
        | Some authorization \<Rightarrow>
            if jget ''mission_id'' authorization \<noteq> mission_id then ret (refusal PROBLEM_WRONG_MISSION (Some authorization))
            else bnd (mission_now env) (\<lambda>now. ret
              (validate_delivery_parent_use (me_host env) document (jget ''authorization_id'' authorization) mission_id
                 (jget ''revision'' authorization) now target))))"

end
