(* ===== verification/MissionRun.thy ===== *)
theory MissionRun
  imports MissionService
begin

text \<open>
  \<open>mission/service.py\<close>, the run record: the workspace, the intent, the receipt, the observation,
  the stops, the verification, the pauses and the cancel of a Mission. Every operation is one
  locked load, change and save of the document; the change is a function of the document, the
  Mission and the time, which raises or yields the changed Mission and the answer.
\<close>

abbreviation RUN :: exn where "RUN \<equiv> MissionError ''mission_run''"
abbreviation RUN_ALREADY_RECORDED :: exn where "RUN_ALREADY_RECORDED \<equiv> MissionError ''mission_run_already_recorded''"
abbreviation RUN_PAUSED :: exn where "RUN_PAUSED \<equiv> MissionError ''mission_run_paused''"
abbreviation RUN_WORKSPACE_BOUND :: exn where "RUN_WORKSPACE_BOUND \<equiv> MissionError ''mission_run_workspace_bound''"
abbreviation RUN_WORKSPACE_PRESERVED :: exn where
  "RUN_WORKSPACE_PRESERVED \<equiv> MissionError ''mission_run_workspace_preserved''"
abbreviation RUN_WORKSPACE_CONFLICT :: exn where
  "RUN_WORKSPACE_CONFLICT \<equiv> MissionError ''mission_run_workspace_conflict''"
abbreviation RUN_WORKSPACE_UNPREPARED :: exn where
  "RUN_WORKSPACE_UNPREPARED \<equiv> MissionError ''mission_run_workspace_unprepared''"

type_synonym change = "json \<Rightarrow> json \<Rightarrow> json \<Rightarrow> exn + json \<times> json"

definition run_write ::
  "'w menv \<Rightarrow> json \<Rightarrow> caller_context \<Rightarrow> bool \<Rightarrow> change \<Rightarrow> ('w msys, json) act" where
  "run_write env mission_id ctxt guard_terminal change =
     seq (of_check (checks [require_authenticated_context ctxt, require_id_m mission_id MISSION_ID_PREFIX]))
       (locked env (\<lambda>document.
          bnd (of_result (mission_of document mission_id)) (\<lambda>mission.
          seq (of_check (when_check guard_terminal (refuse_terminal mission)))
            (bnd (mission_now env) (\<lambda>now.
             bnd (of_result (change document mission now)) (\<lambda>(mission', outcome).
               seq (save env (put_mission mission' document)) (ret outcome)))))))"

definition run_transition :: "json \<Rightarrow> mission_state \<Rightarrow> str \<Rightarrow> json \<Rightarrow> exn + json" where
  "run_transition mission target reason now =
     guard_check
       (checks
         [validate_transition_m (jget ''state'' mission) target,
          require (list_ex (\<lambda>(a, b). jget ''state'' mission = JState a \<and> b = target) RUN_TRANSITIONS)
            INVALID_TRANSITION])
       (Inr (jput ''updated_at'' now (jput ''state'' (JState target)
          (jput ''lifecycle'' (JList (jlist ''lifecycle'' mission @
             [JObj [(''from_state'', jget ''state'' mission), (''to_state'', JState target),
                    (''reason'', JStr reason), (''recorded_at'', now)]])) mission))))"

text \<open>\<open>_run_of(mission, create=True)\<close>; without \<open>create\<close> it reads the member.\<close>

definition run_block :: "json \<Rightarrow> json" where
  "run_block mission = (if jget ''run'' mission = JNull then new_run_block else jget ''run'' mission)"

definition put_run :: "json \<Rightarrow> json \<Rightarrow> json \<Rightarrow> json" where
  "put_run run now mission = jput ''updated_at'' now (jput ''run'' run mission)"

definition refuse_paused :: "json \<Rightarrow> check" where
  "refuse_paused mission = require (\<not> run_is_paused (jget ''run'' mission)) RUN_PAUSED"

definition has_intent :: "json \<Rightarrow> bool" where
  "has_intent mission \<longleftrightarrow> jget ''run'' mission \<noteq> JNull \<and> run_intent mission \<noteq> JNull"

definition bound_authorization :: "json \<Rightarrow> json" where
  "bound_authorization mission =
     (if has_intent mission then jget ''authorization_id'' (run_intent mission)
      else if jlist ''authorization_ids'' mission \<noteq> [] then last (jlist ''authorization_ids'' mission)
      else JNull)"

definition require_bound_authorization :: "json \<Rightarrow> json \<Rightarrow> check" where
  "require_bound_authorization mission authorization_id =
     require (bound_authorization mission \<noteq> JNull \<and> authorization_id = bound_authorization mission) RUN"

section \<open>The intent\<close>

definition holds_workspace :: "json \<Rightarrow> json \<Rightarrow> str \<times> json \<Rightarrow> bool" where
  "holds_workspace mission_id path other =
     (case other of (other_id, m) \<Rightarrow>
        JStr other_id \<noteq> mission_id \<and> has_intent m \<and> jget ''workspace_realpath'' (run_intent m) = path
        \<and> \<not> in_states (jget ''state'' m) TERMINAL_STATES)"

definition prepared_at :: "json \<Rightarrow> json \<Rightarrow> json \<Rightarrow> bool" where
  "prepared_at mission path baseline \<longleftrightarrow>
     (let binding = jget ''workspace'' (jget ''run'' mission) in
      binding \<noteq> JNull \<and> jget ''state'' binding = JStr ''prepared'' \<and> jget ''path_realpath'' binding = path
      \<and> jget ''baseline_commit_sha'' binding = baseline)"

record intent_request =
  ir_authorization_id :: json
  ir_revision :: json
  ir_proposal_digest :: json
  ir_repository_url :: json
  ir_workspace :: json
  ir_baseline :: json
  ir_request_digest :: json
  ir_handoff_digest :: json
  ir_surface_digest :: json
  ir_actions :: "json list"
  ir_targets :: "json list"

definition intent_record :: "intent_request \<Rightarrow> json \<Rightarrow> json" where
  "intent_record q now = JObj
     [(''recorded_at'', now), (''authorization_id'', ir_authorization_id q), (''revision'', ir_revision q),
      (''proposal_digest_sha256'', ir_proposal_digest q), (''target_repository_url'', ir_repository_url q),
      (''workspace_realpath'', ir_workspace q), (''observed_baseline_commit_sha'', ir_baseline q),
      (''request_digest_sha256'', ir_request_digest q), (''handoff_digest_sha256'', ir_handoff_digest q),
      (''surface_baseline_digest_sha256'', ir_surface_digest q),
      (''approved_action_scope'', JList (ir_actions q)), (''approved_delivery_targets'', JList (ir_targets q))]"

definition use_refusal :: "authority_check \<Rightarrow> check" where
  "use_refusal c = (if ac_valid c then None else Some (MissionError (case ac_problem c of None \<Rightarrow> [] | Some p \<Rightarrow> p)))"

definition intent_problem :: "host \<Rightarrow> json \<Rightarrow> intent_request \<Rightarrow> json \<Rightarrow> json \<Rightarrow> json \<Rightarrow> check" where
  "intent_problem h mission_id q document mission now =
     (let authorization = authorization_at document (str_of (ir_authorization_id q));
          url = jget ''repository_url'' (jget ''proposal'' (current_revision_entry mission)) in
      checks
        [require (jget ''state'' mission = JState STATE_AUTHORIZED) RUN,
         require (\<not> has_intent mission) RUN_ALREADY_RECORDED,
         refuse_paused mission,
         use_refusal (validate_authorization_use h document (ir_authorization_id q) mission_id (ir_revision q) now
           (JList [JStr ''engineering_change'']) JNull (ir_proposal_digest q)),
         require (JList (ir_actions q) = jget ''authorized_action_scope'' authorization) ACTION_SCOPE,
         require (JList (ir_targets q) = jget ''authorized_delivery_targets'' authorization) DELIVERY_TARGET,
         require (\<not> list_ex (holds_workspace mission_id (ir_workspace q)) (members ''missions'' document))
           RUN_WORKSPACE_BOUND,
         require (url \<noteq> JNull \<and> ir_repository_url q = url) REPOSITORY_IDENTITY,
         require (prepared_at mission (ir_workspace q) (ir_baseline q)) RUN_WORKSPACE_UNPREPARED])"

definition change_intent :: "host \<Rightarrow> json \<Rightarrow> intent_request \<Rightarrow> change" where
  "change_intent h mission_id q document mission now =
     guard_check (intent_problem h mission_id q document mission now)
       (let intent = intent_record q now in
        Inr (put_run (jput ''intent'' intent (run_block mission)) now mission, intent))"

definition record_run_intent ::
  "'w menv \<Rightarrow> json \<Rightarrow> intent_request \<Rightarrow> caller_context \<Rightarrow> ('w msys, json) act" where
  "record_run_intent env mission_id q ctxt =
     run_write env mission_id ctxt True (change_intent (me_host env) mission_id q)"

section \<open>The workspace\<close>

definition require_before_intent :: "json \<Rightarrow> check" where
  "require_before_intent mission = checks
     [require (jget ''state'' mission = JState STATE_AUTHORIZED) RUN,
      require (\<not> has_intent mission) RUN_ALREADY_RECORDED]"

definition occupies :: "json \<Rightarrow> json \<Rightarrow> str \<times> json \<Rightarrow> bool" where
  "occupies mission_id path other =
     (case other of (other_id, m) \<Rightarrow>
        JStr other_id \<noteq> mission_id
        \<and> path \<in> {jget ''path_realpath'' (jget ''workspace'' (jget ''run'' m)),
                   jget ''workspace_realpath'' (run_intent m)})"

definition refuse_occupied :: "json \<Rightarrow> json \<Rightarrow> json \<Rightarrow> check" where
  "refuse_occupied mission_id path document =
     (case List.find (occupies mission_id path) (members ''missions'' document) of
        None \<Rightarrow> None
      | Some (i, m) \<Rightarrow>
          Some (if in_states (jget ''state'' m) TERMINAL_STATES then RUN_WORKSPACE_PRESERVED else RUN_WORKSPACE_BOUND))"

definition change_binding ::
  "host \<Rightarrow> json \<Rightarrow> json \<Rightarrow> json \<Rightarrow> json \<Rightarrow> json \<Rightarrow> change" where
  "change_binding h mission_id path repository url baseline document mission now =
     guard_check (checks [require_before_intent mission, refuse_paused mission])
       (sbind (workspace_binding h mission path repository baseline)
         (\<lambda>binding. guard_check
            (checks
              [require (url = jget ''target_repository_url'' binding) REPOSITORY_IDENTITY,
               refuse_occupied mission_id path document])
            (let run = run_block mission; existing = jget ''workspace'' run in
             if existing \<noteq> JNull
             then guard_check
               (require (list_all (\<lambda>(k, x). py_eq (jget k existing) x) (obj_of binding)) RUN_WORKSPACE_CONFLICT)
               (Inr (jput ''run'' run mission, existing))
             else let bound = jput ''prepared_at'' JNull (jput ''recorded_at'' now
                    (jput ''state'' (JStr ''preparing'') binding)) in
               Inr (put_run (jput ''workspace'' bound run) now mission, bound))))"

definition record_workspace_binding ::
  "'w menv \<Rightarrow> json \<Rightarrow> json \<Rightarrow> json \<Rightarrow> json \<Rightarrow> json \<Rightarrow> caller_context \<Rightarrow> ('w msys, json) act" where
  "record_workspace_binding env mission_id path repository url baseline ctxt =
     run_write env mission_id ctxt True (change_binding (me_host env) mission_id path repository url baseline)"

definition change_prepared :: "json \<Rightarrow> change" where
  "change_prepared digest document mission now =
     (let run = jget ''run'' mission; binding = jget ''workspace'' run in
      guard_check
        (checks
          [require_before_intent mission, refuse_paused mission,
           require (binding \<noteq> JNull \<and> jget ''binding_digest_sha256'' binding = digest) RUN_WORKSPACE_CONFLICT])
        (if jget ''state'' binding = JStr ''prepared'' then Inr (mission, binding)
         else let done = jput ''prepared_at'' now (jput ''state'' (JStr ''prepared'') binding) in
           Inr (put_run (jput ''workspace'' done run) now mission, done)))"

definition record_workspace_prepared ::
  "'w menv \<Rightarrow> json \<Rightarrow> json \<Rightarrow> caller_context \<Rightarrow> ('w msys, json) act" where
  "record_workspace_prepared env mission_id digest ctxt =
     run_write env mission_id ctxt True (change_prepared digest)"

definition change_refusal :: "json \<Rightarrow> json \<Rightarrow> change" where
  "change_refusal problem detail document mission now =
     guard_check
       (checks
         [require_before_intent mission, require_str_m problem MAX_WORKSPACE_PROBLEM_CHARS False,
          require_str_m detail MAX_WORKSPACE_DETAIL_CHARS False])
       (let run = run_block mission; previous = jget ''workspace_refusal'' run;
            refusals = (if previous = JNull then 0 else jint ''refusals'' previous) + 1;
            refused = JObj [(''problem'', problem), (''detail'', detail), (''recorded_at'', now),
                            (''refusals'', JInt refusals)] in
        Inr (put_run (jput ''workspace_refusal'' refused run) now mission, refused))"

definition record_workspace_refusal ::
  "'w menv \<Rightarrow> json \<Rightarrow> json \<Rightarrow> json \<Rightarrow> caller_context \<Rightarrow> ('w msys, json) act" where
  "record_workspace_refusal env mission_id problem detail ctxt =
     run_write env mission_id ctxt True (change_refusal problem detail)"

section \<open>The receipt and the observation\<close>

definition new_receipt :: "json \<Rightarrow> json \<Rightarrow> json \<Rightarrow> json \<Rightarrow> json" where
  "new_receipt now task_id source process_group = JObj
     [(''recorded_at'', now), (''task_id'', task_id), (''identity_source'', source), (''owned_process_group'', process_group)]"

definition bind_identity :: "json \<Rightarrow> json \<Rightarrow> json" where
  "bind_identity task_id receipt =
     jput ''identity_source'' (JStr ''reconciliation'') (jput ''task_id'' task_id receipt)"

definition change_receipt :: "json \<Rightarrow> json \<Rightarrow> json \<Rightarrow> change" where
  "change_receipt task_id source process_group document mission now =
     (let run = jget ''run'' mission; receipt = jget ''receipt'' run;
          reconciling = (source = JStr ''reconciliation'') in
      guard_check
        (checks
          [require (has_intent mission) RUN,
           require (jget ''state'' mission = JState STATE_AUTHORIZED) RUN,
           require_member_m source [''start_result'', ''reconciliation''] BAD_VALUE,
           when_check reconciling (checks [refuse_paused mission, require (task_id \<noteq> JNull) RUN]),
           require (receipt = JNull \<or> (jget ''task_id'' receipt = JNull \<and> reconciling)) RUN_ALREADY_RECORDED])
        (let receipt' = (if receipt = JNull then new_receipt now task_id source process_group
                         else bind_identity task_id receipt) in
         Inr (put_run (jput ''receipt'' receipt' run) now mission, receipt')))"

definition record_run_receipt ::
  "'w menv \<Rightarrow> json \<Rightarrow> json \<Rightarrow> json \<Rightarrow> json \<Rightarrow> caller_context \<Rightarrow> ('w msys, json) act" where
  "record_run_receipt env mission_id task_id source process_group ctxt =
     run_write env mission_id ctxt True (change_receipt task_id source process_group)"

definition with_transition ::
  "json \<Rightarrow> mission_state \<Rightarrow> str \<Rightarrow> json \<Rightarrow> json \<Rightarrow> exn + json \<times> json" where
  "with_transition mission target reason now answer =
     sbind (run_transition mission target reason now) (\<lambda>mission'. Inr (mission', answer))"

definition state_answer :: "mission_state \<Rightarrow> str \<Rightarrow> json" where
  "state_answer target reason = JObj [(''state'', JState target), (''reason'', JStr reason)]"

definition change_observed :: "json \<Rightarrow> json \<Rightarrow> change" where
  "change_observed task_id already_stopped document mission now =
     (let receipt = jget ''receipt'' (jget ''run'' mission);
          reason = (if bool_of already_stopped then ''observed_after_stop'' else ''observed_running'') in
      guard_check
        (checks
          [refuse_paused mission,
           require (receipt \<noteq> JNull \<and> jget ''task_id'' receipt \<noteq> JNull \<and> jget ''task_id'' receipt = task_id) RUN,
           require_bool_m already_stopped])
        (with_transition mission STATE_RUNNING reason now (state_answer STATE_RUNNING reason)))"

definition record_observed_running ::
  "'w menv \<Rightarrow> json \<Rightarrow> json \<Rightarrow> json \<Rightarrow> caller_context \<Rightarrow> ('w msys, json) act" where
  "record_observed_running env mission_id task_id already_stopped ctxt =
     run_write env mission_id ctxt True (change_observed task_id already_stopped)"

section \<open>The stops\<close>

definition bind_late_child :: "json \<Rightarrow> json \<Rightarrow> json \<Rightarrow> json" where
  "bind_late_child task_id now mission =
     (let run = jget ''run'' mission; receipt = jget ''receipt'' run in
      jput ''run'' (jput ''receipt''
        (if receipt = JNull then new_receipt now task_id (JStr ''reconciliation'') JNull
         else bind_identity task_id receipt) run) mission)"

definition change_stop :: "json \<Rightarrow> json \<Rightarrow> change" where
  "change_stop reason task_id document mission now =
     (let receipt = jget ''receipt'' (jget ''run'' mission) in
      guard_check
        (checks
          [refuse_paused mission,
           require_member_m reason RECONCILE_STOP_REASONS BAD_VALUE,
           require (has_intent mission) RUN,
           require ((task_id \<noteq> JNull) = (reason = JStr ''reconcile_late_child_aborted'')) RUN,
           when_check (task_id \<noteq> JNull) (checks
             [require (receipt = JNull \<or> jget ''task_id'' receipt = JNull) RUN_ALREADY_RECORDED,
              require_str_m task_id MAX_RUN_TASK_ID_CHARS False])])
        (with_transition (if task_id = JNull then mission else bind_late_child task_id now mission)
           STATE_BLOCKED (str_of reason) now (state_answer STATE_BLOCKED (str_of reason))))"

definition record_run_stop ::
  "'w menv \<Rightarrow> json \<Rightarrow> json \<Rightarrow> caller_context \<Rightarrow> json \<Rightarrow> ('w msys, json) act" where
  "record_run_stop env mission_id reason ctxt task_id =
     run_write env mission_id ctxt True (change_stop reason task_id)"

definition target_bound :: "json \<Rightarrow> bool" where
  "target_bound run \<longleftrightarrow> jget ''receipt'' run \<noteq> JNull \<and> jget ''task_id'' (jget ''receipt'' run) \<noteq> JNull"

definition change_unobserved :: change where
  "change_unobserved document mission now =
     (let run = jget ''run'' mission; previous = jget ''reconcile_unobserved'' run;
          attempts = (if previous = JNull then 0 else jint ''attempts'' previous) + 1;
          counted = put_run (jput ''reconcile_unobserved''
            (JObj [(''attempts'', JInt attempts), (''last_attempted_at'', now)]) run) now mission;
          answer = (\<lambda>state. JObj [(''state'', state), (''attempts'', JInt attempts),
            (''remaining'', JInt (MAX_RECONCILE_ATTEMPTS - attempts))]) in
      guard_check
        (checks
          [refuse_paused mission,
           require (jget ''state'' mission = JState STATE_AUTHORIZED \<and> has_intent mission \<and> \<not> target_bound run) RUN])
        (if MAX_RECONCILE_ATTEMPTS \<le> attempts
         then with_transition counted STATE_BLOCKED ''reconcile_not_observable'' now (answer (JState STATE_BLOCKED))
         else Inr (counted, answer (jget ''state'' mission))))"

definition record_reconcile_unobserved :: "'w menv \<Rightarrow> json \<Rightarrow> caller_context \<Rightarrow> ('w msys, json) act" where
  "record_reconcile_unobserved env mission_id ctxt = run_write env mission_id ctxt True change_unobserved"

definition late_eligible :: "json \<Rightarrow> bool" where
  "late_eligible mission \<longleftrightarrow>
     (let events = jlist ''lifecycle'' mission in
      jget ''state'' mission = JState STATE_BLOCKED \<and> jget ''run'' mission \<noteq> JNull \<and> length events = 1
      \<and> jget ''reason'' (hd events) \<in> set (map JStr LATE_RESOLUTION_STOP_REASONS)
      \<and> \<not> target_bound (jget ''run'' mission))"

definition change_late :: "json \<Rightarrow> json \<Rightarrow> change" where
  "change_late task_id status document mission now =
     (let run = jget ''run'' mission;
          resolution = JObj [(''recorded_at'', now), (''task_id'', task_id), (''observed_task_status'', status)] in
      guard_check
        (checks
          [when_check (\<not> late_eligible mission) (checks [refuse_terminal mission, Some RUN]),
           require (\<not> jhas ''late_resolution'' run) RUN_ALREADY_RECORDED,
           require_str_m task_id MAX_RUN_TASK_ID_CHARS False,
           require_str_m status MAX_OBSERVED_STATUS_CHARS False])
        (Inr (put_run (jput ''late_resolution'' resolution run) now mission, resolution)))"

definition record_late_resolution ::
  "'w menv \<Rightarrow> json \<Rightarrow> json \<Rightarrow> json \<Rightarrow> caller_context \<Rightarrow> ('w msys, json) act" where
  "record_late_resolution env mission_id task_id status ctxt =
     run_write env mission_id ctxt False (change_late task_id status)"

section \<open>The verification\<close>

record observation =
  ob_completeness :: json
  ob_supports :: json
  ob_reported_digest :: json
  ob_evidence_id :: json
  ob_status :: json

definition accepted_result :: "json \<Rightarrow> json \<Rightarrow> bool" where
  "accepted_result evidence_id evidence \<longleftrightarrow>
     jget ''evidence_id'' evidence = evidence_id
     \<and> jget ''kind'' evidence = JStr ''VERIFICATION_RECORD''
     \<and> jget ''requirement_key'' evidence = JStr ''run_result''
     \<and> jget ''acceptance'' evidence \<noteq> JNull \<and> jget ''invalidation'' evidence = JNull"

definition require_accepted_result :: "json \<Rightarrow> json \<Rightarrow> json \<Rightarrow> check" where
  "require_accepted_result document mission_id evidence_id =
     require (list_ex (accepted_result evidence_id)
       (jlist ''evidence'' (jget (str_of mission_id) (jget ''mission_state'' document)))) RUN"

definition record_pending_proof ::
  "json \<Rightarrow> observation \<Rightarrow> (str \<times> str) list \<Rightarrow> json \<Rightarrow> exn + json \<times> json" where
  "record_pending_proof mission ob failures now =
     (let run = jget ''run'' mission; previous = jget ''pending_proof'' run;
          attempts = (if previous = JNull then 1 else jint ''attempts'' previous + 1);
          pending = JObj
            [(''decided_at'', now), (''attempts'', JInt attempts),
             (''target_task_id'', jget ''task_id'' (jget ''receipt'' run)),
             (''observed_task_status'', ob_status ob), (''raw_global_completeness'', ob_completeness ob),
             (''supports_verification'', ob_supports ob), (''result_evidence_id'', ob_evidence_id ob),
             (''blockers'', JList (map (\<lambda>(code, detail). JObj
                [(''code'', JStr code), (''detail'', JStr (py_take MAX_BLOCKER_DETAIL_CHARS detail))])
                (take MAX_PENDING_PROOF_BLOCKERS failures)))] in
      guard_check (require (attempts \<le> MAX_VERIFICATION_ATTEMPTS) RUN)
        (Inr (put_run (jput ''pending_proof'' pending run) now mission,
              JObj [(''verified'', JBool False), (''state'', jget ''state'' mission), (''pending_proof'', pending)])))"

definition verification_record :: "json \<Rightarrow> observation \<Rightarrow> json \<Rightarrow> json" where
  "verification_record conjunct_holds ob now =
     (let (verified, failed) = verification_outcome conjunct_holds in JObj
        [(''decided_at'', now), (''verified'', JBool verified), (''failed_conjunct'', failed_json failed),
         (''conjuncts'', JList (map (\<lambda>(name, code). JObj
            [(''name'', JStr name), (''holds'', jget name conjunct_holds)]) VERIFY_CONJUNCTS)),
         (''raw_global_completeness'', ob_completeness ob), (''supports_verification'', ob_supports ob),
         (''reported_result_digest_sha256'', ob_reported_digest ob),
         (''result_evidence_id'', if verified then ob_evidence_id ob else JNull),
         (''observed_task_status'', ob_status ob)])"

definition settle_verification :: "json \<Rightarrow> json \<Rightarrow> observation \<Rightarrow> json \<Rightarrow> exn + json \<times> json" where
  "settle_verification mission conjunct_holds ob now =
     (let record = verification_record conjunct_holds ob now;
          decided = jput ''run'' (jput ''verification'' record (jget ''run'' mission)) mission in
      case verification_outcome conjunct_holds of
        (verified, failed) \<Rightarrow>
          with_transition decided (if verified then STATE_COMPLETED else STATE_BLOCKED)
            (if verified then ''verified_completion'' else the failed) now record)"

definition change_verification ::
  "(json \<Rightarrow> json \<Rightarrow> json \<Rightarrow> exn + (str \<times> str) list) \<Rightarrow> json \<Rightarrow> json \<Rightarrow> observation \<Rightarrow> change" where
  "change_verification contract_failures mission_id conjunct_holds ob document mission now =
     guard_check
       (checks
         [refuse_paused mission,
          require (jget ''state'' mission = JState STATE_RUNNING) RUN,
          require (is_obj conjunct_holds \<and> sort (jkeys conjunct_holds) = sort (map fst VERIFY_CONJUNCTS)) RUN])
       (if fst (verification_outcome conjunct_holds)
        then guard_check (require_accepted_result document mission_id (ob_evidence_id ob))
          (sbind (contract_failures document mission now)
            (\<lambda>failures. if failures \<noteq> [] then record_pending_proof mission ob failures now
                        else settle_verification mission conjunct_holds ob now))
        else settle_verification mission conjunct_holds ob now)"

definition record_verification ::
  "'w menv \<Rightarrow> json \<Rightarrow> json \<Rightarrow> observation \<Rightarrow> caller_context \<Rightarrow> ('w msys, json) act" where
  "record_verification env mission_id conjunct_holds ob ctxt =
     run_write env mission_id ctxt True
       (change_verification (me_failures env) mission_id conjunct_holds ob)"

section \<open>The pauses\<close>

definition change_pause :: "json \<Rightarrow> change" where
  "change_pause authorization_id document mission now =
     (let run = run_block mission; pause = JObj [(''paused_at'', now), (''resumed_at'', JNull)] in
      guard_check
        (checks
          [require (in_states (jget ''state'' mission) [STATE_AUTHORIZED, STATE_RUNNING]) RUN,
           require_bound_authorization mission authorization_id,
           refuse_paused mission,
           require (length (jlist ''pauses'' run) < MAX_RUN_PAUSES) RUN])
        (Inr (put_run (jput ''pauses'' (JList (jlist ''pauses'' run @ [pause])) run) now mission, pause)))"

definition record_pause :: "'w menv \<Rightarrow> json \<Rightarrow> json \<Rightarrow> caller_context \<Rightarrow> ('w msys, json) act" where
  "record_pause env mission_id authorization_id ctxt =
     run_write env mission_id ctxt True (change_pause authorization_id)"

definition change_resume :: "json \<Rightarrow> change" where
  "change_resume authorization_id document mission now =
     (let run = jget ''run'' mission; pauses = jlist ''pauses'' run; resumed = jput ''resumed_at'' now (last pauses) in
      guard_check
        (checks [require_bound_authorization mission authorization_id, require (run_is_paused run) RUN])
        (Inr (put_run (jput ''pauses'' (JList (butlast pauses @ [resumed])) run) now mission, resumed)))"

definition record_resume :: "'w menv \<Rightarrow> json \<Rightarrow> json \<Rightarrow> caller_context \<Rightarrow> ('w msys, json) act" where
  "record_resume env mission_id authorization_id ctxt =
     run_write env mission_id ctxt True (change_resume authorization_id)"

section \<open>The cancel\<close>

definition expected_cancels :: "json \<Rightarrow> str list" where
  "expected_cancels mission =
     (if jget ''state'' mission = JState STATE_AUTHORIZED
      then (if has_intent mission then [''cancelled_after_intent_target_unknown''] else [''cancelled_before_intent''])
      else if jget ''state'' mission = JState STATE_RUNNING
      then [''cancelled_after_observed_running'', ''cancelled_after_target_terminated'']
      else [])"

definition change_cancel :: "json \<Rightarrow> json \<Rightarrow> change" where
  "change_cancel achieved authorization_id document mission now =
     (let cancel = JObj [(''requested_at'', now), (''achieved'', achieved), (''control'', JNull),
            (''quiescence'', JNull), (''completed_at'', JNull)] in
      guard_check
        (checks
          [require_member_m achieved CANCEL_ACHIEVED_STATES BAD_VALUE,
           require_bound_authorization mission authorization_id,
           require (achieved \<in> set (map JStr (expected_cancels mission))) RUN])
        (with_transition (jput ''run'' (jput ''cancel'' cancel (run_block mission)) mission)
           STATE_CANCELLED (str_of achieved) now cancel))"

definition record_cancel :: "'w menv \<Rightarrow> json \<Rightarrow> json \<Rightarrow> json \<Rightarrow> caller_context \<Rightarrow> ('w msys, json) act" where
  "record_cancel env mission_id achieved authorization_id ctxt =
     run_write env mission_id ctxt True (change_cancel achieved authorization_id)"

definition change_cancel_completion :: "json \<Rightarrow> json \<Rightarrow> json \<Rightarrow> change" where
  "change_cancel_completion control quiescence authorization_id document mission now =
     (let run = jget ''run'' mission; cancel = jget ''cancel'' run;
          complete = jput ''completed_at'' now (jput ''quiescence'' quiescence (jput ''control'' control cancel)) in
      guard_check
        (checks
          [require_bound_authorization mission authorization_id,
           require (jget ''state'' mission = JState STATE_CANCELLED \<and> cancel \<noteq> JNull) RUN,
           require (jget ''completed_at'' cancel = JNull) RUN_ALREADY_RECORDED])
        (Inr (put_run (jput ''cancel'' complete run) now mission, complete)))"

definition complete_cancel ::
  "'w menv \<Rightarrow> json \<Rightarrow> json \<Rightarrow> json \<Rightarrow> json \<Rightarrow> caller_context \<Rightarrow> ('w msys, json) act" where
  "complete_cancel env mission_id control quiescence authorization_id ctxt =
     run_write env mission_id ctxt False (change_cancel_completion control quiescence authorization_id)"

end
