(* ===== verification/MissionRunFacts.thy ===== *)
theory MissionRunFacts
  imports MissionRun
begin

text \<open>
  The run record against the lifecycle: a change of the run touches the run, the lifecycle, the
  state and the time of the Mission and nothing else, and moves the state along the table of the
  run transitions or not at all.
\<close>

section \<open>The frame of a change\<close>

definition RUN_MEMBERS :: "str list" where
  "RUN_MEMBERS = [''run'', ''lifecycle'', ''state'', ''updated_at'']"

definition frame :: "json \<Rightarrow> json \<Rightarrow> bool" where
  "frame m m' \<longleftrightarrow> (\<forall>k. k \<notin> set RUN_MEMBERS \<longrightarrow> jget k m' = jget k m)"

definition run_moves :: "(json \<times> json) set" where
  "run_moves = {(JState a, JState b) | a b. (a, b) \<in> set RUN_TRANSITIONS}"

text \<open>The lifecycle records the one transition a change may make.\<close>

definition lifecycle_follows :: "json \<Rightarrow> json \<Rightarrow> bool" where
  "lifecycle_follows m m' \<longleftrightarrow>
     (jget ''state'' m' = jget ''state'' m \<and> jget ''lifecycle'' m' = jget ''lifecycle'' m)
     \<or> ((jget ''state'' m, jget ''state'' m') \<in> run_moves
        \<and> (\<exists>event. jlist ''lifecycle'' m' = jlist ''lifecycle'' m @ [event]
             \<and> jget ''from_state'' event = jget ''state'' m \<and> jget ''to_state'' event = jget ''state'' m'))"

text \<open>A recorded intent is never replaced.\<close>

definition intent_kept :: "json \<Rightarrow> json \<Rightarrow> bool" where
  "intent_kept m m' \<longleftrightarrow> (run_intent m \<noteq> JNull \<longrightarrow> run_intent m' = run_intent m)"

definition sound_change :: "json \<Rightarrow> exn + json \<times> json \<Rightarrow> bool" where
  "sound_change m r \<longleftrightarrow> (\<forall>m' answer. r = Inr (m', answer) \<longrightarrow> frame m m' \<and> lifecycle_follows m m' \<and> intent_kept m m')"

named_theorems change_intro "rules of sound changes"

lemma state_of_Some: "state_of v = Some s \<Longrightarrow> v = JState s"
  by (auto simp: state_of_def find_Some_iff)

lemma frame_put_run [simp]: "frame m (put_run run now m')\<longleftrightarrow> frame m m'"
  by (auto simp: frame_def put_run_def RUN_MEMBERS_def jget_jput)

lemma frame_jput_run [simp]: "frame m (jput ''run'' run m') \<longleftrightarrow> frame m m'"
  by (auto simp: frame_def RUN_MEMBERS_def jget_jput)

lemma frame_refl [simp]: "frame m m"
  by (simp add: frame_def)

lemma follows_put_run [simp]: "lifecycle_follows m (put_run run now m') \<longleftrightarrow> lifecycle_follows m m'"
  by (simp add: lifecycle_follows_def put_run_def jget_jput)

lemma follows_jput_run [simp]: "lifecycle_follows m (jput ''run'' run m') \<longleftrightarrow> lifecycle_follows m m'"
  by (simp add: lifecycle_follows_def jget_jput)

lemma lifecycle_follows_refl [simp]: "lifecycle_follows m m"
  by (simp add: lifecycle_follows_def)

lemma intent_kept_refl [simp]: "intent_kept m m"
  by (simp add: intent_kept_def)

lemma jget_JNull [simp]: "jget k JNull = JNull"
  by (simp add: jget_def)

lemma intent_of_run_block: "jget ''intent'' (run_block m) = run_intent m"
  by (simp add: run_block_def run_intent_def new_run_block_def)

lemma has_intent_iff: "has_intent m \<longleftrightarrow> run_intent m \<noteq> JNull"
  by (auto simp: has_intent_def run_intent_def)

text \<open>Every change of the run that does not set the intent.\<close>

lemma intent_kept_put [simp]:
  "k \<noteq> ''intent'' \<Longrightarrow> intent_kept m (put_run (jput k x run) now m') \<longleftrightarrow> intent_kept m (put_run run now m')"
  "k \<noteq> ''intent'' \<Longrightarrow> intent_kept m (jput ''run'' (jput k x run) m') \<longleftrightarrow> intent_kept m (jput ''run'' run m')"
  "intent_kept m (put_run (jget ''run'' m) now m')" "intent_kept m (put_run (run_block m) now m')"
  "intent_kept m (jput ''run'' (jget ''run'' m) m')" "intent_kept m (jput ''run'' (run_block m) m')"
  by (simp_all add: intent_kept_def put_run_def run_intent_def jget_jput
      intent_of_run_block [unfolded run_intent_def])

lemma sound_Inl [simp]: "sound_change m (Inl e)"
  by (simp add: sound_change_def)

lemma sound_Inr [simp]: "sound_change m (Inr (m', answer)) \<longleftrightarrow> frame m m' \<and> lifecycle_follows m m' \<and> intent_kept m m'"
  by (simp add: sound_change_def)

lemma sound_guard [change_intro]: "(c = None \<Longrightarrow> sound_change m r) \<Longrightarrow> sound_change m (guard_check c r)"
  by (cases c) simp_all

lemma sound_bind [change_intro]: "(\<And>a. r = Inr a \<Longrightarrow> sound_change m (k a)) \<Longrightarrow> sound_change m (sbind r k)"
  by (cases r) simp_all

lemma sound_if [change_intro]:
  "(b \<Longrightarrow> sound_change m r) \<Longrightarrow> (\<not> b \<Longrightarrow> sound_change m q) \<Longrightarrow> sound_change m (if b then r else q)"
  by simp

lemma sound_transition [change_intro]:
  assumes "frame m m'" "jget ''state'' m' = jget ''state'' m" "jget ''lifecycle'' m' = jget ''lifecycle'' m"
    and "intent_kept m m'"
  shows "sound_change m (with_transition m' target reason now answer)"
proof -
  have "frame m m'' \<and> lifecycle_follows m m'' \<and> intent_kept m m''" if moved: "run_transition m' target reason now = Inr m''" for m''
  proof -
    from moved obtain a where "jget ''state'' m = JState a" "(a, target) \<in> set RUN_TRANSITIONS"
      and m'': "m'' = jput ''updated_at'' now (jput ''state'' (JState target)
        (jput ''lifecycle'' (JList (jlist ''lifecycle'' m' @
             [JObj [(''from_state'', jget ''state'' m'), (''to_state'', JState target),
                    (''reason'', JStr reason), (''recorded_at'', now)]])) m'))"
      by (auto simp: run_transition_def guard_check_Inr_iff checks_simps list_ex_iff assms)
    then have "(jget ''state'' m, JState target) \<in> run_moves" by (auto simp: run_moves_def)
    moreover have "frame m m''"
      using assms(1) by (simp add: m'' frame_def RUN_MEMBERS_def jget_jput)
    moreover have "intent_kept m m''"
      using assms(4) by (simp add: m'' intent_kept_def run_intent_def jget_jput)
    moreover have "jget ''from_state'' (JObj [(''from_state'', a), (''to_state'', b), c, e]) = a"
      "jget ''to_state'' (JObj [(''from_state'', a), (''to_state'', b), c, e]) = b" for a b c e
      by (simp_all add: jget_def)
    ultimately show ?thesis
      by (simp add: m'' lifecycle_follows_def jget_jput assms(2,3))
  qed
  then show ?thesis
    by (cases "run_transition m' target reason now") (simp_all add: with_transition_def)
qed

lemma bind_late_child_simps [simp]:
  "frame m (bind_late_child t now m)" "jget ''state'' (bind_late_child t now m) = jget ''state'' m"
  "jget ''lifecycle'' (bind_late_child t now m) = jget ''lifecycle'' m"
  "intent_kept m (bind_late_child t now m)"
  by (simp_all add: bind_late_child_def Let_def jget_jput)

lemma put_run_simps [simp]:
  "jget ''state'' (put_run run now m) = jget ''state'' m"
  "jget ''lifecycle'' (put_run run now m) = jget ''lifecycle'' m"
  by (simp_all add: put_run_def jget_jput)

lemma sound_settle [change_intro]: "sound_change m (settle_verification m holds ob now)"
  unfolding settle_verification_def Let_def
  by (cases "verification_outcome holds") (simp add: sound_transition jget_jput)

lemma sound_pending [change_intro]: "sound_change m (record_pending_proof m ob failures now)"
  unfolding record_pending_proof_def Let_def by (intro change_intro) simp

lemma sound_intent: "sound_change m (change_intent h mission_id q document m now)"
  unfolding change_intent_def Let_def
  by (intro change_intro) (simp add: intent_problem_def Let_def checks_simps has_intent_iff intent_kept_def)

lemma sound_changes:
  "sound_change m (change_binding h mission_id path repository url baseline document m now)"
  "sound_change m (change_prepared digest document m now)"
  "sound_change m (change_refusal problem detail document m now)"
  "sound_change m (change_receipt task_id source process_group document m now)"
  "sound_change m (change_observed task_id already_stopped document m now)"
  "sound_change m (change_stop reason task_id document m now)"
  "sound_change m (change_unobserved document m now)"
  "sound_change m (change_late task_id status document m now)"
  "sound_change m (change_verification failures mission_id holds ob document m now)"
  "sound_change m (change_pause authorization_id document m now)"
  "sound_change m (change_resume authorization_id document m now)"
  "sound_change m (change_cancel achieved authorization_id document m now)"
  "sound_change m (change_cancel_completion control quiescence authorization_id document m now)"
  unfolding change_binding_def change_prepared_def change_refusal_def change_receipt_def
    change_observed_def change_stop_def change_unobserved_def change_late_def change_verification_def
    change_pause_def change_resume_def change_cancel_def change_cancel_completion_def Let_def
  by (intro change_intro; simp add: jget_jput)+

section \<open>Terminal Missions\<close>

lemma terminal_no_moves:
  "in_states s TERMINAL_STATES \<Longrightarrow> (s, t) \<notin> run_moves"
  by (auto simp: in_states_def run_moves_def TERMINAL_STATES_def RUN_TRANSITIONS_def)

text \<open>The run transitions as a phase table: at most two of them.\<close>

definition run_table :: "mission_state \<Rightarrow> mission_state list" where
  "run_table s = map snd (filter (\<lambda>(a, b). a = s) RUN_TRANSITIONS)"

definition run_rank :: "mission_state \<Rightarrow> nat" where
  "run_rank s = (if s = STATE_AUTHORIZED then 0 else if s = STATE_RUNNING then 1 else 2)"

interpretation rt: phase_table run_table "\<lambda>s. s \<in> set TERMINAL_STATES" run_rank 2
  by unfold_locales
    (auto simp: run_table_def run_rank_def RUN_TRANSITIONS_def TERMINAL_STATES_def split: if_splits)

end
