(* ===== verification/MissionHistory.thy ===== *)
theory MissionHistory
  imports MissionRunFacts "HOL-Library.Sublist"
begin

text \<open>
  The history that the Mission store keeps. An operation of the service may add Missions,
  authorizations, reservations and ledger entries and move a Mission along the table of
  transitions; what is recorded stays. The operations are the transitions of a system, and the
  growth is proved of each of them and of every sequence.
\<close>

section \<open>The order of the documents\<close>

definition state_moves :: "(json \<times> json) set" where
  "state_moves = {(JState a, JState b) | a b. b \<in> set (ALLOWED_TRANSITIONS a)}"

definition MISSION_HISTORY :: "str list" where
  "MISSION_HISTORY = [''revisions'', ''decisions'', ''authorization_ids'']"

definition MISSION_IDENTITY :: "str list" where
  "MISSION_IDENTITY = [''mission_id'', ''request_id'', ''created_at'']"

definition mission_extends :: "json \<Rightarrow> json \<Rightarrow> bool" where
  "mission_extends m m' \<longleftrightarrow>
     (\<forall>k \<in> set MISSION_IDENTITY. jget k m' = jget k m)
     \<and> (\<forall>k \<in> set MISSION_HISTORY. prefix (jlist k m) (jlist k m'))
     \<and> (jget ''state'' m, jget ''state'' m') \<in> state_moves\<^sup>* \<and> intent_kept m m'"

definition authorization_extends :: "json \<Rightarrow> json \<Rightarrow> bool" where
  "authorization_extends a a' \<longleftrightarrow>
     (\<forall>k \<in> set AUTHORITY_KEYS_m. jget k a' = jget k a)
     \<and> jget ''authorization_digest_sha256'' a' = jget ''authorization_digest_sha256'' a
     \<and> (jget ''revoked'' (jget ''revocation'' a) = JBool True \<longrightarrow> a' = a)"

definition reservation_extends :: "json \<Rightarrow> json \<Rightarrow> bool" where
  "reservation_extends r r' \<longleftrightarrow>
     jget ''kind'' r' = jget ''kind'' r \<and> jget ''context'' r' = jget ''context'' r
     \<and> (jget ''consumed_by'' r \<noteq> JNull \<longrightarrow> r' = r)"

definition kept :: "(json \<Rightarrow> json \<Rightarrow> bool) \<Rightarrow> str \<Rightarrow> json \<Rightarrow> json \<Rightarrow> bool" where
  "kept R k d d' \<longleftrightarrow>
     (\<forall>i. jget i (jget k d) \<noteq> JNull \<longrightarrow> jget i (jget k d') \<noteq> JNull \<and> R (jget i (jget k d)) (jget i (jget k d')))"

definition document_extends :: "json \<Rightarrow> json \<Rightarrow> bool" where
  "document_extends d d' \<longleftrightarrow>
     kept mission_extends ''missions'' d d' \<and> kept authorization_extends ''authorizations'' d d'
     \<and> kept reservation_extends ''reservations'' d d'
     \<and> prefix (jlist ''authority_ledger'' d) (jlist ''authority_ledger'' d')"

lemma mission_extends_refl [simp]: "mission_extends m m"
  by (simp add: mission_extends_def)

lemma authorization_extends_refl [simp]: "authorization_extends a a"
  by (simp add: authorization_extends_def)

lemma reservation_extends_refl [simp]: "reservation_extends r r"
  by (simp add: reservation_extends_def)

lemma intent_kept_trans: "intent_kept a b \<Longrightarrow> intent_kept b c \<Longrightarrow> intent_kept a c"
  unfolding intent_kept_def by metis

lemma mission_extends_trans: "mission_extends a b \<Longrightarrow> mission_extends b c \<Longrightarrow> mission_extends a c"
  unfolding mission_extends_def by (auto intro: prefix_order.trans rtrancl_trans intent_kept_trans)

lemma authorization_extends_trans:
  "authorization_extends a b \<Longrightarrow> authorization_extends b c \<Longrightarrow> authorization_extends a c"
  unfolding authorization_extends_def by (intro conjI ballI impI) simp_all

lemma reservation_extends_trans: "reservation_extends a b \<Longrightarrow> reservation_extends b c \<Longrightarrow> reservation_extends a c"
  unfolding reservation_extends_def by (intro conjI impI) simp_all

lemma kept_refl [simp]: "(\<And>x. R x x) \<Longrightarrow> kept R k d d"
  by (simp add: kept_def)

lemma kept_trans:
  assumes "kept R k a b" "kept R k b c" "\<And>x y z. R x y \<Longrightarrow> R y z \<Longrightarrow> R x z"
  shows "kept R k a c"
  unfolding kept_def
proof (intro allI impI)
  fix i assume "jget i (jget k a) \<noteq> JNull"
  with assms(1) have b: "jget i (jget k b) \<noteq> JNull" "R (jget i (jget k a)) (jget i (jget k b))"
    by (simp_all add: kept_def)
  with assms(2) have "jget i (jget k c) \<noteq> JNull" "R (jget i (jget k b)) (jget i (jget k c))"
    by (simp_all add: kept_def)
  with b assms(3) show "jget i (jget k c) \<noteq> JNull \<and> R (jget i (jget k a)) (jget i (jget k c))" by blast
qed

lemma document_extends_refl [simp]: "document_extends d d"
  by (simp add: document_extends_def)

lemma document_extends_trans: "document_extends a b \<Longrightarrow> document_extends b c \<Longrightarrow> document_extends a c"
  unfolding document_extends_def
  by (meson kept_trans mission_extends_trans authorization_extends_trans reservation_extends_trans prefix_order.trans)

lemma jget_put_member:
  "jget l (put_member k i v d) = (if l = k then jput i v (jget k d) else jget l d)"
  by (simp add: put_member_def jget_jput)

lemma kept_put_same:
  assumes "kept R k d d'" "v \<noteq> JNull"
    and "jget i (jget k d) \<noteq> JNull \<Longrightarrow> R (jget i (jget k d)) v"
  shows "kept R k d (put_member k i v d')"
  using assms by (auto simp: kept_def jget_put_member jget_jput)

lemma kept_put_other: "kept R k d d' \<Longrightarrow> k \<noteq> l \<Longrightarrow> kept R k d (put_member l i v d')"
  by (simp add: kept_def jget_put_member)

lemma extends_put_mission:
  assumes "document_extends d d'" "m \<noteq> JNull"
    and "jget i (jget ''missions'' d) \<noteq> JNull \<Longrightarrow> mission_extends (jget i (jget ''missions'' d)) m"
  shows "document_extends d (put_member ''missions'' i m d')"
  using assms by (simp add: document_extends_def kept_put_same kept_put_other jget_put_member)

lemma extends_put_authorization:
  assumes "document_extends d d'" "a \<noteq> JNull"
    and "jget i (jget ''authorizations'' d) \<noteq> JNull \<Longrightarrow> authorization_extends (jget i (jget ''authorizations'' d)) a"
  shows "document_extends d (put_member ''authorizations'' i a d')"
  using assms by (simp add: document_extends_def kept_put_same kept_put_other jget_put_member)

lemma extends_put_reservation:
  assumes "document_extends d d'" "r \<noteq> JNull"
    and "jget i (jget ''reservations'' d) \<noteq> JNull \<Longrightarrow> reservation_extends (jget i (jget ''reservations'' d)) r"
  shows "document_extends d (put_member ''reservations'' i r d')"
  using assms by (simp add: document_extends_def kept_put_same kept_put_other jget_put_member)

lemma extends_ledger:
  assumes "document_extends d d'" "prefix (jlist ''authority_ledger'' d') es"
  shows "document_extends d (jput ''authority_ledger'' (JList es) d')"
  using assms prefix_order.trans by (auto simp: document_extends_def kept_def jget_jput)

lemma jput_not_null [simp]: "jput k v d \<noteq> JNull"
  by (simp add: jput_def)

section \<open>A logic of growth\<close>

definition silent :: "('w msys, 'a) act \<Rightarrow> bool" where
  "silent m \<longleftrightarrow> (\<forall>f. preserves (\<lambda>s. m_file s = f) m)"

definition answers :: "('s, 'a) act \<Rightarrow> ('a \<Rightarrow> bool) \<Rightarrow> bool" where
  "answers m Q \<longleftrightarrow> (\<forall>s a t. m s = (Inr a, t) \<longrightarrow> Q a)"

definition holds_document :: "'w menv \<Rightarrow> json \<Rightarrow> 'w msys \<Rightarrow> bool" where
  "holds_document env d s \<longleftrightarrow> mission_load (me_host env) (me_state_check env) (m_file s) = Inr d"

definition grows :: "'w menv \<Rightarrow> json \<Rightarrow> ('w msys, 'a) act \<Rightarrow> bool" where
  "grows env d m \<longleftrightarrow>
     (\<forall>s. holds_document env d s \<longrightarrow> (\<exists>d'. holds_document env d' (snd (m s)) \<and> document_extends d d'))"

text \<open>What the code relies on of the injected clock and identifier minter: neither writes the store.\<close>

definition injected :: "'w menv \<Rightarrow> bool" where
  "injected env \<longleftrightarrow> silent (me_clock env) \<and> (\<forall>p. silent (me_mint env p))"

named_theorems silent_intro "rules of silent computations"
named_theorems grows_intro "rules of growth"

lemma silent_basic [silent_intro, simp]:
  "silent (ret a)" "silent (throw e)" "silent get_state" "silent (of_result r)" "silent (of_check c)" "silent (ensure b e)"
  by (simp_all add: silent_def)

lemma silent_bnd [silent_intro]: "silent m \<Longrightarrow> (\<And>a. silent (k a)) \<Longrightarrow> silent (bnd m k)"
  by (simp add: silent_def preserves_bnd)

lemma silent_seq [silent_intro]: "silent m \<Longrightarrow> silent k \<Longrightarrow> silent (seq m k)"
  by (simp add: silent_def preserves_seq)

lemma silent_if [silent_intro]: "(b \<Longrightarrow> silent m) \<Longrightarrow> (\<not> b \<Longrightarrow> silent k) \<Longrightarrow> silent (if b then m else k)"
  by simp

lemma silent_Let [silent_intro]: "(\<And>y. y = x \<Longrightarrow> silent (f y)) \<Longrightarrow> silent (let y = x in f y)"
  by simp

lemma silent_prod [silent_intro]: "(\<And>a b. x = (a, b) \<Longrightarrow> silent (f a b)) \<Longrightarrow> silent (case x of (a, b) \<Rightarrow> f a b)"
  by (cases x) simp

lemma silent_lock [simp]: "silent mission_lock"
  unfolding mission_lock_def make_directory_def silent_def
  by (auto intro!: preserves_intro)

lemma silent_now [silent_intro]: "injected env \<Longrightarrow> silent (mission_now env)"
  unfolding mission_now_def by (intro silent_intro) (simp_all add: injected_def)

lemma silent_tries: "injected env \<Longrightarrow> silent (fresh_tries env p taken n)"
proof (induction n)
  case (Suc n)
  then show ?case by (auto intro!: silent_intro simp: injected_def)
qed simp

lemma silent_fresh [silent_intro]: "injected env \<Longrightarrow> silent (fresh_id env p taken)"
  by (simp add: fresh_id_def silent_tries)

lemma silent_ledger [silent_intro]:
  "injected env \<Longrightarrow> silent (append_ledger env kind now mission_id revision i decision_id reason document)"
  unfolding append_ledger_def by (intro silent_intro)

lemma silent_notes: "injected env \<Longrightarrow> silent (note_each env mission now ids document)"
  by (induction ids arbitrary: document) (auto intro!: silent_intro)

lemma silent_expirations [silent_intro]: "injected env \<Longrightarrow> silent (note_expirations env mission now document)"
  by (simp add: note_expirations_def silent_notes)

lemma silent_outcome [silent_intro]: "injected env \<Longrightarrow> silent (decision_outcome env document decision_record b)"
  unfolding decision_outcome_def Let_def by (intro silent_intro)

lemma answers_bnd: "(\<And>a. answers m P \<Longrightarrow> P a \<Longrightarrow> answers (k a) Q) \<Longrightarrow> answers m P \<Longrightarrow> answers (bnd m k) Q"
  by (auto simp: answers_def bnd_Inr)

lemma answersD: "answers m Q \<Longrightarrow> m s = (Inr a, t) \<Longrightarrow> Q a"
  by (auto simp: answers_def)

lemma grows_silent: "silent m \<Longrightarrow> grows env d m"
proof -
  assume "silent m"
  then have "m_file (snd (m s)) = m_file s" for s by (simp add: silent_def preserves_def)
  then show ?thesis by (auto simp: grows_def holds_document_def)
qed

lemma grows_bnd:
  assumes "silent m" "\<And>s a t. m s = (Inr a, t) \<Longrightarrow> grows env d (k a)"
  shows "grows env d (bnd m k)"
  unfolding grows_def
proof (intro allI impI)
  fix s assume s: "holds_document env d s"
  obtain r t where m: "m s = (r, t)" by (cases "m s")
  with assms(1) have "m_file t = m_file s" by (auto simp: silent_def preserves_def dest: spec [of _ s])
  with s have t: "holds_document env d t" by (simp add: holds_document_def)
  show "\<exists>d'. holds_document env d' (snd (bnd m k s)) \<and> document_extends d d'"
  proof (cases r)
    case (Inl e)
    with m t show ?thesis by (auto simp: bnd_eq)
  next
    case (Inr a)
    with m t assms(2) [of s a t] show ?thesis by (simp add: bnd_eq grows_def)
  qed
qed

lemma grows_seq: "silent m \<Longrightarrow> grows env d k \<Longrightarrow> grows env d (seq m k)"
  unfolding seq_def by (rule grows_bnd)

lemma grows_check: "(c = None \<Longrightarrow> grows env d m) \<Longrightarrow> grows env d (seq (of_check c) m)"
  unfolding seq_def by (rule grows_bnd) simp_all

lemma grows_result: "(\<And>a. r = Inr a \<Longrightarrow> grows env d (k a)) \<Longrightarrow> grows env d (bnd (of_result r) k)"
  by (rule grows_bnd) simp_all

lemma grows_answers: "silent m \<Longrightarrow> answers m Q \<Longrightarrow> (\<And>a. Q a \<Longrightarrow> grows env d (k a)) \<Longrightarrow> grows env d (bnd m k)"
  by (erule grows_bnd) (auto dest: answersD)

lemma grows_save:
  assumes "document_extends d d'" "silent m"
  shows "grows env d (seq (save env d') m)"
  unfolding grows_def
proof (intro allI impI)
  fix s assume s: "holds_document env d s"
  obtain r t where saved: "save env d' s = (r, t)" by (cases "save env d' s")
  then consider "r \<noteq> Inr ()" "m_file t = m_file s"
    | f where "r = Inr ()" "mission_save (me_host env) (me_state_check env) d' = Inr f" "m_file t = f"
    unfolding save_def save_missions_def make_directory_def
    by (cases "mission_save (me_host env) (me_state_check env) d'")
      (auto simp: run_simps of_check_def split: option.splits)
  then show "\<exists>x. holds_document env x (snd (seq (save env d') m s)) \<and> document_extends d x"
  proof cases
    case 1
    then obtain e where r: "r = Inl e" by (cases r) auto
    have "seq (save env d') m s = (Inl e, t)" using saved r by (simp add: seq_eq)
    with 1 s show ?thesis by (auto simp: holds_document_def intro!: exI [of _ d])
  next
    case 2
    have "m_file (snd (m t)) = m_file t" using assms(2) by (simp add: silent_def preserves_def)
    with 2 ms.load_save have "holds_document env d' (snd (m t))" by (simp add: holds_document_def)
    with 2 saved assms(1) show ?thesis by (auto simp: seq_eq)
  qed
qed

text \<open>An operation: whatever document the store holds, it grows.\<close>

definition extends :: "'w menv \<Rightarrow> ('w msys, 'a) act \<Rightarrow> bool" where
  "extends env m \<longleftrightarrow> (\<forall>d. grows env d m)"

lemma extends_silent: "silent m \<Longrightarrow> extends env m"
  by (simp add: extends_def grows_silent)

lemma extends_bnd: "silent m \<Longrightarrow> (\<And>a. extends env (k a)) \<Longrightarrow> extends env (bnd m k)"
  unfolding extends_def by (blast intro: grows_bnd)

lemma extends_seq: "silent m \<Longrightarrow> extends env k \<Longrightarrow> extends env (seq m k)"
  unfolding seq_def by (rule extends_bnd)

lemma extends_locked:
  assumes "\<And>d. validate_mission_document (me_host env) (me_state_check env) d = None \<Longrightarrow> grows env d (body d)"
  shows "extends env (locked env body)"
  unfolding extends_def grows_def
proof (intro allI impI)
  fix d s assume s: "holds_document env d s"
  have valid: "validate_mission_document (me_host env) (me_state_check env) d = None"
    using s ms.load_valid by (simp add: holds_document_def)
  obtain r t where lock: "mission_lock s = (r, t)" by (cases "mission_lock s")
  with silent_lock have "m_file t = m_file s" by (auto simp: silent_def preserves_def dest: spec [of _ s])
  with s have t: "holds_document env d t" by (simp add: holds_document_def)
  show "\<exists>d'. holds_document env d' (snd (locked env body s)) \<and> document_extends d d'"
  proof (cases r)
    case (Inl e)
    with lock t show ?thesis by (auto simp: locked_def seq_eq)
  next
    case (Inr u)
    have "locked env body s = bnd (load_missions (me_host env) (me_state_check env)) body t"
      using lock Inr by (simp add: locked_def seq_eq)
    moreover have "load_missions (me_host env) (me_state_check env) t
        = (case refuse_open_directory (m_dir t) of None \<Rightarrow> (Inr d, t) | Some e \<Rightarrow> (Inl e, t))"
      using t by (simp add: load_missions_def run_simps of_check_def holds_document_def split: option.split)
    ultimately show ?thesis
      using t assms [OF valid] by (auto simp: bnd_eq grows_def split: option.split)
  qed
qed

end
