(* ===== verification/MissionGrowth.thy ===== *)
theory MissionGrowth
  imports MissionHistory
begin

text \<open>
  Every operation of the Mission service grows the document: the reservations, the proposals, the
  withdrawal, the decisions and the run writes, each as the code performs it, and every sequence
  of them.
\<close>

section \<open>The stored Missions\<close>

lemma stored_missions_each:
  assumes "validate_stored_missions h document seen entries = None" "(k, m) \<in> set entries"
  shows "validate_mission_record h m = None" "jget ''mission_id'' m = JStr k"
    "\<exists>seen. validate_stored_mission h document seen (k, m) = None"
proof -
  have "\<exists>seen. validate_stored_mission h document seen (k, m) = None"
    using assms by (induction h document seen entries rule: validate_stored_missions.induct) (auto simp: checks_simps)
  then show "\<exists>seen. validate_stored_mission h document seen (k, m) = None" .
  then show "validate_mission_record h m = None" "jget ''mission_id'' m = JStr k"
    by (auto simp: validate_stored_mission_def checks_simps)
qed

lemma document_valid:
  assumes "validate_mission_document h sc d = None"
  shows "validate_stored_missions h d [] (members ''missions'' d) = None"
    "reconcile_registry d = None"
    "\<And>k m. (k, m) \<in> set (members ''missions'' d) \<Longrightarrow> reconcile_mission_history d m = None"
    "\<And>k a. (k, a) \<in> set (members ''authorizations'' d) \<Longrightarrow> validate_stored_authorization h d (k, a) = None"
    "\<And>k r. (k, r) \<in> set (members ''reservations'' d) \<Longrightarrow>
       validate_reservation r = None \<and> require_id_m (JStr k) (REFERENCE_PREFIXES (str_of (jget ''kind'' r))) = None"
    "is_obj d" "is_obj (jget ''missions'' d)" "is_obj (jget ''authorizations'' d)" "is_list (jget ''authority_ledger'' d)"
    "is_obj (jget ''reservations'' d)"
  using assms
  by (auto simp: validate_mission_document_def Let_def checks_mission_store checks_simps list_all_iff)

lemma member_in: "jget k (jget c d) \<noteq> JNull \<Longrightarrow> (k, jget k (jget c d)) \<in> set (members c d)"
  by (auto simp: members_def jget_def [of k] split: option.splits dest: map_of_SomeD)

lemma loaded_mission:
  assumes "validate_mission_document h sc d = None" "mission_of d mission_id = Inr m"
  shows "m = mission_at d mission_id" "m \<noteq> JNull" "jget ''mission_id'' m = mission_id" "is_str mission_id"
    "validate_mission_record h m = None" "reconcile_mission_history d m = None"
proof -
  from assms(2) show m: "m = mission_at d mission_id" "m \<noteq> JNull"
    by (auto simp: mission_of_def split: if_splits)
  from assms(2) show s: "is_str mission_id"
    by (auto simp: mission_of_def id_problem_def split: if_splits)
  have member: "(str_of mission_id, m) \<in> set (members ''missions'' d)"
    using m member_in [of "str_of mission_id" "''missions''" d] by (simp add: mission_at_def)
  with stored_missions_each(1,2) [OF document_valid(1) [OF assms(1)] this] s
  show "jget ''mission_id'' m = mission_id" "validate_mission_record h m = None"
    by (auto simp: is_str_iff)
  show "reconcile_mission_history d m = None" using document_valid(3) [OF assms(1) member] .
qed

lemma extends_put:
  assumes "validate_mission_document h sc d = None" "mission_of d mission_id = Inr m"
    "document_extends d d'" "mission_extends m m'" "m' \<noteq> JNull"
  shows "document_extends d (put_mission m' d')"
proof -
  note m = loaded_mission [OF assms(1,2)]
  have "jget ''mission_id'' m' = mission_id"
    using assms(4) m(3) by (simp add: mission_extends_def MISSION_IDENTITY_def)
  with assms m show ?thesis
    unfolding put_mission_def by (intro extends_put_mission) (simp_all add: mission_at_def)
qed

section \<open>The run writes\<close>

lemma run_moves_state: "(a, b) \<in> run_moves \<Longrightarrow> (a, b) \<in> state_moves"
  by (auto simp: run_moves_def state_moves_def RUN_TRANSITIONS_def)

lemma sound_extends:
  assumes "frame m m'" "lifecycle_follows m m'" "intent_kept m m'"
  shows "mission_extends m m'"
proof -
  have "set (MISSION_IDENTITY @ MISSION_HISTORY) \<inter> set RUN_MEMBERS = {}"
    by (simp add: RUN_MEMBERS_def MISSION_IDENTITY_def MISSION_HISTORY_def)
  with assms(1) have "jget k m' = jget k m" if "k \<in> set MISSION_IDENTITY \<union> set MISSION_HISTORY" for k
    using that by (auto simp only: frame_def set_append)
  moreover have "(jget ''state'' m, jget ''state'' m') \<in> state_moves\<^sup>*"
    using assms(2) by (auto simp: lifecycle_follows_def dest: run_moves_state)
  ultimately show ?thesis using assms(3) unfolding mission_extends_def by (intro conjI ballI) simp_all
qed

lemma sound_not_null:
  assumes "validate_mission_record h m = None" "frame m m'"
  shows "m' \<noteq> JNull"
proof -
  have "require_id_m (jget ''mission_id'' m) MISSION_ID_PREFIX = None"
    using assms(1) by (auto simp: mission_valid validate_mission_m_def Let_def checks_simps)
  then have "jget ''mission_id'' m \<noteq> JNull" by (auto simp: require_id_m_def id_problem_def)
  moreover have "jget ''mission_id'' m' = jget ''mission_id'' m"
    using assms(2) by (simp add: frame_def RUN_MEMBERS_def)
  ultimately show ?thesis by auto
qed

lemma extends_run_write:
  assumes "injected env" "\<And>document m now. sound_change m (change document m now)"
  shows "extends env (run_write env mission_id ctxt guard change)"
  unfolding run_write_def
proof (intro extends_seq extends_locked silent_basic grows_check grows_result grows_bnd [OF silent_now [OF assms(1)]])
  fix d m s now t r
  assume *: "validate_mission_document (me_host env) (me_state_check env) d = None" "mission_of d mission_id = Inr m"
    and r: "change d m now = Inr r"
  obtain m' answer where [simp]: "r = (m', answer)" by (cases r)
  have sound: "frame m m'" "lifecycle_follows m m'" "intent_kept m m'"
    using assms(2) [of m d now] r by (simp_all add: sound_change_def)
  have "document_extends d (put_mission m' d)"
    using extends_put [OF * document_extends_refl sound_extends [OF sound]]
      sound_not_null [OF loaded_mission(5) [OF *] sound(1)] by simp
  then show "grows env d (case r of (mission', outcome) \<Rightarrow> seq (save env (put_mission mission' d)) (ret outcome))"
    by (simp add: grows_save)
qed

section \<open>Reservations and proposals\<close>

lemma fresh_tries_new: "answers (fresh_tries env p taken n) (\<lambda>i. is_str i \<and> \<not> id_problem i p \<and> str_of i \<notin> set taken)"
proof (induction n)
  case (Suc n)
  then show ?case
    by (auto simp: answers_def bnd_Inr seq_Inr require_id_m_def id_problem_def split: if_splits)
qed (simp add: answers_def)

lemma fresh_new: "answers (fresh_id env p taken) (\<lambda>i. is_str i \<and> \<not> id_problem i p \<and> str_of i \<notin> set taken)"
  by (simp add: fresh_id_def fresh_tries_new)

lemma absent: "i \<notin> set (map fst (members c d)) \<Longrightarrow> jget i (jget c d) = JNull"
  by (auto simp: members_def jget_def [of i] split: option.split dest!: map_of_SomeD intro: rev_image_eqI)

lemma extends_reserve:
  assumes "injected env"
  shows "extends env (reserve env kind ctxt)"
  unfolding reserve_def
proof (intro extends_seq extends_locked grows_seq silent_basic,
    rule grows_answers [OF silent_fresh [OF assms] fresh_new], rule grows_bnd [OF silent_now [OF assms]])
  fix d i now
  assume "is_str i \<and> \<not> id_problem i (REFERENCE_PREFIXES kind) \<and> str_of i \<notin> set (map fst (members ''reservations'' d))"
  then have "jget (str_of i) (jget ''reservations'' d) = JNull" using absent by blast
  then have "document_extends d (put_member ''reservations'' (str_of i)
      (reservation_entry now kind (context_dict ctxt) JNull) d)"
    by (intro extends_put_reservation) (simp_all add: reservation_entry_def)
  then show "grows env d (seq (save env (put_member ''reservations'' (str_of i)
      (reservation_entry now kind (context_dict ctxt) JNull) d)) (ret i))"
    by (rule grows_save) simp
qed

lemma extends_consume:
  assumes "document_extends d d'" "reservation d i kind ctxt p q = Inr r" "jget ''consumed_by'' r = JNull"
    and "jget ''reservations'' d' = jget ''reservations'' d"
  shows "document_extends d (consume i c d')"
proof -
  have "r = jget (str_of i) (jget ''reservations'' d)"
    using assms(2) by (auto simp: reservation_def members_def jget_def split: option.splits if_splits)
  with assms(3) have "reservation_extends (jget (str_of i) (jget ''reservations'' d))
      (jput ''consumed_by'' c (jget (str_of i) (jget ''reservations'' d)))"
    by (simp add: reservation_extends_def jget_jput)
  with assms(1,4) show ?thesis
    unfolding consume_def by (intro extends_put_reservation) simp_all
qed

lemma new_mission_id:
  "new_mission_record h mission_id request_id clean now ctxt k e = Inr m \<Longrightarrow> jget ''mission_id'' m = mission_id \<and> m \<noteq> JNull"
  by (auto simp: new_mission_record_def Let_def guard_check_Inr_iff sbind_Inr_iff)

lemma reservations_put_mission [simp]: "jget ''reservations'' (put_mission m d) = jget ''reservations'' d"
  by (simp add: put_mission_def jget_put_member)

lemma extends_propose:
  assumes "injected env"
  shows "extends env (propose env request_id proposal ctxt k e)"
  unfolding propose_def
proof (intro extends_seq extends_bnd extends_locked silent_basic)
  fix clean d digest
  have new: "grows env d (propose_new env request_id clean ctxt k e d)"
    if r: "reservation d request_id ''request'' ctxt p q = Inr r" "jget ''consumed_by'' r = JNull" for r p q
    unfolding propose_new_def
  proof (rule grows_seq [OF silent_basic(6)], rule grows_bnd [OF silent_now [OF assms]],
      rule grows_answers [OF silent_fresh [OF assms] fresh_new], rule grows_result)
    fix now mission_id m
    assume fresh: "is_str mission_id \<and> \<not> id_problem mission_id MISSION_ID_PREFIX \<and>
        str_of mission_id \<notin> set (map fst (members ''missions'' d))"
      and "new_mission_record (me_host env) mission_id request_id clean now ctxt k e = Inr m"
    then have m: "jget ''mission_id'' m = mission_id" "m \<noteq> JNull" using new_mission_id by blast+
    have "jget (str_of mission_id) (jget ''missions'' d) = JNull" using fresh absent by blast
    with m have "document_extends d (put_mission m d)"
      unfolding put_mission_def by (intro extends_put_mission) simp_all
    then have "document_extends d (consume request_id mission_id (put_mission m d))"
      by (rule extends_consume [OF _ r]) simp
    then show "grows env d (seq (save env (consume request_id mission_id (put_mission m d)))
        (ret (propose_outcome m request_id False)))"
      by (rule grows_save) simp
  qed
  show "grows env d (bnd (of_result (reservation d request_id ''request'' ctxt ''mission_unknown_request_id''
       ''mission_request_context_conflict'')) (\<lambda>r.
     if jget ''consumed_by'' r \<noteq> JNull
     then of_result (propose_replay (mission_at d (jget ''consumed_by'' r)) request_id digest k e)
     else propose_new env request_id clean ctxt k e d))"
    by (rule grows_result) (auto intro: new grows_silent)
qed

section \<open>The withdrawal\<close>

lemma extends_member:
  assumes "mission_extends m m'" "k \<notin> set (''run'' # ''state'' # MISSION_IDENTITY @ MISSION_HISTORY)"
  shows "mission_extends m (jput k v m')"
  using assms
  by (auto simp: mission_extends_def jget_jput intent_kept_def run_intent_def)

lemma extends_append:
  assumes "mission_extends m m'" "k \<in> set MISSION_HISTORY"
  shows "mission_extends m (jput k (JList (jlist k m' @ xs)) m')"
proof -
  have "prefix (jlist k m) (jlist k m' @ xs)"
    using assms by (auto simp: mission_extends_def intro: prefix_prefix)
  moreover have "k \<notin> set MISSION_IDENTITY" "k \<noteq> ''state''" "k \<noteq> ''run''"
    using assms(2) by (auto simp: MISSION_HISTORY_def MISSION_IDENTITY_def)
  ultimately show ?thesis
    using assms(1) by (auto simp: mission_extends_def jget_jput intent_kept_def run_intent_def)
qed

lemma extends_state:
  assumes "mission_extends m m'" "(jget ''state'' m', v) \<in> state_moves\<^sup>*"
  shows "mission_extends m (jput ''state'' v m')"
  using assms
  by (auto simp: mission_extends_def jget_jput intent_kept_def run_intent_def MISSION_IDENTITY_def
      MISSION_HISTORY_def intro: rtrancl_trans)

lemma allowed_move: "validate_transition_m current target = None \<Longrightarrow> (current, JState target) \<in> state_moves"
  by (auto simp: validate_transition_m_def state_moves_def split: option.splits dest: state_of_Some)

lemma extends_withdraw:
  assumes "injected env"
  shows "extends env (withdraw_proposal env mission_id request_id key ctxt)"
  unfolding withdraw_proposal_def
proof (intro extends_seq extends_locked silent_basic grows_result grows_check)
  fix d m
  assume *: "validate_mission_document (me_host env) (me_state_check env) d = None" "mission_of d mission_id = Inr m"
  have "document_extends d (put_mission (jput ''updated_at'' now (jput ''withdrawal'' marker m)) d)" for now marker
    by (rule extends_put [OF *]) (auto intro!: extends_member simp: MISSION_IDENTITY_def MISSION_HISTORY_def)
  then have "grows env d (bnd (mission_now env) (\<lambda>now.
      seq (of_check (withdrawable m now)) (bnd (of_result (new_withdrawal m ctxt now)) (\<lambda>marker.
        let m' = jput ''updated_at'' now (jput ''withdrawal'' marker m) in
        seq (save env (put_mission m' d)) (ret (withdraw_outcome mission_id m' False))))))"
    unfolding Let_def by (intro grows_bnd [OF silent_now [OF assms]] grows_check grows_result grows_save) simp_all
  then show "grows env d (if jget ''withdrawal'' m \<noteq> JNull then ret (withdraw_outcome mission_id m True)
      else bnd (mission_now env) (\<lambda>now.
        seq (of_check (withdrawable m now)) (bnd (of_result (new_withdrawal m ctxt now)) (\<lambda>marker.
          let m' = jput ''updated_at'' now (jput ''withdrawal'' marker m) in
          seq (save env (put_mission m' d)) (ret (withdraw_outcome mission_id m' False))))))"
    by (simp add: grows_silent)
qed

section \<open>The effects of a decision\<close>

definition ledger_grows :: "json \<Rightarrow> json \<Rightarrow> bool" where
  "ledger_grows d d' \<longleftrightarrow>
     prefix (jlist ''authority_ledger'' d) (jlist ''authority_ledger'' d')
     \<and> (\<forall>k. k \<noteq> ''authority_ledger'' \<longrightarrow> jget k d' = jget k d)"

lemma ledger_grows_refl [simp]: "ledger_grows d d"
  by (simp add: ledger_grows_def)

lemma ledger_grows_trans: "ledger_grows a b \<Longrightarrow> ledger_grows b c \<Longrightarrow> ledger_grows a c"
  by (auto simp: ledger_grows_def intro: prefix_order.trans)

lemma ledger_grows_extends: "ledger_grows d d' \<Longrightarrow> document_extends d d'"
  by (simp add: ledger_grows_def document_extends_def kept_def)

lemma answers_step: "answers m P \<Longrightarrow> (\<And>a. P a \<Longrightarrow> answers (k a) Q) \<Longrightarrow> answers (bnd m k) Q"
  unfolding answers_def bnd_Inr by blast

lemma answers_any: "answers m (\<lambda>_. True)"
  by (simp add: answers_def)

lemma answers_check: "(c = None \<Longrightarrow> answers m Q) \<Longrightarrow> answers (seq (of_check c) m) Q"
  by (auto simp: answers_def seq_Inr)

lemma answers_result: "(\<And>a. r = Inr a \<Longrightarrow> answers (k a) Q) \<Longrightarrow> answers (bnd (of_result r) k) Q"
  by (auto simp: answers_def bnd_Inr)

lemma answers_ret [simp]: "answers (ret a) Q \<longleftrightarrow> Q a"
  by (auto simp: answers_def)

lemma answers_ledger: "answers (append_ledger env kind now mission_id revision i decision_id reason d) (ledger_grows d)"
  unfolding append_ledger_def Let_def ensure_def
  by (rule answers_check, rule answers_step [OF answers_any], rule answers_result)
    (simp add: ledger_grows_def jget_jput)

lemma answers_notes: "answers (note_each env m now ids d) (ledger_grows d)"
proof (induction ids arbitrary: d)
  case (Cons i ids)
  show ?case
    unfolding note_each.simps
  proof (rule answers_step [OF answers_ledger])
    fix d' assume d': "ledger_grows d d'"
    have "answers (note_each env m now ids d') (ledger_grows d')" by (rule Cons)
    with ledger_grows_trans [OF d'] show "answers (note_each env m now ids d') (ledger_grows d)"
      unfolding answers_def by blast
  qed
qed simp

lemma answers_expirations: "answers (note_expirations env m now d) (ledger_grows d)"
  by (simp add: note_expirations_def answers_notes)

text \<open>What an effect does to the document and to the Mission.\<close>

definition effect_ok :: "json \<Rightarrow> json \<Rightarrow> json \<times> json \<Rightarrow> bool" where
  "effect_ok d m r \<longleftrightarrow>
     document_extends d (fst r) \<and> jget ''reservations'' (fst r) = jget ''reservations'' d
     \<and> jget ''missions'' (fst r) = jget ''missions'' d \<and> mission_extends m (snd r) \<and> snd r \<noteq> JNull"

lemma effect_ledger:
  assumes "document_extends d da" "jget ''reservations'' da = jget ''reservations'' d"
    "jget ''missions'' da = jget ''missions'' d" "ledger_grows da db" "mission_extends m m'" "m' \<noteq> JNull"
  shows "effect_ok d m (db, m')"
  using assms document_extends_trans [OF assms(1) ledger_grows_extends]
  by (simp add: effect_ok_def ledger_grows_def)

lemma approve_ok:
  assumes "ledger_grows d d1"
  shows "answers (approve_effect env d1 m e now) (\<lambda>(d2, m2, outcome). effect_ok d m (d2, m2))"
  unfolding approve_effect_def Let_def
proof (rule answers_check, rule answers_step [OF fresh_new], rule answers_result, rule answers_result,
    rule answers_step [OF answers_ledger])
  fix i caller authorization d2
  assume moved: "approvable d1 m e now = None"
    and fresh: "is_str i \<and> \<not> id_problem i AUTHORIZATION_ID_PREFIX \<and> str_of i \<notin> set (map fst (members ''authorizations'' d1))"
    and issued: "issue_mission_authorization (me_host env) i (jget ''mission_id'' m)
       (jget ''revision'' (current_revision_entry m)) (jget ''proposal_digest_sha256'' (current_revision_entry m))
       caller (fst (normalized_scope e)) (snd (normalized_scope e)) now (en_expires_at e) = Inr authorization"
    and d2: "ledger_grows (put_member ''authorizations'' (str_of i) authorization d1) d2"
  have "jget (str_of i) (jget ''authorizations'' d1) = JNull" using fresh absent by blast
  then have "jget (str_of i) (jget ''authorizations'' d) = JNull" using assms by (simp add: ledger_grows_def)
  moreover have "authorization \<noteq> JNull"
    using issued by (auto simp: issue_mission_authorization_def Let_def guard_check_Inr_iff sbind_Inr_iff)
  ultimately have "document_extends d (put_member ''authorizations'' (str_of i) authorization d1)"
    by (intro extends_put_authorization ledger_grows_extends [OF assms]) simp_all
  moreover have "mission_extends m (jput ''state'' (JState STATE_AUTHORIZED)
      (jput ''authorization_ids'' (JList (jlist ''authorization_ids'' m @ [i])) m))"
    using moved
    by (intro extends_state extends_append)
      (auto simp: MISSION_HISTORY_def jget_jput approvable_def Let_def checks_simps dest: allowed_move)
  ultimately show "answers (ret (d2, jput ''state'' (JState STATE_AUTHORIZED)
      (jput ''authorization_ids'' (JList (jlist ''authorization_ids'' m @ [i])) m),
      decision_effect STATE_AUTHORIZED (current_revision_entry m) i []))
      (\<lambda>(d2, m2, outcome). effect_ok d m (d2, m2))"
    using assms d2
    by (auto intro!: effect_ledger [where da = "put_member ''authorizations'' (str_of i) authorization d1"]
        simp: jget_put_member ledger_grows_def)
qed

lemma deny_ok:
  assumes "ledger_grows d d1"
  shows "answers (deny_effect env d1 m decision_id now) (\<lambda>(d2, m2, outcome). effect_ok d m (d2, m2))"
  unfolding deny_effect_def
proof (rule answers_check, rule answers_step [OF answers_ledger])
  fix d2 assume "validate_transition_m (jget ''state'' m) STATE_DENIED = None" "ledger_grows d1 d2"
  then have "effect_ok d m (d2, jput ''state'' (JState STATE_DENIED) m)"
    using assms
    by (intro effect_ledger [where da = d1] extends_state)
      (auto simp: ledger_grows_extends dest: allowed_move, simp_all add: ledger_grows_def)
  then show "answers (ret (d2, jput ''state'' (JState STATE_DENIED) m, jput ''resulting_revision''
      (jget ''current_revision'' m) (decision_effect STATE_DENIED (current_revision_entry m) JNull [])))
      (\<lambda>(d2, m2, outcome). effect_ok d m (d2, m2))" by simp
qed

lemma revoke_extends:
  assumes "authorization_extends a b" "jget ''revoked'' (jget ''revocation'' a) \<noteq> JBool True"
    "revoke_authorization b now = Inr c"
  shows "authorization_extends a c"
proof -
  obtain x where c: "c = jput ''revocation'' x b"
    using assms(3) by (auto simp: revoke_authorization_def guard_check_Inr_iff)
  have "''revocation'' \<notin> set AUTHORITY_KEYS_m" by (simp add: AUTHORITY_KEYS_m_def)
  then have "jget k c = jget k b" if "k \<in> set AUTHORITY_KEYS_m" for k
    using that by (auto simp: c jget_jput)
  moreover have "jget ''authorization_digest_sha256'' c = jget ''authorization_digest_sha256'' b"
    by (simp add: c jget_jput)
  ultimately show ?thesis
    using assms(1,2) unfolding authorization_extends_def by (intro conjI ballI impI) simp_all
qed

lemma invalidate_ok:
  assumes "\<forall>i \<in> set ids. jget ''revoked'' (jget ''revocation'' (authorization_at d (str_of i))) \<noteq> JBool True"
    "document_extends d d1" "jget ''reservations'' d1 = jget ''reservations'' d"
    "jget ''missions'' d1 = jget ''missions'' d"
  shows "answers (invalidate env m decision_id now ids d1) (\<lambda>d2. document_extends d d2
     \<and> jget ''reservations'' d2 = jget ''reservations'' d \<and> jget ''missions'' d2 = jget ''missions'' d)"
  using assms
proof (induction ids arbitrary: d1)
  case (Cons i ids)
  let ?a = "authorization_at d (str_of i)" and ?b = "authorization_at d1 (str_of i)"
  have others: "\<forall>i \<in> set ids. jget ''revoked'' (jget ''revocation'' (authorization_at d (str_of i))) \<noteq> JBool True"
    using Cons.prems(1) by simp
  show ?case
    unfolding invalidate.simps
  proof (rule answers_result, rule answers_step [OF answers_ledger])
    fix c d2
    assume c: "revoke_authorization ?b now = Inr c"
      and d2: "ledger_grows (put_member ''authorizations'' (str_of i) c d1) d2"
    have kept: "kept authorization_extends ''authorizations'' d d1"
      using Cons.prems(2) by (simp add: document_extends_def)
    have unrevoked: "jget ''revoked'' (jget ''revocation'' ?a) \<noteq> JBool True" using Cons.prems(1) by simp
    have "authorization_extends ?a c" if "?a \<noteq> JNull"
    proof (rule revoke_extends [OF _ unrevoked c])
      show "authorization_extends ?a ?b"
        using kept that unfolding kept_def authorization_at_def by blast
    qed
    moreover have "c \<noteq> JNull" using c by (auto simp: revoke_authorization_def guard_check_Inr_iff)
    ultimately have "document_extends d (put_member ''authorizations'' (str_of i) c d1)"
      by (intro extends_put_authorization [OF Cons.prems(2)]) (simp_all add: authorization_at_def)
    then have "document_extends d d2" by (rule document_extends_trans [OF _ ledger_grows_extends [OF d2]])
    moreover have "jget ''reservations'' d2 = jget ''reservations'' d" "jget ''missions'' d2 = jget ''missions'' d"
      using d2 Cons.prems(3,4) by (simp_all add: ledger_grows_def jget_put_member)
    ultimately show "answers (invalidate env m decision_id now ids d2) (\<lambda>d2. document_extends d d2
     \<and> jget ''reservations'' d2 = jget ''reservations'' d \<and> jget ''missions'' d2 = jget ''missions'' d)"
      by (rule Cons.IH [OF others])
  qed
qed simp

lemma edit_ok:
  assumes "ledger_grows d d1"
  shows "answers (edit_effect env d1 m e now) (\<lambda>(d2, m2, outcome). effect_ok d m (d2, m2))"
proof -
  let ?ids = "filter (superseded_by_edit d1 m) (jlist ''authorization_ids'' m)"
  have live: "\<forall>i \<in> set ?ids. jget ''revoked'' (jget ''revocation'' (authorization_at d (str_of i))) \<noteq> JBool True"
    using assms by (auto simp: superseded_by_edit_def Let_def authorization_at_def ledger_grows_def)
  have same: "jget ''reservations'' d1 = jget ''reservations'' d" "jget ''missions'' d1 = jget ''missions'' d"
    using assms by (simp_all add: ledger_grows_def)
  note invalidated = invalidate_ok [OF live ledger_grows_extends [OF assms] same]
  show ?thesis
    unfolding edit_effect_def Let_def
  proof (rule answers_check, rule answers_step [OF invalidated], rule answers_result)
    fix d2 r
    assume move: "when_check (jget ''state'' m \<noteq> JState STATE_AWAITING_DECISION)
        (validate_transition_m (jget ''state'' m) STATE_AWAITING_DECISION) = None"
      and d2: "document_extends d d2 \<and> jget ''reservations'' d2 = jget ''reservations'' d
        \<and> jget ''missions'' d2 = jget ''missions'' d"
      and r: "append_revision (me_host env) m (en_proposal e) now (en_decision_id e) (en_context e)
        (en_received_at e) = Inr r"
    obtain m' entry revision where [simp]: "r = (m', entry)"
      and m': "m' = jput ''updated_at'' now (jput ''current_revision'' revision
        (jput ''revisions'' (JList (jlist ''revisions'' m @ [entry])) m))"
      using r by (auto simp: append_revision_def Let_def guard_check_Inr_iff sbind_Inr_iff)
    have "mission_extends m m'"
      unfolding m' by (intro extends_member extends_append) (simp_all add: MISSION_HISTORY_def MISSION_IDENTITY_def)
    moreover have "jget ''state'' m' = jget ''state'' m" by (simp add: m' jget_jput)
    ultimately have "mission_extends m (jput ''state'' (JState STATE_AWAITING_DECISION) m')"
      using move by (intro extends_state) (auto simp: when_check_def split: if_splits dest: allowed_move)
    then show "answers (case r of (mission', entry) \<Rightarrow> ret (d2, jput ''state'' (JState STATE_AWAITING_DECISION) mission',
        decision_effect STATE_AWAITING_DECISION entry JNull ?ids)) (\<lambda>(d2, m2, outcome). effect_ok d m (d2, m2))"
      using d2 by (simp add: effect_ok_def)
  qed
qed

section \<open>The decisions\<close>

lemma extends_record:
  assumes "injected env" "validate_mission_document h sc d = None" "mission_of d mission_id = Inr m"
    "reservation d decision_id ''decision'' ctxt p q = Inr r" "jget ''consumed_by'' r = JNull"
    "effect_ok d m (d2, m2)"
  shows "grows env d (record_decision env d2 m2 decision_id now decision_record)"
  unfolding record_decision_def Let_def
proof (rule grows_result, rule grows_save)
  fix m3 assume "append_decision m2 decision_record = Inr m3"
  then have m3: "m3 = jput ''decisions'' (JList (jlist ''decisions'' m2 @ [decision_record])) m2"
    by (simp add: append_decision_def guard_check_Inr_iff)
  have "mission_extends m (jput ''updated_at'' now m3)"
    unfolding m3
    by (intro extends_member extends_append)
      (use assms(6) in \<open>simp_all add: effect_ok_def MISSION_HISTORY_def MISSION_IDENTITY_def\<close>)
  then have "document_extends d (put_mission (jput ''updated_at'' now m3) d2)"
    using assms(6) by (intro extends_put [OF assms(2,3)]) (simp_all add: effect_ok_def)
  then show "document_extends d (consume decision_id decision_id (put_mission (jput ''updated_at'' now m3) d2))"
    by (rule extends_consume [OF _ assms(4,5)]) (use assms(6) in \<open>simp add: effect_ok_def\<close>)
  show "silent (decision_outcome env (consume decision_id decision_id (put_mission (jput ''updated_at'' now m3) d2))
      decision_record False)"
    by (rule silent_outcome [OF assms(1)])
qed

lemma silent_edit_loop: "injected env \<Longrightarrow> silent (invalidate env m decision_id now ids d)"
  by (induction ids arbitrary: d) (auto intro!: silent_intro)

lemma silent_effects [silent_intro]:
  assumes "injected env"
  shows "silent (approve_effect env d m e now)" "silent (deny_effect env d m i now)" "silent (edit_effect env d m e now)"
  unfolding approve_effect_def deny_effect_def edit_effect_def
  by (intro silent_intro silent_edit_loop assms)+

lemma silent_apply_effect [silent_intro]: "injected env \<Longrightarrow> silent (apply_effect env d m e now)"
  unfolding apply_effect_def by (intro silent_intro)

lemma silent_exact [silent_intro]: "injected env \<Longrightarrow> silent (require_exact_content env m e)"
  unfolding require_exact_content_def by (intro silent_intro)

lemma apply_effect_ok:
  "ledger_grows d d1 \<Longrightarrow> answers (apply_effect env d1 m e now) (\<lambda>(d2, m2, outcome). effect_ok d m (d2, m2))"
  unfolding apply_effect_def by (simp add: approve_ok deny_ok edit_ok)

lemma grows_apply_new:
  assumes "injected env" "validate_mission_document h sc d = None" "mission_of d (en_mission_id e) = Inr m"
    "reservation d (en_decision_id e) ''decision'' ctxt p q = Inr r" "jget ''consumed_by'' r = JNull"
  shows "grows env d (apply_new_decision env d m e)"
  unfolding apply_new_decision_def
proof (rule grows_seq [OF silent_basic(5)], rule grows_seq, rule silent_if [OF silent_exact [OF assms(1)] silent_basic(2)],
    rule grows_bnd [OF silent_now [OF assms(1)]],
    rule grows_answers [OF silent_expirations [OF assms(1)] answers_expirations],
    rule grows_answers [OF silent_apply_effect [OF assms(1)] apply_effect_ok], assumption)
  fix now d1 and r2 :: "json \<times> json \<times> json" assume "case r2 of (d2, m2, outcome) \<Rightarrow> effect_ok d m (d2, m2)"
  moreover obtain d2 m2 outcome where "r2 = (d2, m2, outcome)" by (cases r2)
  ultimately show "grows env d (case r2 of (d2, m2, outcome) \<Rightarrow>
      bnd (of_result (new_decision_record (me_host env) e now outcome)) (\<lambda>decision_record.
        record_decision env d2 m2 (en_decision_id e) now decision_record))"
    by (auto intro!: grows_result extends_record [OF assms])
qed

lemma extends_decide:
  assumes "injected env"
  shows "extends env (apply_human_decision env e)"
  unfolding apply_human_decision_def
proof (intro extends_seq extends_bnd extends_locked silent_basic grows_result)
  fix digest d r m
  assume "validate_mission_document (me_host env) (me_state_check env) d = None"
    "reservation d (en_decision_id e) ''decision'' (en_context e) ''mission_unknown_decision_id''
       ''mission_decision_context_conflict'' = Inr r" "mission_of d (en_mission_id e) = Inr m"
  then show "grows env d (if jget ''consumed_by'' r \<noteq> JNull
      then bnd (of_result (replayed_decision d e digest)) (\<lambda>x. decision_outcome env d x True)
      else apply_new_decision env d m e)"
    using grows_apply_new [OF assms, of "me_host env" "me_state_check env"]
    by (auto intro!: grows_silent silent_bnd silent_outcome assms)
qed

lemma extends_edit: "injected env \<Longrightarrow> extends env (edit_mission env mission_id revision proposal decision_id ctxt)"
  unfolding edit_mission_def by (intro extends_bnd silent_now extends_decide)

lemma extends_attested_approval:
  "injected env \<Longrightarrow>
     extends env (apply_operator_attested_approval env ctxt decision_id mission_id revision digest actions targets expires_at)"
  unfolding apply_operator_attested_approval_def by (intro extends_seq extends_bnd silent_basic silent_now extends_decide)

lemma attested_effect_ok:
  assumes "ledger_grows d d1" "validate_transition_m (jget ''state'' m) (attested_state kind) = None"
  shows "answers (attested_effect env d1 m decision_id now kind) (\<lambda>(d2, m2). effect_ok d m (d2, m2))"
proof (cases "kind = Decline")
  case True
  then have "attested_effect env d1 m decision_id now kind =
      bnd (deny_effect env d1 m decision_id now) (\<lambda>(document', mission', outcome). ret (document', mission'))"
    by (simp add: attested_effect_def)
  moreover have "answers \<dots> (\<lambda>(d2, m2). effect_ok d m (d2, m2))"
    by (rule answers_step [OF deny_ok [OF assms(1)]]) auto
  ultimately show ?thesis by simp
next
  case False
  have "mission_extends m (jput ''state'' (JState (attested_state kind)) m)"
    using allowed_move [OF assms(2)] by (intro extends_state) auto
  then have "effect_ok d m (d1, jput ''state'' (JState (attested_state kind)) m)"
    using assms(1) by (intro effect_ledger [where da = d]) simp_all
  with False show ?thesis by (simp add: attested_effect_def)
qed

lemma silent_attested [silent_intro]: "injected env \<Longrightarrow> silent (attested_effect env d m decision_id now kind)"
  unfolding attested_effect_def by (intro silent_intro)

lemma extends_attested_outcome:
  assumes "injected env"
  shows "extends env (apply_attested_outcome env ctxt decision_id mission_id revision digest kind reason)"
  unfolding apply_attested_outcome_def Let_def
proof (intro extends_seq extends_bnd extends_locked silent_basic grows_result)
  fix content d r m
  assume valid: "validate_mission_document (me_host env) (me_state_check env) d = None"
    and r: "reservation d decision_id ''decision'' ctxt ''mission_unknown_decision_id''
       ''mission_decision_context_conflict'' = Inr r" and m: "mission_of d mission_id = Inr m"
  let ?new = "seq (of_check (attested_applies m revision digest kind))
     (bnd (mission_now env) (\<lambda>now. bnd (note_expirations env m now d) (\<lambda>d1.
        bnd (attested_effect env d1 m decision_id now kind) (\<lambda>(d2, m2).
        bnd (of_result (new_attested_outcome_record (me_host env) ctxt decision_id mission_id
           (jget ''revision'' (current_revision_entry m)) (attested_decision kind) now now
           (decision_effect (attested_state kind) (current_revision_entry m) JNull []) reason)) (\<lambda>decision_record.
        record_decision env d2 m2 decision_id now decision_record)))))"
  have "grows env d ?new" if fresh: "jget ''consumed_by'' r = JNull"
  proof (rule grows_check, rule grows_bnd [OF silent_now [OF assms]],
      rule grows_answers [OF silent_expirations [OF assms] answers_expirations])
    fix now d1
    assume applies: "attested_applies m revision digest kind = None" and d1: "ledger_grows d d1"
    then have "validate_transition_m (jget ''state'' m) (attested_state kind) = None"
      by (simp add: attested_applies_def checks_simps)
    with d1 show "grows env d (bnd (attested_effect env d1 m decision_id now kind) (\<lambda>(d2, m2).
        bnd (of_result (new_attested_outcome_record (me_host env) ctxt decision_id mission_id
           (jget ''revision'' (current_revision_entry m)) (attested_decision kind) now now
           (decision_effect (attested_state kind) (current_revision_entry m) JNull []) reason)) (\<lambda>decision_record.
        record_decision env d2 m2 decision_id now decision_record)))"
      by (intro grows_answers [OF silent_attested [OF assms] attested_effect_ok])
        (auto intro!: grows_result extends_record [OF assms valid m r fresh])
  qed
  then show "grows env d (if jget ''consumed_by'' r \<noteq> JNull
      then bnd (of_result (replayed_outcome d decision_id mission_id content digest))
             (\<lambda>x. decision_outcome env d x True) else ?new)"
    by (auto intro!: grows_silent silent_bnd silent_outcome assms)
qed

end
