(* ===== verification/MissionTrace.thy ===== *)
theory MissionTrace
  imports MissionGrowth
begin

text \<open>
  The Mission store as a transition system: the operations of the service, performed by any number
  of service objects over one store, with time passing between them. What the document holds only
  grows along every sequence of transitions; so a terminal Mission stays as it is and an
  authorization that is revoked or superseded never permits a use again.
\<close>

section \<open>The operations\<close>

datatype mission_op =
    MintRequestId caller_context
  | MintDecisionId caller_context
  | Propose json json caller_context json json
  | GetMission json
  | WithdrawProposal json json json caller_context
  | EditMission json json json json caller_context
  | ApplyHumanDecision envelope
  | AttestedApproval caller_context json json json json "str list" "str list" json
  | AttestedDecline caller_context json json json json
  | AttestedRejection caller_context json json json json
  | AttestedChangeRequest caller_context json json json json json
  | RecordRunIntent json intent_request caller_context
  | RecordWorkspaceBinding json json json json json caller_context
  | RecordWorkspacePrepared json json caller_context
  | RecordWorkspaceRefusal json json json caller_context
  | RecordRunReceipt json json json json caller_context
  | RecordObservedRunning json json json caller_context
  | RecordRunStop json json caller_context json
  | RecordReconcileUnobserved json caller_context
  | RecordLateResolution json json json caller_context
  | RecordVerification json json observation caller_context
  | RecordPause json json caller_context
  | RecordResume json json caller_context
  | RecordCancel json json json caller_context
  | CompleteCancel json json json json caller_context
  | ValidateAuthorization json json json json json json
  | CheckParentAuthority json json json

definition ignoring :: "('s, 'a) act \<Rightarrow> ('s, unit) act" where
  "ignoring m = bnd m (\<lambda>_. ret ())"

fun perform :: "'w menv \<Rightarrow> mission_op \<Rightarrow> ('w msys, unit) act" where
  "perform env (MintRequestId ctxt) = ignoring (mint_request_id env ctxt)"
| "perform env (MintDecisionId ctxt) = ignoring (mint_decision_id env ctxt)"
| "perform env (Propose r p ctxt k e) = ignoring (propose env r p ctxt k e)"
| "perform env (GetMission m) = ignoring (get_mission env m)"
| "perform env (WithdrawProposal m r k ctxt) = ignoring (withdraw_proposal env m r k ctxt)"
| "perform env (EditMission m n p d ctxt) = ignoring (edit_mission env m n p d ctxt)"
| "perform env (ApplyHumanDecision e) = ignoring (apply_human_decision env e)"
| "perform env (AttestedApproval ctxt d m n g a t e) = ignoring (apply_operator_attested_approval env ctxt d m n g a t e)"
| "perform env (AttestedDecline ctxt d m n g) = ignoring (apply_operator_attested_decline env ctxt d m n g)"
| "perform env (AttestedRejection ctxt d m n g) = ignoring (apply_operator_attested_rejection env ctxt d m n g)"
| "perform env (AttestedChangeRequest ctxt d m n g r) =
     ignoring (apply_operator_attested_change_request env ctxt d m n g r)"
| "perform env (RecordRunIntent m q ctxt) = ignoring (record_run_intent env m q ctxt)"
| "perform env (RecordWorkspaceBinding m p r u b ctxt) = ignoring (record_workspace_binding env m p r u b ctxt)"
| "perform env (RecordWorkspacePrepared m d ctxt) = ignoring (record_workspace_prepared env m d ctxt)"
| "perform env (RecordWorkspaceRefusal m p d ctxt) = ignoring (record_workspace_refusal env m p d ctxt)"
| "perform env (RecordRunReceipt m t i g ctxt) = ignoring (record_run_receipt env m t i g ctxt)"
| "perform env (RecordObservedRunning m t b ctxt) = ignoring (record_observed_running env m t b ctxt)"
| "perform env (RecordRunStop m r ctxt t) = ignoring (record_run_stop env m r ctxt t)"
| "perform env (RecordReconcileUnobserved m ctxt) = ignoring (record_reconcile_unobserved env m ctxt)"
| "perform env (RecordLateResolution m t s ctxt) = ignoring (record_late_resolution env m t s ctxt)"
| "perform env (RecordVerification m c ob ctxt) = ignoring (record_verification env m c ob ctxt)"
| "perform env (RecordPause m a ctxt) = ignoring (record_pause env m a ctxt)"
| "perform env (RecordResume m a ctxt) = ignoring (record_resume env m a ctxt)"
| "perform env (RecordCancel m s a ctxt) = ignoring (record_cancel env m s a ctxt)"
| "perform env (CompleteCancel m c q a ctxt) = ignoring (complete_cancel env m c q a ctxt)"
| "perform env (ValidateAuthorization i m n a t d) = ignoring (validate_authorization_m env i m n a t d)"
| "perform env (CheckParentAuthority m d t) = ignoring (check_parent_authority env m d t)"

lemma extends_ignoring: "extends env m \<Longrightarrow> extends env (ignoring m)"
proof -
  have "snd (ignoring m s) = snd (m s)" for s
    by (cases "m s"; cases "fst (m s)") (auto simp: ignoring_def bnd_eq)
  then show "extends env m \<Longrightarrow> ?thesis" by (simp add: extends_def grows_def)
qed

lemma silent_load [silent_intro]: "silent (load_missions h sc)"
  unfolding load_missions_def by (intro silent_intro)

lemma silent_validation:
  fixes body :: "json \<Rightarrow> ('w msys, authority_check) act"
  assumes "\<And>d. silent (body d)"
  shows "silent (load_for_validation env body)"
  unfolding silent_def preserves_def
proof (intro allI impI)
  fix f and s :: "'w msys" assume s: "m_file s = f"
  obtain r t where l: "load_missions (me_host env) (me_state_check env) s = (r, t)"
    by (cases "load_missions (me_host env) (me_state_check env) s")
  have "m_file (snd (load_missions (me_host env) (me_state_check env) s)) = m_file s"
    using silent_load [where 'a = 'w] by (simp add: silent_def preserves_def)
  with l s have t: "m_file t = f" by simp
  moreover have "m_file (snd (body d t)) = m_file t" for d using assms [of d] by (simp add: silent_def preserves_def)
  ultimately show "m_file (snd (load_for_validation env body s)) = f"
    using l by (auto simp: load_for_validation_def split: sum.split exn.split)
qed

lemma extends_get: "injected env \<Longrightarrow> extends env (get_mission env i)"
  unfolding get_mission_def Let_def by (intro extends_silent silent_intro)

lemma extends_validate: "injected env \<Longrightarrow> extends env (validate_authorization_m env i m n a t d)"
  unfolding validate_authorization_m_def by (intro extends_silent silent_validation silent_intro)

lemma extends_parent: "injected env \<Longrightarrow> extends env (check_parent_authority env m d t)"
  unfolding check_parent_authority_def
  by (intro extends_silent silent_if silent_basic silent_validation)
    (auto intro!: silent_intro split: option.split)

text \<open>Every operation of the service grows the document.\<close>

lemma extends_perform:
  assumes "injected env"
  shows "extends env (perform env c)"
  using assms
  by (cases c)
    (simp_all add: extends_ignoring mint_request_id_def mint_decision_id_def extends_reserve extends_propose
      extends_get extends_withdraw extends_edit extends_decide extends_attested_approval extends_attested_outcome
      apply_operator_attested_decline_def apply_operator_attested_rejection_def
      apply_operator_attested_change_request_def record_run_intent_def record_workspace_binding_def
      record_workspace_prepared_def record_workspace_refusal_def record_run_receipt_def record_observed_running_def
      record_run_stop_def record_reconcile_unobserved_def record_late_resolution_def record_verification_def
      record_pause_def record_resume_def record_cancel_def complete_cancel_def extends_run_write sound_changes
      sound_intent extends_validate extends_parent)

section \<open>The transition system\<close>

inductive service_step :: "host \<Rightarrow> state_check \<Rightarrow> 'w msys \<Rightarrow> mission_op option \<Rightarrow> 'w msys \<Rightarrow> bool"
  for h sc where
  performs: "injected env \<Longrightarrow> me_host env = h \<Longrightarrow> me_state_check env = sc \<Longrightarrow> perform env c s = (r, t)
     \<Longrightarrow> service_step h sc s (Some c) t"
| elapses: "service_step h sc s None (s\<lparr>m_world := w\<rparr>)"

inductive service_steps :: "host \<Rightarrow> state_check \<Rightarrow> 'w msys \<Rightarrow> mission_op option list \<Rightarrow> 'w msys \<Rightarrow> bool"
  for h sc where
  steps_Nil: "service_steps h sc s [] s"
| steps_Cons: "service_step h sc s c t \<Longrightarrow> service_steps h sc t cs u \<Longrightarrow> service_steps h sc s (c # cs) u"

definition stores :: "host \<Rightarrow> state_check \<Rightarrow> 'w msys \<Rightarrow> json \<Rightarrow> bool" where
  "stores h sc s d \<longleftrightarrow> mission_load h sc (m_file s) = Inr d"

inductive_cases service_stepE: "service_step h sc s c t"

lemma step_grows:
  assumes "service_step h sc s c t" "stores h sc s d"
  shows "\<exists>d'. stores h sc t d' \<and> document_extends d d'"
  using assms(1)
proof (cases rule: service_step.cases)
  case (performs env c r)
  with extends_perform [OF performs(2), of c] assms(2) show ?thesis
    by (auto simp: extends_def grows_def holds_document_def stores_def dest!: spec [of _ d] spec [of _ s])
next
  case (elapses w)
  with assms(2) show ?thesis by (auto simp: stores_def)
qed

lemma steps_grow:
  assumes "service_steps h sc s cs t" "stores h sc s d"
  shows "\<exists>d'. stores h sc t d' \<and> document_extends d d'"
  using assms
proof (induction arbitrary: d rule: service_steps.induct)
  case (steps_Nil s)
  then show ?case by auto
next
  case (steps_Cons s c t cs u)
  then obtain d1 where "stores h sc t d1" "document_extends d d1" using step_grows by blast
  with steps_Cons.IH [of d1] show ?case using document_extends_trans by blast
qed

section \<open>Terminal Missions\<close>

lemma terminal_fixed:
  assumes "(s, t) \<in> state_moves\<^sup>*" "in_states s TERMINAL_STATES"
  shows "t = s"
  using assms
proof (induction rule: rtrancl.induct)
  case (rtrancl_into_rtrancl a b c)
  then have "b = a" by simp
  with rtrancl_into_rtrancl show ?case
    by (auto simp: state_moves_def in_states_def TERMINAL_STATES_def)
qed simp

lemma mission_kept:
  assumes "service_steps h sc s cs t" "stores h sc s d" "mission_at d i \<noteq> JNull"
  shows "\<exists>d'. stores h sc t d' \<and> mission_at d' i \<noteq> JNull \<and> mission_extends (mission_at d i) (mission_at d' i)"
  using steps_grow [OF assms(1,2)] assms(3)
  by (auto simp: document_extends_def kept_def mission_at_def)

section \<open>Dead authorizations\<close>

lemma authorization_kept:
  assumes "service_steps h sc s cs t" "stores h sc s d" "authorization_at d i \<noteq> JNull"
  shows "\<exists>d'. stores h sc t d' \<and> authorization_at d' i \<noteq> JNull
     \<and> authorization_extends (authorization_at d i) (authorization_at d' i)"
  using steps_grow [OF assms(1,2)] assms(3)
  by (auto simp: document_extends_def kept_def authorization_at_def)

lemma use_needs:
  assumes "ac_valid (validate_authorization_use h d i mission_id revision now actions target digest)"
  shows "jget ''revoked'' (jget ''revocation'' (authorization_at d (str_of i))) \<noteq> JBool True"
    "jget ''revision'' (authorization_at d (str_of i)) = revision"
    "jget ''current_revision'' (mission_at d mission_id) = revision"
    "jget ''mission_id'' (authorization_at d (str_of i)) = mission_id"
    "jget ''state'' (mission_at d mission_id) = JState STATE_AUTHORIZED"
  using use_rests_on_approval(3,4) [OF refl assms]
  by (auto simp: resolved_def dest: use_problem_None)

lemma stored_reconciles:
  assumes "stores h sc s d" "mission_at d i \<noteq> JNull"
  shows "validate_mission_document h sc d = None" "reconcile_mission_history d (mission_at d i) = None"
proof -
  show valid: "validate_mission_document h sc d = None" using assms(1) ms.load_valid by (simp add: stores_def)
  show "reconcile_mission_history d (mission_at d i) = None"
    using document_valid(3) [OF valid member_in] assms(2) by (simp add: mission_at_def)
qed

lemma revision_count:
  assumes "stores h sc s d" "mission_at d i \<noteq> JNull"
  shows "jget ''current_revision'' (mission_at d i) = JInt (int (length (jlist ''revisions'' (mission_at d i))))"
  by (rule reconcile_None [OF stored_reconciles(2) [OF assms]]) simp

text \<open>A revoked or superseded authorization permits no use, whatever happens afterwards.\<close>

lemma dead_forever:
  assumes steps: "service_steps h sc s cs t" and d: "stores h sc s d" and d': "stores h sc t d'"
    and a: "authorization_at d (str_of i) \<noteq> JNull"
    and m: "mission_at d (jget ''mission_id'' (authorization_at d (str_of i))) \<noteq> JNull"
    and dead: "jget ''revoked'' (jget ''revocation'' (authorization_at d (str_of i))) = JBool True
      \<or> jint ''revision'' (authorization_at d (str_of i))
          < jint ''current_revision'' (mission_at d (jget ''mission_id'' (authorization_at d (str_of i))))"
  shows "\<not> ac_valid (validate_authorization_use h d' i mission_id revision now actions target digest)"
proof
  let ?a = "authorization_at d (str_of i)" and ?a' = "authorization_at d' (str_of i)"
  assume valid: "ac_valid (validate_authorization_use h d' i mission_id revision now actions target digest)"
  note need = use_needs [OF valid]
  have a': "authorization_extends ?a ?a'"
    using authorization_kept [OF steps d a] d' by (auto simp: stores_def)
  then have same: "jget ''mission_id'' ?a' = jget ''mission_id'' ?a" "jget ''revision'' ?a' = jget ''revision'' ?a"
    by (simp_all add: authorization_extends_def AUTHORITY_KEYS_m_def)
  let ?m = "mission_at d mission_id" and ?m' = "mission_at d' mission_id"
  have id: "jget ''mission_id'' ?a = mission_id" using need(4) same(1) by simp
  from mission_kept [OF steps d m] d' id have m': "?m' \<noteq> JNull" "mission_extends ?m ?m'"
    by (auto simp: stores_def)
  have "length (jlist ''revisions'' ?m) \<le> length (jlist ''revisions'' ?m')"
    using m'(2) by (auto simp: mission_extends_def MISSION_HISTORY_def dest: prefix_length_le)
  then have "jint ''current_revision'' ?m \<le> jint ''current_revision'' ?m'"
    using revision_count [OF d] revision_count [OF d'] m m' id by simp
  with dead need same id show False
    using a' by (auto simp: authorization_extends_def)
qed

end
