(* ===== verification/MissionDecide.thy ===== *)
theory MissionDecide
  imports MissionTrace
begin

text \<open>
  What applying a decision achieves: the document that is stored afterwards, the authorization an
  approval issues, and the replay of a decision that was applied before.
\<close>

section \<open>Runs of the locked operations\<close>

definition ready :: "'w msys \<Rightarrow> bool" where
  "ready s \<longleftrightarrow> refuse_open_directory (m_dir s) = None"

lemma lock_run:
  "mission_lock s = (case refuse_open_directory (m_dir s) of
     None \<Rightarrow> (Inr (), if m_dir s = DirAbsent then s\<lparr>m_dir := Directory 448\<rparr> else s) | Some e \<Rightarrow> (Inl e, s))"
  by (simp add: mission_lock_def make_directory_def run_simps of_check_def split: option.split)

lemma ready_made: "ready s \<Longrightarrow> ready (if m_dir s = DirAbsent then s\<lparr>m_dir := Directory 448\<rparr> else s)"
  by (simp add: ready_def refuse_open_directory_def open_permissions_def)

lemma load_run:
  "load_missions h sc s = (case refuse_open_directory (m_dir s) of
     None \<Rightarrow> (mission_load h sc (m_file s), s) | Some e \<Rightarrow> (Inl e, s))"
  by (simp add: load_missions_def run_simps of_check_def split: option.split)

lemma locked_run:
  assumes "ready s" "holds_document env d s"
  shows "\<exists>s'. ready s' \<and> m_file s' = m_file s \<and> locked env body s = body d s'"
proof -
  let ?s = "if m_dir s = DirAbsent then s\<lparr>m_dir := Directory 448\<rparr> else s"
  have "mission_lock s = (Inr (), ?s)" using assms(1) by (simp add: lock_run ready_def)
  moreover have "load_missions (me_host env) (me_state_check env) ?s = (Inr d, ?s)"
    using assms ready_made [OF assms(1)] by (simp add: load_run ready_def holds_document_def)
  ultimately have "locked env body s = body d ?s" by (simp add: locked_def seq_eq bnd_eq)
  with ready_made [OF assms(1)] show ?thesis by (intro exI [of _ ?s]) simp
qed

lemma locked_Inr:
  assumes "locked env body s = (Inr a, t)"
  obtains d s' where "holds_document env d s" "ready s'" "m_file s' = m_file s" "body d s' = (Inr a, t)"
    "validate_mission_document (me_host env) (me_state_check env) d = None"
proof -
  obtain u s1 where lock: "mission_lock s = (Inr u, s1)"
    and rest: "bnd (load_missions (me_host env) (me_state_check env)) body s1 = (Inr a, t)"
    using assms by (auto simp: locked_def seq_Inr)
  from lock have "ready s" by (auto simp: lock_run ready_def split: option.splits)
  from rest obtain d where d: "mission_load (me_host env) (me_state_check env) (m_file s1) = Inr d"
      "ready s1" "body d s1 = (Inr a, t)"
    by (auto simp: bnd_Inr load_run ready_def split: option.splits)
  have "m_file s1 = m_file s" using lock by (auto simp: lock_run split: option.splits if_splits)
  with d ms.load_valid show thesis by (intro that [of d s1]) (auto simp: holds_document_def)
qed

lemma save_Inr:
  assumes "save env d s = (Inr u, t)"
  shows "validate_mission_document (me_host env) (me_state_check env) d = None" "holds_document env d t" "ready t"
proof -
  have "refuse_open_directory (m_dir s) = None"
    "\<exists>f. mission_save (me_host env) (me_state_check env) d = Inr f \<and>
       t = (if m_dir s = DirAbsent then s\<lparr>m_dir := Directory 448\<rparr> else s)\<lparr>m_file := f\<rparr>"
    using assms
    by (auto simp: save_def save_missions_def make_directory_def bnd_Inr seq_Inr split: if_splits)
  then obtain f where f: "mission_save (me_host env) (me_state_check env) d = Inr f"
      "t = (if m_dir s = DirAbsent then s\<lparr>m_dir := Directory 448\<rparr> else s)\<lparr>m_file := f\<rparr>"
    and "ready s" by (auto simp: ready_def)
  show "validate_mission_document (me_host env) (me_state_check env) d = None" by (rule ms.save_valid [OF f(1)])
  show "holds_document env d t" using ms.load_save [OF f(1)] f(2) by (simp add: holds_document_def)
  show "ready t" using ready_made [OF \<open>ready s\<close>] f(2) by (simp add: ready_def)
qed

text \<open>What the replay relies on of the clock: it tells a time and leaves the store alone.\<close>

definition steady :: "'w menv \<Rightarrow> bool" where
  "steady env \<longleftrightarrow>
     (\<forall>s. \<exists>n t. me_clock env s = (Inr (JInt n), t) \<and> require_timestamp_m (JInt n) = None
        \<and> m_file t = m_file s \<and> m_dir t = m_dir s)"

lemma steady_now:
  assumes "steady env"
  obtains n t where "mission_now env s = (Inr (JInt n), t)" "m_file t = m_file s" "m_dir t = m_dir s"
proof -
  obtain n t where "me_clock env s = (Inr (JInt n), t)" "require_timestamp_m (JInt n) = None"
      "m_file t = m_file s" "m_dir t = m_dir s"
    using assms unfolding steady_def by blast
  then show thesis by (intro that [of n t]) (simp_all add: mission_now_def bnd_eq seq_eq)
qed

section \<open>The answer\<close>

definition HISTORICAL :: "str list" where
  "HISTORICAL =
     [''decision'', ''decision_id'', ''mission_id'', ''revision'', ''state'', ''proposal_digest_sha256'',
      ''authorization_id'', ''authorized_action_scope'', ''authorized_delivery_targets'', ''expires_at'',
      ''invalidated_authorization_ids'']"

lemma outcome_historical:
  assumes "decision_outcome env d x b s = (Inr answer, t)" "decision_outcome env d x b' s' = (Inr answer', t')"
    "k \<in> set HISTORICAL"
  shows "jget k answer' = jget k answer"
  using assms
  by (auto simp: decision_outcome_def Let_def bnd_Inr HISTORICAL_def split: if_splits)

lemma outcome_runs:
  assumes "steady env"
  shows "\<exists>answer t. decision_outcome env d x b s = (Inr answer, t) \<and> m_file t = m_file s \<and> m_dir t = m_dir s"
proof -
  obtain n t where "mission_now env s = (Inr (JInt n), t)" "m_file t = m_file s" "m_dir t = m_dir s"
    by (rule steady_now [OF assms])
  then show ?thesis by (auto simp: decision_outcome_def Let_def bnd_eq)
qed

lemma outcome_idempotent_flag:
  "decision_outcome env d x b s = (Inr answer, t) \<Longrightarrow> jget ''idempotent'' answer = JBool b"
  by (auto simp: decision_outcome_def Let_def bnd_Inr split: if_splits)

section \<open>The recorded decision\<close>

lemma find_unique: "distinct (map f xs) \<Longrightarrow> x \<in> set xs \<Longrightarrow> List.find (\<lambda>y. f y = f x) xs = Some x"
  by (induction xs) (auto simp: rev_image_eqI)

lemma recorded_unique:
  assumes "reconcile_registry d = None" "(k, m) \<in> set (members ''missions'' d)" "x \<in> set (mission_decisions m)"
  shows "recorded_decision d (jget ''decision_id'' x) = Some x"
proof -
  let ?all = "concat (map (\<lambda>(i, m). mission_decisions m) (members ''missions'' d))"
  have "map (jget ''decision_id'') ?all
      = concat (map (\<lambda>m. map (jget ''decision_id'') (mission_decisions m)) (map snd (members ''missions'' d)))"
    by (induction "members ''missions'' d") (auto simp: map_concat comp_def case_prod_beta)
  then have "distinct (map (jget ''decision_id'') ?all)"
    using assms(1) by (simp add: reconcile_registry_def Let_def split: if_splits)
  moreover have "x \<in> set ?all" using assms(2,3) by force
  ultimately show ?thesis unfolding recorded_decision_def by (rule find_unique)
qed

section \<open>What an applied decision stores\<close>

text \<open>The facts of one application: the document before, the effect, the record and the document
  that is stored.\<close>

definition applied ::
  "'w menv \<Rightarrow> envelope \<Rightarrow> json \<Rightarrow> json \<Rightarrow> json \<times> json \<times> json \<Rightarrow> json \<Rightarrow> json \<Rightarrow> json \<Rightarrow> bool" where
  "applied env e d m effect now x d' \<longleftrightarrow>
     (case effect of (d2, m2, outcome) \<Rightarrow>
        takes_decisions m = None \<and> mission_of d (en_mission_id e) = Inr m
        \<and> (en_expected_digest e = JNull
           \<or> en_expected_digest e = jget ''proposal_digest_sha256'' (current_revision_entry m))
        \<and> (\<exists>d1 s t. ledger_grows d d1 \<and> apply_effect env d1 m e now s = (Inr effect, t))
        \<and> new_decision_record (me_host env) e now outcome = Inr x
        \<and> d' = consume (en_decision_id e) (en_decision_id e)
            (put_mission (jput ''updated_at'' now (jput ''decisions'' (JList (jlist ''decisions'' m2 @ [x])) m2)) d2)
        \<and> validate_mission_document (me_host env) (me_state_check env) d' = None)"

lemma exact_content:
  "require_exact_content env m e s = (Inr u, t) \<Longrightarrow> en_expected_digest e = JNull
     \<or> en_expected_digest e = jget ''proposal_digest_sha256'' (current_revision_entry m)"
  by (auto simp: require_exact_content_def Let_def seq_Inr)

lemma apply_cases:
  assumes "apply_human_decision env e s = (Inr answer, t)"
  obtains (replayed) d digest r x s' where "holds_document env d s" "m_file s' = m_file s" "ready s'"
      "validate_envelope e = None" "envelope_digest (me_host env) e = Inr digest"
      "reservation d (en_decision_id e) ''decision'' (en_context e) ''mission_unknown_decision_id''
         ''mission_decision_context_conflict'' = Inr r" "jget ''consumed_by'' r \<noteq> JNull"
      "\<exists>m. mission_of d (en_mission_id e) = Inr m"
      "replayed_decision d e digest = Inr x" "decision_outcome env d x True s' = (Inr answer, t)"
    | (fresh) d digest r m effect now x d' s' where "holds_document env d s"
      "validate_envelope e = None" "envelope_digest (me_host env) e = Inr digest"
      "reservation d (en_decision_id e) ''decision'' (en_context e) ''mission_unknown_decision_id''
         ''mission_decision_context_conflict'' = Inr r"
      "validate_mission_document (me_host env) (me_state_check env) d = None"
      "applied env e d m effect now x d'" "holds_document env d' s'" "ready s'"
      "decision_outcome env d' x False s' = (Inr answer, t)"
proof -
  from assms(1) obtain digest where valid: "validate_envelope e = None" "envelope_digest (me_host env) e = Inr digest"
    and locked: "locked env (\<lambda>document. bnd (of_result (reservation document (en_decision_id e) ''decision'' (en_context e)
                 ''mission_unknown_decision_id'' ''mission_decision_context_conflict'')) (\<lambda>r.
          bnd (of_result (mission_of document (en_mission_id e))) (\<lambda>mission.
          if jget ''consumed_by'' r \<noteq> JNull
          then bnd (of_result (replayed_decision document e digest)) (\<lambda>d. decision_outcome env document d True)
          else apply_new_decision env document mission e))) s = (Inr answer, t)"
    by (auto simp: apply_human_decision_def seq_Inr bnd_Inr)
  from locked obtain d s1 where d: "holds_document env d s" "ready s1" "m_file s1 = m_file s"
      "validate_mission_document (me_host env) (me_state_check env) d = None"
    and body: "bnd (of_result (reservation d (en_decision_id e) ''decision'' (en_context e)
                 ''mission_unknown_decision_id'' ''mission_decision_context_conflict'')) (\<lambda>r.
          bnd (of_result (mission_of d (en_mission_id e))) (\<lambda>mission.
          if jget ''consumed_by'' r \<noteq> JNull
          then bnd (of_result (replayed_decision d e digest)) (\<lambda>x. decision_outcome env d x True)
          else apply_new_decision env d mission e)) s1 = (Inr answer, t)"
    by (rule locked_Inr)
  from body obtain r m where r: "reservation d (en_decision_id e) ''decision'' (en_context e)
                 ''mission_unknown_decision_id'' ''mission_decision_context_conflict'' = Inr r"
    and m: "mission_of d (en_mission_id e) = Inr m"
    and rest: "(if jget ''consumed_by'' r \<noteq> JNull
          then bnd (of_result (replayed_decision d e digest)) (\<lambda>x. decision_outcome env d x True)
          else apply_new_decision env d m e) s1 = (Inr answer, t)"
    by (auto simp: bnd_Inr)
  show thesis
  proof (cases "jget ''consumed_by'' r = JNull")
    case False
    with rest obtain x where "replayed_decision d e digest = Inr x" "decision_outcome env d x True s1 = (Inr answer, t)"
      by (auto simp: bnd_Inr)
    with replayed d valid r m False show thesis by blast
  next
    case True
    with rest have new: "apply_new_decision env d m e s1 = (Inr answer, t)" by simp
    from new obtain u s2 now s3 d1 s4 d2 m2 outcome s5 x where
      takes: "takes_decisions m = None" and rev: "py_eq (en_revision e) (jget ''current_revision'' m)"
      and exact: "require_exact_content env m e s1 = (Inr u, s2)"
      and noted: "note_expirations env m now d s3 = (Inr d1, s4)"
      and effect: "apply_effect env d1 m e now s4 = (Inr (d2, m2, outcome), s5)"
      and x: "new_decision_record (me_host env) e now outcome = Inr x"
      and recorded: "record_decision env d2 m2 (en_decision_id e) now x s5 = (Inr answer, t)"
      by (auto simp: apply_new_decision_def seq_Inr bnd_Inr split: if_splits)
    let ?m3 = "jput ''decisions'' (JList (jlist ''decisions'' m2 @ [x])) m2"
    let ?d' = "consume (en_decision_id e) (en_decision_id e) (put_mission (jput ''updated_at'' now ?m3) d2)"
    from recorded obtain v s6 where saved: "save env ?d' s5 = (Inr v, s6)"
      and outcome: "decision_outcome env ?d' x False s6 = (Inr answer, t)"
      by (auto simp: record_decision_def Let_def seq_Inr bnd_Inr append_decision_def guard_check_Inr_iff)
    note stored = save_Inr [OF saved]
    have "applied env e d m (d2, m2, outcome) now x ?d'"
      unfolding applied_def
      using takes m exact_content [OF exact] answersD [OF answers_expirations noted] effect x stored(1) by auto
    then show thesis using fresh [OF d(1) valid r d(4) _ stored(2,3) outcome] by blast
  qed
qed

lemma record_members:
  assumes "new_decision_record h e now outcome = Inr x"
  shows "jget ''decision_id'' x = en_decision_id e" "jget ''mission_id'' x = en_mission_id e"
    "jget ''revision'' x = en_revision e" "jget ''decision'' x = en_decision e" "jget ''outcome'' x = outcome"
    "envelope_digest h e = Inr digest \<Longrightarrow> jget ''decision_digest_sha256'' x = JStr digest"
    "jget ''approved_action_scope'' x = fst (normalized_scope e)"
    "jget ''approved_delivery_targets'' x = snd (normalized_scope e)" "jget ''expires_at'' x = en_expires_at e"
  using assms by (auto simp: new_decision_record_def Let_def guard_check_Inr_iff sbind_Inr_iff)

lemma decision_effect_simps [simp]:
  "jget ''proposal_digest_sha256'' (decision_effect st entry i ids) = jget ''proposal_digest_sha256'' entry"
  "jget ''authorization_id'' (decision_effect st entry i ids) = i"
  "jget ''resulting_state'' (decision_effect st entry i ids) = JState st"
  "jget ''resulting_revision'' (decision_effect st entry i ids) = jget ''revision'' entry"
  by (simp_all add: decision_effect_def)

text \<open>The effect of an approval.\<close>

lemma approve_effect_Inr:
  assumes "approve_effect env d1 m e now s = (Inr (d2, m2, outcome), t)"
  obtains i caller authorization where "approvable d1 m e now = None" "is_str i" "\<not> id_problem i AUTHORIZATION_ID_PREFIX"
    "str_of i \<notin> set (map fst (members ''authorizations'' d1))"
    "issue_mission_authorization (me_host env) i (jget ''mission_id'' m) (jget ''revision'' (current_revision_entry m))
       (jget ''proposal_digest_sha256'' (current_revision_entry m)) caller (fst (normalized_scope e))
       (snd (normalized_scope e)) now (en_expires_at e) = Inr authorization"
    "ledger_grows (put_member ''authorizations'' (str_of i) authorization d1) d2"
    "m2 = jput ''state'' (JState STATE_AUTHORIZED)
       (jput ''authorization_ids'' (JList (jlist ''authorization_ids'' m @ [i])) m)"
    "outcome = decision_effect STATE_AUTHORIZED (current_revision_entry m) i []"
proof -
  from assms obtain i s1 s2 caller authorization s3 where *: "approvable d1 m e now = None"
      "fresh_id env AUTHORIZATION_ID_PREFIX (map fst (members ''authorizations'' d1)) s1 = (Inr i, s2)"
      "issue_mission_authorization (me_host env) i (jget ''mission_id'' m) (jget ''revision'' (current_revision_entry m))
       (jget ''proposal_digest_sha256'' (current_revision_entry m)) caller (fst (normalized_scope e))
       (snd (normalized_scope e)) now (en_expires_at e) = Inr authorization"
      "append_ledger env ''ISSUED'' now (jget ''mission_id'' m) (jget ''revision'' (current_revision_entry m)) i
         (en_decision_id e) ''approved by human decision'' (put_member ''authorizations'' (str_of i) authorization d1) s2
         = (Inr d2, s3)"
      "m2 = jput ''state'' (JState STATE_AUTHORIZED)
         (jput ''authorization_ids'' (JList (jlist ''authorization_ids'' m @ [i])) m)"
      "outcome = decision_effect STATE_AUTHORIZED (current_revision_entry m) i []"
    by (auto simp: approve_effect_def Let_def seq_Inr bnd_Inr)
  from answersD [OF fresh_new *(2)] answersD [OF answers_ledger *(4)] * show thesis
    by (intro that [of i caller authorization]) blast+
qed

lemma applied_effect_ok:
  assumes "applied env e d m effect now x d'" "effect = (d2, m2, outcome)"
  shows "effect_ok d m (d2, m2)"
  using assms answersD [OF apply_effect_ok] by (fastforce simp: applied_def)

text \<open>The Mission, the reservation and the record in the stored document.\<close>

lemma applied_stored:
  assumes "applied env e d m effect now x d'" "validate_mission_document (me_host env) (me_state_check env) d = None"
    and "effect = (d2, m2, outcome)"
  defines "m' \<equiv> jput ''updated_at'' now (jput ''decisions'' (JList (jlist ''decisions'' m2 @ [x])) m2)"
  shows "mission_at d' (en_mission_id e) = m'" "mission_of d' (en_mission_id e) = Inr m'"
    "recorded_decision d' (en_decision_id e) = Some x"
    "jget ''authorizations'' d' = jget ''authorizations'' d2"
proof -
  note app = assms(1) [unfolded applied_def assms(3) prod.case, folded m'_def]
  have m: "mission_of d (en_mission_id e) = Inr m" using app by blast
  note loaded = loaded_mission [OF assms(2) m]
  have ok: "effect_ok d m (d2, m2)" by (rule applied_effect_ok [OF assms(1,3)])
  have id: "jget ''mission_id'' m' = en_mission_id e"
    using ok loaded(3) by (simp add: m'_def jget_jput effect_ok_def mission_extends_def MISSION_IDENTITY_def)
  have d': "d' = consume (en_decision_id e) (en_decision_id e) (put_mission m' d2)" using app by blast
  show at: "mission_at d' (en_mission_id e) = m'"
    by (simp add: mission_at_def d' consume_def put_mission_def jget_put_member jget_jput id)
  have grammar: "\<not> id_problem (en_mission_id e) MISSION_ID_PREFIX" using m by (auto simp: mission_of_def split: if_splits)
  then show "mission_of d' (en_mission_id e) = Inr m'" by (simp add: mission_of_def at m'_def)
  have x: "new_decision_record (me_host env) e now outcome = Inr x" using app by blast
  have "validate_mission_document (me_host env) (me_state_check env) d' = None" using app by blast
  then have "reconcile_registry d' = None" by (rule document_valid(2))
  moreover have "(str_of (en_mission_id e), m') \<in> set (members ''missions'' d')"
    using member_in [of "str_of (en_mission_id e)" "''missions''" d'] at by (simp add: mission_at_def m'_def)
  moreover have "x \<in> set (mission_decisions m')" by (simp add: m'_def mission_decisions_def jget_jput)
  ultimately show "recorded_decision d' (en_decision_id e) = Some x"
    using recorded_unique record_members(1) [OF x] by metis
  show "jget ''authorizations'' d' = jget ''authorizations'' d2"
    by (simp add: d' consume_def put_mission_def jget_put_member)
qed

lemma applied_reservation:
  assumes "applied env e d m effect now x d'" "validate_envelope e = None"
    "reservation d (en_decision_id e) ''decision'' (en_context e) p q = Inr r"
  shows "\<exists>r'. reservation d' (en_decision_id e) ''decision'' (en_context e) p q = Inr r' \<and> jget ''consumed_by'' r' \<noteq> JNull"
proof -
  obtain d2 m2 outcome where eff: "effect = (d2, m2, outcome)" by (cases effect)
  let ?r' = "jput ''consumed_by'' (en_decision_id e) r"
  have same: "jget ''reservations'' d2 = jget ''reservations'' d"
    using applied_effect_ok [OF assms(1) eff] by (simp add: effect_ok_def)
  have r: "r = jget (str_of (en_decision_id e)) (jget ''reservations'' d)" "jget ''kind'' r = JStr ''decision''"
      "py_eq (jget ''context'' r) (context_dict (en_context e))"
    using assms(3) by (auto simp: reservation_def members_def jget_def [of "str_of (en_decision_id e)"]
        split: option.splits if_splits)
  have "map_of (members ''reservations'' d') (str_of (en_decision_id e)) = Some ?r'"
    using assms(1) by (auto simp: eff applied_def consume_def members_def jget_put_member put_mission_def update_conv'
        same r(1))
  moreover have "en_decision_id e \<noteq> JNull"
    using assms(2) by (auto simp: validate_envelope_def checks_simps require_id_m_def id_problem_def)
  ultimately show ?thesis using r(2,3) by (simp add: reservation_def jget_jput)
qed

section \<open>Replaying a decision\<close>

lemma replay_run:
  assumes "steady env" "holds_document env d t" "ready t"
    "validate_envelope e = None" "envelope_digest (me_host env) e = Inr digest"
    "reservation d (en_decision_id e) ''decision'' (en_context e) ''mission_unknown_decision_id''
       ''mission_decision_context_conflict'' = Inr r" "jget ''consumed_by'' r \<noteq> JNull"
    "mission_of d (en_mission_id e) = Inr m" "replayed_decision d e digest = Inr x"
  shows "\<exists>s' answer u. apply_human_decision env e t = (Inr answer, u) \<and> m_file u = m_file t
    \<and> decision_outcome env d x True s' = (Inr answer, u)"
proof -
  let ?body = "\<lambda>document. bnd (of_result (reservation document (en_decision_id e) ''decision'' (en_context e)
                 ''mission_unknown_decision_id'' ''mission_decision_context_conflict'')) (\<lambda>r.
          bnd (of_result (mission_of document (en_mission_id e))) (\<lambda>mission.
          if jget ''consumed_by'' r \<noteq> JNull
          then bnd (of_result (replayed_decision document e digest)) (\<lambda>d. decision_outcome env document d True)
          else apply_new_decision env document mission e))"
  obtain s' where s': "m_file s' = m_file t" "locked env ?body t = ?body d s'"
    using locked_run [OF assms(3,2), of ?body] by auto
  obtain answer u where out: "decision_outcome env d x True s' = (Inr answer, u)" "m_file u = m_file s'"
    using outcome_runs [OF assms(1)] by blast
  have "apply_human_decision env e t = locked env ?body t"
    using assms(4,5) by (simp add: apply_human_decision_def seq_eq bnd_eq)
  also have "\<dots> = (Inr answer, u)"
    using assms(6-9) out(1) by (simp add: s'(2) bnd_eq)
  finally show ?thesis using out s'(1) by auto
qed

lemma decision_replay:
  assumes "steady env" "apply_human_decision env e s = (Inr answer, t)"
  shows "\<exists>answer' u. apply_human_decision env e t = (Inr answer', u) \<and> m_file u = m_file t
    \<and> jget ''idempotent'' answer' = JBool True \<and> (\<forall>k \<in> set HISTORICAL. jget k answer' = jget k answer)"
  using assms(2)
proof (cases rule: apply_cases)
  case (replayed d digest r x s')
  then obtain m where m: "mission_of d (en_mission_id e) = Inr m" by blast
  obtain a u where "decision_outcome env d x True s' = (Inr a, u)" "m_file u = m_file s'" "m_dir u = m_dir s'"
    using outcome_runs [OF assms(1)] by blast
  with replayed have t: "holds_document env d t" "ready t"
    by (auto simp: holds_document_def ready_def)
  from replay_run [OF assms(1) t replayed(4-7) m replayed(9)] obtain s2 answer' u
    where *: "apply_human_decision env e t = (Inr answer', u)" "m_file u = m_file t"
      "decision_outcome env d x True s2 = (Inr answer', u)" by blast
  then show ?thesis
    using outcome_idempotent_flag [OF *(3)] outcome_historical [OF replayed(10) *(3)] by blast
next
  case (fresh d digest r m effect now x d' s')
  obtain d2 m2 outcome where eff: "effect = (d2, m2, outcome)" by (cases effect)
  obtain a u where "decision_outcome env d' x False s' = (Inr a, u)" "m_file u = m_file s'" "m_dir u = m_dir s'"
    using outcome_runs [OF assms(1)] by blast
  with fresh have t: "holds_document env d' t" "ready t"
    by (auto simp: holds_document_def ready_def)
  note stored = applied_stored [OF fresh(6,5) eff]
  obtain r' where r': "reservation d' (en_decision_id e) ''decision'' (en_context e) ''mission_unknown_decision_id''
       ''mission_decision_context_conflict'' = Inr r'" "jget ''consumed_by'' r' \<noteq> JNull"
    using applied_reservation [OF fresh(6,2,4)] by blast
  note app = fresh(6) [unfolded applied_def eff prod.case]
  have x: "new_decision_record (me_host env) e now outcome = Inr x" using app by blast
  have "jget ''proposal_digest_sha256'' outcome = en_expected_digest e" if "is_approve e" "en_expected_digest e \<noteq> JNull"
  proof -
    obtain d1 s1 s2 where "apply_effect env d1 m e now s1 = (Inr (d2, m2, outcome), s2)" using app by blast
    then have approved: "approve_effect env d1 m e now s1 = (Inr (d2, m2, outcome), s2)"
      using that(1) by (simp add: apply_effect_def)
    show ?thesis by (rule approve_effect_Inr [OF approved]) (use app that(2) in auto)
  qed
  then have "replayed_decision d' e digest = Inr x"
    using stored(3) record_members [OF x] fresh(3) by (auto simp: replayed_decision_def)
  from replay_run [OF assms(1) t fresh(2,3) r' stored(2) this] obtain s2 answer' u
    where *: "apply_human_decision env e t = (Inr answer', u)" "m_file u = m_file t"
      "decision_outcome env d' x True s2 = (Inr answer', u)" by blast
  then show ?thesis
    using outcome_idempotent_flag [OF *(3)] outcome_historical [OF fresh(9) *(3)] by blast
qed

end
