(* ===== verification/MissionPermit.thy ===== *)
theory MissionPermit
  imports MissionDecide
begin

text \<open>
  What an approval permits: the authorization that it issues permits, as long as no other decision
  and no run has been recorded, exactly the uses that the human approved. And what rests on an
  approval in the other components: the authority that a pull request delivery claims of its
  Mission.
\<close>

section \<open>The check of a use\<close>

lemma use_problem_None_iff:
  "use_problem d m i a revision now (JList actions) target digest = None \<longleftrightarrow>
     i \<in> set (jlist ''authorization_ids'' m) \<and> reconcile_registry d = None \<and> reconcile_mission_history d m = None
     \<and> jget ''revoked'' (jget ''revocation'' a) \<noteq> JBool True \<and> is_int revision \<and> jget ''revision'' a = revision
     \<and> jget ''current_revision'' m = revision
     \<and> (\<exists>entry. revision_entry m revision = Some entry
          \<and> jget ''proposal_digest_sha256'' entry = jget ''proposal_digest_sha256'' a)
     \<and> (digest = JNull \<or> digest = jget ''proposal_digest_sha256'' a)
     \<and> jget ''state'' m = JState STATE_AUTHORIZED \<and> is_int now
     \<and> (jget ''expires_at'' a = JNull \<or> int_of_json now < jint ''expires_at'' a)
     \<and> set actions \<subseteq> set (jlist ''authorized_action_scope'' a)
     \<and> (target = JNull \<or> target \<in> set (jlist ''authorized_delivery_targets'' a))"
proof -
  have step: "(if b then Some p else r) = None \<longleftrightarrow> \<not> b \<and> r = None"
    "(if c \<noteq> None then c else r) = None \<longleftrightarrow> c = None \<and> r = None" for b and p :: str and c :: "str option" and r
    by (cases c; simp)+
  have entry: "\<not> \<not> (case x of None \<Rightarrow> False | Some entry \<Rightarrow> P entry) \<longleftrightarrow> (\<exists>entry. x = Some entry \<and> P entry)" for x P
    by (simp split: option.split)
  have state: "jget ''state'' m \<noteq> JState STATE_DENIED \<and> jget ''state'' m = JState STATE_AUTHORIZED
      \<longleftrightarrow> jget ''state'' m = JState STATE_AUTHORIZED" by auto
  show ?thesis
    unfolding use_problem_def Let_def step entry
    by (simp add: list_all_iff subset_eq not_le) (use state in blast)
qed

lemma use_valid_iff:
  assumes "validate_mission_document h sc d = None" "mission_of d mission_id = Inr m" "is_str i"
    "authorization_at d (str_of i) \<noteq> JNull" "jget ''mission_id'' (authorization_at d (str_of i)) = mission_id"
  shows "ac_valid (validate_authorization_use h d i mission_id revision now actions target digest) \<longleftrightarrow>
     use_problem d m i (authorization_at d (str_of i)) revision now actions target digest = None"
proof -
  let ?a = "authorization_at d (str_of i)"
  note loaded = loaded_mission [OF assms(1,2)]
  have "(str_of i, ?a) \<in> set (members ''authorizations'' d)"
    using assms(4) member_in [of "str_of i" "''authorizations''" d] by (simp add: authorization_at_def)
  then have "validate_stored_authorization h d (str_of i, ?a) = None" by (rule document_valid(4) [OF assms(1)])
  then have a: "validate_authorization_record h ?a = None" "jget ''authorization_id'' ?a = JStr (str_of i)"
    by (simp_all add: validate_stored_authorization_def Let_def checks_simps)
  then have "\<not> id_problem i AUTHORIZATION_ID_PREFIX"
    using assms(3) by (auto simp: validate_authorization_record_def Let_def checks_simps require_id_m_def is_str_iff)
  then have "resolved h d i mission_id"
    using a loaded assms by (auto simp: resolved_def mission_of_def split: if_splits)
  then show ?thesis
    using document_valid(6-9) [OF assms(1)] loaded(1)
    by (simp add: validate_authorization_use_def Let_def resolved_def refusal_def permitted_def
        mission_at_def authorization_at_def split: option.split)
qed

section \<open>A fresh approval\<close>

lemma issue_Inr:
  assumes "issue_mission_authorization h i mission_id revision digest caller actions targets now expires_at = Inr a"
  shows "jget ''revoked'' (jget ''revocation'' a) = JBool False" "jget ''expires_at'' a = expires_at"
    "jget ''authorized_action_scope'' a = actions" "jget ''authorized_delivery_targets'' a = targets"
    "jget ''proposal_digest_sha256'' a = digest" "jget ''mission_id'' a = mission_id" "a \<noteq> JNull"
    "jget ''revision'' a = revision"
  using assms by (auto simp: issue_mission_authorization_def Let_def sbind_Inr_iff guard_check_Inr_iff)

lemma current_entry:
  assumes "validate_mission_document h sc d = None" "mission_of d mission_id = Inr m"
  shows "revision_entry m (jget ''current_revision'' m) = Some (current_revision_entry m)"
    "is_int (jget ''current_revision'' m)"
proof -
  note loaded = loaded_mission [OF assms]
  have valid: "validate_mission_m h m = None" using loaded(5) by (simp add: mission_valid)
  let ?rs = "jlist ''revisions'' m" and ?n = "length (jlist ''revisions'' m)"
  have parts: "?rs \<noteq> []" "int ?n = jint ''current_revision'' m" "is_int (jget ''current_revision'' m)"
      "validate_revisions h m 0 ?rs = None"
    using valid by (auto simp: validate_mission_m_def Let_def checks_simps require_int_m_def)
  have each: "validate_revisions h m k rs = None \<Longrightarrow> i < length rs \<Longrightarrow> validate_revision h m (k + i) (rs ! i) = None" for k i rs
  proof (induction rs arbitrary: k i)
    case (Cons r rs)
    then show ?case by (cases i) (auto simp: checks_simps, metis add_Suc)
  qed simp
  have "validate_revision h m (?n - 1) (last ?rs) = None"
    using each [OF parts(4), of "?n - 1"] parts(1) by (simp add: last_conv_nth)
  then have "py_eq (jget ''revision'' (last ?rs)) (JInt (int (?n - 1) + 1))"
    by (simp add: validate_revision_def Let_def checks_simps)
  moreover have "int (?n - 1) + 1 = jint ''current_revision'' m" using parts(1,2) by (cases ?rs) auto
  moreover have "JInt (jint ''current_revision'' m) = jget ''current_revision'' m" using parts(3) by (auto simp: is_int_iff)
  ultimately have "py_eq (jget ''revision'' (last ?rs)) (jget ''current_revision'' m)" by simp
  moreover have "?rs ! nat (jint ''current_revision'' m - 1) = last ?rs" "1 \<le> jint ''current_revision'' m"
    using parts(1,2) by (auto simp: last_conv_nth nat_diff_distrib' simp flip: parts(2)) (cases ?rs; simp)
  ultimately show "revision_entry m (jget ''current_revision'' m) = Some (current_revision_entry m)"
    using parts by (simp add: revision_entry_def Let_def current_revision_entry_def)
  show "is_int (jget ''current_revision'' m)" by (rule parts(3))
qed

definition exactly_permits :: "host \<Rightarrow> json \<Rightarrow> json \<Rightarrow> envelope \<Rightarrow> json \<Rightarrow> bool" where
  "exactly_permits h d i e approved_digest \<longleftrightarrow>
     (\<forall>now actions target digest.
        ac_valid (validate_authorization_use h d i (en_mission_id e) (en_revision e) (JInt now) (JList actions) target digest)
        \<longleftrightarrow> (en_expires_at e = JNull \<or> now < int_of_json (en_expires_at e))
          \<and> set actions \<subseteq> set (list_of (fst (normalized_scope e)))
          \<and> (target = JNull \<or> target \<in> set (list_of (snd (normalized_scope e))))
          \<and> (digest = JNull \<or> digest = approved_digest))"

lemma applied_permits:
  assumes app: "applied env e d m effect now x d'" and approve: "is_approve e"
    and valid: "validate_mission_document (me_host env) (me_state_check env) d = None"
  shows "exactly_permits (me_host env) d' (jget ''authorization_id'' (jget ''outcome'' x)) e
     (jget ''proposal_digest_sha256'' (jget ''outcome'' x))"
proof -
  obtain d2 m2 outcome where eff: "effect = (d2, m2, outcome)" by (cases effect)
  note app' = app [unfolded applied_def eff prod.case]
  define m' where "m' = jput ''updated_at'' now (jput ''decisions'' (JList (jlist ''decisions'' m2 @ [x])) m2)"
  note stored = applied_stored [OF app valid eff, folded m'_def]
  from app' obtain d1 s1 s2 where effect: "apply_effect env d1 m e now s1 = (Inr (d2, m2, outcome), s2)" by blast
  then have "approve_effect env d1 m e now s1 = (Inr (d2, m2, outcome), s2)" using approve by (simp add: apply_effect_def)
  then show ?thesis
  proof (rule approve_effect_Inr, goal_cases)
    case (1 i caller a)
    let ?entry = "current_revision_entry m"
    note issued = issue_Inr [OF 1(5)]
    have x: "new_decision_record (me_host env) e now outcome = Inr x" using app' by blast
    note members = record_members [OF x]
    have valid': "validate_mission_document (me_host env) (me_state_check env) d' = None" using app' by blast
    have m: "jget ''mission_id'' m = en_mission_id e" using loaded_mission(3) [OF valid] app' by blast
    have at: "authorization_at d' (str_of i) = a"
      using 1(6) stored(4) by (simp add: authorization_at_def ledger_grows_def jget_put_member jget_jput)
    have m': "jget ''state'' m' = JState STATE_AUTHORIZED" "jlist ''revisions'' m' = jlist ''revisions'' m"
        "i \<in> set (jlist ''authorization_ids'' m')" "mission_decisions m' \<noteq> []" "last (mission_decisions m') = x"
      by (simp_all add: m'_def 1(7) jget_jput mission_decisions_def)
    note loaded = loaded_mission [OF valid' stored(2)]
    note entry = current_entry [OF valid' stored(2)]
    have "validate_authorization_record (me_host env) a = None"
      using 1(5) by (auto simp: issue_mission_authorization_def Let_def sbind_Inr_iff guard_check_Inr_iff)
    then have "mission_decisions m' \<noteq> [] \<and>
        approves d' m' (last (mission_decisions m')) (str_of i) (jint ''current_revision'' m')"
      using m' issued(1) loaded(6) authorized_no_lifecycle [OF loaded(5) m'(1)]
      by (intro live_approval [of _ _ _ "me_host env"]) (simp_all add: at)
    then have "jget ''revision'' x = JInt (jint ''current_revision'' m')" "jget ''revision'' a = jget ''revision'' x"
      using m'(5) at by (simp_all add: approves_def authorization_agrees_def)
    then have rev: "en_revision e = jget ''current_revision'' m'" "jget ''revision'' a = en_revision e"
      using members(3) entry(2) by (auto simp: is_int_iff)
    have "current_revision_entry m' = ?entry" using m'(2) by (simp add: current_revision_entry_def)
    then have "ac_valid (validate_authorization_use (me_host env) d' i (en_mission_id e) (en_revision e) (JInt now') (JList actions)
          target digest) \<longleftrightarrow>
        (en_expires_at e = JNull \<or> now' < int_of_json (en_expires_at e))
        \<and> set actions \<subseteq> set (list_of (fst (normalized_scope e)))
        \<and> (target = JNull \<or> target \<in> set (list_of (snd (normalized_scope e))))
        \<and> (digest = JNull \<or> digest = jget ''proposal_digest_sha256'' ?entry)" for now' actions target digest
      using use_valid_iff [OF valid' stored(2) 1(2), where revision = "en_revision e"] at issued(1-7) m rev entry m' loaded(6)
        document_valid(2) [OF valid']
      by (simp add: use_problem_None_iff) blast
    then show ?case
      using members(5) 1(8) by (simp add: exactly_permits_def)
  qed
qed

lemma approval_permits:
  assumes "steady env" "apply_human_decision env e s = (Inr answer, t)" "is_approve e"
    and "jget ''idempotent'' answer = JBool False"
  shows "\<exists>d. holds_document env d t
     \<and> exactly_permits (me_host env) d (jget ''authorization_id'' answer) e (jget ''proposal_digest_sha256'' answer)"
  using assms(2)
proof (cases rule: apply_cases)
  case (replayed d digest r x s')
  with outcome_idempotent_flag [OF replayed(10)] assms(4) show ?thesis by simp
next
  case (fresh d digest r m effect now x d' s')
  obtain a u where "decision_outcome env d' x False s' = (Inr a, u)" "m_file u = m_file s'"
    using outcome_runs [OF assms(1)] by blast
  with fresh(9) fresh(7) have t: "holds_document env d' t" by (auto simp: holds_document_def)
  have "jget ''authorization_id'' answer = jget ''authorization_id'' (jget ''outcome'' x)"
    "jget ''proposal_digest_sha256'' answer = jget ''proposal_digest_sha256'' (jget ''outcome'' x)"
    using fresh(9) by (auto simp: decision_outcome_def Let_def bnd_Inr split: if_splits)
  with t applied_permits [OF fresh(6) assms(3) fresh(5)] show ?thesis by auto
qed

end
