(* ===== verification/MissionSamples.thy ===== *)
theory MissionSamples
  imports MissionPermit Samples
begin

text \<open>
  Concrete Mission stores on which the theorems about Missions are instantiated: one Mission, as it
  is proposed, then approved, then edited; and a run of the approval.
\<close>

section \<open>The records\<close>

definition ident :: "str \<Rightarrow> char \<Rightarrow> json" where "ident p c = JStr (p @ ''-'' @ replicate 32 c)"

abbreviation sample_mission_id :: json where "sample_mission_id \<equiv> ident ''mn'' (CHR ''0'')"
abbreviation sample_request_id :: json where "sample_request_id \<equiv> ident ''mq'' (CHR ''0'')"
abbreviation sample_authorization_id :: json where "sample_authorization_id \<equiv> ident ''ma'' (CHR ''0'')"
abbreviation first_decision_id :: json where "first_decision_id \<equiv> ident ''md'' (CHR ''0'')"
abbreviation second_decision_id :: json where "second_decision_id \<equiv> ident ''md'' (CHR ''1'')"

definition sample_caller :: caller_context where
  "sample_caller = AuthenticatedContext
     \<lparr>cx_transport = JStr ''local'', cx_kind = JStr ''local_process_user'', cx_ref = JStr ''u'', cx_subject = JNull\<rparr>"

definition sample_proposal :: "str \<Rightarrow> json" where
  "sample_proposal objective = JObj
     [(''objective'', JStr objective), (''target_context'', JStr ''''),
      (''repository_url'', JStr ''https://github.com/o/p''), (''requested_scope'', JStr ''s''),
      (''requested_action_scope'', JList [JStr ''engineering_change'']),
      (''requested_delivery_target'', JStr ''github_pr'')]"

definition sample_provenance :: "str \<Rightarrow> json \<Rightarrow> int \<Rightarrow> int \<Rightarrow> json" where
  "sample_provenance kind i revision received_at = JObj
     [(''transport'', JStr ''local''), (''principal_kind'', JStr ''local_process_user''), (''principal_ref'', JStr ''u''),
      (''configured_subject'', JNull), (''received_at'', JInt received_at), (''reference_kind'', JStr kind),
      (''reference_id'', i), (''mission_id'', sample_mission_id), (''revision'', JInt revision),
      (''human_identity_proof'', JNull), (''proof'', JStr ''transport_credential_only'')]"

definition sample_revision :: "int \<Rightarrow> str \<Rightarrow> int \<Rightarrow> json \<Rightarrow> json" where
  "sample_revision n objective created_at provenance = JObj
     [(''revision'', JInt n), (''proposal'', sample_proposal objective), (''proposal_digest_sha256'', JStr hex64),
      (''created_at'', JInt created_at), (''provenance'', provenance)]"

definition first_sample_revision :: json where
  "first_sample_revision = sample_revision 1 ''first'' 10 (sample_provenance ''request'' sample_request_id 1 10)"

definition second_sample_revision :: json where
  "second_sample_revision = sample_revision 2 ''second'' 30 (sample_provenance ''decision'' second_decision_id 2 25)"

definition sample_scope :: json where "sample_scope = JList [JStr ''engineering_change'']"
definition sample_targets :: json where "sample_targets = JList [JStr ''github_pr'']"

definition approval :: json where
  "approval = JObj
     [(''decision_id'', first_decision_id), (''mission_id'', sample_mission_id), (''revision'', JInt 1),
      (''decision'', JStr ''APPROVE''), (''approved_action_scope'', sample_scope),
      (''approved_delivery_targets'', sample_targets), (''expires_at'', JInt 1000),
      (''proposal_digest_sha256'', JNull), (''provenance'', sample_provenance ''decision'' first_decision_id 1 15),
      (''received_at'', JInt 15), (''decided_at'', JInt 20), (''decision_digest_sha256'', JStr hex64),
      (''outcome'', decision_effect STATE_AUTHORIZED first_sample_revision sample_authorization_id [])]"

definition edit :: json where
  "edit = JObj
     [(''decision_id'', second_decision_id), (''mission_id'', sample_mission_id), (''revision'', JInt 1),
      (''decision'', JStr ''EDIT''), (''approved_action_scope'', JNull),
      (''approved_delivery_targets'', JNull), (''expires_at'', JNull),
      (''proposal_digest_sha256'', JStr hex64), (''provenance'', sample_provenance ''decision'' second_decision_id 1 25),
      (''received_at'', JInt 25), (''decided_at'', JInt 30), (''decision_digest_sha256'', JStr hex64),
      (''outcome'', decision_effect STATE_AWAITING_DECISION second_sample_revision JNull [sample_authorization_id])]"

definition sample_authorization :: "json \<Rightarrow> json" where
  "sample_authorization revocation = JObj
     [(''authorization_id'', sample_authorization_id), (''mission_id'', sample_mission_id), (''revision'', JInt 1),
      (''proposal_digest_sha256'', JStr hex64),
      (''human_principal'', sample_provenance ''decision'' first_decision_id 1 15),
      (''authorized_action_scope'', sample_scope), (''authorized_delivery_targets'', sample_targets),
      (''issued_at'', JInt 20), (''expires_at'', JInt 1000), (''revocation'', revocation),
      (''authorization_digest_sha256'', JStr hex64)]"

definition unrevoked :: json where
  "unrevoked = JObj [(''revoked'', JBool False), (''revoked_at'', JNull), (''reason'', JNull)]"

definition superseded :: json where
  "superseded = JObj [(''revoked'', JBool True), (''revoked_at'', JInt 30), (''reason'', JStr ''superseded_by_edit'')]"

definition sample_mission :: "int \<Rightarrow> mission_state \<Rightarrow> json list \<Rightarrow> json list \<Rightarrow> json list \<Rightarrow> json" where
  "sample_mission updated_at state revisions decisions ids = JObj
     [(''schema_version'', JInt 1), (''mission_id'', sample_mission_id), (''request_id'', sample_request_id),
      (''created_at'', JInt 10), (''updated_at'', JInt updated_at), (''state'', JState state),
      (''current_revision'', JInt (int (length revisions))), (''revisions'', JList revisions),
      (''decisions'', JList decisions), (''authorization_ids'', JList ids)]"

definition sample_ledger :: "char \<Rightarrow> str \<Rightarrow> int \<Rightarrow> json \<Rightarrow> str \<Rightarrow> json" where
  "sample_ledger c kind recorded_at decision_id reason = JObj
     [(''entry_id'', ident ''ml'' c), (''kind'', JStr kind), (''recorded_at'', JInt recorded_at),
      (''mission_id'', sample_mission_id), (''revision'', JInt 1), (''authorization_id'', sample_authorization_id),
      (''decision_id'', decision_id), (''reason'', JStr reason)]"

definition sample_reservation :: "str \<Rightarrow> json \<Rightarrow> json" where
  "sample_reservation kind consumer = reservation_entry (JInt 5) kind (context_dict sample_caller) consumer"

definition sample_store :: "json \<Rightarrow> (str \<times> json) list \<Rightarrow> json list \<Rightarrow> json \<Rightarrow> json \<Rightarrow> json" where
  "sample_store mission authorizations ledger first second = JObj
     [(''mission_store_schema_version'', JInt 1), (''missions'', JObj [(str_of sample_mission_id, mission)]),
      (''authorizations'', JObj authorizations), (''authority_ledger'', JList ledger),
      (''reservations'', JObj
         [(str_of sample_request_id, sample_reservation ''request'' sample_mission_id),
          (str_of first_decision_id, sample_reservation ''decision'' first),
          (str_of second_decision_id, sample_reservation ''decision'' second)]),
      (''mission_state'', JObj [])]"

definition issued_entry :: json where
  "issued_entry = sample_ledger (CHR ''0'') ''ISSUED'' 20 first_decision_id ''approved by human decision''"

definition invalidated_entry :: json where
  "invalidated_entry = sample_ledger (CHR ''1'') ''INVALIDATED_BY_EDIT'' 30 second_decision_id ''superseded_by_edit''"

definition proposed_mission :: json where
  "proposed_mission = sample_mission 10 STATE_AWAITING_DECISION [first_sample_revision] [] []"

definition approved_mission :: json where
  "approved_mission = sample_mission 20 STATE_AUTHORIZED [first_sample_revision] [approval] [sample_authorization_id]"

definition edited_mission :: json where
  "edited_mission = sample_mission 30 STATE_AWAITING_DECISION [first_sample_revision, second_sample_revision]
     [approval, edit] [sample_authorization_id]"

definition proposed_store :: json where
  "proposed_store = sample_store proposed_mission [] [] JNull JNull"

definition approved_store :: json where
  "approved_store = sample_store approved_mission
     [(str_of sample_authorization_id, sample_authorization unrevoked)] [issued_entry] first_decision_id JNull"

definition edited_store :: json where
  "edited_store = sample_store edited_mission
     [(str_of sample_authorization_id, sample_authorization superseded)] [issued_entry, invalidated_entry]
     first_decision_id second_decision_id"

section \<open>They are valid\<close>

lemma sample_provenances:
  "validate_provenance (sample_provenance ''request'' sample_request_id 1 10) = None"
  "validate_provenance (sample_provenance ''decision'' first_decision_id 1 15) = None"
  "validate_provenance (sample_provenance ''decision'' second_decision_id 1 25) = None"
  "validate_provenance (sample_provenance ''decision'' second_decision_id 2 25) = None"
  by code_simp+

lemma sample_proposals:
  "validate_proposal (sample_proposal ''first'') = Inr (sample_proposal ''first'')"
  "validate_proposal (sample_proposal ''second'') = Inr (sample_proposal ''second'')"
  by code_simp+

lemma sample_finite_proposal: "finite_json (sample_proposal ''first'')" "finite_json (sample_proposal ''second'')"
  by code_simp+

lemma sample_proposal_digest:
  "proposal_digest sample_host (sample_proposal ''first'') = Inr hex64"
  "proposal_digest sample_host (sample_proposal ''second'') = Inr hex64"
  by (simp_all add: proposal_digest_def sample_proposals sample_json_digest sample_finite_proposal)

lemma sample_decision_digest:
  "decision_digest sample_host (jget ''mission_id'' approval) (jget ''revision'' approval) (jget ''decision'' approval)
     (jget ''approved_action_scope'' approval) (jget ''approved_delivery_targets'' approval)
     (jget ''expires_at'' approval) (jget ''proposal_digest_sha256'' approval) (jget ''reason'' approval) = Inr hex64"
  "decision_digest sample_host (jget ''mission_id'' edit) (jget ''revision'' edit) (jget ''decision'' edit)
     (jget ''approved_action_scope'' edit) (jget ''approved_delivery_targets'' edit)
     (jget ''expires_at'' edit) (jget ''proposal_digest_sha256'' edit) (jget ''reason'' edit) = Inr hex64"
  unfolding decision_digest_def by (rule sample_json_digest, code_simp)+

lemma sample_record_digest:
  "require_decision_digest sample_host approval = None" "require_decision_digest sample_host edit = None"
  unfolding require_decision_digest_def sample_decision_digest by code_simp+

lemma mission_ids:
  "require_id_m sample_mission_id MISSION_ID_PREFIX = None"
  "require_id_m sample_request_id REQUEST_ID_PREFIX = None"
  "require_id_m sample_authorization_id AUTHORIZATION_ID_PREFIX = None"
  "require_id_m first_decision_id DECISION_ID_PREFIX = None"
  "require_id_m second_decision_id DECISION_ID_PREFIX = None"
  "require_id_m (ident ''ml'' (CHR ''0'')) LEDGER_ENTRY_ID_PREFIX = None"
  "require_id_m (ident ''ml'' (CHR ''1'')) LEDGER_ENTRY_ID_PREFIX = None"
  by code_simp+

lemma sample_decision_parts:
  "require_dict_m approval = None" "require_closed_keys_m approval DECISION_KEYS [''reason''] = None"
  "validate_scope_of_record approval = None"
  "validate_outcome (decision_effect STATE_AUTHORIZED first_sample_revision sample_authorization_id []) = None"
  "require_decision_provenance (sample_provenance ''decision'' first_decision_id 1 15) True = None"
  "require_dict_m edit = None" "require_closed_keys_m edit DECISION_KEYS [''reason''] = None"
  "validate_scope_of_record edit = None"
  "validate_outcome (decision_effect STATE_AWAITING_DECISION second_sample_revision JNull [sample_authorization_id]) = None"
  "require_decision_provenance (sample_provenance ''decision'' second_decision_id 1 25) False = None"
  by code_simp+

lemma sample_decision_members:
  "jget ''decision'' approval = JStr ''APPROVE''" "jget ''decision'' edit = JStr ''EDIT''"
  "jget ''decision_id'' approval = first_decision_id" "jget ''decision_id'' edit = second_decision_id"
  "jget ''mission_id'' approval = sample_mission_id" "jget ''mission_id'' edit = sample_mission_id"
  "jget ''revision'' approval = JInt 1" "jget ''revision'' edit = JInt 1"
  "jget ''received_at'' approval = JInt 15" "jget ''received_at'' edit = JInt 25"
  "jget ''decided_at'' approval = JInt 20" "jget ''decided_at'' edit = JInt 30"
  "jget ''provenance'' approval = sample_provenance ''decision'' first_decision_id 1 15"
  "jget ''provenance'' edit = sample_provenance ''decision'' second_decision_id 1 25"
  "jget ''outcome'' approval = decision_effect STATE_AUTHORIZED first_sample_revision sample_authorization_id []"
  "jget ''outcome'' edit = decision_effect STATE_AWAITING_DECISION second_sample_revision JNull [sample_authorization_id]"
  "\<not> jhas ''reason'' approval" "\<not> jhas ''reason'' edit"
  by (simp_all add: approval_def edit_def jget_def jhas_def jkeys_def)

lemma sample_provenance_members:
  "jget ''reference_kind'' (sample_provenance kind i n t) = JStr kind"
  "jget ''reference_id'' (sample_provenance kind i n t) = i"
  "jget ''mission_id'' (sample_provenance kind i n t) = sample_mission_id"
  "jget ''revision'' (sample_provenance kind i n t) = JInt n"
  "jget ''received_at'' (sample_provenance kind i n t) = JInt t"
  "jget ''principal_kind'' (sample_provenance kind i n t) = JStr ''local_process_user''"
  by (simp_all add: sample_provenance_def jget_def)

lemma sample_decisions:
  "validate_decision_record sample_host approval = None" "validate_decision_record sample_host edit = None"
  unfolding validate_decision_record_def Let_def
  by (simp_all add: checks_simps mission_ids sample_decision_parts sample_decision_members sample_provenance_members
      sample_record_digest require_int_m_def require_timestamp_m_def require_member_m_def RECORDED_DECISIONS_def
      DECISIONS_def ATTESTED_RECORD_DECISIONS_def ATTESTED_OUTCOME_DECISIONS_def)

lemma sample_authority_digest_m:
  "authorization_digest sample_host (sample_authorization unrevoked) = Inr hex64"
  "authorization_digest sample_host (sample_authorization superseded) = Inr hex64"
  unfolding authorization_digest_def by (rule sample_json_digest, code_simp)+

lemma sample_authorization_members:
  "jget ''human_principal'' (sample_authorization v) = sample_provenance ''decision'' first_decision_id 1 15"
  "jget ''mission_id'' (sample_authorization v) = sample_mission_id"
  "jget ''authorization_id'' (sample_authorization v) = sample_authorization_id"
  "jget ''revision'' (sample_authorization v) = JInt 1"
  "jget ''issued_at'' (sample_authorization v) = JInt 20" "jget ''expires_at'' (sample_authorization v) = JInt 1000"
  "jget ''authorized_action_scope'' (sample_authorization v) = sample_scope"
  "jget ''authorized_delivery_targets'' (sample_authorization v) = sample_targets"
  "jget ''proposal_digest_sha256'' (sample_authorization v) = JStr hex64"
  "jget ''revocation'' (sample_authorization v) = v"
  "jget ''authorization_digest_sha256'' (sample_authorization v) = JStr hex64"
  by (simp_all add: sample_authorization_def jget_def)

lemma sample_authorization_parts:
  "require_dict_m (sample_authorization v) = None" "require_closed_keys_m (sample_authorization v) AUTHORIZATION_KEYS [] = None"
  by (simp_all add: sample_authorization_def require_dict_m_def require_closed_keys_m_def checks_simps jkeys_def
      AUTHORIZATION_KEYS_def AUTHORITY_KEYS_m_def)

lemma sample_scope_parts:
  "require_hex_m (JStr hex64) 64 = None"
  "result_check (require_sorted_subset sample_scope ACTION_SCOPES ACTION_SCOPE False) = None"
  "sorted_strs sample_scope = sample_scope"
  "result_check (require_sorted_subset sample_targets DELIVERY_TARGETS DELIVERY_TARGET True) = None"
  "sorted_strs sample_targets = sample_targets"
  "validate_revocation_m unrevoked = None" "validate_revocation_m superseded = None"
  by code_simp+

lemma sample_authorizations:
  "validate_authorization_record sample_host (sample_authorization unrevoked) = None"
  "validate_authorization_record sample_host (sample_authorization superseded) = None"
  unfolding validate_authorization_record_def Let_def
  by (simp_all add: checks_simps mission_ids sample_decision_parts(5) sample_authorization_parts sample_scope_parts
      sample_authorization_members sample_provenance_members sample_authority_digest_m require_int_m_def
      require_timestamp_m_def require_optional_timestamp_def)

section \<open>The Missions\<close>

lemma sample_revision_members:
  "jget ''provenance'' (sample_revision n objective t v) = v" "jget ''revision'' (sample_revision n objective t v) = JInt n"
  "jget ''proposal'' (sample_revision n objective t v) = sample_proposal objective"
  "jget ''proposal_digest_sha256'' (sample_revision n objective t v) = JStr hex64"
  "jget ''created_at'' (sample_revision n objective t v) = JInt t"
  "require_dict_m (sample_revision n objective t v) = None"
  "require_closed_keys_m (sample_revision n objective t v) REVISION_KEYS [] = None"
  by (simp_all add: sample_revision_def jget_def require_dict_m_def require_closed_keys_m_def checks_simps jkeys_def
      REVISION_KEYS_def)

lemma sample_mission_members:
  "jget ''schema_version'' (sample_mission t st rs ds ids) = JInt 1"
  "jget ''mission_id'' (sample_mission t st rs ds ids) = sample_mission_id"
  "jget ''request_id'' (sample_mission t st rs ds ids) = sample_request_id"
  "jget ''created_at'' (sample_mission t st rs ds ids) = JInt 10" "jget ''updated_at'' (sample_mission t st rs ds ids) = JInt t"
  "jget ''state'' (sample_mission t st rs ds ids) = JState st"
  "jget ''current_revision'' (sample_mission t st rs ds ids) = JInt (int (length rs))"
  "jget ''revisions'' (sample_mission t st rs ds ids) = JList rs" "jget ''decisions'' (sample_mission t st rs ds ids) = JList ds"
  "jget ''authorization_ids'' (sample_mission t st rs ds ids) = JList ids"
  "jget ''run'' (sample_mission t st rs ds ids) = JNull" "jget ''lifecycle'' (sample_mission t st rs ds ids) = JNull"
  "jget ''withdrawal'' (sample_mission t st rs ds ids) = JNull"
  "\<not> jhas ''run'' (sample_mission t st rs ds ids)" "\<not> jhas ''lifecycle'' (sample_mission t st rs ds ids)"
  "\<not> jhas ''withdrawal'' (sample_mission t st rs ds ids)"
  "\<not> jhas ''withdrawal_key_digest_sha256'' (sample_mission t st rs ds ids)"
  "\<not> jhas ''withdrawal_key_expires_at'' (sample_mission t st rs ds ids)"
  "require_dict_m (sample_mission t st rs ds ids) = None"
  "require_closed_keys_m (sample_mission t st rs ds ids) MISSION_KEYS MISSION_OPTIONAL_KEYS = None"
  by (simp_all add: sample_mission_def jget_def jhas_def jkeys_def require_dict_m_def require_closed_keys_m_def
      checks_simps MISSION_KEYS_def)

lemma sample_same: "py_eq (JInt n) (JInt n)" "py_eq (sample_proposal ''first'') (sample_proposal ''first'')"
  "py_eq (sample_proposal ''second'') (sample_proposal ''second'')"
  by (simp_all add: py_eq.simps sample_proposal_def)

lemma sample_revisions:
  "jget ''mission_id'' m = sample_mission_id \<Longrightarrow> jget ''request_id'' m = sample_request_id
     \<Longrightarrow> validate_revision sample_host m 0 first_sample_revision = None"
  "jget ''mission_id'' m = sample_mission_id \<Longrightarrow> validate_revision sample_host m 1 second_sample_revision = None"
  using sample_provenances
  by (simp_all add: validate_revision_def first_sample_revision_def second_sample_revision_def Let_def checks_simps
      sample_revision_members sample_provenance_members sample_proposals sample_proposal_digest sample_same sample_scope_parts
      require_timestamp_m_def require_int_m_def require_authenticated_provenance_def refuse_unauthenticated_def
      AUTHENTICATED_PRINCIPAL_KINDS_def)

lemma sample_no_run:
  "in_states (JState st) RUN_STATES = False \<Longrightarrow> validate_run_and_lifecycle sample_host (sample_mission t st rs ds ids) = None"
  by (simp add: validate_run_and_lifecycle_def Let_def checks_simps sample_mission_members when_check_def)

lemma effect_members:
  "jget ''authorization_id'' (decision_effect st entry i ids) = i"
  "jget ''resulting_state'' (decision_effect st entry i ids) = JState st"
  "jget ''resulting_revision'' (decision_effect st entry i ids) = jget ''revision'' entry"
  "jget ''proposal_digest_sha256'' (decision_effect st entry i ids) = jget ''proposal_digest_sha256'' entry"
  "jget ''invalidated_authorization_ids'' (decision_effect st entry i ids) = JList ids"
  by (simp_all add: decision_effect_def jget_def)

lemma first_members:
  "jget ''revision'' first_sample_revision = JInt 1" "jget ''revision'' second_sample_revision = JInt 2"
  "jget ''proposal_digest_sha256'' first_sample_revision = JStr hex64"
  "jget ''proposal_digest_sha256'' second_sample_revision = JStr hex64"
  "jget ''proposal'' first_sample_revision = sample_proposal ''first''"
  "jget ''created_at'' second_sample_revision = JInt 30"
  "jget ''provenance'' first_sample_revision = sample_provenance ''request'' sample_request_id 1 10"
  "jget ''provenance'' second_sample_revision = sample_provenance ''decision'' second_decision_id 2 25"
  by (simp_all add: first_sample_revision_def second_sample_revision_def sample_revision_members)

lemma mission_ids_distinct: "first_decision_id \<noteq> second_decision_id" "JNull \<noteq> first_decision_id" "JNull \<noteq> second_decision_id"
  "first_decision_id \<noteq> JNull" "second_decision_id \<noteq> JNull" "sample_mission_id \<noteq> JNull" "sample_authorization_id \<noteq> JNull"
  by (simp_all add: ident_def eval_nat_numeral)

lemma sample_missions_valid:
  "validate_mission_record sample_host proposed_mission = None"
  "validate_mission_record sample_host approved_mission = None"
  "validate_mission_record sample_host edited_mission = None"
  using sample_no_run mission_ids_distinct
  by (simp_all add: mission_valid validate_mission_m_def proposed_mission_def approved_mission_def edited_mission_def
      Let_def checks_simps when_check_def sample_same sample_mission_members mission_ids sample_revisions [simplified] validate_decision_of_def
      sample_decisions sample_decision_members first_members effect_members
      require_timestamp_m_def require_int_m_def SCHEMA_VERSION_m_def REACHABLE_STATES_def RUN_STATES_def
      MAX_MISSION_REVISIONS_def MAX_MISSION_DECISIONS_def require_state_def require_member_m_def MISSION_STATES_def)

section \<open>The stores\<close>

lemma sample_registry:
  "reconcile_registry proposed_store = None" "reconcile_registry approved_store = None"
  "reconcile_registry edited_store = None"
  by code_simp+

lemma sample_history:
  "reconcile_mission_history proposed_store proposed_mission = None"
  "reconcile_mission_history approved_store approved_mission = None"
  "reconcile_mission_history edited_store edited_mission = None"
  by code_simp+

lemma sample_store_members:
  "jget ''mission_store_schema_version'' (sample_store m as es a b) = JInt 1"
  "jget ''missions'' (sample_store m as es a b) = JObj [(str_of sample_mission_id, m)]"
  "jget ''authorizations'' (sample_store m as es a b) = JObj as"
  "jget ''authority_ledger'' (sample_store m as es a b) = JList es"
  "jget ''reservations'' (sample_store m as es a b) = JObj
     [(str_of sample_request_id, sample_reservation ''request'' sample_mission_id),
      (str_of first_decision_id, sample_reservation ''decision'' a),
      (str_of second_decision_id, sample_reservation ''decision'' b)]"
  "jget ''mission_state'' (sample_store m as es a b) = JObj []"
  "is_obj (sample_store m as es a b)"
  "jkeys (sample_store m as es a b) = MISSION_TOP_LEVEL_KEYS"
  by (simp_all add: sample_store_def jget_def jkeys_def MISSION_TOP_LEVEL_KEYS_def)

lemma sample_reservations:
  "validate_reservation (sample_reservation ''request'' sample_mission_id) = None"
  "validate_reservation (sample_reservation ''decision'' JNull) = None"
  "validate_reservation (sample_reservation ''decision'' first_decision_id) = None"
  "validate_reservation (sample_reservation ''decision'' second_decision_id) = None"
  by code_simp+

lemma sample_reservation_members:
  "jget ''kind'' (sample_reservation k c) = JStr k" "jget ''consumed_by'' (sample_reservation k c) = c"
  by (simp_all add: sample_reservation_def reservation_entry_def jget_def)

lemma str_of_ident: "JStr (str_of (ident p c)) = ident p c" "str_of (ident p c) = str_of (ident q d) \<longleftrightarrow> ident p c = ident q d"
  by (simp_all add: ident_def)

lemma ident_inject: "length p = length q \<Longrightarrow> ident p c = ident q d \<longleftrightarrow> p = q \<and> c = d"
  by (auto simp: ident_def eval_nat_numeral)

lemma sample_ledger_valid:
  "validate_ledger_entry issued_entry = None" "validate_ledger_entry invalidated_entry = None"
  by code_simp+

lemma sample_ledger_members:
  "jget ''entry_id'' (sample_ledger c k t d r) = ident ''ml'' c" "jget ''mission_id'' (sample_ledger c k t d r) = sample_mission_id"
  "jget ''authorization_id'' (sample_ledger c k t d r) = sample_authorization_id"
  by (simp_all add: sample_ledger_def jget_def)

lemma sample_stored_mission:
  assumes "validate_mission_record sample_host (sample_mission t st rs ds ids) = None"
    and "list_all (\<lambda>d. is_consumed (sample_store m as es a b) (jget ''decision_id'' d) ''decision'' (jget ''decision_id'' d)) ds"
    and "list_all (\<lambda>i. authorization_at (sample_store m as es a b) (str_of i) \<noteq> JNull
             \<and> jget ''mission_id'' (authorization_at (sample_store m as es a b) (str_of i)) = sample_mission_id) ids"
  shows "validate_stored_mission sample_host (sample_store m as es a b) []
     (str_of sample_mission_id, sample_mission t st rs ds ids) = None"
  using assms
  by (simp add: validate_stored_mission_def checks_simps sample_mission_members str_of_ident mission_decisions_def
      is_consumed_def members_def sample_store_members sample_reservation_members)

lemma sample_valid:
  assumes "validate_stored_mission sample_host (sample_store m as es a b) [] (str_of sample_mission_id, m) = None"
    and "checks (map (validate_stored_authorization sample_host (sample_store m as es a b)) as) = None"
    and "validate_stored_ledger (sample_store m as es a b) [] es = None" "revision_identities m"
    and "a \<in> {JNull, first_decision_id}" "b \<in> {JNull, second_decision_id}"
    and "reconcile_registry (sample_store m as es a b) = None" "reconcile_mission_history (sample_store m as es a b) m = None"
    and "length as \<le> 1" "length es \<le> 2"
  shows "validate_mission_document sample_host sc (sample_store m as es a b) = None"
  using assms mission_ids sample_reservations
  by (auto simp: validate_mission_document_def Let_def checks_mission_store checks_simps sample_store_members
      members_def MISSION_STORE_SCHEMA_VERSION_def held_def RESERVATION_CAPS_def REFERENCE_KINDS_def
      sample_reservation_members str_of_ident REFERENCE_PREFIXES_def MAX_MISSION_RECORDS_def
      MAX_AUTHORIZATION_RECORDS_def MAX_AUTHORITY_LEDGER_ENTRIES_def dependency_graph_problem_def list_all_iff)

lemma sample_consumed:
  "is_consumed (sample_store m as es first_decision_id b) first_decision_id ''decision'' first_decision_id"
  "is_consumed (sample_store m as es a second_decision_id) second_decision_id ''decision'' second_decision_id"
  by (simp_all add: is_consumed_def members_def sample_store_members sample_reservation_members ident_def
      eval_nat_numeral)

lemma sample_authorization_at:
  "authorization_at (sample_store m [(str_of sample_authorization_id, v)] es a b) (str_of sample_authorization_id) = v"
  by (simp add: authorization_at_def sample_store_members)

lemma sample_mission_at: "mission_at (sample_store m as es a b) sample_mission_id = m"
  by (simp add: mission_at_def sample_store_members)

lemma sample_stored_authorization:
  assumes "validate_authorization_record sample_host (sample_authorization v) = None"
    and "rs \<noteq> []" "hd rs = first_sample_revision"
  shows "validate_stored_authorization sample_host (sample_store (sample_mission t st rs ds [sample_authorization_id]) as es a b)
     (str_of sample_authorization_id, sample_authorization v) = None"
proof -
  have "rs ! 0 = first_sample_revision" using assms(2,3) by (simp add: hd_conv_nth)
  moreover have "1 \<le> int (length rs)" using assms(2) by (cases rs) auto
  ultimately show ?thesis using assms(1)
    by (simp add: validate_stored_authorization_def Let_def checks_simps sample_authorization_members str_of_ident
      sample_mission_at sample_mission_members revision_entry_def first_members sample_same)
      (simp add: sample_mission_def)
qed

lemma sample_stores_valid:
  "validate_mission_document sample_host sc proposed_store = None"
  "validate_mission_document sample_host sc approved_store = None"
  "validate_mission_document sample_host sc edited_store = None"
proof -
  note missions = sample_missions_valid [unfolded proposed_mission_def approved_mission_def edited_mission_def]
  note defs = proposed_mission_def approved_mission_def edited_mission_def
  show "validate_mission_document sample_host sc proposed_store = None"
    unfolding proposed_store_def
    using sample_registry(1) sample_history(1) sample_stored_mission [OF missions(1)]
    by (intro sample_valid)
      (simp_all add: defs proposed_store_def [unfolded defs] revision_identities_def sample_mission_members checks_simps
        require_int_m_def first_members)
  show "validate_mission_document sample_host sc approved_store = None"
    unfolding approved_store_def
    using sample_registry(2) sample_history(2) sample_stored_mission [OF missions(2)] sample_ledger_valid
      sample_stored_authorization [OF sample_authorizations(1)]
    by (intro sample_valid)
      (simp_all add: defs approved_store_def [unfolded defs] revision_identities_def sample_mission_members checks_simps
        require_int_m_def first_members sample_decision_members sample_consumed sample_authorization_at mission_ids_distinct
        sample_authorization_members issued_entry_def sample_ledger_members sample_mission_at
        sample_mission_def [THEN arg_cong [where f = "\<lambda>x. x = JNull"]] sample_authorization_def [THEN arg_cong [where f = "\<lambda>x. x = JNull"]])
  show "validate_mission_document sample_host sc edited_store = None"
    unfolding edited_store_def
    using sample_registry(3) sample_history(3) sample_stored_mission [OF missions(3)] sample_ledger_valid
      sample_stored_authorization [OF sample_authorizations(2)]
    by (intro sample_valid)
      (simp_all add: defs edited_store_def [unfolded defs] revision_identities_def sample_mission_members checks_simps
        require_int_m_def first_members sample_decision_members sample_consumed sample_authorization_at mission_ids_distinct
        sample_authorization_members issued_entry_def invalidated_entry_def sample_ledger_members sample_mission_at ident_inject
        sample_mission_def [THEN arg_cong [where f = "\<lambda>x. x = JNull"]] sample_authorization_def [THEN arg_cong [where f = "\<lambda>x. x = JNull"]])
qed

section \<open>A service and its runs\<close>

definition sample_menv :: "int \<Rightarrow> char \<Rightarrow> bool menv" where
  "sample_menv t c =
     \<lparr>me_host = sample_host, me_state_check = (\<lambda>_ _. None), me_clock = ret (JInt t),
      me_mint = (\<lambda>p. ret (ident p c)), me_failures = (\<lambda>_ _ _. Inr [])\<rparr>"

definition sample_msys :: "json \<Rightarrow> bool msys" where
  "sample_msys d = \<lparr>m_dir = Directory 448, m_file = File 384 (Some d), m_world = False\<rparr>"

definition sample_approval :: envelope where
  "sample_approval =
     \<lparr>en_context = sample_caller, en_decision_id = first_decision_id, en_mission_id = sample_mission_id,
      en_revision = JInt 1, en_decision = JStr ''APPROVE'', en_received_at = JInt 15, en_actions = sample_scope,
      en_targets = sample_targets, en_proposal = JNull, en_expires_at = JInt 1000, en_expected_digest = JStr hex64\<rparr>"

lemma sample_menv_simps [simp]:
  "me_host (sample_menv t c) = sample_host" "me_state_check (sample_menv t c) = (\<lambda>_ _. None)"
  "me_clock (sample_menv t c) = ret (JInt t)" "me_mint (sample_menv t c) p = ret (ident p c)"
  "m_dir (sample_msys d) = Directory 448" "m_file (sample_msys d) = File 384 (Some d)"
  by (simp_all add: sample_menv_def sample_msys_def)

lemma sample_injected: "injected (sample_menv t c)" "0 \<le> t \<Longrightarrow> steady (sample_menv t c)" "ready (sample_msys d)"
  by (simp_all add: injected_def steady_def ready_def refuse_open_directory_def open_permissions_def checks_simps
      require_timestamp_m_def require_int_m_def)

lemma mission_stored:
  assumes "validate_mission_document sample_host sc d = None"
  shows "stores sample_host sc (sample_msys d) d"
    "sc = (\<lambda>_ _. None) \<Longrightarrow> holds_document (sample_menv t c) d (sample_msys d)"
  using assms has_state [OF assms]
  by (simp_all add: stores_def holds_document_def mission_load_def open_permissions_def accept_loaded_document_def Let_def)

lemma sample_directory: "refuse_open_directory (Directory 448) = None"
  by (simp add: refuse_open_directory_def open_permissions_def)

lemma sample_locked:
  assumes "validate_mission_document sample_host (\<lambda>_ _. None) d = None"
  shows "locked (sample_menv t c) body (sample_msys d) = body d (sample_msys d)"
  using mission_stored(1) [OF assms] sample_directory
  by (simp add: locked_def lock_run load_run run_simps stores_def)

lemma sample_saved:
  assumes "validate_mission_document sample_host (\<lambda>_ _. None) d = None"
  shows "save (sample_menv t c) d (sample_msys d') = (Inr (), sample_msys d)"
  using assms sample_directory
  by (simp add: save_def save_missions_def make_directory_def run_simps mission_save_def sample_msys_def)

lemma sample_clock: "0 \<le> t \<Longrightarrow> mission_now (sample_menv t c) s = (Inr (JInt t), s)"
proof -
  assume "0 \<le> t"
  then have "require_timestamp_m (JInt t) = None" by (simp add: require_timestamp_m_def require_int_m_def checks_simps)
  then show ?thesis by (simp add: mission_now_def run_simps)
qed

lemma sample_use:
  assumes "actions \<in> {sample_scope, JList []}"
  shows "validate_authorization_use sample_host approved_store sample_authorization_id sample_mission_id (JInt 1)
     (JInt 50) actions (JStr ''github_pr'') JNull = permitted (sample_authorization unrevoked)"
proof -
  have "use_problem approved_store approved_mission sample_authorization_id (sample_authorization unrevoked) (JInt 1) (JInt 50)
      sample_scope (JStr ''github_pr'') JNull = None"
    by code_simp
  with assms have "use_problem approved_store approved_mission sample_authorization_id (sample_authorization unrevoked)
      (JInt 1) (JInt 50) actions (JStr ''github_pr'') JNull = None"
    by (auto simp: sample_scope_def use_problem_None_iff)
  moreover have "\<not> id_problem sample_mission_id MISSION_ID_PREFIX" "\<not> id_problem sample_authorization_id AUTHORIZATION_ID_PREFIX"
    using mission_ids by (simp_all add: require_id_m_def)
  moreover have "approved_mission \<noteq> JNull" "sample_authorization unrevoked \<noteq> JNull"
    by (simp_all add: approved_mission_def sample_mission_def sample_authorization_def)
  ultimately show ?thesis
    using sample_missions_valid(2) sample_authorizations(1)
    by (simp add: validate_authorization_use_def Let_def approved_store_def sample_store_members
        sample_authorization_members)
qed

text \<open>The approval of the proposed Mission, step by step.\<close>

definition approving_mission :: json where
  "approving_mission = sample_mission 10 STATE_AUTHORIZED [first_sample_revision] [] [sample_authorization_id]"

definition issuing_store :: json where
  "issuing_store = sample_store proposed_mission [(str_of sample_authorization_id, sample_authorization unrevoked)]
     [issued_entry] JNull JNull"

lemma approval_pure:
  "validate_envelope sample_approval = None"
  "reservation proposed_store first_decision_id ''decision'' sample_caller ''mission_unknown_decision_id''
     ''mission_decision_context_conflict'' = Inr (sample_reservation ''decision'' JNull)"
  "mission_of proposed_store sample_mission_id = Inr proposed_mission"
  "takes_decisions proposed_mission = None" "\<not> approve_only sample_caller" "is_approve sample_approval"
  "approvable proposed_store proposed_mission sample_approval (JInt 20) = None"
  "provenance_record sample_caller (JInt 15) ''decision'' first_decision_id sample_mission_id (JInt 1)
     = Inr (sample_provenance ''decision'' first_decision_id 1 15)"
  "new_ledger_entry (ident ''ml'' (CHR ''0'')) ''ISSUED'' (JInt 20) sample_mission_id (JInt 1) sample_authorization_id
     first_decision_id ''approved by human decision'' = Inr issued_entry"
  "normalized_scope sample_approval = (sample_scope, sample_targets)"
  by code_simp+

lemma approval_stores:
  "jput ''authority_ledger'' (JList [issued_entry])
     (put_member ''authorizations'' (str_of sample_authorization_id) (sample_authorization unrevoked) proposed_store) = issuing_store"
  "jput ''state'' (JState STATE_AUTHORIZED) (jput ''authorization_ids'' (JList [sample_authorization_id]) proposed_mission)
     = approving_mission"
  "consume first_decision_id first_decision_id
     (put_mission (jput ''updated_at'' (JInt 20) (jput ''decisions'' (JList [approval]) approving_mission)) issuing_store)
   = approved_store"
  by code_simp+

lemma approval_issue:
  "issue_mission_authorization sample_host sample_authorization_id sample_mission_id (JInt 1) (JStr hex64)
     (sample_provenance ''decision'' first_decision_id 1 15) sample_scope sample_targets (JInt 20) (JInt 1000)
   = Inr (sample_authorization unrevoked)"
proof -
  have "authorization_digest sample_host (JObj
      [(''authorization_id'', sample_authorization_id), (''mission_id'', sample_mission_id), (''revision'', JInt 1),
       (''proposal_digest_sha256'', JStr hex64), (''human_principal'', sample_provenance ''decision'' first_decision_id 1 15),
       (''authorized_action_scope'', sample_scope), (''authorized_delivery_targets'', sample_targets),
       (''issued_at'', JInt 20), (''expires_at'', JInt 1000), (''revocation'', unrevoked),
       (''authorization_digest_sha256'', JNull)]) = Inr hex64"
    unfolding authorization_digest_def by (rule sample_json_digest, code_simp)
  then show ?thesis
    using sample_authorizations(1)
    by (simp add: issue_mission_authorization_def Let_def unrevoked_def [symmetric] sample_authorization_def)
qed

lemma approval_digest: "envelope_digest sample_host sample_approval = Inr hex64" "replacement_digest sample_host sample_approval = Inr JNull"
proof -
  show "replacement_digest sample_host sample_approval = Inr JNull"
    by (simp add: replacement_digest_def sample_approval_def)
  moreover have "decision_digest sample_host sample_mission_id (JInt 1) (JStr ''APPROVE'') sample_scope sample_targets
      (JInt 1000) JNull JNull = Inr hex64"
    unfolding decision_digest_def by (rule sample_json_digest, code_simp)
  ultimately show "envelope_digest sample_host sample_approval = Inr hex64"
    using approval_pure(10) by (simp add: envelope_digest_def sample_approval_def)
qed

lemma approval_members:
  "en_context sample_approval = sample_caller" "en_decision_id sample_approval = first_decision_id"
  "en_mission_id sample_approval = sample_mission_id" "en_revision sample_approval = JInt 1"
  "en_received_at sample_approval = JInt 15" "en_expires_at sample_approval = JInt 1000"
  "en_expected_digest sample_approval = JStr hex64" "en_decision sample_approval = JStr ''APPROVE''"
  by (simp_all add: sample_approval_def)

lemma approval_record:
  "new_decision_record sample_host sample_approval (JInt 20)
     (decision_effect STATE_AUTHORIZED first_sample_revision sample_authorization_id []) = Inr approval"
proof -
  have "require_timestamp_m (JInt 20) = None" by (simp add: require_timestamp_m_def require_int_m_def checks_simps)
  then show ?thesis
    using approval_pure approval_digest sample_decisions(1)
    by (simp add: new_decision_record_def Let_def guard_check_Inr_iff checks_simps approval_members approval_def)
qed

lemma approval_fresh:
  "str_of (ident p (CHR ''0'')) \<notin> set taken \<Longrightarrow> require_id_m (ident p (CHR ''0'')) p = None
   \<Longrightarrow> fresh_id (sample_menv t (CHR ''0'')) p taken s = (Inr (ident p (CHR ''0'')), s)"
  by (simp add: fresh_id_def eval_nat_numeral run_simps)

lemma proposed_members:
  "members ''authorizations'' proposed_store = []" "jlist ''authority_ledger'' proposed_store = []"
  "jlist ''authority_ledger'' (put_member ''authorizations'' i v proposed_store) = []"
  "jget ''mission_id'' proposed_mission = sample_mission_id" "jlist ''authorization_ids'' proposed_mission = []"
  "current_revision_entry proposed_mission = first_sample_revision" "jget ''current_revision'' proposed_mission = JInt 1"
  "jlist ''decisions'' approving_mission = []"
  by (simp_all add: proposed_store_def proposed_mission_def approving_mission_def sample_store_members members_def
      sample_mission_members current_revision_entry_def jget_put_member)

lemma approval_effect:
  "approve_effect (sample_menv 20 (CHR ''0'')) proposed_store proposed_mission sample_approval (JInt 20) s
   = (Inr (issuing_store, approving_mission,
        decision_effect STATE_AUTHORIZED first_sample_revision sample_authorization_id []), s)"
proof -
  have ids: "AUTHORIZATION_ID_PREFIX = ''ma''" "LEDGER_ENTRY_ID_PREFIX = ''ml''"
    by (simp_all add: AUTHORIZATION_ID_PREFIX_def LEDGER_ENTRY_ID_PREFIX_def)
  note fresh = approval_fresh [where p = "''ma''" and taken = "[]", simplified]
    approval_fresh [where p = "''ml''" and taken = "[]", simplified]
  have ledger: "append_ledger (sample_menv 20 (CHR ''0'')) ''ISSUED'' (JInt 20) sample_mission_id (JInt 1)
     sample_authorization_id first_decision_id ''approved by human decision''
     (put_member ''authorizations'' (str_of sample_authorization_id) (sample_authorization unrevoked) proposed_store) s
     = (Inr issuing_store, s)" for s
    using mission_ids approval_pure(9) approval_stores(1)
    by (simp add: append_ledger_def Let_def proposed_members seq_Inr bnd_Inr ids fresh MAX_AUTHORITY_LEDGER_ENTRIES_def)
  show ?thesis
    using mission_ids approval_pure(7,8) approval_stores(2) approval_issue ledger
    by (simp add: approve_effect_def Let_def proposed_members seq_Inr bnd_Inr ids fresh approval_members
        approval_pure(10) first_members)
qed

lemma sample_approved:
  "\<exists>answer. apply_human_decision (sample_menv 20 (CHR ''0'')) sample_approval (sample_msys proposed_store)
     = (Inr answer, sample_msys approved_store) \<and> jget ''idempotent'' answer = JBool False"
proof -
  let ?env = "sample_menv 20 (CHR ''0'')"
  have outcome: "\<exists>answer. decision_outcome ?env approved_store approval False s = (Inr answer, s)
      \<and> jget ''idempotent'' answer = JBool False" for s
    by (simp add: decision_outcome_def Let_def bnd_Inr sample_clock)
  have same: "py_eq (JInt 1) (JInt 1)" by (rule sample_same)
  have exact: "require_exact_content ?env proposed_mission sample_approval s = (Inr (), s)" for s
    by (simp add: require_exact_content_def Let_def seq_Inr proposed_members first_members approval_members
        approval_pure(5))
  have noted: "note_expirations ?env proposed_mission (JInt 20) proposed_store s = (Inr proposed_store, s)" for s
    by (simp add: note_expirations_def proposed_members)
  have recorded: "\<exists>answer. record_decision ?env issuing_store approving_mission first_decision_id (JInt 20) approval
      (sample_msys proposed_store) = (Inr answer, sample_msys approved_store) \<and> jget ''idempotent'' answer = JBool False"
    using outcome [of "sample_msys approved_store"] approval_stores(3) sample_saved [OF sample_stores_valid(2)]
    by (simp add: record_decision_def Let_def bnd_Inr seq_Inr append_decision_def proposed_members
        guard_check_Inr_iff MAX_MISSION_DECISIONS_def)
  have new: "\<exists>answer. apply_new_decision ?env proposed_store proposed_mission sample_approval (sample_msys proposed_store)
      = (Inr answer, sample_msys approved_store) \<and> jget ''idempotent'' answer = JBool False"
    using recorded approval_pure(4,6) exact noted approval_effect approval_record same
    by (simp add: apply_new_decision_def seq_Inr bnd_Inr sample_clock approval_members proposed_members apply_effect_def)
  show ?thesis
    using new approval_pure(1-3) approval_digest
    by (simp add: apply_human_decision_def seq_Inr bnd_Inr approval_members sample_locked [OF sample_stores_valid(1)]
        sample_reservation_members)
qed

end
