(* ===== verification/MissionParent.thy ===== *)
theory MissionParent
  imports Lookup
begin

text \<open>
  \<open>pr_delivery/mission_parent.py\<close>: the preflight of a caller's document, its private copy,
  the validation of one stored receipt, and the attestation of that receipt to the Mission
  Core. The Mission Core's two operations are the fields of a record: the read-only parent
  check and the recording operation, over the state of its store.

  The document is plain data already: a value of another Python type, which the preflight
  refuses by its type, has no form in the model.
\<close>

section \<open>The preflight\<close>

definition MAX_DELIVERY_DOCUMENT_ITEMS :: nat where "MAX_DELIVERY_DOCUMENT_ITEMS = 65536"
definition MAX_DELIVERY_DOCUMENT_DEPTH :: nat where "MAX_DELIVERY_DOCUMENT_DEPTH = 8"
definition MAX_DELIVERY_DOCUMENT_STR_CHARS :: nat where "MAX_DELIVERY_DOCUMENT_STR_CHARS = 16384"
definition MAX_DELIVERY_DOCUMENT_KEY_CHARS :: nat where "MAX_DELIVERY_DOCUMENT_KEY_CHARS = 128"
definition MAX_DELIVERY_DOCUMENT_INT_BITS :: nat where "MAX_DELIVERY_DOCUMENT_INT_BITS = 63"

datatype preflight_problem =
    StepNotString | StepTooLong | DocumentNotObject | TooDeep | TooManyItems | KeyTooLong
  | StringTooLong | IntegerTooWide

text \<open>\<open>value.bit_length() > bits\<close>.\<close>

definition too_wide :: "int \<Rightarrow> bool" where
  "too_wide i \<longleftrightarrow> 2 ^ MAX_DELIVERY_DOCUMENT_INT_BITS \<le> \<bar>i\<bar>"

definition children_of :: "json \<Rightarrow> json list" where
  "children_of v = (case v of JObj kvs \<Rightarrow> map snd kvs | JList vs \<Rightarrow> vs | _ \<Rightarrow> [])"

definition keys_ok :: "json \<Rightarrow> bool" where
  "keys_ok v \<longleftrightarrow> list_all (\<lambda>k. py_len k \<le> MAX_DELIVERY_DOCUMENT_KEY_CHARS) (jkeys v)"

definition is_container :: "json \<Rightarrow> bool" where
  "is_container v \<longleftrightarrow> is_obj v \<or> is_list v"

definition scalar_problem :: "json \<Rightarrow> preflight_problem option" where
  "scalar_problem v =
     (case v of
        JStr s \<Rightarrow> if MAX_DELIVERY_DOCUMENT_STR_CHARS < py_len s then Some StringTooLong else None
      | JNum (PInt i) \<Rightarrow> if too_wide i then Some IntegerTooWide else None
      | _ \<Rightarrow> None)"

fun json_nodes :: "json \<Rightarrow> nat" where
  "json_nodes (JList vs) = Suc (sum_list (map json_nodes vs))"
| "json_nodes (JObj kvs) = Suc (sum_list (map (\<lambda>kv. json_nodes (snd kv)) kvs))"
| "json_nodes _ = 1"

lemma sum_filter_le: "sum_list (map f (filter P xs)) \<le> sum_list (map (f :: 'a \<Rightarrow> nat) xs)"
  by (induction xs) auto

lemma children_nodes: "sum_list (map json_nodes (children_of v)) < json_nodes v"
  by (cases v) (simp_all add: children_of_def comp_def)

lemma children_containers_nodes:
  "sum_list (map json_nodes (filter is_container (children_of v))) < json_nodes v"
  using sum_filter_le [of json_nodes is_container "children_of v"] children_nodes [of v] by linarith

text \<open>The stack of containers with their depths; its top is the head of the list.\<close>

function preflight_loop :: "nat \<Rightarrow> (json \<times> nat) list \<Rightarrow> preflight_problem option" where
  "preflight_loop remaining [] = None"
| "preflight_loop remaining ((container, depth) # pending) =
     (let children = children_of container; size1 = length children in
      if MAX_DELIVERY_DOCUMENT_DEPTH < depth then Some TooDeep
      else if remaining < size1 then Some TooManyItems
      else if \<not> keys_ok container then Some KeyTooLong
      else (case first_some scalar_problem children of
              Some p \<Rightarrow> Some p
            | None \<Rightarrow> preflight_loop (remaining - size1)
                (rev (map (\<lambda>v. (v, Suc depth)) (filter is_container children)) @ pending)))"
  by pat_completeness auto
termination
proof (relation "measure (\<lambda>(r, pending). sum_list (map (\<lambda>p. json_nodes (fst p)) pending))", goal_cases)
  case (2 remaining container depth pending children size1)
  have "sum_list (map json_nodes (filter is_container (children_of container))) < json_nodes container"
    by (rule children_containers_nodes)
  with 2 show ?case by (simp add: comp_def rev_map [symmetric] sum_list_rev)
qed simp

definition preflight_problem_of :: "json \<Rightarrow> json \<Rightarrow> preflight_problem option" where
  "preflight_problem_of document step =
     (if \<not> is_str step then Some StepNotString
      else if MAX_DELIVERY_DOCUMENT_KEY_CHARS < py_len (str_of step) then Some StepTooLong
      else if \<not> is_obj document then Some DocumentNotObject
      else preflight_loop (MAX_DELIVERY_DOCUMENT_ITEMS - 1) [(document, 1)])"

section \<open>The private copy and the validated receipt\<close>

fun plain_copy :: "json \<Rightarrow> json" where
  "plain_copy (JObj kvs) = JObj (map (\<lambda>kv. (fst kv, plain_copy (snd kv))) kvs)"
| "plain_copy (JList vs) = JList (map plain_copy vs)"
| "plain_copy v = v"

record validated_receipt =
  vr_receipt_id :: json
  vr_receipt_digest :: json
  vr_delivery_id :: json
  vr_step :: step
  vr_receipt_state :: json
  vr_step_state :: json
  vr_parent_digest :: json
  vr_authorization_digest :: json
  vr_succeeded :: bool
  vr_record :: json

definition validated_receipt_of :: "host \<Rightarrow> json \<Rightarrow> step \<Rightarrow> exn + validated_receipt option" where
  "validated_receipt_of h document s =
     (let r = plain_copy document;
          entry = jget (step_str s) (jget ''steps'' r); receipt = jget ''receipt'' entry in
      guard_check (validate_authorization h r)
        (if receipt = JNull then Inr None
         else guard_check
           (validate_receipt h receipt s (jget ''delivery_id'' r) (jget ''authority_digest_sha256'' r))
           (Inr (Some
             \<lparr>vr_receipt_id = jget ''receipt_id'' receipt,
              vr_receipt_digest = jget ''receipt_digest_sha256'' receipt,
              vr_delivery_id = jget ''delivery_id'' r, vr_step = s,
              vr_receipt_state = jget ''state'' receipt, vr_step_state = jget ''state'' entry,
              vr_parent_digest = jget ''authority_digest_sha256'' r,
              vr_authorization_digest = jget ''mission_authorization_digest_sha256'' (jget ''mission'' r),
              vr_succeeded = (jget ''state'' receipt = JStr (receipt_state_str RECEIPT_SUCCEEDED)
                              \<and> jget ''state'' entry = JStr (step_state_str STEP_SUCCEEDED)),
              vr_record = r\<rparr>))))"

definition validated_attestation :: "host \<Rightarrow> json \<Rightarrow> exn + json \<times> json" where
  "validated_attestation h document =
     (let r = plain_copy document; human = jget ''human_authorization'' r in
      guard_check (validate_authorization h r)
        (Inr (jget ''delivery_id'' r,
              if jhas ''attestation'' human
              then jget ''proposal_digest_sha256'' (jget ''attestation'' human) else JNull)))"

section \<open>The parent and the attestation\<close>

record parent_check =
  pk_valid :: bool
  pk_problem :: json
  pk_authorization_id :: json
  pk_mission_id :: json
  pk_revision :: json

record 's mission_core =
  mc_check_parent :: "json \<Rightarrow> json \<Rightarrow> str \<Rightarrow> ('s, parent_check) act"
  mc_attest :: "json \<Rightarrow> json \<Rightarrow> json \<Rightarrow> json \<Rightarrow> json \<Rightarrow> ('s, json) act"

definition DELIVERY_TARGET_GITHUB_PR :: str where "DELIVERY_TARGET_GITHUB_PR = ''github_pr''"

definition parent_mission_authority :: "'s mission_core \<Rightarrow> json \<Rightarrow> ('s, parent_check) act" where
  "parent_mission_authority core document =
     (let mission = jget ''mission'' document in
      if \<not> is_obj mission
      then ret \<lparr>pk_valid = False, pk_problem = JStr ''pr_delivery_mission_parent_absent'',
                pk_authorization_id = JNull, pk_mission_id = JNull, pk_revision = JNull\<rparr>
      else mc_check_parent core (jget ''workflow_id'' mission)
             (jget ''mission_authorization_digest_sha256'' mission) DELIVERY_TARGET_GITHUB_PR)"

datatype attestation_result =
    DocumentUnbounded preflight_problem | StepUnknown | ReceiptAbsent
  | ParentInvalid validated_receipt parent_check
  | Attested validated_receipt parent_check json

definition attestation_payload :: "validated_receipt \<Rightarrow> json" where
  "attestation_payload v = JObj
     [(''receipt_id'', vr_receipt_id v), (''receipt_digest_sha256'', vr_receipt_digest v),
      (''delivery_id'', vr_delivery_id v), (''step'', JStr (step_str (vr_step v))),
      (''receipt_state'', vr_receipt_state v), (''step_state'', vr_step_state v),
      (''parent_authority_digest_sha256'', vr_parent_digest v),
      (''authorization_digest_sha256'', vr_authorization_digest v)]"

definition attest_validated_receipt ::
  "host \<Rightarrow> 's mission_core \<Rightarrow> json \<Rightarrow> json \<Rightarrow> json \<Rightarrow> json \<Rightarrow> json \<Rightarrow> ('s, attestation_result) act" where
  "attest_validated_receipt h core document step operation_id expected_sequence ctxt =
     (case preflight_problem_of document step of
        Some p \<Rightarrow> ret (DocumentUnbounded p)
      | None \<Rightarrow>
          if str_of step \<notin> set (map step_str STEPS) then ret StepUnknown
          else bnd (of_result (validated_receipt_of h document (step_of_str (str_of step))))
            (\<lambda>validated. case validated of
               None \<Rightarrow> ret ReceiptAbsent
             | Some v \<Rightarrow>
                 bnd (parent_mission_authority core (vr_record v))
                   (\<lambda>parent. if \<not> pk_valid parent then ret (ParentInvalid v parent)
                      else bnd (mc_attest core (pk_mission_id parent) operation_id expected_sequence
                                  (attestation_payload v) ctxt)
                        (\<lambda>outcome. ret (Attested v parent outcome)))))"

section \<open>Lemmas\<close>

lemma plain_copy_id [simp]: "plain_copy v = v"
  by (induction v rule: plain_copy.induct) (simp_all add: map_idI)

lemma validated_receipt_Some:
  assumes "validated_receipt_of h document s = Inr (Some v)"
  shows "validate_authorization h document = None"
    and "validate_receipt h (jget ''receipt'' (jget (step_str s) (jget ''steps'' document))) s
           (jget ''delivery_id'' document) (jget ''authority_digest_sha256'' document) = None"
    and "vr_record v = document" "vr_step v = s" "vr_delivery_id v = jget ''delivery_id'' document"
    and "vr_parent_digest v = jget ''authority_digest_sha256'' document"
  using assms
  by (auto simp: validated_receipt_of_def Let_def guard_check_Inr_iff split: if_splits)

text \<open>The recursive statement of the bounds: every container shallow enough, every key, string
  and integer small enough; and the number of items of all containers together.\<close>

fun bounded_at :: "nat \<Rightarrow> json \<Rightarrow> bool" where
  "bounded_at depth (JObj kvs) \<longleftrightarrow>
     depth \<le> MAX_DELIVERY_DOCUMENT_DEPTH \<and> keys_ok (JObj kvs)
     \<and> list_all (\<lambda>kv. bounded_at (Suc depth) (snd kv)) kvs"
| "bounded_at depth (JList vs) \<longleftrightarrow>
     depth \<le> MAX_DELIVERY_DOCUMENT_DEPTH \<and> list_all (bounded_at (Suc depth)) vs"
| "bounded_at depth v \<longleftrightarrow> scalar_problem v = None"

fun item_count :: "json \<Rightarrow> nat" where
  "item_count (JObj kvs) = length kvs + sum_list (map (\<lambda>kv. item_count (snd kv)) kvs)"
| "item_count (JList vs) = length vs + sum_list (map item_count vs)"
| "item_count _ = 0"

lemma container_cases:
  "is_container v \<Longrightarrow> scalar_problem v = None"
  "\<not> is_container v \<Longrightarrow> bounded_at n v = (scalar_problem v = None)"
  "\<not> is_container v \<Longrightarrow> item_count v = 0"
  by (cases v; simp add: is_container_def scalar_problem_def)+

lemma bounded_container:
  "is_container v \<Longrightarrow> bounded_at n v \<longleftrightarrow>
     n \<le> MAX_DELIVERY_DOCUMENT_DEPTH \<and> keys_ok v \<and> list_all (bounded_at (Suc n)) (children_of v)"
  by (cases v) (simp_all add: is_container_def children_of_def list_all_iff keys_ok_def jkeys_def)

lemma count_container:
  "is_container v \<Longrightarrow> item_count v = length (children_of v) + sum_list (map item_count (children_of v))"
  by (cases v) (simp_all add: is_container_def children_of_def comp_def)

lemma count_children: "sum_list (map item_count (filter is_container vs)) = sum_list (map item_count vs)"
  by (induction vs) (simp_all add: container_cases)

lemma bounded_children:
  "list_all (bounded_at n) vs \<longleftrightarrow>
     first_some scalar_problem vs = None \<and> list_all (bounded_at n) (filter is_container vs)"
proof -
  have "bounded_at n v \<longleftrightarrow> scalar_problem v = None \<and> (is_container v \<longrightarrow> bounded_at n v)" for v
    by (cases "is_container v") (simp_all add: container_cases)
  then show ?thesis by (auto simp: list_all_iff first_some_None_iff)
qed

text \<open>The budgeted stack decides exactly those bounds.\<close>

lemma preflight_loop_iff:
  "list_all (\<lambda>p. is_container (fst p)) pending \<Longrightarrow>
   preflight_loop remaining pending = None \<longleftrightarrow>
     list_all (\<lambda>p. bounded_at (snd p) (fst p)) pending
     \<and> sum_list (map (\<lambda>p. item_count (fst p)) pending) \<le> remaining"
proof (induction remaining pending rule: preflight_loop.induct)
  case (2 remaining container depth pending)
  let ?cs = "filter is_container (children_of container)"
  let ?new = "rev (map (\<lambda>v. (v, Suc depth)) ?cs)"
  have cont: "is_container container" using 2 by simp
  have all: "list_all (\<lambda>p. is_container (fst p)) (?new @ pending)"
    using 2(2) by (auto simp: list_all_iff)
  have new: "list_all (\<lambda>p. bounded_at (snd p) (fst p)) ?new \<longleftrightarrow> list_all (bounded_at (Suc depth)) ?cs"
    by (simp add: list_all_iff)
  have count: "sum_list (map (\<lambda>p. item_count (fst p)) ?new) = sum_list (map item_count (children_of container))"
    using count_children [of "children_of container"] by (simp add: rev_map [symmetric] comp_def sum_list_rev)
  show ?case
    using 2(1) [OF refl refl _ _ _ _ all] new count cont
    by (auto simp: Let_def bounded_container count_container bounded_children [of _ "children_of container"]
        simp del: list_all_append split: option.splits)
       (auto simp: list_all_append)
qed simp

lemma preflight_accepts_iff:
  "preflight_problem_of document (JStr step) = None \<longleftrightarrow>
     py_len step \<le> MAX_DELIVERY_DOCUMENT_KEY_CHARS \<and> is_obj document
     \<and> bounded_at 1 document \<and> item_count document < MAX_DELIVERY_DOCUMENT_ITEMS"
proof -
  have "preflight_loop (MAX_DELIVERY_DOCUMENT_ITEMS - 1) [(document, 1)] = None \<longleftrightarrow>
      bounded_at 1 document \<and> item_count document \<le> MAX_DELIVERY_DOCUMENT_ITEMS - 1"
    if "is_obj document"
    using that by (subst preflight_loop_iff) (simp_all add: is_container_def)
  then show ?thesis
    by (auto simp: preflight_problem_of_def MAX_DELIVERY_DOCUMENT_ITEMS_def)
qed

text \<open>The bounds hold for every value below one for which they hold.\<close>

lemma bounded_jget: "bounded_at n v \<Longrightarrow> bounded_at (Suc n) (jget k v)"
  by (cases v) (auto simp: jget_def scalar_problem_def list_all_iff split: option.splits dest!: map_of_SomeD)

end
