(* ===== verification/MissionCore.thy ===== *)
theory MissionCore
  imports MissionSamples MissionParent MachineSamples
begin

text \<open>
  The delivery and the mission core together: the two operations that \<open>pr_delivery/mission_parent.py\<close>
  calls are those of the mission service, so a receipt that is attested to a Mission rests on a
  human approval recorded in the Mission store.
\<close>

section \<open>The service as the core\<close>

definition parent_check_of :: "authority_check \<Rightarrow> parent_check" where
  "parent_check_of c =
     (let a = (case ac_authorization c of None \<Rightarrow> JNull | Some a \<Rightarrow> a) in
      \<lparr>pk_valid = ac_valid c, pk_problem = (case ac_problem c of None \<Rightarrow> JNull | Some p \<Rightarrow> JStr p),
       pk_authorization_id = jget ''authorization_id'' a, pk_mission_id = jget ''mission_id'' a,
       pk_revision = jget ''revision'' a\<rparr>)"

definition service_core ::
  "'w menv \<Rightarrow> (json \<Rightarrow> json \<Rightarrow> json \<Rightarrow> json \<Rightarrow> json \<Rightarrow> ('w msys, json) act) \<Rightarrow> 'w msys mission_core" where
  "service_core env record_attestation =
     \<lparr>mc_check_parent = (\<lambda>mission_id digest target.
        bnd (check_parent_authority env mission_id digest (JStr target)) (\<lambda>c. ret (parent_check_of c))),
      mc_attest = record_attestation\<rparr>"

lemma load_for_validation_Inr:
  assumes "load_for_validation env body s = (Inr c, t)"
  obtains (unreadable) "c = refusal PROBLEM_STORE_UNREADABLE None"
    | (loaded) d where "holds_document env d s" "body d s = (Inr c, t)"
  using assms unfolding load_for_validation_def
  by (cases "mission_load (me_host env) (me_state_check env) (m_file s)")
    (auto simp: load_run holds_document_def split: option.splits exn.splits)

text \<open>A parent check that passes: the human approval behind it.\<close>

definition approved_parent :: "json \<Rightarrow> json \<Rightarrow> json \<Rightarrow> json \<Rightarrow> bool" where
  "approved_parent d mission_id digest target \<longleftrightarrow>
     (\<exists>i. let m = mission_at d mission_id; decision = last (mission_decisions m); a = authorization_at d i in
        mission_decisions m \<noteq> [] \<and> approves d m decision i (jint ''current_revision'' m)
        \<and> target \<in> set (jlist ''approved_delivery_targets'' decision)
        \<and> jget ''authorization_digest_sha256'' a = digest
        \<and> jget ''mission_id'' a = mission_id
        \<and> in_states (jget ''state'' m) [STATE_AUTHORIZED, STATE_RUNNING, STATE_COMPLETED])"

lemma find_by_digest:
  assumes "find_authorization_by_digest d digest = Some a" "distinct (map fst (members ''authorizations'' d))"
    and "validate_mission_document h sc d = None"
  shows "jget ''authorization_digest_sha256'' a = digest" "authorization_at d (str_of (jget ''authorization_id'' a)) = a"
    "is_str (jget ''authorization_id'' a)"
proof -
  from assms(1) have a: "a \<in> set (map snd (members ''authorizations'' d))" "jget ''authorization_digest_sha256'' a = digest"
    by (auto simp: find_authorization_by_digest_def find_Some_iff split: if_splits)
  then show "jget ''authorization_digest_sha256'' a = digest" by simp
  from a(1) obtain k where k: "(k, a) \<in> set (members ''authorizations'' d)" by auto
  with document_valid(4) [OF assms(3)] have id: "jget ''authorization_id'' a = JStr k"
    by (fastforce simp: validate_stored_authorization_def Let_def checks_simps)
  then show "is_str (jget ''authorization_id'' a)" by simp
  have "map_of (members ''authorizations'' d) k = Some a" using k assms(2) by simp
  then show "authorization_at d (str_of (jget ''authorization_id'' a)) = a"
    using id by (simp add: authorization_at_def jget_def [of k] members_def)
qed

lemma parent_authority_approved:
  assumes "check_parent_authority env mission_id digest target s = (Inr c, t)" "ac_valid c"
    and "holds_document env d s" "distinct (map fst (members ''authorizations'' d))"
  shows "approved_parent d mission_id digest target"
proof -
  have target: "target \<in> set (map JStr DELIVERY_TARGETS)"
    using assms(1,2) by (auto simp: check_parent_authority_def refusal_def split: if_splits)
  have valid: "validate_mission_document (me_host env) (me_state_check env) d = None"
    using assms(3) ms.load_valid by (simp add: holds_document_def)
  from assms(1) target have "load_for_validation env (\<lambda>document.
        case find_authorization_by_digest document digest of
          None \<Rightarrow> ret (refusal PROBLEM_UNKNOWN_AUTHORIZATION None)
        | Some authorization \<Rightarrow>
            if jget ''mission_id'' authorization \<noteq> mission_id then ret (refusal PROBLEM_WRONG_MISSION (Some authorization))
            else bnd (mission_now env) (\<lambda>now. ret
              (validate_delivery_parent_use (me_host env) document (jget ''authorization_id'' authorization) mission_id
                 (jget ''revision'' authorization) now target))) s = (Inr c, t)"
    by (simp add: check_parent_authority_def)
  then show ?thesis
  proof (cases rule: load_for_validation_Inr)
    case unreadable
    with assms(2) show ?thesis by (simp add: refusal_def)
  next
    case (loaded d')
    with assms(3) have "d' = d" by (simp add: holds_document_def)
    with loaded(2) assms(2) obtain a now where a: "find_authorization_by_digest d digest = Some a"
      "jget ''mission_id'' a = mission_id"
      and c: "validate_delivery_parent_use (me_host env) d (jget ''authorization_id'' a) mission_id
         (jget ''revision'' a) now target = c"
      by (auto simp: refusal_def bnd_Inr split: option.splits if_splits)
    note found = find_by_digest [OF a(1) assms(4) valid]
    have "target \<noteq> JNull" using target by auto
    note rests = parent_use_rests_on_approval [OF c assms(2) this]
    show ?thesis unfolding approved_parent_def Let_def
      using rests found a(2) by (intro exI [of _ "str_of (jget ''authorization_id'' a)"]) simp
  qed
qed

lemma attested_on_approval:
  assumes "attest_validated_receipt h (service_core env record_attestation) document step operation sequence ctxt s
      = (Inr (Attested v p outcome), t)"
    and "holds_document env d s" "distinct (map fst (members ''authorizations'' d))"
  shows "validate_authorization h document = None" "is_obj (jget ''mission'' document)"
    "approved_parent d (jget ''workflow_id'' (jget ''mission'' document))
       (jget ''mission_authorization_digest_sha256'' (jget ''mission'' document)) (JStr DELIVERY_TARGET_GITHUB_PR)"
proof -
  from assms(1) obtain u where u: "validated_receipt_of h document (step_of_str (str_of step)) = Inr (Some v)"
      "parent_mission_authority (service_core env record_attestation) (vr_record v) s = (Inr p, u)" "pk_valid p"
    by (auto simp: attest_validated_receipt_def bnd_Inr split: option.splits if_splits)
  have v: "vr_record v = document" "validate_authorization h document = None"
    using validated_receipt_Some [OF u(1)] by simp_all
  then show "validate_authorization h document = None" by simp
  show obj: "is_obj (jget ''mission'' document)"
    using u(2,3) v by (auto simp: parent_mission_authority_def Let_def split: if_splits)
  obtain c where c: "check_parent_authority env (jget ''workflow_id'' (jget ''mission'' document))
       (jget ''mission_authorization_digest_sha256'' (jget ''mission'' document)) (JStr DELIVERY_TARGET_GITHUB_PR) s = (Inr c, u)"
    "p = parent_check_of c"
    using u(2) v obj by (auto simp: parent_mission_authority_def Let_def service_core_def bnd_Inr)
  show "approved_parent d (jget ''workflow_id'' (jget ''mission'' document))
       (jget ''mission_authorization_digest_sha256'' (jget ''mission'' document)) (JStr DELIVERY_TARGET_GITHUB_PR)"
    by (rule parent_authority_approved [OF c(1) _ assms(2,3)]) (use u(3) c(2) in \<open>simp add: parent_check_of_def Let_def\<close>)
qed

section \<open>A delivery under a Mission\<close>

definition missioned_delivery :: delivery where
  "missioned_delivery = committed_delivery
     \<lparr>d_authority := (sample_authority PR_UPDATE)
        \<lparr>a_mission := Some \<lparr>mp_workflow_id = str_of sample_mission_id, mp_digest = hex64\<rparr>\<rparr>\<rparr>"

lemma missioned_delivery_valid: "validate_authorization sample_host (delivery_json missioned_delivery) = None"
proof -
  let ?m = "\<lparr>mp_workflow_id = str_of sample_mission_id, mp_digest = hex64\<rparr>"
  let ?d = missioned_delivery and ?a = "sample_authority PR_UPDATE"
  let ?e = "(sample_delivery PR_UPDATE)\<lparr>d_authority := ?a\<lparr>a_mission := Some ?m\<rparr>\<rparr>"
  have a: "d_authority ?d = ?a\<lparr>a_mission := Some ?m\<rparr>" by (simp add: missioned_delivery_def)
  have s: "d_steps ?d = d_steps committed_delivery" "d_authority_digest ?d = d_authority_digest committed_delivery"
    "d_phase ?d = d_phase committed_delivery" "d_blocker ?d = d_blocker committed_delivery"
    "d_pull_request ?d = d_pull_request committed_delivery" "d_updated_at ?d = d_updated_at committed_delivery"
    "d_base_state ?d = d_base_state committed_delivery" "d_revocation ?d = d_revocation committed_delivery"
    "d_authority committed_delivery = ?a" "d_authority_digest committed_delivery = hex64"
    by (simp_all add: missioned_delivery_def committed_delivery_def sample_values)
  have mission: "validate_mission (mission_parent_json ?m) = None" by code_simp
  have keys: "require_closed_keys (delivery_json ?e) (top_level_keys (JStr (mode_str PR_UPDATE))) = None" by code_simp
  have "finite_json (delivery_json ?e)" by code_simp
  then have digest: "authority_digest sample_host (delivery_json ?e) = Inr hex64"
    unfolding authority_digest_def by (intro sample_json_digest finite_sub_object)
  have same: "workflow_identity_json (?a\<lparr>a_mission := x\<rparr>) = workflow_identity_json ?a" for x
    by (simp add: workflow_identity_json_def)
  have "validate_authority_half sample_host (delivery_json ?e) PR_UPDATE = None"
    unfolding validate_authority_half_def checks_None_iff
    using keys sample_rest
    by (simp add: delivery_get same mission sample_values opt_json_def sample_pieces sample_candidate
        sample_human digest sample_checks)
  then have authority: "validate_authority_half sample_host (delivery_json ?d) PR_UPDATE = None"
    using authority_half_cong [of ?d ?e sample_host PR_UPDATE] a s by (simp add: sample_values)
  have "validate_state_half sample_host (delivery_json committed_delivery) PR_UPDATE = None"
    using sample_deliveries_valid(2) valid_delivery_iff [of sample_host committed_delivery] s by (simp add: sample_values)
  then have "validate_state_half sample_host (delivery_json ?d) PR_UPDATE = None"
    unfolding validate_state_half_def validate_pr_update_authority_def Let_def checks_None_iff
    by (simp add: delivery_get a s sample_values opt_json_def)
  with authority show ?thesis by (simp add: valid_delivery_iff a sample_values)
qed

text \<open>Far below the bounds of the preflight.\<close>

fun small :: "nat \<Rightarrow> json \<Rightarrow> bool" where
  "small n (JObj kvs) \<longleftrightarrow> n \<le> 8 \<and> list_all (\<lambda>kv. length (fst kv) \<le> 64 \<and> small (Suc n) (snd kv)) kvs"
| "small n (JList vs) \<longleftrightarrow> n \<le> 8 \<and> list_all (small (Suc n)) vs"
| "small n (JStr s) \<longleftrightarrow> length s \<le> 128"
| "small n (JNum (PInt i)) \<longleftrightarrow> \<bar>i\<bar> < 1024"
| "small n _ \<longleftrightarrow> True"

lemma small_bounded: "small n v \<Longrightarrow> bounded_at n v"
proof (induction n v rule: small.induct)
  case (1 n kvs)
  have "py_len k \<le> 128" if "length k \<le> 64" for k using py_len_le [of k] that by linarith
  with 1 show ?case
    by (auto simp: list_all_iff MAX_DELIVERY_DOCUMENT_DEPTH_def keys_ok_def jkeys_def MAX_DELIVERY_DOCUMENT_KEY_CHARS_def)
next
  case (3 n s)
  then have "py_len s \<le> 128" using py_len_le [of s] by simp
  then show ?case by (simp add: scalar_problem_def MAX_DELIVERY_DOCUMENT_STR_CHARS_def)
next
  case (4 n i)
  then have "\<not> too_wide i" by (simp add: too_wide_def MAX_DELIVERY_DOCUMENT_INT_BITS_def)
  then show ?case by (simp add: scalar_problem_def)
qed (auto simp: list_all_iff MAX_DELIVERY_DOCUMENT_DEPTH_def scalar_problem_def)

lemma missioned_small: "small 1 (delivery_json missioned_delivery)" "item_count (delivery_json missioned_delivery) \<le> 250"
  unfolding missioned_delivery_def committed_delivery_def succeeded_entry_def sample_receipt_def binding_explicit
  by code_simp+

lemma missioned_preflight: "preflight_problem_of (delivery_json missioned_delivery) (JStr ''COMMIT'') = None"
  using missioned_small small_bounded [of 1 "delivery_json missioned_delivery"]
  by (simp add: preflight_accepts_iff delivery_json_def MAX_DELIVERY_DOCUMENT_KEY_CHARS_def
      MAX_DELIVERY_DOCUMENT_ITEMS_def)

lemma missioned_parent:
  "check_parent_authority (sample_menv 50 c) sample_mission_id (JStr hex64) (JStr ''github_pr'') (sample_msys approved_store)
   = (Inr (permitted (sample_authorization unrevoked)), sample_msys approved_store)"
proof -
  have "find_authorization_by_digest approved_store (JStr hex64) = Some (sample_authorization unrevoked)"
    by code_simp
  moreover have "mission_load sample_host (\<lambda>_ _. None) (File 384 (Some approved_store)) = Inr approved_store"
    using mission_stored(1) [OF sample_stores_valid(2)] by (simp add: stores_def)
  moreover have "validate_delivery_parent_use sample_host approved_store sample_authorization_id sample_mission_id (JInt 1)
      (JInt 50) (JStr ''github_pr'') = permitted (sample_authorization unrevoked)"
    using sample_use [of "JList []"] by (simp add: validate_delivery_parent_use_def Let_def permitted_def)
  ultimately show ?thesis
    by (simp add: check_parent_authority_def load_for_validation_def load_run sample_directory DELIVERY_TARGETS_def
        sample_authorization_members bnd_Inr sample_clock)
qed

lemma missioned_attested:
  "\<exists>v p. attest_validated_receipt sample_host (service_core (sample_menv 50 c) (\<lambda>_ _ _ _ _. ret JNull))
     (delivery_json missioned_delivery) (JStr ''COMMIT'') operation sequence ctxt (sample_msys approved_store)
   = (Inr (Attested v p JNull), sample_msys approved_store)"
proof -
  have mission: "jget ''mission'' (delivery_json missioned_delivery) = JObj
      [(''workflow_id'', sample_mission_id), (''mission_authorization_digest_sha256'', JStr hex64)]"
    by (simp add: delivery_get missioned_delivery_def opt_json_def mission_parent_json_def str_of_ident)
  have "jget ''receipt'' (jget ''COMMIT'' (jget ''steps'' (delivery_json missioned_delivery)))
      = receipt_json (the (se_receipt succeeded_entry))"
    by (simp add: delivery_get missioned_delivery_def committed_delivery_def update_entries_def step_entry_json_def
        succeeded_entry_def opt_json_def STEPS_def)
  moreover have "validate_receipt sample_host (receipt_json (the (se_receipt succeeded_entry))) COMMIT
      (jget ''delivery_id'' (delivery_json missioned_delivery))
      (jget ''authority_digest_sha256'' (delivery_json missioned_delivery)) = None"
    using sample_receipt_valid [of "''0''" 50 "Some [(''commit_oid'', JStr (oid_of (CHR ''4'')))]" RECEIPT_SUCCEEDED] sample_ids
    by (simp add: succeeded_entry_def delivery_get missioned_delivery_def committed_delivery_def sample_values)
  ultimately obtain v where v: "validated_receipt_of sample_host (delivery_json missioned_delivery) COMMIT = Inr (Some v)"
    using missioned_delivery_valid by (simp add: validated_receipt_of_def Let_def guard_check_Inr_iff receipt_json_def)
  have same: "vr_record v = delivery_json missioned_delivery" using validated_receipt_Some(3) [OF v] .
  have step: "step_of_str ''COMMIT'' = COMMIT" "''COMMIT'' \<in> set (map step_str STEPS)" by code_simp+
  let ?core = "service_core (sample_menv 50 c) (\<lambda>_ _ _ _ _. ret JNull)"
  let ?p = "parent_check_of (permitted (sample_authorization unrevoked))"
  have "parent_mission_authority ?core (vr_record v) (sample_msys approved_store) = (Inr ?p, sample_msys approved_store)"
    using missioned_parent [of c]
    by (simp add: same mission parent_mission_authority_def Let_def service_core_def DELIVERY_TARGET_GITHUB_PR_def run_simps)
  moreover have "pk_valid ?p" by (simp add: parent_check_of_def Let_def permitted_def)
  moreover have "mc_attest ?core i j k l m = ret JNull" for i j k l m by (simp add: service_core_def)
  ultimately have "attest_validated_receipt sample_host ?core (delivery_json missioned_delivery) (JStr ''COMMIT'')
      operation sequence ctxt (sample_msys approved_store) = (Inr (Attested v ?p JNull), sample_msys approved_store)"
    using v step missioned_preflight by (simp add: attest_validated_receipt_def run_simps)
  then show ?thesis by blast
qed

text \<open>A valid record can fail the preflight: the validator sets no upper bound on the bytes of a log.\<close>

lemma wide_delivery_unbounded:
  "\<exists>d. validate_authorization sample_host (delivery_json d) = None
     \<and> preflight_problem_of (delivery_json d) (JStr ''COMMIT'') \<noteq> None"
proof (intro exI conjI)
  let ?v = "jget ''independent_verification'' (jget ''evidence'' (delivery_json wide_delivery))"
  have "jget ''log_bytes'' ?v = JInt (2 ^ 63)"
    by (simp add: delivery_get wide_delivery_def wide_evidence_def evidence_json_def verification_json_def)
  then have "\<not> bounded_at 4 (jget ''log_bytes'' ?v)"
    by (simp add: scalar_problem_def too_wide_def MAX_DELIVERY_DOCUMENT_INT_BITS_def)
  then have "\<not> bounded_at 1 (delivery_json wide_delivery)"
    using bounded_jget [of 3 ?v "''log_bytes''"] bounded_jget [of 2 _ "''independent_verification''"]
      bounded_jget [of 1 _ "''evidence''"] by (auto simp: eval_nat_numeral)
  then show "preflight_problem_of (delivery_json wide_delivery) (JStr ''COMMIT'') \<noteq> None"
    by (metis preflight_accepts_iff)
qed (rule wide_delivery_valid)

end
