(* ===== verification/MissionLiveness.thy ===== *)
theory MissionLiveness
  imports MissionHistory
begin

text \<open>
  A run whose child is never observed does not stay open: the reconcile attempts of a held run are
  counted in the record, and the attempt that reaches the bound stops the Mission.
\<close>

definition held_run :: "json \<Rightarrow> bool" where
  "held_run m \<longleftrightarrow> jget ''state'' m = JState STATE_AUTHORIZED \<and> has_intent m \<and> \<not> target_bound (jget ''run'' m)
     \<and> \<not> run_is_paused (jget ''run'' m)"

definition attempts_left :: "json \<Rightarrow> int" where
  "attempts_left m = MAX_RECONCILE_ATTEMPTS -
     (let previous = jget ''reconcile_unobserved'' (jget ''run'' m) in
      if previous = JNull then 0 else jint ''attempts'' previous)"

text \<open>Reconcile attempts that saw no task, one after another, at the given times.\<close>

fun unobserved_rounds :: "json \<Rightarrow> json list \<Rightarrow> json \<Rightarrow> exn + json" where
  "unobserved_rounds document [] m = Inr m"
| "unobserved_rounds document (t # ts) m =
     sbind (change_unobserved document m t) (\<lambda>(m', answer). unobserved_rounds document ts m')"

definition counted :: "json \<Rightarrow> json \<Rightarrow> json" where
  "counted m t = put_run (jput ''reconcile_unobserved''
     (JObj [(''attempts'', JInt (MAX_RECONCILE_ATTEMPTS - attempts_left m + 1)), (''last_attempted_at'', t)])
     (jget ''run'' m)) t m"

lemma counted_simps:
  assumes "held_run m"
  shows "held_run (counted m t)" "attempts_left (counted m t) = attempts_left m - 1" "run_intent (counted m t) = run_intent m"
    "jget ''state'' (counted m t) = JState STATE_AUTHORIZED" "jget ''lifecycle'' (counted m t) = jget ''lifecycle'' m"
  using assms
  by (simp_all add: counted_def held_run_def put_run_def jget_jput has_intent_def run_intent_def target_bound_def
      run_is_paused_def attempts_left_def)

lemma change_held:
  assumes "held_run m"
  shows "1 < attempts_left m \<Longrightarrow> \<exists>answer. change_unobserved document m t = Inr (counted m t, answer)"
    and "attempts_left m \<le> 1 \<Longrightarrow> \<exists>m' answer. change_unobserved document m t = Inr (m', answer)
       \<and> jget ''state'' m' = JState STATE_BLOCKED \<and> run_intent m' = run_intent m
       \<and> (\<exists>event. jlist ''lifecycle'' m' = jlist ''lifecycle'' m @ [event]
            \<and> jget ''reason'' event = JStr ''reconcile_not_observable'')"
proof -
  have guards: "refuse_paused m = None" "jget ''state'' m = JState STATE_AUTHORIZED" "has_intent m" "\<not> target_bound (jget ''run'' m)"
    using assms by (simp_all add: held_run_def refuse_paused_def)
  have same: "put_run (jput ''reconcile_unobserved'' (JObj [(''attempts'', JInt a), (''last_attempted_at'', t)]) (jget ''run'' m)) t m
      = counted m t" if "a = MAX_RECONCILE_ATTEMPTS - attempts_left m + 1" for a
    using that by (simp add: counted_def)
  show "1 < attempts_left m \<Longrightarrow> \<exists>answer. change_unobserved document m t = Inr (counted m t, answer)"
    using guards same by (auto simp: change_unobserved_def Let_def attempts_left_def guard_check_Inr_iff checks_simps)
  assume "attempts_left m \<le> 1"
  then have "change_unobserved document m t = with_transition (counted m t) STATE_BLOCKED ''reconcile_not_observable'' t
      (JObj [(''state'', JState STATE_BLOCKED), (''attempts'', JInt (MAX_RECONCILE_ATTEMPTS - attempts_left m + 1)),
             (''remaining'', JInt (attempts_left m - 1))])"
    using guards same by (simp add: change_unobserved_def Let_def attempts_left_def require_def diff_diff_eq)
  moreover have "validate_transition_m (JState STATE_AUTHORIZED) STATE_BLOCKED = None" by code_simp
  moreover have "list_ex (\<lambda>(a, b). JState STATE_AUTHORIZED = JState a \<and> b = STATE_BLOCKED) RUN_TRANSITIONS" by code_simp
  ultimately show "\<exists>m' answer. change_unobserved document m t = Inr (m', answer)
       \<and> jget ''state'' m' = JState STATE_BLOCKED \<and> run_intent m' = run_intent m
       \<and> (\<exists>event. jlist ''lifecycle'' m' = jlist ''lifecycle'' m @ [event]
            \<and> jget ''reason'' event = JStr ''reconcile_not_observable'')"
    using counted_simps [OF assms, of t]
    by (simp add: with_transition_def run_transition_def require_def jget_jput run_intent_def)
qed

lemma rounds_held:
  assumes "held_run m" "int (length ts) < attempts_left m"
  shows "\<exists>m'. unobserved_rounds document ts m = Inr m' \<and> held_run m'
    \<and> attempts_left m' = attempts_left m - int (length ts) \<and> run_intent m' = run_intent m
    \<and> jget ''lifecycle'' m' = jget ''lifecycle'' m"
  using assms
proof (induction ts arbitrary: m)
  case (Cons t ts)
  note facts = counted_simps [OF Cons.prems(1), of t]
  obtain answer where "change_unobserved document m t = Inr (counted m t, answer)"
    using change_held(1) [OF Cons.prems(1)] Cons.prems(2) by fastforce
  moreover have "int (length ts) < attempts_left (counted m t)" using Cons.prems(2) facts by simp
  ultimately show ?case using Cons.IH [of "counted m t"] facts by auto
qed simp

lemma rounds_append:
  "unobserved_rounds document (ts @ us) m = sbind (unobserved_rounds document ts m) (unobserved_rounds document us)"
  by (induction ts arbitrary: m) (auto simp: sbind_def split: sum.splits)

lemma rounds_stop:
  assumes "held_run m" "1 \<le> attempts_left m" "int (length ts) = attempts_left m"
  shows "\<exists>m'. unobserved_rounds document ts m = Inr m' \<and> jget ''state'' m' = JState STATE_BLOCKED
    \<and> run_intent m' = run_intent m
    \<and> (\<exists>event. jlist ''lifecycle'' m' = jlist ''lifecycle'' m @ [event]
         \<and> jget ''reason'' event = JStr ''reconcile_not_observable'')"
proof -
  obtain us u where ts: "ts = us @ [u]" using assms(2,3) by (cases ts rule: rev_cases) auto
  with assms obtain m1 where m1: "unobserved_rounds document us m = Inr m1" "held_run m1" "attempts_left m1 = 1"
    "run_intent m1 = run_intent m" "jget ''lifecycle'' m1 = jget ''lifecycle'' m"
    using rounds_held [OF assms(1), of us document] by auto
  with change_held(2) [OF m1(2), of document u] obtain m' answer event where
    "change_unobserved document m1 u = Inr (m', answer)" "jget ''state'' m' = JState STATE_BLOCKED"
    "run_intent m' = run_intent m1" "jlist ''lifecycle'' m' = jlist ''lifecycle'' m1 @ [event]"
    "jget ''reason'' event = JStr ''reconcile_not_observable''"
    by auto
  with m1 show ?thesis by (simp add: ts rounds_append)
qed

end
