(* ===== verification/Spec2Isabelle.thy ===== *)
theory Spec2Isabelle
  imports SampleCeremony StoreFacts Boundary MissionCore MissionLiveness
begin

text \<open>
  A verification development of the core of Dodging Infinity. \<open>src/pr_delivery/\<close> carries one
  approved change set to a commit, a push and a pull request under an authorization that a human
  gave; \<open>src/mission/\<close> keeps the Missions, the human decisions about them, the authorizations these
  issue and the record of the run. Both rest on parts of \<open>src/workflow_authority/\<close>.

  \<^bold>\<open>The delivery.\<close> A delivery record has an authority half (what was approved: repository, remote,
  branches, baseline, candidate, evidence, expiration, allowed actions) sealed by a digest, and a
  state half (phase, four steps with their receipts, base state, revocation, blocker, pull
  request). \<open>authorization.py\<close> validates records, receipts and phase transitions; \<open>store.py\<close>
  keeps the records in one protected file; \<open>receipts.py\<close> derives the one-shot receipt of a step
  and decides for the git hooks; \<open>machine.py\<close> drives a record through its phases, each effect
  under a receipt that is on disk; \<open>transport.py\<close> is the closed set of git and gh calls;
  \<open>candidate.py\<close> identifies and compares change sets; \<open>pr_text.py\<close> renders the texts;
  \<open>boundary.py\<close> projects the status; \<open>mission_parent.py\<close> attests a receipt to the mission core;
  \<open>cli.py\<close> holds the ceremonies by which a human authorizes a delivery.

  \<^bold>\<open>The Missions.\<close> One protected document holds the Missions, the authorizations, an append-only
  ledger and the reserved identifiers. \<open>record.py\<close> and \<open>decision.py\<close> are the values and their
  validators, \<open>manifest.py\<close> the Mission record, \<open>authorization.py\<close> the authorizations, the replay of
  a decision history and the one validation path for a use; \<open>store.py\<close> loads, checks and saves the
  document; \<open>service.py\<close> are the operations: reservations, proposals, human decisions, attested
  outcomes and the stages of a run. A delivery may name a parent Mission; \<open>mission_parent.py\<close> asks
  the service whether its authorization holds and records the receipt there.

  \<^bold>\<open>How the code is modelled.\<close> A Python string is its UTF-8 bytes as a \<open>char list\<close> (\<open>py_len\<close> counts
  characters, \<open>py_take\<close> is the slice); an integer is an \<open>int\<close>, a number of JSON an integer or a
  float with its infinities and NaN, whose sums are rounded to double precision; JSON values are the datatype \<open>json\<close>, objects association
  lists in insertion order. An exception is a value of \<open>exn\<close>, a validator a list of \<open>checks\<close> whose
  first failure is the result, a pure function that can raise returns \<open>exn + 'a\<close>. What acts on the
  world is an \<open>act\<close>, a function from a state to a result and a state, also where it raises, so
  writes made before an exception stay. The state of the machine is the stored file and a world
  of any type (\<open>sys\<close>), that of the Mission service its file, its directory and a world (\<open>msys\<close>).
  SHA-256, the text of a float and \<open>os.path.realpath\<close> are the fields of \<open>host\<close>; the
  clock, the receipt token and the transport are acts in \<open>env\<close> over file and world, so another
  process may act whenever the machine calls one of them; the clock and the source of identifiers
  of the service are acts in \<open>menv\<close>; a body under a store lock is one
  action. \<open>env\<close> also holds the wording of blocker details and \<open>repr\<close>, on which nothing decides.
  \<open>json.loads\<close>, the way a pipe cuts output into reads and the running of a child process are
  parameters of the transport. The delivery works on typed records and stores their JSON form; the
  Mission service works on the JSON document itself, as its code does.

  \<^bold>\<open>Theories, in the order of the code.\<close>
  \<^item> \<open>Prelude\<close>, \<open>Json\<close>, \<open>Effects\<close>, \<open>Utf8\<close>: Python and JSON themselves: strings, numbers, checks,
    actions with their Hoare triples (\<open>hoare\<close>, \<open>preserves\<close>), UTF-8 decoding and line splitting.
  \<^item> \<open>Digest\<close>, \<open>Canonical\<close>, \<open>Grammar\<close>: \<open>workflow_authority/digest.py\<close>, \<open>canonical.py\<close> and the
    reference and path grammar of \<open>record.py\<close>.
  \<^item> \<open>Candidate\<close>: \<open>candidate.py\<close>.  \<open>Tables\<close>, \<open>Validators\<close>, \<open>Authorization\<close>: the closed vocabularies
    and phase tables, the field validators, and the record validators of \<open>authorization.py\<close>.
  \<^item> \<open>Delivery\<close>: the typed record, one Isabelle record per closed key set, with its JSON form; the
    machine works on typed records and the store holds their JSON form. \<open>Lookup\<close> reads the fields.
  \<^item> \<open>Store\<close> (with \<open>StoreFacts\<close>): \<open>store.py\<close>.  \<open>Receipts\<close>: \<open>receipts.py\<close>.  \<open>PrText\<close>: \<open>pr_text.py\<close>.
    \<open>Transport\<close>: \<open>transport.py\<close>.
  \<^item> \<open>MachineBase\<close>, \<open>Machine\<close>: \<open>machine.py\<close>: persistence and outcome recording, then the four steps,
    their reconciliation after an interruption, the closing observation and the drive.
  \<^item> \<open>Boundary\<close>: \<open>boundary.py\<close>.  \<open>MissionParent\<close>: \<open>mission_parent.py\<close>.
  \<^item> \<open>LiveFacts\<close>, \<open>Ceremony\<close>: \<open>cli.py\<close>: the live reading of the repository and its comparison with a
    presented binding; gathering and display, the local terminal, the presentation, the relayed
    attestation and the minting. Files, terminal and user are the record \<open>desk\<close>, a command line
    that is split is \<open>CommandLine\<close> (\<open>shlex\<close>). \<open>CeremonyFacts\<close>, \<open>OneShot\<close>, \<open>Proposals\<close>, \<open>Attested\<close> hold
    the lemmas and the relation \<open>next_system\<close> of all that may happen to the store.
  \<^item> \<open>ValidFacts\<close>, \<open>MachineInvariants\<close>, \<open>MachineGuard\<close>, \<open>MachineProgress\<close>, \<open>MachineSteps\<close>: the
    lemmas about them.  \<open>Samples\<close>, \<open>MachineSamples\<close>, \<open>Scripted\<close>, \<open>SampleCeremony\<close>: concrete records, a concrete
    transport over a world of one bit (has the commit been made), and runs over them.
  \<^item> \<open>MissionRecord\<close>: \<open>mission/record.py\<close>: identifiers, vocabularies, state table, field validators,
    proof contract and proposal; \<open>Normalization\<close>: their normal form.  \<open>MissionDecision\<close>:
    \<open>mission/decision.py\<close>: caller contexts, provenance, envelope, digest and decision record.
  \<^item> \<open>MissionManifest\<close>: \<open>mission/manifest.py\<close>: the Mission record and its complete validator.
    \<open>MissionAuthorization\<close>: \<open>mission/authorization.py\<close>: authorizations, ledger, replay and the
    validation path; \<open>Replay\<close>: what a replay establishes.
  \<^item> \<open>DependencyGraph\<close>: the cycle search of \<open>mission/progress.py\<close>.  \<open>MissionStore\<close>:
    \<open>mission/store.py\<close>.  \<open>MissionService\<close>, \<open>MissionRun\<close>: \<open>mission/service.py\<close>: reservations,
    proposals, withdrawal, decisions and attested outcomes; then the stages of a run.
  \<^item> \<open>MissionRunFacts\<close>, \<open>MissionHistory\<close>, \<open>MissionGrowth\<close>, \<open>MissionTrace\<close>: each run stage as a sound
    change, the order of documents that only grow, that every operation respects it, and sequences
    of operations (\<open>service_steps\<close>).  \<open>MissionDecide\<close>, \<open>MissionPermit\<close>: what a decision does and
    permits.  \<open>MissionLiveness\<close>: the bound on reconcile attempts.  \<open>MissionSamples\<close>: one Mission
    proposed, approved and edited, and the run of its approval.
  \<^item> \<open>MissionCore\<close>: the service as the mission core of a delivery, and a delivery under that Mission.

  \<^bold>\<open>Interfaces.\<close> \<open>document_store\<close> (Store) states load after save and is interpreted for the delivery
  store and for the Mission store (\<open>ms\<close>), \<open>record_store\<close> (MachineInvariants)
  the lookup after a replacement, \<open>phase_table\<close> (Tables) a ranked transition table, for the two
  delivery tables and the run transitions (\<open>rt\<close>);
  \<open>record_invariant\<close> (MachineInvariants) states what an invariant of the working record and the
  file must satisfy for every operation of the machine to keep it, proves once that all of them
  then do, and is interpreted for the approved authority half (\<open>ir\<close>), for the history of the
  stored record (\<open>fr\<close>) and for the count of voided receipts (\<open>al\<close>).

  \<^bold>\<open>What is shown.\<close> C1 to C5 and C8 to C10 are about authority: effects only under a licence on
  disk, what a guard allows, what revocation stops and where it does not. C6 and C7 say what a
  successful round of an update has established. C11 to C15 are about human decisions: what an
  approval permits, that nothing else permits, that a dead authorization stays dead, that the
  history only grows and that a repeated decision is replayed; C16 to C18 about the run bound, the
  dependency search and the normal form; C19 composes the delivery with the Missions. C20 to C24
  are about receipts, the file and records, C25 to C29 about candidates and URLs, C30 to C32 about
  transport and texts, C33 to C36 about the boundary, revocation and the attestation, C37 to C40
  about the ceremonies. "Quiet"
  (\<open>quiet env\<close>) is the hypothesis that no call of the clock, token or transport writes the
  delivery file; C9 shows what happens without it. "Injected" (\<open>injected env\<close>) is the same for the
  clock and the identifiers of the Mission service, "steady" (\<open>steady env\<close>) that its clock answers
  with a timestamp.

  \<^bold>\<open>Bounds and fuel.\<close> \<open>advance\<close> repeats \<open>advance_once\<close> with fuel and is \<open>None\<close> when it runs out; C3 shows
  that 63 rounds are always enough: a round that reports progress raises the rank of the phase (at
  most six times) or voids a receipt of the base refresh (at most eight in a valid record). The
  draw of a fresh Mission identifier is bounded as in the code. The
  other loops are structural or have a termination proof (\<open>preflight_loop\<close>, the \<open>search\<close> of the
  dependency graph).

  \<^bold>\<open>Not modelled.\<close> the parsing of arguments and the JSON layout of \<open>cli.py\<close>, the wording of messages, file
  locking and atomic replacement (one action each), values of Python types that JSON does not
  have, surrogate code points in strings, and the bytes of a store file (\<open>json.load\<close>: the file
  holds the parsed value). Of the Missions: the Mission State records and their operations
  (\<open>state.py\<close>, \<open>state_service.py\<close>, the rest of \<open>progress.py\<close>): their validation is the parameter
  \<open>me_state_check\<close> of the store, the evaluation of a proof contract over them the parameter
  \<open>me_failures\<close> of the service; and the readers of the store (journal, observation,
  reconciliation). Of the rest of the repository, the workflow record and service, the
  coordination layer, the target runtime and the front ends.
\<close>

section \<open>The machine and its authority\<close>

text \<open>
  C1: effects happen only under a licence. Over a transport that refuses every commit, push
  and pull request creation unless the stored file holds, at that moment, a record that is not
  revoked, that selects this step in its phase, whose allowed actions contain it and whose
  entry for it is an executing receipt, the whole drive behaves exactly as over the unchecked
  transport: the check never fires, whatever the transport answers, as long as no other process
  writes the file.
\<close>

theorem effects_only_under_licence:
  assumes "quiet env"
  shows "advance (checked_env i env) n i s = advance env n i s"
proof -
  have "advance_once (checked_env i env) i None = advance_once env i None"
    using advance_once_checked [OF assms] by (rule ext)
  then show ?thesis by (simp add: advance_def)
qed

theorem effects_only_under_licence_witness:
  "advance (checked_env (record_id (sample_delivery PR_UPDATE)) (scripted (ret ''0''))) 63
     (record_id (sample_delivery PR_UPDATE)) (sample_sys (sample_delivery PR_UPDATE))
   = advance (scripted (ret ''0'')) 63 (record_id (sample_delivery PR_UPDATE)) (sample_sys (sample_delivery PR_UPDATE))
   \<and> advance_once (scripted (ret ''0'')) (record_id (sample_delivery PR_UPDATE)) None
       (sample_sys (sample_delivery PR_UPDATE))
     = (Inr OUTCOME_ADVANCED, \<lparr>disk = sample_file committed_delivery, world = True\<rparr>)"
  using effects_only_under_licence [OF sample_quiet(2)] sample_update_valid
  by (simp add: sample_advanced [where f = "sample_delivery PR_UPDATE"])

text \<open>
  C2: what was approved stays approved. However many rounds \<open>advance\<close> runs and however they
  end, the record on disk keeps its whole authority half and its authority digest, its phase has
  moved along the transition table of its kind only, and every other record of the file is
  untouched.
\<close>

theorem advance_keeps_the_approval:
  assumes "quiet env" "stored (e_host env) i (disk s) = Some d" "advance env n i s = Some (r, t)"
  shows "(\<exists>e. stored (e_host env) i (disk t) = Some e \<and> d_authority e = d_authority d
            \<and> d_authority_digest e = d_authority_digest d
            \<and> follows (a_mode (d_authority d)) (d_phase d) (d_phase e))
         \<and> (\<forall>j. j \<noteq> i \<longrightarrow> stored (e_host env) j (disk t) = stored (e_host env) j (disk s))"
  using advance_history [OF assms] by (auto simp: stored_history_def frozen_def)

theorem advance_keeps_the_approval_witness:
  "\<exists>e. stored sample_host (record_id (sample_delivery PR_UPDATE)) (sample_file retried_delivery) = Some e
     \<and> d_authority e = sample_authority PR_UPDATE \<and> d_authority_digest e = hex64
     \<and> follows PR_UPDATE AUTHORIZED (d_phase e)"
proof -
  let ?env = "sample_env (ret ''0'') failing_transport :: bool env"
  have run: "advance ?env 1 (record_id (sample_delivery PR_UPDATE)) (sample_sys (sample_delivery PR_UPDATE))
      = Some (Inr OUTCOME_RETRY, \<lparr>disk = sample_file retried_delivery, world = False\<rparr>)"
    by (simp add: advance_def sample_retried)
  have "stored (e_host ?env) (record_id (sample_delivery PR_UPDATE)) (disk (sample_sys (sample_delivery PR_UPDATE)))
      = Some (sample_delivery PR_UPDATE)"
    by (simp add: sample_sys_def sample_stored sample_update_valid)
  from advance_keeps_the_approval [OF sample_quiet(1) this run] show ?thesis
    by (auto simp: sample_values)
qed

text \<open>
  C3: the drive terminates. The loop of \<open>advance\<close> needs at most 63 rounds, for every record,
  every transport, every clock and every other process that writes the file: each round that
  reports progress has moved the stored record forward in its phase or has voided one more
  receipt of the base refresh, of which a record holds at most eight.
\<close>

theorem advance_terminates: "\<exists>r. advance env 63 i s = Some r"
  unfolding advance_def
proof (rule repeat_until_enough [where I = "\<lambda>_. True" and f = "progress_left env i"])
  fix s a t
  assume "advance_once env i None s = (Inr a, t)" "\<not> a \<noteq> OUTCOME_ADVANCED"
  then show "True \<and> progress_left env i t < progress_left env i s"
    by (auto simp: progress_left_def elim!: advance_once_advanced)
next
  show "progress_left env i s < 63"
    by (rule progress_left_bound)
qed simp

text \<open>
  C4: the decision of the git guard. A guard allows a step exactly when the protected file
  loads, one and only one of its records for this repository has an executing receipt for the
  step, and that record is live, not revoked, not expired, authorizes the step and binds every
  live fact of the step to the value the guard saw; for a commit of an update the proposed
  parents, where they are given, are exactly the approved head.
\<close>

theorem guard_allows_iff:
  "guard_decision h f repo (step_str s) live now = Inr i \<longleftrightarrow>
     (\<exists>document d r. store_load h f = Inr document
        \<and> executing_receipts_for document (os_realpath h repo) s = [(d, r)]
        \<and> rc_id r = i \<and> covers d r s live now
        \<and> \<not> (s = COMMIT \<and> a_mode (d_authority d) = PR_UPDATE \<and> PROPOSED_PARENTS_FACT \<in> fst ` set live
             \<and> jget PROPOSED_PARENTS_FACT (JObj live) \<noteq> JList [jget ''head_before'' (JObj (rc_binding r))]))"
  (is "?l \<longleftrightarrow> ?r")
proof
  assume ?l
  then show ?r by (rule guard_decision_unique) blast
next
  assume ?r
  then obtain document d r names where *: "store_load h f = Inr document"
    "executing_receipts_for document (os_realpath h repo) s = [(d, r)]" "LIVE_FACT_FIELDS s = Some names"
    "guard_live d r s names live now = Inr i"
    by (auto simp: covers_def guard_live_Inr binding_mismatches_Nil simp del: jget_obj split: option.splits)
  then show ?l by (simp add: guard_decision_def Let_def)
qed

text \<open>
  C5: a step starts only with its receipt on disk. When the start of a step returns, the
  stored record holds the executing receipt of that step, is not revoked, selects the step in its
  phase and authorizes it.
\<close>

theorem start_persists_the_receipt:
  assumes "quiet env" "start env st b s = (Inr x, t)"
  shows "\<exists>d r. stored (e_host env) (record_id (working s)) (disk (ssys t)) = Some d
           \<and> executing_receipt d st = Some r \<and> \<not> is_revoked d \<and> st \<in> set (a_allowed_actions (d_authority d))
           \<and> step_for_phase (a_mode (d_authority d)) (d_phase d) = Some st"
  using start_licensed [OF assms] by (auto simp: licensed_def split: option.splits)

theorem start_persists_the_receipt_witness:
  "\<exists>d r. stored sample_host (record_id (sample_delivery PR_UPDATE)) (sample_file executing_delivery) = Some d
     \<and> executing_receipt d COMMIT = Some r"
proof -
  let ?d = "sample_delivery PR_UPDATE"
  have "start (scripted (ret ''0'')) COMMIT sample_commit_binding (sample_st ?d ?d False)
      = (Inr (), sample_st executing_delivery executing_delivery False)"
    by (rule sample_started [of _ ?d _ _ ?d]) (simp_all add: sample_update_valid)
  from start_persists_the_receipt [OF sample_quiet(2) this] show ?thesis by auto
qed

section \<open>The steps\<close>





text \<open>
  C8: a revocation that is on disk when a round loads the record stops it before any effect: the
  round does the same with every transport, so it depends on no answer and causes no call's effect,
  and it reports REVOKED.
\<close>

theorem revoked_record_reaches_no_transport:
  assumes "stored (e_host env) i (disk s) = Some d" "is_revoked d" "d_phase d \<notin> set TERMINAL_PHASES"
  shows "advance_once (env\<lparr>e_transport := tr\<rparr>) i x s = advance_once env i x s
     \<and> (\<forall>r. fst (advance_once env i x s) = Inr r \<longrightarrow> r = OUTCOME_REVOKED)"
  using advance_once_revoked [OF assms] by (metis prod.collapse)

theorem revoked_record_reaches_no_transport_witness:
  "advance_once (scripted (ret ''0'')) (record_id marked_delivery) None (sample_sys marked_delivery)
     = advance_once (sample_env (ret ''0'') failing_transport) (record_id marked_delivery) None (sample_sys marked_delivery)"
proof -
  have "validate_authorization sample_host (delivery_json marked_delivery) = None"
    by (rule revoked_anywhere_valid)
  then have "stored (e_host (scripted (ret ''0''))) (record_id marked_delivery) (disk (sample_sys marked_delivery))
      = Some marked_delivery"
    by (simp add: sample_sys_def sample_stored)
  moreover have "is_revoked marked_delivery" "d_phase marked_delivery \<notin> set TERMINAL_PHASES"
    by (simp_all add: marked_delivery_def revoked_delivery_def is_revoked_def TERMINAL_PHASES_def)
  ultimately show ?thesis
    using revoked_record_reaches_no_transport [of "scripted (ret ''0'')" _ "sample_sys marked_delivery"
        marked_delivery failing_transport None]
    by (simp add: sample_env_def)
qed

text \<open>
  C9: a revocation that lands in the middle of a step is lost. Another process revokes the record
  while the machine draws the token of its COMMIT receipt; its call returns normally with the
  revoked record on disk, yet the same round commits, and the record it leaves on disk is not
  revoked: the machine writes its whole working copy over the revocation before it looks for one.
\<close>

theorem revocation_during_a_step_is_lost:
  "fst (revoking_token (sample_sys (sample_delivery PR_UPDATE))) = Inr ''0''
   \<and> map_option is_revoked (stored sample_host (record_id (sample_delivery PR_UPDATE))
        (disk (snd (revoking_token (sample_sys (sample_delivery PR_UPDATE)))))) = Some True
   \<and> (let (r, t) = advance_once (scripted revoking_token) (record_id (sample_delivery PR_UPDATE)) None
                     (sample_sys (sample_delivery PR_UPDATE)) in
      r = Inr OUTCOME_ADVANCED \<and> world t
      \<and> map_option is_revoked (stored sample_host (record_id (sample_delivery PR_UPDATE)) (disk t)) = Some False)"
proof -
  let ?d = "sample_delivery PR_UPDATE"
  have token: "revoking_token (sample_sys ?d) = (Inr ''0'', \<lparr>disk = sample_file revoked_delivery, world = False\<rparr>)"
    by (simp add: revoking_token_def run_simps sample_sys_def sample_revoked)
  have i: "record_id revoked_delivery = record_id ?d" "record_id committed_delivery = record_id ?d"
    by (simp_all add: record_id_def revoked_delivery_def committed_delivery_def)
  have "advance_once (scripted revoking_token) (record_id ?d) None (sample_sys ?d)
      = (Inr OUTCOME_ADVANCED, \<lparr>disk = sample_file committed_delivery, world = True\<rparr>)"
    by (rule sample_advanced [where f = revoked_delivery])
       (use token in \<open>simp_all add: sample_sys_def sample_deliveries_valid i\<close>)
  moreover have "is_revoked revoked_delivery" "\<not> is_revoked committed_delivery"
    by (simp_all add: is_revoked_def revoked_delivery_def committed_delivery_def sample_delivery_def)
  ultimately show ?thesis
    using sample_stored [OF sample_deliveries_valid(2)] sample_stored [OF sample_deliveries_valid(3)] token
    by (simp add: i)
qed

text \<open>
  C10: a caller that names the step it expects gets that step or nothing. Where the expectation
  is not an object with exactly the four keys, or one of the four values is not the one of the
  stored record, the call raises and neither the file nor the world has changed.
\<close>

theorem unexpected_step_is_refused:
  assumes "stored (e_host env) i (disk s) = Some d"
    and "\<not> (is_obj e \<and> set (jkeys e) = set EXPECTED_STEP_KEYS
            \<and> list_all (\<lambda>k. jget k e = actual_step_binding d k) EXPECTED_STEP_KEYS)"
  shows "advance_once env i (Some e) s = (Inl (MachineError PROBLEM_EXPECTED_STEP_REFUSED), s)"
proof -
  have "m_load (e_host env) i s = (Inr d, s)" using assms(1) by (simp add: m_load_Inr)
  moreover have "require_expected_step d e = Some (MachineError PROBLEM_EXPECTED_STEP_REFUSED)"
    using assms(2) by (auto simp: require_expected_step_def require_def)
  ultimately show ?thesis by (simp add: advance_once_def run_simps)
qed

theorem unexpected_step_is_refused_witness:
  "advance_once (scripted (ret ''0'')) (record_id (sample_delivery PR_UPDATE))
     (Some (JObj [(''delivery_id'', JStr (record_id (sample_delivery PR_UPDATE))), (''revision'', JInt 1),
                  (''candidate_identity_digest_sha256'', JStr hex64), (''step'', JStr ''PUSH'')]))
     (sample_sys (sample_delivery PR_UPDATE))
   = (Inl (MachineError PROBLEM_EXPECTED_STEP_REFUSED), sample_sys (sample_delivery PR_UPDATE))"
  by (rule unexpected_step_is_refused [where d = "sample_delivery PR_UPDATE"])
     (simp_all add: sample_sys_def sample_stored sample_update_valid EXPECTED_STEP_KEYS_def actual_step_binding_def
       sample_values Let_def opt_json_def)

section \<open>Missions\<close>

text \<open>
  C11: an approval permits exactly what it says. After a human decision that approves has been
  applied for the first time, the one validation path accepts the issued authorization, for the
  Mission and revision of the decision, at exactly the times before its deadline, for exactly the
  sets of actions within its action scope, for no or an approved delivery target, and for no or
  exactly the approved proposal digest.
\<close>

theorem approval_permits_exactly_itself:
  assumes "steady env" "apply_human_decision env e s = (Inr answer, t)" "is_approve e"
    and "jget ''idempotent'' answer = JBool False"
  shows "\<exists>d. holds_document env d t \<and>
     (\<forall>now actions target digest.
        ac_valid (validate_authorization_use (me_host env) d (jget ''authorization_id'' answer) (en_mission_id e)
            (en_revision e) (JInt now) (JList actions) target digest)
        \<longleftrightarrow> (en_expires_at e = JNull \<or> now < int_of_json (en_expires_at e))
          \<and> set actions \<subseteq> set (list_of (fst (normalized_scope e)))
          \<and> (target = JNull \<or> target \<in> set (list_of (snd (normalized_scope e))))
          \<and> (digest = JNull \<or> digest = jget ''proposal_digest_sha256'' answer))"
  using approval_permits [OF assms] by (simp add: exactly_permits_def)

theorem approval_permits_exactly_itself_witness:
  "\<exists>answer. jget ''idempotent'' answer = JBool False
    \<and> (\<forall>now. ac_valid (validate_authorization_use sample_host approved_store (jget ''authorization_id'' answer)
         sample_mission_id (JInt 1) (JInt now) sample_scope JNull JNull) \<longleftrightarrow> now < 1000)"
proof -
  obtain answer where run: "apply_human_decision (sample_menv 20 (CHR ''0'')) sample_approval (sample_msys proposed_store)
      = (Inr answer, sample_msys approved_store)" and fresh: "jget ''idempotent'' answer = JBool False"
    using sample_approved by blast
  have "normalized_scope sample_approval = (sample_scope, sample_targets)" "is_approve sample_approval"
    using approval_pure by simp_all
  moreover have "holds_document (sample_menv 20 (CHR ''0'')) d (sample_msys approved_store) \<longleftrightarrow> d = approved_store" for d
    using mission_stored(2) [OF sample_stores_valid(2), where t = 20 and c = "CHR ''0''"] by (auto simp: holds_document_def)
  ultimately show ?thesis
    using approval_permits_exactly_itself [OF sample_injected(2) run _ fresh] fresh
    by (auto simp: approval_members sample_scope_def intro!: exI [of _ answer])
qed

text \<open>
  C12: a dead authorization stays dead. When the store holds an authorization that is revoked or
  whose revision is behind the current one of its Mission, then after any sequence of operations of
  the service, by any callers, with any clock and source of identifiers that leave the store alone,
  and whatever else happens in the world, no call of the validation path accepts it again, for any
  use.
\<close>

theorem dead_authorization_stays_dead:
  assumes "service_steps h sc s cs t" "stores h sc s d" "stores h sc t d'"
    and "authorization_at d (str_of i) \<noteq> JNull"
    and "mission_at d (jget ''mission_id'' (authorization_at d (str_of i))) \<noteq> JNull"
    and "jget ''revoked'' (jget ''revocation'' (authorization_at d (str_of i))) = JBool True
      \<or> jint ''revision'' (authorization_at d (str_of i))
          < jint ''current_revision'' (mission_at d (jget ''mission_id'' (authorization_at d (str_of i))))"
  shows "\<not> ac_valid (validate_authorization_use h d' i mission_id revision now actions target digest)"
  using dead_forever [OF assms] .

theorem dead_authorization_stays_dead_witness:
  "let t = snd (perform (sample_menv 40 (CHR ''2'')) (ApplyHumanDecision sample_approval) (sample_msys edited_store)) in
   \<exists>d'. stores sample_host (\<lambda>_ _. None) t d'
     \<and> \<not> ac_valid (validate_authorization_use sample_host d' sample_authorization_id sample_mission_id (JInt 1) (JInt 50)
           (JList []) JNull JNull)"
proof -
  let ?env = "sample_menv 40 (CHR ''2'') :: bool menv" and ?op = "ApplyHumanDecision sample_approval"
  let ?s = "sample_msys edited_store"
  have "perform ?env ?op ?s = (fst (perform ?env ?op ?s), snd (perform ?env ?op ?s))" by simp
  then have "service_step sample_host (\<lambda>_ _. None) ?s (Some ?op) (snd (perform ?env ?op ?s))"
    by (rule performs [OF sample_injected(1) sample_menv_simps(1,2)])
  then have steps: "service_steps sample_host (\<lambda>_ _. None) ?s [Some ?op] (snd (perform ?env ?op ?s))"
    by (rule steps_Cons [OF _ steps_Nil])
  have d: "stores sample_host (\<lambda>_ _. None) ?s edited_store" by (rule mission_stored(1) [OF sample_stores_valid(3)])
  obtain d' where d': "stores sample_host (\<lambda>_ _. None) (snd (perform ?env ?op ?s)) d'"
    using steps_grow [OF steps d] by blast
  have a: "authorization_at edited_store (str_of sample_authorization_id) = sample_authorization superseded"
    "mission_at edited_store sample_mission_id = edited_mission"
    by code_simp+
  have "\<not> ac_valid (validate_authorization_use sample_host d' sample_authorization_id sample_mission_id (JInt 1) (JInt 50)
           (JList []) JNull JNull)"
    by (rule dead_authorization_stays_dead [OF steps d d'])
       (simp_all add: a sample_authorization_members, simp_all add: sample_authorization_def superseded_def edited_mission_def sample_mission_def)
  with d' show ?thesis by (auto simp: Let_def)
qed

text \<open>
  C13: a valid use rests on a recorded human approval. Where the validation path accepts, the last
  decision of the Mission is an approval that issued this authorization for this revision with
  this scope, the registry and the whole history replay without a problem, the Mission is
  AUTHORIZED at this revision, and the use is before the deadline and within the scope.
\<close>

theorem valid_use_rests_on_the_approval:
  assumes "validate_authorization_use h d i mission_id revision now actions target digest = c" "ac_valid c"
  shows "let m = mission_at d mission_id; a = authorization_at d (str_of i); decision = last (mission_decisions m) in
     mission_decisions m \<noteq> [] \<and> approves d m decision (str_of i) (int_of_json revision)
     \<and> reconcile_registry d = None \<and> reconcile_mission_history d m = None
     \<and> jget ''state'' m = JState STATE_AUTHORIZED \<and> jget ''current_revision'' m = revision
     \<and> jget ''revoked'' (jget ''revocation'' a) \<noteq> JBool True
     \<and> (jget ''expires_at'' a \<noteq> JNull \<longrightarrow> int_of_json now < jint ''expires_at'' a)
     \<and> set (list_of actions) \<subseteq> set (jlist ''authorized_action_scope'' a)
     \<and> (target \<noteq> JNull \<longrightarrow> target \<in> set (jlist ''authorized_delivery_targets'' a))"
  using use_rests_on_approval [OF assms] use_problem_None [OF use_rests_on_approval(4) [OF assms]]
  by (simp add: Let_def)

theorem valid_use_rests_on_the_approval_witness:
  "approves approved_store approved_mission approval (str_of sample_authorization_id) 1"
proof -
  have m: "mission_at approved_store sample_mission_id = approved_mission" by code_simp
  have d: "last (mission_decisions approved_mission) = approval" by code_simp
  show ?thesis
    using valid_use_rests_on_the_approval [OF sample_use [of sample_scope]] m d
    by (simp add: Let_def permitted_def)
qed

text \<open>
  C14: the history only grows. After any sequence of operations of the service, however they end,
  the store still loads; every Mission is still there with its identity, its revisions, decisions
  and authorization identifiers are extended at the end only, its state moved along the transition
  table only and its recorded run intent is unchanged; every authorization keeps its authority and
  digest, and its revocation once it is revoked; a consumed reservation is unchanged; the ledger
  is only appended to; and a terminal state never changes.
\<close>

theorem history_only_grows:
  assumes "service_steps h sc s cs t" "stores h sc s d"
  shows "\<exists>d'. stores h sc t d' \<and> document_extends d d'
     \<and> (\<forall>i. mission_at d i \<noteq> JNull \<and> in_states (jget ''state'' (mission_at d i)) TERMINAL_STATES
          \<longrightarrow> jget ''state'' (mission_at d' i) = jget ''state'' (mission_at d i))"
proof -
  obtain d' where d': "stores h sc t d'" "document_extends d d'" using steps_grow [OF assms] by blast
  moreover have "jget ''state'' (mission_at d' i) = jget ''state'' (mission_at d i)"
    if "mission_at d i \<noteq> JNull" "in_states (jget ''state'' (mission_at d i)) TERMINAL_STATES" for i
    using mission_kept [OF assms that(1)] d' terminal_fixed [OF _ that(2)]
    by (auto simp: stores_def mission_extends_def)
  ultimately show ?thesis by blast
qed

theorem history_only_grows_witness: "document_extends proposed_store approved_store"
proof -
  obtain answer where "apply_human_decision (sample_menv 20 (CHR ''0'')) sample_approval (sample_msys proposed_store)
     = (Inr answer, sample_msys approved_store)"
    using sample_approved by blast
  then have "perform (sample_menv 20 (CHR ''0'')) (ApplyHumanDecision sample_approval) (sample_msys proposed_store)
     = (Inr (), sample_msys approved_store)"
    by (simp add: ignoring_def run_simps)
  from performs [OF sample_injected(1) sample_menv_simps(1,2) this]
  have "service_steps sample_host (\<lambda>_ _. None) (sample_msys proposed_store) [Some (ApplyHumanDecision sample_approval)]
     (sample_msys approved_store)"
    by (rule steps_Cons [OF _ steps_Nil])
  from history_only_grows [OF this mission_stored(1) [OF sample_stores_valid(1)]] mission_stored(1) [OF sample_stores_valid(2)]
  show ?thesis by (auto simp: stores_def)
qed

text \<open>
  C15: a repeated decision is replayed, not applied. When a decision was answered, the same
  envelope sent again is answered, writes nothing to the store, says that it is idempotent and
  returns every historical member of the first answer.
\<close>

theorem repeated_decision_is_replayed:
  assumes "steady env" "apply_human_decision env e s = (Inr answer, t)"
  shows "\<exists>answer' u. apply_human_decision env e t = (Inr answer', u) \<and> m_file u = m_file t
    \<and> jget ''idempotent'' answer' = JBool True \<and> (\<forall>k \<in> set HISTORICAL. jget k answer' = jget k answer)"
  using decision_replay [OF assms] .

theorem repeated_decision_is_replayed_witness:
  "\<exists>answer u. apply_human_decision (sample_menv 20 (CHR ''0'')) sample_approval (sample_msys approved_store) = (Inr answer, u)
     \<and> m_file u = File 384 (Some approved_store)"
proof -
  obtain answer where "apply_human_decision (sample_menv 20 (CHR ''0'')) sample_approval (sample_msys proposed_store)
     = (Inr answer, sample_msys approved_store)"
    using sample_approved by blast
  from repeated_decision_is_replayed [OF sample_injected(2) this] show ?thesis by auto
qed



text \<open>
  C17: the dependency check decides acyclicity. The depth-first search over the Mission
  dependencies, with its explicit stack and three colours, reports no problem exactly if the
  dependency relation is acyclic.
\<close>

theorem dependency_check_is_acyclicity:
  assumes "distinct (map fst states)"
  shows "dependency_graph_problem states = None \<longleftrightarrow>
     acyclic {(m, t). \<exists>state. (m, state) \<in> set states \<and> t \<in> set (mission_targets state)}"
  using dependency_graph_iff [OF assms] by (simp add: depends_def)

theorem dependency_check_is_acyclicity_witness:
  "let needs = (\<lambda>t. JObj [(''dependencies'', JList [JObj [(''kind'', JStr ''MISSION''), (''reference'', JStr t)]])]);
       states = [(''a'', needs ''b''), (''b'', needs ''c''), (''c'', needs ''a'')] in
   dependency_graph_problem states = Some ''mission_state_dependency_cycle''
   \<and> \<not> acyclic {(m, t). \<exists>state. (m, state) \<in> set states \<and> t \<in> set (mission_targets state)}"
proof -
  let ?needs = "\<lambda>t. JObj [(''dependencies'', JList [JObj [(''kind'', JStr ''MISSION''), (''reference'', JStr t)]])]"
  let ?states = "[(''a'', ?needs ''b''), (''b'', ?needs ''c''), (''c'', ?needs ''a'')]"
  have "dependency_graph_problem ?states = Some ''mission_state_dependency_cycle''" by code_simp
  moreover have "distinct (map fst ?states)" by simp
  note dependency_check_is_acyclicity [OF this]
  ultimately show ?thesis unfolding Let_def by (simp only: option.distinct simp_thms)
qed

text \<open>
  C18: the normal form of a proposal is stable. Normalizing an accepted proposal again, with its
  proof contract if it has one, changes nothing, so its digest is the same before and after.
\<close>

theorem normal_form_is_stable:
  assumes "validate_proposal v = Inr c"
  shows "validate_proposal c = Inr c \<and> proposal_digest h v = proposal_digest h c
     \<and> (jget ''proof_contract'' c \<noteq> JNull \<longrightarrow>
          validate_proof_contract (jget ''proof_contract'' c) = Inr (jget ''proof_contract'' c))"
  using proposal_idem [OF assms] proposal_digest_idem [OF assms, of h] proposal_contract [OF assms] by simp

theorem normal_form_is_stable_witness:
  "let v = jput ''requested_action_scope'' (JList [JStr ''verification_run'', JStr ''engineering_change'']) (sample_proposal ''x'');
       c = jput ''requested_action_scope'' (JList [JStr ''engineering_change'', JStr ''verification_run'']) (sample_proposal ''x'') in
   validate_proposal v = Inr c \<and> validate_proposal c = Inr c \<and> proposal_digest sample_host v = proposal_digest sample_host c"
proof -
  let ?v = "jput ''requested_action_scope'' (JList [JStr ''verification_run'', JStr ''engineering_change'']) (sample_proposal ''x'')"
  let ?c = "jput ''requested_action_scope'' (JList [JStr ''engineering_change'', JStr ''verification_run'']) (sample_proposal ''x'')"
  have "validate_proposal ?v = Inr ?c" by code_simp
  with normal_form_is_stable [OF this, of sample_host] show ?thesis by (simp only: Let_def simp_thms)
qed

text \<open>
  C19: an attested receipt rests on a human approval. With the operations of the Mission service
  as the mission core, a receipt is attested only for a delivery record that the complete validator
  accepts, that names a parent Mission, and whose Mission, in the protected store, has as its last
  decision the approval of the authorization with the named digest, at the current revision and
  with a pull request among its targets.
\<close>

theorem attested_receipt_rests_on_an_approval:
  assumes "attest_validated_receipt h (service_core env record_attestation) document step operation sequence ctxt s
      = (Inr (Attested v p outcome), t)"
    and "holds_document env d s" "distinct (map fst (members ''authorizations'' d))"
  shows "validate_authorization h document = None \<and> is_obj (jget ''mission'' document)
    \<and> approved_parent d (jget ''workflow_id'' (jget ''mission'' document))
       (jget ''mission_authorization_digest_sha256'' (jget ''mission'' document)) (JStr DELIVERY_TARGET_GITHUB_PR)"
  using attested_on_approval [OF assms] by blast

theorem attested_receipt_rests_on_an_approval_witness:
  "approved_parent approved_store sample_mission_id (JStr hex64) (JStr DELIVERY_TARGET_GITHUB_PR)"
proof -
  have "jget ''mission'' (delivery_json missioned_delivery) = JObj
      [(''workflow_id'', sample_mission_id), (''mission_authorization_digest_sha256'', JStr hex64)]"
    by (simp add: delivery_get missioned_delivery_def opt_json_def mission_parent_json_def str_of_ident)
  moreover have "distinct (map fst (members ''authorizations'' approved_store))"
    by code_simp
  moreover obtain v p where "attest_validated_receipt sample_host (service_core (sample_menv 50 (CHR ''0'')) (\<lambda>_ _ _ _ _. ret JNull))
     (delivery_json missioned_delivery) (JStr ''COMMIT'') JNull JNull JNull (sample_msys approved_store)
   = (Inr (Attested v p JNull), sample_msys approved_store)"
    using missioned_attested by blast
  ultimately show ?thesis
    using attested_receipt_rests_on_an_approval mission_stored(2) [OF sample_stores_valid(2)] by fastforce
qed

section \<open>Receipts and the store\<close>

text \<open>
  C20: what a derived receipt proves. A receipt is minted only for an authorized step that the
  phase selects, on a record that is neither revoked nor expired and whose evidence all names the
  approved candidate and baseline; it binds exactly the fields of the step, names the parent by
  identifier and authority digest, carries its own digest, and its attempt is at most the eighth.
\<close>

theorem derived_receipt_is_warranted:
  assumes "derive h token d s binding now = Inr r"
  shows "s \<in> set (a_allowed_actions (d_authority d))
     \<and> step_for_phase (a_mode (d_authority d)) (d_phase d) = Some s \<and> \<not> is_revoked d \<and> \<not> is_expired d now
     \<and> (\<forall>x \<in> set (evidence_bindings (a_evidence (d_authority d))).
          x = (cd_digest (a_candidate (d_authority d)), bl_sha (a_baseline (d_authority d))))
     \<and> rc_step r = s \<and> rc_state r = RECEIPT_DERIVED \<and> rc_binding r = binding
     \<and> set (map fst binding) = set (receipt_binding_fields s)
     \<and> rc_delivery_id r = a_delivery_id (d_authority d) \<and> rc_parent_digest r = d_authority_digest d
     \<and> receipt_digest h (receipt_json r) = Inr (rc_digest r)
     \<and> rc_attempt r = int (length (se_voided (d_steps d s))) + 1 \<and> rc_attempt r \<le> int MAX_STEP_ATTEMPTS"
  using derive_cases [OF assms] valid_receipt_facts [OF derive_cases(12) [OF assms]]
  by (simp add: precondition_None)

theorem derived_receipt_is_warranted_witness:
  "\<not> is_revoked (sample_delivery PR_UPDATE) \<and> \<not> is_expired (sample_delivery PR_UPDATE) (PInt 50)
   \<and> set (map fst sample_commit_binding) = set (receipt_binding_fields COMMIT)"
  using derived_receipt_is_warranted [OF sample_derive] by simp





section \<open>Valid records\<close>

text \<open>
  C23: a valid record is bound together. Its authority digest is the digest of its authority
  half, the candidate digest is the digest of its entries, every piece of evidence names that
  candidate, the validity window is positive and at most seven days, and an update authorizes
  exactly COMMIT and PUSH.
\<close>

theorem valid_record_is_bound:
  assumes "validate_authorization h (delivery_json d) = None"
  shows "authority_digest h (delivery_json d) = Inr (d_authority_digest d)
     \<and> identity_digest h (cd_entries (a_candidate (d_authority d))) = cd_digest (a_candidate (d_authority d))
     \<and> (\<forall>x \<in> set (evidence_bindings (a_evidence (d_authority d))). fst x = cd_digest (a_candidate (d_authority d)))
     \<and> \<not> num_le (ex_expires_at (a_expiration (d_authority d))) (ha_authorized_at (a_human (d_authority d)))
     \<and> (\<exists>window. num_sub (ex_expires_at (a_expiration (d_authority d))) (ha_authorized_at (a_human (d_authority d))) = Inr window
            \<and> \<not> num_less (PInt MAX_AUTHORIZATION_VALIDITY_SECONDS) window)
     \<and> (a_mode (d_authority d) = PR_UPDATE \<longrightarrow> a_allowed_actions (d_authority d) = [COMMIT, PUSH])"
  using valid_bindings [OF assms] valid_window [OF assms] valid_actions(3) [OF assms]
    valid_bindings(3) [OF assms, of "''engineering_complete''"] valid_bindings(3) [OF assms, of "''reviewer_approve''"]
    valid_bindings(3) [OF assms, of "''independent_verification''"]
  by (auto simp: delivery_get candidate_json_def evidence_json_def engineering_json_def review_json_def
      verification_json_def evidence_bindings_def)

theorem valid_record_is_bound_witness:
  "identity_digest sample_host (cd_entries (a_candidate (sample_authority PR_UPDATE))) = hex64
   \<and> a_allowed_actions (sample_authority PR_UPDATE) = [COMMIT, PUSH]"
  using valid_record_is_bound [OF sample_update_valid] by (simp add: sample_values sample_authority_def)

text \<open>
  C24: a new record starts in its initial state and is valid. Whatever authority half a caller
  supplies, a record that is minted passes the complete validator, has the given identifier, every
  other authority field as supplied, the phase AUTHORIZED, no receipt in any step, no revocation,
  no blocker and no pull request.
\<close>

theorem new_record_is_initial:
  assumes "new_authorization h i authority now = Inr document"
  shows "validate_authorization h document = None \<and> jget ''delivery_id'' document = JStr i
     \<and> jget ''phase'' document = JStr (phase_str AUTHORIZED)
     \<and> jget ''blocker'' document = JNull \<and> jget ''pull_request'' document = JNull
     \<and> jget ''revoked'' (jget ''revocation'' document) = JBool False
     \<and> (\<forall>s. jget (step_str s) (jget ''steps'' document)
              = step_entry_json (initial_entry (mode_of_str (str_of (jget ''mode'' document))) s))
     \<and> (\<forall>k \<in> set (authority_keys (jget ''mode'' authority)).
          k \<noteq> ''schema_version'' \<longrightarrow> k \<noteq> ''delivery_id'' \<longrightarrow> jget k document = jget k authority)"
  using new_authorization_facts [OF assms] by blast

theorem new_record_is_initial_witness:
  "new_authorization sample_host (record_id (sample_delivery PR_UPDATE))
     (JObj (authority_fields (sample_authority PR_UPDATE))) (PInt 2) = Inr (delivery_json (sample_delivery PR_UPDATE))
   \<and> jget ''phase'' (delivery_json (sample_delivery PR_UPDATE)) = JStr ''AUTHORIZED''"
  using new_record_is_initial [OF sample_new_authorization] sample_new_authorization by simp

section \<open>The candidate\<close>

text \<open>
  C25: the comparison of candidates is exact. On two lists as the parser yields them, no
  difference is reported exactly if they are the same list: no path, status, mode or content can
  change unnoticed.
\<close>

theorem candidate_comparison_is_exact:
  assumes "parse_raw_z a = Inr es" "parse_raw_z b = Inr fs"
  shows "compare_candidates es fs = None \<longleftrightarrow> es = fs"
  using assms by (intro compare_candidates_eq parse_raw_z_candidate_list)

theorem candidate_comparison_is_exact_witness:
  "compare_candidates
     [\<lparr>ce_path = ''f'', ce_status = ''M'', ce_mode = ''100644'', ce_blob = oid_of (CHR ''2'')\<rparr>]
     [\<lparr>ce_path = ''f'', ce_status = ''M'', ce_mode = ''100644'', ce_blob = oid_of (CHR ''2'')\<rparr>] = None"
  by (simp add: candidate_comparison_is_exact [OF sample_parse(1) sample_parse(1)])

text \<open>
  C26: what the parser of the raw diff accepts. A parsed candidate is not empty, has at most
  4096 entries, strictly sorted by the bytes of their paths without duplicates, and every entry has
  a known status and mode, a full object name that is not null and a well-formed UTF-8 path without
  forbidden characters.
\<close>

theorem parsed_candidate_is_canonical:
  assumes "parse_raw_z data = Inr es"
  shows "es \<noteq> [] \<and> length es \<le> MAX_CANDIDATE_ENTRIES \<and> sorted_wrt (<) (map ce_path es)
     \<and> (\<forall>e \<in> set es. ce_status e \<in> set CANDIDATE_STATUSES \<and> ce_mode e \<in> set CANDIDATE_MODES
          \<and> full_oid (ce_blob e) \<and> ce_blob e \<noteq> ZERO_OID \<and> ce_path e \<noteq> []
          \<and> valid_utf8 (ce_path e) \<and> \<not> path_character_problem (ce_path e))"
  using parse_raw_z_candidate_list [OF assms]
  by (auto simp: candidate_list_def valid_entry_def list_all_iff strict_sorted_iff)

theorem parsed_candidate_is_canonical_witness:
  "full_oid (oid_of (CHR ''2'')) \<and> valid_utf8 ''f''"
  using parsed_candidate_is_canonical [OF sample_parse(1)] by simp

text \<open>
  C27: the overlap check is the disjointness of path trees. It reports nothing exactly if no
  candidate path and no changed path are the same or lie below one another, and swapping the two
  lists swaps every reported pair.
\<close>

theorem overlap_check_is_disjointness:
  "(overlaps xs ys = [] \<longleftrightarrow>
      \<not> (\<exists>x \<in> set xs. \<exists>y \<in> set ys. x = y \<or> (\<exists>z. y = x @ ''/'' @ z) \<or> (\<exists>z. x = y @ ''/'' @ z)))
   \<and> ((a, b) \<in> set (overlaps xs ys) \<longleftrightarrow> (b, a) \<in> set (overlaps ys xs))"
  by (auto simp: overlaps_Nil_iff in_overlaps_iff path_conflict_def starts_with_iff)

text \<open>
  C28: the candidate identity covers everything. Two different candidates with the same identity
  digest exhibit two different byte strings with the same SHA-256.
\<close>

theorem candidate_identity_is_collision_resistant:
  assumes "short_parts (identity_parts es)" "short_parts (identity_parts fs)"
    and "identity_digest h es = identity_digest h fs" "es \<noteq> fs"
  shows "framed_bytes (identity_parts es) \<noteq> framed_bytes (identity_parts fs)
     \<and> sha256 h (framed_bytes (identity_parts es)) = sha256 h (framed_bytes (identity_parts fs))"
  using assms framed_bytes_inject [OF assms(1,2)] identity_parts_inject [of es fs]
  by (auto simp: identity_digest_def framed_digest_def sha256_hex_def)

theorem candidate_identity_is_collision_resistant_witness:
  "framed_bytes (identity_parts [\<lparr>ce_path = ''f'', ce_status = ''M'', ce_mode = ''100644'', ce_blob = ''1''\<rparr>])
     \<noteq> framed_bytes (identity_parts [\<lparr>ce_path = ''f'', ce_status = ''M'', ce_mode = ''100755'', ce_blob = ''1''\<rparr>])"
proof -
  have "identity_digest sample_host es = identity_digest sample_host fs" for es fs
    by (simp add: identity_digest_def)
  then show ?thesis
    by (intro conjunct1 [OF candidate_identity_is_collision_resistant [where h = sample_host]])
       (simp_all add: short_parts_def identity_parts_def)
qed

section \<open>URLs, text and child processes\<close>

text \<open>
  C29: an accepted URL is never repaired. The canonical form of an accepted target is the URL
  itself, byte for byte, it has only printable characters that mean nothing to a shell, and its
  host is exactly the canonical one.
\<close>

theorem accepted_url_is_canonical:
  assumes "canonicalize_target_url url = Inr t"
  shows "ct_canonical_url t = url \<and> ct_host t = CANONICAL_TARGET_HOST \<and> py_len url \<le> MAX_TARGET_URL_CHARS
     \<and> (\<forall>ch \<in> set url. 32 \<le> ord_of ch \<and> ord_of ch \<le> 126 \<and> ch \<notin> set SHELL_CHARS)
     \<and> starts_with url (SCHEME_PREFIX @ CANONICAL_TARGET_HOST @ ''/'')"
proof -
  obtain path where "url = SCHEME_PREFIX @ CANONICAL_TARGET_HOST @ ''/'' @ path"
    "require_url_chars url = None" "py_len url \<le> MAX_TARGET_URL_CHARS"
    by (rule canonicalize_target_urlD [OF assms])
  moreover have "ct_host t = CANONICAL_TARGET_HOST"
    by (rule canonicalize_target_shape [OF assms]) (simp add: make_target_def Let_def)
  ultimately show ?thesis
    using canonical_url_exact [OF assms] by (simp add: require_url_chars_iff starts_with_iff)
qed

theorem accepted_url_is_canonical_witness:
  "ct_canonical_url (make_target ''o'' ''p'' (Some KIND_PR) (Some 7)) = ''https://github.com/o/p/pull/7''"
proof -
  have "canonicalize_target_url ''https://github.com/o/p/pull/7'' = Inr (make_target ''o'' ''p'' (Some KIND_PR) (Some 7))"
    by code_simp
  from accepted_url_is_canonical [OF this] show ?thesis by simp
qed

text \<open>
  C30: the verb set is closed. The transport over any way of starting a process is the same as
  over one that refuses every argument vector but git with an allowed verb and gh with an allowed
  prefix; the one method left out is the re-verification, whose command the authorization names.
\<close>

theorem verb_set_is_closed:
  "(real_transport h chunk loads repr (monitored run))\<lparr>t_run_reverification := run_reverification run\<rparr>
     = real_transport h chunk loads repr run"
  by (simp add: real_transport_def git_call_defs fun_eq_iff)

text \<open>
  C31: the staged digest depends on the bytes alone. However the pipe cuts the output into
  chunks, even inside a character, the digest of the staged difference is the SHA-256 of the whole
  output where that is well-formed UTF-8, and a transport error where it is not.
\<close>

theorem staged_digest_ignores_chunking:
  assumes "concat (chunk out) = out"
    and "run [''git'', ''-C'', path, ''diff'', ''--cached'', ''--binary''] None None s = (Inr (0, out), t)"
  shows "staged_diff_sha256 h chunk run path s
     = (if valid_utf8 out then Inr (sha256_hex h out) else Inl DeliveryTransportError, t)"
proof -
  have "''diff'' \<in> set ALLOWED_GIT_VERBS" by (simp add: ALLOWED_GIT_VERBS_def)
  with assms show ?thesis
    by (simp add: staged_diff_sha256_def run_simps strict_hexdigest_chunks utf8_pending_valid)
qed

theorem staged_digest_ignores_chunking_witness:
  "staged_diff_sha256 sample_host (map (\<lambda>c. [c])) (\<lambda>_ _ _. ret (0, [CHR 0xC3, CHR 0xA4])) ''/r'' ()
     = (Inr hex64, ())"
proof -
  have "valid_utf8 [CHR 0xC3, CHR 0xA4]" by code_simp
  then show ?thesis
    by (subst staged_digest_ignores_chunking [where out = "[CHR 0xC3, CHR 0xA4]" and t = "()"]) simp_all
qed



section \<open>The boundary and revocation\<close>



text \<open>
  C34: a revocation that returns is durable. The record on disk is then the returned one: it is
  revoked, its phase is terminal, its authority half is the one that was stored, and every other
  record is untouched.
\<close>

theorem revocation_is_durable:
  assumes "revoke env i who reason s = (Inr d, t)"
  shows "stored (e_host env) i (disk t) = Some d \<and> is_revoked d \<and> d_phase d \<in> set TERMINAL_PHASES
     \<and> (\<exists>e. stored (e_host env) i (disk s) = Some e \<and> d_authority d = d_authority e)
     \<and> (\<forall>j. j \<noteq> i \<longrightarrow> stored (e_host env) j (disk t) = stored (e_host env) j (disk s))"
  using revoke_facts [OF assms] by blast

theorem revocation_is_durable_witness:
  "stored sample_host (record_id (sample_delivery PR_UPDATE)) (sample_file revoked_delivery) = Some revoked_delivery
   \<and> is_revoked revoked_delivery"
  using revocation_is_durable [OF sample_revoked [of "ret ''0''" failing_transport False]] by simp

section \<open>The attestation\<close>

text \<open>
  C35: the preflight decides its bounds. A document and a step pass exactly if the step is a
  string within its bound, the document is an object nested at most eight deep with at most 65535
  items below it, and every key, string and integer in it is within its bound.
\<close>

theorem preflight_decides_its_bounds:
  "preflight_problem_of document step = None \<longleftrightarrow>
     is_str step \<and> py_len (str_of step) \<le> MAX_DELIVERY_DOCUMENT_KEY_CHARS \<and> is_obj document
     \<and> bounded_at 1 document \<and> item_count document < MAX_DELIVERY_DOCUMENT_ITEMS"
  using preflight_accepts_iff [of document "str_of step"]
  by (cases "is_str step") (auto simp: is_str_iff preflight_problem_of_def)

text \<open>
  C36: an attestation follows only from a valid receipt under a mission. Unless the document
  passes the preflight and the complete validator, holds a valid receipt for the named step and
  names a parent mission, nothing is attested, and the recording operation of the mission core is
  never called: the call does the same with any other operation in its place.
\<close>

theorem attestation_needs_a_valid_receipt:
  assumes "\<not> (preflight_problem_of document step = None \<and> validate_authorization h document = None
     \<and> validate_receipt h (jget ''receipt'' (jget (str_of step) (jget ''steps'' document))) (step_of_str (str_of step))
          (jget ''delivery_id'' document) (jget ''authority_digest_sha256'' document) = None
     \<and> is_obj (jget ''mission'' document))"
  shows "fst (attest_validated_receipt h core document step operation sequence ctxt s) \<noteq> Inr (Attested v p r)
     \<and> attest_validated_receipt h (core\<lparr>mc_attest := other\<rparr>) document step operation sequence ctxt s
       = attest_validated_receipt h core document step operation sequence ctxt s"
proof (cases "preflight_problem_of document step = None \<and> str_of step \<in> set (map step_str STEPS)")
  case False
  then show ?thesis by (auto simp: attest_validated_receipt_def split: option.splits)
next
  case True
  then have name: "step_str (step_of_str (str_of step)) = str_of step" by auto
  show ?thesis
  proof (cases "validated_receipt_of h document (step_of_str (str_of step))")
    case (Inr q)
    have "\<not> is_obj (jget ''mission'' (vr_record x))" if "q = Some x" for x
      using validated_receipt_Some [of h document "step_of_str (str_of step)" x] Inr that assms True name by simp
    with True Inr show ?thesis
      by (auto simp: attest_validated_receipt_def run_simps parent_mission_authority_def Let_def
          split: option.splits)
  qed (use True in \<open>auto simp: attest_validated_receipt_def run_simps\<close>)
qed

theorem attestation_needs_a_valid_receipt_witness:
  "\<forall>v p r. fst (attest_validated_receipt sample_host
       \<lparr>mc_check_parent = (\<lambda>_ _ _. throw StoreError), mc_attest = (\<lambda>_ _ _ _ _. ret JNull)\<rparr>
       (JObj []) (JStr ''COMMIT'') JNull JNull JNull ()) \<noteq> Inr (Attested v p r)"
proof (intro allI)
  fix v p r
  have "validate_authorization sample_host (JObj []) \<noteq> None"
    unfolding validate_authorization_def Let_def checks_None_iff by (simp add: schema_version_ok_def)
  then show "fst (attest_validated_receipt sample_host
       \<lparr>mc_check_parent = (\<lambda>_ _ _. throw StoreError), mc_attest = (\<lambda>_ _ _ _ _. ret JNull)\<rparr>
       (JObj []) (JStr ''COMMIT'') JNull JNull JNull ()) \<noteq> Inr (Attested v p r)"
    by (intro conjunct1 [OF attestation_needs_a_valid_receipt]) simp
qed

section \<open>The ceremonies\<close>

text \<open>
  C37: an attested delivery is exactly the presented one. When the relayed attestation returns an
  identifier, the human's whole reply was an affirmative, the digest that the Operator linked is
  that of the presented proposal, no record had the identifier before, and the record now stored
  under it is valid, carries every bound field as it was presented and the deadline of the
  presentation, names the proposal, and is what the repository reported: the branch, the head, the
  remote and the staged candidate.
\<close>

theorem attested_delivery_is_exactly_presented:
  assumes "quiet env" "quiet_desk desk" "keyed (e_host env) (disk s)" "k_loads desk text = Some document"
    and "attest_dots env desk relay text s = (Inr i, t)"
  shows "is_dots_affirmative (jget ''relayed_reply'' document)
     \<and> delivery_proposal_digest (e_host env) (jget ''delivery_proposal'' document) = Inr (ra_proposal_digest relay)
     \<and> stored_json (e_host env) i (disk s) = None
     \<and> (\<exists>r. stored_json (e_host env) i (disk t) = Some r \<and> validate_authorization (e_host env) r = None
          \<and> (let proposal = jget ''delivery_proposal'' document; binding = jget ''binding'' proposal in
             (\<forall>k \<in> set (proposal_binding_keys (jget ''mode'' binding)). jget k r = jget k binding)
             \<and> jget ''expires_at'' (jget ''expiration'' r) = jget ''expires_at'' proposal)
          \<and> attested_digest r = JStr (ra_proposal_digest relay)
          \<and> live_as_bound env (d_authority (delivery_of_json r)))"
  using assms(5)
proof (rule attest_dots_Inr, goal_cases)
  case (1 document' proposal attestation confirmation now v update path base remote s1 s2)
  then have same: "document' = document" "proposal = jget ''delivery_proposal'' document" using assms(4) by simp_all
  have "is_dots_affirmative (jget ''relayed_reply'' document)"
    using 1(3) same by (simp add: check_relay_def checks_None_iff)
  with 1(6) same show ?case
    by (auto simp: Let_def intro: attested_facts [OF assms(1-4) refl refl assms(5)])
qed

theorem attested_delivery_is_exactly_presented_witness:
  "\<exists>r. stored_json sample_host sample_id (sample_file dots_delivery) = Some r
     \<and> live_as_bound ceremony_env (d_authority (delivery_of_json r)) \<and> attested_digest r = JStr hex64"
proof -
  note q = sample_surroundings(1) sample_surroundings(2) [of dots_document] sample_surroundings(4) [of sample_host]
  show ?thesis
    using attested_delivery_is_exactly_presented [of ceremony_env "sample_desk dots_document" empty_sys "[]" dots_document
        dots_relay sample_id] q sample_attested
    by (auto simp: dots_relay_def)
qed

text \<open>
  C38: a presented proposal authorizes at most one delivery. After one attestation of a proposal
  has returned, whatever then happens to the store (ceremonies, rounds of the machine,
  revocations and the passing of time, in any order and number, with capacity pruning), every
  further attestation of that proposal is refused and writes nothing: up to the deadline because
  the attested record is still stored, from then on because of the deadline.
\<close>

theorem proposal_authorizes_once:
  assumes "fair h time env desk" "keyed h (disk s)" "k_loads desk text = Some document"
    and "attest_dots env desk relay text s = (Inr i, t)" "(next_system h time)\<^sup>*\<^sup>* t u"
    and "fair h time env' desk'" "k_loads desk' text' = Some document'"
    and "jget ''delivery_proposal'' document' = jget ''delivery_proposal'' document"
  shows "\<exists>e v. attest_dots env' desk' relay' text' u = (Inl e, v) \<and> disk v = disk u"
proof -
  note spends = attest_spends [OF assms(1-3) refl assms(4)]
  show ?thesis
    using attest_refused [OF assms(6) spent_forever [OF assms(5) spends(2)] assms(7) assms(8) [symmetric] spends(1) refl] .
qed

theorem proposal_authorizes_once_witness:
  "\<exists>e v. attest_dots ceremony_env (sample_desk dots_document) dots_relay []
       \<lparr>disk = sample_file dots_delivery, world = False\<rparr> = (Inl e, v) \<and> disk v = sample_file dots_delivery"
  using proposal_authorizes_once [OF ceremony_fair sample_surroundings(4) sample_desk_simps(6) sample_attested
      rtranclp.rtrancl_refl ceremony_fair sample_desk_simps(6) refl] by simp

text \<open>
  C39: a refused ceremony writes nothing. When the terminal ceremony or an attestation ends in an
  exception, whichever of its checks or calls raised it, the delivery file is as it was; and a
  presentation never writes it. (The terminal must take the lines that are written to it: the
  last message of a ceremony follows the store.)
\<close>

theorem refused_ceremony_writes_nothing:
  assumes "quiet env" "quiet_desk desk" "prints desk"
  shows "(authorize env desk args s = (Inl e, t) \<longrightarrow> disk t = disk s)
     \<and> (attest_dots env desk relay input s = (Inl e, t) \<longrightarrow> disk t = disk s)
     \<and> (present_dots env desk args s = (x, t) \<longrightarrow> disk t = disk s)"
  using authorize_clean [OF assms, of "disk s"] attest_clean [OF assms, of "disk s"]
    preservesD [OF present_preserves [OF quiet_ceremony [OF assms(1,2), of "\<lambda>f. f = disk s"]], of s]
  unfolding clean_def by blast

theorem refused_ceremony_writes_nothing_witness:
  "\<exists>e t. attest_dots ceremony_env (sample_desk JNull) dots_relay [] empty_sys = (Inl e, t) \<and> disk t = Absent"
proof -
  have "attest_dots ceremony_env (sample_desk JNull) dots_relay [] empty_sys = (Inl CeremonyError, empty_sys)"
    by (simp add: attest_dots_def check_relay_def require_def run_simps MAX_DOTS_INPUT_CHARS_def py_len_def Let_def)
  then show ?thesis
    using refused_ceremony_writes_nothing [OF sample_surroundings(1-3), where relay = dots_relay and input = "[]"
        and s = empty_sys and e = CeremonyError and t = empty_sys] by auto
qed

text \<open>
  C40: the terminal ceremony authorizes what it displayed. When it returns an identifier, the
  human typed the first twelve characters of the identity of the candidate that the repository
  reported, and the record stored under the identifier, which is new and valid, names the local
  user, the terminal, that confirmation, the time and the deadline, and is what the repository
  reported.
\<close>

theorem terminal_authorizes_the_displayed_candidate:
  assumes "quiet env" "quiet_desk desk" "keyed (e_host env) (disk s)" "authorize env desk args s = (Inr i, t)"
  shows "stored_json (e_host env) i (disk s) = None
     \<and> (\<exists>r now answer expires_at. stored_json (e_host env) i (disk t) = Some r \<and> validate_authorization (e_host env) r = None
          \<and> answered (k_confirm desk (''Type the first '' @ show_int (int CONFIRMATION_CHARS)
               @ '' characters of the candidate identity to authorize exactly this delivery: '')) answer
          \<and> strip answer = py_take CONFIRMATION_CHARS (cd_digest (a_candidate (d_authority (delivery_of_json r))))
          \<and> jget ''human_authorization'' r = terminal_authorization env desk (strip answer) now
          \<and> answered (e_clock env) now \<and> num_add now (PInt (g_validity_seconds args)) = Inr expires_at
          \<and> jget ''expires_at'' (jget ''expiration'' r) = JNum expires_at
          \<and> live_as_bound env (d_authority (delivery_of_json r)))"
  by (rule terminal_facts [OF assms]) blast

theorem terminal_authorizes_the_displayed_candidate_witness:
  "\<exists>r. stored_json sample_host sample_id (sample_file terminal_delivery) = Some r
     \<and> live_as_bound ceremony_env (d_authority (delivery_of_json r))"
  using terminal_authorizes_the_displayed_candidate [OF sample_surroundings(1,2) sample_surroundings(4) sample_authorized]
  by auto

end
